(* ===== verification/Garm_Prelude.thy ===== *)
theory Garm_Prelude
  imports Complex_Main "HOL-Library.Word" "HOL-Library.AList" "HOL-Library.List_Lexorder"
    "HOL-Library.Char_ord"
begin

text \<open>
  What the component theories share: the Go types the program uses (instants, durations, fixed
  width integers, byte strings), the standard library functions on strings the program calls,
  results with errors, tables of rows as the store keeps them, and the lemmas about them.

  A Go \<^verbatim>\<open>string\<close> is a list of bytes. The case functions of package \<^verbatim>\<open>strings\<close> are modelled on
  ASCII letters; every other byte is left alone. Labels, names and identifiers that GARM compares
  without case are ASCII in practice; Unicode case folding is not modelled.
\<close>

subsection \<open>Collections of rewrite rules\<close>

named_theorems garm_simps \<open>equations that unfold an operation on the branch its guards select\<close>
named_theorems garm_frames \<open>what an operation leaves unchanged\<close>
named_theorems garm_defs \<open>definitions a component unfolds as a group\<close>

subsection \<open>Time and machine integers\<close>

text \<open>
  An instant is the number of nanoseconds since the zero value of \<^verbatim>\<open>time.Time\<close>, so that
  \<^verbatim>\<open>time.Time{}\<close> is \<open>0\<close> and \<^verbatim>\<open>IsZero\<close> is equality with it; a duration is a number of nanoseconds.
\<close>

type_synonym time = int
type_synonym duration = int
type_synonym uint64 = "64 word"

definition second :: duration where "second = 1000000000"
definition minute :: duration where "minute = 60 * second"
definition hour :: duration where "hour = 60 * minute"

definition max_int :: int where "max_int = 2 ^ 63 - 1"

text \<open>A result of 64 bit signed arithmetic: two's complement wrap-around written out.\<close>

definition wrap_int64 :: "int \<Rightarrow> int" where
  "wrap_int64 x = (x + 2 ^ 63) mod 2 ^ 64 - 2 ^ 63"

lemma wrap_int64_id: "- (2 ^ 63) \<le> x \<Longrightarrow> x \<le> max_int \<Longrightarrow> wrap_int64 x = x"
  by (simp add: wrap_int64_def max_int_def)

lemma wrap_int64_range: "- (2 ^ 63) \<le> wrap_int64 x \<and> wrap_int64 x \<le> max_int"
proof -
  have "0 \<le> (x + 2 ^ 63) mod 2 ^ 64" "(x + 2 ^ 63) mod 2 ^ 64 < 2 ^ 64"
    by (simp_all add: pos_mod_bound)
  then show ?thesis
    unfolding wrap_int64_def max_int_def by simp
qed

lemma unit_durations: "second > 0" "minute > 0" "hour > 0"
  by (simp_all add: second_def minute_def hour_def)

subsection \<open>Strings\<close>

definition lower_char :: "char \<Rightarrow> char" where
  "lower_char c = (let n = (of_char c :: nat) in if 65 \<le> n \<and> n \<le> 90 then char_of (n + 32) else c)"

definition to_lower :: "string \<Rightarrow> string" where
  "to_lower s = map lower_char s"

definition equal_fold :: "string \<Rightarrow> string \<Rightarrow> bool" where
  "equal_fold a b \<longleftrightarrow> to_lower a = to_lower b"

definition has_prefix :: "string \<Rightarrow> string \<Rightarrow> bool" where
  "has_prefix s p \<longleftrightarrow> take (length p) s = p"

fun contains_str :: "string \<Rightarrow> string \<Rightarrow> bool" where
  "contains_str [] p \<longleftrightarrow> p = []"
| "contains_str (c # s) p \<longleftrightarrow> has_prefix (c # s) p \<or> contains_str s p"

definition trim_right :: "string \<Rightarrow> char \<Rightarrow> string" where
  "trim_right s c = rev (dropWhile (\<lambda>x. x = c) (rev s))"

fun join_str :: "string \<Rightarrow> string list \<Rightarrow> string" where
  "join_str sep [] = []"
| "join_str sep [x] = x"
| "join_str sep (x # y # ys) = x @ sep @ join_str sep (y # ys)"

lemma length_to_lower [simp]: "length (to_lower s) = length s"
  by (simp add: to_lower_def)

lemma to_lower_Nil [simp]: "to_lower [] = []"
  by (simp add: to_lower_def)

lemma lower_char_idem: "lower_char (lower_char c) = lower_char c"
  by (auto simp: lower_char_def Let_def)

lemma to_lower_idem [simp]: "to_lower (to_lower s) = to_lower s"
  by (induction s) (simp_all add: to_lower_def lower_char_idem)

lemma equal_fold_refl [simp]: "equal_fold a a"
  by (simp add: equal_fold_def)

lemma equal_fold_sym: "equal_fold a b \<longleftrightarrow> equal_fold b a"
  by (auto simp: equal_fold_def)

lemma has_prefix_append [simp]: "has_prefix (p @ s) p"
  by (simp add: has_prefix_def)

lemma has_prefix_iff: "has_prefix s p \<longleftrightarrow> (\<exists>r. s = p @ r)"
  unfolding has_prefix_def by (metis append_take_drop_id append_eq_conv_conj)

subsection \<open>Decimal numbers: fmt.Sprintf("%d") and strconv.ParseInt(s, 10, 64)\<close>

definition digit_char :: "nat \<Rightarrow> char" where
  "digit_char d = char_of (48 + d)"

definition digit_val :: "char \<Rightarrow> nat option" where
  "digit_val c = (let n = (of_char c :: nat) in if 48 \<le> n \<and> n \<le> 57 then Some (n - 48) else None)"

fun nat_dec :: "nat \<Rightarrow> string" where
  "nat_dec n = (if n < 10 then [digit_char n] else nat_dec (n div 10) @ [digit_char (n mod 10)])"

declare nat_dec.simps [simp del]

definition int_dec :: "int \<Rightarrow> string" where
  "int_dec i = (if i < 0 then CHR ''-'' # nat_dec (nat (- i)) else nat_dec (nat i))"

fun digits_val :: "nat \<Rightarrow> string \<Rightarrow> nat option" where
  "digits_val acc [] = Some acc"
| "digits_val acc (c # cs) =
     (case digit_val c of None \<Rightarrow> None | Some d \<Rightarrow> digits_val (10 * acc + d) cs)"

text \<open>\<^verbatim>\<open>ParseInt\<close>: an optional sign, at least one digit, and a value within 64 bits.\<close>

definition parse_int64 :: "string \<Rightarrow> int option" where
  "parse_int64 s =
     (let neg = (s \<noteq> [] \<and> hd s = CHR ''-'');
          ds = (if s \<noteq> [] \<and> (hd s = CHR ''-'' \<or> hd s = CHR ''+'') then tl s else s)
      in if ds = [] then None
         else case digits_val 0 ds of
             None \<Rightarrow> None
           | Some n \<Rightarrow>
               (if neg then (if int n \<le> 2 ^ 63 then Some (- int n) else None)
                else if int n < 2 ^ 63 then Some (int n) else None))"

lemma digit_val_char [simp]: "d < 10 \<Longrightarrow> digit_val (digit_char d) = Some d"
  by (simp add: digit_val_def digit_char_def Let_def)

lemma digits_val_append:
  "digits_val a (xs @ ys) = (case digits_val a xs of None \<Rightarrow> None | Some b \<Rightarrow> digits_val b ys)"
  by (induction a xs rule: digits_val.induct) (auto split: option.splits)

lemma digits_val_nat_dec: "digits_val 0 (nat_dec n) = Some n"
proof (induction n rule: nat_dec.induct)
  case (1 n)
  show ?case
  proof (cases "n < 10")
    case True
    then show ?thesis by (simp add: nat_dec.simps [of n])
  next
    case False
    with "1.IH" show ?thesis
      by (simp add: nat_dec.simps [of n] digits_val_append)
  qed
qed

lemma nat_dec_first: "\<exists>d ds. d < 10 \<and> nat_dec n = digit_char d # ds"
proof (induction n rule: nat_dec.induct)
  case (1 n)
  show ?case
  proof (cases "n < 10")
    case True
    then show ?thesis by (auto simp: nat_dec.simps [of n])
  next
    case False
    with "1.IH" show ?thesis by (fastforce simp: nat_dec.simps [of n])
  qed
qed

lemma digit_char_not_sign:
  assumes "d < 10"
  shows "digit_char d \<noteq> CHR ''-''" and "digit_char d \<noteq> CHR ''+''"
proof -
  have "digit_val (CHR ''-'') = None" "digit_val (CHR ''+'') = None"
    by (simp_all add: digit_val_def)
  with digit_val_char [OF assms] show "digit_char d \<noteq> CHR ''-''" "digit_char d \<noteq> CHR ''+''"
    by auto
qed

lemma parse_int64_int_dec:
  assumes "- (2 ^ 63) \<le> i" and "i \<le> max_int"
  shows "parse_int64 (int_dec i) = Some i"
proof -
  obtain d ds where d: "d < 10" and nz: "\<And>n. nat_dec n \<noteq> []"
    and hd: "nat_dec (nat i) = digit_char d # ds"
    using nat_dec_first by (metis list.distinct(1))
  show ?thesis
  proof (cases "i < 0")
    case True
    with assms(1) nz show ?thesis
      by (simp add: int_dec_def parse_int64_def digits_val_nat_dec Let_def)
  next
    case False
    have "digits_val 0 (digit_char d # ds) = Some (nat i)"
      using digits_val_nat_dec [of "nat i"] hd by simp
    with False assms(2) show ?thesis
      by (simp add: int_dec_def hd parse_int64_def digit_char_not_sign [OF d] max_int_def Let_def
          del: digits_val.simps)
  qed
qed

subsection \<open>Tables\<close>

text \<open>
  A table of the store is the list of its rows in the order the store returns them. \<^verbatim>\<open>First\<close> with a condition is
  the first row that satisfies it, \<^verbatim>\<open>Save\<close> rewrites the rows with the row's key, \<^verbatim>\<open>Delete\<close> drops
  the rows that satisfy the condition.
\<close>

definition upd_rows :: "('r \<Rightarrow> bool) \<Rightarrow> ('r \<Rightarrow> 'r) \<Rightarrow> 'r list \<Rightarrow> 'r list" where
  "upd_rows P f rows = map (\<lambda>r. if P r then f r else r) rows"

definition del_rows :: "('r \<Rightarrow> bool) \<Rightarrow> 'r list \<Rightarrow> 'r list" where
  "del_rows P rows = filter (\<lambda>r. \<not> P r) rows"

lemma find_SomeD: "List.find P xs = Some x \<Longrightarrow> x \<in> set xs \<and> P x"
  by (auto simp: find_Some_iff)

lemma find_NoneD: "List.find P xs = None \<Longrightarrow> x \<in> set xs \<Longrightarrow> \<not> P x"
  by (auto simp: find_None_iff)

lemma find_by_key:
  "distinct (map k xs) \<Longrightarrow> x \<in> set xs \<Longrightarrow> List.find (\<lambda>y. k y = k x) xs = Some x"
  by (induction xs) auto

lemma length_upd_rows [simp]: "length (upd_rows P f rows) = length rows"
  by (simp add: upd_rows_def)

lemma upd_rows_simps [simp]:
  "upd_rows P f [] = []"
  "upd_rows P f (r # rs) = (if P r then f r else r) # upd_rows P f rs"
  by (simp_all add: upd_rows_def)

lemma map_upd_rows_frame:
  "(\<And>r. P r \<Longrightarrow> g (f r) = g r) \<Longrightarrow> map g (upd_rows P f rows) = map g rows"
  by (induction rows) auto

lemma map_upd_rows_mem:
  "(\<And>r. P r \<Longrightarrow> r \<in> set rows \<Longrightarrow> g (f r) = g r) \<Longrightarrow> map g (upd_rows P f rows) = map g rows"
  by (induction rows) auto

lemma filter_upd_rows_frame:
  "(\<And>r. P r \<Longrightarrow> Q (f r) = Q r) \<Longrightarrow>
   length (filter Q (upd_rows P f rows)) = length (filter Q rows)"
  by (induction rows) auto

lemma set_upd_rows: "set (upd_rows P f rows) = (\<lambda>r. if P r then f r else r) ` set rows"
  by (simp add: upd_rows_def)

lemma upd_rowsE:
  assumes "r \<in> set (upd_rows P f rows)"
  obtains (same) "r \<in> set rows" "\<not> P r" | (upd) r0 where "r0 \<in> set rows" "P r0" "r = f r0"
  using assms by (auto simp: set_upd_rows split: if_splits)

lemma find_upd_rows_key:
  "(\<And>r. k (f r) = k r) \<Longrightarrow>
   List.find (\<lambda>r. k r = x) (upd_rows (\<lambda>r. k r = y) f rows) =
     (if x = y then map_option f (List.find (\<lambda>r. k r = x) rows) else List.find (\<lambda>r. k r = x) rows)"
  by (induction rows) auto

lemma set_del_rows [simp]: "set (del_rows P rows) = {r \<in> set rows. \<not> P r}"
  by (auto simp: del_rows_def)

lemma filter_del_rows_le: "length (filter Q (del_rows P rows)) \<le> length (filter Q rows)"
  by (induction rows) (auto simp: del_rows_def)

lemma distinct_map_del_rows: "distinct (map k rows) \<Longrightarrow> distinct (map k (del_rows P rows))"
  by (simp add: del_rows_def distinct_map_filter)

lemma find_del_rows_key:
  "List.find (\<lambda>r. k r = x) (del_rows (\<lambda>r. k r = y) rows) =
     (if x = y then None else List.find (\<lambda>r. k r = x) rows)"
  by (induction rows) (auto simp: del_rows_def)

subsection \<open>Results\<close>

text \<open>The error of a call whose only result is an error: \<open>None\<close> is Go's \<^verbatim>\<open>nil\<close>.\<close>

lemma sum_cases_result: "(\<exists>e. r = Inl e) \<or> (\<exists>x. r = Inr x)"
  by (cases r) auto

lemma in_map_filter: "x \<in> set (List.map_filter f xs) \<longleftrightarrow> (\<exists>a \<in> set xs. f a = Some x)"
  by (force simp: List.map_filter_def)

subsection \<open>Handlers that refine a specification\<close>

text \<open>
  A component that handles events one after the other, and what each event means for what is to be known of its state: when
  every step under the invariant agrees with the specification, every sequence does.
\<close>

locale event_refinement =
  fixes invar :: "'s \<Rightarrow> bool"
    and abs :: "'s \<Rightarrow> 'a"
    and step :: "'e \<Rightarrow> 's \<Rightarrow> 's"
    and spec :: "'e \<Rightarrow> 'a \<Rightarrow> 'a"
    and accepted :: "'e \<Rightarrow> bool"
  assumes step_invar: "invar s \<Longrightarrow> accepted e \<Longrightarrow> invar (step e s)"
    and step_abs: "invar s \<Longrightarrow> accepted e \<Longrightarrow> abs (step e s) = spec e (abs s)"
begin

lemma run_refines:
  "invar s \<Longrightarrow> \<forall>e \<in> set es. accepted e \<Longrightarrow> invar (fold step es s) \<and> abs (fold step es s) = fold spec es (abs s)"
  by (induction es arbitrary: s) (simp_all add: step_invar step_abs)

end

end
