(* ===== verification/Garm_Status.thy ===== *)
theory Garm_Status
  imports Garm_Prelude
begin

text \<open>
  The two status machines of a runner (\<^verbatim>\<open>params.InstanceStatusTransitions\<close> and
  \<^verbatim>\<open>params.RunnerStatusTransitions\<close>), the error values that travel through the program
  (\<^verbatim>\<open>garm-provider-common/errors\<close> and \<^verbatim>\<open>internal/errors\<close>) with \<^verbatim>\<open>errors.Is\<close>, and the predicates of
  \<^verbatim>\<open>internal/errors\<close> that decide whether a refused transition is benign.

  Go declares the statuses as strings: the empty string means "not set" in update requests and a
  provider may report any other string, so each datatype has a constructor for both. Wrapping an
  error with \<^verbatim>\<open>fmt.Errorf("...: %w", err)\<close> keeps what \<^verbatim>\<open>errors.Is\<close> and \<^verbatim>\<open>errors.As\<close> see, so an
  error stands for the innermost one; message texts are not modelled.
\<close>

datatype InstanceStatus =
    InstanceRunning | InstanceStopped | InstanceError | InstancePendingDelete
  | InstancePendingForceDelete | InstanceDeleting | InstanceDeleted | InstancePendingCreate
  | InstanceCreating | InstanceStatusUnknown | InstanceStatusEmpty | InstanceStatusOther string

datatype RunnerStatus =
    RunnerIdle | RunnerPending | RunnerTerminated | RunnerInstalling | RunnerFailed
  | RunnerActive | RunnerOffline | RunnerOnline | RunnerUnknown | RunnerStatusEmpty
  | RunnerStatusOther string

definition RunnerStatus_IsValid :: "RunnerStatus \<Rightarrow> bool" where
  "RunnerStatus_IsValid s \<longleftrightarrow> s \<in> {RunnerIdle, RunnerPending, RunnerTerminated, RunnerInstalling,
     RunnerFailed, RunnerActive, RunnerOffline, RunnerUnknown, RunnerOnline}"

text \<open>The transition tables; \<open>None\<close> is a status without an entry in the Go map.\<close>

fun InstanceStatusTransitions :: "InstanceStatus \<Rightarrow> InstanceStatus list option" where
  "InstanceStatusTransitions InstanceRunning = Some [InstancePendingDelete,
     InstancePendingForceDelete, InstanceStopped, InstanceStatusUnknown]"
| "InstanceStatusTransitions InstanceStopped = Some [InstancePendingDelete,
     InstancePendingForceDelete, InstanceRunning, InstanceStatusUnknown]"
| "InstanceStatusTransitions InstanceError = Some [InstancePendingDelete,
     InstancePendingForceDelete, InstanceStatusUnknown, InstanceDeleting]"
| "InstanceStatusTransitions InstancePendingDelete = Some [InstanceDeleting,
     InstancePendingForceDelete]"
| "InstanceStatusTransitions InstancePendingForceDelete = Some [InstanceDeleting]"
| "InstanceStatusTransitions InstanceDeleting = Some [InstanceError, InstanceDeleted]"
| "InstanceStatusTransitions InstanceDeleted = Some []"
| "InstanceStatusTransitions InstancePendingCreate = Some [InstancePendingDelete,
     InstanceCreating, InstancePendingForceDelete]"
| "InstanceStatusTransitions InstanceCreating = Some [InstanceError, InstanceRunning]"
| "InstanceStatusTransitions InstanceStatusUnknown = Some [InstanceRunning, InstanceStopped,
     InstanceError, InstancePendingDelete, InstancePendingForceDelete, InstanceDeleting,
     InstanceDeleted, InstancePendingCreate, InstanceCreating]"
| "InstanceStatusTransitions _ = None"

fun RunnerStatusTransitions :: "RunnerStatus \<Rightarrow> RunnerStatus list option" where
  "RunnerStatusTransitions RunnerPending = Some [RunnerFailed, RunnerInstalling,
     RunnerTerminated, RunnerPending, RunnerActive]"
| "RunnerStatusTransitions RunnerInstalling = Some [RunnerFailed, RunnerIdle,
     RunnerTerminated, RunnerInstalling, RunnerActive, RunnerOffline]"
| "RunnerStatusTransitions RunnerIdle = Some [RunnerOffline, RunnerActive, RunnerTerminated,
     RunnerIdle]"
| "RunnerStatusTransitions RunnerActive = Some [RunnerTerminated, RunnerActive]"
| "RunnerStatusTransitions RunnerFailed = Some [RunnerTerminated, RunnerFailed]"
| "RunnerStatusTransitions RunnerOffline = Some [RunnerIdle, RunnerActive, RunnerTerminated,
     RunnerOffline]"
| "RunnerStatusTransitions RunnerTerminated = Some [RunnerTerminated]"
| "RunnerStatusTransitions _ = None"

subsection \<open>Errors\<close>

datatype garm_error =
    ProviderError | MissingSecretError | UnauthorizedError | ForbiddenError | NotFoundError
  | DuplicateUserError | BadRequestError | ConflictError | TimoutError | UnprocessableError
  | NoPoolsAvailableError | NoCapacityError
  | InstanceTransitionError InstanceStatus InstanceStatus
  | RunnerTransitionError RunnerStatus RunnerStatus
  | OtherError string

text \<open>\<^verbatim>\<open>errors.Is(err, target)\<close>: the type of the target decides; a transition error is also a bad
  request.\<close>

fun error_is :: "garm_error \<Rightarrow> garm_error \<Rightarrow> bool" where
  "error_is (InstanceTransitionError _ _) t =
     (case t of InstanceTransitionError _ _ \<Rightarrow> True | BadRequestError \<Rightarrow> True | _ \<Rightarrow> False)"
| "error_is (RunnerTransitionError _ _) t =
     (case t of RunnerTransitionError _ _ \<Rightarrow> True | BadRequestError \<Rightarrow> True | _ \<Rightarrow> False)"
| "error_is e t = (e = t)"

definition InstanceIsBeingDeleted :: "InstanceStatus \<Rightarrow> bool" where
  "InstanceIsBeingDeleted s \<longleftrightarrow> (case s of
     InstancePendingDelete \<Rightarrow> True | InstancePendingForceDelete \<Rightarrow> True
   | InstanceDeleting \<Rightarrow> True | InstanceDeleted \<Rightarrow> True | _ \<Rightarrow> False)"

definition InstanceIsProvisioning :: "InstanceStatus \<Rightarrow> bool" where
  "InstanceIsProvisioning s \<longleftrightarrow> (case s of
     InstancePendingCreate \<Rightarrow> True | InstanceCreating \<Rightarrow> True | _ \<Rightarrow> False)"

definition RunnerIsTerminal :: "RunnerStatus \<Rightarrow> bool" where
  "RunnerIsTerminal s \<longleftrightarrow> (case s of RunnerTerminated \<Rightarrow> True | RunnerFailed \<Rightarrow> True | _ \<Rightarrow> False)"

subsection \<open>The validations of a guarded update\<close>

definition validateAgentID :: "int \<Rightarrow> int \<Rightarrow> garm_error option" where
  "validateAgentID currentAgentID newAgentID =
     (if currentAgentID \<noteq> 0 \<and> newAgentID \<noteq> 0 \<and> currentAgentID \<noteq> newAgentID
      then Some BadRequestError else None)"

definition validateRunnerStatusTransition :: "RunnerStatus \<Rightarrow> RunnerStatus \<Rightarrow> garm_error option" where
  "validateRunnerStatusTransition current newStatus =
     (if newStatus = RunnerStatusEmpty \<or> newStatus = current then None
      else case RunnerStatusTransitions current of
          None \<Rightarrow> Some (OtherError ''Instance is in invalid state'')
        | Some allowed \<Rightarrow> if newStatus \<in> set allowed then None
            else Some (RunnerTransitionError current newStatus))"

definition validateInstanceStatusTransition ::
    "InstanceStatus \<Rightarrow> InstanceStatus \<Rightarrow> garm_error option" where
  "validateInstanceStatusTransition current newStatus =
     (if newStatus = InstanceStatusEmpty \<or> newStatus = current then None
      else case InstanceStatusTransitions current of
          None \<Rightarrow> Some (OtherError ''Instance is in invalid state'')
        | Some allowed \<Rightarrow> if newStatus \<in> set allowed then None
            else Some (InstanceTransitionError current newStatus))"

subsection \<open>The machines as step relations\<close>

text \<open>One accepted guarded update, and any number of them.\<close>

inductive inst_step :: "InstanceStatus \<Rightarrow> InstanceStatus \<Rightarrow> bool" where
  inst_move: "InstanceStatusTransitions a = Some bs \<Longrightarrow> b \<in> set bs \<Longrightarrow> inst_step a b"

inductive runner_step :: "RunnerStatus \<Rightarrow> RunnerStatus \<Rightarrow> bool" where
  runner_move: "RunnerStatusTransitions a = Some bs \<Longrightarrow> b \<in> set bs \<Longrightarrow> runner_step a b"

inductive_simps inst_step_iff: "inst_step a b"
inductive_simps runner_step_iff: "runner_step a b"

lemma validateInstance_accepts_iff:
  "validateInstanceStatusTransition a b = None \<longleftrightarrow>
     b = InstanceStatusEmpty \<or> b = a \<or> inst_step a b"
  by (auto simp: validateInstanceStatusTransition_def inst_step_iff split: option.splits)

lemma validateRunner_accepts_iff:
  "validateRunnerStatusTransition a b = None \<longleftrightarrow>
     b = RunnerStatusEmpty \<or> b = a \<or> runner_step a b"
  by (auto simp: validateRunnerStatusTransition_def runner_step_iff split: option.splits)

lemma InstanceTransitions_never_empty:
  "InstanceStatusTransitions a = Some bs \<Longrightarrow> InstanceStatusEmpty \<notin> set bs"
  by (cases a) auto

lemma RunnerTransitions_never_empty:
  "RunnerStatusTransitions a = Some bs \<Longrightarrow> RunnerStatusEmpty \<notin> set bs"
  by (cases a) auto

lemma deletion_lane_step:
  "InstanceIsBeingDeleted a \<Longrightarrow> inst_step a b \<Longrightarrow> InstanceIsBeingDeleted b \<or> b = InstanceError"
  by (cases a) (auto simp: inst_step_iff InstanceIsBeingDeleted_def)

lemma deleted_is_final: "\<not> inst_step InstanceDeleted b"
  by (simp add: inst_step_iff)

lemma terminated_step: "runner_step RunnerTerminated b \<Longrightarrow> b = RunnerTerminated"
  by (simp add: runner_step_iff)

lemma runner_terminal_step: "RunnerIsTerminal a \<Longrightarrow> runner_step a b \<Longrightarrow> RunnerIsTerminal b"
  by (cases a) (auto simp: runner_step_iff RunnerIsTerminal_def)

lemma runner_terminal_steps:
  "runner_step\<^sup>*\<^sup>* a b \<Longrightarrow> RunnerIsTerminal a \<Longrightarrow> RunnerIsTerminal b"
  by (induction rule: rtranclp_induct) (auto dest: runner_terminal_step)

lemma runner_active_steps:
  "runner_step\<^sup>*\<^sup>* a b \<Longrightarrow> a = RunnerActive \<Longrightarrow> b \<in> {RunnerActive, RunnerTerminated}"
  by (induction rule: rtranclp_induct) (auto simp: runner_step_iff)

text \<open>
  From every status of the table but \<open>InstanceDeleted\<close> the machine can be driven to
  \<open>InstanceDeleted\<close>: no status is a dead end for clean-up.
\<close>

lemma inst_step_to_deleted:
  "InstanceStatusTransitions a \<noteq> None \<Longrightarrow> inst_step\<^sup>*\<^sup>* a InstanceDeleted"
proof -
  assume known: "InstanceStatusTransitions a \<noteq> None"
  have d: "inst_step\<^sup>*\<^sup>* InstanceDeleting InstanceDeleted"
    by (rule r_into_rtranclp) (simp add: inst_step_iff)
  have e: "inst_step\<^sup>*\<^sup>* InstanceError InstanceDeleted"
    by (rule converse_rtranclp_into_rtranclp [OF _ d]) (simp add: inst_step_iff)
  have f: "inst_step\<^sup>*\<^sup>* InstancePendingForceDelete InstanceDeleted"
    by (rule converse_rtranclp_into_rtranclp [OF _ d]) (simp add: inst_step_iff)
  show ?thesis
  proof (cases "inst_step a InstancePendingForceDelete \<or> inst_step a InstanceError")
    case True
    with e f show ?thesis by (auto intro: converse_rtranclp_into_rtranclp)
  next
    case False
    with known d f show ?thesis by (cases a) (simp_all add: inst_step_iff)
  qed
qed

lemmas status_preds [garm_defs] =
  InstanceIsBeingDeleted_def InstanceIsProvisioning_def RunnerIsTerminal_def

end
