(* ===== verification/Garm_Monad.thy ===== *)
theory Garm_Monad
  imports Garm_Status
begin

text \<open>
  Stateful Go code as functions from a state to a result and the next state. A Go function that
  returns \<^verbatim>\<open>(T, error)\<close> and acts on the store or on a manager is a \<open>prog\<close>; \<open>Inl e\<close> is a returned
  error and the state is kept as the code left it (only a database transaction undoes changes).

  The locale \<open>step_order\<close> carries every invariant and frame proof of the development: for a
  reflexive and transitive relation on states, a program steps along the relation as soon as its
  parts do. An invariant \<open>P\<close> is the relation \<open>P s \<longrightarrow> P s'\<close>, a frame condition is equality of what
  is kept, monotonicity is an order.
\<close>

type_synonym ('s, 'a) prog = "'s \<Rightarrow> (garm_error + 'a) \<times> 's"

definition m_ret :: "'a \<Rightarrow> ('s, 'a) prog" where
  "m_ret x s = (Inr x, s)"

definition m_throw :: "garm_error \<Rightarrow> ('s, 'a) prog" where
  "m_throw e s = (Inl e, s)"

definition m_bind :: "('s, 'a) prog \<Rightarrow> ('a \<Rightarrow> ('s, 'b) prog) \<Rightarrow> ('s, 'b) prog" where
  "m_bind m f s = (case m s of (Inl e, s') \<Rightarrow> (Inl e, s') | (Inr x, s') \<Rightarrow> f x s')"

definition m_seq :: "('s, 'a) prog \<Rightarrow> ('s, 'b) prog \<Rightarrow> ('s, 'b) prog" where
  "m_seq m n = m_bind m (\<lambda>_. n)"

definition m_get :: "('s \<Rightarrow> 'a) \<Rightarrow> ('s, 'a) prog" where
  "m_get f s = (Inr (f s), s)"

definition m_modify :: "('s \<Rightarrow> 's) \<Rightarrow> ('s, unit) prog" where
  "m_modify f s = (Inr (), f s)"

definition m_result :: "garm_error + 'a \<Rightarrow> ('s, 'a) prog" where
  "m_result r s = (r, s)"

text \<open>\<^verbatim>\<open>x, err := m\<close>: the error becomes a value the code inspects.\<close>

definition m_try :: "('s, 'a) prog \<Rightarrow> ('s, garm_error + 'a) prog" where
  "m_try m s = (case m s of (r, s') \<Rightarrow> (Inr r, s'))"

text \<open>\<^verbatim>\<open>if err := m; err != nil { log }\<close>: the error is only logged.\<close>

definition m_ignore :: "('s, 'a) prog \<Rightarrow> ('s, unit) prog" where
  "m_ignore m s = (case m s of (r, s') \<Rightarrow> (Inr (), s'))"

definition m_when :: "bool \<Rightarrow> ('s, unit) prog \<Rightarrow> ('s, unit) prog" where
  "m_when b m = (if b then m else m_ret ())"

text \<open>A deferred call: it runs whatever the body returns, and the body's result stands.\<close>

definition m_finally :: "('s, 'a) prog \<Rightarrow> (garm_error + 'a \<Rightarrow> ('s, unit) prog) \<Rightarrow> ('s, 'a) prog" where
  "m_finally m d s = (case m s of (r, s') \<Rightarrow> (r, snd (d r s')))"

text \<open>A loop over a slice that returns at the first error.\<close>

primrec m_for :: "('a \<Rightarrow> ('s, unit) prog) \<Rightarrow> 'a list \<Rightarrow> ('s, unit) prog" where
  "m_for f [] = m_ret ()"
| "m_for f (x # xs) = m_seq (f x) (m_for f xs)"

text \<open>A loop over a slice that carries a value.\<close>

primrec m_fold :: "('a \<Rightarrow> 'b \<Rightarrow> ('s, 'b) prog) \<Rightarrow> 'a list \<Rightarrow> 'b \<Rightarrow> ('s, 'b) prog" where
  "m_fold f [] acc = m_ret acc"
| "m_fold f (x # xs) acc = m_bind (f x acc) (\<lambda>acc'. m_fold f xs acc')"

text \<open>A loop over a slice that collects what each iteration returns.\<close>

primrec m_map :: "('a \<Rightarrow> ('s, 'b) prog) \<Rightarrow> 'a list \<Rightarrow> ('s, 'b list) prog" where
  "m_map f [] = m_ret []"
| "m_map f (x # xs) = m_bind (f x) (\<lambda>y. m_bind (m_map f xs) (\<lambda>ys. m_ret (y # ys)))"

text \<open>\<^verbatim>\<open>errgroup\<close>: every started function runs; the group's error is the first one.\<close>

primrec m_group :: "('a \<Rightarrow> ('s, unit) prog) \<Rightarrow> 'a list \<Rightarrow> ('s, unit) prog" where
  "m_group f [] = m_ret ()"
| "m_group f (x # xs) = m_bind (m_try (f x)) (\<lambda>r. m_bind (m_try (m_group f xs)) (\<lambda>r'.
     case r of Inl e \<Rightarrow> m_throw e | Inr _ \<Rightarrow> m_result r'))"

text \<open>A program on a part of the state.\<close>

definition m_lift :: "('s \<Rightarrow> 't) \<Rightarrow> ('t \<Rightarrow> 's \<Rightarrow> 's) \<Rightarrow> ('t, 'a) prog \<Rightarrow> ('s, 'a) prog" where
  "m_lift get put m s = (case m (get s) of (r, t) \<Rightarrow> (r, put t s))"

lemmas m_defs = m_ret_def m_throw_def m_bind_def m_seq_def m_get_def m_modify_def m_result_def
  m_try_def m_ignore_def m_when_def m_finally_def m_lift_def

subsection \<open>Basic equations\<close>

lemma m_simps [simp]:
  "m_bind (m_ret x) f = f x"
  "m_bind (m_throw e) g = m_throw e"
  "m_seq (m_ret x) n = n"
  "m_seq (m_throw e) n = m_throw e"
  "m_when True u = u"
  "m_when False u = m_ret ()"
  by (auto simp: m_defs fun_eq_iff)

lemma m_bind_assoc: "m_bind (m_bind m f) g = m_bind m (\<lambda>x. m_bind (f x) g)"
  by (auto simp: m_defs fun_eq_iff split: prod.splits sum.splits)

lemma m_run_simps [simp]:
  "m_ret x s = (Inr x, s)"
  "m_throw e s = (Inl e, s)"
  "m_get f s = (Inr (f s), s)"
  "m_modify g s = (Inr (), g s)"
  "m_result r s = (r, s)"
  "m_bind (m_get f) h s = h (f s) s"
  "m_seq (m_modify g) n s = n (g s)"
  by (simp_all add: m_defs)

lemma m_bind_ok: "m s = (Inr x, s') \<Longrightarrow> m_bind m f s = f x s'"
  by (simp add: m_bind_def)

lemma m_bind_err: "m s = (Inl e, s') \<Longrightarrow> m_bind m f s = (Inl e, s')"
  by (simp add: m_bind_def)

lemma m_bind_okE:
  assumes "m_bind m f s = (Inr y, s')"
  obtains x s1 where "m s = (Inr x, s1)" "f x s1 = (Inr y, s')"
  using assms by (auto simp: m_bind_def split: prod.splits sum.splits)

lemma m_seq_okE:
  assumes "m_seq m n s = (Inr y, s')"
  obtains x s1 where "m s = (Inr x, s1)" "n s1 = (Inr y, s')"
  using assms unfolding m_seq_def by (blast elim: m_bind_okE)

lemma m_group_ok:
  "m_group f (x # xs) s = (Inr (), s') \<longleftrightarrow> (\<exists>s1. f x s = (Inr (), s1) \<and> m_group f xs s1 = (Inr (), s'))"
  by (auto simp: m_defs split: prod.splits sum.splits)

subsection \<open>Programs that step along a relation\<close>

definition steps :: "('s \<Rightarrow> 's \<Rightarrow> bool) \<Rightarrow> ('s, 'a) prog \<Rightarrow> bool" where
  "steps R m \<longleftrightarrow> (\<forall>s. R s (snd (m s)))"

lemma stepsI: "(\<And>s. R s (snd (m s))) \<Longrightarrow> steps R m"
  by (simp add: steps_def)

lemma stepsD: "steps R m \<Longrightarrow> m s = (r, s') \<Longrightarrow> R s s'"
  by (metis steps_def snd_conv)

lemma stepsD_snd: "steps R m \<Longrightarrow> R s (snd (m s))"
  by (simp add: steps_def)

lemma steps_modify: "(\<And>s. R s (g s)) \<Longrightarrow> steps R (m_modify g)"
  by (simp add: steps_def)

lemma steps_lift:
  "steps R m \<Longrightarrow> (\<And>s t. R (get s) t \<Longrightarrow> Q s (put t s)) \<Longrightarrow> steps Q (m_lift get put m)"
  by (auto simp: steps_def m_lift_def split: prod.splits) (metis snd_conv)

locale step_order =
  fixes R :: "'s \<Rightarrow> 's \<Rightarrow> bool"
  assumes R_refl: "R s s"
    and R_trans: "R s t \<Longrightarrow> R t u \<Longrightarrow> R s u"
begin

lemma st_ret: "steps R (m_ret x)"
  by (simp add: steps_def R_refl)

lemma st_throw: "steps R (m_throw e)"
  by (simp add: steps_def R_refl)

lemma st_get: "steps R (m_get f)"
  by (simp add: steps_def R_refl)

lemma st_result: "steps R (m_result r)"
  by (simp add: steps_def R_refl)

lemma st_bind: "steps R m \<Longrightarrow> (\<And>x. steps R (f x)) \<Longrightarrow> steps R (m_bind m f)"
  unfolding steps_def m_bind_def
  by (metis (mono_tags, lifting) R_trans case_prod_unfold snd_conv sum.case_eq_if)

lemma st_seq: "steps R m \<Longrightarrow> steps R n \<Longrightarrow> steps R (m_seq m n)"
  unfolding m_seq_def by (rule st_bind)

lemma st_try: "steps R m \<Longrightarrow> steps R (m_try m)"
  by (auto simp: steps_def m_try_def split: prod.splits) (metis snd_conv)

lemma st_ignore: "steps R m \<Longrightarrow> steps R (m_ignore m)"
  by (auto simp: steps_def m_ignore_def split: prod.splits) (metis snd_conv)

lemma st_when: "(b \<Longrightarrow> steps R m) \<Longrightarrow> steps R (m_when b m)"
  by (simp add: m_when_def st_ret)

lemma st_finally: "steps R m \<Longrightarrow> (\<And>r. steps R (d r)) \<Longrightarrow> steps R (m_finally m d)"
  unfolding steps_def m_finally_def by (auto split: prod.splits) (metis R_trans snd_conv)

lemma st_for: "(\<And>x. x \<in> set xs \<Longrightarrow> steps R (f x)) \<Longrightarrow> steps R (m_for f xs)"
  by (induction xs) (auto intro: st_ret st_seq)

lemma st_fold: "(\<And>x acc. x \<in> set xs \<Longrightarrow> steps R (f x acc)) \<Longrightarrow> steps R (m_fold f xs acc)"
  by (induction xs arbitrary: acc) (auto intro: st_ret st_bind)

lemma st_map: "(\<And>x. x \<in> set xs \<Longrightarrow> steps R (f x)) \<Longrightarrow> steps R (m_map f xs)"
  by (induction xs) (auto intro: st_ret st_bind)

lemma st_group: "(\<And>x. x \<in> set xs \<Longrightarrow> steps R (f x)) \<Longrightarrow> steps R (m_group f xs)"
  by (induction xs) (auto intro!: st_ret st_bind st_try st_throw st_result split: sum.splits)

lemma st_sum: "(\<And>e. steps R (f e)) \<Longrightarrow> (\<And>x. steps R (g x)) \<Longrightarrow>
  steps R (case r of Inl e \<Rightarrow> f e | Inr x \<Rightarrow> g x)"
  by (cases r) simp_all

lemma st_option: "steps R m \<Longrightarrow> (\<And>x. steps R (g x)) \<Longrightarrow>
  steps R (case r of None \<Rightarrow> m | Some x \<Rightarrow> g x)"
  by (cases r) simp_all

lemma st_if: "(b \<Longrightarrow> steps R m) \<Longrightarrow> (\<not> b \<Longrightarrow> steps R n) \<Longrightarrow> steps R (if b then m else n)"
  by simp

lemma st_prod: "(\<And>x y. steps R (g x y)) \<Longrightarrow> steps R (case p of (x, y) \<Rightarrow> g x y)"
  by (cases p) simp

lemma st_let: "(\<And>y. y = x \<Longrightarrow> steps R (g y)) \<Longrightarrow> steps R (let y = x in g y)"
  by simp

lemmas st_rules = st_ret st_throw st_get st_result st_bind st_seq st_try st_ignore st_when
  st_finally st_for st_fold st_map st_group st_sum st_option st_if st_prod st_let

end

end
