(* ===== verification/Garm_Uuid.thy ===== *)
theory Garm_Uuid
  imports Garm_Prelude
begin

text \<open>
  The part of the UUID package GARM relies on: the 16 byte value, its textual form
  (\<^verbatim>\<open>UUID.String\<close>), \<^verbatim>\<open>uuid.Parse\<close> with the four encodings it accepts and \<^verbatim>\<open>uuid.Nil\<close>. A value is
  a 128 bit word, so every value is well formed; bytes are natural numbers below 256. The
  development needs that parsing what was printed gives the value back and that printing is
  injective, because GARM compares identifiers now as UUIDs and now as their strings.
\<close>

type_synonym uuid = "128 word"

definition uuid_nil :: uuid where "uuid_nil = 0"

fun bytes_of :: "nat \<Rightarrow> nat \<Rightarrow> nat list" where
  "bytes_of 0 n = []"
| "bytes_of (Suc k) n = bytes_of k (n div 256) @ [n mod 256]"

definition uuid_bytes :: "uuid \<Rightarrow> nat list" where
  "uuid_bytes u = bytes_of 16 (unat u)"

definition uuid_of_bytes :: "nat list \<Rightarrow> uuid" where
  "uuid_of_bytes bs = of_nat (foldl (\<lambda>a b. 256 * a + b) 0 bs)"

definition hex_char :: "nat \<Rightarrow> char" where
  "hex_char d = ''0123456789abcdef'' ! d"

definition hex_encode :: "nat list \<Rightarrow> string" where
  "hex_encode bs = concat (map (\<lambda>b. [hex_char (b div 16), hex_char (b mod 16)]) bs)"

definition uuid_string :: "uuid \<Rightarrow> string" where
  "uuid_string u = (let b = uuid_bytes u in
     hex_encode (take 4 b) @ ''-'' @ hex_encode (take 2 (drop 4 b)) @ ''-'' @
     hex_encode (take 2 (drop 6 b)) @ ''-'' @ hex_encode (take 2 (drop 8 b)) @ ''-'' @
     hex_encode (drop 10 b))"

definition xvalue :: "char \<Rightarrow> nat option" where
  "xvalue c = (let n = (of_char c :: nat) in
     if 48 \<le> n \<and> n \<le> 57 then Some (n - 48)
     else if 65 \<le> n \<and> n \<le> 70 then Some (n - 55)
     else if 97 \<le> n \<and> n \<le> 102 then Some (n - 87) else None)"

definition xtob :: "char \<Rightarrow> char \<Rightarrow> nat option" where
  "xtob x1 x2 = (case (xvalue x1, xvalue x2) of
     (Some b1, Some b2) \<Rightarrow> Some (16 * b1 + b2) | _ \<Rightarrow> None)"

fun xtob_at :: "string \<Rightarrow> nat list \<Rightarrow> nat list option" where
  "xtob_at s [] = Some []"
| "xtob_at s (x # xs) = (case xtob (s ! x) (s ! (x + 1)) of None \<Rightarrow> None
     | Some b \<Rightarrow> map_option (Cons b) (xtob_at s xs))"

definition uuid_dashed :: "string \<Rightarrow> uuid option" where
  "uuid_dashed s =
     (if s ! 8 \<noteq> CHR ''-'' \<or> s ! 13 \<noteq> CHR ''-'' \<or> s ! 18 \<noteq> CHR ''-'' \<or> s ! 23 \<noteq> CHR ''-'' then None
      else map_option uuid_of_bytes
        (xtob_at s [0, 2, 4, 6, 9, 11, 14, 16, 19, 21, 24, 26, 28, 30, 32, 34]))"

definition uuid_parse :: "string \<Rightarrow> uuid option" where
  "uuid_parse s =
     (if length s = 36 then uuid_dashed s
      else if length s = 45 then
        (if equal_fold (take 9 s) ''urn:uuid:'' then uuid_dashed (drop 9 s) else None)
      else if length s = 38 then uuid_dashed (drop 1 s)
      else if length s = 32 then
        map_option uuid_of_bytes (xtob_at s (map (\<lambda>i. 2 * i) [0..<16]))
      else None)"

subsection \<open>Printing and parsing\<close>

lemma length_bytes_of [simp]: "length (bytes_of k n) = k"
  by (induction k arbitrary: n) auto

lemma bytes_of_bound: "b \<in> set (bytes_of k n) \<Longrightarrow> b < 256"
  by (induction k arbitrary: n) auto

lemma fold_bytes_of: "foldl (\<lambda>a b. 256 * a + b) 0 (bytes_of k n) = n mod 256 ^ k"
proof (induction k arbitrary: n)
  case (Suc k)
  have "n mod (256 * 256 ^ k) = 256 * (n div 256 mod 256 ^ k) + n mod 256"
    by (rule mod_mult2_eq)
  with Suc.IH show ?case by simp
qed simp

lemma uuid_of_bytes_bytes [simp]: "uuid_of_bytes (uuid_bytes u) = u"
proof -
  have "unat u < 2 ^ LENGTH(128)" by (rule unsigned_less)
  then have "unat u mod 256 ^ 16 = unat u" by simp
  then show ?thesis
    by (simp add: uuid_of_bytes_def uuid_bytes_def fold_bytes_of)
qed

lemma xvalue_hex: "d < 16 \<Longrightarrow> xvalue (hex_char d) = Some d"
  by (auto simp: numeral_eq_Suc less_Suc_eq) (simp_all add: hex_char_def xvalue_def)

lemma xtob_hex [simp]:
  "b < 256 \<Longrightarrow> xtob (hex_char (b div 16)) (hex_char (b mod 16)) = Some b"
  by (simp add: xtob_def xvalue_hex)

lemma list_of_16:
  "length xs = 16 \<Longrightarrow> \<exists>a b c d e f g h i j k l m n p q.
     xs = [a, b, c, d, e, f, g, h, i, j, k, l, m, n, p, q]"
  by (auto simp: numeral_eq_Suc length_Suc_conv)

lemma uuid_parse_string [simp]: "uuid_parse (uuid_string u) = Some u"
proof -
  let ?h = hex_char
  have len: "length (uuid_bytes u) = 16" by (simp add: uuid_bytes_def)
  from list_of_16 [OF this] obtain a b c d e f g h i j k l m n p q
    where bs: "uuid_bytes u = [a, b, c, d, e, f, g, h, i, j, k, l, m, n, p, q]"
    by (elim exE)
  have small: "\<forall>x \<in> set (uuid_bytes u). x < 256"
    by (auto simp: uuid_bytes_def dest: bytes_of_bound)
  have "uuid_of_bytes [a, b, c, d, e, f, g, h, i, j, k, l, m, n, p, q] = u"
    using uuid_of_bytes_bytes [of u] by (simp only: bs)
  moreover have str: "uuid_string u = [?h (a div 16), ?h (a mod 16), ?h (b div 16), ?h (b mod 16), ?h (c div 16), ?h (c mod
      16), ?h (d div 16), ?h (d mod 16), CHR ''-'', ?h (e div 16), ?h (e mod 16), ?h (f div
      16), ?h (f mod 16), CHR ''-'', ?h (g div 16), ?h (g mod 16), ?h (h div 16), ?h (h mod
      16), CHR ''-'', ?h (i div 16), ?h (i mod 16), ?h (j div 16), ?h (j mod 16), CHR ''-'',
      ?h (k div 16), ?h (k mod 16), ?h (l div 16), ?h (l mod 16), ?h (m div 16), ?h (m mod
      16), ?h (n div 16), ?h (n mod 16), ?h (p div 16), ?h (p mod 16), ?h (q div 16), ?h (q
      mod 16)]"
    (is "_ = ?s")
    by (simp add: uuid_string_def bs hex_encode_def)
  moreover have "xtob_at ?s [0, 2, 4, 6, 9, 11, 14, 16, 19, 21, 24, 26, 28, 30, 32, 34] =
      Some [a, b, c, d, e, f, g, h, i, j, k, l, m, n, p, q]"
    using small unfolding bs by simp
  ultimately show ?thesis
    by (simp add: uuid_parse_def uuid_dashed_def)
qed

lemma uuid_string_inject [simp]: "uuid_string a = uuid_string b \<longleftrightarrow> a = b"
  by (metis option.inject uuid_parse_string)

lemma length_uuid_string [simp]: "length (uuid_string u) = 36"
proof -
  have "length (hex_encode bs) = 2 * length bs" for bs
    by (induction bs) (auto simp: hex_encode_def)
  then show ?thesis by (simp add: uuid_string_def uuid_bytes_def Let_def)
qed

lemma uuid_string_not_Nil [simp]: "uuid_string u \<noteq> []" "[] \<noteq> uuid_string u"
  using length_uuid_string [of u] by (auto simp del: length_uuid_string)

lemma uuid_parse_Nil [simp]: "uuid_parse [] = None"
  by (simp add: uuid_parse_def)

end
