(* ===== verification/Garm_Params.thy ===== *)
theory Garm_Params
  imports Garm_Status Garm_Uuid
begin

text \<open>
  The data model of package \<^verbatim>\<open>params\<close> that pools, jobs, instances and entities use, with the methods
  the rest of the program calls on it. A struct is a record with the struct's fields (prefixed by
  the struct's initial), a pointer field is an option, a Go map of strings is an association list.
  \<^verbatim>\<open>uint\<close> fields that take part in arithmetic are 64 bit words; \<^verbatim>\<open>uint\<close> keys are naturals.
\<close>

subsection \<open>Entities, endpoints and credentials\<close>

datatype ForgeEntityType =
    ForgeEntityTypeRepository | ForgeEntityTypeOrganization | ForgeEntityTypeEnterprise
  | ForgeEntityTypeInstance | ForgeEntityTypeOther string

fun forge_entity_string :: "ForgeEntityType \<Rightarrow> string" where
  "forge_entity_string ForgeEntityTypeRepository = ''repository''"
| "forge_entity_string ForgeEntityTypeOrganization = ''organization''"
| "forge_entity_string ForgeEntityTypeEnterprise = ''enterprise''"
| "forge_entity_string ForgeEntityTypeInstance = ''instance''"
| "forge_entity_string (ForgeEntityTypeOther s) = s"

datatype EndpointType = AutoEndpointType | GithubEndpointType | GiteaEndpointType

definition SupportsInstancePools :: "EndpointType \<Rightarrow> bool" where
  "SupportsInstancePools e \<longleftrightarrow> e = GiteaEndpointType"

datatype PoolBalancerType =
  PoolBalancerTypeRoundRobin | PoolBalancerTypePack | PoolBalancerTypeNone

record ForgeEndpoint =
  ep_Name :: string
  ep_Description :: string
  ep_APIBaseURL :: string
  ep_UploadBaseURL :: string
  ep_BaseURL :: string
  ep_CACertBundle :: string
  ep_CreatedAt :: time
  ep_UpdatedAt :: time
  ep_ToolsMetadataURL :: string
  ep_UseInternalToolsMetadata :: "bool option"
  ep_EndpointType :: EndpointType

record GithubRateLimit =
  rl_Limit :: int
  rl_Used :: int
  rl_Remaining :: int
  rl_Reset :: int

text \<open>The lists of repositories, organizations and enterprises that use the credentials are left
  out: they are filled for the API only and nothing reads them back.\<close>

record ForgeCredentials =
  c_ID :: nat
  c_Name :: string
  c_Description :: string
  c_APIBaseURL :: string
  c_UploadBaseURL :: string
  c_BaseURL :: string
  c_CABundle :: string
  c_AuthType :: string
  c_ForgeType :: EndpointType
  c_ReserveUsageEnabled :: bool
  c_ReserveUsagePercentage :: int
  c_Endpoint :: ForgeEndpoint
  c_CreatedAt :: time
  c_UpdatedAt :: time
  c_RateLimit :: "GithubRateLimit option"
  c_CredentialsPayload :: string

record PoolManagerStatus =
  pms_IsRunning :: bool
  pms_FailureReason :: string

record ForgeEntity =
  e_ID :: string
  e_Forge :: ForgeEndpoint
  e_Owner :: string
  e_Name :: string
  e_EntityType :: ForgeEntityType
  e_Credentials :: ForgeCredentials
  e_PoolBalancerType :: PoolBalancerType
  e_PoolManagerStatus :: PoolManagerStatus
  e_CreatedAt :: time
  e_UpdatedAt :: time
  e_AgentMode :: bool
  e_WebhookSecret :: string

text \<open>The Unix epoch, 1970-01-01T00:00:00Z, counted from the zero time.\<close>

definition unix_epoch :: time where "unix_epoch = 62135596800 * second"

definition ResetAt :: "GithubRateLimit \<Rightarrow> time" where
  "ResetAt g = (if rl_Reset g = 0 then 0 else unix_epoch + rl_Reset g * second)"

text \<open>Go's integer division truncates towards zero.\<close>

definition quot_trunc :: "int \<Rightarrow> int \<Rightarrow> int" where
  "quot_trunc a b = sgn a * sgn b * (\<bar>a\<bar> div \<bar>b\<bar>)"

definition reserveThreshold :: "ForgeCredentials \<Rightarrow> int" where
  "reserveThreshold g = (case c_RateLimit g of
     None \<Rightarrow> 0
   | Some rl \<Rightarrow> if \<not> c_ReserveUsageEnabled g then 0
       else quot_trunc (wrap_int64 (rl_Limit rl * c_ReserveUsagePercentage g)) 100)"

definition rateLimitReached :: "ForgeCredentials \<Rightarrow> int \<Rightarrow> time \<Rightarrow> bool \<times> time" where
  "rateLimitReached g threshold now = (case c_RateLimit g of
     None \<Rightarrow> (False, 0)
   | Some rl \<Rightarrow>
       if rl_Limit rl = 0 then (False, 0)
       else let resetAt = ResetAt rl in
         if \<not> now < resetAt then (False, resetAt)
         else (rl_Remaining rl \<le> threshold, resetAt))"

definition RateLimitReached :: "ForgeCredentials \<Rightarrow> time \<Rightarrow> bool \<times> time" where
  "RateLimitReached g now = rateLimitReached g (reserveThreshold g) now"

definition CriticalRateLimitReached :: "ForgeCredentials \<Rightarrow> time \<Rightarrow> bool \<times> time" where
  "CriticalRateLimitReached g now = rateLimitReached g 0 now"

definition ForgeURL :: "ForgeEntity \<Rightarrow> string" where
  "ForgeURL g = (let baseURL = trim_right (c_BaseURL (e_Credentials g)) (CHR ''/'') in
     case c_ForgeType (e_Credentials g) of
       GiteaEndpointType \<Rightarrow> ep_APIBaseURL (c_Endpoint (e_Credentials g))
     | _ \<Rightarrow> (case e_EntityType g of
           ForgeEntityTypeRepository \<Rightarrow> baseURL @ ''/'' @ e_Owner g @ ''/'' @ e_Name g
         | ForgeEntityTypeOrganization \<Rightarrow> baseURL @ ''/'' @ e_Owner g
         | ForgeEntityTypeEnterprise \<Rightarrow> baseURL @ ''/enterprises/'' @ e_Owner g
         | _ \<Rightarrow> []))"

definition GetForgeType :: "ForgeEntity \<Rightarrow> garm_error + EndpointType" where
  "GetForgeType g = (if c_ForgeType (e_Credentials g) = AutoEndpointType
     then Inl (OtherError ''credentials forge type is empty'') else Inr (c_ForgeType (e_Credentials g)))"

definition GetPoolBalancerType :: "ForgeEntity \<Rightarrow> PoolBalancerType" where
  "GetPoolBalancerType g = (if e_PoolBalancerType g = PoolBalancerTypeNone
     then PoolBalancerTypeRoundRobin else e_PoolBalancerType g)"

definition ForgeEntity_String :: "ForgeEntity \<Rightarrow> string" where
  "ForgeEntity_String g = (case e_EntityType g of
     ForgeEntityTypeRepository \<Rightarrow> e_Owner g @ ''/'' @ e_Name g
   | ForgeEntityTypeOrganization \<Rightarrow> e_Owner g
   | ForgeEntityTypeEnterprise \<Rightarrow> e_Owner g
   | ForgeEntityTypeInstance \<Rightarrow> ep_Name (c_Endpoint (e_Credentials g))
   | _ \<Rightarrow> [])"

definition GetIDAsUUID :: "ForgeEntity \<Rightarrow> garm_error + uuid" where
  "GetIDAsUUID g = (if e_ID g = [] then Inr uuid_nil
     else case uuid_parse (e_ID g) of
       None \<Rightarrow> Inl (OtherError ''failed to parse entity ID'') | Some u \<Rightarrow> Inr u)"

subsection \<open>Controller settings\<close>

text \<open>The fields that only the API and the agent tool sync use are left out.\<close>

record ControllerInfo =
  ci_ControllerID :: uuid
  ci_MetadataURL :: string
  ci_CallbackURL :: string
  ci_WebhookURL :: string
  ci_ControllerWebhookURL :: string
  ci_MinimumJobAgeBackoff :: uint64
  ci_CACertBundle :: string
  ci_AgentURL :: string
  ci_GARMAgentReleasesURL :: string
  ci_SyncGARMAgentTools :: bool
  ci_GARMAgentVersion :: string
  ci_AllowInsecureGARMAgent :: bool
  ci_CachedGARMAgentReleases :: string
  ci_CachedGARMAgentReleaseFetchedAt :: "time option"

definition JobBackoff :: "ControllerInfo \<Rightarrow> duration" where
  "JobBackoff c = (if ci_MinimumJobAgeBackoff c = 0 then 0
     else wrap_int64 (sint (ci_MinimumJobAgeBackoff c) * second))"

subsection \<open>Jobs\<close>

record Job =
  j_ID :: int
  j_WorkflowJobID :: int
  j_RunID :: int
  j_Action :: string
  j_Conclusion :: string
  j_Status :: string
  j_Name :: string
  j_StartedAt :: time
  j_CompletedAt :: time
  j_GithubRunnerID :: int
  j_RunnerName :: string
  j_RunnerGroupID :: int
  j_RunnerGroupName :: string
  j_RepositoryName :: string
  j_RepositoryOwner :: string
  j_WorkflowRunURL :: string
  j_Labels :: "string list"
  j_RepoID :: "uuid option"
  j_OrgID :: "uuid option"
  j_EnterpriseID :: "uuid option"
  j_ForgeInstanceID :: "uuid option"
  j_PoolID :: "uuid option"
  j_LockedBy :: uuid
  j_CreatedAt :: time
  j_UpdatedAt :: time

abbreviation (input) JobStatusQueued :: string where "JobStatusQueued \<equiv> ''queued''"
abbreviation (input) JobStatusInProgress :: string where "JobStatusInProgress \<equiv> ''in_progress''"
abbreviation (input) JobStatusCompleted :: string where "JobStatusCompleted \<equiv> ''completed''"

definition Job_BelongsTo :: "Job \<Rightarrow> ForgeEntity \<Rightarrow> bool" where
  "Job_BelongsTo j entity = (case (case e_EntityType entity of
       ForgeEntityTypeRepository \<Rightarrow> j_RepoID j
     | ForgeEntityTypeEnterprise \<Rightarrow> j_EnterpriseID j
     | ForgeEntityTypeOrganization \<Rightarrow> j_OrgID j
     | ForgeEntityTypeInstance \<Rightarrow> j_ForgeInstanceID j
     | _ \<Rightarrow> None) of
       None \<Rightarrow> False
     | Some u \<Rightarrow> e_ID entity = uuid_string u)"

text \<open>The webhook payload: the fields of \<^verbatim>\<open>params.WorkflowJob\<close> that GARM reads.\<close>

record WorkflowJobHook =
  h_Action :: string
  h_ID :: int
  h_RunID :: int
  h_Status :: string
  h_Conclusion :: string
  h_StartedAt :: time
  h_CompletedAt :: time
  h_Name :: string
  h_Labels :: "string list"
  h_RunnerID :: int
  h_RunnerName :: string
  h_RunnerGroupID :: int
  h_RunnerGroupName :: string
  h_RepoName :: string
  h_RepoOwnerLogin :: string
  h_RepoHTMLURL :: string
  h_OrgLogin :: string
  h_OrgName :: string
  h_EnterpriseSlug :: string

definition GetOrgName :: "WorkflowJobHook \<Rightarrow> EndpointType \<Rightarrow> string" where
  "GetOrgName w forgeType = (if forgeType = GiteaEndpointType then h_OrgName w else h_OrgLogin w)"

subsection \<open>Instances\<close>

type_synonym Address = "string \<times> string"

record StatusMessage =
  sm_CreatedAt :: time
  sm_Message :: string
  sm_EventType :: string
  sm_EventLevel :: string

record Instance =
  i_ID :: string
  i_ProviderID :: string
  i_ProviderName :: string
  i_AgentID :: int
  i_Name :: string
  i_OSType :: string
  i_OSName :: string
  i_OSVersion :: string
  i_OSArch :: string
  i_Addresses :: "Address list"
  i_Status :: InstanceStatus
  i_RunnerStatus :: RunnerStatus
  i_PoolID :: string
  i_ScaleSetID :: nat
  i_ProviderFault :: string
  i_StatusMessages :: "StatusMessage list"
  i_CreatedAt :: time
  i_UpdatedAt :: time
  i_GitHubRunnerGroup :: string
  i_Job :: "Job option"
  i_Heartbeat :: time
  i_HasShell :: bool
  i_Generation :: uint64
  i_CallbackURL :: string
  i_MetadataURL :: string
  i_CreateAttempt :: int
  i_TokenFetched :: bool
  i_AditionalLabels :: "string list"
  i_JitConfiguration :: "(string \<times> string) list"

record CreateInstanceParams =
  cip_Name :: string
  cip_OSType :: string
  cip_OSArch :: string
  cip_Status :: InstanceStatus
  cip_RunnerStatus :: RunnerStatus
  cip_CallbackURL :: string
  cip_MetadataURL :: string
  cip_GitHubRunnerGroup :: string
  cip_CreateAttempt :: int
  cip_AgentID :: int
  cip_AditionalLabels :: "string list"
  cip_JitConfiguration :: "(string \<times> string) list"
  cip_Generation :: uint64

record UpdateInstanceParams =
  uip_ProviderID :: string
  uip_OSName :: string
  uip_OSVersion :: string
  uip_Addresses :: "Address list"
  uip_Status :: InstanceStatus
  uip_RunnerStatus :: RunnerStatus
  uip_ProviderFault :: string
  uip_Heartbeat :: "time option"
  uip_AgentID :: int
  uip_CreateAttempt :: int
  uip_TokenFetched :: "bool option"
  uip_JitConfiguration :: "(string \<times> string) list option"
  uip_Capabilities :: "bool option"

definition empty_update :: UpdateInstanceParams where
  "empty_update = \<lparr>uip_ProviderID = [], uip_OSName = [], uip_OSVersion = [], uip_Addresses = [],
     uip_Status = InstanceStatusEmpty, uip_RunnerStatus = RunnerStatusEmpty, uip_ProviderFault = [],
     uip_Heartbeat = None, uip_AgentID = 0, uip_CreateAttempt = 0, uip_TokenFetched = None,
     uip_JitConfiguration = None, uip_Capabilities = None\<rparr>"

subsection \<open>Pools and scale sets\<close>

record Tag =
  t_ID :: uuid
  t_Name :: string

record Pool =
  p_Prefix :: string
  p_ID :: string
  p_ProviderName :: string
  p_MaxRunners :: uint64
  p_MinIdleRunners :: uint64
  p_Image :: string
  p_Flavor :: string
  p_OSType :: string
  p_OSArch :: string
  p_Tags :: "Tag list"
  p_Enabled :: bool
  p_Instances :: "Instance list"
  p_EnableShell :: bool
  p_Generation :: uint64
  p_RepoID :: string
  p_RepoName :: string
  p_OrgID :: string
  p_OrgName :: string
  p_EnterpriseID :: string
  p_EnterpriseName :: string
  p_ForgeInstanceID :: string
  p_Endpoint :: string
  p_RunnerBootstrapTimeout :: nat
  p_CreatedAt :: time
  p_UpdatedAt :: time
  p_ExtraSpecs :: string
  p_GitHubRunnerGroup :: string
  p_Priority :: nat
  p_TemplateID :: nat
  p_ProxyID :: nat

definition DefaultRunnerBootstrapTimeout :: nat where "DefaultRunnerBootstrapTimeout = 20"

definition GetRunnerPrefix :: "string \<Rightarrow> string" where
  "GetRunnerPrefix prefix = (if prefix = [] then ''garm'' else prefix)"

text \<open>\<^verbatim>\<open>MinIdleRunnersAsInt\<close> and \<^verbatim>\<open>MaxRunnersAsInt\<close>: clamp at the largest \<^verbatim>\<open>int\<close>.\<close>

definition uint_as_int :: "uint64 \<Rightarrow> int" where
  "uint_as_int n = (if uint n > max_int then max_int else uint n)"

definition MinIdleRunnersAsInt :: "Pool \<Rightarrow> int" where
  "MinIdleRunnersAsInt p = uint_as_int (p_MinIdleRunners p)"

definition MaxRunnersAsInt :: "Pool \<Rightarrow> int" where
  "MaxRunnersAsInt p = uint_as_int (p_MaxRunners p)"

definition Pool_RunnerTimeout :: "Pool \<Rightarrow> nat" where
  "Pool_RunnerTimeout p = (if p_RunnerBootstrapTimeout p = 0 then DefaultRunnerBootstrapTimeout
     else p_RunnerBootstrapTimeout p)"

definition PoolType :: "Pool \<Rightarrow> ForgeEntityType" where
  "PoolType p = (if p_RepoID p \<noteq> [] then ForgeEntityTypeRepository
     else if p_OrgID p \<noteq> [] then ForgeEntityTypeOrganization
     else if p_EnterpriseID p \<noteq> [] then ForgeEntityTypeEnterprise
     else if p_ForgeInstanceID p \<noteq> [] then ForgeEntityTypeInstance
     else ForgeEntityTypeOther [])"

text \<open>\<^verbatim>\<open>GetEntity\<close> returns a \<^verbatim>\<open>ForgeEntity\<close> with only the type and the ID set.\<close>

definition Pool_GetEntity :: "Pool \<Rightarrow> garm_error + (ForgeEntityType \<times> string)" where
  "Pool_GetEntity p = (case PoolType p of
     ForgeEntityTypeRepository \<Rightarrow> Inr (ForgeEntityTypeRepository, p_RepoID p)
   | ForgeEntityTypeOrganization \<Rightarrow> Inr (ForgeEntityTypeOrganization, p_OrgID p)
   | ForgeEntityTypeEnterprise \<Rightarrow> Inr (ForgeEntityTypeEnterprise, p_EnterpriseID p)
   | ForgeEntityTypeInstance \<Rightarrow> Inr (ForgeEntityTypeInstance, p_ForgeInstanceID p)
   | _ \<Rightarrow> Inl (OtherError ''pool has no associated entity''))"

definition Pool_BelongsTo :: "Pool \<Rightarrow> ForgeEntity \<Rightarrow> bool" where
  "Pool_BelongsTo p entity = (case PoolType p of
     ForgeEntityTypeRepository \<Rightarrow> p_RepoID p = e_ID entity
   | ForgeEntityTypeOrganization \<Rightarrow> p_OrgID p = e_ID entity
   | ForgeEntityTypeEnterprise \<Rightarrow> p_EnterpriseID p = e_ID entity
   | ForgeEntityTypeInstance \<Rightarrow> p_ForgeInstanceID p = e_ID entity
   | _ \<Rightarrow> False)"

definition Pool_HasRequiredLabels :: "Pool \<Rightarrow> string list \<Rightarrow> bool" where
  "Pool_HasRequiredLabels p labels = (if length labels > length (p_Tags p) then False
     else \<forall>l \<in> set labels. to_lower l \<in> set (map (\<lambda>t. to_lower (t_Name t)) (p_Tags p)))"

text \<open>A scale set; of its endpoint the name is kept, the names of template and proxy and the status messages are left out.\<close>

record ScaleSet =
  ss_Prefix :: string
  ss_CreatedAt :: time
  ss_UpdatedAt :: time
  ss_ID :: nat
  ss_ScaleSetID :: int
  ss_Name :: string
  ss_DisableUpdate :: bool
  ss_State :: string
  ss_ExtendedState :: string
  ss_ProviderName :: string
  ss_MaxRunners :: uint64
  ss_MinIdleRunners :: uint64
  ss_Image :: string
  ss_Flavor :: string
  ss_OSType :: string
  ss_OSArch :: string
  ss_Enabled :: bool
  ss_Instances :: "Instance list"
  ss_DesiredRunnerCount :: int
  ss_EnableShell :: bool
  ss_Generation :: uint64
  ss_Endpoint :: string
  ss_RunnerBootstrapTimeout :: nat
  ss_ExtraSpecs :: string
  ss_GitHubRunnerGroup :: string
  ss_Tags :: "Tag list"
  ss_RepoID :: string
  ss_RepoName :: string
  ss_OrgID :: string
  ss_OrgName :: string
  ss_EnterpriseID :: string
  ss_EnterpriseName :: string
  ss_TemplateID :: nat
  ss_ProxyID :: nat
  ss_LastMessageID :: int

definition ScaleSet_RunnerTimeout :: "ScaleSet \<Rightarrow> nat" where
  "ScaleSet_RunnerTimeout p = (if ss_RunnerBootstrapTimeout p = 0 then DefaultRunnerBootstrapTimeout
     else ss_RunnerBootstrapTimeout p)"

fun dedup_labels :: "string list \<Rightarrow> Tag list \<Rightarrow> (string \<times> string) list" where
  "dedup_labels seen [] = []"
| "dedup_labels seen (t # ts) = (if t_Name t \<in> set seen then dedup_labels seen ts
     else (t_Name t, []) # dedup_labels (t_Name t # seen) ts)"

definition GitHubLabels :: "ScaleSet \<Rightarrow> (string \<times> string) list" where
  "GitHubLabels p = (ss_Name p, ''System'') # dedup_labels [ss_Name p] (ss_Tags p)"

definition ScaleSet_HasRequiredLabels :: "ScaleSet \<Rightarrow> string list \<Rightarrow> bool" where
  "ScaleSet_HasRequiredLabels p labels = (if labels = [] then False
     else \<forall>l \<in> set labels. to_lower l = to_lower (ss_Name p) \<or>
            to_lower l \<in> set (map (\<lambda>t. to_lower (t_Name t)) (ss_Tags p)))"

definition ScaleSetType :: "ScaleSet \<Rightarrow> ForgeEntityType" where
  "ScaleSetType p = (if ss_RepoID p \<noteq> [] then ForgeEntityTypeRepository
     else if ss_OrgID p \<noteq> [] then ForgeEntityTypeOrganization
     else if ss_EnterpriseID p \<noteq> [] then ForgeEntityTypeEnterprise
     else ForgeEntityTypeOther [])"

definition ScaleSet_GetEntity :: "ScaleSet \<Rightarrow> garm_error + (ForgeEntityType \<times> string)" where
  "ScaleSet_GetEntity p = (case ScaleSetType p of
     ForgeEntityTypeRepository \<Rightarrow> Inr (ForgeEntityTypeRepository, ss_RepoID p)
   | ForgeEntityTypeOrganization \<Rightarrow> Inr (ForgeEntityTypeOrganization, ss_OrgID p)
   | ForgeEntityTypeEnterprise \<Rightarrow> Inr (ForgeEntityTypeEnterprise, ss_EnterpriseID p)
   | _ \<Rightarrow> Inl (OtherError ''scale set has no associated entity''))"

definition ScaleSet_BelongsTo :: "ScaleSet \<Rightarrow> ForgeEntity \<Rightarrow> bool" where
  "ScaleSet_BelongsTo p entity = (case ScaleSetType p of
     ForgeEntityTypeRepository \<Rightarrow> ss_RepoID p = e_ID entity
   | ForgeEntityTypeOrganization \<Rightarrow> ss_OrgID p = e_ID entity
   | ForgeEntityTypeEnterprise \<Rightarrow> ss_EnterpriseID p = e_ID entity
   | _ \<Rightarrow> False)"

subsection \<open>Jobs of a scale set\<close>

record ScaleSetJob =
  sj_ID :: nat
  sj_ScaleSetJobID :: string
  sj_ScaleSetID :: nat
  sj_WorkflowRunID :: int
  sj_RunnerRequestID :: int
  sj_JobWorkflowRef :: string
  sj_Name :: string
  sj_Status :: string
  sj_Result :: string
  sj_EventName :: string
  sj_RequestLabels :: "string list"
  sj_RepositoryName :: string
  sj_RepositoryOwner :: string
  sj_RunnerGroupName :: string
  sj_RunnerID :: int
  sj_RunnerName :: string
  sj_WorkflowRunURL :: string
  sj_QueueTime :: time
  sj_ScaleSetAssignTime :: time
  sj_RunnerAssignTime :: time
  sj_FinishTime :: time
  sj_CreatedAt :: time
  sj_UpdatedAt :: time

text \<open>A message of the queue of a scale set (\<^verbatim>\<open>params/github.go\<close>).\<close>

record ScaleSetJobMessage =
  m_MessageType :: string
  m_JobID :: string
  m_RunnerRequestID :: int
  m_RepositoryName :: string
  m_OwnerName :: string
  m_JobWorkflowRef :: string
  m_JobDisplayName :: string
  m_WorkflowRunID :: int
  m_EventName :: string
  m_RequestLabels :: "string list"
  m_QueueTime :: time
  m_ScaleSetAssignTime :: time
  m_RunnerAssignTime :: time
  m_FinishTime :: time
  m_Result :: string
  m_RunnerID :: int
  m_RunnerName :: string

definition MessageTypeJobAssigned :: string where "MessageTypeJobAssigned = ''JobAssigned''"
definition MessageTypeJobCompleted :: string where "MessageTypeJobCompleted = ''JobCompleted''"
definition MessageTypeJobStarted :: string where "MessageTypeJobStarted = ''JobStarted''"
definition MessageTypeJobAvailable :: string where "MessageTypeJobAvailable = ''JobAvailable''"

definition MessageTypeToStatus :: "ScaleSetJobMessage \<Rightarrow> string" where
  "MessageTypeToStatus s = (if m_MessageType s = MessageTypeJobAssigned then JobStatusQueued
     else if m_MessageType s = MessageTypeJobStarted then JobStatusInProgress
     else if m_MessageType s = MessageTypeJobCompleted then JobStatusCompleted
     else JobStatusQueued)"

definition ToScaleSetJob :: "ScaleSetJobMessage \<Rightarrow> nat \<Rightarrow> string \<Rightarrow> ScaleSetJob" where
  "ToScaleSetJob s scaleSetID runnerGroup = \<lparr>sj_ID = 0, sj_ScaleSetJobID = m_JobID s, sj_ScaleSetID = scaleSetID,
     sj_WorkflowRunID = m_WorkflowRunID s, sj_RunnerRequestID = m_RunnerRequestID s,
     sj_JobWorkflowRef = m_JobWorkflowRef s, sj_Name = m_JobDisplayName s, sj_Status = MessageTypeToStatus s,
     sj_Result = m_Result s, sj_EventName = m_EventName s, sj_RequestLabels = m_RequestLabels s,
     sj_RepositoryName = m_RepositoryName s, sj_RepositoryOwner = m_OwnerName s, sj_RunnerGroupName = runnerGroup,
     sj_RunnerID = m_RunnerID s, sj_RunnerName = m_RunnerName s, sj_WorkflowRunURL = [], sj_QueueTime = m_QueueTime s,
     sj_ScaleSetAssignTime = m_ScaleSetAssignTime s, sj_RunnerAssignTime = m_RunnerAssignTime s,
     sj_FinishTime = m_FinishTime s, sj_CreatedAt = 0, sj_UpdatedAt = 0\<rparr>"

subsection \<open>Templates and proxies\<close>

record Template =
  tpl_ID :: nat
  tpl_CreatedAt :: time
  tpl_UpdatedAt :: time
  tpl_Name :: string
  tpl_Description :: string
  tpl_OSType :: string
  tpl_ForgeType :: EndpointType
  tpl_Data :: string
  tpl_Owner :: string

record Proxy =
  px_ID :: nat
  px_CreatedAt :: time
  px_UpdatedAt :: time
  px_Name :: string
  px_Description :: string
  px_HTTPProxy :: string
  px_HTTPSProxy :: string
  px_NoProxy :: string
  px_Username :: string
  px_Password :: string

subsection \<open>Lemmas\<close>

lemma uint_as_int_bounds: "0 \<le> uint_as_int n" "uint_as_int n \<le> max_int"
  by (auto simp: uint_as_int_def max_int_def)

lemma uint_as_int_le: "uint_as_int n \<le> uint n"
  by (simp add: uint_as_int_def)

lemma uint_as_int_eq: "uint n \<le> max_int \<Longrightarrow> uint_as_int n = uint n"
  by (simp add: uint_as_int_def)

text \<open>The critical tier never pauses where the normal tier runs.\<close>

lemma critical_limited_normal_limited:
  assumes "0 \<le> reserveThreshold g"
  shows "fst (CriticalRateLimitReached g now) \<Longrightarrow> fst (RateLimitReached g now)"
  using assms
  by (auto simp: CriticalRateLimitReached_def RateLimitReached_def rateLimitReached_def Let_def
      split: option.splits if_splits)

lemma Pool_BelongsTo_GetEntity:
  "Pool_BelongsTo p entity \<longleftrightarrow> (\<exists>ty. Pool_GetEntity p = Inr (ty, e_ID entity))"
  by (auto simp: Pool_BelongsTo_def Pool_GetEntity_def split: ForgeEntityType.splits)

lemma ScaleSet_BelongsTo_GetEntity:
  "ScaleSet_BelongsTo p entity \<longleftrightarrow> (\<exists>ty. ScaleSet_GetEntity p = Inr (ty, e_ID entity))"
  by (auto simp: ScaleSet_BelongsTo_def ScaleSet_GetEntity_def split: ForgeEntityType.splits)

lemma Pool_GetEntity_not_empty: "Pool_GetEntity p = Inr (ty, x) \<Longrightarrow> x \<noteq> []"
  by (auto simp: Pool_GetEntity_def PoolType_def split: if_splits)

lemma Pool_HasRequiredLabels_subset:
  "Pool_HasRequiredLabels p labels \<Longrightarrow> l \<in> set labels \<Longrightarrow> \<exists>t \<in> set (p_Tags p). equal_fold l (t_Name t)"
  by (auto simp: Pool_HasRequiredLabels_def equal_fold_def split: if_splits)

lemma dedup_labels_distinct:
  "distinct (map fst (dedup_labels seen ts)) \<and> set (map fst (dedup_labels seen ts)) \<inter> set seen = {}"
  by (induction seen ts rule: dedup_labels.induct) auto

end
