(* ===== verification/Garm_Events.thy ===== *)
theory Garm_Events
  imports Garm_Params
begin

text \<open>
  The change notifications of the store (\<^verbatim>\<open>database/common/watcher.go\<close>) and the filters a consumer
  composes (\<^verbatim>\<open>database/watcher/filters.go\<close>, \<^verbatim>\<open>runner/pool/util.go\<close>).

  Go declares both kinds of entity type as strings and converts one into the other: the model keeps
  the strings (\<open>db_entity_string\<close>, \<open>forge_entity_string\<close>), because the filters compare them. The
  interface value \<^verbatim>\<open>Payload\<close> is a sum of the payload types the filters and handlers cast to. The
  payload of a repository, organization, enterprise or forge instance event stands for the
  \<^verbatim>\<open>ForgeEntity\<close> its \<^verbatim>\<open>GetEntity\<close> method builds.
\<close>

datatype OperationType = CreateOperation | UpdateOperation | DeleteOperation

datatype DatabaseEntityType =
    RepositoryEntityType | OrganizationEntityType | EnterpriseEntityType | PoolEntityType
  | UserEntityType | InstanceEntityType | JobEntityType | ControllerEntityType
  | GithubCredentialsEntityType | GiteaCredentialsEntityType | GithubEndpointEntityType
  | ScaleSetEntityType | ScaleSetJobEntityType | TemplateEntityType | FileObjectEntityType
  | ForgeInstanceEntityType | ProxyEntityType

fun db_entity_string :: "DatabaseEntityType \<Rightarrow> string" where
  "db_entity_string RepositoryEntityType = ''repository''"
| "db_entity_string OrganizationEntityType = ''organization''"
| "db_entity_string EnterpriseEntityType = ''enterprise''"
| "db_entity_string PoolEntityType = ''pool''"
| "db_entity_string UserEntityType = ''user''"
| "db_entity_string InstanceEntityType = ''instance''"
| "db_entity_string JobEntityType = ''job''"
| "db_entity_string ControllerEntityType = ''controller''"
| "db_entity_string GithubCredentialsEntityType = ''github_credentials''"
| "db_entity_string GiteaCredentialsEntityType = ''gitea_credentials''"
| "db_entity_string GithubEndpointEntityType = ''github_endpoint''"
| "db_entity_string ScaleSetEntityType = ''scaleset''"
| "db_entity_string ScaleSetJobEntityType = ''scaleset_job''"
| "db_entity_string TemplateEntityType = ''template''"
| "db_entity_string FileObjectEntityType = ''file_object''"
| "db_entity_string ForgeInstanceEntityType = ''forge_instance''"
| "db_entity_string ProxyEntityType = ''proxy''"

datatype payload =
    RepositoryPayload ForgeEntity | OrganizationPayload ForgeEntity
  | EnterprisePayload ForgeEntity | ForgeInstancePayload ForgeEntity
  | PoolPayload Pool | InstancePayload Instance | JobPayload Job
  | ControllerPayload ControllerInfo | CredentialsPayload ForgeCredentials
  | ScaleSetPayload ScaleSet | ScaleSetJobPayload ScaleSetJob | UserPayload string | EndpointPayload ForgeEndpoint
  | TemplatePayload Template | ProxyPayload Proxy | OtherPayload

record ChangePayload =
  ev_EntityType :: DatabaseEntityType
  ev_Operation :: OperationType
  ev_Payload :: payload

type_synonym PayloadFilterFunc = "ChangePayload \<Rightarrow> bool"

subsection \<open>Filters\<close>

fun WithAny :: "PayloadFilterFunc list \<Rightarrow> PayloadFilterFunc" where
  "WithAny [] p = False"
| "WithAny (f # fs) p = (if f p then True else WithAny fs p)"

fun WithAll :: "PayloadFilterFunc list \<Rightarrow> PayloadFilterFunc" where
  "WithAll [] p = True"
| "WithAll (f # fs) p = (if \<not> f p then False else WithAll fs p)"

definition WithEntityTypeFilter :: "DatabaseEntityType \<Rightarrow> PayloadFilterFunc" where
  "WithEntityTypeFilter t p \<longleftrightarrow> ev_EntityType p = t"

definition WithOperationTypeFilter :: "OperationType \<Rightarrow> PayloadFilterFunc" where
  "WithOperationTypeFilter t p \<longleftrightarrow> ev_Operation p = t"

definition WithEntityPoolFilter :: "ForgeEntity \<Rightarrow> PayloadFilterFunc" where
  "WithEntityPoolFilter e p \<longleftrightarrow> ev_EntityType p = PoolEntityType \<and>
     (case ev_Payload p of
        PoolPayload pool \<Rightarrow> (case e_EntityType e of
            ForgeEntityTypeRepository \<Rightarrow> p_RepoID pool = e_ID e
          | ForgeEntityTypeOrganization \<Rightarrow> p_OrgID pool = e_ID e
          | ForgeEntityTypeEnterprise \<Rightarrow> p_EnterpriseID pool = e_ID e
          | ForgeEntityTypeInstance \<Rightarrow> p_ForgeInstanceID pool = e_ID e
          | _ \<Rightarrow> False)
      | _ \<Rightarrow> False)"

definition WithEntityScaleSetFilter :: "ForgeEntity \<Rightarrow> PayloadFilterFunc" where
  "WithEntityScaleSetFilter e p = (case GetForgeType e of
     Inl _ \<Rightarrow> False
   | Inr forgeType \<Rightarrow>
       if forgeType = GiteaEndpointType then False
       else ev_EntityType p = ScaleSetEntityType \<and> (case ev_Payload p of
           ScaleSetPayload s \<Rightarrow> (case e_EntityType e of
               ForgeEntityTypeRepository \<Rightarrow> ss_RepoID s = e_ID e
             | ForgeEntityTypeOrganization \<Rightarrow> ss_OrgID s = e_ID e
             | ForgeEntityTypeEnterprise \<Rightarrow> ss_EnterpriseID s = e_ID e
             | _ \<Rightarrow> False)
         | _ \<Rightarrow> False))"

definition WithEntityFilter :: "ForgeEntity \<Rightarrow> PayloadFilterFunc" where
  "WithEntityFilter e p =
     (if db_entity_string (ev_EntityType p) \<noteq> forge_entity_string (e_EntityType e) then False
      else case ev_EntityType p of
          RepositoryEntityType \<Rightarrow>
            (if e_EntityType e \<noteq> ForgeEntityTypeRepository then False
             else case ev_Payload p of RepositoryPayload x \<Rightarrow> e_ID x = e_ID e | _ \<Rightarrow> False)
        | OrganizationEntityType \<Rightarrow>
            (if e_EntityType e \<noteq> ForgeEntityTypeOrganization then False
             else case ev_Payload p of OrganizationPayload x \<Rightarrow> e_ID x = e_ID e | _ \<Rightarrow> False)
        | EnterpriseEntityType \<Rightarrow>
            (if e_EntityType e \<noteq> ForgeEntityTypeEnterprise then False
             else case ev_Payload p of EnterprisePayload x \<Rightarrow> e_ID x = e_ID e | _ \<Rightarrow> False)
        | ForgeInstanceEntityType \<Rightarrow>
            (if e_EntityType e \<noteq> ForgeEntityTypeInstance then False
             else case ev_Payload p of ForgeInstancePayload x \<Rightarrow> e_ID x = e_ID e | _ \<Rightarrow> False)
        | _ \<Rightarrow> False)"

definition opt_uuid_is :: "uuid option \<Rightarrow> string \<Rightarrow> bool" where
  "opt_uuid_is u s = (case u of None \<Rightarrow> False | Some x \<Rightarrow> uuid_string x = s)"

definition WithEntityJobFilter :: "ForgeEntity \<Rightarrow> PayloadFilterFunc" where
  "WithEntityJobFilter e p \<longleftrightarrow> ev_EntityType p = JobEntityType \<and>
     (case ev_Payload p of
        JobPayload job \<Rightarrow> (case e_EntityType e of
            ForgeEntityTypeRepository \<Rightarrow> opt_uuid_is (j_RepoID job) (e_ID e)
          | ForgeEntityTypeOrganization \<Rightarrow> opt_uuid_is (j_OrgID job) (e_ID e)
          | ForgeEntityTypeEnterprise \<Rightarrow> opt_uuid_is (j_EnterpriseID job) (e_ID e)
          | ForgeEntityTypeInstance \<Rightarrow> opt_uuid_is (j_ForgeInstanceID job) (e_ID e)
          | _ \<Rightarrow> False)
      | _ \<Rightarrow> False)"

definition WithForgeCredentialsFilter :: "ForgeCredentials \<Rightarrow> PayloadFilterFunc" where
  "WithForgeCredentialsFilter creds p \<longleftrightarrow>
     ev_EntityType p \<in> {GithubCredentialsEntityType, GiteaCredentialsEntityType} \<and>
     (case ev_Payload p of
        CredentialsPayload c \<Rightarrow> c_ForgeType c = c_ForgeType creds \<and> c_ID c = c_ID creds
      | _ \<Rightarrow> False)"

definition WithUserIDFilter :: "string \<Rightarrow> PayloadFilterFunc" where
  "WithUserIDFilter userID p \<longleftrightarrow> ev_EntityType p = UserEntityType \<and>
     (case ev_Payload p of UserPayload u \<Rightarrow> u = userID | _ \<Rightarrow> False)"

definition WithNone :: PayloadFilterFunc where "WithNone p = False"

definition WithEverything :: PayloadFilterFunc where "WithEverything p = True"

definition WithExcludeEntityTypeFilter :: "DatabaseEntityType \<Rightarrow> PayloadFilterFunc" where
  "WithExcludeEntityTypeFilter t p \<longleftrightarrow> ev_EntityType p \<noteq> t"

definition WithScaleSetFilter :: "ScaleSet \<Rightarrow> PayloadFilterFunc" where
  "WithScaleSetFilter s p \<longleftrightarrow> ev_EntityType p = ScaleSetEntityType \<and>
     (case ev_Payload p of ScaleSetPayload x \<Rightarrow> ss_ID x = ss_ID s | _ \<Rightarrow> False)"

definition WithScaleSetInstanceFilter :: "ScaleSet \<Rightarrow> PayloadFilterFunc" where
  "WithScaleSetInstanceFilter s p \<longleftrightarrow> ev_EntityType p = InstanceEntityType \<and>
     (case ev_Payload p of
        InstancePayload i \<Rightarrow> if i_ScaleSetID i = 0 then False else i_ScaleSetID i = ss_ID s
      | _ \<Rightarrow> False)"

definition WithEntityTypeAndCallbackFilter ::
    "DatabaseEntityType \<Rightarrow> (ChangePayload \<Rightarrow> garm_error + bool) \<Rightarrow> PayloadFilterFunc" where
  "WithEntityTypeAndCallbackFilter t callback p = (if ev_EntityType p \<noteq> t then False
     else case callback p of Inl _ \<Rightarrow> False | Inr ok \<Rightarrow> ok)"

definition WithInstanceStatusFilter :: "InstanceStatus list \<Rightarrow> PayloadFilterFunc" where
  "WithInstanceStatusFilter statuses p \<longleftrightarrow> ev_EntityType p = InstanceEntityType \<and>
     (case ev_Payload p of
        InstancePayload i \<Rightarrow> statuses \<noteq> [] \<and> (\<exists>s \<in> set statuses. i_Status i = s)
      | _ \<Rightarrow> False)"

definition WithInstanceFilter :: "Instance \<Rightarrow> PayloadFilterFunc" where
  "WithInstanceFilter x p \<longleftrightarrow> ev_EntityType p = InstanceEntityType \<and>
     (case ev_Payload p of InstancePayload i \<Rightarrow> i_Name i = i_Name x | _ \<Rightarrow> False)"

text \<open>The events a pool manager subscribes to.\<close>

definition composeWatcherFilters :: "ForgeEntity \<Rightarrow> PayloadFilterFunc" where
  "composeWatcherFilters entity = WithAny [
     WithAll [WithEntityTypeFilter ControllerEntityType, WithOperationTypeFilter UpdateOperation],
     WithEntityFilter entity,
     WithForgeCredentialsFilter (e_Credentials entity),
     WithAll [WithEntityJobFilter entity,
       WithAny [WithOperationTypeFilter UpdateOperation, WithOperationTypeFilter CreateOperation,
         WithOperationTypeFilter DeleteOperation]]]"

subsection \<open>Lemmas\<close>

lemma WithAny_iff: "WithAny fs p \<longleftrightarrow> (\<exists>f \<in> set fs. f p)"
  by (induction fs) auto

lemma WithAll_iff: "WithAll fs p \<longleftrightarrow> (\<forall>f \<in> set fs. f p)"
  by (induction fs) auto

lemma opt_uuid_is_Some [simp]: "opt_uuid_is (Some u) s \<longleftrightarrow> uuid_string u = s"
  by (simp add: opt_uuid_is_def)

lemma opt_uuid_is_None [simp]: "\<not> opt_uuid_is None s"
  by (simp add: opt_uuid_is_def)

lemma db_entity_string_inj: "db_entity_string a = db_entity_string b \<longleftrightarrow> a = b"
  by (cases a; cases b) simp_all

text \<open>The filter on jobs is the method \<^verbatim>\<open>Job.BelongsTo\<close>.\<close>

lemma WithEntityJobFilter_BelongsTo:
  "WithEntityJobFilter e p \<longleftrightarrow>
     ev_EntityType p = JobEntityType \<and> (\<exists>job. ev_Payload p = JobPayload job \<and> Job_BelongsTo job e)"
  by (auto simp: WithEntityJobFilter_def Job_BelongsTo_def opt_uuid_is_def
      split: payload.splits ForgeEntityType.splits option.splits)

lemma any_operation: "op = UpdateOperation \<or> op = CreateOperation \<or> op = DeleteOperation"
  by (cases op) simp_all

text \<open>Every event the manager receives is one of the four kinds its handler acts on.\<close>

lemma composeWatcherFilters_iff:
  "composeWatcherFilters e p \<longleftrightarrow>
     ev_EntityType p = ControllerEntityType \<and> ev_Operation p = UpdateOperation \<or>
     WithEntityFilter e p \<or> WithForgeCredentialsFilter (e_Credentials e) p \<or>
     (\<exists>job. ev_EntityType p = JobEntityType \<and> ev_Payload p = JobPayload job \<and> Job_BelongsTo job e)"
  using any_operation [of "ev_Operation p"]
  by (auto simp: composeWatcherFilters_def WithEntityTypeFilter_def WithOperationTypeFilter_def
      WithEntityJobFilter_BelongsTo)

lemma WithEntityFilter_known:
  assumes "e_EntityType e \<in> {ForgeEntityTypeRepository, ForgeEntityTypeOrganization, ForgeEntityTypeEnterprise}"
  shows "WithEntityFilter e p \<longleftrightarrow> db_entity_string (ev_EntityType p) = forge_entity_string (e_EntityType e) \<and>
    (case ev_Payload p of
       RepositoryPayload x \<Rightarrow> e_EntityType e = ForgeEntityTypeRepository \<and> e_ID x = e_ID e
     | OrganizationPayload x \<Rightarrow> e_EntityType e = ForgeEntityTypeOrganization \<and> e_ID x = e_ID e
     | EnterprisePayload x \<Rightarrow> e_EntityType e = ForgeEntityTypeEnterprise \<and> e_ID x = e_ID e
     | _ \<Rightarrow> False)"
  using assms
  by (cases "ev_EntityType p"; cases "ev_Payload p") (auto simp: WithEntityFilter_def)

text \<open>
  An entity of type \<^verbatim>\<open>instance\<close> never sees its own changes: its type string is \<^verbatim>\<open>instance\<close>, the
  type string of the events about it is \<^verbatim>\<open>forge_instance\<close>.
\<close>

lemma WithEntityFilter_forge_instance:
  "e_EntityType e = ForgeEntityTypeInstance \<Longrightarrow> \<not> WithEntityFilter e p"
  by (cases "ev_EntityType p") (auto simp: WithEntityFilter_def)

end
