(* ===== verification/Garm_Db.thy ===== *)
theory Garm_Db
  imports Garm_Monad Garm_Events
begin

text \<open>
  The tables of the store (\<^verbatim>\<open>database/sql/models.go\<close>), the way a query runs, and the conversions of
  rows to the types of package \<^verbatim>\<open>params\<close> (\<^verbatim>\<open>database/sql/util.go\<close>, \<^verbatim>\<open>database/sql/jobs.go\<close>).

  A table is the list of its rows in the order the store returns them. JSON and sealed columns are
  kept decoded: marshalling and sealing a value and reading it back gives the value. Associations
  (\<^verbatim>\<open>Preload\<close>) are looked up when a row is loaded. The columns an operation does not touch and
  nothing of the model reads are left out.

  A statement or transaction may fail: \<open>db_faults\<close> says for each of the next ones whether the
  database reports an error (\<open>[]\<close>: none will). A failed transaction leaves the tables as they were.
  The clock and the random UUIDs are part of the state the environment supplies.
\<close>

subsection \<open>Rows\<close>

record InstanceRow =
  ir_ID :: uuid
  ir_ProviderID :: "string option"
  ir_Name :: string
  ir_AgentID :: int
  ir_OSType :: string
  ir_OSArch :: string
  ir_OSName :: string
  ir_OSVersion :: string
  ir_Addresses :: "Address list"
  ir_Status :: InstanceStatus
  ir_RunnerStatus :: RunnerStatus
  ir_Heartbeat :: time
  ir_CallbackURL :: string
  ir_MetadataURL :: string
  ir_ProviderFault :: string
  ir_CreateAttempt :: int
  ir_TokenFetched :: bool
  ir_JitConfiguration :: "(string \<times> string) list"
  ir_GitHubRunnerGroup :: string
  ir_AditionalLabels :: "string list"
  ir_HasShell :: bool
  ir_Generation :: uint64
  ir_PoolID :: "uuid option"
  ir_ScaleSetFkID :: "nat option"
  ir_StatusMessages :: "(uuid \<times> StatusMessage) list"
  ir_CreatedAt :: time
  ir_UpdatedAt :: time

record PoolRow =
  pr_ID :: uuid
  pr_ProviderName :: string
  pr_RunnerPrefix :: string
  pr_MaxRunners :: uint64
  pr_MinIdleRunners :: uint64
  pr_RunnerBootstrapTimeout :: nat
  pr_Image :: string
  pr_Flavor :: string
  pr_OSType :: string
  pr_OSArch :: string
  pr_Tags :: "uuid list"
  pr_Enabled :: bool
  pr_ExtraSpecs :: string
  pr_GitHubRunnerGroup :: string
  pr_EnableShell :: bool
  pr_Generation :: uint64
  pr_RepoID :: "uuid option"
  pr_OrgID :: "uuid option"
  pr_EnterpriseID :: "uuid option"
  pr_ForgeInstanceID :: "uuid option"
  pr_TemplateID :: "nat option"
  pr_ProxyID :: "nat option"
  pr_Priority :: nat
  pr_CreatedAt :: time
  pr_UpdatedAt :: time

record WorkflowJob =
  jr_ID :: int
  jr_WorkflowJobID :: int
  jr_RunID :: int
  jr_Action :: string
  jr_Conclusion :: string
  jr_Status :: string
  jr_Name :: string
  jr_StartedAt :: time
  jr_CompletedAt :: time
  jr_GithubRunnerID :: int
  jr_InstanceID :: "uuid option"
  jr_RunnerGroupID :: int
  jr_RunnerGroupName :: string
  jr_RepositoryName :: string
  jr_RepositoryOwner :: string
  jr_Labels :: "string list"
  jr_WorkflowRunURL :: string
  jr_RepoID :: "uuid option"
  jr_OrgID :: "uuid option"
  jr_EnterpriseID :: "uuid option"
  jr_ForgeInstanceID :: "uuid option"
  jr_PoolID :: "uuid option"
  jr_LockedBy :: uuid
  jr_CreatedAt :: time
  jr_UpdatedAt :: time

record ScaleSetRow =
  sr_ID :: nat
  sr_ScaleSetID :: int
  sr_Name :: string
  sr_GitHubRunnerGroup :: string
  sr_DisableUpdate :: bool
  sr_State :: string
  sr_ExtendedState :: string
  sr_ProviderName :: string
  sr_RunnerPrefix :: string
  sr_MaxRunners :: uint64
  sr_MinIdleRunners :: uint64
  sr_RunnerBootstrapTimeout :: nat
  sr_Image :: string
  sr_Flavor :: string
  sr_OSType :: string
  sr_OSArch :: string
  sr_Enabled :: bool
  sr_LastMessageID :: int
  sr_DesiredRunnerCount :: int
  sr_ExtraSpecs :: string
  sr_EnableShell :: bool
  sr_Generation :: uint64
  sr_RepoID :: "uuid option"
  sr_OrgID :: "uuid option"
  sr_EnterpriseID :: "uuid option"
  sr_TemplateID :: "nat option"
  sr_ProxyID :: "nat option"
  sr_Tags :: "uuid list"
  sr_CreatedAt :: time
  sr_UpdatedAt :: time

text \<open>A job of a scale set has the columns of \<^verbatim>\<open>params.ScaleSetJob\<close>; a zero \<open>sj_ScaleSetID\<close> is the missing foreign key.\<close>

text \<open>A repository, organization, enterprise or forge instance: \<open>er_Type\<close> says which of the four tables a row is in. For an
  organization or enterprise \<open>er_Name\<close> is its name; an enterprise has GitHub credentials only, a forge instance Gitea credentials
  only.\<close>

record EntityRow =
  er_ID :: uuid
  er_Type :: ForgeEntityType
  er_Owner :: string
  er_Name :: string
  er_EndpointName :: string
  er_PoolManagerStatus :: PoolManagerStatus
  er_CredentialsID :: "nat option"
  er_GiteaCredentialsID :: "nat option"
  er_WebhookSecret :: string
  er_PoolBalancerType :: PoolBalancerType
  er_AgentMode :: bool
  er_CreatedAt :: time
  er_UpdatedAt :: time

text \<open>The credentials of both forges: \<open>cr_ForgeType\<close> says which of the two tables a row is in. The payload is kept unsealed.\<close>

record CredentialsRow =
  cr_ID :: nat
  cr_ForgeType :: EndpointType
  cr_UserID :: "uuid option"
  cr_Name :: string
  cr_Description :: string
  cr_AuthType :: string
  cr_Payload :: string
  cr_EndpointName :: string
  cr_ReserveUsageEnabled :: bool
  cr_ReserveUsagePercentage :: int
  cr_CreatedAt :: time
  cr_UpdatedAt :: time

record UserRow =
  us_ID :: uuid
  us_Username :: string
  us_FullName :: string
  us_Email :: string
  us_Password :: string
  us_Generation :: uint64
  us_IsAdmin :: bool
  us_Enabled :: bool
  us_CreatedAt :: time
  us_UpdatedAt :: time

record ControllerRow =
  ctl_ControllerID :: uuid
  ctl_CallbackURL :: string
  ctl_MetadataURL :: string
  ctl_WebhookBaseURL :: string
  ctl_AgentURL :: string
  ctl_GARMAgentReleasesURL :: string
  ctl_SyncGARMAgentTools :: bool
  ctl_GARMAgentVersion :: string
  ctl_MinimumJobAgeBackoff :: uint64
  ctl_CachedGARMAgentReleases :: string
  ctl_CachedGARMAgentReleaseFetchedAt :: "time option"
  ctl_AllowInsecureGARMAgent :: bool
  ctl_CACertBundle :: string

text \<open>A template without a user belongs to the system. The template and the credentials of a proxy are kept unsealed.\<close>

record TemplateRow =
  tr_ID :: nat
  tr_Name :: string
  tr_UserID :: "uuid option"
  tr_Description :: string
  tr_OSType :: string
  tr_ForgeType :: EndpointType
  tr_Data :: string
  tr_CreatedAt :: time
  tr_UpdatedAt :: time

record ProxyRow =
  xr_ID :: nat
  xr_Name :: string
  xr_Description :: string
  xr_HTTPProxy :: string
  xr_HTTPSProxy :: string
  xr_NoProxy :: string
  xr_Credentials :: "(string \<times> string) option"
  xr_CreatedAt :: time
  xr_UpdatedAt :: time

text \<open>An endpoint row is a \<^verbatim>\<open>params.ForgeEndpoint\<close>, with its columns for Gitea filled in. A foreign key to an endpoint is its name,
  empty for NULL.\<close>

record db =
  db_instances :: "InstanceRow list"
  db_pools :: "PoolRow list"
  db_jobs :: "WorkflowJob list"
  db_next_job :: int
  db_tags :: "Tag list"
  db_entities :: "EntityRow list"
  db_scalesets :: "ScaleSetRow list"
  db_next_scaleset :: nat
  db_scaleset_jobs :: "ScaleSetJob list"
  db_next_scaleset_job :: nat
  db_proxies :: "ProxyRow list"
  db_next_proxy :: nat
  db_templates :: "TemplateRow list"
  db_next_template :: nat
  db_producer :: bool
  db_notifications :: "ChangePayload list"
  db_faults :: "bool list"
  db_clock :: time
  db_uuids :: "nat \<Rightarrow> uuid"
  db_uuid_next :: nat
  db_endpoints :: "ForgeEndpoint list"
  db_credentials :: "CredentialsRow list"
  db_next_credentials :: "EndpointType \<Rightarrow> nat"
  db_users :: "UserRow list"
  db_controller :: "ControllerRow option"

subsection \<open>Statements, transactions, notifications\<close>

definition DatabaseError :: garm_error where
  "DatabaseError = OtherError ''database error''"

definition db_stmt :: "(db, 'a) prog \<Rightarrow> (db, 'a) prog" where
  "db_stmt body d = (case db_faults d of
     [] \<Rightarrow> body d
   | b # bs \<Rightarrow> if b then (Inl DatabaseError, d\<lparr>db_faults := bs\<rparr>) else body (d\<lparr>db_faults := bs\<rparr>))"

text \<open>An error inside a transaction rolls the tables back; used UUIDs stay used.\<close>

definition db_tx :: "(db, 'a) prog \<Rightarrow> (db, 'a) prog" where
  "db_tx body = db_stmt (\<lambda>d. case body d of
     (Inl e, d') \<Rightarrow> (Inl e, d\<lparr>db_uuid_next := db_uuid_next d'\<rparr>)
   | (Inr x, d') \<Rightarrow> (Inr x, d'))"

definition new_uuid :: "(db, uuid) prog" where
  "new_uuid d = (Inr (db_uuids d (db_uuid_next d)), d\<lparr>db_uuid_next := db_uuid_next d + 1\<rparr>)"

definition sendNotify :: "DatabaseEntityType \<Rightarrow> OperationType \<Rightarrow> payload \<Rightarrow> (db, unit) prog" where
  "sendNotify entityType op pl = m_modify (\<lambda>d. if \<not> db_producer d then d
     else d\<lparr>db_notifications := db_notifications d @
       [\<lparr>ev_EntityType = entityType, ev_Operation = op, ev_Payload = pl\<rparr>]\<rparr>)"

definition option_or :: "garm_error \<Rightarrow> 'a option \<Rightarrow> garm_error + 'a" where
  "option_or e r = (case r of None \<Rightarrow> Inl e | Some x \<Rightarrow> Inr x)"

subsection \<open>Rows to params\<close>

text \<open>The job's instance is the preloaded association: \<open>None\<close> is the zero value of \<^verbatim>\<open>Instance\<close>.\<close>

definition sqlWorkflowJobToParamsJob :: "WorkflowJob \<Rightarrow> InstanceRow option \<Rightarrow> Job" where
  "sqlWorkflowJobToParamsJob job inst = \<lparr>
     j_ID = jr_ID job, j_WorkflowJobID = jr_WorkflowJobID job, j_RunID = jr_RunID job,
     j_Action = jr_Action job, j_Conclusion = jr_Conclusion job, j_Status = jr_Status job,
     j_Name = jr_Name job, j_StartedAt = jr_StartedAt job, j_CompletedAt = jr_CompletedAt job,
     j_GithubRunnerID = jr_GithubRunnerID job,
     j_RunnerName = (if jr_InstanceID job \<noteq> None
        then (case inst of None \<Rightarrow> [] | Some i \<Rightarrow> ir_Name i) else []),
     j_RunnerGroupID = jr_RunnerGroupID job, j_RunnerGroupName = jr_RunnerGroupName job,
     j_RepositoryName = jr_RepositoryName job, j_RepositoryOwner = jr_RepositoryOwner job,
     j_WorkflowRunURL = jr_WorkflowRunURL job, j_Labels = jr_Labels job,
     j_RepoID = jr_RepoID job, j_OrgID = jr_OrgID job, j_EnterpriseID = jr_EnterpriseID job,
     j_ForgeInstanceID = jr_ForgeInstanceID job, j_PoolID = jr_PoolID job,
     j_LockedBy = jr_LockedBy job, j_CreatedAt = jr_CreatedAt job, j_UpdatedAt = jr_UpdatedAt job\<rparr>"

text \<open>A row with the associations a query preloaded for it.\<close>

record InstanceLoaded =
  il_row :: InstanceRow
  il_pool :: "PoolRow option"
  il_scaleset :: "string option"
  il_job :: "WorkflowJob option"
  il_addresses :: bool
  il_messages :: bool

definition sqlToParamsInstance :: "InstanceLoaded \<Rightarrow> garm_error + Instance" where
  "sqlToParamsInstance l = (let r = il_row l;
       scaleSetID = (case ir_ScaleSetFkID r of None \<Rightarrow> 0 | Some n \<Rightarrow> n);
       ssProvider = (case ir_ScaleSetFkID r of None \<Rightarrow> []
          | Some _ \<Rightarrow> (case il_scaleset l of None \<Rightarrow> [] | Some p \<Rightarrow> p));
       poolID = (case ir_PoolID r of None \<Rightarrow> [] | Some u \<Rightarrow> uuid_string u);
       provider = (case ir_PoolID r of None \<Rightarrow> ssProvider
          | Some _ \<Rightarrow> (case il_pool l of None \<Rightarrow> [] | Some p \<Rightarrow> pr_ProviderName p))
     in if scaleSetID = 0 \<and> poolID = [] then Inl (OtherError ''missing pool or scale set id'')
        else if scaleSetID \<noteq> 0 \<and> poolID \<noteq> [] then Inl (OtherError ''both pool and scale set ids are set'')
        else Inr \<lparr>
          i_ID = uuid_string (ir_ID r),
          i_ProviderID = (case ir_ProviderID r of None \<Rightarrow> [] | Some p \<Rightarrow> p),
          i_ProviderName = provider, i_AgentID = ir_AgentID r, i_Name = ir_Name r,
          i_OSType = ir_OSType r, i_OSName = ir_OSName r, i_OSVersion = ir_OSVersion r,
          i_OSArch = ir_OSArch r,
          i_Addresses = (if il_addresses l then ir_Addresses r else []),
          i_Status = ir_Status r, i_RunnerStatus = ir_RunnerStatus r,
          i_PoolID = poolID, i_ScaleSetID = scaleSetID, i_ProviderFault = ir_ProviderFault r,
          i_StatusMessages = (if il_messages l then map snd (ir_StatusMessages r) else []),
          i_CreatedAt = ir_CreatedAt r, i_UpdatedAt = ir_UpdatedAt r,
          i_GitHubRunnerGroup = ir_GitHubRunnerGroup r,
          i_Job = (case il_job l of None \<Rightarrow> None | Some j \<Rightarrow> Some (sqlWorkflowJobToParamsJob j None)),
          i_Heartbeat = ir_Heartbeat r, i_HasShell = ir_HasShell r,
          i_Generation = ir_Generation r, i_CallbackURL = ir_CallbackURL r,
          i_MetadataURL = ir_MetadataURL r, i_CreateAttempt = ir_CreateAttempt r,
          i_TokenFetched = ir_TokenFetched r, i_AditionalLabels = ir_AditionalLabels r,
          i_JitConfiguration = ir_JitConfiguration r\<rparr>)"

text \<open>The loops that convert a slice of instances and return at the first error.\<close>

primrec convert_instances :: "InstanceLoaded list \<Rightarrow> garm_error + Instance list" where
  "convert_instances [] = Inr []"
| "convert_instances (l # ls) = (case sqlToParamsInstance l of Inl e \<Rightarrow> Inl e
     | Inr i \<Rightarrow> (case convert_instances ls of Inl e \<Rightarrow> Inl e | Inr is \<Rightarrow> Inr (i # is)))"

record PoolLoaded =
  pl_row :: PoolRow
  pl_tags :: "Tag list"
  pl_instances :: "InstanceLoaded list"
  pl_entity :: "EntityRow option"

definition opt_uuid_string :: "uuid option \<Rightarrow> string" where
  "opt_uuid_string u = (case u of None \<Rightarrow> [] | Some x \<Rightarrow> uuid_string x)"

definition sqlToCommonPool :: "PoolLoaded \<Rightarrow> garm_error + Pool" where
  "sqlToCommonPool l = (let r = pl_row l;
       of_type = (\<lambda>ty. case pl_entity l of None \<Rightarrow> None
          | Some e \<Rightarrow> if er_Type e = ty then Some e else None);
       repo = of_type ForgeEntityTypeRepository; org = of_type ForgeEntityTypeOrganization;
       ent = of_type ForgeEntityTypeEnterprise; fi = of_type ForgeEntityTypeInstance;
       has_org = (pr_OrgID r \<noteq> None \<and> (case org of None \<Rightarrow> False | Some e \<Rightarrow> er_Name e \<noteq> []));
       has_ent = (pr_EnterpriseID r \<noteq> None \<and> (case ent of None \<Rightarrow> False | Some e \<Rightarrow> er_Name e \<noteq> []));
       has_fi = (pr_ForgeInstanceID r \<noteq> None \<and> fi \<noteq> None)
     in case convert_instances (pl_instances l) of Inl e \<Rightarrow> Inl e
        | Inr insts \<Rightarrow> Inr \<lparr>
          p_Prefix = pr_RunnerPrefix r, p_ID = uuid_string (pr_ID r),
          p_ProviderName = pr_ProviderName r, p_MaxRunners = pr_MaxRunners r,
          p_MinIdleRunners = pr_MinIdleRunners r, p_Image = pr_Image r, p_Flavor = pr_Flavor r,
          p_OSType = pr_OSType r, p_OSArch = pr_OSArch r, p_Tags = pl_tags l,
          p_Enabled = pr_Enabled r, p_Instances = insts, p_EnableShell = pr_EnableShell r,
          p_Generation = pr_Generation r,
          p_RepoID = opt_uuid_string (pr_RepoID r),
          p_RepoName = (if pr_RepoID r = None then [] else case repo of None \<Rightarrow> []
             | Some e \<Rightarrow> if er_Owner e \<noteq> [] \<and> er_Name e \<noteq> [] then er_Owner e @ ''/'' @ er_Name e else []),
          p_OrgID = (if has_org then opt_uuid_string (pr_OrgID r) else []),
          p_OrgName = (if has_org then (case org of None \<Rightarrow> [] | Some e \<Rightarrow> er_Name e) else []),
          p_EnterpriseID = (if has_ent then opt_uuid_string (pr_EnterpriseID r) else []),
          p_EnterpriseName = (if has_ent then (case ent of None \<Rightarrow> [] | Some e \<Rightarrow> er_Name e) else []),
          p_ForgeInstanceID = (if has_fi then opt_uuid_string (pr_ForgeInstanceID r) else []),
          p_Endpoint = (case pl_entity l of None \<Rightarrow> [] | Some e \<Rightarrow> er_EndpointName e),
          p_RunnerBootstrapTimeout = pr_RunnerBootstrapTimeout r,
          p_CreatedAt = pr_CreatedAt r, p_UpdatedAt = pr_UpdatedAt r, p_ExtraSpecs = pr_ExtraSpecs r,
          p_GitHubRunnerGroup = pr_GitHubRunnerGroup r, p_Priority = pr_Priority r,
          p_TemplateID = (case pr_TemplateID r of None \<Rightarrow> 0 | Some n \<Rightarrow> n),
          p_ProxyID = (case pr_ProxyID r of None \<Rightarrow> 0 | Some n \<Rightarrow> n)\<rparr>)"

subsection \<open>Loading associations\<close>

definition find_pool :: "db \<Rightarrow> uuid option \<Rightarrow> PoolRow option" where
  "find_pool d u = (case u of None \<Rightarrow> None | Some x \<Rightarrow> List.find (\<lambda>p. pr_ID p = x) (db_pools d))"

definition find_instance :: "db \<Rightarrow> uuid option \<Rightarrow> InstanceRow option" where
  "find_instance d u = (case u of None \<Rightarrow> None | Some x \<Rightarrow> List.find (\<lambda>i. ir_ID i = x) (db_instances d))"

text \<open>The has-one association \<^verbatim>\<open>Job\<close>: the last of the rows that refer to the instance.\<close>

definition find_instance_job :: "db \<Rightarrow> InstanceRow \<Rightarrow> WorkflowJob option" where
  "find_instance_job d i = List.find (\<lambda>j. jr_InstanceID j = Some (ir_ID i)) (rev (db_jobs d))"

definition scaleset_provider :: "db \<Rightarrow> nat option \<Rightarrow> string option" where
  "scaleset_provider d n = (case n of None \<Rightarrow> None | Some x \<Rightarrow>
     map_option sr_ProviderName (List.find (\<lambda>r. sr_ID r = x) (db_scalesets d)))"

text \<open>With \<^verbatim>\<open>clause.Associations\<close> everything is loaded; a list query loads pool, scale set and job.\<close>

definition load_full :: "db \<Rightarrow> InstanceRow \<Rightarrow> InstanceLoaded" where
  "load_full d i = \<lparr>il_row = i, il_pool = find_pool d (ir_PoolID i),
     il_scaleset = scaleset_provider d (ir_ScaleSetFkID i), il_job = find_instance_job d i,
     il_addresses = True, il_messages = True\<rparr>"

definition load_list :: "db \<Rightarrow> InstanceRow \<Rightarrow> InstanceLoaded" where
  "load_list d i = (load_full d i)\<lparr>il_addresses := False, il_messages := False\<rparr>"

definition load_bare :: "InstanceRow \<Rightarrow> InstanceLoaded" where
  "load_bare i = \<lparr>il_row = i, il_pool = None, il_scaleset = None, il_job = None,
     il_addresses = False, il_messages = False\<rparr>"

definition pool_tags :: "db \<Rightarrow> PoolRow \<Rightarrow> Tag list" where
  "pool_tags d p = List.map_filter (\<lambda>u. List.find (\<lambda>t. t_ID t = u) (db_tags d)) (pr_Tags p)"

definition pool_entity :: "db \<Rightarrow> PoolRow \<Rightarrow> EntityRow option" where
  "pool_entity d p = List.find (\<lambda>e.
     (er_Type e = ForgeEntityTypeRepository \<and> pr_RepoID p = Some (er_ID e)) \<or>
     (er_Type e = ForgeEntityTypeOrganization \<and> pr_OrgID p = Some (er_ID e)) \<or>
     (er_Type e = ForgeEntityTypeEnterprise \<and> pr_EnterpriseID p = Some (er_ID e)) \<or>
     (er_Type e = ForgeEntityTypeInstance \<and> pr_ForgeInstanceID p = Some (er_ID e))) (db_entities d)"

definition pool_instances :: "db \<Rightarrow> PoolRow \<Rightarrow> InstanceRow list" where
  "pool_instances d p = filter (\<lambda>i. ir_PoolID i = Some (pr_ID p)) (db_instances d)"

text \<open>The preload list of \<^verbatim>\<open>GetPoolByID\<close> and \<^verbatim>\<open>GetEntityPool\<close>.\<close>

definition load_pool :: "db \<Rightarrow> PoolRow \<Rightarrow> PoolLoaded" where
  "load_pool d p = \<lparr>pl_row = p, pl_tags = pool_tags d p,
     pl_instances = map load_bare (pool_instances d p), pl_entity = pool_entity d p\<rparr>"

subsection \<open>Lemmas\<close>

lemma sqlToParamsInstance_Inr:
  assumes "sqlToParamsInstance l = Inr i"
  shows "i_Name i = ir_Name (il_row l)" "i_Status i = ir_Status (il_row l)"
    "i_RunnerStatus i = ir_RunnerStatus (il_row l)" "i_ID i = uuid_string (ir_ID (il_row l))"
    "i_CreateAttempt i = ir_CreateAttempt (il_row l)" "i_AgentID i = ir_AgentID (il_row l)"
    "i_PoolID i = opt_uuid_string (ir_PoolID (il_row l))"
  using assms unfolding sqlToParamsInstance_def Let_def opt_uuid_string_def
  by (simp_all only: split: if_split_asm) (auto simp only: sum.inject Instance.simps sum.distinct)

lemma sqlToParamsInstance_pool:
  "ir_PoolID (il_row l) = Some u \<Longrightarrow> ir_ScaleSetFkID (il_row l) = None \<Longrightarrow>
   \<exists>i. sqlToParamsInstance l = Inr i"
  by (simp add: sqlToParamsInstance_def Let_def)

lemma convert_instances_map:
  assumes "convert_instances ls = Inr is"
  shows "map i_Name is = map (\<lambda>l. ir_Name (il_row l)) ls"
    and "map i_Status is = map (\<lambda>l. ir_Status (il_row l)) ls"
    and "map i_RunnerStatus is = map (\<lambda>l. ir_RunnerStatus (il_row l)) ls"
    and "length is = length ls"
  using assms
  by (induction ls arbitrary: "is") (auto split: sum.splits dest: sqlToParamsInstance_Inr)

lemma sqlToCommonPool_Inr:
  assumes "sqlToCommonPool l = Inr p"
  shows "p_ID p = uuid_string (pr_ID (pl_row l))" "p_MaxRunners p = pr_MaxRunners (pl_row l)"
    "p_MinIdleRunners p = pr_MinIdleRunners (pl_row l)" "p_Enabled p = pr_Enabled (pl_row l)"
    "p_Tags p = pl_tags l" "p_Priority p = pr_Priority (pl_row l)"
    "p_Generation p = pr_Generation (pl_row l)"
  using assms by (auto simp: sqlToCommonPool_def Let_def split: sum.splits)

lemma find_pool_mem: "find_pool d (Some u) = Some p \<Longrightarrow> p \<in> set (db_pools d) \<and> pr_ID p = u"
  by (auto simp: find_pool_def dest: find_SomeD)

text \<open>A statement runs its body on a state that differs in the faults only.\<close>

lemma db_stmt_ok:
  assumes "db_stmt body d = (Inr x, d')"
  obtains bs where "body (d\<lparr>db_faults := bs\<rparr>) = (Inr x, d')"
proof (cases "db_faults d")
  case Nil
  then have "d\<lparr>db_faults := []\<rparr> = d" by (cases d) simp
  with Nil assms that [of "[]"] show thesis by (simp add: db_stmt_def)
next
  case (Cons b bs)
  with assms that [of bs] show thesis by (simp add: db_stmt_def split: if_splits)
qed

lemma db_tx_ok:
  assumes "db_tx body d = (Inr x, d')"
  obtains bs where "body (d\<lparr>db_faults := bs\<rparr>) = (Inr x, d')"
  using assms unfolding db_tx_def
  by (rule db_stmt_ok) (auto split: prod.splits sum.splits)

subsection \<open>A small store\<close>

text \<open>One repository with one pool for at most two runners, one runner of that pool and one queued
  job: the concrete input on which the properties of the operations are run.\<close>

definition ex_entity :: EntityRow where
  "ex_entity = \<lparr>er_ID = 9, er_Type = ForgeEntityTypeRepository, er_Owner = ''acme'', er_Name = ''app'',
     er_EndpointName = ''github.com'', er_PoolManagerStatus = \<lparr>pms_IsRunning = True, pms_FailureReason = []\<rparr>,
     er_CredentialsID = Some 1, er_GiteaCredentialsID = None, er_WebhookSecret = ''hush'', er_PoolBalancerType = PoolBalancerTypeRoundRobin,
     er_AgentMode = False, er_CreatedAt = 5, er_UpdatedAt = 5\<rparr>"

definition ex_endpoint_row :: ForgeEndpoint where
  "ex_endpoint_row = \<lparr>ep_Name = ''github.com'', ep_Description = [], ep_APIBaseURL = ''https://api.github.com'', ep_UploadBaseURL = [],
     ep_BaseURL = ''https://github.com'', ep_CACertBundle = [], ep_CreatedAt = 1, ep_UpdatedAt = 1, ep_ToolsMetadataURL = [],
     ep_UseInternalToolsMetadata = None, ep_EndpointType = GithubEndpointType\<rparr>"

definition ex_credentials_row :: CredentialsRow where
  "ex_credentials_row = \<lparr>cr_ID = 1, cr_ForgeType = GithubEndpointType, cr_UserID = Some 3, cr_Name = ''bot'', cr_Description = [],
     cr_AuthType = ''pat'', cr_Payload = ''token'', cr_EndpointName = ''github.com'', cr_ReserveUsageEnabled = False,
     cr_ReserveUsagePercentage = 0, cr_CreatedAt = 2, cr_UpdatedAt = 2\<rparr>"

definition ex_user_row :: UserRow where
  "ex_user_row = \<lparr>us_ID = 3, us_Username = ''admin'', us_FullName = ''Admin'', us_Email = ''admin@acme.com'', us_Password = ''hash'',
     us_Generation = 0, us_IsAdmin = True, us_Enabled = True, us_CreatedAt = 1, us_UpdatedAt = 1\<rparr>"

definition ex_tag :: Tag where
  "ex_tag = \<lparr>t_ID = 7, t_Name = ''Linux''\<rparr>"

definition ex_pool :: PoolRow where
  "ex_pool = \<lparr>pr_ID = 1, pr_ProviderName = ''lxd'', pr_RunnerPrefix = ''garm'', pr_MaxRunners = 2,
     pr_MinIdleRunners = 1, pr_RunnerBootstrapTimeout = 20, pr_Image = ''ubuntu'', pr_Flavor = ''small'',
     pr_OSType = ''linux'', pr_OSArch = ''amd64'', pr_Tags = [7], pr_Enabled = True, pr_ExtraSpecs = [],
     pr_GitHubRunnerGroup = [], pr_EnableShell = False, pr_Generation = 3, pr_RepoID = Some 9,
     pr_OrgID = None, pr_EnterpriseID = None, pr_ForgeInstanceID = None, pr_TemplateID = None,
     pr_ProxyID = None, pr_Priority = 5, pr_CreatedAt = 10, pr_UpdatedAt = 10\<rparr>"

definition ex_instance :: InstanceRow where
  "ex_instance = \<lparr>ir_ID = 2, ir_ProviderID = Some ''lxd-1'', ir_Name = ''garm-one'', ir_AgentID = 11,
     ir_OSType = ''linux'', ir_OSArch = ''amd64'', ir_OSName = [], ir_OSVersion = [], ir_Addresses = [],
     ir_Status = InstanceRunning, ir_RunnerStatus = RunnerIdle, ir_Heartbeat = 0, ir_CallbackURL = [],
     ir_MetadataURL = [], ir_ProviderFault = [], ir_CreateAttempt = 1, ir_TokenFetched = True,
     ir_JitConfiguration = [], ir_GitHubRunnerGroup = [], ir_AditionalLabels = [], ir_HasShell = False,
     ir_Generation = 3, ir_PoolID = Some 1, ir_ScaleSetFkID = None, ir_StatusMessages = [],
     ir_CreatedAt = 20, ir_UpdatedAt = 20\<rparr>"

definition ex_job :: WorkflowJob where
  "ex_job = \<lparr>jr_ID = 1, jr_WorkflowJobID = 42, jr_RunID = 4, jr_Action = ''queued'', jr_Conclusion = [],
     jr_Status = ''queued'', jr_Name = ''build'', jr_StartedAt = 0, jr_CompletedAt = 0,
     jr_GithubRunnerID = 0, jr_InstanceID = None, jr_RunnerGroupID = 0, jr_RunnerGroupName = [],
     jr_RepositoryName = ''app'', jr_RepositoryOwner = ''acme'', jr_Labels = [''linux''],
     jr_WorkflowRunURL = [], jr_RepoID = Some 9, jr_OrgID = None, jr_EnterpriseID = None,
     jr_ForgeInstanceID = None, jr_PoolID = None, jr_LockedBy = uuid_nil, jr_CreatedAt = 30, jr_UpdatedAt = 30\<rparr>"

definition ex_db :: db where
  "ex_db = \<lparr>db_instances = [ex_instance], db_pools = [ex_pool], db_jobs = [ex_job], db_next_job = 2,
     db_tags = [ex_tag], db_entities = [ex_entity], db_scalesets = [], db_next_scaleset = 1,
     db_scaleset_jobs = [], db_next_scaleset_job = 1, db_proxies = [], db_next_proxy = 1, db_templates = [], db_next_template = 1,
     db_producer = True, db_notifications = [], db_faults = [], db_clock = 100,
     db_uuids = (\<lambda>n. of_nat n + 100), db_uuid_next = 0, db_endpoints = [ex_endpoint_row], db_credentials = [ex_credentials_row],
     db_next_credentials = (\<lambda>_. 2), db_users = [ex_user_row], db_controller = None\<rparr>"

lemma ex_db_fields [simp]:
  "db_instances ex_db = [ex_instance]" "db_pools ex_db = [ex_pool]" "db_jobs ex_db = [ex_job]"
  "db_next_job ex_db = 2" "db_tags ex_db = [ex_tag]" "db_entities ex_db = [ex_entity]"
  "db_faults ex_db = []" "db_clock ex_db = 100" "db_uuids ex_db 0 = 100" "db_uuid_next ex_db = 0"
  "db_endpoints ex_db = [ex_endpoint_row]" "db_credentials ex_db = [ex_credentials_row]" "db_users ex_db = [ex_user_row]" "db_controller ex_db = None"
  by (simp_all add: ex_db_def)

end
