(* ===== verification/Garm_Instances.thy ===== *)
theory Garm_Instances
  imports Garm_Db
begin

text \<open>
  The instance operations of the store (\<^verbatim>\<open>database/sql/instances.go\<close>): creation under the pool's
  limit, guarded and forced updates, deletion, status messages and listings.
\<close>

subsection \<open>Lookups\<close>

definition getPoolByID :: "string \<Rightarrow> db \<Rightarrow> garm_error + PoolRow" where
  "getPoolByID poolID d = (case uuid_parse poolID of
     None \<Rightarrow> Inl BadRequestError
   | Some u \<Rightarrow> option_or NotFoundError (List.find (\<lambda>p. pr_ID p = u) (db_pools d)))"

definition instance_matches :: "string \<Rightarrow> InstanceRow \<Rightarrow> bool" where
  "instance_matches nameOrID i = (case uuid_parse nameOrID of
     None \<Rightarrow> ir_Name i = nameOrID | Some u \<Rightarrow> ir_ID i = u)"

definition getInstance :: "string \<Rightarrow> db \<Rightarrow> garm_error + InstanceLoaded" where
  "getInstance nameOrID d = (case List.find (instance_matches nameOrID) (db_instances d) of
     None \<Rightarrow> Inl NotFoundError | Some i \<Rightarrow> Inr (load_full d i))"

text \<open>A read outside a transaction is a statement of its own.\<close>

definition db_read :: "(db \<Rightarrow> garm_error + 'a) \<Rightarrow> (db, 'a) prog" where
  "db_read q = db_stmt (\<lambda>d. (q d, d))"

definition m_query :: "(db \<Rightarrow> garm_error + 'a) \<Rightarrow> (db, 'a) prog" where
  "m_query q d = (q d, d)"

definition getPoolInstanceByName :: "string \<Rightarrow> string \<Rightarrow> (db, InstanceLoaded) prog" where
  "getPoolInstanceByName poolID instanceName =
     m_bind (db_read (getPoolByID poolID)) (\<lambda>pool.
       db_read (\<lambda>d. case List.find (\<lambda>i. ir_Name i = instanceName \<and> ir_PoolID i = Some (pr_ID pool))
            (db_instances d) of
          None \<Rightarrow> Inl NotFoundError
        | Some i \<Rightarrow> Inr ((load_full d i)\<lparr>il_pool := Some pool\<rparr>)))"

definition GetInstance :: "string \<Rightarrow> (db, Instance) prog" where
  "GetInstance instanceName =
     m_bind (db_read (getInstance instanceName)) (\<lambda>l. m_result (sqlToParamsInstance l))"

subsection \<open>Creation\<close>

definition count_pool :: "uuid \<Rightarrow> db \<Rightarrow> nat" where
  "count_pool u d = length (filter (\<lambda>i. ir_PoolID i = Some u) (db_instances d))"

definition insert_instance :: "InstanceRow \<Rightarrow> (db, unit) prog" where
  "insert_instance r d =
     (if \<exists>i \<in> set (db_instances d). ir_ID i = ir_ID r \<or> ir_Name i = ir_Name r
      then (Inl DatabaseError, d)
      else (Inr (), d\<lparr>db_instances := db_instances d @ [r]\<rparr>))"

definition new_instance :: "uuid \<Rightarrow> PoolRow \<Rightarrow> CreateInstanceParams \<Rightarrow> time \<Rightarrow> InstanceRow" where
  "new_instance u pool param now = \<lparr>ir_ID = u, ir_ProviderID = None, ir_Name = cip_Name param,
     ir_AgentID = cip_AgentID param, ir_OSType = cip_OSType param, ir_OSArch = cip_OSArch param,
     ir_OSName = [], ir_OSVersion = [], ir_Addresses = [], ir_Status = cip_Status param,
     ir_RunnerStatus = cip_RunnerStatus param, ir_Heartbeat = 0,
     ir_CallbackURL = cip_CallbackURL param, ir_MetadataURL = cip_MetadataURL param,
     ir_ProviderFault = [], ir_CreateAttempt = 0, ir_TokenFetched = False,
     ir_JitConfiguration = cip_JitConfiguration param,
     ir_GitHubRunnerGroup = cip_GitHubRunnerGroup param,
     ir_AditionalLabels = cip_AditionalLabels param, ir_HasShell = False,
     ir_Generation = cip_Generation param, ir_PoolID = Some (pr_ID pool), ir_ScaleSetFkID = None,
     ir_StatusMessages = [], ir_CreatedAt = now, ir_UpdatedAt = now\<rparr>"

definition create_instance_tx :: "string \<Rightarrow> CreateInstanceParams \<Rightarrow> (db, unit) prog" where
  "create_instance_tx poolID param =
     m_bind (m_query (getPoolByID poolID)) (\<lambda>pool.
     m_bind (m_get (count_pool (pr_ID pool))) (\<lambda>cnt.
       if int cnt \<ge> uint_as_int (pr_MaxRunners pool) then m_throw ConflictError
       else m_bind new_uuid (\<lambda>u. m_bind (m_get db_clock) (\<lambda>now.
              insert_instance (new_instance u pool param now)))))"

definition CreateInstance :: "string \<Rightarrow> CreateInstanceParams \<Rightarrow> (db, Instance) prog" where
  "CreateInstance poolID param =
     m_seq (db_tx (create_instance_tx poolID param))
       (m_bind (GetInstance (cip_Name param)) (\<lambda>inst.
          m_seq (sendNotify InstanceEntityType CreateOperation (InstancePayload inst)) (m_ret inst)))"

subsection \<open>Deletion\<close>

definition zero_Instance :: Instance where
  "zero_Instance = \<lparr>i_ID = [], i_ProviderID = [], i_ProviderName = [], i_AgentID = 0, i_Name = [],
     i_OSType = [], i_OSName = [], i_OSVersion = [], i_OSArch = [], i_Addresses = [],
     i_Status = InstanceStatusEmpty, i_RunnerStatus = RunnerStatusEmpty, i_PoolID = [],
     i_ScaleSetID = 0, i_ProviderFault = [], i_StatusMessages = [], i_CreatedAt = 0,
     i_UpdatedAt = 0, i_GitHubRunnerGroup = [], i_Job = None, i_Heartbeat = 0,
     i_HasShell = False, i_Generation = 0, i_CallbackURL = [], i_MetadataURL = [],
     i_CreateAttempt = 0, i_TokenFetched = False, i_AditionalLabels = [], i_JitConfiguration = []\<rparr>"

text \<open>The foreign keys of addresses, status messages and jobs cascade.\<close>

definition delete_instance_row :: "uuid \<Rightarrow> db \<Rightarrow> db" where
  "delete_instance_row u d = d\<lparr>db_instances := del_rows (\<lambda>i. ir_ID i = u) (db_instances d),
     db_jobs := del_rows (\<lambda>j. jr_InstanceID j = Some u) (db_jobs d)\<rparr>"

definition delete_notification :: "InstanceRow \<Rightarrow> Instance" where
  "delete_notification r = zero_Instance\<lparr>i_ID := uuid_string (ir_ID r), i_Name := ir_Name r,
     i_ProviderID := (case ir_ProviderID r of None \<Rightarrow> [] | Some p \<Rightarrow> p), i_AgentID := ir_AgentID r,
     i_PoolID := opt_uuid_string (ir_PoolID r),
     i_ScaleSetID := (if ir_PoolID r \<noteq> None then 0
        else case ir_ScaleSetFkID r of None \<Rightarrow> 0 | Some n \<Rightarrow> n)\<rparr>"

definition DeleteInstance :: "string \<Rightarrow> string \<Rightarrow> (db, unit) prog" where
  "DeleteInstance poolID instanceName =
     m_bind (m_try (getPoolInstanceByName poolID instanceName)) (\<lambda>r. case r of
       Inl e \<Rightarrow> if error_is e NotFoundError then m_ret () else m_throw e
     | Inr l \<Rightarrow> m_seq (db_stmt (m_modify (delete_instance_row (ir_ID (il_row l)))))
         (sendNotify InstanceEntityType DeleteOperation (InstancePayload (delete_notification (il_row l)))))"

text \<open>The payload of \<^verbatim>\<open>DeleteInstanceByName\<close> carries both keys.\<close>

definition DeleteInstanceByName :: "string \<Rightarrow> (db, unit) prog" where
  "DeleteInstanceByName instanceName =
     m_bind (m_try (db_read (getInstance instanceName))) (\<lambda>r. case r of
       Inl e \<Rightarrow> if error_is e NotFoundError then m_ret () else m_throw e
     | Inr l \<Rightarrow> m_seq (db_stmt (m_modify (delete_instance_row (ir_ID (il_row l)))))
         (sendNotify InstanceEntityType DeleteOperation (InstancePayload
            ((delete_notification (il_row l))\<lparr>i_ScaleSetID :=
               (case ir_ScaleSetFkID (il_row l) of None \<Rightarrow> 0 | Some n \<Rightarrow> n)\<rparr>))))"

subsection \<open>Status messages\<close>

definition maxStatusMessages :: nat where "maxStatusMessages = 30"

definition upd_instance :: "uuid \<Rightarrow> (InstanceRow \<Rightarrow> InstanceRow) \<Rightarrow> db \<Rightarrow> db" where
  "upd_instance u f d = d\<lparr>db_instances := upd_rows (\<lambda>i. ir_ID i = u) f (db_instances d)\<rparr>"

definition instance_messages :: "uuid \<Rightarrow> db \<Rightarrow> (uuid \<times> StatusMessage) list" where
  "instance_messages u d = (case List.find (\<lambda>i. ir_ID i = u) (db_instances d) of
     None \<Rightarrow> [] | Some i \<Rightarrow> ir_StatusMessages i)"

text \<open>\<^verbatim>\<open>Order("id desc").Offset(n).Limit(1)\<close> on the keys of the messages.\<close>

definition cutoff_message :: "(uuid \<times> StatusMessage) list \<Rightarrow> uuid" where
  "cutoff_message msgs = rev (sort (map fst msgs)) ! (maxStatusMessages - 1)"

definition AddInstanceEvent :: "string \<Rightarrow> string \<Rightarrow> string \<Rightarrow> string \<Rightarrow> (db, unit) prog" where
  "AddInstanceEvent instanceName event eventLevel statusMessage =
     m_bind (db_read (getInstance instanceName)) (\<lambda>l. let u = ir_ID (il_row l) in
     m_seq (db_stmt (m_bind new_uuid (\<lambda>m. m_modify (\<lambda>d. upd_instance u (\<lambda>i. i\<lparr>ir_StatusMessages :=
         ir_StatusMessages i @ [(m, \<lparr>sm_CreatedAt = db_clock d, sm_Message = statusMessage,
            sm_EventType = event, sm_EventLevel = eventLevel\<rparr>)]\<rparr>) d))))
     (m_bind (db_read (\<lambda>d. Inr (length (instance_messages u d)))) (\<lambda>count.
       m_when (count > maxStatusMessages)
         (m_bind (db_read (\<lambda>d. Inr (cutoff_message (instance_messages u d)))) (\<lambda>cutoff.
            db_stmt (m_modify (upd_instance u (\<lambda>i. i\<lparr>ir_StatusMessages :=
              filter (\<lambda>m. \<not> fst m < cutoff) (ir_StatusMessages i)\<rparr>))))))))"

subsection \<open>Updates\<close>

definition applyInstanceUpdates :: "UpdateInstanceParams \<Rightarrow> InstanceRow \<Rightarrow> InstanceRow" where
  "applyInstanceUpdates param r = r\<lparr>
     ir_AgentID := (if uip_AgentID param \<noteq> 0 then uip_AgentID param else ir_AgentID r),
     ir_ProviderID := (if uip_ProviderID param \<noteq> [] then Some (uip_ProviderID param) else ir_ProviderID r),
     ir_OSName := (if uip_OSName param \<noteq> [] then uip_OSName param else ir_OSName r),
     ir_OSVersion := (if uip_OSVersion param \<noteq> [] then uip_OSVersion param else ir_OSVersion r),
     ir_RunnerStatus := (if uip_RunnerStatus param \<noteq> RunnerStatusEmpty
        then uip_RunnerStatus param else ir_RunnerStatus r),
     ir_Heartbeat := (case uip_Heartbeat param of None \<Rightarrow> ir_Heartbeat r | Some t \<Rightarrow> t),
     ir_Status := (if uip_Status param \<noteq> InstanceStatusEmpty then uip_Status param else ir_Status r),
     ir_CreateAttempt := (if uip_CreateAttempt param \<noteq> 0 then uip_CreateAttempt param else ir_CreateAttempt r),
     ir_TokenFetched := (case uip_TokenFetched param of None \<Rightarrow> ir_TokenFetched r | Some b \<Rightarrow> b),
     ir_HasShell := (case uip_Capabilities param of None \<Rightarrow> ir_HasShell r | Some b \<Rightarrow> b),
     ir_JitConfiguration := (case uip_JitConfiguration param of None \<Rightarrow> ir_JitConfiguration r | Some c \<Rightarrow> c),
     ir_ProviderFault := uip_ProviderFault param\<rparr>"

definition validate_update :: "UpdateInstanceParams \<Rightarrow> InstanceRow \<Rightarrow> garm_error option" where
  "validate_update param r = (case validateAgentID (ir_AgentID r) (uip_AgentID param) of
     Some e \<Rightarrow> Some e
   | None \<Rightarrow> (case validateRunnerStatusTransition (ir_RunnerStatus r) (uip_RunnerStatus param) of
       Some e \<Rightarrow> Some e
     | None \<Rightarrow> validateInstanceStatusTransition (ir_Status r) (uip_Status param)))"

text \<open>\<^verbatim>\<open>Save\<close> of an instance: the provider id is unique; then the addresses are replaced.\<close>

definition save_instance :: "UpdateInstanceParams \<Rightarrow> InstanceRow \<Rightarrow> (db, unit) prog" where
  "save_instance param r d =
     (if \<exists>i \<in> set (db_instances d). ir_ID i \<noteq> ir_ID r \<and> ir_ProviderID r \<noteq> None \<and> ir_ProviderID i = ir_ProviderID r
      then (Inl DatabaseError, d)
      else (Inr (), upd_instance (ir_ID r) (\<lambda>_. r\<lparr>ir_UpdatedAt := db_clock d,
        ir_Addresses := (if uip_Addresses param \<noteq> [] then uip_Addresses param else ir_Addresses r)\<rparr>) d))"

definition update_instance_tx :: "string \<Rightarrow> UpdateInstanceParams \<Rightarrow> bool \<Rightarrow> (db, unit) prog" where
  "update_instance_tx instanceName param force =
     m_bind (m_query (getInstance instanceName)) (\<lambda>l.
       case (if force then None else validate_update param (il_row l)) of
         Some e \<Rightarrow> m_throw e
       | None \<Rightarrow> save_instance param (applyInstanceUpdates param (il_row l)))"

definition updateInstance :: "string \<Rightarrow> UpdateInstanceParams \<Rightarrow> bool \<Rightarrow> (db, Instance) prog" where
  "updateInstance instanceName param force =
     m_seq (db_tx (update_instance_tx instanceName param force))
       (m_bind (db_read (getInstance instanceName)) (\<lambda>l.
        m_bind (m_result (sqlToParamsInstance l)) (\<lambda>inst.
          m_seq (sendNotify InstanceEntityType UpdateOperation (InstancePayload inst)) (m_ret inst))))"

definition ForceUpdateInstance :: "string \<Rightarrow> UpdateInstanceParams \<Rightarrow> (db, Instance) prog" where
  "ForceUpdateInstance instanceName param = updateInstance instanceName param True"

definition UpdateInstance :: "string \<Rightarrow> UpdateInstanceParams \<Rightarrow> (db, Instance) prog" where
  "UpdateInstance instanceName param = updateInstance instanceName param False"

subsection \<open>Listings\<close>

definition batchSize :: nat where "batchSize = 1000"

function list_batches :: "('a \<Rightarrow> InstanceLoaded) \<Rightarrow> 'a list \<Rightarrow> nat \<Rightarrow> garm_error + Instance list" where
  "list_batches load rows offset = (let batch = take batchSize (drop offset rows) in
     if batch = [] then Inr []
     else case convert_instances (map load batch) of
         Inl e \<Rightarrow> Inl e
       | Inr is \<Rightarrow> (case list_batches load rows (offset + length batch) of
           Inl e \<Rightarrow> Inl e | Inr rest \<Rightarrow> Inr (is @ rest)))"
  by pat_completeness auto
termination
  by (relation "measure (\<lambda>(_, rows, offset). length rows - offset)") (auto simp: batchSize_def)

declare list_batches.simps [simp del]

definition listInstancesBatched :: "(db \<Rightarrow> InstanceRow \<Rightarrow> bool) \<Rightarrow> (db, Instance list) prog" where
  "listInstancesBatched queryModifier =
     db_tx (m_query (\<lambda>d. list_batches (load_list d) (filter (queryModifier d) (db_instances d)) 0))"

definition ListPoolInstances :: "string \<Rightarrow> bool \<Rightarrow> (db, Instance list) prog" where
  "ListPoolInstances poolID outdatedOnly = (case uuid_parse poolID of
     None \<Rightarrow> m_throw BadRequestError
   | Some u \<Rightarrow> listInstancesBatched (\<lambda>d i. ir_PoolID i = Some u \<and> (outdatedOnly \<longrightarrow>
       (case find_pool d (ir_PoolID i) of None \<Rightarrow> False | Some p \<Rightarrow> ir_Generation i < pr_Generation p))))"

definition ListAllInstances :: "(db, Instance list) prog" where
  "ListAllInstances = listInstancesBatched (\<lambda>_ _. True)"

definition PoolInstanceCount :: "string \<Rightarrow> (db, int) prog" where
  "PoolInstanceCount poolID =
     m_bind (db_read (getPoolByID poolID)) (\<lambda>pool.
       db_read (\<lambda>d. Inr (int (count_pool (pr_ID pool) d))))"

subsection \<open>Relations on store states\<close>

text \<open>
  A relation that ignores the bookkeeping of the store (faults, used UUIDs, notifications) is kept
  by every statement and transaction whose body keeps it.
\<close>

locale db_order = step_order R for R :: "db \<Rightarrow> db \<Rightarrow> bool" +
  assumes R_faults: "R d (d\<lparr>db_faults := fs\<rparr>)"
    and R_uuid: "R d (d\<lparr>db_uuid_next := n\<rparr>)"
    and R_notify: "R d (d\<lparr>db_notifications := ns\<rparr>)"
begin

lemma st_stmt: "steps R m \<Longrightarrow> steps R (db_stmt m)"
  unfolding steps_def db_stmt_def
  by (auto simp: R_faults split: list.splits) (metis R_faults R_trans)

lemma st_tx: "steps R m \<Longrightarrow> steps R (db_tx m)"
  unfolding db_tx_def
  by (rule st_stmt, rule stepsI) (auto simp: R_uuid dest: stepsD split: prod.splits sum.splits)

lemma st_new_uuid: "steps R new_uuid"
  by (simp add: steps_def new_uuid_def R_uuid)

lemma st_notify: "steps R (sendNotify t op pl)"
  by (simp add: steps_def sendNotify_def R_notify R_refl)

lemma st_query: "steps R (m_query q)"
  by (simp add: steps_def m_query_def R_refl)

lemma st_read: "steps R (db_read q)"
  unfolding db_read_def by (rule st_stmt) (simp add: steps_def R_refl)

lemmas db_rules = st_rules st_stmt st_tx st_new_uuid st_notify st_query st_read

lemma st_GetInstance: "steps R (GetInstance n)"
  unfolding GetInstance_def by (intro db_rules)

lemma st_getPoolInstanceByName: "steps R (getPoolInstanceByName p n)"
  unfolding getPoolInstanceByName_def by (intro db_rules)

lemma st_ListPoolInstances: "steps R (ListPoolInstances p b)"
  unfolding ListPoolInstances_def listInstancesBatched_def by (intro db_rules)

lemma st_ListAllInstances: "steps R ListAllInstances"
  unfolding ListAllInstances_def listInstancesBatched_def by (intro db_rules)

lemma st_PoolInstanceCount: "steps R (PoolInstanceCount p)"
  unfolding PoolInstanceCount_def by (intro db_rules)

lemmas instance_reads = st_GetInstance st_getPoolInstanceByName st_ListPoolInstances
  st_ListAllInstances st_PoolInstanceCount

text \<open>The writes keep the relation as soon as their single row operation does.\<close>

lemma st_CreateInstance:
  "steps R (create_instance_tx p c) \<Longrightarrow> steps R (CreateInstance p c)"
  unfolding CreateInstance_def by (intro db_rules st_GetInstance)

lemma st_DeleteInstance:
  "(\<And>u. steps R (m_modify (delete_instance_row u))) \<Longrightarrow> steps R (DeleteInstance p n)"
  unfolding DeleteInstance_def by (intro db_rules st_getPoolInstanceByName)

lemma st_DeleteInstanceByName:
  "(\<And>u. steps R (m_modify (delete_instance_row u))) \<Longrightarrow> steps R (DeleteInstanceByName n)"
  unfolding DeleteInstanceByName_def by (intro db_rules)

lemma st_updateInstance:
  "steps R (update_instance_tx n p f) \<Longrightarrow> steps R (updateInstance n p f)"
  unfolding updateInstance_def by (intro db_rules)

lemma st_AddInstanceEvent:
  "(\<And>u f. (\<And>i. ir_ID (f i) = ir_ID i \<and> ir_Name (f i) = ir_Name i \<and> ir_PoolID (f i) = ir_PoolID i) \<Longrightarrow>
     steps R (m_modify (upd_instance u f))) \<Longrightarrow>
   (\<And>u (f :: db \<Rightarrow> InstanceRow \<Rightarrow> InstanceRow).
     (\<And>d i. ir_ID (f d i) = ir_ID i \<and> ir_Name (f d i) = ir_Name i \<and> ir_PoolID (f d i) = ir_PoolID i) \<Longrightarrow>
     steps R (m_modify (\<lambda>d. upd_instance u (f d) d))) \<Longrightarrow>
   steps R (AddInstanceEvent n e l m)"
  unfolding AddInstanceEvent_def by (intro db_rules) auto

end

subsection \<open>The limit of a pool\<close>

definition pool_limits :: "db \<Rightarrow> (uuid \<times> uint64) list" where
  "pool_limits d = map (\<lambda>p. (pr_ID p, pr_MaxRunners p)) (db_pools d)"

definition pool_limit :: "uuid \<Rightarrow> db \<Rightarrow> nat" where
  "pool_limit u d = (case map_of (pool_limits d) u of None \<Rightarrow> 0 | Some m \<Rightarrow> nat (uint_as_int m))"

definition capacity_step :: "db \<Rightarrow> db \<Rightarrow> bool" where
  "capacity_step d d' \<longleftrightarrow> pool_limits d' = pool_limits d \<and>
     (\<forall>u. count_pool u d' \<le> max (count_pool u d) (pool_limit u d))"

lemma map_of_pool_limits:
  "List.find (\<lambda>p. pr_ID p = u) ps = Some p \<Longrightarrow>
   map_of (map (\<lambda>p. (pr_ID p, pr_MaxRunners p)) ps) u = Some (pr_MaxRunners p)"
  by (induction ps) (auto split: if_splits)

lemma getPoolByID_ok:
  assumes "getPoolByID poolID d = Inr p"
  shows "uuid_parse poolID = Some (pr_ID p)" "List.find (\<lambda>q. pr_ID q = pr_ID p) (db_pools d) = Some p"
    "pool_limit (pr_ID p) d = nat (uint_as_int (pr_MaxRunners p))"
proof -
  obtain u where u: "uuid_parse poolID = Some u" and f: "List.find (\<lambda>q. pr_ID q = u) (db_pools d) = Some p"
    using assms by (auto simp: getPoolByID_def option_or_def split: option.splits)
  have "pr_ID p = u" using find_SomeD [OF f] by simp
  with u f show "uuid_parse poolID = Some (pr_ID p)"
    "List.find (\<lambda>q. pr_ID q = pr_ID p) (db_pools d) = Some p"
    "pool_limit (pr_ID p) d = nat (uint_as_int (pr_MaxRunners p))"
    by (simp_all add: pool_limit_def pool_limits_def map_of_pool_limits)
qed

lemma capacity_same: "db_pools d' = db_pools d \<Longrightarrow> (\<And>u. count_pool u d' \<le> count_pool u d) \<Longrightarrow> capacity_step d d'"
  by (auto simp: capacity_step_def pool_limits_def intro: le_trans max.cobounded1)

interpretation cap: db_order capacity_step
proof unfold_locales
  fix s t u
  assume st: "capacity_step s t" and tu: "capacity_step t u"
  have lim: "pool_limit x t = pool_limit x s" for x
    using st by (simp add: capacity_step_def pool_limit_def)
  show "capacity_step s u"
    unfolding capacity_step_def
  proof (intro conjI allI)
    show "pool_limits u = pool_limits s"
      using st tu by (simp add: capacity_step_def)
    fix x
    have "count_pool x u \<le> max (count_pool x t) (pool_limit x s)"
      and "count_pool x t \<le> max (count_pool x s) (pool_limit x s)"
      using st tu lim by (auto simp: capacity_step_def)
    then show "count_pool x u \<le> max (count_pool x s) (pool_limit x s)"
      by simp
  qed
qed (simp_all add: capacity_same count_pool_def)

lemma insert_instance_count:
  "insert_instance r d = (x, d') \<Longrightarrow>
   count_pool u d' \<le> count_pool u d + (if ir_PoolID r = Some u then 1 else 0)"
  by (auto simp: insert_instance_def count_pool_def split: if_splits)

lemma capacity_create_tx: "steps capacity_step (create_instance_tx p c)"
proof (rule stepsI)
  fix d
  show "capacity_step d (snd (create_instance_tx p c d))"
  proof (cases "getPoolByID p d")
    case (Inl e)
    then show ?thesis
      by (simp add: create_instance_tx_def m_query_def m_bind_def cap.R_refl)
  next
    case (Inr pool)
    let ?d1 = "d\<lparr>db_uuid_next := db_uuid_next d + 1\<rparr>"
    let ?r = "new_instance (db_uuids d (db_uuid_next d)) pool c (db_clock d)"
    show ?thesis
    proof (cases "int (count_pool (pr_ID pool) d) \<ge> uint_as_int (pr_MaxRunners pool)")
      case True
      with Inr show ?thesis
        by (simp add: create_instance_tx_def m_query_def m_bind_def cap.R_refl)
    next
      case False
      obtain x d' where ins: "insert_instance ?r ?d1 = (x, d')"
        by (cases "insert_instance ?r ?d1") auto
      have run: "snd (create_instance_tx p c d) = d'"
        using Inr False ins by (simp add: create_instance_tx_def m_query_def m_bind_def new_uuid_def)
      have pools: "pool_limits d' = pool_limits d"
        using ins by (auto simp: insert_instance_def pool_limits_def split: if_splits)
      have "count_pool u d' \<le> max (count_pool u d) (pool_limit u d)" for u
        using insert_instance_count [OF ins, of u] False getPoolByID_ok(3) [OF Inr]
        by (auto simp: count_pool_def new_instance_def split: if_splits)
      with pools run show ?thesis by (simp add: capacity_step_def)
    qed
  qed
qed

lemma capacity_delete_row: "steps capacity_step (m_modify (delete_instance_row u))"
  by (rule steps_modify) (simp add: capacity_same delete_instance_row_def count_pool_def filter_del_rows_le)

lemma count_upd_instance:
  "(\<And>i. ir_ID i = u \<Longrightarrow> i \<in> set (db_instances d) \<Longrightarrow> ir_PoolID (f i) = ir_PoolID i) \<Longrightarrow>
   count_pool v (upd_instance u f d) = count_pool v d"
proof -
  have "length (filter (\<lambda>i. ir_PoolID i = Some v) (upd_rows (\<lambda>i. ir_ID i = u) f rows)) =
      length (filter (\<lambda>i. ir_PoolID i = Some v) rows)"
    if "\<And>i. ir_ID i = u \<Longrightarrow> i \<in> set rows \<Longrightarrow> ir_PoolID (f i) = ir_PoolID i" for rows
    using that by (induction rows) auto
  then show "(\<And>i. ir_ID i = u \<Longrightarrow> i \<in> set (db_instances d) \<Longrightarrow> ir_PoolID (f i) = ir_PoolID i) \<Longrightarrow>
    count_pool v (upd_instance u f d) = count_pool v d"
    by (simp add: count_pool_def upd_instance_def)
qed

subsection \<open>Well-formed tables\<close>

text \<open>Primary keys and names are unique, and each operation keeps them so while no pool grows beyond
  its limit.\<close>

definition keys_ok :: "db \<Rightarrow> bool" where
  "keys_ok d \<longleftrightarrow> distinct (map ir_ID (db_instances d)) \<and> distinct (map ir_Name (db_instances d))"

definition store_step :: "db \<Rightarrow> db \<Rightarrow> bool" where
  "store_step d d' \<longleftrightarrow> (keys_ok d \<longrightarrow> keys_ok d' \<and> capacity_step d d')"

interpretation sto: db_order store_step
  by unfold_locales
    (auto simp: store_step_def keys_ok_def capacity_same count_pool_def intro: cap.R_trans)

lemma store_stepI: "(keys_ok d \<Longrightarrow> keys_ok d') \<Longrightarrow> (keys_ok d \<Longrightarrow> capacity_step d d') \<Longrightarrow> store_step d d'"
  by (simp add: store_step_def)

lemma keys_ok_insert:
  "insert_instance r d = (x, d') \<Longrightarrow> keys_ok d \<Longrightarrow> keys_ok d'"
  by (auto 0 3 simp: insert_instance_def keys_ok_def split: if_splits)

lemma keys_ok_create_tx:
  assumes "keys_ok d"
  shows "keys_ok (snd (create_instance_tx p c d))"
proof -
  have ok: "keys_ok (d\<lparr>db_uuid_next := n\<rparr>)" for n
    using assms by (simp add: keys_ok_def)
  have keep: "keys_ok (snd (insert_instance r (d\<lparr>db_uuid_next := n\<rparr>)))" for r n
    by (cases "insert_instance r (d\<lparr>db_uuid_next := n\<rparr>)") (simp add: keys_ok_insert [OF _ ok])
  show ?thesis
  proof (cases "getPoolByID p d")
    case (Inr pool)
    with assms keep show ?thesis
      by (simp add: create_instance_tx_def m_query_def m_bind_def new_uuid_def)
  qed (simp add: assms create_instance_tx_def m_query_def m_bind_def)
qed

lemma keys_ok_delete_row: "keys_ok d \<Longrightarrow> keys_ok (delete_instance_row u d)"
  by (simp add: keys_ok_def delete_instance_row_def distinct_map_del_rows)

lemma keys_ok_upd:
  "keys_ok d \<Longrightarrow> (\<And>i. ir_ID i = u \<Longrightarrow> i \<in> set (db_instances d) \<Longrightarrow> ir_ID (f i) = ir_ID i \<and> ir_Name (f i) = ir_Name i) \<Longrightarrow>
   keys_ok (upd_instance u f d)"
  by (simp add: keys_ok_def upd_instance_def map_upd_rows_mem)

lemma store_upd_instance:
  assumes "keys_ok d \<Longrightarrow> (\<And>i. ir_ID i = u \<Longrightarrow> i \<in> set (db_instances d) \<Longrightarrow>
    ir_ID (f i) = ir_ID i \<and> ir_Name (f i) = ir_Name i \<and> ir_PoolID (f i) = ir_PoolID i)"
  shows "store_step d (upd_instance u f d)"
proof (rule store_stepI)
  assume ok: "keys_ok d"
  show "keys_ok (upd_instance u f d)"
    by (rule keys_ok_upd [OF ok]) (use assms ok in blast)
  show "capacity_step d (upd_instance u f d)"
  proof (rule capacity_same)
    show "count_pool v (upd_instance u f d) \<le> count_pool v d" for v
      by (rule eq_refl, rule count_upd_instance) (use assms ok in blast)
  qed (simp add: upd_instance_def)
qed

lemma keys_ok_unique: "keys_ok d \<Longrightarrow> i \<in> set (db_instances d) \<Longrightarrow> j \<in> set (db_instances d) \<Longrightarrow> ir_ID i = ir_ID j \<Longrightarrow> i = j"
  by (metis inj_on_eq_iff keys_ok_def distinct_map)

lemma keys_ok_find: "keys_ok d \<Longrightarrow> i \<in> set (db_instances d) \<Longrightarrow> List.find (\<lambda>r. ir_ID r = ir_ID i) (db_instances d) = Some i"
  by (rule find_by_key) (simp add: keys_ok_def)

lemma getInstance_ok:
  "getInstance n d = Inr l \<Longrightarrow> il_row l \<in> set (db_instances d) \<and> instance_matches n (il_row l) \<and> l = load_full d (il_row l)"
  by (auto simp: getInstance_def load_full_def split: option.splits dest: find_SomeD)

lemma applyInstanceUpdates_frame [simp]:
  "ir_ID (applyInstanceUpdates p r) = ir_ID r" "ir_Name (applyInstanceUpdates p r) = ir_Name r"
  "ir_PoolID (applyInstanceUpdates p r) = ir_PoolID r"
  "ir_ScaleSetFkID (applyInstanceUpdates p r) = ir_ScaleSetFkID r"
  by (simp_all add: applyInstanceUpdates_def)

text \<open>What an update transaction does to the tables: nothing, or one row is rewritten.\<close>

lemma update_tx_cases:
  assumes "update_instance_tx n p force d = (r, d')"
  obtains (err) e where "r = Inl e" "d' = d"
  | (ok) i addrs where "r = Inr ()" "i \<in> set (db_instances d)" "instance_matches n i"
      "List.find (instance_matches n) (db_instances d) = Some i"
      "force \<or> validate_update p i = None"
      "d' = upd_instance (ir_ID i) (\<lambda>_. (applyInstanceUpdates p i)\<lparr>ir_UpdatedAt := db_clock d, ir_Addresses := addrs\<rparr>) d"
proof (cases "List.find (instance_matches n) (db_instances d)")
  case None
  with assms have "r = Inl NotFoundError" "d' = d"
    by (simp_all add: update_instance_tx_def m_query_def m_bind_def getInstance_def)
  then show thesis by (rule err)
next
  case (Some i)
  have mem: "i \<in> set (db_instances d)" "instance_matches n i"
    using find_SomeD [OF Some] by simp_all
  show thesis
  proof (cases "\<not> force \<and> validate_update p i \<noteq> None")
    case True
    with Some assms err show thesis
      by (auto simp: update_instance_tx_def m_query_def m_bind_def getInstance_def load_full_def)
  next
    case False
    have run: "update_instance_tx n p force d = save_instance p (applyInstanceUpdates p i) d"
      using Some False
      by (cases force) (simp_all add: update_instance_tx_def m_query_def m_bind_def getInstance_def load_full_def)
    show thesis
    proof (cases "r = Inr ()")
      case True
      with run assms show thesis
        using ok [OF True mem Some] False
        by (auto simp: save_instance_def split: if_splits)
    next
      case nok: False
      with run assms show thesis
        using err by (auto simp: save_instance_def split: if_splits)
    qed
  qed
qed

lemma store_update_tx: "steps store_step (update_instance_tx n p force)"
proof (rule stepsI)
  fix d
  obtain r d' where run: "update_instance_tx n p force d = (r, d')"
    by (cases "update_instance_tx n p force d") auto
  from run have "store_step d d'"
  proof (cases rule: update_tx_cases)
    case (ok i addrs)
    show ?thesis
      unfolding ok(6) by (rule store_upd_instance) (auto dest: keys_ok_unique [OF _ ok(2)])
  qed (simp add: sto.R_refl)
  with run show "store_step d (snd (update_instance_tx n p force d))" by simp
qed

lemma store_create_tx: "steps store_step (create_instance_tx p c)"
  by (rule stepsI, rule store_stepI) (simp_all add: keys_ok_create_tx stepsD_snd [OF capacity_create_tx])

lemma store_delete_row: "steps store_step (m_modify (delete_instance_row u))"
  by (rule stepsI, rule store_stepI)
    (use stepsD_snd [OF capacity_delete_row [of u]] in \<open>simp_all add: keys_ok_delete_row\<close>)

text \<open>Every operation of \<^verbatim>\<open>instances.go\<close> keeps the keys and the limits.\<close>

lemma store_CreateInstance: "steps store_step (CreateInstance p c)"
  by (rule sto.st_CreateInstance) (rule store_create_tx)

lemma store_updateInstance: "steps store_step (updateInstance n p f)"
  by (rule sto.st_updateInstance) (rule store_update_tx)

lemma store_DeleteInstance: "steps store_step (DeleteInstance p n)"
  by (rule sto.st_DeleteInstance) (rule store_delete_row)

lemma store_DeleteInstanceByName: "steps store_step (DeleteInstanceByName n)"
  by (rule sto.st_DeleteInstanceByName) (rule store_delete_row)

lemma store_AddInstanceEvent: "steps store_step (AddInstanceEvent n e l m)"
  by (rule sto.st_AddInstanceEvent; rule stepsI; simp; rule store_upd_instance) blast+

lemma store_UpdateInstance: "steps store_step (UpdateInstance n p)"
  and store_ForceUpdateInstance: "steps store_step (ForceUpdateInstance n p)"
  unfolding UpdateInstance_def ForceUpdateInstance_def by (rule store_updateInstance)+

lemmas instance_store_steps = store_CreateInstance store_UpdateInstance store_ForceUpdateInstance
  store_DeleteInstance store_DeleteInstanceByName store_AddInstanceEvent sto.instance_reads

subsection \<open>Runs without database errors\<close>

lemma db_stmt_nofault [simp]: "db_faults d = [] \<Longrightarrow> db_stmt m d = m d"
  by (simp add: db_stmt_def)

lemma db_tx_nofault:
  "db_faults d = [] \<Longrightarrow> db_tx m d = (case m d of
     (Inl e, d') \<Rightarrow> (Inl e, d\<lparr>db_uuid_next := db_uuid_next d'\<rparr>) | (Inr x, d') \<Rightarrow> (Inr x, d'))"
  by (simp add: db_tx_def)

lemma db_read_nofault [simp]: "db_faults d = [] \<Longrightarrow> db_read q d = (q d, d)"
  by (simp add: db_read_def)

lemma find_append: "List.find P (xs @ ys) = (case List.find P xs of None \<Rightarrow> List.find P ys | Some x \<Rightarrow> Some x)"
  by (induction xs) auto

lemma CreateInstance_run:
  assumes "db_faults d = []" "getPoolByID poolID d = Inr pool" "uuid_parse (cip_Name param) = None"
    and "\<forall>i \<in> set (db_instances d). ir_Name i \<noteq> cip_Name param \<and> ir_ID i \<noteq> db_uuids d (db_uuid_next d)"
    and "int (count_pool (pr_ID pool) d) < uint_as_int (pr_MaxRunners pool)"
  defines "r \<equiv> new_instance (db_uuids d (db_uuid_next d)) pool param (db_clock d)"
    and "d1 \<equiv> d\<lparr>db_uuid_next := db_uuid_next d + 1,
      db_instances := db_instances d @ [new_instance (db_uuids d (db_uuid_next d)) pool param (db_clock d)]\<rparr>"
  obtains inst where "sqlToParamsInstance (load_full d1 r) = Inr inst" and
    "CreateInstance poolID param d = (Inr inst, snd (sendNotify InstanceEntityType CreateOperation (InstancePayload inst) d1))"
proof -
  have r: "ir_Name r = cip_Name param" "ir_ID r = db_uuids d (db_uuid_next d)"
    "ir_PoolID r = Some (pr_ID pool)" "ir_ScaleSetFkID r = None"
    by (simp_all add: r_def new_instance_def)
  have tx: "db_tx (create_instance_tx poolID param) d = (Inr (), d1)"
    using assms(1-5) r by (auto simp: create_instance_tx_def m_bind_def m_query_def db_tx_nofault
        new_uuid_def insert_instance_def d1_def simp flip: r_def)
  have "List.find (instance_matches (cip_Name param)) (db_instances d) = None"
    using assms(3,4) by (simp add: find_None_iff instance_matches_def)
  then have get: "getInstance (cip_Name param) d1 = Inr (load_full d1 r)"
    using assms(3) r by (simp add: getInstance_def find_append instance_matches_def d1_def flip: r_def)
  obtain inst where inst: "sqlToParamsInstance (load_full d1 r) = Inr inst"
    using sqlToParamsInstance_pool [of "load_full d1 r"] r by (auto simp: load_full_def)
  moreover have "CreateInstance poolID param d =
      (Inr inst, snd (sendNotify InstanceEntityType CreateOperation (InstancePayload inst) d1))"
    using tx get inst assms(1)
    by (simp add: CreateInstance_def GetInstance_def m_seq_def m_bind_def sendNotify_def d1_def)
  ultimately show thesis by (rule that)
qed

text \<open>
  (C1) Creating an instance in a pool succeeds exactly while the pool has fewer instances than its
  limit (\<^verbatim>\<open>MaxRunners\<close>, clamped to the largest signed integer): then the pool has one instance more and the
  created instance is returned as requested; otherwise the call reports a conflict and the store is unchanged.
\<close>

theorem CreateInstance_capacity:
  assumes "db_faults d = []" and "getPoolByID poolID d = Inr pool"
    and "uuid_parse (cip_Name param) = None"
    and "\<forall>i \<in> set (db_instances d). ir_Name i \<noteq> cip_Name param \<and> ir_ID i \<noteq> db_uuids d (db_uuid_next d)"
  shows "case CreateInstance poolID param d of
      (Inr inst, d') \<Rightarrow> count_pool (pr_ID pool) d < pool_limit (pr_ID pool) d \<and>
        count_pool (pr_ID pool) d' = count_pool (pr_ID pool) d + 1 \<and>
        i_Name inst = cip_Name param \<and> i_Status inst = cip_Status param \<and>
        i_RunnerStatus inst = cip_RunnerStatus param \<and> i_PoolID inst = uuid_string (pr_ID pool)
    | (Inl e, d') \<Rightarrow> e = ConflictError \<and> d' = d \<and> count_pool (pr_ID pool) d \<ge> pool_limit (pr_ID pool) d"
proof (cases "int (count_pool (pr_ID pool) d) \<ge> uint_as_int (pr_MaxRunners pool)")
  case True
  have "d\<lparr>db_uuid_next := db_uuid_next d\<rparr> = d" by (cases d) simp
  with True assms(1,2) getPoolByID_ok(3) [OF assms(2)] show ?thesis
    by (simp add: CreateInstance_def create_instance_tx_def m_seq_def m_bind_def m_query_def db_tx_nofault)
next
  case False
  then have below: "int (count_pool (pr_ID pool) d) < uint_as_int (pr_MaxRunners pool)" by simp
  from CreateInstance_run [OF assms below] obtain inst where
    "sqlToParamsInstance (load_full (d\<lparr>db_uuid_next := db_uuid_next d + 1, db_instances := db_instances d @
       [new_instance (db_uuids d (db_uuid_next d)) pool param (db_clock d)]\<rparr>)
       (new_instance (db_uuids d (db_uuid_next d)) pool param (db_clock d))) = Inr inst"
    and run: "CreateInstance poolID param d = (Inr inst, snd (sendNotify InstanceEntityType CreateOperation (InstancePayload inst)
       (d\<lparr>db_uuid_next := db_uuid_next d + 1, db_instances := db_instances d @
         [new_instance (db_uuids d (db_uuid_next d)) pool param (db_clock d)]\<rparr>)))" .
  note inst = sqlToParamsInstance_Inr [OF this(1)]
  have "count_pool (pr_ID pool) d < pool_limit (pr_ID pool) d"
    using below getPoolByID_ok(3) [OF assms(2)] by linarith
  with inst run show ?thesis
    by (simp add: sendNotify_def count_pool_def load_full_def opt_uuid_string_def new_instance_def)
qed


definition same_tables :: "db \<Rightarrow> db \<Rightarrow> bool" where
  "same_tables d d' \<longleftrightarrow> db_instances d' = db_instances d \<and> db_pools d' = db_pools d \<and>
     db_jobs d' = db_jobs d \<and> db_next_job d' = db_next_job d \<and> db_tags d' = db_tags d \<and>
     db_entities d' = db_entities d \<and> db_clock d' = db_clock d"

interpretation tbl: db_order same_tables
  by unfold_locales (simp_all add: same_tables_def)

lemma db_tx_cases:
  assumes "db_tx body d = (r, d')"
  obtains (failed) e where "r = Inl e" "same_tables d d'"
  | (committed) x bs where "r = Inr x" "body (d\<lparr>db_faults := bs\<rparr>) = (Inr x, d')"
proof (cases r)
  case (Inl e)
  moreover have "same_tables d d'"
    using assms Inl by (auto simp: db_tx_def db_stmt_def same_tables_def
        split: list.splits if_splits prod.splits sum.splits)
  ultimately show thesis by (rule failed)
next
  case (Inr x)
  with assms show thesis by (auto elim!: db_tx_ok intro: committed)
qed

lemma updateInstance_effect:
  assumes "updateInstance n p force d = (r, d')"
  obtains (none) e where "r = Inl e" "db_instances d' = db_instances d"
  | (some) i t addrs where "List.find (instance_matches n) (db_instances d) = Some i"
      "force \<or> validate_update p i = None"
      "db_instances d' = upd_rows (\<lambda>x. ir_ID x = ir_ID i)
         (\<lambda>_. (applyInstanceUpdates p i)\<lparr>ir_UpdatedAt := t, ir_Addresses := addrs\<rparr>) (db_instances d)"
proof -
  let ?rest = "m_bind (db_read (getInstance n)) (\<lambda>l. m_bind (m_result (sqlToParamsInstance l)) (\<lambda>inst.
     m_seq (sendNotify InstanceEntityType UpdateOperation (InstancePayload inst)) (m_ret inst)))"
  obtain r1 d1 where tx: "db_tx (update_instance_tx n p force) d = (r1, d1)"
    by (cases "db_tx (update_instance_tx n p force) d") auto
  have rest: "steps same_tables ?rest"
    by (intro tbl.db_rules)
  from tx show thesis
  proof (cases rule: db_tx_cases)
    case (failed e)
    with assms tx have "r = Inl e" "d' = d1"
      by (simp_all add: updateInstance_def m_seq_def m_bind_def)
    with failed(2) none show thesis by (simp add: same_tables_def)
  next
    case (committed u bs)
    have run: "?rest d1 = (r, d')"
      using assms tx committed(1) by (simp add: updateInstance_def m_seq_def m_bind_def)
    from committed(2) show thesis
    proof (cases rule: update_tx_cases)
      case (ok i addrs)
      then show thesis
        using some [of i addrs "db_clock d"] stepsD [OF rest run] by (simp add: same_tables_def upd_instance_def)
    qed simp
  qed
qed

lemma upd_rows_same_key:
  assumes "keys_ok d" "i \<in> set (db_instances d)" "ir_ID r = ir_ID i"
    "j \<in> set (upd_rows (\<lambda>x. ir_ID x = ir_ID i) (\<lambda>_. r) (db_instances d))" "k \<in> set (db_instances d)"
    "ir_ID j = ir_ID k"
  shows "j = r \<and> k = i \<or> j = k"
proof -
  from assms(4) consider "j \<in> set (db_instances d)" | "j = r"
    by (auto elim: upd_rowsE)
  then show ?thesis
    using assms keys_ok_unique [OF assms(1)] by cases metis+
qed

lemma validate_update_None:
  assumes "validate_update p i = None"
  shows "uip_Status p \<noteq> InstanceStatusEmpty \<Longrightarrow> uip_Status p = ir_Status i \<or> inst_step (ir_Status i) (uip_Status p)"
    and "uip_RunnerStatus p \<noteq> RunnerStatusEmpty \<Longrightarrow>
      uip_RunnerStatus p = ir_RunnerStatus i \<or> runner_step (ir_RunnerStatus i) (uip_RunnerStatus p)"
    and "uip_AgentID p \<noteq> 0 \<Longrightarrow> ir_AgentID i \<noteq> 0 \<Longrightarrow> uip_AgentID p = ir_AgentID i"
  using assms
  by (auto simp: validate_update_def validateAgentID_def validateInstance_accepts_iff
      validateRunner_accepts_iff split: option.splits if_splits)

lemma guarded_update_statuses:
  assumes "keys_ok d" and "UpdateInstance n p d = (r, d')"
    and "i \<in> set (db_instances d)" and "i' \<in> set (db_instances d')" and "ir_ID i' = ir_ID i"
  shows "(ir_Status i' = ir_Status i \<or> inst_step (ir_Status i) (ir_Status i')) \<and>
    (ir_RunnerStatus i' = ir_RunnerStatus i \<or> runner_step (ir_RunnerStatus i) (ir_RunnerStatus i')) \<and>
    (ir_AgentID i' = ir_AgentID i \<or> ir_AgentID i = 0)"
  using assms(2) unfolding UpdateInstance_def
proof (cases rule: updateInstance_effect)
  case (none e)
  then have "i' = i" using assms keys_ok_unique by simp
  then show ?thesis by simp
next
  case (some k t addrs)
  let ?row = "(applyInstanceUpdates p k)\<lparr>ir_UpdatedAt := t, ir_Addresses := addrs\<rparr>"
  have "i' = ?row \<and> i = k \<or> i' = i"
    using upd_rows_same_key [of d k ?row i' i] some(3) assms find_SomeD [OF some(1)] by simp
  moreover have "validate_update p k = None" using some(2) by simp
  ultimately show ?thesis
    using validate_update_None [of p k] by (auto simp: applyInstanceUpdates_def)
qed

text \<open>
  (C2) Whatever the request and whatever the database does, a guarded update moves the status and
  the runner status of every stored instance along the transition tables only, and never replaces
  an agent ID once it is set.
\<close>

theorem UpdateInstance_transition:
  assumes "keys_ok d" and "UpdateInstance n p d = (r, d')"
    and "i \<in> set (db_instances d)" and "i' \<in> set (db_instances d')" and "ir_ID i' = ir_ID i"
  shows "(ir_Status i' = ir_Status i \<or> inst_step (ir_Status i) (ir_Status i')) \<and>
    (ir_RunnerStatus i' = ir_RunnerStatus i \<or> runner_step (ir_RunnerStatus i) (ir_RunnerStatus i')) \<and>
    (ir_AgentID i' = ir_AgentID i \<or> ir_AgentID i = 0)"
  using assms by (rule guarded_update_statuses)


lemma convert_instances_append:
  "convert_instances (xs @ ys) = (case convert_instances xs of Inl e \<Rightarrow> Inl e
     | Inr is \<Rightarrow> (case convert_instances ys of Inl e \<Rightarrow> Inl e | Inr js \<Rightarrow> Inr (is @ js)))"
  by (induction xs) (auto split: sum.splits)

lemma list_batches_eq: "list_batches load rows offset = convert_instances (map load (drop offset rows))"
proof (induction load rows offset rule: list_batches.induct)
  case (1 load rows offset)
  let ?b = "take batchSize (drop offset rows)"
  show ?case
  proof (cases "?b = []")
    case True
    then have "drop offset rows = []" by (auto simp: batchSize_def)
    with True show ?thesis by (simp add: list_batches.simps [of load rows offset])
  next
    case False
    have split: "drop offset rows = ?b @ drop (offset + length ?b) rows"
      by (metis append_take_drop_id drop_drop add.commute length_take min.commute take_take take_all_iff
          linorder_linear min_def drop_eq_Nil2 append_Nil2)
    show ?thesis
    proof (cases "convert_instances (map load ?b)")
      case (Inl e)
      with False show ?thesis
        by (subst split) (simp add: list_batches.simps [of load rows offset] Let_def
            convert_instances_append del: take_drop)
    next
      case (Inr insts)
      with False "1.IH" [OF refl False Inr] show ?thesis
        by (subst split) (simp add: list_batches.simps [of load rows offset] Let_def
            convert_instances_append del: take_drop)
    qed
  qed
qed

text \<open>
  Fetching a pool's instances in batches of 1000 gives what one query over the whole table
  would give, in order, or the first conversion error.
\<close>

theorem ListPoolInstances_complete:
  assumes "db_faults d = []" and "uuid_parse poolID = Some u"
  shows "ListPoolInstances poolID False d =
    (convert_instances (map (load_list d) (filter (\<lambda>i. ir_PoolID i = Some u) (db_instances d))), d)"
proof -
  have "d\<lparr>db_uuid_next := db_uuid_next d\<rparr> = d" by (cases d) simp
  with assms show ?thesis
    by (auto simp: ListPoolInstances_def listInstancesBatched_def db_tx_nofault m_query_def
        list_batches_eq split: sum.splits)
qed


subsection \<open>Status messages\<close>

lemma upd_instance_find:
  "List.find (\<lambda>i. ir_ID i = u) (db_instances d) = Some i \<Longrightarrow> (\<And>x. ir_ID (f x) = ir_ID x) \<Longrightarrow>
   List.find (\<lambda>i. ir_ID i = u) (db_instances (upd_instance u f d)) = Some (f i)"
  by (simp add: upd_instance_def find_upd_rows_key [of ir_ID f])

text \<open>With distinct keys, the keys not below the \<open>n\<close>-th largest are \<open>n\<close>.\<close>

lemma drop_sorted_ge:
  assumes "sorted xs" "distinct xs" "k < length xs"
  shows "filter (\<lambda>x. \<not> x < xs ! k) xs = drop k xs"
proof -
  have "filter (\<lambda>x. \<not> x < xs ! k) (take k xs) = []"
  proof -
    have "x < xs ! k" if mem: "x \<in> set (take k xs)" for x
    proof -
      obtain j where j: "j < k" "x = xs ! j"
        using mem assms(3) by (auto simp: in_set_conv_nth)
      then have "x \<le> xs ! k" "x \<noteq> xs ! k"
        using assms by (auto simp: sorted_nth_mono nth_eq_iff_index_eq)
      then show ?thesis by (rule order.not_eq_order_implies_strict [rotated])
    qed
    then show ?thesis by (simp add: filter_empty_conv)
  qed
  moreover have "filter (\<lambda>x. \<not> x < xs ! k) (drop k xs) = drop k xs"
  proof (rule filter_True, rule ballI)
    fix x assume "x \<in> set (drop k xs)"
    then obtain j where "j < length (drop k xs)" "x = drop k xs ! j"
      by (auto simp only: in_set_conv_nth)
    then have "k + j < length xs" "x = xs ! (k + j)"
      by (simp_all add: less_diff_conv add.commute)
    then have "xs ! k \<le> x" using assms by (simp add: sorted_nth_mono)
    then show "\<not> x < xs ! k" by simp
  qed
  moreover have "filter P xs = filter P (take k xs) @ filter P (drop k xs)" for P
    by (metis append_take_drop_id filter_append)
  ultimately show ?thesis by simp
qed

lemma length_filter_sort:
  "length (filter (\<lambda>m. P (fst m)) msgs) = length (filter P (sort (map fst msgs)))"
  by (simp add: filter_sort filter_map comp_def)

lemma cutoff_keeps:
  assumes "distinct (map fst msgs)" "length msgs > maxStatusMessages"
  shows "length (filter (\<lambda>m. \<not> fst m < cutoff_message msgs) msgs) = maxStatusMessages"
proof -
  let ?s = "sort (map fst msgs)" and ?k = "length msgs - maxStatusMessages"
  have "cutoff_message msgs = ?s ! ?k"
    using assms(2) by (simp add: cutoff_message_def rev_nth maxStatusMessages_def)
  moreover have "length (filter (\<lambda>x. \<not> x < ?s ! ?k) ?s) = maxStatusMessages"
    using assms by (subst drop_sorted_ge) (simp_all add: maxStatusMessages_def)
  ultimately show ?thesis
    using length_filter_sort [of "\<lambda>x. \<not> x < ?s ! ?k" msgs] by simp
qed

definition add_message :: "uuid \<Rightarrow> StatusMessage \<Rightarrow> (uuid \<times> StatusMessage) list \<Rightarrow> (uuid \<times> StatusMessage) list" where
  "add_message u m msgs = (let ms = msgs @ [(u, m)] in
     if length ms > maxStatusMessages then filter (\<lambda>x. \<not> fst x < cutoff_message ms) ms else ms)"

text \<open>Without database errors the messages of the instance change as \<open>add_message\<close> says.\<close>

lemma AddInstanceEvent_messages:
  assumes "db_faults d = []" "getInstance n d = Inr l" "keys_ok d"
  shows "fst (AddInstanceEvent n ev lvl msg d) = Inr () \<and>
    instance_messages (ir_ID (il_row l)) (snd (AddInstanceEvent n ev lvl msg d)) =
      add_message (db_uuids d (db_uuid_next d))
        \<lparr>sm_CreatedAt = db_clock d, sm_Message = msg, sm_EventType = ev, sm_EventLevel = lvl\<rparr>
        (instance_messages (ir_ID (il_row l)) d)"
proof -
  let ?u = "ir_ID (il_row l)"
  let ?app = "\<lambda>i. i\<lparr>ir_StatusMessages := ir_StatusMessages i @ [(db_uuids d (db_uuid_next d),
    \<lparr>sm_CreatedAt = db_clock d, sm_Message = msg, sm_EventType = ev, sm_EventLevel = lvl\<rparr>)]\<rparr>"
  let ?d1 = "upd_instance ?u ?app (d\<lparr>db_uuid_next := Suc (db_uuid_next d)\<rparr>)"
  let ?del = "\<lambda>c i. i\<lparr>ir_StatusMessages := filter (\<lambda>m. \<not> fst m < c) (ir_StatusMessages i)\<rparr>"
  have f: "List.find (\<lambda>i. ir_ID i = ?u) (db_instances d) = Some (il_row l)"
    using getInstance_ok [OF assms(2)] keys_ok_find [OF assms(3)] by simp
  then have f1: "List.find (\<lambda>i. ir_ID i = ?u) (db_instances ?d1) = Some (?app (il_row l))"
    by (intro upd_instance_find) simp_all
  have f2: "List.find (\<lambda>i. ir_ID i = ?u) (db_instances (upd_instance ?u (?del c) ?d1)) =
      Some (?del c (?app (il_row l)))" for c
    by (rule upd_instance_find [OF f1]) simp
  have faults: "db_faults ?d1 = []" using assms(1) by (simp add: upd_instance_def)
  have "AddInstanceEvent n ev lvl msg d =
    (if length (instance_messages ?u ?d1) > maxStatusMessages
     then (Inr (), upd_instance ?u (?del (cutoff_message (instance_messages ?u ?d1))) ?d1) else (Inr (), ?d1))"
    using assms(1,2) faults
    by (simp add: AddInstanceEvent_def m_seq_def m_bind_def Let_def new_uuid_def m_when_def)
  then show ?thesis
    using f f1 f2 by (simp add: instance_messages_def add_message_def Let_def)
qed


text \<open>
  Adding a status message keeps exactly the smaller of 30 and the number of messages so far plus
  one, when message keys are distinct.
\<close>

theorem AddInstanceEvent_bounded:
  assumes "db_faults d = []" and "keys_ok d" and "getInstance n d = Inr l"
    and "distinct (db_uuids d (db_uuid_next d) # map fst (instance_messages (ir_ID (il_row l)) d))"
  shows "fst (AddInstanceEvent n ev lvl msg d) = Inr () \<and>
    length (instance_messages (ir_ID (il_row l)) (snd (AddInstanceEvent n ev lvl msg d))) =
      min maxStatusMessages (length (instance_messages (ir_ID (il_row l)) d) + 1)"
proof -
  let ?ms = "instance_messages (ir_ID (il_row l)) d"
  have "length (add_message (db_uuids d (db_uuid_next d)) m ?ms) = min maxStatusMessages (length ?ms + 1)" for m
    using assms(4) cutoff_keeps [of "?ms @ [(db_uuids d (db_uuid_next d), m)]"]
    by (auto simp: add_message_def Let_def)
  with AddInstanceEvent_messages [OF assms(1,3,2)] show ?thesis by simp
qed

text \<open>
  The pruning orders messages by their random key, not by age: when the new key is smaller than
  the keys of the 30 messages present, the message just added is the one that is dropped.
\<close>

theorem AddInstanceEvent_drops_newest:
  assumes "db_faults d = []" and "keys_ok d" and "getInstance n d = Inr l"
    and "distinct (map fst (instance_messages (ir_ID (il_row l)) d))"
    and "length (instance_messages (ir_ID (il_row l)) d) = maxStatusMessages"
    and "\<forall>m \<in> set (instance_messages (ir_ID (il_row l)) d). db_uuids d (db_uuid_next d) < fst m"
  shows "instance_messages (ir_ID (il_row l)) (snd (AddInstanceEvent n ev lvl msg d)) =
    instance_messages (ir_ID (il_row l)) d"
proof -
  let ?ms = "instance_messages (ir_ID (il_row l)) d" and ?u = "db_uuids d (db_uuid_next d)"
  have "add_message ?u m ?ms = ?ms" for m
  proof -
    let ?all = "?ms @ [(?u, m)]"
    let ?keep = "filter (\<lambda>x. \<not> fst x < cutoff_message ?all)"
    have "distinct (map fst ?all)" using assms(4,6) by auto
    then have len: "length (?keep ?all) = maxStatusMessages"
      using assms(5) by (intro cutoff_keeps) simp_all
    have "\<not> \<not> ?u < cutoff_message ?all"
    proof
      assume low: "\<not> ?u < cutoff_message ?all"
      have "?keep ?all = ?all"
        by (rule filter_True) (use low assms(6) in \<open>auto dest: order.strict_trans1 [rotated]\<close>)
      then have "length (?keep ?all) = length ?all" by (rule arg_cong)
      with len have "maxStatusMessages = length ?all" by (rule trans [OF sym])
      with assms(5) show False by simp
    qed
    then have "?keep ?all = ?keep ?ms" by simp
    moreover from this len assms(5) have "length (?keep ?ms) = length ?ms" by simp
    then have "?keep ?ms = ?ms"
      by (metis length_filter_less less_irrefl filter_True)
    ultimately show ?thesis using assms(5) by (simp add: add_message_def Let_def)
  qed
  with AddInstanceEvent_messages [OF assms(1,3,2)] show ?thesis by simp
qed

text \<open>A forced update of a pool's instance returns it with the requested status.\<close>

lemma ForceUpdateInstance_ok:
  assumes "db_faults d = []" and "keys_ok d" and "List.find (instance_matches n) (db_instances d) = Some i"
    and "ir_PoolID i = Some u" and "ir_ScaleSetFkID i = None" and "uip_ProviderID p = []"
    and "\<forall>j \<in> set (db_instances d). ir_ID j \<noteq> ir_ID i \<longrightarrow> ir_ProviderID i = None \<or> ir_ProviderID j \<noteq> ir_ProviderID i"
  shows "\<exists>inst d'. ForceUpdateInstance n p d = (Inr inst, d') \<and> i_Name inst = ir_Name i \<and>
    i_PoolID inst = uuid_string u \<and>
    i_Status inst = ir_Status (applyInstanceUpdates p i) \<and>
    i_RunnerStatus inst = ir_RunnerStatus (applyInstanceUpdates p i)"
proof -
  let ?r = "(applyInstanceUpdates p i)\<lparr>ir_UpdatedAt := db_clock d,
    ir_Addresses := (if uip_Addresses p \<noteq> [] then uip_Addresses p else ir_Addresses (applyInstanceUpdates p i))\<rparr>"
  let ?d1 = "upd_instance (ir_ID i) (\<lambda>_. ?r) d"
  have prov: "ir_ProviderID (applyInstanceUpdates p i) = ir_ProviderID i"
    using assms(6) by (simp add: applyInstanceUpdates_def)
  have save: "save_instance p (applyInstanceUpdates p i) d = (Inr (), ?d1)"
    using assms(7) by (auto simp: save_instance_def prov)
  have tx: "db_tx (update_instance_tx n p True) d = (Inr (), ?d1)"
    using assms(1,3) save
    by (simp add: db_tx_nofault update_instance_tx_def m_bind_def m_query_def getInstance_def load_full_def)
  have m: "instance_matches n ?r" "instance_matches n i"
    using find_SomeD [OF assms(3)] by (auto simp: instance_matches_def split: option.splits)
  have "List.find (instance_matches n) (db_instances ?d1) = Some ?r"
  proof -
    have "List.find (instance_matches n) (upd_rows (\<lambda>x. ir_ID x = ir_ID i) (\<lambda>_. ?r) rows) = Some ?r"
      if "List.find (instance_matches n) rows = Some i" "distinct (map ir_ID rows)" for rows
      using that m by (induction rows) (auto split: if_splits dest: find_SomeD)
    with assms(2,3) show ?thesis by (simp add: upd_instance_def keys_ok_def)
  qed
  then have get: "getInstance n ?d1 = Inr (load_full ?d1 ?r)" by (simp add: getInstance_def)
  obtain inst where inst: "sqlToParamsInstance (load_full ?d1 ?r) = Inr inst"
    using sqlToParamsInstance_pool [of "load_full ?d1 ?r" u] assms(4,5) by (auto simp: load_full_def)
  have "db_faults ?d1 = []" using assms(1) by (simp add: upd_instance_def)
  with tx get inst assms(4) sqlToParamsInstance_Inr [OF inst] show ?thesis
    by (simp add: ForceUpdateInstance_def updateInstance_def m_seq_def m_bind_def sendNotify_def
        load_full_def opt_uuid_string_def)
qed

definition ex_create :: CreateInstanceParams where
  "ex_create = \<lparr>cip_Name = ''garm-two'', cip_OSType = ''linux'', cip_OSArch = ''amd64'',
     cip_Status = InstancePendingCreate, cip_RunnerStatus = RunnerPending, cip_CallbackURL = [],
     cip_MetadataURL = [], cip_GitHubRunnerGroup = [], cip_CreateAttempt = 1, cip_AgentID = 0,
     cip_AditionalLabels = [], cip_JitConfiguration = [], cip_Generation = 3\<rparr>"

lemma ex_pool_lookup [simp]: "getPoolByID (uuid_string 1) ex_db = Inr ex_pool"
  by (simp add: getPoolByID_def ex_pool_def option_or_def)

lemma ex_store_ok [simp]: "keys_ok ex_db"
  by (simp add: keys_ok_def)

lemma ex_names [simp]: "uuid_parse ''garm-one'' = None" "uuid_parse ''garm-two'' = None"
  by (simp_all add: uuid_parse_def)

theorem CreateInstance_capacity_witness:
  "case CreateInstance (uuid_string 1) ex_create ex_db of
      (Inr inst, d') \<Rightarrow> count_pool 1 d' = count_pool 1 ex_db + 1 \<and> i_Name inst = ''garm-two'' \<and>
        i_Status inst = InstancePendingCreate
    | (Inl e, d') \<Rightarrow> e = ConflictError \<and> count_pool 1 ex_db \<ge> pool_limit 1 ex_db"
  using CreateInstance_capacity [of ex_db "uuid_string 1" ex_pool ex_create]
  by (auto simp: ex_create_def ex_instance_def ex_pool_def split: prod.splits sum.splits)

definition ex_mark_delete :: UpdateInstanceParams where
  "ex_mark_delete = empty_update\<lparr>uip_Status := InstancePendingDelete\<rparr>"

lemma ex_guarded_run:
  "db_instances (snd (UpdateInstance ''garm-one'' ex_mark_delete ex_db)) =
     [ex_instance\<lparr>ir_Status := InstancePendingDelete, ir_UpdatedAt := 100\<rparr>]"
  by (simp add: UpdateInstance_def updateInstance_def update_instance_tx_def m_seq_def m_bind_def m_query_def
      db_tx_nofault getInstance_def instance_matches_def ex_instance_def load_full_def save_instance_def
      validate_update_def validateAgentID_def validateRunnerStatusTransition_def
      validateInstanceStatusTransition_def applyInstanceUpdates_def ex_mark_delete_def empty_update_def upd_instance_def
      sqlToParamsInstance_def sendNotify_def Let_def)

theorem UpdateInstance_transition_witness:
  "inst_step InstanceRunning (ir_Status (hd (db_instances (snd (UpdateInstance ''garm-one'' ex_mark_delete ex_db)))))"
proof -
  let ?run = "UpdateInstance ''garm-one'' ex_mark_delete ex_db"
  have "ir_Status (hd (db_instances (snd ?run))) = ir_Status ex_instance \<or>
      inst_step (ir_Status ex_instance) (ir_Status (hd (db_instances (snd ?run))))"
    using UpdateInstance_transition [of ex_db "''garm-one''" ex_mark_delete "fst ?run" "snd ?run" ex_instance
        "hd (db_instances (snd ?run))"]
    by (simp add: ex_guarded_run)
  then show ?thesis by (simp add: ex_guarded_run ex_instance_def)
qed

theorem ListPoolInstances_complete_witness:
  "map i_Name (case fst (ListPoolInstances (uuid_string 1) False ex_db) of Inr is \<Rightarrow> is | Inl _ \<Rightarrow> []) = [''garm-one'']"
  using ListPoolInstances_complete [of ex_db "uuid_string 1" 1]
  by (simp add: ex_instance_def sqlToParamsInstance_def load_list_def load_full_def)

lemma ex_get: "getInstance ''garm-one'' ex_db = Inr (load_full ex_db ex_instance)"
  by (simp add: getInstance_def instance_matches_def ex_instance_def)

theorem AddInstanceEvent_bounded_witness:
  "length (instance_messages 2 (snd (AddInstanceEvent ''garm-one'' ''status'' ''info'' ''hello'' ex_db))) = 1"
  using AddInstanceEvent_bounded [of ex_db "''garm-one''" "load_full ex_db ex_instance" "''status''" "''info''" "''hello''"]
  by (simp add: ex_get load_full_def instance_messages_def ex_instance_def maxStatusMessages_def)

definition ex_full_messages :: "(uuid \<times> StatusMessage) list" where
  "ex_full_messages = map (\<lambda>n. (of_nat n + 200, \<lparr>sm_CreatedAt = int n, sm_Message = ''m'', sm_EventType = [], sm_EventLevel = []\<rparr>)) [0..<30]"

definition ex_db_full :: db where
  "ex_db_full = ex_db\<lparr>db_instances := [ex_instance\<lparr>ir_StatusMessages := ex_full_messages\<rparr>]\<rparr>"

theorem AddInstanceEvent_drops_newest_witness:
  "instance_messages 2 (snd (AddInstanceEvent ''garm-one'' ''status'' ''info'' ''hello'' ex_db_full)) = ex_full_messages"
  using AddInstanceEvent_drops_newest [of ex_db_full "''garm-one''"
      "load_full ex_db_full (ex_instance\<lparr>ir_StatusMessages := ex_full_messages\<rparr>)" "''status''" "''info''" "''hello''"]
  by (simp add: ex_db_full_def keys_ok_def getInstance_def instance_matches_def load_full_def instance_messages_def
      ex_instance_def maxStatusMessages_def ex_full_messages_def upt_rec)

end
