(* ===== verification/Garm_Jobs.thy ===== *)
theory Garm_Jobs
  imports Garm_Instances
begin

text \<open>
  The job operations of the store (\<^verbatim>\<open>database/sql/jobs.go\<close>): recording webhook jobs, the lock that
  decides which entity serves a queued job, listings with pagination, and the clean-up of jobs
  nobody acts on.

  Rows are kept in the order of their autoincremented key, so the first match is the one
  \<^verbatim>\<open>First\<close> returns. A soft deleted row is invisible to every query and is dropped.
\<close>

subsection \<open>Rows\<close>

definition find_job :: "int \<Rightarrow> db \<Rightarrow> WorkflowJob option" where
  "find_job jobID d = List.find (\<lambda>j. jr_WorkflowJobID j = jobID) (db_jobs d)"

text \<open>A row with its instance, as \<^verbatim>\<open>Preload("Instance")\<close> gives it.\<close>

definition job_with_instance :: "db \<Rightarrow> WorkflowJob \<Rightarrow> Job" where
  "job_with_instance d j = sqlWorkflowJobToParamsJob j (find_instance d (jr_InstanceID j))"

definition ref_ok :: "uuid set \<Rightarrow> uuid option \<Rightarrow> bool" where
  "ref_ok ids u = (case u of None \<Rightarrow> True | Some x \<Rightarrow> x \<in> ids)"

definition entity_ids :: "ForgeEntityType \<Rightarrow> db \<Rightarrow> uuid set" where
  "entity_ids ty d = set (map er_ID (filter (\<lambda>e. er_Type e = ty) (db_entities d)))"

text \<open>The foreign keys of a job.\<close>

definition job_refs_ok :: "WorkflowJob \<Rightarrow> db \<Rightarrow> bool" where
  "job_refs_ok j d \<longleftrightarrow>
     ref_ok (set (map ir_ID (db_instances d))) (jr_InstanceID j) \<and>
     ref_ok (set (map pr_ID (db_pools d))) (jr_PoolID j) \<and>
     ref_ok (entity_ids ForgeEntityTypeRepository d) (jr_RepoID j) \<and>
     ref_ok (entity_ids ForgeEntityTypeOrganization d) (jr_OrgID j) \<and>
     ref_ok (entity_ids ForgeEntityTypeEnterprise d) (jr_EnterpriseID j) \<and>
     ref_ok (entity_ids ForgeEntityTypeInstance d) (jr_ForgeInstanceID j)"

text \<open>
  \<^verbatim>\<open>tx.Save(&workflowJob)\<close>: gorm saves the preloaded association first and writes its key back into
  the foreign key column, so a preloaded instance overrides a changed \<^verbatim>\<open>InstanceID\<close>.
\<close>

definition save_job :: "InstanceRow option \<Rightarrow> WorkflowJob \<Rightarrow> (db, WorkflowJob) prog" where
  "save_job inst j d =
     (let j' = j\<lparr>jr_UpdatedAt := db_clock d,
            jr_InstanceID := (case inst of None \<Rightarrow> jr_InstanceID j | Some i \<Rightarrow> Some (ir_ID i))\<rparr>
      in if \<not> job_refs_ok j' d then (Inl DatabaseError, d)
         else (Inr j', d\<lparr>db_jobs := upd_rows (\<lambda>x. jr_ID x = jr_ID j) (\<lambda>_. j') (db_jobs d)\<rparr>))"

definition insert_job :: "WorkflowJob \<Rightarrow> (db, WorkflowJob) prog" where
  "insert_job j d = (let j' = j\<lparr>jr_ID := db_next_job d\<rparr> in
     if \<not> job_refs_ok j' d then (Inl DatabaseError, d)
     else (Inr j', d\<lparr>db_jobs := db_jobs d @ [j'], db_next_job := db_next_job d + 1\<rparr>))"

definition notify_job :: "OperationType \<Rightarrow> Job option \<Rightarrow> (db, unit) prog" where
  "notify_job op r = (case r of None \<Rightarrow> m_ret ()
     | Some j \<Rightarrow> m_when (j_ID j \<noteq> 0) (sendNotify JobEntityType op (JobPayload j)))"

subsection \<open>Deleting and locking\<close>

definition DeleteJob :: "int \<Rightarrow> (db, unit) prog" where
  "DeleteJob jobID = m_bind (db_tx (m_bind (m_get (find_job jobID)) (\<lambda>r. case r of
       None \<Rightarrow> m_ret None
     | Some j \<Rightarrow> m_bind (m_get (\<lambda>d. job_with_instance d j)) (\<lambda>removed.
         m_seq (m_modify (\<lambda>d. d\<lparr>db_jobs := del_rows (\<lambda>x. jr_ID x = jr_ID j) (db_jobs d)\<rparr>))
           (m_ret (Some removed))))))
     (notify_job DeleteOperation)"

definition set_lock :: "WorkflowJob \<Rightarrow> InstanceRow option \<Rightarrow> uuid \<Rightarrow> (db, Job option) prog" where
  "set_lock j inst owner = m_bind (save_job inst (j\<lparr>jr_LockedBy := owner\<rparr>)) (\<lambda>j'.
     m_ret (Some (sqlWorkflowJobToParamsJob j' inst)))"

definition LockJob :: "int \<Rightarrow> string \<Rightarrow> (db, unit) prog" where
  "LockJob jobID entityID = (case uuid_parse entityID of
     None \<Rightarrow> m_throw (OtherError ''error parsing entity id'')
   | Some entityUUID \<Rightarrow> m_bind (db_tx (m_bind (m_get (find_job jobID)) (\<lambda>r. case r of
       None \<Rightarrow> m_throw NotFoundError
     | Some j \<Rightarrow>
         if uuid_string (jr_LockedBy j) = entityID then m_ret None
         else if jr_LockedBy j \<noteq> uuid_nil then m_throw ConflictError
         else m_bind (m_get (\<lambda>d. find_instance d (jr_InstanceID j))) (\<lambda>inst. set_lock j inst entityUUID))))
     (notify_job UpdateOperation))"

definition BreakLockJobIsQueued :: "int \<Rightarrow> (db, unit) prog" where
  "BreakLockJobIsQueued jobID = m_bind (db_tx (m_bind
       (m_get (\<lambda>d. List.find (\<lambda>j. jr_WorkflowJobID j = jobID \<and> jr_Status j = JobStatusQueued) (db_jobs d)))
       (\<lambda>r. case r of
         None \<Rightarrow> m_ret None
       | Some j \<Rightarrow> if jr_LockedBy j = uuid_nil then m_ret None
           else m_bind (m_get (\<lambda>d. find_instance d (jr_InstanceID j))) (\<lambda>inst. set_lock j inst uuid_nil))))
     (notify_job UpdateOperation)"

text \<open>\<^verbatim>\<open>UnlockJob\<close> does not preload the instance.\<close>

definition UnlockJob :: "int \<Rightarrow> string \<Rightarrow> (db, unit) prog" where
  "UnlockJob jobID entityID = m_bind (db_tx (m_bind (m_get (find_job jobID)) (\<lambda>r. case r of
       None \<Rightarrow> m_throw NotFoundError
     | Some j \<Rightarrow> if jr_LockedBy j = uuid_nil then m_ret None
         else if jr_LockedBy j \<noteq> uuid_nil \<and> uuid_string (jr_LockedBy j) \<noteq> entityID then m_throw ConflictError
         else set_lock j None uuid_nil)))
     (notify_job UpdateOperation)"

subsection \<open>Recording\<close>

text \<open>The instance of a job's runner, if it is one of ours.\<close>

definition runner_instance :: "string \<Rightarrow> db \<Rightarrow> uuid option" where
  "runner_instance runnerName d = (if runnerName = [] then None
     else case getInstance runnerName d of Inl _ \<Rightarrow> None | Inr l \<Rightarrow> Some (ir_ID (il_row l)))"

definition paramsJobToWorkflowJob :: "Job \<Rightarrow> db \<Rightarrow> WorkflowJob" where
  "paramsJobToWorkflowJob job d = \<lparr>jr_ID = 0, jr_WorkflowJobID = j_WorkflowJobID job,
     jr_RunID = j_RunID job, jr_Action = j_Action job, jr_Conclusion = j_Conclusion job,
     jr_Status = j_Status job, jr_Name = j_Name job, jr_StartedAt = j_StartedAt job,
     jr_CompletedAt = j_CompletedAt job, jr_GithubRunnerID = j_GithubRunnerID job,
     jr_InstanceID = runner_instance (j_RunnerName job) d,
     jr_RunnerGroupID = j_RunnerGroupID job, jr_RunnerGroupName = j_RunnerGroupName job,
     jr_RepositoryName = j_RepositoryName job, jr_RepositoryOwner = j_RepositoryOwner job,
     jr_Labels = j_Labels job, jr_WorkflowRunURL = [], jr_RepoID = j_RepoID job,
     jr_OrgID = j_OrgID job, jr_EnterpriseID = j_EnterpriseID job,
     jr_ForgeInstanceID = j_ForgeInstanceID job, jr_PoolID = j_PoolID job,
     jr_LockedBy = j_LockedBy job, jr_CreatedAt = db_clock d, jr_UpdatedAt = db_clock d\<rparr>"

definition update_job_row :: "Job \<Rightarrow> db \<Rightarrow> WorkflowJob \<Rightarrow> WorkflowJob" where
  "update_job_row job d j = j\<lparr>jr_Status := j_Status job, jr_Action := j_Action job,
     jr_Conclusion := j_Conclusion job, jr_StartedAt := j_StartedAt job,
     jr_CompletedAt := j_CompletedAt job, jr_GithubRunnerID := j_GithubRunnerID job,
     jr_RunnerGroupID := j_RunnerGroupID job, jr_RunnerGroupName := j_RunnerGroupName job,
     jr_WorkflowRunURL := j_WorkflowRunURL job,
     jr_RunID := (if j_RunID job \<noteq> 0 \<and> jr_RunID j = 0 then j_RunID job else jr_RunID j),
     jr_LockedBy := (if j_LockedBy job \<noteq> uuid_nil then j_LockedBy job else jr_LockedBy j),
     jr_InstanceID := (case runner_instance (j_RunnerName job) d of None \<Rightarrow> jr_InstanceID j | Some u \<Rightarrow> Some u),
     jr_RepoID := (case j_RepoID job of None \<Rightarrow> jr_RepoID j | Some u \<Rightarrow> Some u),
     jr_OrgID := (case j_OrgID job of None \<Rightarrow> jr_OrgID j | Some u \<Rightarrow> Some u),
     jr_EnterpriseID := (case j_EnterpriseID job of None \<Rightarrow> jr_EnterpriseID j | Some u \<Rightarrow> Some u),
     jr_ForgeInstanceID := (case j_ForgeInstanceID job of None \<Rightarrow> jr_ForgeInstanceID j | Some u \<Rightarrow> Some u),
     jr_PoolID := (case j_PoolID job of None \<Rightarrow> jr_PoolID j | Some u \<Rightarrow> Some u)\<rparr>"

definition create_or_update_tx :: "Job \<Rightarrow> (db, OperationType \<times> Job) prog" where
  "create_or_update_tx job = m_bind (m_get (find_job (j_WorkflowJobID job))) (\<lambda>r. case r of
     Some j \<Rightarrow> m_bind (m_get (\<lambda>d. (find_instance d (jr_InstanceID j), update_job_row job d j))) (\<lambda>(inst, row).
         m_bind (save_job inst row) (\<lambda>j'. m_ret (UpdateOperation, sqlWorkflowJobToParamsJob j' inst)))
   | None \<Rightarrow> m_bind (m_get (paramsJobToWorkflowJob job)) (\<lambda>row.
         m_bind (insert_job (row\<lparr>jr_WorkflowRunURL := j_WorkflowRunURL job\<rparr>)) (\<lambda>j'.
           m_ret (CreateOperation, sqlWorkflowJobToParamsJob j' None))))"

definition CreateOrUpdateJob :: "Job \<Rightarrow> (db, Job) prog" where
  "CreateOrUpdateJob job = m_bind (db_tx (create_or_update_tx job)) (\<lambda>(operation, asParams).
     m_seq (sendNotify JobEntityType operation (JobPayload asParams)) (m_ret asParams))"

subsection \<open>Listings\<close>

definition list_jobs_where :: "(WorkflowJob \<Rightarrow> bool) \<Rightarrow> (db, Job list) prog" where
  "list_jobs_where P = db_read (\<lambda>d. Inr (map (job_with_instance d) (filter P (db_jobs d))))"

definition ListJobsByStatus :: "string \<Rightarrow> (db, Job list) prog" where
  "ListJobsByStatus status = list_jobs_where (\<lambda>j. jr_Status j = status)"

definition job_of_entity :: "ForgeEntityType \<Rightarrow> uuid \<Rightarrow> WorkflowJob \<Rightarrow> bool" where
  "job_of_entity ty u j = (case ty of
     ForgeEntityTypeOrganization \<Rightarrow> jr_OrgID j = Some u
   | ForgeEntityTypeRepository \<Rightarrow> jr_RepoID j = Some u
   | ForgeEntityTypeEnterprise \<Rightarrow> jr_EnterpriseID j = Some u
   | ForgeEntityTypeInstance \<Rightarrow> jr_ForgeInstanceID j = Some u
   | ForgeEntityTypeOther _ \<Rightarrow> True)"

definition ListEntityJobsByStatus :: "ForgeEntityType \<Rightarrow> string \<Rightarrow> string \<Rightarrow> (db, Job list) prog" where
  "ListEntityJobsByStatus entityType entityID status = (case uuid_parse entityID of
     None \<Rightarrow> m_throw (OtherError ''invalid UUID'')
   | Some u \<Rightarrow> list_jobs_where (\<lambda>j. jr_Status j = status \<and> job_of_entity entityType u j))"

definition ListAllJobs :: "(db, Job list) prog" where
  "ListAllJobs = list_jobs_where (\<lambda>_. True)"

definition GetJobByID :: "int \<Rightarrow> (db, Job) prog" where
  "GetJobByID jobID = db_read (\<lambda>d. case find_job jobID d of
     None \<Rightarrow> Inl NotFoundError | Some j \<Rightarrow> Inr (job_with_instance d j))"

record ListJobsFilter =
  f_IncludeCompleted :: bool
  f_Since :: time
  f_Until :: time
  f_Page :: uint64
  f_PageSize :: uint64

record pageInfo =
  pi_page :: uint64
  pi_pages :: uint64
  pi_limit :: int
  pi_offset :: int
  pi_next :: "uint64 option"
  pi_prev :: "uint64 option"

text \<open>All arithmetic on \<^verbatim>\<open>uint64\<close> wraps around.\<close>

definition paginationInfo :: "int \<Rightarrow> uint64 \<Rightarrow> uint64 \<Rightarrow> garm_error + pageInfo" where
  "paginationInfo total0 page0 pageSize =
     (let page = (if page0 = 0 then 1 else page0);
          limit = (if pageSize > 0 \<and> uint pageSize \<le> max_int then uint pageSize else 25);
          limit64 = (word_of_int limit :: uint64);
          pages = (if total0 > 0 then (word_of_int total0 + limit64 - 1) div limit64 else 0);
          offset = (page - 1) * limit64
      in if uint offset > max_int then Inl (OtherError ''offset exceeds max int size'')
         else Inr \<lparr>pi_page = page, pi_pages = pages, pi_limit = limit, pi_offset = uint offset,
           pi_next = (if page < pages then Some (page + 1) else None),
           pi_prev = (if page > 1 then Some (page - 1) else None)\<rparr>)"

definition applyListJobsFilter :: "ListJobsFilter \<Rightarrow> WorkflowJob \<Rightarrow> bool" where
  "applyListJobsFilter f j \<longleftrightarrow>
     (\<not> f_IncludeCompleted f \<longrightarrow> jr_Status j \<noteq> JobStatusCompleted) \<and>
     (f_Since f \<noteq> 0 \<longrightarrow> jr_CreatedAt j \<ge> f_Since f) \<and>
     (f_Until f \<noteq> 0 \<longrightarrow> jr_CreatedAt j \<le> f_Until f)"

record JobsPaginatedResponse =
  jp_TotalCount :: uint64
  jp_Pages :: uint64
  jp_CurrentPage :: uint64
  jp_NextPage :: "uint64 option"
  jp_PreviousPage :: "uint64 option"
  jp_Results :: "Job list"

definition ListJobs :: "ListJobsFilter \<Rightarrow> (db, JobsPaginatedResponse) prog" where
  "ListJobs f = m_bind (db_read (\<lambda>d. Inr (int (length (filter (applyListJobsFilter f) (db_jobs d)))))) (\<lambda>total0.
     m_bind (m_result (paginationInfo total0 (f_Page f) (f_PageSize f))) (\<lambda>info.
     m_bind (db_read (\<lambda>d. Inr (map (job_with_instance d) (take (nat (pi_limit info)) (drop (nat (pi_offset info))
         (rev (filter (applyListJobsFilter f) (db_jobs d)))))))) (\<lambda>results.
       m_ret \<lparr>jp_TotalCount = word_of_int total0, jp_Pages = pi_pages info, jp_CurrentPage = pi_page info,
         jp_NextPage = pi_next info, jp_PreviousPage = pi_prev info, jp_Results = results\<rparr>)))"

subsection \<open>Cleaning up\<close>

definition inactionable :: "WorkflowJob \<Rightarrow> bool" where
  "inactionable j \<longleftrightarrow> (jr_Status j \<noteq> JobStatusQueued \<and> jr_InstanceID j = None) \<or>
     (jr_Status j = JobStatusCompleted \<and> jr_InstanceID j \<noteq> None)"

definition DeleteInactionableJobs :: "duration \<Rightarrow> (db, unit) prog" where
  "DeleteInactionableJobs olderThan = m_bind (db_tx (m_bind
       (m_get (\<lambda>d. filter (\<lambda>j. inactionable j \<and> (olderThan > 0 \<longrightarrow> jr_CreatedAt j < db_clock d - olderThan)) (db_jobs d)))
       (\<lambda>jobs. m_bind (m_get (\<lambda>d. map (job_with_instance d) jobs)) (\<lambda>asParams.
          if jobs = [] then m_ret []
          else m_seq (m_modify (\<lambda>d. d\<lparr>db_jobs := del_rows (\<lambda>j. jr_ID j \<in> set (map jr_ID jobs)) (db_jobs d)\<rparr>))
            (m_ret asParams)))))
     (m_for (\<lambda>j. sendNotify JobEntityType DeleteOperation (JobPayload j)))"

definition jobs_ok :: "db \<Rightarrow> bool" where
  "jobs_ok d \<longleftrightarrow> distinct (map jr_ID (db_jobs d)) \<and> distinct (map jr_WorkflowJobID (db_jobs d)) \<and>
     0 < db_next_job d \<and> (\<forall>j \<in> set (db_jobs d). 0 < jr_ID j \<and> jr_ID j < db_next_job d)"

definition job_owner :: "db \<Rightarrow> int \<Rightarrow> uuid option" where
  "job_owner d k = (case find_job k d of None \<Rightarrow> None
     | Some j \<Rightarrow> if jr_LockedBy j = uuid_nil then None else Some (jr_LockedBy j))"

subsection \<open>The interface of an ownership lock\<close>

datatype ('k, 'o) lock_op = Acquire 'k 'o | Release 'k 'o

text \<open>A call, and whether it is made under an identity that can own a lock.\<close>

primrec run_op :: "('k \<Rightarrow> 'o \<Rightarrow> ('s, unit) prog) \<Rightarrow> ('k \<Rightarrow> 'o \<Rightarrow> ('s, unit) prog) \<Rightarrow> ('k, 'o) lock_op \<Rightarrow> 's \<Rightarrow> 's" where
  "run_op acquire release (Acquire k p) s = snd (acquire k p s)"
| "run_op acquire release (Release k p) s = snd (release k p s)"

primrec op_valid :: "('o \<Rightarrow> bool) \<Rightarrow> ('k, 'o) lock_op \<Rightarrow> bool" where
  "op_valid valid (Acquire k p) = valid p"
| "op_valid valid (Release k p) = valid p"

locale owner_lock =
  fixes invar :: "'s \<Rightarrow> bool"
    and owner :: "'s \<Rightarrow> 'k \<Rightarrow> 'o option"
    and valid :: "'o \<Rightarrow> bool"
    and acquire :: "'k \<Rightarrow> 'o \<Rightarrow> ('s, unit) prog"
    and release :: "'k \<Rightarrow> 'o \<Rightarrow> ('s, unit) prog"
  assumes acquire_owner: "invar s \<Longrightarrow> valid p \<Longrightarrow> owner (snd (acquire k p s)) = owner s \<or>
      owner s k = None \<and> owner (snd (acquire k p s)) = (owner s)(k \<mapsto> p)"
    and acquire_won: "invar s \<Longrightarrow> valid p \<Longrightarrow> fst (acquire k p s) = Inr () \<Longrightarrow> owner (snd (acquire k p s)) k = Some p"
    and release_owner: "invar s \<Longrightarrow> valid p \<Longrightarrow> owner (snd (release k p s)) = owner s \<or>
      owner s k = Some p \<and> owner (snd (release k p s)) = (owner s)(k := None)"
    and acquire_invar: "invar s \<Longrightarrow> invar (snd (acquire k p s))"
    and release_invar: "invar s \<Longrightarrow> invar (snd (release k p s))"
begin

lemma run_op_invar: "invar s \<Longrightarrow> invar (run_op acquire release x s)"
  by (cases x) (simp_all add: acquire_invar release_invar)

lemma owner_keeps_step:
  "invar s \<Longrightarrow> owner s k = Some p \<Longrightarrow> op_valid valid x \<Longrightarrow> x \<noteq> Release k p \<Longrightarrow> owner (run_op acquire release x s) k = Some p"
proof (cases x)
  case (Acquire k' p')
  then show "invar s \<Longrightarrow> owner s k = Some p \<Longrightarrow> op_valid valid x \<Longrightarrow> owner (run_op acquire release x s) k = Some p"
    using acquire_owner [of s p' k'] by auto
next
  case (Release k' p')
  then show "invar s \<Longrightarrow> owner s k = Some p \<Longrightarrow> op_valid valid x \<Longrightarrow> x \<noteq> Release k p \<Longrightarrow> owner (run_op acquire release x s) k = Some p"
    using release_owner [of s p' k'] by auto
qed

lemma owner_keeps:
  "invar s \<Longrightarrow> owner s k = Some p \<Longrightarrow> list_all (op_valid valid) xs \<Longrightarrow> Release k p \<notin> set xs \<Longrightarrow>
   owner (fold (run_op acquire release) xs s) k = Some p \<and> invar (fold (run_op acquire release) xs s)"
  by (induction xs arbitrary: s) (auto simp: run_op_invar owner_keeps_step)

lemma single_winner:
  assumes "invar s" "valid p" "valid q" "p \<noteq> q" "fst (acquire k p s) = Inr ()"
    "list_all (op_valid valid) xs" "Release k p \<notin> set xs"
  shows "fst (acquire k q (fold (run_op acquire release) xs (snd (acquire k p s)))) \<noteq> Inr ()"
proof
  let ?t = "fold (run_op acquire release) xs (snd (acquire k p s))"
  assume won: "fst (acquire k q ?t) = Inr ()"
  have t: "owner ?t k = Some p" "invar ?t"
    using owner_keeps [OF acquire_invar [OF assms(1)] acquire_won [OF assms(1,2,5)] assms(6,7)] by simp_all
  from acquire_won [OF t(2) assms(3) won] acquire_owner [OF t(2) assms(3), of k] t(1) assms(4)
  show False by auto
qed

end

subsection \<open>The lock of a job\<close>

lemma find_job_upd:
  assumes "jobs_ok d" "find_job k d = Some j" "jr_ID j' = jr_ID j" "jr_WorkflowJobID j' = jr_WorkflowJobID j"
    "db_jobs d' = upd_rows (\<lambda>x. jr_ID x = jr_ID j) (\<lambda>_. j') (db_jobs d)"
  shows "find_job k' d' = (if k' = k then Some j' else find_job k' d)"
proof -
  have jk: "jr_WorkflowJobID j = k" "j \<in> set (db_jobs d)"
    using find_SomeD [OF assms(2) [unfolded find_job_def]] by simp_all
  have same: "(jr_ID x = jr_ID j) = (jr_WorkflowJobID x = k)" if "x \<in> set (db_jobs d)" for x
    using assms(1) jk that by (metis distinct_map inj_on_eq_iff jobs_ok_def)
  have "List.find (\<lambda>x. jr_WorkflowJobID x = k') (upd_rows (\<lambda>x. jr_ID x = jr_ID j) (\<lambda>_. j') rows) =
      (if k' = k then map_option (\<lambda>_. j') (List.find (\<lambda>x. jr_WorkflowJobID x = k') rows)
       else List.find (\<lambda>x. jr_WorkflowJobID x = k') rows)"
    if "set rows \<subseteq> set (db_jobs d)" for rows
    using that same jk assms(4) by (induction rows) auto
  with assms show ?thesis by (auto simp: find_job_def)
qed

lemma jobs_ok_upd:
  assumes "jobs_ok d" "jr_ID j' = jr_ID j" "jr_WorkflowJobID j' = jr_WorkflowJobID j" "j \<in> set (db_jobs d)"
    "db_jobs d' = upd_rows (\<lambda>x. jr_ID x = jr_ID j) (\<lambda>_. j') (db_jobs d)" "db_next_job d' = db_next_job d"
  shows "jobs_ok d'"
proof -
  have uniq: "x = j" if "x \<in> set (db_jobs d)" "jr_ID x = jr_ID j" for x
    using assms(1,4) that by (metis distinct_map inj_on_eq_iff jobs_ok_def)
  have "map g (db_jobs d') = map g (db_jobs d)" if "g j' = g j" for g :: "WorkflowJob \<Rightarrow> int"
    unfolding assms(5) by (rule map_upd_rows_mem) (use uniq that in auto)
  moreover have "\<forall>x \<in> set (db_jobs d'). 0 < jr_ID x \<and> jr_ID x < db_next_job d"
    using assms by (auto simp: jobs_ok_def elim!: upd_rowsE)
  ultimately show ?thesis
    using assms by (simp add: jobs_ok_def)
qed


text \<open>What setting a lock does to the tables.\<close>

lemma set_lock_cases:
  assumes "set_lock j inst u d = (r, d')"
  obtains (failed) e where "r = Inl e" "d' = d"
  | (locked) j' jb where "r = Inr (Some jb)" "jr_LockedBy j' = u" "jr_ID j' = jr_ID j"
      "jr_WorkflowJobID j' = jr_WorkflowJobID j" "jr_Status j' = jr_Status j" "jr_Action j' = jr_Action j"
      "db_jobs d' = upd_rows (\<lambda>x. jr_ID x = jr_ID j) (\<lambda>_. j') (db_jobs d)" "db_next_job d' = db_next_job d"
proof -
  let ?j' = "j\<lparr>jr_LockedBy := u, jr_UpdatedAt := db_clock d,
    jr_InstanceID := (case inst of None \<Rightarrow> jr_InstanceID j | Some i \<Rightarrow> Some (ir_ID i))\<rparr>"
  show thesis
  proof (cases "job_refs_ok ?j' d")
    case True
    with assms show thesis
      using locked [of _ ?j'] by (cases inst) (auto simp: set_lock_def save_job_def m_bind_def Let_def)
  next
    case False
    with assms show thesis
      using failed by (cases inst) (auto simp: set_lock_def save_job_def m_bind_def Let_def)
  qed
qed

lemma notify_job_tables: "steps same_tables (notify_job op r)"
  unfolding notify_job_def by (intro tbl.db_rules)

text \<open>A job operation either fails and keeps the tables, or commits what its transaction did.\<close>

lemma job_tx_cases:
  assumes run: "m_bind (db_tx body) (notify_job op) d = (r, d')"
  obtains (failed) e where "r = Inl e" "same_tables d d'"
  | (committed) x bs d1 where "r = Inr ()" "body (d\<lparr>db_faults := bs\<rparr>) = (Inr x, d1)" "same_tables d1 d'"
proof -
  obtain r1 d1 where tx: "db_tx body d = (r1, d1)"
    by (cases "db_tx body d") auto
  from tx show thesis
  proof (cases rule: db_tx_cases)
    case (failed e)
    with run tx have "r = Inl e" "d' = d1" by (simp_all add: m_bind_def)
    with failed(2) that(1) show thesis by simp
  next
    case (committed x bs)
    have n: "notify_job op x d1 = (r, d')" using run tx committed(1) by (simp add: m_bind_def)
    then have "r = Inr ()"
      by (auto simp: notify_job_def m_when_def sendNotify_def split: option.splits if_splits)
    with that(2) committed(2) stepsD [OF notify_job_tables n] show thesis by blast
  qed
qed

lemma find_job_faults [simp]: "find_job k (d\<lparr>db_faults := bs\<rparr>) = find_job k d"
  by (simp add: find_job_def)

lemma same_tables_faults: "same_tables (d\<lparr>db_faults := bs\<rparr>) d' \<Longrightarrow> same_tables d d'"
  by (simp add: same_tables_def)

definition lock_written :: "WorkflowJob \<Rightarrow> uuid \<Rightarrow> db \<Rightarrow> db \<Rightarrow> bool" where
  "lock_written j u d d' \<longleftrightarrow> (\<exists>j'. jr_LockedBy j' = u \<and> jr_ID j' = jr_ID j \<and>
     jr_WorkflowJobID j' = jr_WorkflowJobID j \<and> jr_Status j' = jr_Status j \<and> jr_Action j' = jr_Action j \<and>
     db_jobs d' = upd_rows (\<lambda>x. jr_ID x = jr_ID j) (\<lambda>_. j') (db_jobs d) \<and> db_next_job d' = db_next_job d)"

lemma set_lock_written:
  assumes "set_lock j inst u (d\<lparr>db_faults := bs\<rparr>) = (Inr x, d1)" and "same_tables d1 d'"
  shows "lock_written j u d d'"
  using assms(1)
proof (cases rule: set_lock_cases)
  case (locked j' jb)
  with assms(2) show ?thesis
    unfolding lock_written_def by (intro exI [of _ j']) (simp add: same_tables_def)
qed simp

text \<open>\<^verbatim>\<open>LockJob\<close> keeps the tables, or gives a free job to the caller.\<close>

lemma LockJob_cases:
  assumes "LockJob k (uuid_string u) d = (r, d')"
  obtains (same) "same_tables d d'" "r = Inr () \<Longrightarrow> \<exists>j. find_job k d = Some j \<and> jr_LockedBy j = u"
  | (locked) j where "find_job k d = Some j" "jr_LockedBy j = uuid_nil" "r = Inr ()" "lock_written j u d d'"
proof -
  note run = assms [unfolded LockJob_def uuid_parse_string option.case]
  from run show thesis
  proof (cases rule: job_tx_cases)
    case (failed e)
    with same show thesis by simp
  next
    case (committed x bs d1)
    then obtain j where j: "find_job k d = Some j"
      by (cases "find_job k d") simp_all
    consider "jr_LockedBy j = u" | "jr_LockedBy j \<noteq> u" "jr_LockedBy j = uuid_nil"
      using committed(2) j by (auto split: if_splits)
    then show thesis
    proof cases
      case 1
      with committed j have "d1 = d\<lparr>db_faults := bs\<rparr>" by simp
      with 1 j committed(3) same show thesis by (simp add: same_tables_faults)
    next
      case 2
      with committed(2) j have "set_lock j (find_instance (d\<lparr>db_faults := bs\<rparr>) (jr_InstanceID j)) u
          (d\<lparr>db_faults := bs\<rparr>) = (Inr x, d1)"
        by simp
      from set_lock_written [OF this committed(3)] show thesis
        by (rule locked [OF j 2(2) committed(1)])
    qed
  qed
qed

lemma UnlockJob_cases:
  assumes "UnlockJob k (uuid_string u) d = (r, d')"
  obtains (same) "same_tables d d'"
  | (unlocked) j where "find_job k d = Some j" "jr_LockedBy j = u" "r = Inr ()" "lock_written j uuid_nil d d'"
  using assms unfolding UnlockJob_def
proof (cases rule: job_tx_cases)
  case (failed e)
  with same show thesis by simp
next
  case (committed x bs d1)
  then obtain j where j: "find_job k d = Some j"
    by (cases "find_job k d") simp_all
  show thesis
  proof (cases "jr_LockedBy j = uuid_nil")
    case True
    with committed j have "d1 = d\<lparr>db_faults := bs\<rparr>" by simp
    with committed(3) same show thesis by (simp add: same_tables_faults)
  next
    case False
    with committed(2) j have "jr_LockedBy j = u" "set_lock j None uuid_nil (d\<lparr>db_faults := bs\<rparr>) = (Inr x, d1)"
      by (simp_all split: if_splits)
    with set_lock_written [OF _ committed(3)] j committed(1) unlocked show thesis by blast
  qed
qed

lemma job_owner_same: "same_tables d d' \<Longrightarrow> job_owner d' = job_owner d"
  by (simp add: same_tables_def job_owner_def find_job_def fun_eq_iff)

lemma jobs_ok_same: "same_tables d d' \<Longrightarrow> jobs_ok d' = jobs_ok d"
  by (simp add: same_tables_def jobs_ok_def)

lemma lock_written_owner:
  assumes "jobs_ok d" "find_job k d = Some j" "lock_written j u d d'"
  shows "job_owner d' = (job_owner d)(k := if u = uuid_nil then None else Some u)" and "jobs_ok d'"
proof -
  obtain j' where j': "jr_LockedBy j' = u" "jr_ID j' = jr_ID j" "jr_WorkflowJobID j' = jr_WorkflowJobID j"
    "db_jobs d' = upd_rows (\<lambda>x. jr_ID x = jr_ID j) (\<lambda>_. j') (db_jobs d)" "db_next_job d' = db_next_job d"
    using assms(3) unfolding lock_written_def by blast
  have "find_job k' d' = (if k' = k then Some j' else find_job k' d)" for k'
    by (rule find_job_upd [OF assms(1,2) j'(2,3,4)])
  with j'(1) show "job_owner d' = (job_owner d)(k := if u = uuid_nil then None else Some u)"
    by (simp add: job_owner_def fun_eq_iff)
  show "jobs_ok d'"
    using find_SomeD [OF assms(2) [unfolded find_job_def]] j'
    by (intro jobs_ok_upd [OF assms(1) j'(2,3)]) simp_all
qed

interpretation jl: owner_lock jobs_ok job_owner "\<lambda>u. u \<noteq> uuid_nil"
  "\<lambda>k u. LockJob k (uuid_string u)" "\<lambda>k u. UnlockJob k (uuid_string u)"
proof unfold_locales
  fix d k and u :: uuid
  assume ok: "jobs_ok d"
  obtain r d' where run: "LockJob k (uuid_string u) d = (r, d')"
    by (cases "LockJob k (uuid_string u) d") auto
  then show "jobs_ok (snd (LockJob k (uuid_string u) d))"
    by (cases rule: LockJob_cases) (simp_all add: run jobs_ok_same ok lock_written_owner(2) [OF ok])
  obtain r2 d2 where run2: "UnlockJob k (uuid_string u) d = (r2, d2)"
    by (cases "UnlockJob k (uuid_string u) d") auto
  then show "jobs_ok (snd (UnlockJob k (uuid_string u) d))"
    by (cases rule: UnlockJob_cases) (simp_all add: run2 jobs_ok_same ok lock_written_owner(2) [OF ok])
  assume u: "u \<noteq> uuid_nil"
  from run show "job_owner (snd (LockJob k (uuid_string u) d)) = job_owner d \<or>
      job_owner d k = None \<and> job_owner (snd (LockJob k (uuid_string u) d)) = (job_owner d)(k \<mapsto> u)"
    by (cases rule: LockJob_cases)
      (simp_all add: run job_owner_same lock_written_owner(1) [OF ok] u job_owner_def [of d k])
  from run2 show "job_owner (snd (UnlockJob k (uuid_string u) d)) = job_owner d \<or>
      job_owner d k = Some u \<and> job_owner (snd (UnlockJob k (uuid_string u) d)) = (job_owner d)(k := None)"
    by (cases rule: UnlockJob_cases)
      (simp_all add: run2 job_owner_same lock_written_owner(1) [OF ok] u job_owner_def [of d k])
  assume won: "fst (LockJob k (uuid_string u) d) = Inr ()"
  from run show "job_owner (snd (LockJob k (uuid_string u) d)) k = Some u"
  proof (cases rule: LockJob_cases)
    case same
    with won run obtain j where "find_job k d = Some j" "jr_LockedBy j = u" by auto
    with same(1) u show ?thesis by (simp add: run job_owner_same) (simp add: job_owner_def)
  next
    case (locked j)
    with u show ?thesis by (simp add: run lock_written_owner(1) [OF ok])
  qed
qed


text \<open>
  (C3) Two entities never hold a queued job at the same time: after an entity has locked a job,
  no other entity's lock request succeeds, whatever lock and unlock requests any entities make in
  between, unless the first entity itself releases the job. Database errors may strike anywhere.
\<close>

theorem LockJob_single_winner:
  assumes "jobs_ok d" and "p \<noteq> uuid_nil" and "q \<noteq> uuid_nil" and "p \<noteq> q"
    and "fst (LockJob k (uuid_string p) d) = Inr ()"
    and "list_all (op_valid (\<lambda>u. u \<noteq> uuid_nil)) ops" and "Release k p \<notin> set ops"
  shows "fst (LockJob k (uuid_string q) (fold (run_op (\<lambda>k u. LockJob k (uuid_string u)) (\<lambda>k u. UnlockJob k (uuid_string u))) ops (snd (LockJob k (uuid_string p) d)))) \<noteq> Inr ()"
  using assms by (rule jl.single_winner)

subsection \<open>Every job operation keeps the job table well formed\<close>

definition jobs_step :: "db \<Rightarrow> db \<Rightarrow> bool" where
  "jobs_step d d' \<longleftrightarrow> (jobs_ok d \<longrightarrow> jobs_ok d')"

lemma jobs_step_same: "db_jobs d' = db_jobs d \<Longrightarrow> db_next_job d' = db_next_job d \<Longrightarrow> jobs_step d d'"
  by (simp add: jobs_step_def jobs_ok_def)

interpretation job: db_order jobs_step
  by unfold_locales (simp add: jobs_step_def, simp add: jobs_step_def, simp_all add: jobs_step_same)

lemma jobs_step_del: "steps jobs_step (m_modify (\<lambda>d. d\<lparr>db_jobs := del_rows P (db_jobs d)\<rparr>))"
  by (rule steps_modify) (simp add: jobs_step_def jobs_ok_def distinct_map_del_rows)

lemma save_job_ok:
  assumes "jobs_ok d" "j \<in> set (db_jobs d)" "jr_ID j1 = jr_ID j" "jr_WorkflowJobID j1 = jr_WorkflowJobID j"
  shows "jobs_ok (snd (save_job inst j1 d))"
proof (cases "save_job inst j1 d")
  case (Pair r d')
  show ?thesis
  proof (cases r)
    case (Inl e)
    with Pair assms(1) show ?thesis by (auto simp: save_job_def Let_def split: if_splits)
  next
    case (Inr j')
    then have "jr_ID j' = jr_ID j" "jr_WorkflowJobID j' = jr_WorkflowJobID j"
      "db_jobs d' = upd_rows (\<lambda>x. jr_ID x = jr_ID j) (\<lambda>_. j') (db_jobs d)" "db_next_job d' = db_next_job d"
      using Pair assms(3,4) by (auto simp: save_job_def Let_def split: if_splits)
    with jobs_ok_upd [OF assms(1) _ _ assms(2)] Pair show ?thesis by simp
  qed
qed

lemma find_job_mem: "find_job k d = Some j \<Longrightarrow> j \<in> set (db_jobs d) \<and> jr_WorkflowJobID j = k"
  by (auto simp: find_job_def dest: find_SomeD)

lemma insert_job_ok:
  assumes "jobs_ok d" "find_job (jr_WorkflowJobID j) d = None"
  shows "jobs_ok (snd (insert_job j d))"
  using assms
  by (auto simp: insert_job_def Let_def jobs_ok_def find_job_def find_None_iff image_iff split: if_splits)

lemma create_or_update_tx_ok: "steps jobs_step (create_or_update_tx job)"
proof (rule stepsI)
  fix d
  show "jobs_step d (snd (create_or_update_tx job d))"
  proof (cases "find_job (j_WorkflowJobID job) d")
    case None
    have "jobs_ok d \<Longrightarrow> jobs_ok (snd (insert_job ((paramsJobToWorkflowJob job d)\<lparr>jr_WorkflowRunURL := w\<rparr>) d))" for w
      using None by (intro insert_job_ok) (simp_all add: paramsJobToWorkflowJob_def)
    with None show ?thesis
      by (simp add: create_or_update_tx_def jobs_step_def m_bind_def split: prod.splits sum.splits)
        (metis snd_conv)
  next
    case (Some j)
    have "jobs_ok d \<Longrightarrow> jobs_ok (snd (save_job inst (update_job_row job d j) d))" for inst
      using find_job_mem [OF Some] by (intro save_job_ok [of d j]) (simp_all add: update_job_row_def)
    with Some show ?thesis
      by (simp add: create_or_update_tx_def jobs_step_def m_bind_def split: prod.splits sum.splits)
        (metis snd_conv)
  qed
qed


text \<open>
  A relation that deletions and the rewriting of a row under its old identity and action step along is kept by every
  operation that only locks, unlocks or deletes jobs.
\<close>

locale job_rows = db_order R for R :: "db \<Rightarrow> db \<Rightarrow> bool" +
  assumes J_del: "steps R (m_modify (\<lambda>d. d\<lparr>db_jobs := del_rows P (db_jobs d)\<rparr>))"
    and J_save: "j \<in> set (db_jobs d) \<Longrightarrow> jr_ID j1 = jr_ID j \<Longrightarrow> jr_WorkflowJobID j1 = jr_WorkflowJobID j \<Longrightarrow>
      jr_Action j1 = jr_Action j \<Longrightarrow> R d (snd (save_job inst j1 d))"
begin

lemma st_notify_job: "steps R (notify_job op r)"
  unfolding notify_job_def by (intro db_rules)

lemma R_set_lock: "j \<in> set (db_jobs d) \<Longrightarrow> R d (snd (set_lock j inst u d))"
  using J_save [of j d "j\<lparr>jr_LockedBy := u\<rparr>" inst]
  by (auto simp: set_lock_def m_bind_def split: prod.splits sum.splits)

text \<open>A transaction that reads one row and then acts on it.\<close>

lemma st_read_row:
  assumes "\<And>d j. F d = Some j \<Longrightarrow> j \<in> set (db_jobs d)"
    and "\<And>d. R d (snd (K None d))"
    and "\<And>d j. j \<in> set (db_jobs d) \<Longrightarrow> R d (snd (K (Some j) d))"
  shows "steps R (m_bind (db_tx (m_bind (m_get F) K)) (notify_job op))"
proof (rule st_bind [OF st_tx st_notify_job], rule stepsI)
  fix d
  show "R d (snd (m_bind (m_get F) K d))"
    by (cases "F d") (simp_all add: assms(2) assms(3) [OF assms(1)])
qed

lemma st_LockJob: "steps R (LockJob k e)"
  unfolding LockJob_def
  by (intro st_option st_throw st_read_row) (auto simp: find_job_mem R_refl R_set_lock)

lemma st_UnlockJob: "steps R (UnlockJob k e)"
  unfolding UnlockJob_def
  by (intro st_read_row) (auto simp: find_job_mem R_refl R_set_lock)

lemma st_BreakLock: "steps R (BreakLockJobIsQueued k)"
  unfolding BreakLockJobIsQueued_def
  by (intro st_read_row) (auto simp: R_refl R_set_lock dest: find_SomeD)

lemma st_DeleteJob: "steps R (DeleteJob k)"
  unfolding DeleteJob_def by (intro db_rules st_notify_job J_del)

lemma st_DeleteInactionable: "steps R (DeleteInactionableJobs t)"
  unfolding DeleteInactionableJobs_def by (intro db_rules J_del)

end

interpretation jb: job_rows jobs_step
  by unfold_locales (rule jobs_step_del, simp add: jobs_step_def save_job_ok)

lemma jobs_CreateOrUpdateJob: "steps jobs_step (CreateOrUpdateJob j)"
  unfolding CreateOrUpdateJob_def by (intro job.db_rules create_or_update_tx_ok)

lemma jobs_instance_row: "steps jobs_step (m_modify (delete_instance_row u))"
  by (rule steps_modify) (simp add: delete_instance_row_def jobs_step_def jobs_ok_def distinct_map_del_rows)

lemma jobs_update_tx: "steps jobs_step (update_instance_tx n p f)"
proof (rule stepsI)
  fix d
  obtain r d' where run: "update_instance_tx n p f d = (r, d')"
    by (cases "update_instance_tx n p f d") auto
  from run have "jobs_step d d'"
    by (cases rule: update_tx_cases) (simp_all add: job.R_refl jobs_step_same upd_instance_def)
  with run show "jobs_step d (snd (update_instance_tx n p f d))" by simp
qed

lemma jobs_create_tx: "steps jobs_step (create_instance_tx p c)"
  unfolding create_instance_tx_def
  by (intro job.db_rules stepsI) (simp add: insert_instance_def jobs_step_same)


lemmas jobs_steps = jb.st_LockJob jb.st_UnlockJob jb.st_BreakLock jb.st_DeleteJob jobs_CreateOrUpdateJob
  jb.st_DeleteInactionable job.instance_reads
  job.st_CreateInstance [OF jobs_create_tx] job.st_updateInstance [OF jobs_update_tx]
  job.st_DeleteInstance [OF jobs_instance_row] job.st_DeleteInstanceByName [OF jobs_instance_row]

subsection \<open>What recording a job does\<close>

lemma paramsJobToWorkflowJob_fields [simp]:
  "jr_WorkflowJobID (paramsJobToWorkflowJob job d) = j_WorkflowJobID job"
  "jr_Action (paramsJobToWorkflowJob job d) = j_Action job"
  "jr_Status (paramsJobToWorkflowJob job d) = j_Status job"
  by (simp_all add: paramsJobToWorkflowJob_def)

lemma update_job_row_fields [simp]:
  "jr_ID (update_job_row job d j) = jr_ID j"
  "jr_WorkflowJobID (update_job_row job d j) = jr_WorkflowJobID j"
  "jr_Action (update_job_row job d j) = j_Action job"
  "jr_Status (update_job_row job d j) = j_Status job"
  by (simp_all add: update_job_row_def)

text \<open>A recorded job has the action and status that were recorded last.\<close>

lemma CreateOrUpdateJob_row:
  assumes "jobs_ok d" "CreateOrUpdateJob job d = (Inr jb, d')"
  obtains j where "find_job (j_WorkflowJobID job) d' = Some j" "jr_Action j = j_Action job" "jr_Status j = j_Status job"
    "\<And>j0. find_job (j_WorkflowJobID job) d = Some j0 \<Longrightarrow> find_instance d (jr_InstanceID j0) \<noteq> None \<Longrightarrow>
       jr_InstanceID j = jr_InstanceID j0"
    "\<And>k. k \<noteq> j_WorkflowJobID job \<Longrightarrow> find_job k d' = find_job k d"
proof -
  let ?k = "j_WorkflowJobID job"
  obtain x d1 where tx: "db_tx (create_or_update_tx job) d = (Inr x, d1)"
    and tail: "(case x of (operation, asParams) \<Rightarrow> m_seq (sendNotify JobEntityType operation (JobPayload asParams)) (m_ret asParams)) d1 = (Inr jb, d')"
    using assms(2) unfolding CreateOrUpdateJob_def by (rule m_bind_okE)
  have "steps same_tables (case x of (operation, asParams) \<Rightarrow>
      m_seq (sendNotify JobEntityType operation (JobPayload asParams)) (m_ret asParams))"
    by (intro tbl.db_rules)
  from stepsD [OF this tail] have fin: "find_job k d' = find_job k d1" for k
    by (simp add: same_tables_def find_job_def)
  obtain bs where body: "create_or_update_tx job (d\<lparr>db_faults := bs\<rparr>) = (Inr x, d1)"
    using tx by (rule db_tx_ok)
  let ?d = "d\<lparr>db_faults := bs\<rparr>"
  have inst: "find_instance ?d u = find_instance d u" for u
    by (simp add: find_instance_def split: option.splits)
  show thesis
  proof (cases "find_job ?k d")
    case None
    let ?row = "(paramsJobToWorkflowJob job ?d)\<lparr>jr_WorkflowRunURL := j_WorkflowRunURL job, jr_ID := db_next_job d\<rparr>"
    have "db_jobs d1 = db_jobs d @ [?row]"
      using body None by (auto simp: create_or_update_tx_def insert_job_def m_bind_def Let_def split: if_splits)
    then have "find_job k d1 = (case find_job k d of None \<Rightarrow> if k = ?k then Some ?row else None | Some y \<Rightarrow> Some y)" for k
      by (auto simp: find_job_def find_append split: option.splits)
    with None fin that [of ?row] show thesis
      by (simp split: option.splits)
  next
    case (Some j0)
    let ?row = "(update_job_row job ?d j0)\<lparr>jr_UpdatedAt := db_clock d, jr_InstanceID :=
      (case find_instance d (jr_InstanceID j0) of None \<Rightarrow> jr_InstanceID (update_job_row job ?d j0) | Some i \<Rightarrow> Some (ir_ID i))\<rparr>"
    have jobs: "db_jobs d1 = upd_rows (\<lambda>y. jr_ID y = jr_ID j0) (\<lambda>_. ?row) (db_jobs d)"
      using body Some by (auto simp: create_or_update_tx_def save_job_def m_bind_def Let_def inst
          split: if_splits)
    have ids: "jr_ID ?row = jr_ID j0" "jr_WorkflowJobID ?row = jr_WorkflowJobID j0"
      by simp_all
    have "find_job k d1 = (if k = ?k then Some ?row else find_job k d)" for k
      by (rule find_job_upd [OF assms(1) Some ids jobs])
    moreover have "jr_InstanceID ?row = jr_InstanceID j0" if "find_instance d (jr_InstanceID j0) \<noteq> None"
      using that by (auto simp: find_instance_def split: option.splits dest: find_SomeD)
    ultimately show thesis
      using that [of ?row] fin Some by simp
  qed
qed

text \<open>
  Once a job is attached to a runner GARM manages, recording it again never attaches it to
  another one: saving the row writes the preloaded association's key over the new one. The action
  and status are the recorded ones and every other job is untouched.
\<close>

theorem CreateOrUpdateJob_keeps_runner:
  assumes "jobs_ok d" and "find_job (j_WorkflowJobID job) d = Some j0" and "jr_InstanceID j0 = Some u"
    and "find_instance d (Some u) \<noteq> None" and "CreateOrUpdateJob job d = (Inr jb, d')"
  shows "(\<exists>j. find_job (j_WorkflowJobID job) d' = Some j \<and> jr_InstanceID j = Some u \<and>
      jr_Action j = j_Action job \<and> jr_Status j = j_Status job) \<and>
    (\<forall>k. k \<noteq> j_WorkflowJobID job \<longrightarrow> find_job k d' = find_job k d)"
  using CreateOrUpdateJob_row [OF assms(1,5)] assms(2,3,4) by metis

lemma concat_pages: "concat (map (\<lambda>k. take n (drop (k * n) xs)) [0..<m]) = take (m * n) xs"
proof (induction m)
  case (Suc m)
  have "take (Suc m * n) xs = take (m * n) xs @ take n (drop (m * n) xs)"
    by (simp add: add.commute [of n] take_add)
  with Suc show ?case by simp
qed simp

lemma ceil_covers:
  assumes "0 < (l :: nat)"
  shows "n \<le> (n + l - 1) div l * l"
proof -
  have "n + l - 1 < (n + l - 1) div l * l + l"
    using assms by (metis dividend_less_div_times add.commute)
  then show ?thesis by linarith
qed

lemma uint_small: "0 \<le> x \<Longrightarrow> x < 2 ^ 64 \<Longrightarrow> uint (word_of_int x :: uint64) = x"
  by (simp add: uint_word_of_int)

lemma paginationInfo_exact:
  assumes t: "0 \<le> totalc" "totalc \<le> max_int" and l: "0 < pageSize" "uint pageSize \<le> max_int"
    and p: "page \<noteq> 0" "(uint page - 1) * uint pageSize \<le> max_int"
  shows "\<exists>info. paginationInfo totalc page pageSize = Inr info \<and> pi_limit info = uint pageSize \<and>
    pi_offset info = (uint page - 1) * uint pageSize \<and> pi_page info = page \<and>
    uint (pi_pages info) = (totalc + uint pageSize - 1) div uint pageSize"
proof -
  let ?l = "uint pageSize"
  have l0: "0 < ?l" using l(1) by (simp add: word_less_def)
  have p1: "1 \<le> uint page" using p(1) by (metis gr_zeroI int_one_le_iff_zero_less linorder_not_less
        uint_0_iff uint_nonnegative order_le_less)
  have up: "uint (page - 1) = uint page - 1"
    using p1 by (simp add: uint_sub_if_size word_le_def uint_minus_simple_alt)
  have mx: "max_int < 2 ^ 64" by (simp add: max_int_def)
  have wl: "(word_of_int ?l :: uint64) = pageSize" by simp
  have off: "uint ((page - 1) * pageSize) = (uint page - 1) * ?l"
  proof -
    have "uint ((page - 1) * pageSize) = ((uint page - 1) * ?l) mod 2 ^ 64"
      by (simp add: uint_word_ariths(3) up)
    moreover have "0 \<le> (uint page - 1) * ?l" using p1 l0 by simp
    ultimately show ?thesis using p(2) mx by (simp add: mod_pos_pos_trivial)
  qed
  have sum: "uint (word_of_int totalc + pageSize - 1) = totalc + ?l - 1"
  proof -
    have "(word_of_int totalc + pageSize - 1 :: uint64) = word_of_int (totalc + ?l - 1)"
      by (simp add: wi_hom_syms)
    moreover have "0 \<le> totalc + ?l - 1" "totalc + ?l - 1 < 2 ^ 64"
      using t l(2) l0 by (simp_all add: max_int_def)
    ultimately show ?thesis by (simp only: uint_small)
  qed
  have pages: "uint (if 0 < totalc then (word_of_int totalc + pageSize - 1) div pageSize else 0) =
      (totalc + ?l - 1) div ?l"
    using sum t(1) l0 by (auto simp: uint_div)
  show ?thesis
    using l p off pages by (simp add: paginationInfo_def Let_def wl split: if_split_asm)
qed

definition page_results :: "ListJobsFilter \<Rightarrow> db \<Rightarrow> nat \<Rightarrow> Job list" where
  "page_results f d k = (case ListJobs (f\<lparr>f_Page := of_nat (k + 1)\<rparr>) d of
     (Inr resp, _) \<Rightarrow> jp_Results resp | (Inl _, _) \<Rightarrow> [])"

definition page_count :: "ListJobsFilter \<Rightarrow> db \<Rightarrow> nat" where
  "page_count f d = (case ListJobs (f\<lparr>f_Page := 1\<rparr>) d of
     (Inr resp, _) \<Rightarrow> unat (jp_Pages resp) | (Inl _, _) \<Rightarrow> 0)"

lemma ListJobs_run:
  assumes "db_faults d = []" and "0 < f_PageSize f" and "uint (f_PageSize f) \<le> max_int"
    and "int (length (filter (applyListJobsFilter f) (db_jobs d))) \<le> max_int"
    and "int k * uint (f_PageSize f) \<le> max_int"
  shows "page_results f d k = map (job_with_instance d) (take (unat (f_PageSize f))
      (drop (k * unat (f_PageSize f)) (rev (filter (applyListJobsFilter f) (db_jobs d)))))"
    and "k = 0 \<Longrightarrow> page_count f d = (length (filter (applyListJobsFilter f) (db_jobs d)) + unat (f_PageSize f) - 1)
      div unat (f_PageSize f)"
proof -
  let ?t = "int (length (filter (applyListJobsFilter f) (db_jobs d)))" and ?l = "uint (f_PageSize f)"
  have l1: "1 \<le> ?l" using assms(2) by (simp add: word_less_def)
  have "int k * 1 \<le> int k * ?l" using l1 by (intro mult_left_mono) simp_all
  with assms(5) have kb: "int k \<le> max_int" by linarith
  then have k64: "uint (of_nat (k + 1) :: uint64) = int k + 1"
    using uint_small [of "int k + 1"] by (simp add: max_int_def add.commute)
  have nz: "(of_nat (k + 1) :: uint64) \<noteq> 0"
  proof
    assume "(of_nat (k + 1) :: uint64) = 0"
    with k64 show False by (simp only: unsigned_0)
  qed
  have filt: "applyListJobsFilter (f\<lparr>f_Page := p\<rparr>) = applyListJobsFilter f" for p
    by (simp add: applyListJobsFilter_def fun_eq_iff)
  obtain info where info: "paginationInfo ?t (of_nat (k + 1)) (f_PageSize f) = Inr info"
    "pi_limit info = ?l" "pi_offset info = int k * ?l" "uint (pi_pages info) = (?t + ?l - 1) div ?l"
    using paginationInfo_exact [of ?t "f_PageSize f" "of_nat (k + 1)"] assms nz k64 by auto
  have lim: "nat ?l = unat (f_PageSize f)" "nat (int k * ?l) = k * unat (f_PageSize f)"
    by (simp_all add: nat_mult_distrib)
  show "page_results f d k = map (job_with_instance d) (take (unat (f_PageSize f))
      (drop (k * unat (f_PageSize f)) (rev (filter (applyListJobsFilter f) (db_jobs d)))))"
    using info assms(1) lim by (simp add: page_results_def ListJobs_def m_bind_def filt)
  assume k: "k = 0"
  have "unat (pi_pages info) = nat ((?t + ?l - 1) div ?l)"
    unfolding info(4) [symmetric] by simp
  also have "\<dots> = (length (filter (applyListJobsFilter f) (db_jobs d)) + unat (f_PageSize f) - 1) div unat (f_PageSize f)"
    using l1 by (simp add: nat_div_distrib nat_diff_distrib nat_add_distrib)
  finally show "page_count f d = (length (filter (applyListJobsFilter f) (db_jobs d)) + unat (f_PageSize f) - 1)
      div unat (f_PageSize f)"
    using info(1) k assms(1) by (simp add: page_count_def ListJobs_def m_bind_def filt)
qed

text \<open>
  Walking the pages of a listing visits every matching job exactly once, newest first: the
  results of page 1 up to the number of pages reported are the whole listing.
\<close>

theorem ListJobs_pages:
  assumes "db_faults d = []" and "0 < f_PageSize f" and "uint (f_PageSize f) \<le> max_int"
    and "int (length (filter (applyListJobsFilter f) (db_jobs d))) \<le> max_int"
  shows "concat (map (page_results f d) [0..<page_count f d]) =
    map (job_with_instance d) (rev (filter (applyListJobsFilter f) (db_jobs d)))"
proof -
  let ?rows = "filter (applyListJobsFilter f) (db_jobs d)" and ?l = "unat (f_PageSize f)"
  have l: "0 < ?l" using assms(2) by (simp add: word_less_nat_alt)
  have n: "page_count f d = (length ?rows + ?l - 1) div ?l"
    using ListJobs_run(2) [OF assms, of 0] by (simp add: max_int_def)
  have res: "page_results f d k = map (job_with_instance d) (take ?l (drop (k * ?l) (rev ?rows)))"
    if k: "k < page_count f d" for k
  proof (rule ListJobs_run(1) [OF assms])
    have "Suc k * ?l \<le> page_count f d * ?l" using k by (intro mult_le_mono1) simp
    also have "\<dots> \<le> length ?rows + ?l - 1" unfolding n by (rule div_times_less_eq_dividend)
    finally have "k * ?l \<le> length ?rows" using l by simp
    then have "int (k * ?l) \<le> int (length ?rows)" by (rule of_nat_mono)
    with assms(4) show "int k * uint (f_PageSize f) \<le> max_int" by simp
  qed
  have "concat (map (page_results f d) [0..<page_count f d]) =
      concat (map (\<lambda>k. map (job_with_instance d) (take ?l (drop (k * ?l) (rev ?rows)))) [0..<page_count f d])"
    using res by (intro arg_cong [of _ _ concat] map_cong) simp_all
  also have "\<dots> = map (job_with_instance d) (concat (map (\<lambda>k. take ?l (drop (k * ?l) (rev ?rows))) [0..<page_count f d]))"
    by (simp add: map_concat comp_def)
  also have "\<dots> = map (job_with_instance d) (rev ?rows)"
    using ceil_covers [OF l, of "length ?rows"] by (simp add: concat_pages n)
  finally show ?thesis .
qed

text \<open>
  The guard against an oversized offset is computed after the multiplication has wrapped
  around: with 16 jobs a page, page \<open>2^60 + 1\<close> is not refused but served from the start of the list.
\<close>

theorem paginationInfo_wraps:
  "paginationInfo 100 (2 ^ 60 + 1) 16 =
     Inr \<lparr>pi_page = 2 ^ 60 + 1, pi_pages = 7, pi_limit = 16, pi_offset = 0, pi_next = None,
       pi_prev = Some (2 ^ 60)\<rparr>"
  by (simp add: paginationInfo_def Let_def max_int_def)

lemma ex_jobs_ok [simp]: "jobs_ok ex_db"
  by (simp add: jobs_ok_def ex_job_def)

lemma ex_entity_ids: "entity_ids ty ex_db = (if ty = ForgeEntityTypeRepository then {9} else {})"
  by (simp add: entity_ids_def ex_entity_def)

lemma entity_ids_frame [simp]: "entity_ids ty (d\<lparr>db_jobs := js\<rparr>) = entity_ids ty d"
  by (simp add: entity_ids_def)

lemma ex_lock_run: "fst (LockJob 42 (uuid_string 9) ex_db) = Inr ()"
  by (simp add: LockJob_def m_bind_def db_tx_nofault find_job_def ex_job_def set_lock_def save_job_def Let_def
      find_instance_def uuid_nil_def job_refs_ok_def ref_ok_def ex_entity_ids notify_job_def sendNotify_def m_when_def)

theorem LockJob_single_winner_witness:
  "fst (LockJob 42 (uuid_string 8) (snd (LockJob 42 (uuid_string 9) ex_db))) \<noteq> Inr ()"
  using LockJob_single_winner [of ex_db 9 8 42 "[]"] ex_lock_run by (simp add: uuid_nil_def)

definition ex_attached :: db where
  "ex_attached = ex_db\<lparr>db_jobs := [ex_job\<lparr>jr_InstanceID := Some 2\<rparr>]\<rparr>"

definition ex_rerun :: Job where
  "ex_rerun = (sqlWorkflowJobToParamsJob ex_job None)\<lparr>j_Status := ''in_progress'', j_Action := ''in_progress'',
     j_RunnerName := ''other''\<rparr>"

theorem CreateOrUpdateJob_keeps_runner_witness:
  "map_option jr_InstanceID (find_job 42 (snd (CreateOrUpdateJob ex_rerun ex_attached))) = Some (Some 2)"
proof -
  have "isl (fst (CreateOrUpdateJob ex_rerun ex_attached)) = False"
    by (simp add: CreateOrUpdateJob_def create_or_update_tx_def m_bind_def db_tx_nofault ex_attached_def find_job_def
        ex_job_def ex_rerun_def sqlWorkflowJobToParamsJob_def find_instance_def ex_instance_def update_job_row_def
        runner_instance_def getInstance_def instance_matches_def uuid_parse_def save_job_def Let_def job_refs_ok_def
        ref_ok_def ex_entity_ids m_seq_def sendNotify_def)
  then have run: "CreateOrUpdateJob ex_rerun ex_attached =
      (Inr (projr (fst (CreateOrUpdateJob ex_rerun ex_attached))), snd (CreateOrUpdateJob ex_rerun ex_attached))"
    by (cases "CreateOrUpdateJob ex_rerun ex_attached") auto
  show ?thesis
    using CreateOrUpdateJob_keeps_runner [OF _ _ _ _ run, of "ex_job\<lparr>jr_InstanceID := Some 2\<rparr>" 2]
    by (auto simp: ex_attached_def jobs_ok_def ex_job_def find_job_def ex_rerun_def sqlWorkflowJobToParamsJob_def
        find_instance_def ex_instance_def)
qed

definition ex_filter :: ListJobsFilter where
  "ex_filter = \<lparr>f_IncludeCompleted = False, f_Since = 0, f_Until = 0, f_Page = 0, f_PageSize = 10\<rparr>"

theorem ListJobs_pages_witness:
  "map j_WorkflowJobID (concat (map (page_results ex_filter ex_db) [0..<page_count ex_filter ex_db])) = [42]"
  using ListJobs_pages [of ex_db ex_filter]
  by (simp add: ex_filter_def applyListJobsFilter_def ex_job_def max_int_def job_with_instance_def
      sqlWorkflowJobToParamsJob_def)

end
