(* ===== verification/Garm_Pools.thy ===== *)
theory Garm_Pools
  imports Garm_Instances
begin

text \<open>
  The pool operations of the store (\<^verbatim>\<open>database/sql/pools.go\<close> and the pool helpers of
  \<^verbatim>\<open>database/sql/util.go\<close>): lookup by id and by entity, the search for pools that carry all tags of a
  job, creation, update with its generation counter, deletion, and the listing of an entity's
  instances.

  A pool's tags are a list of tag keys without repetition: the join table has one row per pair.
\<close>

subsection \<open>Requests\<close>

record CreatePoolParams =
  cpp_Prefix :: string
  cpp_ProviderName :: string
  cpp_MaxRunners :: uint64
  cpp_MinIdleRunners :: uint64
  cpp_Image :: string
  cpp_Flavor :: string
  cpp_OSType :: string
  cpp_OSArch :: string
  cpp_Tags :: "string list"
  cpp_Enabled :: bool
  cpp_RunnerBootstrapTimeout :: nat
  cpp_ExtraSpecs :: string
  cpp_EnableShell :: bool
  cpp_GitHubRunnerGroup :: string
  cpp_Priority :: nat
  cpp_TemplateID :: "nat option"
  cpp_ProxyID :: "nat option"

record UpdatePoolParams =
  upp_Prefix :: string
  upp_Tags :: "string list"
  upp_Enabled :: "bool option"
  upp_MaxRunners :: "uint64 option"
  upp_MinIdleRunners :: "uint64 option"
  upp_RunnerBootstrapTimeout :: "nat option"
  upp_Image :: string
  upp_Flavor :: string
  upp_OSType :: string
  upp_OSArch :: string
  upp_ExtraSpecs :: "string option"
  upp_EnableShell :: "bool option"
  upp_GitHubRunnerGroup :: "string option"
  upp_Priority :: "nat option"
  upp_TemplateID :: "nat option"
  upp_ProxyID :: "nat option"

definition CreatePoolParams_Validate :: "CreatePoolParams \<Rightarrow> garm_error option" where
  "CreatePoolParams_Validate p =
     (if cpp_ProviderName p = [] then Some (OtherError ''missing provider'')
      else if cpp_MinIdleRunners p > cpp_MaxRunners p
        then Some (OtherError ''min_idle_runners cannot be larger than max_runners'')
      else if cpp_MaxRunners p = 0 then Some (OtherError ''max_runners cannot be 0'')
      else if cpp_Tags p = [] then Some (OtherError ''missing tags'')
      else if cpp_Flavor p = [] then Some (OtherError ''missing flavor'')
      else if cpp_Image p = [] then Some (OtherError ''missing image'')
      else None)"

subsection \<open>Lookups\<close>

text \<open>The foreign key column of an entity type; \<open>None\<close> for a type without one.\<close>

definition entity_field :: "ForgeEntityType \<Rightarrow> (PoolRow \<Rightarrow> uuid option) option" where
  "entity_field ty = (case ty of
     ForgeEntityTypeRepository \<Rightarrow> Some pr_RepoID
   | ForgeEntityTypeOrganization \<Rightarrow> Some pr_OrgID
   | ForgeEntityTypeEnterprise \<Rightarrow> Some pr_EnterpriseID
   | ForgeEntityTypeInstance \<Rightarrow> Some pr_ForgeInstanceID
   | ForgeEntityTypeOther _ \<Rightarrow> None)"

definition hasGithubEntity :: "ForgeEntityType \<Rightarrow> string \<Rightarrow> db \<Rightarrow> garm_error + unit" where
  "hasGithubEntity entityType entityID d = (case uuid_parse entityID of
     None \<Rightarrow> Inl BadRequestError
   | Some u \<Rightarrow> (case entity_field entityType of
       None \<Rightarrow> Inl BadRequestError
     | Some _ \<Rightarrow> if \<exists>e \<in> set (db_entities d). er_Type e = entityType \<and> er_ID e = u
         then Inr () else Inl NotFoundError))"

definition hasProxy :: "nat \<Rightarrow> db \<Rightarrow> garm_error + unit" where
  "hasProxy n d = (if \<exists>x \<in> set (db_proxies d). xr_ID x = n then Inr () else Inl BadRequestError)"

definition getEntityPool :: "ForgeEntityType \<Rightarrow> string \<Rightarrow> string \<Rightarrow> db \<Rightarrow> garm_error + PoolRow" where
  "getEntityPool entityType entityID poolID d =
     (if entityID = [] then Inl BadRequestError
      else case uuid_parse poolID of
        None \<Rightarrow> Inl BadRequestError
      | Some u \<Rightarrow> (case entity_field entityType of
          None \<Rightarrow> Inl (OtherError ''invalid entityType'')
        | Some field \<Rightarrow> option_or NotFoundError
            (List.find (\<lambda>p. pr_ID p = u \<and> opt_uuid_is (field p) entityID) (db_pools d))))"

definition listEntityPools :: "ForgeEntityType \<Rightarrow> string \<Rightarrow> db \<Rightarrow> garm_error + PoolRow list" where
  "listEntityPools entityType entityID d = (case uuid_parse entityID of
     None \<Rightarrow> Inl BadRequestError
   | Some _ \<Rightarrow> (case hasGithubEntity entityType entityID d of
       Inl e \<Rightarrow> Inl e
     | Inr _ \<Rightarrow> (case entity_field entityType of
         None \<Rightarrow> Inl (OtherError ''invalid entityType'')
       | Some field \<Rightarrow> Inr (map (\<lambda>p. p\<lparr>pr_ExtraSpecs := []\<rparr>)
           (filter (\<lambda>p. opt_uuid_is (field p) entityID) (db_pools d))))))"

primrec convert_pools :: "PoolLoaded list \<Rightarrow> garm_error + Pool list" where
  "convert_pools [] = Inr []"
| "convert_pools (l # ls) = (case sqlToCommonPool l of Inl e \<Rightarrow> Inl e
     | Inr p \<Rightarrow> (case convert_pools ls of Inl e \<Rightarrow> Inl e | Inr ps \<Rightarrow> Inr (p # ps)))"

definition ListAllPools :: "(db, Pool list) prog" where
  "ListAllPools = db_read (\<lambda>d. convert_pools (map (\<lambda>p.
     \<lparr>pl_row = p\<lparr>pr_ExtraSpecs := []\<rparr>, pl_tags = pool_tags d p, pl_instances = [], pl_entity = pool_entity d p\<rparr>)
     (db_pools d)))"

definition GetPoolByID :: "string \<Rightarrow> (db, Pool) prog" where
  "GetPoolByID poolID = db_read (\<lambda>d. case getPoolByID poolID d of
     Inl e \<Rightarrow> Inl e | Inr p \<Rightarrow> sqlToCommonPool (load_pool d p))"

definition GetEntityPool :: "ForgeEntity \<Rightarrow> string \<Rightarrow> (db, Pool) prog" where
  "GetEntityPool entity poolID = db_read (\<lambda>d. case getEntityPool (e_EntityType entity) (e_ID entity) poolID d of
     Inl e \<Rightarrow> Inl e | Inr p \<Rightarrow> sqlToCommonPool (load_pool d p))"

definition ListEntityPools :: "ForgeEntity \<Rightarrow> (db, Pool list) prog" where
  "ListEntityPools entity = db_read (\<lambda>d. case listEntityPools (e_EntityType entity) (e_ID entity) d of
     Inl e \<Rightarrow> Inl e
   | Inr ps \<Rightarrow> convert_pools (map (\<lambda>p. \<lparr>pl_row = p, pl_tags = pool_tags d p, pl_instances = [],
       pl_entity = pool_entity d p\<rparr>) ps))"

definition ListEntityInstances :: "ForgeEntity \<Rightarrow> (db, Instance list) prog" where
  "ListEntityInstances entity = db_read (\<lambda>d. case listEntityPools (e_EntityType entity) (e_ID entity) d of
     Inl e \<Rightarrow> Inl e
   | Inr ps \<Rightarrow> convert_instances (concat (map (\<lambda>p. map (\<lambda>i.
       \<lparr>il_row = i, il_pool = Some p, il_scaleset = None, il_job = find_instance_job d i,
        il_addresses = False, il_messages = False\<rparr>) (pool_instances d p)) ps)))"

subsection \<open>The search by tags\<close>

text \<open>
  The query joins pools with their tags, keeps the pairs whose tag name is one of the requested ones
  in lower case, groups by pool and keeps the groups with as many pairs as there are requested tags.
\<close>

definition tag_matches :: "db \<Rightarrow> string list \<Rightarrow> PoolRow \<Rightarrow> nat" where
  "tag_matches d tags p =
     length (filter (\<lambda>t. to_lower (t_Name t) \<in> set (map to_lower tags)) (pool_tags d p))"

definition pools_by_tags :: "db \<Rightarrow> (PoolRow \<Rightarrow> uuid option) \<Rightarrow> uuid \<Rightarrow> string list \<Rightarrow> PoolRow list" where
  "pools_by_tags d field u tags = sort_key (\<lambda>p. - int (pr_Priority p))
     (filter (\<lambda>p. field p = Some u \<and> pr_Enabled p \<and> tag_matches d tags p = length tags) (db_pools d))"

definition findPoolByTags :: "string \<Rightarrow> ForgeEntityType \<Rightarrow> string list \<Rightarrow> (db, Pool list) prog" where
  "findPoolByTags id0 poolType tags =
     (if tags = [] then m_throw BadRequestError
      else case uuid_parse id0 of
        None \<Rightarrow> m_throw BadRequestError
      | Some u \<Rightarrow> (case entity_field poolType of
          None \<Rightarrow> m_throw (OtherError ''invalid poolType'')
        | Some field \<Rightarrow> db_read (\<lambda>d.
            if pools_by_tags d field u tags = [] then Inl NotFoundError
            else convert_pools (map (\<lambda>p. \<lparr>pl_row = p, pl_tags = pool_tags d p, pl_instances = [],
              pl_entity = None\<rparr>) (pools_by_tags d field u tags)))))"

definition FindPoolsMatchingAllTags :: "ForgeEntityType \<Rightarrow> string \<Rightarrow> string list \<Rightarrow> (db, Pool list) prog" where
  "FindPoolsMatchingAllTags entityType entityID tags =
     (if tags = [] then m_throw BadRequestError
      else m_bind (m_try (findPoolByTags entityID entityType tags)) (\<lambda>r. case r of
        Inl e \<Rightarrow> if error_is e NotFoundError then m_ret [] else m_throw e
      | Inr pools \<Rightarrow> m_ret pools))"

subsection \<open>Creation\<close>

definition getOrCreateTag :: "string \<Rightarrow> (db, Tag) prog" where
  "getOrCreateTag tagName = m_bind (m_get (\<lambda>d. List.find (\<lambda>t. to_lower (t_Name t) = to_lower tagName) (db_tags d)))
     (\<lambda>r. case r of
        Some t \<Rightarrow> m_ret t
      | None \<Rightarrow> m_bind new_uuid (\<lambda>u d. if \<exists>t \<in> set (db_tags d). t_ID t = u then (Inl DatabaseError, d)
          else (Inr \<lparr>t_ID = u, t_Name = tagName\<rparr>, d\<lparr>db_tags := db_tags d @ [\<lparr>t_ID = u, t_Name = tagName\<rparr>]\<rparr>)))"

primrec append_tags :: "uuid list \<Rightarrow> uuid list \<Rightarrow> uuid list" where
  "append_tags old [] = old"
| "append_tags old (t # ts) = append_tags (if t \<in> set old then old else old @ [t]) ts"

definition template_ok :: "nat option \<Rightarrow> db \<Rightarrow> bool" where
  "template_ok n d = (case n of None \<Rightarrow> True | Some x \<Rightarrow> \<exists>t \<in> set (db_templates d). tr_ID t = x)"

definition insert_pool :: "PoolRow \<Rightarrow> (db, unit) prog" where
  "insert_pool p d = (if (\<exists>q \<in> set (db_pools d). pr_ID q = pr_ID p) \<or> \<not> template_ok (pr_TemplateID p) d
     then (Inl DatabaseError, d) else (Inr (), d\<lparr>db_pools := db_pools d @ [p]\<rparr>))"

definition new_pool :: "uuid \<Rightarrow> uuid \<Rightarrow> ForgeEntityType \<Rightarrow> CreatePoolParams \<Rightarrow> uuid list \<Rightarrow> time \<Rightarrow> PoolRow" where
  "new_pool u entityID ty param tags now = \<lparr>pr_ID = u, pr_ProviderName = cpp_ProviderName param,
     pr_RunnerPrefix = GetRunnerPrefix (cpp_Prefix param), pr_MaxRunners = cpp_MaxRunners param,
     pr_MinIdleRunners = cpp_MinIdleRunners param,
     pr_RunnerBootstrapTimeout = cpp_RunnerBootstrapTimeout param, pr_Image = cpp_Image param,
     pr_Flavor = cpp_Flavor param, pr_OSType = cpp_OSType param, pr_OSArch = cpp_OSArch param,
     pr_Tags = append_tags [] tags, pr_Enabled = cpp_Enabled param, pr_ExtraSpecs = cpp_ExtraSpecs param,
     pr_GitHubRunnerGroup = cpp_GitHubRunnerGroup param, pr_EnableShell = cpp_EnableShell param,
     pr_Generation = 0,
     pr_RepoID = (if ty = ForgeEntityTypeRepository then Some entityID else None),
     pr_OrgID = (if ty = ForgeEntityTypeOrganization then Some entityID else None),
     pr_EnterpriseID = (if ty = ForgeEntityTypeEnterprise then Some entityID else None),
     pr_ForgeInstanceID = (if ty = ForgeEntityTypeInstance then Some entityID else None),
     pr_TemplateID = cpp_TemplateID param,
     pr_ProxyID = (if cpp_ProxyID param = Some 0 then None else cpp_ProxyID param),
     pr_Priority = cpp_Priority param, pr_CreatedAt = now, pr_UpdatedAt = now\<rparr>"

definition create_pool_tx :: "ForgeEntity \<Rightarrow> uuid \<Rightarrow> CreatePoolParams \<Rightarrow> (db, uuid) prog" where
  "create_pool_tx entity entityID param =
     m_seq (m_query (hasGithubEntity (e_EntityType entity) (e_ID entity)))
     (m_seq (case cpp_ProxyID param of None \<Rightarrow> m_ret ()
        | Some n \<Rightarrow> if n = 0 then m_ret () else m_query (hasProxy n))
     (m_bind (m_map getOrCreateTag (cpp_Tags param)) (\<lambda>tags.
      m_bind new_uuid (\<lambda>u. m_bind (m_get db_clock) (\<lambda>now.
        m_seq (insert_pool (new_pool u entityID (e_EntityType entity) param (map t_ID tags) now)) (m_ret u))))))"

definition CreateEntityPool :: "ForgeEntity \<Rightarrow> CreatePoolParams \<Rightarrow> (db, Pool) prog" where
  "CreateEntityPool entity param =
     (if cpp_Tags param = [] then m_throw BadRequestError
      else case uuid_parse (e_ID entity) of
        None \<Rightarrow> m_throw BadRequestError
      | Some entityID \<Rightarrow> m_bind (db_tx (create_pool_tx entity entityID param)) (\<lambda>u.
          m_bind (GetPoolByID (uuid_string u)) (\<lambda>pool.
            m_seq (sendNotify PoolEntityType CreateOperation (PoolPayload pool)) (m_ret pool))))"

subsection \<open>Deletion\<close>

definition zero_Pool :: Pool where
  "zero_Pool = \<lparr>p_Prefix = [], p_ID = [], p_ProviderName = [], p_MaxRunners = 0, p_MinIdleRunners = 0,
     p_Image = [], p_Flavor = [], p_OSType = [], p_OSArch = [], p_Tags = [], p_Enabled = False,
     p_Instances = [], p_EnableShell = False, p_Generation = 0, p_RepoID = [], p_RepoName = [],
     p_OrgID = [], p_OrgName = [], p_EnterpriseID = [], p_EnterpriseName = [], p_ForgeInstanceID = [],
     p_Endpoint = [], p_RunnerBootstrapTimeout = 0, p_CreatedAt = 0, p_UpdatedAt = 0,
     p_ExtraSpecs = [], p_GitHubRunnerGroup = [], p_Priority = 0, p_TemplateID = 0, p_ProxyID = 0\<rparr>"

text \<open>A pool that instances refer to cannot be deleted; jobs lose their reference to it.\<close>

definition delete_pool_rows :: "(PoolRow \<Rightarrow> bool) \<Rightarrow> (db, unit) prog" where
  "delete_pool_rows P d =
     (if \<exists>p \<in> set (db_pools d). P p \<and> count_pool (pr_ID p) d > 0 then (Inl DatabaseError, d)
      else (Inr (), d\<lparr>db_pools := del_rows P (db_pools d),
        db_jobs := upd_rows (\<lambda>j. \<exists>p \<in> set (db_pools d). P p \<and> jr_PoolID j = Some (pr_ID p))
          (\<lambda>j. j\<lparr>jr_PoolID := None\<rparr>) (db_jobs d)\<rparr>))"

definition DeletePoolByID :: "string \<Rightarrow> (db, unit) prog" where
  "DeletePoolByID poolID = m_bind (db_read (getPoolByID poolID)) (\<lambda>pool.
     m_seq (db_stmt (delete_pool_rows (\<lambda>p. pr_ID p = pr_ID pool)))
       (sendNotify PoolEntityType DeleteOperation (PoolPayload (zero_Pool\<lparr>p_ID := poolID\<rparr>))))"

definition DeleteEntityPool :: "ForgeEntity \<Rightarrow> string \<Rightarrow> (db, unit) prog" where
  "DeleteEntityPool entity poolID = (case uuid_parse (e_ID entity) of
     None \<Rightarrow> m_throw BadRequestError
   | Some entityID \<Rightarrow> (case uuid_parse poolID of
       None \<Rightarrow> m_throw BadRequestError
     | Some poolUUID \<Rightarrow> (case entity_field (e_EntityType entity) of
         None \<Rightarrow> m_throw (OtherError ''invalid entityType'')
       | Some field \<Rightarrow>
           m_seq (db_stmt (delete_pool_rows (\<lambda>p. pr_ID p = poolUUID \<and> field p = Some entityID)))
             (sendNotify PoolEntityType DeleteOperation (PoolPayload (zero_Pool\<lparr>p_ID := poolID\<rparr>))))))"

subsection \<open>Update\<close>

definition differs :: "'a option \<Rightarrow> 'a \<Rightarrow> bool" where
  "differs new old = (case new of None \<Rightarrow> False | Some x \<Rightarrow> x \<noteq> old)"

definition set_str :: "string \<Rightarrow> string \<Rightarrow> bool" where
  "set_str new old \<longleftrightarrow> new \<noteq> [] \<and> new \<noteq> old"

definition override :: "'a option \<Rightarrow> 'a \<Rightarrow> 'a" where
  "override new old = (case new of None \<Rightarrow> old | Some x \<Rightarrow> x)"

definition proxy_change :: "UpdatePoolParams \<Rightarrow> PoolRow \<Rightarrow> nat option option" where
  "proxy_change param pool = (case upp_ProxyID param of
     None \<Rightarrow> None
   | Some n \<Rightarrow> if pr_ProxyID pool = Some n then None
       else if n = 0 then (if pr_ProxyID pool \<noteq> None then Some None else None)
       else Some (Some n))"

text \<open>The conditions under which \<^verbatim>\<open>updatePool\<close> sets \<^verbatim>\<open>incrementGeneration\<close>.\<close>

definition increment_generation :: "UpdatePoolParams \<Rightarrow> PoolRow \<Rightarrow> bool" where
  "increment_generation param pool \<longleftrightarrow>
     set_str (upp_Flavor param) (pr_Flavor pool) \<or> differs (upp_EnableShell param) (pr_EnableShell pool) \<or>
     set_str (upp_Image param) (pr_Image pool) \<or> proxy_change param pool \<noteq> None \<or>
     set_str (upp_OSArch param) (pr_OSArch pool) \<or> set_str (upp_OSType param) (pr_OSType pool) \<or>
     differs (upp_ExtraSpecs param) (pr_ExtraSpecs pool) \<or>
     differs (upp_GitHubRunnerGroup param) (pr_GitHubRunnerGroup pool)"

definition has_updates :: "UpdatePoolParams \<Rightarrow> PoolRow \<Rightarrow> bool" where
  "has_updates param pool \<longleftrightarrow> increment_generation param pool \<or>
     differs (upp_Enabled param) (pr_Enabled pool) \<or> set_str (upp_Prefix param) (pr_RunnerPrefix pool) \<or>
     differs (upp_MaxRunners param) (pr_MaxRunners pool) \<or>
     (\<exists>n. upp_TemplateID param = Some n \<and> pr_TemplateID pool \<noteq> Some n) \<or>
     differs (upp_MinIdleRunners param) (pr_MinIdleRunners pool) \<or>
     (upp_RunnerBootstrapTimeout param \<noteq> Some 0 \<and>
        differs (upp_RunnerBootstrapTimeout param) (pr_RunnerBootstrapTimeout pool)) \<or>
     differs (upp_Priority param) (pr_Priority pool)"

definition apply_pool_updates :: "UpdatePoolParams \<Rightarrow> PoolRow \<Rightarrow> PoolRow" where
  "apply_pool_updates param pool = pool\<lparr>
     pr_Enabled := override (upp_Enabled param) (pr_Enabled pool),
     pr_Flavor := (if set_str (upp_Flavor param) (pr_Flavor pool) then upp_Flavor param else pr_Flavor pool),
     pr_EnableShell := override (upp_EnableShell param) (pr_EnableShell pool),
     pr_Image := (if set_str (upp_Image param) (pr_Image pool) then upp_Image param else pr_Image pool),
     pr_RunnerPrefix := (if set_str (upp_Prefix param) (pr_RunnerPrefix pool) then upp_Prefix param else pr_RunnerPrefix pool),
     pr_MaxRunners := override (upp_MaxRunners param) (pr_MaxRunners pool),
     pr_TemplateID := (case upp_TemplateID param of None \<Rightarrow> pr_TemplateID pool | Some n \<Rightarrow> Some n),
     pr_ProxyID := override (proxy_change param pool) (pr_ProxyID pool),
     pr_MinIdleRunners := override (upp_MinIdleRunners param) (pr_MinIdleRunners pool),
     pr_OSArch := (if set_str (upp_OSArch param) (pr_OSArch pool) then upp_OSArch param else pr_OSArch pool),
     pr_OSType := (if set_str (upp_OSType param) (pr_OSType pool) then upp_OSType param else pr_OSType pool),
     pr_ExtraSpecs := override (upp_ExtraSpecs param) (pr_ExtraSpecs pool),
     pr_RunnerBootstrapTimeout := (if upp_RunnerBootstrapTimeout param = Some 0 then pr_RunnerBootstrapTimeout pool
        else override (upp_RunnerBootstrapTimeout param) (pr_RunnerBootstrapTimeout pool)),
     pr_GitHubRunnerGroup := override (upp_GitHubRunnerGroup param) (pr_GitHubRunnerGroup pool),
     pr_Priority := override (upp_Priority param) (pr_Priority pool),
     pr_Generation := (if increment_generation param pool then pr_Generation pool + 1 else pr_Generation pool)\<rparr>"

definition upd_pool :: "uuid \<Rightarrow> (PoolRow \<Rightarrow> PoolRow) \<Rightarrow> db \<Rightarrow> db" where
  "upd_pool u f d = d\<lparr>db_pools := upd_rows (\<lambda>p. pr_ID p = u) f (db_pools d)\<rparr>"

text \<open>\<^verbatim>\<open>Association("Tags").Replace\<close>: the new pairs are added, the pairs not named are removed.\<close>

definition replace_tags :: "uuid list \<Rightarrow> uuid list \<Rightarrow> uuid list" where
  "replace_tags new old = filter (\<lambda>t. t \<in> set new) (append_tags old new)"

definition save_pool :: "UpdatePoolParams \<Rightarrow> PoolRow \<Rightarrow> (db, bool) prog" where
  "save_pool param pool d =
     (if \<not> has_updates param pool then (Inr False, d)
      else if pr_TemplateID (apply_pool_updates param pool) \<noteq> pr_TemplateID pool \<and>
          \<not> template_ok (pr_TemplateID (apply_pool_updates param pool)) d then (Inl DatabaseError, d)
      else (Inr True, upd_pool (pr_ID pool) (\<lambda>_. (apply_pool_updates param pool)\<lparr>pr_UpdatedAt := db_clock d\<rparr>) d))"

text \<open>The result says whether subscribers are notified (\<^verbatim>\<open>rowsAffected > 0\<close>).\<close>

definition updatePool :: "PoolRow \<Rightarrow> UpdatePoolParams \<Rightarrow> (db, bool) prog" where
  "updatePool pool param =
     m_seq (case proxy_change param pool of Some (Some n) \<Rightarrow> m_query (hasProxy n) | _ \<Rightarrow> m_ret ())
     (m_bind (save_pool param pool) (\<lambda>affected.
      m_bind (if upp_Tags param = [] then m_ret affected
        else m_bind (m_map getOrCreateTag (upp_Tags param)) (\<lambda>tags.
          m_seq (m_modify (upd_pool (pr_ID pool) (\<lambda>p. p\<lparr>pr_Tags := replace_tags (map t_ID tags) (pr_Tags p)\<rparr>)))
            (m_ret True))) (\<lambda>notify.
      m_bind (m_query (\<lambda>d. case find_pool d (Some (pr_ID pool)) of
          None \<Rightarrow> Inl DatabaseError | Some p \<Rightarrow> sqlToCommonPool (load_pool d p))) (\<lambda>_.
        m_ret notify))))"

definition UpdateEntityPool :: "ForgeEntity \<Rightarrow> string \<Rightarrow> UpdatePoolParams \<Rightarrow> (db, Pool) prog" where
  "UpdateEntityPool entity poolID param =
     m_bind (db_tx (m_bind (m_query (getEntityPool (e_EntityType entity) (e_ID entity) poolID)) (\<lambda>pool.
        updatePool pool param))) (\<lambda>notify.
     m_bind (GetPoolByID poolID) (\<lambda>updated.
       m_seq (m_when notify (sendNotify PoolEntityType UpdateOperation (PoolPayload updated))) (m_ret updated)))"

subsection \<open>Well-formed pools and tags\<close>

text \<open>Tag names are unique without regard to case, and a pool refers to existing tags once each.\<close>

definition pools_ok :: "db \<Rightarrow> bool" where
  "pools_ok d \<longleftrightarrow> distinct (map pr_ID (db_pools d)) \<and> distinct (map t_ID (db_tags d)) \<and>
     distinct (map (\<lambda>t. to_lower (t_Name t)) (db_tags d)) \<and>
     (\<forall>p \<in> set (db_pools d). distinct (pr_Tags p) \<and> set (pr_Tags p) \<subseteq> t_ID ` set (db_tags d))"

lemma append_tags_props:
  "distinct old \<Longrightarrow> distinct (append_tags old new) \<and> set (append_tags old new) = set old \<union> set new"
  by (induction new arbitrary: old) auto

lemma pool_tags_distinct:
  assumes "pools_ok d" "p \<in> set (db_pools d)"
  shows "distinct (map (\<lambda>t. to_lower (t_Name t)) (pool_tags d p))"
proof -
  let ?look = "\<lambda>u. List.find (\<lambda>t. t_ID t = u) (db_tags d)"
  have fs: "t \<in> set (db_tags d) \<and> t_ID t = u" if "?look u = Some t" for u t
    using find_SomeD [OF that] .
  have "distinct (map (\<lambda>t. to_lower (t_Name t)) (List.map_filter ?look us)) \<and>
      set (map t_ID (List.map_filter ?look us)) \<subseteq> set us \<and> set (List.map_filter ?look us) \<subseteq> set (db_tags d)"
    if "distinct us" for us
    using that
  proof (induction us)
    case (Cons u us)
    show ?case
    proof (cases "?look u")
      case None
      with Cons show ?thesis by (auto simp: List.map_filter_simps)
    next
      case (Some t)
      have t: "t \<in> set (db_tags d)" "t_ID t = u" using fs [OF Some] by simp_all
      have "to_lower (t_Name t) \<noteq> to_lower (t_Name s)" if s: "s \<in> set (List.map_filter ?look us)" for s
      proof
        assume eq: "to_lower (t_Name t) = to_lower (t_Name s)"
        have "s \<in> set (db_tags d)" "t_ID s \<in> set us" using Cons s by auto
        moreover have "inj_on (\<lambda>t. to_lower (t_Name t)) (set (db_tags d))"
          using assms(1) by (simp add: pools_ok_def distinct_map)
        then have "s = t" by (rule inj_onD) (use eq t calculation in simp_all)
        ultimately show False using t Cons.prems by simp
      qed
      with Some t Cons show ?thesis by (auto simp: List.map_filter_simps)
    qed
  qed (simp add: List.map_filter_simps)
  with assms show ?thesis by (simp add: pools_ok_def pool_tags_def)
qed



lemma convert_pools_plain:
  assumes "\<forall>l \<in> set ls. pl_instances l = []"
  shows "\<exists>ps. convert_pools ls = Inr ps \<and> list_all2 (\<lambda>l p. sqlToCommonPool l = Inr p) ls ps"
  using assms
proof (induction ls)
  case (Cons l ls)
  then obtain ps where ps: "convert_pools ls = Inr ps" "list_all2 (\<lambda>l p. sqlToCommonPool l = Inr p) ls ps" by auto
  obtain p where "sqlToCommonPool l = Inr p"
    using Cons.prems by (auto simp: sqlToCommonPool_def Let_def)
  with ps show ?case by auto
qed simp

definition tag_query :: "db \<Rightarrow> PoolRow \<Rightarrow> PoolLoaded" where
  "tag_query d p = \<lparr>pl_row = p, pl_tags = pool_tags d p, pl_instances = [], pl_entity = None\<rparr>"

lemma FindPools_run:
  assumes "db_faults d = []" "tags \<noteq> []" "uuid_parse entityID = Some u" "entity_field entityType = Some field"
  obtains ps where "FindPoolsMatchingAllTags entityType entityID tags d = (Inr ps, d)"
    "list_all2 (\<lambda>r p. sqlToCommonPool (tag_query d r) = Inr p) (pools_by_tags d field u tags) ps"
proof -
  obtain ps where ps: "convert_pools (map (tag_query d) (pools_by_tags d field u tags)) = Inr ps"
    "list_all2 (\<lambda>l p. sqlToCommonPool l = Inr p) (map (tag_query d) (pools_by_tags d field u tags)) ps"
    using convert_pools_plain [of "map (tag_query d) (pools_by_tags d field u tags)"]
    by (auto simp: tag_query_def)
  show thesis
  proof (rule that [of ps])
    show "list_all2 (\<lambda>r p. sqlToCommonPool (tag_query d r) = Inr p) (pools_by_tags d field u tags) ps"
      using ps(2) by (simp add: list_all2_map1)
    show "FindPoolsMatchingAllTags entityType entityID tags d = (Inr ps, d)"
      using assms ps(1) by (auto simp: FindPoolsMatchingAllTags_def findPoolByTags_def m_bind_def m_try_def
          tag_query_def [abs_def])
  qed
qed






text \<open>
  A job whose labels repeat one another up to case finds no pool at all, although a pool
  carrying the labels exists: the query compares the number of matching tags with the number of
  labels.
\<close>

theorem FindPools_repeated_labels:
  assumes "db_faults d = []" and "pools_ok d" and "\<not> distinct (map to_lower tags)"
    and "uuid_parse entityID = Some u" and "entity_field entityType = Some field"
  shows "FindPoolsMatchingAllTags entityType entityID tags d = (Inr [], d)"
proof -
  have ne: "tags \<noteq> []" using assms(3) by auto
  have "tag_matches d tags r < length tags" if r: "r \<in> set (db_pools d)" for r
  proof -
    let ?names = "map (\<lambda>t. to_lower (t_Name t)) (pool_tags d r)" and ?L = "set (map to_lower tags)"
    have "tag_matches d tags r = length (filter (\<lambda>n. n \<in> ?L) ?names)"
      by (simp add: tag_matches_def filter_map comp_def)
    also have "\<dots> = card (set (filter (\<lambda>n. n \<in> ?L) ?names))"
      using distinct_card [OF distinct_filter [OF pool_tags_distinct [OF assms(2) r], of "\<lambda>n. n \<in> ?L"]] by (rule sym)
    also have "\<dots> \<le> card ?L" by (rule card_mono) auto
    also have "\<dots> < length (map to_lower tags)"
      using assms(3) card_length [of "map to_lower tags"] by (metis card_distinct le_neq_implies_less)
    finally show ?thesis by simp
  qed
  then have "filter (\<lambda>p. field p = Some u \<and> pr_Enabled p \<and> tag_matches d tags p = length tags) (db_pools d) = []"
    by (force simp: filter_empty_conv)
  then have "pools_by_tags d field u tags = []"
    unfolding pools_by_tags_def by simp
  with FindPools_run [OF assms(1) ne assms(4,5)] show ?thesis by (metis list_all2_Nil)
qed

text \<open>
  A pool that still has instances cannot be deleted: the call fails and every table is as before.
\<close>

theorem DeletePool_refused:
  assumes "getPoolByID poolID d = Inr p" and "count_pool (pr_ID p) d > 0"
  shows "\<exists>e. fst (DeletePoolByID poolID d) = Inl e \<and> same_tables d (snd (DeletePoolByID poolID d))"
proof -
  have mem: "p \<in> set (db_pools d)"
    using getPoolByID_ok(2) [OF assms(1)] by (auto dest: find_SomeD)
  have get: "getPoolByID poolID (d\<lparr>db_faults := bs\<rparr>) = Inr p" for bs
    using assms(1) by (simp add: getPoolByID_def split: option.splits)
  have del: "delete_pool_rows (\<lambda>q. pr_ID q = pr_ID p) (d\<lparr>db_faults := bs\<rparr>) = (Inl DatabaseError, d\<lparr>db_faults := bs\<rparr>)" for bs
    using assms(2) mem by (auto simp: delete_pool_rows_def count_pool_def)
  have del0: "delete_pool_rows (\<lambda>q. pr_ID q = pr_ID p) d = (Inl DatabaseError, d)"
    using assms(2) mem by (auto simp: delete_pool_rows_def)
  show ?thesis
    using assms(1) get del del0
    by (auto simp: DeletePoolByID_def db_read_def db_stmt_def m_bind_def m_seq_def same_tables_def
        split: list.splits)
qed


subsection \<open>Pool operations keep pools and tags well formed\<close>

definition pools_step :: "db \<Rightarrow> db \<Rightarrow> bool" where
  "pools_step d d' \<longleftrightarrow> (pools_ok d \<longrightarrow> pools_ok d' \<and> set (db_tags d) \<subseteq> set (db_tags d'))"

lemma pools_step_same: "db_pools d' = db_pools d \<Longrightarrow> db_tags d' = db_tags d \<Longrightarrow> pools_step d d'"
  by (simp add: pools_step_def pools_ok_def)

interpretation pst: db_order pools_step
proof unfold_locales
  fix s t u
  assume "pools_step s t" "pools_step t u"
  then show "pools_step s u" unfolding pools_step_def by blast
qed (simp_all add: pools_step_same)

lemma getOrCreateTag_cases:
  assumes "getOrCreateTag n d = (r, d')"
  obtains (found) t where "r = Inr t" "t \<in> set (db_tags d)" "d' = d"
  | (created) u where "r = Inr \<lparr>t_ID = u, t_Name = n\<rparr>" "u \<notin> t_ID ` set (db_tags d)"
      "\<forall>t \<in> set (db_tags d). to_lower (t_Name t) \<noteq> to_lower n"
      "d' = d\<lparr>db_uuid_next := Suc (db_uuid_next d), db_tags := db_tags d @ [\<lparr>t_ID = u, t_Name = n\<rparr>]\<rparr>"
  | (clash) "r = Inl DatabaseError" "d' = d\<lparr>db_uuid_next := Suc (db_uuid_next d)\<rparr>"
proof (cases "List.find (\<lambda>t. to_lower (t_Name t) = to_lower n) (db_tags d)")
  case (Some t)
  with assms have "r = Inr t" "d' = d" by (simp_all add: getOrCreateTag_def)
  with found find_SomeD [OF Some] show thesis by simp
next
  case None
  let ?u = "db_uuids d (db_uuid_next d)"
  have run: "(if \<exists>t \<in> set (db_tags d). t_ID t = ?u then (Inl DatabaseError, d\<lparr>db_uuid_next := Suc (db_uuid_next d)\<rparr>)
      else (Inr \<lparr>t_ID = ?u, t_Name = n\<rparr>, d\<lparr>db_uuid_next := Suc (db_uuid_next d),
        db_tags := db_tags d @ [\<lparr>t_ID = ?u, t_Name = n\<rparr>]\<rparr>)) = (r, d')"
    using None assms
    by (cases "\<exists>t \<in> set (db_tags d). t_ID t = ?u") (simp_all add: getOrCreateTag_def m_bind_def new_uuid_def)
  have other: "\<forall>t \<in> set (db_tags d). to_lower (t_Name t) \<noteq> to_lower n"
    using None by (simp add: find_None_iff)
  show thesis
  proof (cases "\<exists>t \<in> set (db_tags d). t_ID t = ?u")
    case True
    with run clash show thesis by simp
  next
    case False
    then have "?u \<notin> t_ID ` set (db_tags d)" by auto
    with run False other created [of ?u] show thesis by simp
  qed
qed

lemma pools_getOrCreateTag: "steps pools_step (getOrCreateTag n)"
proof (rule stepsI)
  fix d
  obtain r d' where run: "getOrCreateTag n d = (r, d')" by (cases "getOrCreateTag n d") auto
  from run have "pools_step d d'"
  proof (cases rule: getOrCreateTag_cases)
    case (created u)
    then show ?thesis unfolding pools_step_def pools_ok_def by (auto simp: image_iff)
  qed (simp_all add: pools_step_same)
  with run show "pools_step d (snd (getOrCreateTag n d))" by simp
qed

text \<open>The tags returned for a request exist afterwards.\<close>

lemma getOrCreateTags_exist:
  "m_map getOrCreateTag ns d = (Inr ts, d') \<Longrightarrow> pools_ok d \<Longrightarrow> set ts \<subseteq> set (db_tags d') \<and> pools_ok d'"
proof (induction ns arbitrary: d ts)
  case Nil
  then show ?case by simp
next
  case (Cons n ns)
  from Cons.prems(1) obtain t d1 ts1 where one: "getOrCreateTag n d = (Inr t, d1)"
    and rest: "m_map getOrCreateTag ns d1 = (Inr ts1, d')" and ts: "ts = t # ts1"
    by (auto elim!: m_bind_okE)
  have ok1: "pools_ok d1" using stepsD [OF pools_getOrCreateTag one] Cons.prems(2) by (simp add: pools_step_def)
  have t: "t \<in> set (db_tags d1)" using one by (cases rule: getOrCreateTag_cases) auto
  have "steps pools_step (m_map getOrCreateTag ns)"
    by (intro pst.st_map pools_getOrCreateTag)
  from stepsD [OF this rest] ok1 have "set (db_tags d1) \<subseteq> set (db_tags d')" by (simp add: pools_step_def)
  with Cons.IH [OF rest ok1] t ts show ?case by auto
qed

lemma pools_insert:
  assumes ok: "pools_ok d" and run: "insert_pool p d = (r, d')" and tags: "distinct (pr_Tags p)" "set (pr_Tags p) \<subseteq> t_ID ` set (db_tags d)"
  shows "pools_ok d'"
proof (cases "(\<exists>q \<in> set (db_pools d). pr_ID q = pr_ID p) \<or> \<not> template_ok (pr_TemplateID p) d")
  case True
  with run ok show ?thesis by (simp add: insert_pool_def)
next
  case False
  then have "pr_ID p \<notin> pr_ID ` set (db_pools d)" by auto
  moreover from run False have "d' = d\<lparr>db_pools := db_pools d @ [p]\<rparr>" by (simp add: insert_pool_def)
  ultimately show ?thesis using ok tags by (simp add: pools_ok_def)
qed

lemma pools_upd:
  assumes "pools_ok d" "\<And>p. p \<in> set (db_pools d) \<Longrightarrow> pr_ID p = u \<Longrightarrow>
      pr_ID (f p) = u \<and> distinct (pr_Tags (f p)) \<and> set (pr_Tags (f p)) \<subseteq> t_ID ` set (db_tags d)"
  shows "pools_ok (upd_pool u f d)"
proof -
  have "map pr_ID (upd_rows (\<lambda>p. pr_ID p = u) f (db_pools d)) = map pr_ID (db_pools d)"
    by (rule map_upd_rows_mem) (use assms(2) in auto)
  moreover have "distinct (pr_Tags q) \<and> set (pr_Tags q) \<subseteq> t_ID ` set (db_tags d)"
    if "q \<in> set (upd_rows (\<lambda>p. pr_ID p = u) f (db_pools d))" for q
    using that by (cases rule: upd_rowsE) (use assms in \<open>auto simp: pools_ok_def\<close>)
  ultimately show ?thesis using assms(1) by (simp add: pools_ok_def upd_pool_def)
qed

lemma pools_delete: "steps pools_step (delete_pool_rows P)"
proof (rule stepsI)
  fix d
  have "pools_ok d \<Longrightarrow> pools_ok (d\<lparr>db_pools := del_rows P (db_pools d), db_jobs := js\<rparr>)" for js
    by (simp add: pools_ok_def distinct_map_del_rows)
  then show "pools_step d (snd (delete_pool_rows P d))"
    by (simp add: delete_pool_rows_def pools_step_def)
qed

lemma pools_create_tx: "steps pools_step (create_pool_tx e u c)"
proof (unfold create_pool_tx_def, intro pst.st_seq pst.st_query)
  show "steps pools_step (case cpp_ProxyID c of None \<Rightarrow> m_ret ()
      | Some n \<Rightarrow> if n = 0 then m_ret () else m_query (hasProxy n))"
    by (intro pst.db_rules)
  show "steps pools_step (m_bind (m_map getOrCreateTag (cpp_Tags c)) (\<lambda>tags. m_bind new_uuid (\<lambda>k. m_bind (m_get db_clock) (\<lambda>now.
      m_seq (insert_pool (new_pool k u (e_EntityType e) c (map t_ID tags) now)) (m_ret k)))))"
    (is "steps _ (m_bind ?tags ?rest)")
  proof (rule stepsI)
    fix d
    obtain r d1 where run: "?tags d = (r, d1)" by (cases "?tags d") auto
    have st: "steps pools_step ?tags" by (intro pst.st_map pools_getOrCreateTag)
    show "pools_step d (snd (m_bind ?tags ?rest d))"
    proof (cases r)
      case (Inl x)
      with run stepsD [OF st run] show ?thesis by (simp add: m_bind_def)
    next
      case (Inr ts)
      let ?k = "db_uuids d1 (db_uuid_next d1)" and ?d2 = "d1\<lparr>db_uuid_next := Suc (db_uuid_next d1)\<rparr>"
      let ?p = "new_pool ?k u (e_EntityType e) c (map t_ID ts) (db_clock d1)"
      obtain x d3 where ins: "insert_pool ?p ?d2 = (x, d3)" by (cases "insert_pool ?p ?d2") auto
      have fin: "snd (m_bind ?tags ?rest d) = d3"
        using run Inr ins by (cases x) (simp_all add: m_bind_def m_seq_def new_uuid_def)
      have "pools_step d d3"
        unfolding pools_step_def
      proof (intro impI conjI)
        assume ok: "pools_ok d"
        have ex: "set ts \<subseteq> set (db_tags d1)" "pools_ok d1" using getOrCreateTags_exist [OF run [unfolded Inr] ok] by simp_all
        have ok2: "pools_ok ?d2" using ex(2) by (simp add: pools_ok_def)
        have "distinct (pr_Tags ?p)" "set (pr_Tags ?p) \<subseteq> t_ID ` set (db_tags ?d2)"
          using append_tags_props [of "[]" "map t_ID ts"] ex(1) by (auto simp: new_pool_def)
        with pools_insert [OF ok2 ins] show "pools_ok d3" by blast
        have "db_tags d3 = db_tags d1" using ins by (auto simp: insert_pool_def split: if_splits)
        then show "set (db_tags d) \<subseteq> set (db_tags d3)"
          using stepsD [OF st run] ok by (simp add: pools_step_def)
      qed
      with fin show ?thesis by simp
    qed
  qed
qed


lemma apply_pool_updates_frame [simp]:
  "pr_ID (apply_pool_updates c p) = pr_ID p" "pr_Tags (apply_pool_updates c p) = pr_Tags p"
  by (simp_all add: apply_pool_updates_def)

lemma pools_save:
  assumes "p \<in> set (db_pools d)"
  shows "pools_step d (snd (save_pool c p d))"
proof -
  let ?f = "\<lambda>_. (apply_pool_updates c p)\<lparr>pr_UpdatedAt := db_clock d\<rparr>"
  have "pools_ok d \<Longrightarrow> pools_ok (upd_pool (pr_ID p) ?f d)"
    by (rule pools_upd) (use assms in \<open>auto simp: pools_ok_def\<close>)
  then have "pools_step d (upd_pool (pr_ID p) ?f d)"
    by (simp add: pools_step_def upd_pool_def)
  then show ?thesis by (simp add: save_pool_def pst.R_refl)
qed

lemma pools_replace_tags:
  "steps pools_step (m_bind (m_map getOrCreateTag ns) (\<lambda>tags.
     m_seq (m_modify (upd_pool u (\<lambda>p. p\<lparr>pr_Tags := replace_tags (map t_ID tags) (pr_Tags p)\<rparr>))) (m_ret True)))"
    (is "steps _ (m_bind ?tags ?rest)")
proof (rule stepsI)
  fix d
  obtain r d1 where run: "?tags d = (r, d1)" by (cases "?tags d") auto
  have st: "steps pools_step ?tags" by (intro pst.st_map pools_getOrCreateTag)
  show "pools_step d (snd (m_bind ?tags ?rest d))"
  proof (cases r)
    case (Inl x)
    with run stepsD [OF st run] show ?thesis by (simp add: m_bind_def)
  next
    case (Inr ts)
    let ?f = "\<lambda>p. p\<lparr>pr_Tags := replace_tags (map t_ID ts) (pr_Tags p)\<rparr>"
    have "pools_ok (upd_pool u ?f d1)" if ok: "pools_ok d"
    proof (rule pools_upd)
      show ok1: "pools_ok d1" using getOrCreateTags_exist [OF run [unfolded Inr] ok] by simp
      have ex: "set ts \<subseteq> set (db_tags d1)" using getOrCreateTags_exist [OF run [unfolded Inr] ok] by simp
      fix p assume "p \<in> set (db_pools d1)" "pr_ID p = u"
      then show "pr_ID (?f p) = u \<and> distinct (pr_Tags (?f p)) \<and> set (pr_Tags (?f p)) \<subseteq> t_ID ` set (db_tags d1)"
        using append_tags_props [of "pr_Tags p" "map t_ID ts"] ok1 ex
        by (auto simp: replace_tags_def pools_ok_def)
    qed
    with run Inr stepsD [OF st run] show ?thesis
      by (simp add: m_bind_def pools_step_def upd_pool_def)
  qed
qed

lemma pools_updatePool:
  assumes "p \<in> set (db_pools d)"
  shows "pools_step d (snd (updatePool p c d))"
proof -
  let ?proxy = "case proxy_change c p of Some (Some n) \<Rightarrow> m_query (hasProxy n) | _ \<Rightarrow> m_ret ()"
  let ?rest = "\<lambda>affected. m_bind (if upp_Tags c = [] then m_ret affected
        else m_bind (m_map getOrCreateTag (upp_Tags c)) (\<lambda>tags.
          m_seq (m_modify (upd_pool (pr_ID p) (\<lambda>p. p\<lparr>pr_Tags := replace_tags (map t_ID tags) (pr_Tags p)\<rparr>)))
            (m_ret True))) (\<lambda>notify.
      m_bind (m_query (\<lambda>d. case find_pool d (Some (pr_ID p)) of
          None \<Rightarrow> Inl DatabaseError | Some p \<Rightarrow> sqlToCommonPool (load_pool d p))) (\<lambda>_.
        m_ret notify))"
  have rest: "steps pools_step (?rest b)" for b
    by (intro pst.st_bind pst.st_if pools_replace_tags pst.st_ret pst.st_query)
  obtain r where q: "?proxy d = (r, d)"
    by (cases "proxy_change c p"; cases "the (proxy_change c p)") (auto simp: m_query_def)
  obtain r1 d1 where sv: "save_pool c p d = (r1, d1)" by (cases "save_pool c p d") auto
  have s1: "pools_step d d1" using pools_save [OF assms, of c] sv by simp
  show ?thesis
  proof (cases r)
    case (Inl e)
    with q show ?thesis by (simp add: updatePool_def m_seq_def m_bind_def pst.R_refl)
  next
    case (Inr x)
    have "updatePool p c d = m_bind (save_pool c p) ?rest d"
      using q Inr by (simp add: updatePool_def m_seq_def m_bind_def [of ?proxy])
    moreover have "pools_step d (snd (m_bind (save_pool c p) ?rest d))"
      using sv s1 pst.R_trans [OF s1 stepsD_snd [OF rest]] by (cases r1) (simp_all add: m_bind_def [of "save_pool c p"])
    ultimately show ?thesis by simp
  qed
qed

lemma getEntityPool_mem: "getEntityPool ty e u d = Inr p \<Longrightarrow> p \<in> set (db_pools d)"
  by (auto simp: getEntityPool_def option_or_def split: if_splits option.splits dest: find_SomeD)

lemma pools_UpdateEntityPool: "steps pools_step (UpdateEntityPool e u c)"
proof -
  have "steps pools_step (m_bind (m_query (getEntityPool (e_EntityType e) (e_ID e) u)) (\<lambda>pool. updatePool pool c))"
  proof (rule stepsI)
    fix d
    show "pools_step d (snd (m_bind (m_query (getEntityPool (e_EntityType e) (e_ID e) u)) (\<lambda>pool. updatePool pool c) d))"
      by (cases "getEntityPool (e_EntityType e) (e_ID e) u d")
        (simp_all add: m_bind_def m_query_def pst.R_refl pools_updatePool getEntityPool_mem)
  qed
  then show ?thesis
    unfolding UpdateEntityPool_def GetPoolByID_def by (rule pst.st_bind [OF pst.st_tx]) (intro pst.db_rules)
qed

lemma pools_CreateEntityPool: "steps pools_step (CreateEntityPool e c)"
  unfolding CreateEntityPool_def GetPoolByID_def by (intro pst.db_rules pools_create_tx)

lemma pools_DeletePoolByID: "steps pools_step (DeletePoolByID u)"
  unfolding DeletePoolByID_def by (intro pst.db_rules pools_delete)

lemma pools_DeleteEntityPool: "steps pools_step (DeleteEntityPool e u)"
  unfolding DeleteEntityPool_def by (intro pst.db_rules pools_delete)

text \<open>
  Creating, updating and deleting pools keeps pool keys unique, tag names unique without
  regard to case, and every pool's tags existing and without repetition; tags are never removed.
\<close>

theorem pool_operations_keep_tags:
  assumes "pools_ok d"
    and "m \<in> {m_ignore (CreateEntityPool e c), m_ignore (UpdateEntityPool e u c'), m_ignore (DeletePoolByID u),
      m_ignore (DeleteEntityPool e u)}"
  shows "pools_ok (snd (m d)) \<and> set (db_tags d) \<subseteq> set (db_tags (snd (m d)))"
proof -
  have "steps pools_step m"
    using assms(2) by (auto intro!: pst.st_ignore pools_CreateEntityPool pools_UpdateEntityPool
        pools_DeletePoolByID pools_DeleteEntityPool)
  from stepsD_snd [OF this, of d] assms(1) show ?thesis by (simp add: pools_step_def)
qed

lemma differs_iff: "differs a b \<longleftrightarrow> override a b \<noteq> b"
  by (simp add: differs_def override_def split: option.splits)

lemma proxy_change_iff: "proxy_change c p \<noteq> None \<longleftrightarrow> override (proxy_change c p) (pr_ProxyID p) \<noteq> pr_ProxyID p"
  by (auto simp: proxy_change_def override_def split: option.splits if_splits)

definition runner_settings :: "PoolRow \<Rightarrow> (string \<times> string) \<times> (string \<times> string) \<times> string \<times> bool \<times> nat option \<times> string" where
  "runner_settings p = ((pr_Flavor p, pr_Image p), (pr_OSArch p, pr_OSType p), pr_ExtraSpecs p,
     pr_EnableShell p, pr_ProxyID p, pr_GitHubRunnerGroup p)"

lemma increment_generation_iff:
  "increment_generation c p \<longleftrightarrow> runner_settings (apply_pool_updates c p) \<noteq> runner_settings p"
  unfolding increment_generation_def proxy_change_iff differs_iff
  by (auto simp: runner_settings_def apply_pool_updates_def set_str_def)

lemma no_updates_same: "\<not> has_updates c p \<Longrightarrow> apply_pool_updates c p = p"
proof -
  assume no: "\<not> has_updates c p"
  then have inc: "\<not> increment_generation c p" by (simp add: has_updates_def)
  have "(case upp_TemplateID c of None \<Rightarrow> pr_TemplateID p | Some n \<Rightarrow> Some n) = pr_TemplateID p"
    using no by (auto simp: has_updates_def split: option.splits)
  moreover have "override (proxy_change c p) (pr_ProxyID p) = pr_ProxyID p"
    using inc unfolding increment_generation_def proxy_change_iff by simp
  ultimately show "apply_pool_updates c p = p"
    using no inc unfolding has_updates_def increment_generation_def differs_iff
    by (auto simp: apply_pool_updates_def increment_generation_def differs_iff)
qed

lemma find_upd_pool:
  "find_pool d (Some u) = Some p \<Longrightarrow> pr_ID (f p) = u \<Longrightarrow> find_pool (upd_pool u f d) (Some u) = Some (f p)"
proof -
  have "List.find (\<lambda>q. pr_ID q = u) rows = Some p \<Longrightarrow> pr_ID (f p) = u \<Longrightarrow>
      List.find (\<lambda>q. pr_ID q = u) (upd_rows (\<lambda>q. pr_ID q = u) f rows) = Some (f p)" for rows
    by (induction rows) (auto split: if_splits)
  then show "find_pool d (Some u) = Some p \<Longrightarrow> pr_ID (f p) = u \<Longrightarrow> find_pool (upd_pool u f d) (Some u) = Some (f p)"
    by (simp add: find_pool_def upd_pool_def)
qed

lemma tags_keep_pools: "getOrCreateTag n d = (r, d') \<Longrightarrow> db_pools d' = db_pools d"
  by (erule getOrCreateTag_cases) simp_all

lemma map_tags_keep_pools: "m_map getOrCreateTag ns d = (r, d') \<Longrightarrow> db_pools d' = db_pools d"
proof (induction ns arbitrary: d r)
  case (Cons n ns)
  then show ?case
    by (auto simp: m_bind_def split: prod.splits sum.splits dest: tags_keep_pools)
qed simp

lemma updatePool_row:
  assumes run: "updatePool p c d = (Inr b, d')" and p: "find_pool d (Some (pr_ID p)) = Some p"
  shows "\<exists>tags t. find_pool d' (Some (pr_ID p)) = Some ((apply_pool_updates c p)\<lparr>pr_UpdatedAt := t, pr_Tags := tags\<rparr>)"
proof -
  let ?u = "pr_ID p"
  let ?proxy = "case proxy_change c p of Some (Some n) \<Rightarrow> m_query (hasProxy n) | _ \<Rightarrow> m_ret ()"
  obtain r where q: "?proxy d = (r, d)"
    by (cases "proxy_change c p"; cases "the (proxy_change c p)") (auto simp: m_query_def)
  from run q obtain aff d1 notify d2 where sv: "save_pool c p d = (Inr aff, d1)"
    and tg: "(if upp_Tags c = [] then m_ret aff else m_bind (m_map getOrCreateTag (upp_Tags c)) (\<lambda>tags.
          m_seq (m_modify (upd_pool ?u (\<lambda>p. p\<lparr>pr_Tags := replace_tags (map t_ID tags) (pr_Tags p)\<rparr>)))
            (m_ret True))) d1 = (Inr notify, d2)" and d': "d' = d2"
    unfolding updatePool_def by (auto elim!: m_seq_okE m_bind_okE simp: m_query_def)
  have row: "\<exists>t. find_pool d1 (Some ?u) = Some ((apply_pool_updates c p)\<lparr>pr_UpdatedAt := t\<rparr>)"
  proof (cases "has_updates c p")
    case False
    then have "d1 = d" using sv by (simp add: save_pool_def)
    with p no_updates_same [OF False] show ?thesis by (intro exI [of _ "pr_UpdatedAt p"]) (cases p, simp)
  next
    case True
    with sv have "d1 = upd_pool ?u (\<lambda>_. (apply_pool_updates c p)\<lparr>pr_UpdatedAt := db_clock d\<rparr>) d"
      by (simp add: save_pool_def split: if_splits)
    with find_upd_pool [OF p] show ?thesis by auto
  qed
  then obtain t where t: "find_pool d1 (Some ?u) = Some ((apply_pool_updates c p)\<lparr>pr_UpdatedAt := t\<rparr>)" ..
  show ?thesis
  proof (cases "upp_Tags c = []")
    case True
    let ?a = "apply_pool_updates c p"
    have "?a\<lparr>pr_UpdatedAt := t\<rparr> = ?a\<lparr>pr_UpdatedAt := t, pr_Tags := pr_Tags ?a\<rparr>" by (cases ?a) simp
    moreover have "d' = d1" using True tg d' by simp
    ultimately show ?thesis using t by (intro exI [of _ "pr_Tags ?a"] exI [of _ t]) (simp only:)
  next
    case False
    with tg obtain ts d3 where m: "m_map getOrCreateTag (upp_Tags c) d1 = (Inr ts, d3)"
      and d2: "d2 = upd_pool ?u (\<lambda>p. p\<lparr>pr_Tags := replace_tags (map t_ID ts) (pr_Tags p)\<rparr>) d3"
      by (auto elim!: m_bind_okE)
    have "find_pool d3 (Some ?u) = find_pool d1 (Some ?u)"
      using map_tags_keep_pools [OF m] by (simp add: find_pool_def)
    with t have "find_pool d3 (Some ?u) = Some ((apply_pool_updates c p)\<lparr>pr_UpdatedAt := t\<rparr>)" by simp
    from find_upd_pool [OF this] d2 d' show ?thesis by auto
  qed
qed

text \<open>
  An accepted pool update increases the pool's generation by one exactly when a setting that shapes
  new runners changes (flavor, image, operating system, extra specs, shell, proxy, runner group), and
  leaves it alone otherwise, so listings of outdated runners find those made with older settings.
\<close>

theorem UpdateEntityPool_generation:
  assumes "pools_ok d" and "getEntityPool (e_EntityType e) (e_ID e) poolID d = Inr p"
    and "UpdateEntityPool e poolID c d = (Inr pool, d')"
  shows "\<exists>p'. find_pool d' (Some (pr_ID p)) = Some p' \<and>
    pr_Generation p' = (if runner_settings p' \<noteq> runner_settings p then pr_Generation p + 1 else pr_Generation p)"
proof -
  let ?body = "m_bind (m_query (getEntityPool (e_EntityType e) (e_ID e) poolID)) (\<lambda>pool. updatePool pool c)"
  obtain b d1 where tx: "db_tx ?body d = (Inr b, d1)"
    and rest: "m_bind (GetPoolByID poolID) (\<lambda>updated. m_seq (m_when b (sendNotify PoolEntityType UpdateOperation
      (PoolPayload updated))) (m_ret updated)) d1 = (Inr pool, d')"
    using assms(3) unfolding UpdateEntityPool_def by (rule m_bind_okE)
  obtain bs where body: "?body (d\<lparr>db_faults := bs\<rparr>) = (Inr b, d1)" using tx by (rule db_tx_ok)
  have get: "getEntityPool (e_EntityType e) (e_ID e) poolID (d\<lparr>db_faults := bs\<rparr>) = Inr p"
    using assms(2) by (simp add: getEntityPool_def split: if_splits option.splits)
  then have upd: "updatePool p c (d\<lparr>db_faults := bs\<rparr>) = (Inr b, d1)"
    using body by (simp add: m_bind_def m_query_def)
  have "p \<in> set (db_pools d)" by (rule getEntityPool_mem [OF assms(2)])
  then have f: "find_pool (d\<lparr>db_faults := bs\<rparr>) (Some (pr_ID p)) = Some p"
    using assms(1) find_by_key [of pr_ID "db_pools d" p] by (simp add: find_pool_def pools_ok_def)
  have "steps same_tables (m_bind (GetPoolByID poolID) (\<lambda>updated. m_seq (m_when b (sendNotify PoolEntityType UpdateOperation
      (PoolPayload updated))) (m_ret updated)))"
    unfolding GetPoolByID_def by (intro tbl.db_rules)
  from stepsD [OF this rest] have same: "find_pool d' x = find_pool d1 x" for x
    by (simp add: same_tables_def find_pool_def split: option.splits)
  obtain tags t where "find_pool d' (Some (pr_ID p)) = Some ((apply_pool_updates c p)\<lparr>pr_UpdatedAt := t, pr_Tags := tags\<rparr>)"
    using updatePool_row [OF upd f] same by auto
  moreover have "pr_Generation (apply_pool_updates c p) =
      (if increment_generation c p then pr_Generation p + 1 else pr_Generation p)"
    by (simp add: apply_pool_updates_def)
  ultimately show ?thesis by (auto simp: increment_generation_iff runner_settings_def)
qed

lemma ex_pools_ok [simp]: "pools_ok ex_db"
  by (simp add: pools_ok_def ex_pool_def ex_tag_def)


lemma ex_lower: "to_lower ''LINUX'' = ''linux''" "to_lower ''Linux'' = ''linux''" "to_lower ''linux'' = ''linux''"
  by code_simp+


theorem FindPools_repeated_labels_witness:
  "FindPoolsMatchingAllTags ForgeEntityTypeRepository (uuid_string 9) [''linux'', ''Linux''] ex_db = (Inr [], ex_db)"
  using FindPools_repeated_labels [of ex_db "[''linux'', ''Linux'']" "uuid_string 9" 9 ForgeEntityTypeRepository pr_RepoID]
  by (simp add: entity_field_def ex_lower)

theorem DeletePool_refused_witness:
  "\<exists>e. fst (DeletePoolByID (uuid_string 1) ex_db) = Inl e"
  using DeletePool_refused [of "uuid_string 1" ex_db ex_pool]
  by (auto simp: getPoolByID_def ex_pool_def option_or_def count_pool_def ex_instance_def)

theorem pool_operations_keep_tags_witness:
  "pools_ok (snd (m_ignore (DeletePoolByID (uuid_string 1)) ex_db)) \<and>
   ex_tag \<in> set (db_tags (snd (m_ignore (DeletePoolByID (uuid_string 1)) ex_db)))"
  using pool_operations_keep_tags [of ex_db "m_ignore (DeletePoolByID (uuid_string 1))" _ _ "uuid_string 1"]
  by simp

definition ex_endpoint :: ForgeEndpoint where
  "ex_endpoint = \<lparr>ep_Name = ''github.com'', ep_Description = [], ep_APIBaseURL = [], ep_UploadBaseURL = [],
     ep_BaseURL = [], ep_CACertBundle = [], ep_CreatedAt = 0, ep_UpdatedAt = 0, ep_ToolsMetadataURL = [],
     ep_UseInternalToolsMetadata = None, ep_EndpointType = GithubEndpointType\<rparr>"

definition ex_credentials :: ForgeCredentials where
  "ex_credentials = \<lparr>c_ID = 1, c_Name = ''pat'', c_Description = [], c_APIBaseURL = [], c_UploadBaseURL = [],
     c_BaseURL = ''https://github.com'', c_CABundle = [], c_AuthType = ''pat'', c_ForgeType = GithubEndpointType,
     c_ReserveUsageEnabled = False, c_ReserveUsagePercentage = 0, c_Endpoint = ex_endpoint, c_CreatedAt = 0,
     c_UpdatedAt = 0, c_RateLimit = None, c_CredentialsPayload = []\<rparr>"

definition ex_forge_entity :: ForgeEntity where
  "ex_forge_entity = \<lparr>e_ID = uuid_string 9, e_Forge = ex_endpoint, e_Owner = ''acme'', e_Name = ''app'',
     e_EntityType = ForgeEntityTypeRepository, e_Credentials = ex_credentials,
     e_PoolBalancerType = PoolBalancerTypeRoundRobin,
     e_PoolManagerStatus = \<lparr>pms_IsRunning = True, pms_FailureReason = []\<rparr>, e_CreatedAt = 0, e_UpdatedAt = 0,
     e_AgentMode = False, e_WebhookSecret = ''secret''\<rparr>"

definition ex_pool_update :: UpdatePoolParams where
  "ex_pool_update = \<lparr>upp_Prefix = [], upp_Tags = [], upp_Enabled = None, upp_MaxRunners = Some 4,
     upp_MinIdleRunners = None, upp_RunnerBootstrapTimeout = None, upp_Image = ''debian'', upp_Flavor = [],
     upp_OSType = [], upp_OSArch = [], upp_ExtraSpecs = None, upp_EnableShell = None,
     upp_GitHubRunnerGroup = None, upp_Priority = None, upp_TemplateID = None, upp_ProxyID = None\<rparr>"

theorem UpdateEntityPool_generation_witness:
  "\<exists>p'. find_pool (snd (UpdateEntityPool ex_forge_entity (uuid_string 1) ex_pool_update ex_db)) (Some 1) = Some p' \<and>
     (pr_Generation p' = 3 \<or> pr_Generation p' = 4)"
proof -
  let ?run = "UpdateEntityPool ex_forge_entity (uuid_string 1) ex_pool_update ex_db"
  have get: "getEntityPool (e_EntityType ex_forge_entity) (e_ID ex_forge_entity) (uuid_string 1) ex_db = Inr ex_pool"
    by (simp add: ex_forge_entity_def getEntityPool_def entity_field_def ex_pool_def option_or_def)
  have "isl (fst ?run) = False"
    by (simp add: UpdateEntityPool_def m_bind_def db_tx_nofault m_query_def get updatePool_def ex_pool_update_def
        proxy_change_def save_pool_def has_updates_def increment_generation_def differs_def set_str_def ex_pool_def
        apply_pool_updates_def override_def template_ok_def m_seq_def upd_pool_def find_pool_def load_pool_def
        pool_tags_def pool_instances_def ex_instance_def load_bare_def ex_tag_def List.map_filter_simps pool_entity_def
        ex_entity_def sqlToCommonPool_def sqlToParamsInstance_def GetPoolByID_def getPoolByID_def option_or_def
        sendNotify_def m_when_def Let_def)
  then have run: "?run = (Inr (projr (fst ?run)), snd ?run)"
    by (cases ?run) auto
  from UpdateEntityPool_generation [OF ex_pools_ok get run] show ?thesis
    by (auto simp: ex_pool_def split: if_splits)
qed

end
