(* ===== verification/Garm_Pool_Cache.thy ===== *)
theory Garm_Pool_Cache
  imports Garm_Pools
begin

text \<open>
  The choice of a pool for a queued job (\<^verbatim>\<open>runner/pool/cache.go\<close>): a round robin over the pools that
  match a set of labels, and the map from label sets to round robins that one run of the job
  consumer keeps.

  The cursor is a \<^verbatim>\<open>uint32\<close> and wraps around. An index out of range panics in Go and is an error value
  here. \<^verbatim>\<open>sort.Slice\<close> is modelled by a stable sort: the order among pools of equal priority is the one
  the store returned.
\<close>

record poolRoundRobin =
  rr_pools :: "Pool list"
  rr_next :: "32 word"

definition PanicError :: garm_error where
  "PanicError = OtherError ''panic: index out of range''"

text \<open>Go's remainder takes the sign of the dividend.\<close>

definition rem_trunc :: "int \<Rightarrow> int \<Rightarrow> int" where
  "rem_trunc a b = a - quot_trunc a b * b"

definition poolRoundRobin_Next :: "poolRoundRobin \<Rightarrow> (garm_error + Pool) \<times> poolRoundRobin" where
  "poolRoundRobin_Next p = (if rr_pools p = [] then (Inl NoPoolsAvailableError, p)
     else let n = rr_next p + 1;
              p' = p\<lparr>rr_next := n\<rparr>;
              i = rem_trunc (uint n - 1) (int (length (rr_pools p)))
          in if i < 0 then (Inl PanicError, p') else (Inr (rr_pools p ! nat i), p'))"

definition poolRoundRobin_Len :: "poolRoundRobin \<Rightarrow> nat" where
  "poolRoundRobin_Len p = length (rr_pools p)"

definition poolRoundRobin_Reset :: "poolRoundRobin \<Rightarrow> poolRoundRobin" where
  "poolRoundRobin_Reset p = p\<lparr>rr_next := 0\<rparr>"

text \<open>\<^verbatim>\<open>Get\<close> and \<^verbatim>\<open>Add\<close> return a pointer into the map: the model returns the key of the entry.\<close>

record poolsForTags =
  pft_pools :: "string \<rightharpoonup> poolRoundRobin"
  pft_poolCacheType :: PoolBalancerType

definition pool_key :: "string list \<Rightarrow> string" where
  "pool_key tags = join_str ''^'' (sort tags)"

definition poolsForTags_Get :: "string list \<Rightarrow> poolsForTags \<Rightarrow> string option \<times> poolsForTags" where
  "poolsForTags_Get tags p = (case pft_pools p (pool_key tags) of
     None \<Rightarrow> (None, p)
   | Some poolCache \<Rightarrow>
       (Some (pool_key tags), if pft_poolCacheType p = PoolBalancerTypePack
          then p\<lparr>pft_pools := (pft_pools p)(pool_key tags \<mapsto> poolRoundRobin_Reset poolCache)\<rparr> else p))"

definition poolsForTags_Add :: "string list \<Rightarrow> Pool list \<Rightarrow> poolsForTags \<Rightarrow> string \<times> poolsForTags" where
  "poolsForTags_Add tags pools p =
     (let sorted_pools = sort_key (\<lambda>x. - int (p_Priority x)) pools;
          poolRR = \<lparr>rr_pools = sorted_pools, rr_next = 0\<rparr>
      in (pool_key tags, case pft_pools p (pool_key tags) of
            None \<Rightarrow> p\<lparr>pft_pools := (pft_pools p)(pool_key tags \<mapsto> poolRR)\<rparr> | Some _ \<Rightarrow> p))"

text \<open>The calls through the returned pointer.\<close>

definition poolsForTags_Len :: "string \<Rightarrow> poolsForTags \<Rightarrow> nat" where
  "poolsForTags_Len key p = (case pft_pools p key of None \<Rightarrow> 0 | Some rr \<Rightarrow> poolRoundRobin_Len rr)"

definition poolsForTags_Next :: "string \<Rightarrow> poolsForTags \<Rightarrow> (garm_error + Pool) \<times> poolsForTags" where
  "poolsForTags_Next key p = (case pft_pools p key of
     None \<Rightarrow> (Inl NoPoolsAvailableError, p)
   | Some rr \<Rightarrow> (case poolRoundRobin_Next rr of
       (r, rr') \<Rightarrow> (r, p\<lparr>pft_pools := (pft_pools p)(key \<mapsto> rr')\<rparr>)))"

text \<open>The results of \<open>n\<close> successive calls.\<close>

primrec take_items :: "('s \<Rightarrow> (garm_error + 'p) \<times> 's) \<Rightarrow> nat \<Rightarrow> 's \<Rightarrow> (garm_error + 'p) list" where
  "take_items advance 0 s = []"
| "take_items advance (Suc n) s = fst (advance s) # take_items advance n (snd (advance s))"

text \<open>The entries of the map list their pools by decreasing priority.\<close>

definition pft_ok :: "poolsForTags \<Rightarrow> bool" where
  "pft_ok p \<longleftrightarrow> (\<forall>k rr. pft_pools p k = Some rr \<longrightarrow> sorted (map (\<lambda>x. - int (p_Priority x)) (rr_pools rr)))"

lemma rotate_back:
  fixes n :: nat
  assumes "j < n"
  shows "(p + (j + (n - p mod n)) mod n) mod n = j"
proof -
  have "p + (j + (n - p mod n)) = n * (p div n + 1) + j"
  proof -
    have "p mod n \<le> n" using assms by (simp add: mod_less_divisor [THEN less_imp_le])
    then have "p + (j + (n - p mod n)) = (p - p mod n) + n + j" by (simp add: mod_less_eq_dividend)
    also have "p - p mod n = n * (p div n)" by (simp add: minus_mod_eq_mult_div)
    finally show ?thesis by simp
  qed
  then have "(p + (j + (n - p mod n))) mod n = (n * (p div n + 1) + j) mod n" by (rule arg_cong)
  also have "\<dots> = j" using assms by (simp only: mod_mult_self4 mod_less)
  finally have "(p + (j + (n - p mod n))) mod n = j" .
  then show ?thesis by (simp add: mod_add_right_eq)
qed

subsection \<open>The interface poolCacheStore\<close>

text \<open>A cursor over a fixed list of items; \<open>limit\<close> bounds the position up to which it is exact.\<close>

locale cursor =
  fixes items :: "'s \<Rightarrow> 'p list"
    and pos :: "'s \<Rightarrow> nat"
    and advance :: "'s \<Rightarrow> (garm_error + 'p) \<times> 's"
    and reset :: "'s \<Rightarrow> 's"
    and limit :: nat
  assumes advance_items: "items (snd (advance s)) = items s"
    and advance_item: "items s \<noteq> [] \<Longrightarrow> pos s < limit \<Longrightarrow>
      fst (advance s) = Inr (items s ! (pos s mod length (items s))) \<and> pos (snd (advance s)) = Suc (pos s)"
    and advance_empty: "items s = [] \<Longrightarrow> fst (advance s) = Inl NoPoolsAvailableError"
    and reset_pos: "pos (reset s) = 0" "items (reset s) = items s"
begin

lemma take_items_nth:
  "items s \<noteq> [] \<Longrightarrow> pos s + n \<le> limit \<Longrightarrow>
   take_items advance n s = map (\<lambda>k. Inr (items s ! ((pos s + k) mod length (items s)))) [0..<n]"
proof (induction n arbitrary: s)
  case (Suc n)
  have step: "fst (advance s) = Inr (items s ! (pos s mod length (items s)))" "pos (snd (advance s)) = Suc (pos s)"
    using advance_item [of s] Suc.prems by simp_all
  have "take_items advance n (snd (advance s)) =
      map (\<lambda>k. Inr (items s ! ((Suc (pos s) + k) mod length (items s)))) [0..<n]"
    using Suc.IH [of "snd (advance s)"] Suc.prems step advance_items by simp
  then show ?case
    by (simp add: step upt_conv_Cons map_Suc_upt [symmetric] comp_def del: upt_Suc)
qed simp

text \<open>One round of calls offers every item once.\<close>

lemma full_round:
  assumes "items s \<noteq> []" "pos s + length (items s) \<le> limit"
  shows "set (take_items advance (length (items s)) s) = Inr ` set (items s)"
proof -
  let ?n = "length (items s)"
  have "(\<lambda>k. (pos s + k) mod ?n) ` {0..<?n} = {0..<?n}"
  proof
    show "{0..<?n} \<subseteq> (\<lambda>k. (pos s + k) mod ?n) ` {0..<?n}"
    proof
      fix j assume "j \<in> {0..<?n}"
      then have "(pos s + (j + (?n - pos s mod ?n)) mod ?n) mod ?n = j" by (intro rotate_back) simp
      moreover have "(j + (?n - pos s mod ?n)) mod ?n \<in> {0..<?n}" using assms(1) by simp
      ultimately show "j \<in> (\<lambda>k. (pos s + k) mod ?n) ` {0..<?n}" by (metis imageI)
    qed
  qed (use assms(1) in auto)
  then have "(!) (items s) ` (\<lambda>k. (pos s + k) mod ?n) ` {0..<?n} = (!) (items s) ` {0..<?n}"
    by (rule arg_cong)
  also have "\<dots> = set (map ((!) (items s)) [0..<?n])" by simp
  also have "\<dots> = set (items s)" by (simp only: map_nth)
  finally have "Inr ` (!) (items s) ` (\<lambda>k. (pos s + k) mod ?n) ` {0..<?n} = Inr ` set (items s)"
    by (rule arg_cong)
  then show ?thesis
    unfolding take_items_nth [OF assms] set_map set_upt by (simp only: image_image)
qed

lemma after_reset: "items s \<noteq> [] \<Longrightarrow> 0 < limit \<Longrightarrow> fst (advance (reset s)) = Inr (items s ! 0)"
  using advance_item [of "reset s"] reset_pos by simp

end

lemma rem_trunc_pos: "0 \<le> a \<Longrightarrow> 0 < b \<Longrightarrow> rem_trunc a b = a mod b"
  by (cases "a = 0") (simp_all add: rem_trunc_def quot_trunc_def minus_div_mult_eq_mod)

interpretation rr: cursor rr_pools "\<lambda>p. unat (rr_next p)" poolRoundRobin_Next poolRoundRobin_Reset "2 ^ 32 - 1"
proof unfold_locales
  fix p :: poolRoundRobin
  show "rr_pools (snd (poolRoundRobin_Next p)) = rr_pools p"
    by (simp add: poolRoundRobin_Next_def Let_def)
  show "rr_pools p = [] \<Longrightarrow> fst (poolRoundRobin_Next p) = Inl NoPoolsAvailableError"
    by (simp add: poolRoundRobin_Next_def)
  show "unat (rr_next (poolRoundRobin_Reset p)) = 0" "rr_pools (poolRoundRobin_Reset p) = rr_pools p"
    by (simp_all add: poolRoundRobin_Reset_def)
  assume ne: "rr_pools p \<noteq> []" and lt: "unat (rr_next p) < 2 ^ 32 - 1"
  have n: "unat (rr_next p + 1) = Suc (unat (rr_next p))"
    using lt by (simp add: unat_word_ariths unat_arith_simps)
  then have u: "uint (rr_next p + 1) - 1 = int (unat (rr_next p))"
    by (metis add_diff_cancel_left' int_nat_eq of_nat_Suc uint_nat unat_eq_nat_uint)
  have "rem_trunc (int (unat (rr_next p))) (int (length (rr_pools p))) = int (unat (rr_next p) mod length (rr_pools p))"
    using ne by (subst rem_trunc_pos) (simp_all add: zmod_int)
  with ne n u show "fst (poolRoundRobin_Next p) = Inr (rr_pools p ! (unat (rr_next p) mod length (rr_pools p))) \<and>
      unat (rr_next (snd (poolRoundRobin_Next p))) = Suc (unat (rr_next p))"
    by (simp add: poolRoundRobin_Next_def Let_def)
qed

text \<open>
  For one job the consumer asks the round robin as often as there are pools: the pools it is
  offered are then exactly the pools of the entry, wherever the cursor stands, as long as the
  counter does not wrap around.
\<close>

theorem round_robin_offers_every_pool:
  assumes "rr_pools p \<noteq> []" and "unat (rr_next p) + poolRoundRobin_Len p \<le> 2 ^ 32 - 1"
  shows "set (take_items poolRoundRobin_Next (poolRoundRobin_Len p) p) = Inr ` set (rr_pools p)"
  using rr.full_round [OF assms(1)] assms(2) by (simp add: poolRoundRobin_Len_def)

definition ex_Pool :: "string \<Rightarrow> nat \<Rightarrow> Pool" where
  "ex_Pool i prio = zero_Pool\<lparr>p_ID := i, p_Priority := prio\<rparr>"

theorem round_robin_offers_every_pool_witness:
  "set (take_items poolRoundRobin_Next (Suc (Suc 0)) \<lparr>rr_pools = [ex_Pool ''a'' 0, ex_Pool ''b'' 5], rr_next = 7\<rparr>) =
   Inr ` {ex_Pool ''a'' 0, ex_Pool ''b'' 5}"
  using round_robin_offers_every_pool [of "\<lparr>rr_pools = [ex_Pool ''a'' 0, ex_Pool ''b'' 5], rr_next = 7\<rparr>"]
  by (simp add: poolRoundRobin_Len_def)

text \<open>
  After \<open>2^32 - 1\<close> requests the counter is back at zero and the index becomes \<open>-1\<close>: with two or more
  pools the next request panics instead of starting over.
\<close>

theorem round_robin_wraps:
  assumes "1 < poolRoundRobin_Len p" and "rr_next p = - 1"
  shows "fst (poolRoundRobin_Next p) = Inl PanicError"
proof -
  have "rem_trunc (- 1) (int (length (rr_pools p))) = - 1"
    using assms(1) by (simp add: rem_trunc_def quot_trunc_def poolRoundRobin_Len_def zdiv_int [symmetric])
  with assms show ?thesis
    by (auto simp: poolRoundRobin_Next_def Let_def poolRoundRobin_Len_def)
qed

lemma pft_ok_Add: "pft_ok p \<Longrightarrow> pft_ok (snd (poolsForTags_Add tags ps p))"
  by (auto simp: pft_ok_def poolsForTags_Add_def Let_def split: option.splits)

lemma pft_ok_Get: "pft_ok p \<Longrightarrow> pft_ok (snd (poolsForTags_Get tags p))"
  by (auto simp: pft_ok_def poolsForTags_Get_def poolRoundRobin_Reset_def split: option.splits)

lemma pft_ok_Next: "pft_ok p \<Longrightarrow> pft_ok (snd (poolsForTags_Next k p))"
  using rr.advance_items
  by (auto simp: pft_ok_def poolsForTags_Next_def split: option.splits prod.splits) (metis snd_conv)

theorem round_robin_wraps_witness:
  "fst (poolRoundRobin_Next \<lparr>rr_pools = [ex_Pool ''a'' 0, ex_Pool ''b'' 5], rr_next = - 1\<rparr>) = Inl PanicError"
  by (rule round_robin_wraps) (simp_all add: poolRoundRobin_Len_def)

text \<open>
  With the pack balancer every job starts at the pool of the highest priority: whatever was
  asked before, the first pool offered after \<^verbatim>\<open>Get\<close> has the maximal priority among the pools added.
\<close>

theorem pack_starts_at_highest_priority:
  assumes "pft_ok p" and "pft_poolCacheType p = PoolBalancerTypePack"
    and "pft_pools p (pool_key tags) = Some entry" and "q \<in> set (rr_pools entry)"
  shows "\<exists>first. fst (poolsForTags_Next (pool_key tags) (snd (poolsForTags_Get tags p))) = Inr first \<and>
    p_Priority q \<le> p_Priority first"
proof -
  have ne: "rr_pools entry \<noteq> []" using assms(4) by auto
  have "fst (poolRoundRobin_Next (poolRoundRobin_Reset entry)) = Inr (rr_pools entry ! 0)"
    using rr.after_reset [OF ne] by simp
  moreover have "p_Priority q \<le> p_Priority (rr_pools entry ! 0)"
  proof -
    have "sorted (map (\<lambda>x. - int (p_Priority x)) (rr_pools entry))"
      using assms(1,3) by (simp add: pft_ok_def)
    moreover obtain j where "j < length (rr_pools entry)" "q = rr_pools entry ! j"
      using assms(4) by (auto simp: in_set_conv_nth)
    ultimately show ?thesis by (auto simp: sorted_iff_nth_mono dest!: spec [of _ 0])
  qed
  ultimately show ?thesis
    using assms(2,3) by (auto simp: poolsForTags_Get_def poolsForTags_Next_def split: prod.splits)
qed

theorem pack_starts_at_highest_priority_witness:
  "\<exists>first. fst (poolsForTags_Next (pool_key [''linux'']) (snd (poolsForTags_Get [''linux'']
     (snd (poolsForTags_Add [''linux''] [ex_Pool ''a'' 0, ex_Pool ''b'' 5]
       \<lparr>pft_pools = Map.empty, pft_poolCacheType = PoolBalancerTypePack\<rparr>))))) = Inr first \<and>
   5 \<le> p_Priority first"
proof -
  let ?p = "snd (poolsForTags_Add [''linux''] [ex_Pool ''a'' 0, ex_Pool ''b'' 5]
    \<lparr>pft_pools = Map.empty, pft_poolCacheType = PoolBalancerTypePack\<rparr>)"
  have "pft_ok ?p" by (rule pft_ok_Add) (simp add: pft_ok_def)
  moreover have "pft_poolCacheType ?p = PoolBalancerTypePack"
    "pft_pools ?p (pool_key [''linux'']) = Some \<lparr>rr_pools = sort_key (\<lambda>x. - int (p_Priority x)) [ex_Pool ''a'' 0, ex_Pool ''b'' 5], rr_next = 0\<rparr>"
    by (simp_all add: poolsForTags_Add_def Let_def del: sort_key_simps)
  ultimately show ?thesis
    using pack_starts_at_highest_priority [of ?p "[''linux'']" _ "ex_Pool ''b'' 5"]
    by (simp add: ex_Pool_def)
qed

subsection \<open>Keys\<close>

lemma sort_eq_Nil: "sort xs = [] \<longleftrightarrow> xs = []"
  by (metis length_0_conv length_sort)

lemma join_split:
  assumes "CHR ''^'' \<notin> set x" "CHR ''^'' \<notin> set y" "x @ CHR ''^'' # r = y @ CHR ''^'' # s"
  shows "x = y \<and> r = s"
  using assms
proof (induction x arbitrary: y)
  case Nil
  then show ?case by (cases y) auto
next
  case (Cons c x)
  then show ?case by (cases y) auto
qed

lemma join_inject:
  assumes "\<forall>x \<in> set xs. CHR ''^'' \<notin> set x" "\<forall>y \<in> set ys. CHR ''^'' \<notin> set y" "xs \<noteq> []" "ys \<noteq> []"
    "join_str ''^'' xs = join_str ''^'' ys"
  shows "xs = ys"
  using assms
proof (induction xs arbitrary: ys rule: induct_list012)
  case (2 x)
  show ?case
  proof (cases ys rule: remdups_adj.cases)
    case (3 y y' ys')
    with 2 have "CHR ''^'' \<in> set x" by simp
    with 2 show ?thesis by simp
  qed (use 2 in simp_all)
next
  case (3 x x' xs)
  show ?case
  proof (cases ys)
    case (Cons y ys')
    show ?thesis
    proof (cases ys')
      case Nil
      with 3 Cons show ?thesis by auto
    next
      case C2: (Cons y' ys'')
      have "x @ CHR ''^'' # join_str ''^'' (x' # xs) = y @ CHR ''^'' # join_str ''^'' (y' # ys'')"
        using 3 Cons C2 by simp
      then have "x = y \<and> join_str ''^'' (x' # xs) = join_str ''^'' (y' # ys'')"
        by (rule join_split [rotated 2]) (use 3 Cons in auto)
      moreover from this have "x' # xs = y' # ys''"
        using 3(3,4) Cons C2 by (intro 3(2)) simp_all
      ultimately show ?thesis using Cons C2 by simp
    qed
  qed (use 3 in simp)
qed simp

text \<open>
  Two label lists share a round robin exactly when they hold the same labels, in any order, as
  long as no label contains the separator.
\<close>

theorem pool_key_exact:
  assumes "\<forall>x \<in> set xs \<union> set ys. CHR ''^'' \<notin> set x" and "xs \<noteq> []" and "ys \<noteq> []"
  shows "pool_key xs = pool_key ys \<longleftrightarrow> sort xs = sort ys"
proof
  assume "pool_key xs = pool_key ys"
  then show "sort xs = sort ys"
    unfolding pool_key_def by (rule join_inject [rotated 4]) (use assms in \<open>auto simp: sort_eq_Nil\<close>)
qed (simp add: pool_key_def)

theorem pool_key_exact_witness:
  "pool_key [''linux'', ''gpu''] = pool_key [''gpu'', ''linux''] \<longleftrightarrow> sort [''linux'', ''gpu''] = sort [''gpu'', ''linux'']"
  by (rule pool_key_exact) simp_all

text \<open>
  A label with the separator in it is confused with a list of labels.
\<close>

theorem pool_key_clash: "pool_key [''a^b''] = pool_key [''a'', ''b''] \<and> sort [''a^b''] \<noteq> sort [''a'', ''b'']"
  by (simp add: pool_key_def)

end
