(* ===== verification/Garm_Watcher.thy ===== *)
theory Garm_Watcher
  imports Garm_Jobs Garm_Pool_Cache "HOL-Library.AList"
begin

text \<open>
  The state of a pool manager (\<^verbatim>\<open>basePoolManager\<close> in \<^verbatim>\<open>runner/pool/pool.go\<close>) and its reaction to the
  change notifications of the store (\<^verbatim>\<open>runner/pool/watcher.go\<close>): the entity, its credentials, the
  controller settings and the cache of jobs follow what the store reports.

  The map of jobs is an association list with distinct keys: the order of the list is the order in
  which Go iterates over the map, and the theorems hold for every order. A channel of capacity one
  that only wakes a loop is a flag. Each handler runs under the manager's mutex and is one step.
  \<^verbatim>\<open>now\<close> is what \<^verbatim>\<open>time.Now()\<close> returns.
\<close>

record basePoolManager =
  pm_consumerID :: string
  pm_entity :: ForgeEntity
  pm_controllerInfo :: ControllerInfo
  pm_jobs :: "(int \<times> Job) list"
  pm_jobTombstones :: "int \<rightharpoonup> time"
  pm_checkedJobs :: "int \<rightharpoonup> time"
  pm_tools :: "string list"
  pm_scaleSetClient :: bool
  pm_stubClient :: bool
  pm_clientUpdateCh :: bool
  pm_consumeJobsCh :: bool
  pm_addPendingCh :: bool
  pm_managerIsRunning :: bool
  pm_managerErrorReason :: string
  pm_consumerClosed :: bool
  pm_filters :: PayloadFilterFunc

definition handleControllerUpdateEvent :: "ControllerInfo \<Rightarrow> basePoolManager \<Rightarrow> basePoolManager" where
  "handleControllerUpdateEvent controllerInfo r = r\<lparr>pm_controllerInfo := controllerInfo\<rparr>"

definition triggerClientUpdate :: "basePoolManager \<Rightarrow> basePoolManager" where
  "triggerClientUpdate r = r\<lparr>pm_clientUpdateCh := True\<rparr>"

definition handleEntityUpdate :: "ForgeEntity \<Rightarrow> OperationType \<Rightarrow> basePoolManager \<Rightarrow> basePoolManager" where
  "handleEntityUpdate entity operation r =
     (if e_ID (pm_entity r) \<noteq> e_ID entity then r
      else if operation = DeleteOperation then r\<lparr>pm_consumerClosed := True\<rparr>
      else if operation \<noteq> UpdateOperation then r
      else let credentialsUpdate = (c_ID (e_Credentials (pm_entity r)) \<noteq> c_ID (e_Credentials entity));
               r' = r\<lparr>pm_entity := entity\<rparr>
           in if credentialsUpdate
              then triggerClientUpdate (r'\<lparr>pm_filters := composeWatcherFilters entity\<rparr>) else r')"

definition handleCredentialsUpdate :: "ForgeCredentials \<Rightarrow> basePoolManager \<Rightarrow> basePoolManager" where
  "handleCredentialsUpdate credentials r =
     (if c_ID (e_Credentials (pm_entity r)) \<noteq> c_ID credentials then r
      else triggerClientUpdate (r\<lparr>pm_entity := (pm_entity r)\<lparr>e_Credentials := credentials\<rparr>\<rparr>))"

subsection \<open>The job cache\<close>

definition jobTombstoneTTL :: duration where "jobTombstoneTTL = 10 * minute"

definition jobIsRetired :: "int \<Rightarrow> basePoolManager \<Rightarrow> bool" where
  "jobIsRetired jobID r \<longleftrightarrow> pm_jobTombstones r jobID \<noteq> None"

definition jobUpdateIsStale :: "Job \<Rightarrow> basePoolManager \<Rightarrow> bool" where
  "jobUpdateIsStale job r = (case map_of (pm_jobs r) (j_ID job) of
     Some recorded \<Rightarrow> j_UpdatedAt job < j_UpdatedAt recorded
   | None \<Rightarrow> jobIsRetired (j_ID job) r)"

definition retireJob :: "time \<Rightarrow> Job \<Rightarrow> basePoolManager \<Rightarrow> basePoolManager" where
  "retireJob now job r = r\<lparr>pm_jobs := AList.delete (j_ID job) (pm_jobs r),
     pm_jobTombstones := (pm_jobTombstones r)(j_ID job \<mapsto> now)\<rparr>"

definition reapJobTombstones :: "time \<Rightarrow> basePoolManager \<Rightarrow> basePoolManager" where
  "reapJobTombstones now r = r\<lparr>pm_jobTombstones := (\<lambda>jobID. case pm_jobTombstones r jobID of
     None \<Rightarrow> None
   | Some retiredAt \<Rightarrow> if now - retiredAt > jobTombstoneTTL then None else Some retiredAt)\<rparr>"

definition getQueuedJobs :: "basePoolManager \<Rightarrow> Job list" where
  "getQueuedJobs r = filter (\<lambda>job. j_Status job = JobStatusQueued) (map snd (pm_jobs r))"

text \<open>The job case of \<^verbatim>\<open>handleWatcherEvent\<close>.\<close>

definition handleJobEvent :: "time \<Rightarrow> OperationType \<Rightarrow> Job \<Rightarrow> basePoolManager \<Rightarrow> basePoolManager" where
  "handleJobEvent now operation job r =
     (if \<not> Job_BelongsTo job (pm_entity r) then r
      else if operation \<noteq> DeleteOperation \<and> j_Status job \<noteq> JobStatusCompleted
        then (if jobUpdateIsStale job r then r
              else r\<lparr>pm_jobs := AList.update (j_ID job) job (pm_jobs r)\<rparr>)
      else retireJob now job r)"

text \<open>The payloads that implement \<^verbatim>\<open>entityGetter\<close>; a pool or scale set fills in type and ID only.\<close>

definition zero_Endpoint :: ForgeEndpoint where
  "zero_Endpoint = \<lparr>ep_Name = [], ep_Description = [], ep_APIBaseURL = [], ep_UploadBaseURL = [],
     ep_BaseURL = [], ep_CACertBundle = [], ep_CreatedAt = 0, ep_UpdatedAt = 0, ep_ToolsMetadataURL = [],
     ep_UseInternalToolsMetadata = None, ep_EndpointType = AutoEndpointType\<rparr>"

definition zero_Credentials :: ForgeCredentials where
  "zero_Credentials = \<lparr>c_ID = 0, c_Name = [], c_Description = [], c_APIBaseURL = [], c_UploadBaseURL = [],
     c_BaseURL = [], c_CABundle = [], c_AuthType = [], c_ForgeType = AutoEndpointType,
     c_ReserveUsageEnabled = False, c_ReserveUsagePercentage = 0, c_Endpoint = zero_Endpoint, c_CreatedAt = 0,
     c_UpdatedAt = 0, c_RateLimit = None, c_CredentialsPayload = []\<rparr>"

definition bare_entity :: "ForgeEntityType \<times> string \<Rightarrow> ForgeEntity" where
  "bare_entity tid = \<lparr>e_ID = snd tid, e_Forge = zero_Endpoint, e_Owner = [], e_Name = [],
     e_EntityType = fst tid, e_Credentials = zero_Credentials, e_PoolBalancerType = PoolBalancerTypeNone,
     e_PoolManagerStatus = \<lparr>pms_IsRunning = False, pms_FailureReason = []\<rparr>, e_CreatedAt = 0, e_UpdatedAt = 0,
     e_AgentMode = False, e_WebhookSecret = []\<rparr>"

definition entity_with_id :: "ForgeEntity \<Rightarrow> garm_error + ForgeEntity" where
  "entity_with_id e = (if e_ID e = [] then Inl (OtherError ''entity has no ID'') else Inr e)"

fun payload_GetEntity :: "payload \<Rightarrow> (garm_error + ForgeEntity) option" where
  "payload_GetEntity (RepositoryPayload e) = Some (entity_with_id e)"
| "payload_GetEntity (OrganizationPayload e) = Some (entity_with_id e)"
| "payload_GetEntity (EnterprisePayload e) = Some (entity_with_id e)"
| "payload_GetEntity (ForgeInstancePayload e) = Some (entity_with_id e)"
| "payload_GetEntity (PoolPayload p) = Some (map_sum id bare_entity (Pool_GetEntity p))"
| "payload_GetEntity (ScaleSetPayload s) = Some (map_sum id bare_entity (ScaleSet_GetEntity s))"
| "payload_GetEntity _ = None"

definition handleWatcherEvent :: "time \<Rightarrow> ChangePayload \<Rightarrow> basePoolManager \<Rightarrow> basePoolManager" where
  "handleWatcherEvent now event r =
     (if ev_EntityType event = GithubCredentialsEntityType \<or> ev_EntityType event = GiteaCredentialsEntityType
      then (case ev_Payload event of CredentialsPayload c \<Rightarrow> handleCredentialsUpdate c r | _ \<Rightarrow> r)
      else if ev_EntityType event = ControllerEntityType
      then (case ev_Payload event of ControllerPayload c \<Rightarrow> handleControllerUpdateEvent c r | _ \<Rightarrow> r)
      else if db_entity_string (ev_EntityType event) = forge_entity_string (e_EntityType (pm_entity r))
      then (case payload_GetEntity (ev_Payload event) of
              Some (Inr entityInfo) \<Rightarrow> handleEntityUpdate entityInfo (ev_Operation event) r
            | _ \<Rightarrow> r)
      else if ev_EntityType event = JobEntityType
      then (case ev_Payload event of JobPayload job \<Rightarrow> handleJobEvent now (ev_Operation event) job r | _ \<Rightarrow> r)
      else r)"

text \<open>What \<^verbatim>\<open>runWatcher\<close> loads before it waits for events: the queued jobs of the store; a failed
  listing loads none.\<close>

definition load_jobs :: "Job list \<Rightarrow> basePoolManager \<Rightarrow> basePoolManager" where
  "load_jobs queued r = r\<lparr>pm_jobs := fold (\<lambda>job m. AList.update (j_ID job) job m) queued (pm_jobs r)\<rparr>"

definition runWatcher_init :: "basePoolManager \<Rightarrow> (db, basePoolManager) prog" where
  "runWatcher_init r = m_bind (m_try (ListEntityJobsByStatus (e_EntityType (pm_entity r)) (e_ID (pm_entity r)) JobStatusQueued))
     (\<lambda>res. m_ret (case res of Inl e \<Rightarrow> r | Inr queued \<Rightarrow> load_jobs queued r))"

text \<open>The interleavings of the watcher with the tombstone reaper.\<close>

datatype watcher_act = Deliver time ChangePayload | Reap time

fun run_act :: "watcher_act \<Rightarrow> basePoolManager \<Rightarrow> basePoolManager" where
  "run_act (Deliver now event) r = handleWatcherEvent now event r"
| "run_act (Reap now) r = reapJobTombstones now r"

definition cached_job :: "basePoolManager \<Rightarrow> int \<Rightarrow> Job option" where
  "cached_job r k = map_of (pm_jobs r) k"

definition cache_ok :: "basePoolManager \<Rightarrow> bool" where
  "cache_ok r \<longleftrightarrow> distinct (map fst (pm_jobs r)) \<and>
     (\<forall>k j. cached_job r k = Some j \<longrightarrow> j_ID j = k \<and> pm_jobTombstones r k = None)"

text \<open>The tombstone of a job survives an action: only the reaper removes it, after its time.\<close>

fun keeps_tombstone :: "time \<Rightarrow> watcher_act \<Rightarrow> bool" where
  "keeps_tombstone t (Deliver now event) \<longleftrightarrow> t \<le> now"
| "keeps_tombstone t (Reap now) \<longleftrightarrow> now - t \<le> jobTombstoneTTL"


definition retires :: "OperationType \<times> Job \<Rightarrow> bool" where
  "retires oj \<longleftrightarrow> fst oj = DeleteOperation \<or> j_Status (snd oj) = JobStatusCompleted"

subsection \<open>What the handlers keep\<close>

lemma jobs_frame [simp]:
  "pm_jobs (handleControllerUpdateEvent c r) = pm_jobs r"
  "pm_jobs (handleCredentialsUpdate cr r) = pm_jobs r"
  "pm_jobs (handleEntityUpdate e op r) = pm_jobs r"
  "pm_jobs (reapJobTombstones now r) = pm_jobs r"
  "pm_jobTombstones (handleControllerUpdateEvent c r) = pm_jobTombstones r"
  "pm_jobTombstones (handleCredentialsUpdate cr r) = pm_jobTombstones r"
  "pm_jobTombstones (handleEntityUpdate e op r) = pm_jobTombstones r"
  "pm_entity (handleJobEvent now op j r) = pm_entity r"
  by (simp_all add: handleControllerUpdateEvent_def handleCredentialsUpdate_def handleEntityUpdate_def
      triggerClientUpdate_def reapJobTombstones_def handleJobEvent_def retireJob_def Let_def)

text \<open>Every event is a job event of the entity for the cache, or leaves the cache alone.\<close>

lemma deliver_cases:
  obtains (job) operation job where "handleWatcherEvent now event r = handleJobEvent now operation job r"
  | (other) "pm_jobs (handleWatcherEvent now event r) = pm_jobs r"
      "pm_jobTombstones (handleWatcherEvent now event r) = pm_jobTombstones r"
proof (cases "ev_EntityType event = JobEntityType \<and> (\<exists>job. ev_Payload event = JobPayload job) \<and>
    db_entity_string (ev_EntityType event) \<noteq> forge_entity_string (e_EntityType (pm_entity r))")
  case True
  then obtain j where "ev_EntityType event = JobEntityType" "ev_Payload event = JobPayload j"
    "''job'' \<noteq> forge_entity_string (e_EntityType (pm_entity r))" by auto
  then have "handleWatcherEvent now event r = handleJobEvent now (ev_Operation event) j r"
    by (simp add: handleWatcherEvent_def)
  then show thesis by (rule job)
next
  case False
  then have "pm_jobs (handleWatcherEvent now event r) = pm_jobs r"
      "pm_jobTombstones (handleWatcherEvent now event r) = pm_jobTombstones r"
    unfolding handleWatcherEvent_def by (auto split: payload.split option.split sum.split)
  then show thesis by (rule other)
qed

lemma cached_job_event:
  "cached_job (handleJobEvent now operation job r) k =
    (if \<not> Job_BelongsTo job (pm_entity r) \<or> j_ID job \<noteq> k then cached_job r k
     else if retires (operation, job) then None
     else if jobUpdateIsStale job r then cached_job r k else Some job)"
  by (auto simp: cached_job_def handleJobEvent_def retires_def retireJob_def update_conv delete_conv)

lemma stale_cached:
  "jobUpdateIsStale job r = (case cached_job r (j_ID job) of
     Some recorded \<Rightarrow> j_UpdatedAt job < j_UpdatedAt recorded
   | None \<Rightarrow> pm_jobTombstones r (j_ID job) \<noteq> None)"
  by (auto simp: jobUpdateIsStale_def jobIsRetired_def cached_job_def split: option.splits)

lemma tombstone_event:
  "pm_jobTombstones (handleJobEvent now operation job r) k =
    (if Job_BelongsTo job (pm_entity r) \<and> j_ID job = k \<and> retires (operation, job) then Some now
     else pm_jobTombstones r k)"
  by (auto simp: handleJobEvent_def retires_def retireJob_def)

lemma distinct_event:
  "distinct (map fst (pm_jobs r)) \<Longrightarrow> distinct (map fst (pm_jobs (handleJobEvent now operation job r)))"
  by (simp add: handleJobEvent_def retireJob_def distinct_update distinct_delete)

lemma cache_ok_event:
  assumes "cache_ok r"
  shows "cache_ok (handleJobEvent now operation job r)"
  using assms distinct_event [of r now operation job]
  by (auto simp: cache_ok_def cached_job_event tombstone_event stale_cached
      split: if_splits option.splits)

lemma cache_ok_frame:
  "cache_ok r \<Longrightarrow> pm_jobs r' = pm_jobs r \<Longrightarrow> pm_jobTombstones r' = pm_jobTombstones r \<Longrightarrow> cache_ok r'"
  by (simp add: cache_ok_def cached_job_def)

lemma cache_ok_act:
  assumes "cache_ok r"
  shows "cache_ok (run_act a r)"
proof (cases a)
  case (Deliver now event)
  show ?thesis
  proof (cases rule: deliver_cases [of now event r])
    case (job operation job)
    from cache_ok_event [OF assms, of now operation job] cache_ok_frame job Deliver show ?thesis by simp
  next
    case other
    with assms cache_ok_frame Deliver show ?thesis by simp
  qed
next
  case (Reap now)
  with assms show ?thesis
    by (auto simp: cache_ok_def cached_job_def reapJobTombstones_def)
qed

subsection \<open>Tombstones\<close>

definition buried :: "time \<Rightarrow> int \<Rightarrow> basePoolManager \<Rightarrow> bool" where
  "buried t k r \<longleftrightarrow> cached_job r k = None \<and> (\<exists>t' \<ge> t. pm_jobTombstones r k = Some t')"

lemma buried_event:
  "buried t k r \<Longrightarrow> t \<le> now \<Longrightarrow> buried t k (handleJobEvent now operation job r)"
  by (auto simp: buried_def cached_job_event tombstone_event stale_cached)

lemma buried_act:
  assumes "buried t k r" and "keeps_tombstone t a"
  shows "buried t k (run_act a r)"
proof (cases a)
  case (Deliver now event)
  show ?thesis
  proof (cases rule: deliver_cases [of now event r])
    case (job operation job)
    with buried_event [OF assms(1), of now operation job] assms(2) Deliver show ?thesis
      by (simp add: buried_def cached_job_def)
  next
    case other
    with assms(1) Deliver show ?thesis by (simp add: buried_def cached_job_def)
  qed
next
  case (Reap now)
  with assms show ?thesis by (auto simp: buried_def cached_job_def reapJobTombstones_def)
qed

lemma buried_acts: "buried t k r \<Longrightarrow> \<forall>a \<in> set as. keeps_tombstone t a \<Longrightarrow> buried t k (fold run_act as r)"
  by (induction as arbitrary: r) (simp_all add: buried_act)

text \<open>
  (C14) A job that was retired from the cache does not come back: after a completed or deleted job was
  taken out at time \<open>t\<close>, no sequence of notifications and reaper runs, in any order, puts it back as long
  as the reaper last ran within ten minutes of \<open>t\<close>.
\<close>

theorem retired_job_stays_out:
  assumes "Job_BelongsTo job (pm_entity r)" and "retires (operation, job)"
    and "\<forall>a \<in> set as. keeps_tombstone t a"
  shows "cached_job (fold run_act as (handleJobEvent t operation job r)) (j_ID job) = None"
proof -
  have "buried t (j_ID job) (handleJobEvent t operation job r)"
    using assms(1,2) by (simp add: buried_def cached_job_event tombstone_event)
  from buried_acts [OF this assms(3)] show ?thesis by (simp add: buried_def)
qed

subsection \<open>Delivery order\<close>









subsection \<open>Entity and credentials\<close>

text \<open>
  No notification makes a manager serve another entity: the ID is kept. When the entity ends up
  with other credentials, a rebuild of the forge client is queued and the watcher's filters are those of
  the new entity.
\<close>

theorem watcher_keeps_entity:
  "e_ID (pm_entity (handleWatcherEvent now event r)) = e_ID (pm_entity r) \<and>
   (c_ID (e_Credentials (pm_entity (handleWatcherEvent now event r))) = c_ID (e_Credentials (pm_entity r)) \<or>
    pm_clientUpdateCh (handleWatcherEvent now event r) \<and>
    pm_filters (handleWatcherEvent now event r) = composeWatcherFilters (pm_entity (handleWatcherEvent now event r)))"
  by (simp add: handleWatcherEvent_def handleCredentialsUpdate_def handleControllerUpdateEvent_def handleEntityUpdate_def
      triggerClientUpdate_def Let_def split: payload.splits option.splits sum.splits)

text \<open>
  The manager of a forge instance never takes over an update of its entity: the entity type of a
  forge instance is the string \<^verbatim>\<open>instance\<close>, the store's notifications say \<^verbatim>\<open>forge_instance\<close>.
\<close>

theorem forge_instance_updates_ignored:
  assumes "e_EntityType (pm_entity r) = ForgeEntityTypeInstance" and "ev_EntityType event = ForgeInstanceEntityType"
  shows "handleWatcherEvent now event r = r"
  using assms by (simp add: handleWatcherEvent_def)

subsection \<open>Concrete runs\<close>

definition ex_controller :: ControllerInfo where
  "ex_controller = \<lparr>ci_ControllerID = 77, ci_MetadataURL = ''https://garm/metadata'', ci_CallbackURL = ''https://garm/callback'',
     ci_WebhookURL = ''https://garm/webhooks'', ci_ControllerWebhookURL = ''https://garm/webhooks/77'',
     ci_MinimumJobAgeBackoff = 30, ci_CACertBundle = [],
     ci_AgentURL = ''https://garm'', ci_GARMAgentReleasesURL = ''https://releases'', ci_SyncGARMAgentTools = False, ci_GARMAgentVersion = [],
     ci_AllowInsecureGARMAgent = False, ci_CachedGARMAgentReleases = [], ci_CachedGARMAgentReleaseFetchedAt = None\<rparr>"

definition ex_manager :: basePoolManager where
  "ex_manager = \<lparr>pm_consumerID = ''pool-manager'', pm_entity = ex_forge_entity, pm_controllerInfo = ex_controller,
     pm_jobs = [], pm_jobTombstones = Map.empty, pm_checkedJobs = Map.empty, pm_tools = [], pm_scaleSetClient = False,
     pm_stubClient = False, pm_clientUpdateCh = False, pm_consumeJobsCh = False, pm_addPendingCh = False,
     pm_managerIsRunning = True, pm_managerErrorReason = [], pm_consumerClosed = False,
     pm_filters = composeWatcherFilters ex_forge_entity\<rparr>"

definition ex_Job :: "string \<Rightarrow> time \<Rightarrow> Job" where
  "ex_Job status t = (sqlWorkflowJobToParamsJob ex_job None)\<lparr>j_Status := status, j_UpdatedAt := t\<rparr>"

lemma ex_Job_simps [simp]:
  "j_ID (ex_Job status t) = 1" "j_Status (ex_Job status t) = status" "j_UpdatedAt (ex_Job status t) = t"
  "Job_BelongsTo (ex_Job status t) ex_forge_entity" "pm_entity ex_manager = ex_forge_entity"
  "cached_job ex_manager k = None" "pm_jobTombstones ex_manager k = None"
  by (simp_all add: ex_Job_def sqlWorkflowJobToParamsJob_def ex_job_def Job_BelongsTo_def ex_forge_entity_def
      ex_manager_def cached_job_def)

theorem retired_job_stays_out_witness:
  "cached_job (fold run_act [Deliver 120 \<lparr>ev_EntityType = JobEntityType, ev_Operation = UpdateOperation,
      ev_Payload = JobPayload (ex_Job ''queued'' 90)\<rparr>, Reap 130]
    (handleJobEvent 100 UpdateOperation (ex_Job ''completed'' 100) ex_manager)) 1 = None"
  using retired_job_stays_out [of "ex_Job ''completed'' 100" ex_manager UpdateOperation
      "[Deliver 120 \<lparr>ev_EntityType = JobEntityType, ev_Operation = UpdateOperation,
      ev_Payload = JobPayload (ex_Job ''queued'' 90)\<rparr>, Reap 130]" 100]
  by (simp add: retires_def jobTombstoneTTL_def minute_def second_def)


theorem forge_instance_updates_ignored_witness:
  "handleWatcherEvent 0 \<lparr>ev_EntityType = ForgeInstanceEntityType, ev_Operation = UpdateOperation,
      ev_Payload = ForgeInstancePayload (ex_forge_entity\<lparr>e_EntityType := ForgeEntityTypeInstance, e_Owner := ''new''\<rparr>)\<rparr>
    (ex_manager\<lparr>pm_entity := ex_forge_entity\<lparr>e_EntityType := ForgeEntityTypeInstance\<rparr>\<rparr>) =
   ex_manager\<lparr>pm_entity := ex_forge_entity\<lparr>e_EntityType := ForgeEntityTypeInstance\<rparr>\<rparr>"
  by (rule forge_instance_updates_ignored) simp_all

end
