(* ===== verification/Garm_Locking.thy ===== *)
theory Garm_Locking
  imports Garm_Status
begin

text \<open>
  Package \<^verbatim>\<open>locking\<close>: the per-key lock the loops use to keep two goroutines off the same runner
  (\<^verbatim>\<open>keyMutex\<close>, the only implementation of interface \<^verbatim>\<open>Locker\<close>), the process wide registry in front
  of it, and the back-off that spaces out failed deletions (interface \<^verbatim>\<open>InstanceDeleteBackoff\<close>).
  Each interface is a locale; its interpretation discharges the laws for the Go implementation.

  A call is one atomic step on the \<^verbatim>\<open>sync.Map\<close>. Inside \<^verbatim>\<open>Unlock\<close> the Go code first loads and then
  deletes the entry; a goroutine that loaded the same entry in between keeps a mutex that is no
  longer in the map. That window is below the granularity of the model.
\<close>

subsection \<open>The interface Locker\<close>

datatype lock_cmd = AcquireCmd string string | ReleaseCmd string bool

text \<open>A sequence of calls by any number of goroutines.\<close>

fun lock_run :: "(string \<Rightarrow> string \<Rightarrow> 's \<Rightarrow> bool \<times> 's) \<Rightarrow> (string \<Rightarrow> bool \<Rightarrow> 's \<Rightarrow> 's) \<Rightarrow> lock_cmd list \<Rightarrow> 's \<Rightarrow> 's" where
  "lock_run trylock unlock [] s = s"
| "lock_run trylock unlock (AcquireCmd k i # cs) s = lock_run trylock unlock cs (snd (trylock k i s))"
| "lock_run trylock unlock (ReleaseCmd k r # cs) s = lock_run trylock unlock cs (unlock k r s)"

fun lock_answers :: "(string \<Rightarrow> string \<Rightarrow> 's \<Rightarrow> bool \<times> 's) \<Rightarrow> (string \<Rightarrow> bool \<Rightarrow> 's \<Rightarrow> 's) \<Rightarrow> lock_cmd list \<Rightarrow> 's \<Rightarrow> bool list" where
  "lock_answers trylock unlock [] s = []"
| "lock_answers trylock unlock (AcquireCmd k i # cs) s = fst (trylock k i s) # lock_answers trylock unlock cs (snd (trylock k i s))"
| "lock_answers trylock unlock (ReleaseCmd k r # cs) s = lock_answers trylock unlock cs (unlock k r s)"

text \<open>The specification of a lock table is the set of the held keys: the answers to the acquisitions, and the keys
  held at the end.\<close>

fun key_set_run :: "lock_cmd list \<Rightarrow> string set \<Rightarrow> bool list \<times> string set" where
  "key_set_run [] keys = ([], keys)"
| "key_set_run (AcquireCmd k i # cs) keys = (case key_set_run cs (insert k keys) of (oks, keys') \<Rightarrow> ((k \<notin> keys) # oks, keys'))"
| "key_set_run (ReleaseCmd k r # cs) keys = key_set_run cs (keys - {k})"

locale locker =
  fixes invar :: "'s \<Rightarrow> bool"
    and held :: "'s \<Rightarrow> string \<Rightarrow> bool"
    and trylock :: "string \<Rightarrow> string \<Rightarrow> 's \<Rightarrow> bool \<times> 's"
    and unlock :: "string \<Rightarrow> bool \<Rightarrow> 's \<Rightarrow> 's"
  assumes trylock_result: "invar s \<Longrightarrow> fst (trylock k i s) \<longleftrightarrow> \<not> held s k"
    and trylock_held: "invar s \<Longrightarrow> held (snd (trylock k i s)) k' \<longleftrightarrow> held s k' \<or> k' = k"
    and unlock_held: "invar s \<Longrightarrow> held (unlock k r s) k' \<longleftrightarrow> held s k' \<and> k' \<noteq> k"
    and trylock_invar: "invar s \<Longrightarrow> invar (snd (trylock k i s))"
    and unlock_invar: "invar s \<Longrightarrow> invar (unlock k r s)"
begin

lemma lock_run_invar: "invar s \<Longrightarrow> invar (lock_run trylock unlock cs s)"
proof (induction cs arbitrary: s)
  case (Cons c cs)
  then show ?case by (cases c) (simp_all add: trylock_invar unlock_invar)
qed simp

lemma refines_key_set:
  "invar s \<Longrightarrow> lock_answers trylock unlock cs s = fst (key_set_run cs {k. held s k}) \<and>
     {k. held (lock_run trylock unlock cs s) k} = snd (key_set_run cs {k. held s k})"
proof (induction cs arbitrary: s)
  case (Cons c cs)
  show ?case
  proof (cases c)
    case (AcquireCmd k i)
    have "{k'. held (snd (trylock k i s)) k'} = insert k {k. held s k}"
      using trylock_held [OF Cons.prems] by auto
    with Cons.IH [OF trylock_invar [OF Cons.prems], of k i] AcquireCmd show ?thesis
      by (simp add: trylock_result [OF Cons.prems] split: prod.splits)
  next
    case (ReleaseCmd k r)
    have "{k'. held (unlock k r s) k'} = {k. held s k} - {k}"
      using unlock_held [OF Cons.prems] by auto
    with Cons.IH [OF unlock_invar [OF Cons.prems], of k r] ReleaseCmd show ?thesis by simp
  qed
qed simp

lemma held_until_release:
  "invar s \<Longrightarrow> held s k \<Longrightarrow> \<forall>r. ReleaseCmd k r \<notin> set cs \<Longrightarrow> held (lock_run trylock unlock cs s) k"
proof (induction cs arbitrary: s)
  case (Cons c cs)
  then show ?case by (cases c) (auto simp: trylock_held unlock_held trylock_invar unlock_invar)
qed simp

lemma second_acquire_needs_release:
  assumes "invar s"
    and "fst (trylock k j (lock_run trylock unlock cs (snd (trylock k i s))))"
  shows "\<exists>r. ReleaseCmd k r \<in> set cs"
proof (rule ccontr)
  assume "\<not> ?thesis"
  then have "held (lock_run trylock unlock cs (snd (trylock k i s))) k"
    using assms(1) by (intro held_until_release) (auto simp: trylock_invar trylock_held)
  with assms show False
    by (simp add: trylock_result trylock_invar lock_run_invar)
qed

end

subsection \<open>keyMutex\<close>

record lockWithIdent =
  l_mux :: bool
  l_ident :: string
  l_isLocked :: bool

type_synonym keyMutex = "string \<rightharpoonup> lockWithIdent"

definition new_lock :: lockWithIdent where
  "new_lock = \<lparr>l_mux = False, l_ident = [], l_isLocked = False\<rparr>"

definition keyMutex_TryLock :: "string \<Rightarrow> string \<Rightarrow> keyMutex \<Rightarrow> bool \<times> keyMutex" where
  "keyMutex_TryLock key identifier m =
     (let keyMux = (case m key of None \<Rightarrow> new_lock | Some l \<Rightarrow> l) in
      if l_mux keyMux then (False, m(key \<mapsto> keyMux))
      else (True, m(key \<mapsto> keyMux\<lparr>l_mux := True, l_ident := identifier, l_isLocked := True\<rparr>)))"

text \<open>\<^verbatim>\<open>Lock\<close> blocks while another holder has the key: \<open>None\<close> is "still waiting".\<close>

definition keyMutex_Lock :: "string \<Rightarrow> string \<Rightarrow> keyMutex \<Rightarrow> keyMutex option" where
  "keyMutex_Lock key identifier m =
     (case keyMutex_TryLock key identifier m of (True, m') \<Rightarrow> Some m' | (False, _) \<Rightarrow> None)"

definition keyMutex_Delete :: "string \<Rightarrow> keyMutex \<Rightarrow> keyMutex" where
  "keyMutex_Delete key m = m(key := None)"

definition keyMutex_Unlock :: "string \<Rightarrow> bool \<Rightarrow> keyMutex \<Rightarrow> keyMutex" where
  "keyMutex_Unlock key remove m = (case m key of
     None \<Rightarrow> m
   | Some l \<Rightarrow>
       let l1 = l\<lparr>l_ident := []\<rparr>;
           l2 = (if l_isLocked l1 then l1\<lparr>l_isLocked := False, l_mux := False\<rparr> else l1);
           m' = m(key \<mapsto> l2)
       in if remove then keyMutex_Delete key m' else m')"

definition keyMutex_LockedBy :: "string \<Rightarrow> keyMutex \<Rightarrow> string \<times> bool" where
  "keyMutex_LockedBy key m = (case m key of
     None \<Rightarrow> ([], False)
   | Some l \<Rightarrow> if l_ident l = [] then ([], False) else (l_ident l, True))"

text \<open>
  \<^verbatim>\<open>LockWithContext\<close> polls once a second. Between two polls other goroutines act on the map: one
  function per tick stands for what they did, and the context is cancelled after the last one.
\<close>

fun keyMutex_LockWithContext ::
    "(keyMutex \<Rightarrow> keyMutex) list \<Rightarrow> string \<Rightarrow> string \<Rightarrow> keyMutex \<Rightarrow> garm_error option \<times> keyMutex" where
  "keyMutex_LockWithContext ticks key identifier m =
     (case keyMutex_TryLock key identifier m of
        (True, m') \<Rightarrow> (None, m')
      | (False, m') \<Rightarrow> (case ticks of
            [] \<Rightarrow> (Some (OtherError ''context canceled''), m')
          | f # fs \<Rightarrow> keyMutex_LockWithContext fs key identifier (f m')))"

declare keyMutex_LockWithContext.simps [simp del]

definition keyMutex_held :: "keyMutex \<Rightarrow> string \<Rightarrow> bool" where
  "keyMutex_held m key \<longleftrightarrow> (case m key of None \<Rightarrow> False | Some l \<Rightarrow> l_mux l)"

definition keyMutex_invar :: "keyMutex \<Rightarrow> bool" where
  "keyMutex_invar m \<longleftrightarrow> (\<forall>k l. m k = Some l \<longrightarrow> l_isLocked l = l_mux l)"

interpretation km: locker keyMutex_invar keyMutex_held keyMutex_TryLock keyMutex_Unlock
proof unfold_locales
  fix s k i k' r
  assume inv: "keyMutex_invar s"
  show "fst (keyMutex_TryLock k i s) \<longleftrightarrow> \<not> keyMutex_held s k"
    by (simp add: keyMutex_TryLock_def keyMutex_held_def new_lock_def Let_def split: option.splits)
  show "keyMutex_held (snd (keyMutex_TryLock k i s)) k' \<longleftrightarrow> keyMutex_held s k' \<or> k' = k"
    by (auto simp: keyMutex_TryLock_def keyMutex_held_def new_lock_def Let_def split: option.splits)
  show "keyMutex_held (keyMutex_Unlock k r s) k' \<longleftrightarrow> keyMutex_held s k' \<and> k' \<noteq> k"
    using inv
    by (auto simp: keyMutex_Unlock_def keyMutex_held_def keyMutex_Delete_def keyMutex_invar_def Let_def
        split: option.splits)
  show "keyMutex_invar (snd (keyMutex_TryLock k i s))"
    using inv by (auto simp: keyMutex_TryLock_def keyMutex_invar_def new_lock_def Let_def
        split: option.splits if_splits)
  show "keyMutex_invar (keyMutex_Unlock k r s)"
    using inv by (auto simp: keyMutex_Unlock_def keyMutex_invar_def keyMutex_Delete_def Let_def
        split: option.splits if_splits)
qed

lemma keyMutex_invar_empty [simp]: "keyMutex_invar Map.empty"
  by (simp add: keyMutex_invar_def)

lemmas keyMutex_laws =
  km.trylock_result km.trylock_held km.unlock_held km.trylock_invar km.unlock_invar

lemma keyMutex_TryLock_owner:
  "keyMutex_TryLock k i m = (True, m') \<Longrightarrow> i \<noteq> [] \<Longrightarrow> keyMutex_LockedBy k m' = (i, True)"
  by (auto simp: keyMutex_TryLock_def keyMutex_LockedBy_def Let_def split: if_splits)

lemma keyMutex_TryLock_failed_keeps:
  "keyMutex_TryLock k i m = (False, m') \<Longrightarrow> m' = m"
  by (auto simp: keyMutex_TryLock_def new_lock_def Let_def split: option.splits if_splits)

lemma keyMutex_LockWithContext_ok:
  "keyMutex_LockWithContext fs k i m = (None, m') \<Longrightarrow>
   keyMutex_invar m \<Longrightarrow> (\<And>f x. f \<in> set fs \<Longrightarrow> keyMutex_invar x \<Longrightarrow> keyMutex_invar (f x)) \<Longrightarrow>
   keyMutex_held m' k"
proof (induction fs k i m rule: keyMutex_LockWithContext.induct)
  case (1 fs k i m)
  show ?case
  proof (cases "keyMutex_TryLock k i m")
    case (Pair ok m1)
    have inv1: "keyMutex_invar m1" "ok \<Longrightarrow> keyMutex_held m1 k"
      using km.trylock_invar [OF "1.prems"(2), of k i] km.trylock_held [OF "1.prems"(2), of k i k] Pair
      by auto
    show ?thesis
    proof (cases ok)
      case True
      with Pair "1.prems"(1) inv1 show ?thesis
        by (simp add: keyMutex_LockWithContext.simps [of fs])
    next
      case False
      with Pair "1.prems"(1) obtain f gs where fs: "fs = f # gs"
        and rest: "keyMutex_LockWithContext gs k i (f m1) = (None, m')"
        by (auto simp: keyMutex_LockWithContext.simps [of fs] split: list.splits)
      have "keyMutex_invar (f m1)" "\<And>g x. g \<in> set gs \<Longrightarrow> keyMutex_invar x \<Longrightarrow> keyMutex_invar (g x)"
        using "1.prems"(3) inv1(1) fs by auto
      with False Pair fs rest show ?thesis
        by (metis "1.IH")
    qed
  qed
qed

subsection \<open>The registry\<close>

text \<open>
  The package level functions panic (\<open>None\<close>) while no locker is registered and delegate otherwise.
\<close>

type_synonym locker_registry = "keyMutex option"

definition RegisterLocker :: "keyMutex \<Rightarrow> locker_registry \<Rightarrow> garm_error option \<times> locker_registry" where
  "RegisterLocker lock reg = (case reg of
     Some l \<Rightarrow> (Some (OtherError ''locker already registered''), reg)
   | None \<Rightarrow> (None, Some lock))"

definition locking_TryLock :: "string \<Rightarrow> string \<Rightarrow> locker_registry \<Rightarrow> (bool \<times> locker_registry) option" where
  "locking_TryLock key identifier reg = (case reg of None \<Rightarrow> None
     | Some m \<Rightarrow> (case keyMutex_TryLock key identifier m of (ok, m') \<Rightarrow> Some (ok, Some m')))"

definition locking_Unlock :: "string \<Rightarrow> bool \<Rightarrow> locker_registry \<Rightarrow> locker_registry option" where
  "locking_Unlock key remove reg = (case reg of None \<Rightarrow> None
     | Some m \<Rightarrow> Some (Some (keyMutex_Unlock key remove m)))"

definition locking_LockedBy :: "string \<Rightarrow> locker_registry \<Rightarrow> (string \<times> bool) option" where
  "locking_LockedBy key reg = map_option (keyMutex_LockedBy key) reg"

definition locking_Delete :: "string \<Rightarrow> locker_registry \<Rightarrow> locker_registry option" where
  "locking_Delete key reg = (case reg of None \<Rightarrow> None | Some m \<Rightarrow> Some (Some (keyMutex_Delete key m)))"

subsection \<open>The interface InstanceDeleteBackoff\<close>

locale delete_backoff =
  fixes invar :: "'s \<Rightarrow> bool"
    and deadline :: "'s \<Rightarrow> string \<Rightarrow> time option"
    and should :: "string \<Rightarrow> time \<Rightarrow> 's \<Rightarrow> (bool \<times> time) \<times> 's"
    and forget :: "string \<Rightarrow> 's \<Rightarrow> 's"
    and failed :: "string \<Rightarrow> time \<Rightarrow> 's \<Rightarrow> 's"
    and min_wait :: duration
    and max_wait :: duration
  assumes should_result: "invar s \<Longrightarrow> fst (fst (should k now s)) \<longleftrightarrow>
      (case deadline s k of None \<Rightarrow> True | Some d \<Rightarrow> d < now)"
    and should_keeps: "invar s \<Longrightarrow> deadline (snd (should k now s)) = deadline s"
    and forget_deadline: "invar s \<Longrightarrow> deadline (forget k s) = (deadline s)(k := None)"
    and failed_deadline: "invar s \<Longrightarrow> 0 < now \<Longrightarrow> \<exists>d. deadline (failed k now s) = (deadline s)(k \<mapsto> d) \<and>
      now + min_wait \<le> d \<and> d \<le> now + max_wait"
    and should_invar: "invar s \<Longrightarrow> invar (snd (should k now s))"
    and forget_invar: "invar s \<Longrightarrow> invar (forget k s)"
    and failed_invar: "invar s \<Longrightarrow> 0 < now \<Longrightarrow> invar (failed k now s)"
begin

lemma refused_after_failure:
  assumes "invar s" "0 < t" "now \<le> t + min_wait"
  shows "\<not> fst (fst (should k now (failed k t s)))"
proof -
  obtain d where "deadline (failed k t s) = (deadline s)(k \<mapsto> d)" "t + min_wait \<le> d"
    using failed_deadline [OF assms(1,2)] by blast
  with assms show ?thesis by (simp add: should_result failed_invar)
qed

lemma allowed_after_max_wait:
  assumes "invar s" "0 < t" "t + max_wait < now"
  shows "fst (fst (should k now (failed k t s)))"
proof -
  obtain d where "deadline (failed k t s) = (deadline s)(k \<mapsto> d)" "d \<le> t + max_wait"
    using failed_deadline [OF assms(1,2)] by blast
  with assms show ?thesis by (simp add: should_result failed_invar)
qed

lemma allowed_after_forget: "invar s \<Longrightarrow> fst (fst (should k now (forget k s)))"
  by (simp add: should_result forget_deadline forget_invar)

end

subsection \<open>instanceDeleteBackoff\<close>

text \<open>
  \<^verbatim>\<open>backoffSeconds\<close> is a \<^verbatim>\<open>float64\<close> that takes the values 5, 7.5, 11.25, \<dots> and 1200. All of them are
  dyadic fractions with fewer than 53 significant bits, so rational arithmetic is exact here.
\<close>

record instanceBackOff =
  b_backoffSeconds :: rat
  b_lastRecordedFailureTime :: time

type_synonym instanceDeleteBackoff = "string \<rightharpoonup> instanceBackOff"

definition maxBackoffSeconds :: rat where "maxBackoffSeconds = 1200"

definition new_backoff :: instanceBackOff where
  "new_backoff = \<lparr>b_backoffSeconds = 0, b_lastRecordedFailureTime = 0\<rparr>"

definition PoolConsilitationSeconds :: rat where "PoolConsilitationSeconds = 5"

definition backoff_deadline :: "instanceBackOff \<Rightarrow> time" where
  "backoff_deadline ib = b_lastRecordedFailureTime ib + \<lfloor>b_backoffSeconds ib\<rfloor> * second"

definition backoff_ShouldProcess ::
    "string \<Rightarrow> time \<Rightarrow> instanceDeleteBackoff \<Rightarrow> (bool \<times> time) \<times> instanceDeleteBackoff" where
  "backoff_ShouldProcess key now m = (case m key of
     None \<Rightarrow> ((True, 0), m(key \<mapsto> new_backoff))
   | Some ib \<Rightarrow>
       if b_lastRecordedFailureTime ib = 0 \<or> b_backoffSeconds ib = 0 then ((True, 0), m)
       else ((backoff_deadline ib < now, backoff_deadline ib), m))"

definition backoff_Delete :: "string \<Rightarrow> instanceDeleteBackoff \<Rightarrow> instanceDeleteBackoff" where
  "backoff_Delete key m = m(key := None)"

definition backoff_RecordFailure ::
    "string \<Rightarrow> time \<Rightarrow> instanceDeleteBackoff \<Rightarrow> instanceDeleteBackoff" where
  "backoff_RecordFailure key now m =
     (let ib = (case m key of None \<Rightarrow> new_backoff | Some b \<Rightarrow> b) in
      m(key \<mapsto> ib\<lparr>b_lastRecordedFailureTime := now,
        b_backoffSeconds := (if b_backoffSeconds ib = 0 then PoolConsilitationSeconds
           else min (b_backoffSeconds ib * 3 / 2) maxBackoffSeconds)\<rparr>))"

definition backoff_view :: "instanceDeleteBackoff \<Rightarrow> string \<Rightarrow> time option" where
  "backoff_view m key = (case m key of
     None \<Rightarrow> None
   | Some ib \<Rightarrow> if b_lastRecordedFailureTime ib = 0 \<or> b_backoffSeconds ib = 0 then None
       else Some (backoff_deadline ib))"

definition backoff_invar :: "instanceDeleteBackoff \<Rightarrow> bool" where
  "backoff_invar m \<longleftrightarrow> (\<forall>k ib. m k = Some ib \<longrightarrow>
     b_backoffSeconds ib = 0 \<or> (5 \<le> b_backoffSeconds ib \<and> b_backoffSeconds ib \<le> 1200))"

lemma backoff_next_range:
  fixes r :: rat
  assumes "r = 0 \<or> 5 \<le> r \<and> r \<le> 1200"
  defines "n \<equiv> (if r = 0 then PoolConsilitationSeconds else min (r * 3 / 2) maxBackoffSeconds)"
  shows "5 \<le> n" "n \<le> 1200"
  using assms unfolding n_def by (auto simp: PoolConsilitationSeconds_def maxBackoffSeconds_def)

lemma floor_seconds_range:
  fixes r :: rat
  assumes "5 \<le> r" "r \<le> 1200"
  shows "5 * second \<le> \<lfloor>r\<rfloor> * second" "\<lfloor>r\<rfloor> * second \<le> 1200 * second"
  using assms unit_durations(1) by (auto simp: le_floor_iff floor_le_iff)

interpretation db: delete_backoff backoff_invar backoff_view backoff_ShouldProcess backoff_Delete
  backoff_RecordFailure "5 * second" "1200 * second"
proof unfold_locales
  fix s k now
  assume inv: "backoff_invar s"
  show "fst (fst (backoff_ShouldProcess k now s)) \<longleftrightarrow>
      (case backoff_view s k of None \<Rightarrow> True | Some d \<Rightarrow> d < now)"
    by (auto simp: backoff_ShouldProcess_def backoff_view_def split: option.splits)
  show "backoff_view (snd (backoff_ShouldProcess k now s)) = backoff_view s"
    by (auto simp: backoff_ShouldProcess_def backoff_view_def new_backoff_def split: option.splits)
  show "backoff_view (backoff_Delete k s) = (backoff_view s)(k := None)"
    by (auto simp: backoff_Delete_def backoff_view_def)
  show "backoff_invar (snd (backoff_ShouldProcess k now s))"
    using inv by (auto simp: backoff_invar_def backoff_ShouldProcess_def new_backoff_def
        split: option.splits if_splits)
  show "backoff_invar (backoff_Delete k s)"
    using inv by (auto simp: backoff_invar_def backoff_Delete_def)
next
  fix s k and now :: time
  assume inv: "backoff_invar s" and now: "0 < now"
  define ib where "ib = (case s k of None \<Rightarrow> new_backoff | Some b \<Rightarrow> b)"
  define n where "n = (if b_backoffSeconds ib = 0 then PoolConsilitationSeconds
      else min (b_backoffSeconds ib * 3 / 2) maxBackoffSeconds)"
  have old: "b_backoffSeconds ib = 0 \<or> 5 \<le> b_backoffSeconds ib \<and> b_backoffSeconds ib \<le> 1200"
    using inv by (auto simp: ib_def backoff_invar_def new_backoff_def split: option.splits)
  have range: "5 \<le> n" "n \<le> 1200"
    unfolding n_def using backoff_next_range [OF old] by auto
  have rec: "backoff_RecordFailure k now s =
      s(k \<mapsto> ib\<lparr>b_lastRecordedFailureTime := now, b_backoffSeconds := n\<rparr>)"
    by (simp add: backoff_RecordFailure_def ib_def n_def Let_def)
  have "backoff_view (backoff_RecordFailure k now s) = (backoff_view s)(k \<mapsto> now + \<lfloor>n\<rfloor> * second)"
    unfolding rec using range now by (auto simp: backoff_view_def backoff_deadline_def fun_eq_iff)
  with floor_seconds_range [OF range]
  show "\<exists>d. backoff_view (backoff_RecordFailure k now s) = (backoff_view s)(k \<mapsto> d) \<and>
      now + 5 * second \<le> d \<and> d \<le> now + 1200 * second" by auto
  show "backoff_invar (backoff_RecordFailure k now s)"
    unfolding rec using inv range by (auto simp: backoff_invar_def)
qed

lemma backoff_invar_empty [simp]: "backoff_invar Map.empty"
  by (simp add: backoff_invar_def)

end
