(* ===== verification/Garm_Manager.thy ===== *)
theory Garm_Manager
  imports Garm_Watcher Garm_Locking
begin

text \<open>
  The system around a pool manager, and the manager's helpers (\<^verbatim>\<open>runner/pool/pool.go\<close>,
  \<^verbatim>\<open>runner/pool/util.go\<close>): labels, status changes, the rate limit tiers and the lists of runners.

  The state \<open>sys\<close> holds the store, the manager, the process wide lock table, the delete back-off,
  what the in-memory cache answers for the manager's entity, the recorded life cycle events, and an
  abstract world of type \<open>'w\<close>: the forge and the compute providers. Everything outside the
  repository (the forge client, the provider plugins, token signing, PEM and JSON parsing) is a
  function of the record \<open>env\<close> on that world and may fail in any way; the theorems hold for every
  \<open>env\<close>.

  A goroutine that is started and waited for, or only started, runs to its end when it is started:
  \<^verbatim>\<open>errgroup\<close> keeps the first error. A deferred unlock runs when the function returns. The length of the
  random delay before a deletion and the sleep between the runs of a loop are not modelled; that a stopped manager cuts
  the delay short is.
\<close>

subsection \<open>Forge and provider\<close>

record RunnerLabels =
  lb_ID :: int
  lb_Name :: string
  lb_Type :: string

record forgeRunner =
  fr_ID :: int
  fr_Name :: string
  fr_Status :: string
  fr_Labels :: "RunnerLabels list"

record ProviderInstance =
  pri_ProviderID :: string
  pri_Name :: string
  pri_OSName :: string
  pri_OSVersion :: string
  pri_Addresses :: "Address list"
  pri_Status :: InstanceStatus
  pri_ProviderFault :: string

record ProviderBaseParams =
  pbp_PoolInfo :: Pool
  pbp_ControllerInfo :: ControllerInfo
  pbp_EntityType :: ForgeEntityType
  pbp_EntityID :: string

record BootstrapInstance =
  bi_Name :: string
  bi_Tools :: "string list"
  bi_RepoURL :: string
  bi_MetadataURL :: string
  bi_CallbackURL :: string
  bi_InstanceToken :: string
  bi_OSArch :: string
  bi_OSType :: string
  bi_Flavor :: string
  bi_Image :: string
  bi_ExtraSpecs :: string
  bi_PoolID :: string
  bi_CACertBundle :: string
  bi_GitHubRunnerGroup :: string
  bi_JitConfigEnabled :: bool
  bi_ProxyConfig :: "string option"
  bi_Labels :: "string list"

text \<open>The forge returns an error with the status code of the response, if there was one.\<close>

type_synonym ('w, 'a) gh_call = "'w \<Rightarrow> ((garm_error \<times> nat option) + 'a) \<times> 'w"

record 'w provider =
  prov_DisableJITConfig :: bool
  prov_CreateInstance :: "BootstrapInstance \<Rightarrow> ProviderBaseParams \<Rightarrow> ('w, ProviderInstance) prog"
  prov_DeleteInstance :: "string \<Rightarrow> ProviderBaseParams \<Rightarrow> ('w, unit) prog"
  prov_ListInstances :: "string \<Rightarrow> ProviderBaseParams \<Rightarrow> ('w, ProviderInstance list) prog"
  prov_Start :: "string \<Rightarrow> ProviderBaseParams \<Rightarrow> ('w, unit) prog"

record 'w env =
  env_Client :: "ForgeEntity \<Rightarrow> ('w, unit) prog"
  env_ListEntityRunners :: "int \<Rightarrow> ('w, forgeRunner list \<times> int) gh_call"
  env_ListAllRunners :: "('w, (int \<times> forgeRunner) list) prog"
  env_RemoveEntityRunner :: "int \<Rightarrow> ('w, unit) prog"
  env_GetEntityJITConfig :: "string \<Rightarrow> Pool \<Rightarrow> string list \<Rightarrow> ('w, (string \<times> string) list \<times> int) prog"
  env_GetWorkflowJobByID :: "string \<Rightarrow> string \<Rightarrow> int \<Rightarrow> ('w, string) gh_call"
  env_providers :: "string \<Rightarrow> 'w provider option"
  env_NewID :: "'w \<Rightarrow> string \<times> 'w"
  env_NewInstanceJWTToken :: "Instance \<Rightarrow> ForgeEntity \<Rightarrow> nat \<Rightarrow> ('w, string) prog"
  env_HasInstallTemplate :: "string \<Rightarrow> garm_error + bool"
  env_CombineBundles :: "string \<Rightarrow> string \<Rightarrow> garm_error + string"
  env_AddWrapper :: "BootstrapInstance \<Rightarrow> BootstrapInstance"
  env_error_text :: "garm_error \<Rightarrow> string"
  env_max_pages :: nat

subsection \<open>The state\<close>

text \<open>What package \<^verbatim>\<open>cache\<close> returns for the entity: tools, pools, scale sets, the number of instances,
  the credentials and the proxies.\<close>

record cacheView =
  cv_tools :: "garm_error + string list"
  cv_pools :: "Pool list"
  cv_scalesets :: "ScaleSet list"
  cv_instances :: nat
  cv_credentials :: "ForgeCredentials option"
  cv_proxies :: "nat \<rightharpoonup> string"

text \<open>\<open>sy_quit\<close>: the manager's \<^verbatim>\<open>quit\<close> channel is closed.\<close>

record 'w sys =
  sy_db :: db
  sy_mgr :: basePoolManager
  sy_locks :: keyMutex
  sy_backoff :: instanceDeleteBackoff
  sy_cache :: cacheView
  sy_lifecycle :: "(string \<times> string) list"
  sy_quit :: bool
  sy_world :: 'w

definition on_db :: "(db, 'a) prog \<Rightarrow> ('w sys, 'a) prog" where
  "on_db = m_lift sy_db (\<lambda>d s. s\<lparr>sy_db := d\<rparr>)"

definition on_world :: "('w, 'a) prog \<Rightarrow> ('w sys, 'a) prog" where
  "on_world = m_lift sy_world (\<lambda>w s. s\<lparr>sy_world := w\<rparr>)"

definition on_mgr :: "(basePoolManager \<Rightarrow> basePoolManager) \<Rightarrow> ('w sys, unit) prog" where
  "on_mgr f = m_modify (\<lambda>s. s\<lparr>sy_mgr := f (sy_mgr s)\<rparr>)"

definition get_mgr :: "(basePoolManager \<Rightarrow> 'a) \<Rightarrow> ('w sys, 'a) prog" where
  "get_mgr f = m_get (\<lambda>s. f (sy_mgr s))"

definition time_now :: "('w sys, time) prog" where
  "time_now = m_get (\<lambda>s. db_clock (sy_db s))"

text \<open>A call through \<^verbatim>\<open>r.ghcli\<close>: after a failed client rebuild it is the stub, whose every method returns
  an unauthorized error.\<close>

definition ghcli :: "('w, 'a) prog \<Rightarrow> ('w sys, 'a) prog" where
  "ghcli m = m_bind (get_mgr pm_stubClient) (\<lambda>stub. if stub then m_throw UnauthorizedError else on_world m)"

definition ghcall :: "('w, 'a) gh_call \<Rightarrow> ('w sys, (garm_error \<times> nat option) + 'a) prog" where
  "ghcall m = m_bind (get_mgr pm_stubClient) (\<lambda>stub. if stub then m_ret (Inl (UnauthorizedError, None))
     else (\<lambda>s. case m (sy_world s) of (r, w) \<Rightarrow> (Inr r, s\<lparr>sy_world := w\<rparr>)))"

subsection \<open>Locks\<close>

definition try_lock :: "string \<Rightarrow> ('w sys, bool) prog" where
  "try_lock key s = (case keyMutex_TryLock key (pm_consumerID (sy_mgr s)) (sy_locks s) of
     (ok, m) \<Rightarrow> (Inr ok, s\<lparr>sy_locks := m\<rparr>))"

definition unlock :: "string \<Rightarrow> bool \<Rightarrow> ('w sys, unit) prog" where
  "unlock key remove = m_modify (\<lambda>s. s\<lparr>sy_locks := keyMutex_Unlock key remove (sy_locks s)\<rparr>)"

text \<open>The locking pattern of every loop: when the lock is taken by someone else go on with \<open>busy\<close>;
  otherwise run \<open>body\<close> and release the lock however it ends. The result of \<open>body\<close> decides whether the
  entry is removed from the lock table as well.\<close>

definition with_lock :: "string \<Rightarrow> ('w sys, 'a) prog \<Rightarrow> ('w sys, 'a) prog \<Rightarrow> (garm_error + 'a \<Rightarrow> bool) \<Rightarrow> ('w sys, 'a) prog" where
  "with_lock key busy body remove = m_bind (try_lock key) (\<lambda>ok. if \<not> ok then busy
     else m_finally body (\<lambda>r. unlock key (remove r)))"

text \<open>A loop over instances that keeps the locks it takes until the function returns.\<close>

primrec locked_loop :: "(Instance \<Rightarrow> bool) \<Rightarrow> (Instance \<Rightarrow> ('w sys, unit) prog) \<Rightarrow> Instance list \<Rightarrow> ('w sys, unit) prog" where
  "locked_loop skip body [] = m_ret ()"
| "locked_loop skip body (inst # insts) = (if skip inst then locked_loop skip body insts
     else with_lock (i_Name inst) (locked_loop skip body insts)
       (m_seq (body inst) (locked_loop skip body insts)) (\<lambda>_. False))"

subsection \<open>Labels\<close>

definition poolIDLabelprefix :: string where "poolIDLabelprefix = ''runner-pool-id''"
definition controllerLabelPrefix :: string where "controllerLabelPrefix = ''runner-controller-id''"
definition jobLabelPrefix :: string where "jobLabelPrefix = ''in_response_to_job''"
definition staleJobLockPrefix :: string where "staleJobLockPrefix = ''stale-job-check''"
definition maxCreateAttempts :: int where "maxCreateAttempts = 5"

definition poolLabel :: "string \<Rightarrow> string" where
  "poolLabel poolID = poolIDLabelprefix @ ''='' @ poolID"

definition controllerLabel :: "basePoolManager \<Rightarrow> string" where
  "controllerLabel r = controllerLabelPrefix @ ''='' @ uuid_string (ci_ControllerID (pm_controllerInfo r))"

definition getLabelsForInstance :: "basePoolManager \<Rightarrow> Pool \<Rightarrow> string list" where
  "getLabelsForInstance r pool = map t_Name (p_Tags pool) @ [controllerLabel r] @ [poolLabel (p_ID pool)]"

definition jobLabel :: "int \<Rightarrow> string" where
  "jobLabel jobID = jobLabelPrefix @ ''='' @ int_dec jobID"

fun jobIDFromLabels :: "string list \<Rightarrow> int" where
  "jobIDFromLabels [] = 0"
| "jobIDFromLabels (lbl # labels) = (if has_prefix lbl jobLabelPrefix
     then (case parse_int64 (drop (min (length jobLabelPrefix + 1) (length lbl)) lbl) of
        None \<Rightarrow> 0 | Some jobID \<Rightarrow> jobID)
     else jobIDFromLabels labels)"

fun controllerIDFromLabels :: "string list \<Rightarrow> string" where
  "controllerIDFromLabels [] = []"
| "controllerIDFromLabels (lbl # labels) = (if has_prefix lbl controllerLabelPrefix
     then drop (min (length controllerLabelPrefix + 1) (length lbl)) lbl
     else controllerIDFromLabels labels)"

definition labelsFromRunner :: "forgeRunner \<Rightarrow> string list" where
  "labelsFromRunner runner = map lb_Name (fr_Labels runner)"

definition isManagedRunner :: "string list \<Rightarrow> string \<Rightarrow> bool" where
  "isManagedRunner labels controllerID \<longleftrightarrow> controllerIDFromLabels labels = controllerID"

fun instanceInList :: "string \<Rightarrow> ProviderInstance list \<Rightarrow> ProviderInstance option" where
  "instanceInList name [] = None"
| "instanceInList name (val # vals) = (if pri_Name val = name then Some val else instanceInList name vals)"

definition runnerGroupsMatch :: "string \<Rightarrow> string \<Rightarrow> bool" where
  "runnerGroupsMatch a b = equal_fold (if a = [] then ''Default'' else a) (if b = [] then ''Default'' else b)"

definition poolShadowedByScaleSet :: "ScaleSet list \<Rightarrow> Pool \<Rightarrow> string list \<Rightarrow> bool" where
  "poolShadowedByScaleSet scaleSets pool labels = list_ex (\<lambda>scaleSet. ss_Enabled scaleSet \<and>
     runnerGroupsMatch (p_GitHubRunnerGroup pool) (ss_GitHubRunnerGroup scaleSet) \<and>
     ScaleSet_HasRequiredLabels scaleSet labels) scaleSets"

definition isEntityPool :: "basePoolManager \<Rightarrow> Pool \<Rightarrow> bool" where
  "isEntityPool r pool = (case e_EntityType (pm_entity r) of
     ForgeEntityTypeRepository \<Rightarrow> p_RepoID pool \<noteq> [] \<and> p_RepoID pool = e_ID (pm_entity r)
   | ForgeEntityTypeOrganization \<Rightarrow> p_OrgID pool \<noteq> [] \<and> p_OrgID pool = e_ID (pm_entity r)
   | ForgeEntityTypeEnterprise \<Rightarrow> p_EnterpriseID pool \<noteq> [] \<and> p_EnterpriseID pool = e_ID (pm_entity r)
   | ForgeEntityTypeInstance \<Rightarrow> p_ForgeInstanceID pool \<noteq> [] \<and> p_ForgeInstanceID pool = e_ID (pm_entity r)
   | _ \<Rightarrow> False)"

definition getProviderBaseParams :: "basePoolManager \<Rightarrow> Pool \<Rightarrow> ProviderBaseParams" where
  "getProviderBaseParams r pool = \<lparr>pbp_PoolInfo = pool, pbp_ControllerInfo = pm_controllerInfo r,
     pbp_EntityType = e_EntityType (pm_entity r), pbp_EntityID = e_ID (pm_entity r)\<rparr>"

end
