(* ===== verification/Garm_Runners.thy ===== *)
theory Garm_Runners
  imports Garm_Manager
begin

text \<open>
  The operations of a pool manager on runners (\<^verbatim>\<open>runner/pool/pool.go\<close>, \<^verbatim>\<open>runner/pool/util.go\<close>): creation,
  removal, scaling, clean-up of runners that disappeared, retry of failed ones.
\<close>

subsection \<open>Status of the manager\<close>

text \<open>The store's \<^verbatim>\<open>SetEntityPoolManagerStatus\<close>: the row of the entity gets the status. The payload of its
  notification is not kept.\<close>

definition SetEntityPoolManagerStatus :: "ForgeEntity \<Rightarrow> PoolManagerStatus \<Rightarrow> (db, unit) prog" where
  "SetEntityPoolManagerStatus entity status = db_tx (\<lambda>d. case uuid_parse (e_ID entity) of
     None \<Rightarrow> (Inl BadRequestError, d)
   | Some u \<Rightarrow> if \<exists>e \<in> set (db_entities d). er_ID e = u \<and> er_Type e = e_EntityType entity
       then (Inr (), d\<lparr>db_entities := upd_rows (\<lambda>e. er_ID e = u \<and> er_Type e = e_EntityType entity)
          (\<lambda>e. e\<lparr>er_PoolManagerStatus := status\<rparr>) (db_entities d)\<rparr>)
       else (Inl NotFoundError, d))"

definition SetPoolRunningState :: "bool \<Rightarrow> string \<Rightarrow> ('w sys, unit) prog" where
  "SetPoolRunningState isRunning failureReason =
     m_seq (on_mgr (\<lambda>r. r\<lparr>pm_managerErrorReason := failureReason, pm_managerIsRunning := isRunning\<rparr>))
       (m_bind (get_mgr pm_entity) (\<lambda>entity. m_ignore (on_db (SetEntityPoolManagerStatus entity
          \<lparr>pms_IsRunning = isRunning, pms_FailureReason = failureReason\<rparr>))))"

definition updateTools :: "'w env \<Rightarrow> ('w sys, unit) prog" where
  "updateTools env = m_bind (m_get (\<lambda>s. cv_tools (sy_cache s))) (\<lambda>res. case res of
     Inl e \<Rightarrow> m_seq (SetPoolRunningState False (env_error_text env e)) (m_throw e)
   | Inr tools \<Rightarrow> m_seq (on_mgr (\<lambda>r. r\<lparr>pm_tools := tools\<rparr>)) (SetPoolRunningState True []))"

definition updateClient :: "'w env \<Rightarrow> ('w sys, unit) prog" where
  "updateClient env = m_bind (get_mgr pm_entity) (\<lambda>entity.
     m_bind (m_try (on_world (env_Client env entity))) (\<lambda>res.
       m_seq (on_mgr (\<lambda>r. r\<lparr>pm_stubClient := (case res of Inl e \<Rightarrow> True | Inr _ \<Rightarrow> False)\<rparr>))
         (m_ignore (updateTools env))))"

datatype rateLimitTier = tierInternal | tierNormal | tierCritical

definition EntityRateLimitReached :: "cacheView \<Rightarrow> time \<Rightarrow> bool \<times> time" where
  "EntityRateLimitReached c now = (case cv_credentials c of None \<Rightarrow> (False, 0) | Some creds \<Rightarrow> RateLimitReached creds now)"

definition EntityRateLimitExhausted :: "cacheView \<Rightarrow> time \<Rightarrow> bool \<times> time" where
  "EntityRateLimitExhausted c now = (case cv_credentials c of None \<Rightarrow> (False, 0)
     | Some creds \<Rightarrow> CriticalRateLimitReached creds now)"

definition tier_rateLimitReached :: "rateLimitTier \<Rightarrow> cacheView \<Rightarrow> time \<Rightarrow> bool \<times> time" where
  "tier_rateLimitReached tier c now = (case tier of
     tierCritical \<Rightarrow> EntityRateLimitExhausted c now
   | tierNormal \<Rightarrow> EntityRateLimitReached c now
   | tierInternal \<Rightarrow> (False, 0))"

subsection \<open>Status of instances\<close>

definition setInstanceRunnerStatus :: "string \<Rightarrow> RunnerStatus \<Rightarrow> ('w sys, Instance) prog" where
  "setInstanceRunnerStatus runnerName status =
     on_db (ForceUpdateInstance runnerName (empty_update\<lparr>uip_RunnerStatus := status\<rparr>))"

definition setInstanceStatus :: "string \<Rightarrow> InstanceStatus \<Rightarrow> string \<Rightarrow> bool \<Rightarrow> ('w sys, Instance) prog" where
  "setInstanceStatus runnerName status providerFault force =
     (let updateParams = empty_update\<lparr>uip_Status := status, uip_ProviderFault := providerFault\<rparr>
      in if force then on_db (ForceUpdateInstance runnerName updateParams)
         else on_db (UpdateInstance runnerName updateParams))"

definition recordLifecycleEvent :: "Pool \<Rightarrow> string \<Rightarrow> ('w sys, unit) prog" where
  "recordLifecycleEvent pool outcome = m_modify (\<lambda>s. s\<lparr>sy_lifecycle := sy_lifecycle s @ [(outcome, p_ID pool)]\<rparr>)"

definition GetEntityPool' :: "string \<Rightarrow> ('w sys, Pool) prog" where
  "GetEntityPool' poolID = m_bind (get_mgr pm_entity) (\<lambda>entity. on_db (GetEntityPool entity poolID))"

definition ListEntityInstances' :: "('w sys, Instance list) prog" where
  "ListEntityInstances' = m_bind (get_mgr pm_entity) (\<lambda>entity. on_db (ListEntityInstances entity))"

definition get_provider :: "'w env \<Rightarrow> string \<Rightarrow> ('w sys, 'w provider) prog" where
  "get_provider env name = m_result (option_or (OtherError ''unknown provider'') (env_providers env name))"

subsection \<open>Creation\<close>

definition AddRunner :: "'w env \<Rightarrow> string \<Rightarrow> string list \<Rightarrow> ('w sys, unit) prog" where
  "AddRunner env poolID aditionalLabels =
     m_bind (GetEntityPool' poolID) (\<lambda>pool.
     m_bind (get_provider env (p_ProviderName pool)) (\<lambda>provider.
     m_bind (on_world (\<lambda>w. case env_NewID env w of (i, w') \<Rightarrow> (Inr i, w'))) (\<lambda>newID.
     m_bind (get_mgr id) (\<lambda>r.
     let name = to_lower (GetRunnerPrefix (p_Prefix pool) @ ''-'' @ newID);
         labels = getLabelsForInstance r pool
     in m_bind (if \<not> prov_DisableJITConfig provider \<and> c_ForgeType (e_Credentials (pm_entity r)) \<noteq> GiteaEndpointType
           then m_bind (ghcli (env_GetEntityJITConfig env name pool labels)) (\<lambda>(cfg, runnerID). m_ret (cfg, Some runnerID))
           else m_ret ([], None)) (\<lambda>(jitConfig, runner).
     m_finally
       (m_seq (on_db (CreateInstance poolID \<lparr>cip_Name = name, cip_OSType = p_OSType pool, cip_OSArch = p_OSArch pool,
           cip_Status = InstancePendingCreate, cip_RunnerStatus = RunnerPending,
           cip_CallbackURL = ci_CallbackURL (pm_controllerInfo r),
           cip_MetadataURL = ci_MetadataURL (pm_controllerInfo r),
           cip_GitHubRunnerGroup = p_GitHubRunnerGroup pool, cip_CreateAttempt = 1,
           cip_AgentID = (case runner of None \<Rightarrow> 0 | Some runnerID \<Rightarrow> runnerID),
           cip_AditionalLabels = aditionalLabels, cip_JitConfiguration = jitConfig,
           cip_Generation = p_Generation pool\<rparr>)) (m_ret ()))
       (\<lambda>res. case res of Inr _ \<Rightarrow> m_ret ()
         | Inl e \<Rightarrow> (case runner of None \<Rightarrow> m_ret ()
             | Some runnerID \<Rightarrow> m_ignore (ghcli (env_RemoveEntityRunner env runnerID)))))))))"

definition updateArgsFromProviderInstance :: "ProviderInstance \<Rightarrow> UpdateInstanceParams" where
  "updateArgsFromProviderInstance p = empty_update\<lparr>uip_ProviderID := pri_ProviderID p, uip_OSName := pri_OSName p,
     uip_OSVersion := pri_OSVersion p, uip_Addresses := pri_Addresses p, uip_Status := pri_Status p,
     uip_ProviderFault := pri_ProviderFault p\<rparr>"

text \<open>A pool without a template must bring an install template in its extra specs.\<close>

definition check_template :: "'w env \<Rightarrow> Pool \<Rightarrow> garm_error + unit" where
  "check_template env pool = (if p_TemplateID pool \<noteq> 0 then Inr ()
     else case env_HasInstallTemplate env (p_ExtraSpecs pool) of
       Inl e \<Rightarrow> Inl (OtherError ''pool has no template set and extra specs are invalid'')
     | Inr False \<Rightarrow> Inl (OtherError ''pool has no template set and extra specs has no runner_install_template set'')
     | Inr True \<Rightarrow> Inr ())"

definition proxy_config :: "Pool \<Rightarrow> cacheView \<Rightarrow> garm_error + string option" where
  "proxy_config pool c = (if p_ProxyID pool = 0 then Inr None
     else case cv_proxies c (p_ProxyID pool) of
       None \<Rightarrow> Inl (OtherError ''proxy was not found in cache'') | Some p \<Rightarrow> Inr (Some p))"

definition bootstrap_args ::
    "'w env \<Rightarrow> basePoolManager \<Rightarrow> Instance \<Rightarrow> Pool \<Rightarrow> string \<Rightarrow> string \<Rightarrow> string option \<Rightarrow> BootstrapInstance" where
  "bootstrap_args env r instance0 pool token ca proxy =
     (let hasJITConfig = (i_JitConfiguration instance0 \<noteq> []);
          args = env_AddWrapper env \<lparr>bi_Name = i_Name instance0, bi_Tools = pm_tools r,
            bi_RepoURL = ForgeURL (pm_entity r), bi_MetadataURL = i_MetadataURL instance0,
            bi_CallbackURL = i_CallbackURL instance0, bi_InstanceToken = token, bi_OSArch = p_OSArch pool,
            bi_OSType = p_OSType pool, bi_Flavor = p_Flavor pool, bi_Image = p_Image pool,
            bi_ExtraSpecs = p_ExtraSpecs pool, bi_PoolID = i_PoolID instance0, bi_CACertBundle = ca,
            bi_GitHubRunnerGroup = i_GitHubRunnerGroup instance0, bi_JitConfigEnabled = hasJITConfig,
            bi_ProxyConfig = proxy, bi_Labels = []\<rparr>
      in if hasJITConfig then args else args\<lparr>bi_Labels := getLabelsForInstance r pool\<rparr>)"

definition cleanup_provider :: "'w provider \<Rightarrow> ProviderBaseParams \<Rightarrow> string \<Rightarrow> ('w sys, unit) prog" where
  "cleanup_provider provider base instanceIDToDelete = m_when (instanceIDToDelete \<noteq> [])
     (m_ignore (on_world (prov_DeleteInstance provider instanceIDToDelete base)))"

definition addInstanceToProvider :: "'w env \<Rightarrow> Instance \<Rightarrow> ('w sys, unit) prog" where
  "addInstanceToProvider env instance0 =
     m_bind (GetEntityPool' (i_PoolID instance0)) (\<lambda>pool.
     m_bind (get_provider env (p_ProviderName pool)) (\<lambda>provider.
     m_bind (get_mgr id) (\<lambda>r.
     m_bind (on_world (env_NewInstanceJWTToken env instance0 (pm_entity r) (Pool_RunnerTimeout pool))) (\<lambda>jwtToken.
     m_seq (m_result (check_template env pool))
     (m_bind (m_result (env_CombineBundles env (c_CABundle (e_Credentials (pm_entity r))) (ci_CACertBundle (pm_controllerInfo r)))) (\<lambda>caBundles.
     m_bind (m_get (\<lambda>s. proxy_config pool (sy_cache s))) (\<lambda>proxyRes.
     m_bind (m_result proxyRes) (\<lambda>proxy.
     let base = getProviderBaseParams r pool in
     m_bind (m_try (on_world (prov_CreateInstance provider (bootstrap_args env r instance0 pool jwtToken caBundles proxy) base))) (\<lambda>res.
       case res of
         Inl e \<Rightarrow> m_seq (cleanup_provider provider base (i_Name instance0)) (m_throw e)
       | Inr providerInstance \<Rightarrow>
           m_finally
             (m_seq (on_db (UpdateInstance (i_Name instance0) (updateArgsFromProviderInstance providerInstance))) (m_ret ()))
             (\<lambda>_. cleanup_provider provider base (if pri_Status providerInstance \<noteq> InstanceError then []
                else if i_ProviderID instance0 = [] then i_Name instance0 else i_ProviderID instance0)))))))))))"

definition addPendingInstances :: "'w env \<Rightarrow> ('w sys, unit) prog" where
  "addPendingInstances env = m_bind ListEntityInstances' (m_for (\<lambda>instance0.
     if i_ScaleSetID instance0 \<noteq> 0 \<or> i_Status instance0 \<noteq> InstancePendingCreate then m_ret ()
     else with_lock (i_Name instance0) (m_ret ())
       (m_bind (m_try (setInstanceStatus (i_Name instance0) InstanceCreating [] False)) (\<lambda>res.
          case res of Inl e \<Rightarrow> m_ret ()
          | Inr _ \<Rightarrow> m_bind (m_try (addInstanceToProvider env instance0)) (\<lambda>res'.
              case res' of Inr _ \<Rightarrow> m_ret ()
              | Inl e \<Rightarrow> m_ignore (setInstanceStatus (i_Name instance0) InstanceError (env_error_text env e) False))))
       (\<lambda>_. False)))"

definition addRunnerToPool :: "'w env \<Rightarrow> Pool \<Rightarrow> string list \<Rightarrow> ('w sys, unit) prog" where
  "addRunnerToPool env pool aditionalLabels =
     (if \<not> p_Enabled pool then m_throw (OtherError ''pool is disabled'')
      else m_bind (on_db (PoolInstanceCount (p_ID pool))) (\<lambda>poolInstanceCount.
        if poolInstanceCount \<ge> sint (p_MaxRunners pool) then m_throw NoCapacityError
        else AddRunner env (p_ID pool) aditionalLabels))"

text \<open>How many idle runners are missing, in signed 64 bit arithmetic.\<close>

definition idle_or_pending :: "Instance list \<Rightarrow> Instance list" where
  "idle_or_pending = filter (\<lambda>inst. i_RunnerStatus inst \<noteq> RunnerActive \<and> i_RunnerStatus inst \<noteq> RunnerTerminated)"

definition required_runners :: "Pool \<Rightarrow> Instance list \<Rightarrow> int" where
  "required_runners pool existingInstances =
     (let idle = int (length (idle_or_pending existingInstances)) in
      if idle < MinIdleRunnersAsInt pool
      then let required = MinIdleRunnersAsInt pool - idle;
               projectedInstanceCount = wrap_int64 (int (length existingInstances) + required);
               projected = (if projectedInstanceCount > 0 then projectedInstanceCount else 0)
           in if projected > uint (p_MaxRunners pool)
              then wrap_int64 (required - wrap_int64 (projectedInstanceCount - MaxRunnersAsInt pool))
              else required
      else 0)"

definition ensureIdleRunnersForOnePool :: "'w env \<Rightarrow> Pool \<Rightarrow> ('w sys, unit) prog" where
  "ensureIdleRunnersForOnePool env pool =
     (if \<not> p_Enabled pool \<or> p_MinIdleRunners pool = 0 then m_ret ()
      else m_bind (on_db (ListPoolInstances (p_ID pool) False)) (\<lambda>existingInstances.
        if int (length existingInstances) \<ge> uint (p_MaxRunners pool) then m_ret ()
        else m_for (\<lambda>_. AddRunner env (p_ID pool) []) [0..<nat (required_runners pool existingInstances)]))"

definition ensureMinIdleRunners :: "'w env \<Rightarrow> ('w sys, unit) prog" where
  "ensureMinIdleRunners env = m_bind (m_get (\<lambda>s. cv_pools (sy_cache s)))
     (m_group (ensureIdleRunnersForOnePool env))"

subsection \<open>Removal\<close>

definition DeleteRunner :: "'w env \<Rightarrow> Instance \<Rightarrow> bool \<Rightarrow> bool \<Rightarrow> ('w sys, unit) prog" where
  "DeleteRunner env runner forceRemove bypassGHUnauthorizedError =
     m_bind (get_mgr pm_managerIsRunning) (\<lambda>isRunning.
     if \<not> isRunning \<and> \<not> bypassGHUnauthorizedError then m_throw ConflictError
     else m_seq
       (if i_AgentID runner = 0 then m_ret ()
        else m_bind (m_try (ghcli (env_RemoveEntityRunner env (i_AgentID runner)))) (\<lambda>res. case res of
            Inr _ \<Rightarrow> m_ret ()
          | Inl e \<Rightarrow> if error_is e UnauthorizedError
              then m_seq (SetPoolRunningState False (''failed to remove runner: '' @ env_error_text env e))
                (if bypassGHUnauthorizedError then m_ret () else m_throw e)
              else if \<not> error_is e NotFoundError then m_throw e else m_ret ()))
       (m_bind (m_try (setInstanceStatus (i_Name runner)
            (if forceRemove then InstancePendingForceDelete else InstancePendingDelete) [] True)) (\<lambda>res. case res of
            Inr _ \<Rightarrow> m_ret ()
          | Inl e \<Rightarrow> if error_is e NotFoundError then m_ret () else m_throw e)))"

definition deleteInstanceFromProvider :: "'w env \<Rightarrow> Instance \<Rightarrow> ('w sys, unit) prog" where
  "deleteInstanceFromProvider env instance0 =
     m_bind (GetEntityPool' (i_PoolID instance0)) (\<lambda>pool.
     m_bind (get_provider env (i_ProviderName instance0)) (\<lambda>provider.
     m_bind (get_mgr id) (\<lambda>r.
     let identifier = (if i_ProviderID instance0 = [] then i_Name instance0 else i_ProviderID instance0)
     in on_world (prov_DeleteInstance provider identifier (getProviderBaseParams r pool)))))"

definition on_backoff :: "(instanceDeleteBackoff \<Rightarrow> instanceDeleteBackoff) \<Rightarrow> ('w sys, unit) prog" where
  "on_backoff f = m_modify (\<lambda>s. s\<lparr>sy_backoff := f (sy_backoff s)\<rparr>)"

definition should_process :: "string \<Rightarrow> ('w sys, bool) prog" where
  "should_process key s = (case backoff_ShouldProcess key (db_clock (sy_db s)) (sy_backoff s) of
     ((ok, deadline), b) \<Rightarrow> (Inr ok, s\<lparr>sy_backoff := b\<rparr>))"

text \<open>The goroutine of \<^verbatim>\<open>deletePendingInstances\<close>: \<open>True\<close> when the instance is gone (\<^verbatim>\<open>deleteMux\<close>); on any error the
  previous status is restored and the failure recorded.\<close>

definition delete_pending_body :: "'w env \<Rightarrow> Instance \<Rightarrow> ('w sys, unit) prog" where
  "delete_pending_body env instance0 =
     m_seq (setInstanceStatus (i_Name instance0) InstanceDeleting [] True)
       (m_bind (m_try (deleteInstanceFromProvider env instance0)) (\<lambda>res.
          case res of
            Inl e \<Rightarrow> if i_Status instance0 \<noteq> InstancePendingForceDelete then m_throw e
              else on_db (DeleteInstance (i_PoolID instance0) (i_Name instance0))
          | Inr _ \<Rightarrow> on_db (DeleteInstance (i_PoolID instance0) (i_Name instance0))))"

definition delete_pending :: "'w env \<Rightarrow> Instance \<Rightarrow> ('w sys, bool) prog" where
  "delete_pending env instance0 = m_bind (m_try (delete_pending_body env instance0)) (\<lambda>res. case res of
     Inr _ \<Rightarrow> m_ret True
   | Inl e \<Rightarrow> m_seq (m_ignore (setInstanceStatus (i_Name instance0) (i_Status instance0) (env_error_text env e) True))
       (m_bind time_now (\<lambda>now. m_seq (on_backoff (backoff_RecordFailure (i_Name instance0) now)) (m_ret False))))"

text \<open>The lock is taken before the back-off is asked and handed to the goroutine, whose deferred calls release it. They
  are registered after the delay: a goroutine whose delay is cut short by the end of the manager returns without
  releasing the lock.\<close>

definition delete_pending_locked :: "'w env \<Rightarrow> Instance \<Rightarrow> ('w sys, unit) prog" where
  "delete_pending_locked env instance0 = m_bind (try_lock (i_Name instance0)) (\<lambda>lockAcquired.
     if \<not> lockAcquired then m_ret ()
     else m_bind (should_process (i_Name instance0)) (\<lambda>shouldProcess.
       if \<not> shouldProcess then unlock (i_Name instance0) False
       else m_bind (m_get sy_quit) (\<lambda>canceled.
         if canceled then m_ret ()
         else m_bind (m_finally (delete_pending env instance0) (\<lambda>r. unlock (i_Name instance0) (r = Inr True)))
           (\<lambda>deleteMux. m_when deleteMux (on_backoff (backoff_Delete (i_Name instance0)))))))"

definition deletePendingInstances :: "'w env \<Rightarrow> ('w sys, unit) prog" where
  "deletePendingInstances env = m_bind ListEntityInstances' (m_for (\<lambda>instance0.
     if i_ScaleSetID instance0 \<noteq> 0 \<or>
        i_Status instance0 \<noteq> InstancePendingDelete \<and> i_Status instance0 \<noteq> InstancePendingForceDelete
     then m_ret () else m_ignore (delete_pending_locked env instance0)))"

definition cleanupRunnersInterruptedInFlight :: "'w env \<Rightarrow> ('w sys, unit) prog" where
  "cleanupRunnersInterruptedInFlight env = m_bind ListEntityInstances' (m_for (\<lambda>instance0.
     if i_ScaleSetID instance0 \<noteq> 0 then m_ret ()
     else if i_Status instance0 = InstanceCreating \<or> i_Status instance0 = InstanceDeleting
     then m_ignore (DeleteRunner env instance0 False True) else m_ret ()))"

subsection \<open>Scaling down\<close>

definition idle_workers :: "Instance list \<Rightarrow> Instance list" where
  "idle_workers = filter (\<lambda>inst. i_RunnerStatus inst = RunnerIdle \<and> i_Status inst = InstanceRunning)"

text \<open>\<^verbatim>\<open>int(math.Ceil(surplus * 0.5))\<close>: half of the surplus, rounded up. Floating point is exact below
  \<open>2^53\<close>.\<close>

definition scale_down_count :: "int \<Rightarrow> int \<Rightarrow> int \<Rightarrow> int" where
  "scale_down_count idle minIdle queued =
     (let surplus = wrap_int64 (idle - wrap_int64 (minIdle + queued))
      in if surplus \<le> 0 then 0 else (surplus + 1) div 2)"

definition first_error :: "garm_error option \<Rightarrow> garm_error + 'a \<Rightarrow> garm_error option" where
  "first_error err res = (case err of Some e \<Rightarrow> Some e | None \<Rightarrow> (case res of Inl e \<Rightarrow> Some e | Inr _ \<Rightarrow> None))"

text \<open>The loop over the chosen workers and, inside the locks they keep, the rest of the function.\<close>

primrec scale_down_workers :: "'w env \<Rightarrow> Pool \<Rightarrow> (garm_error option \<Rightarrow> ('w sys, unit) prog) \<Rightarrow> Instance list \<Rightarrow>
    garm_error option \<Rightarrow> ('w sys, unit) prog" where
  "scale_down_workers env pool rest [] err = rest err"
| "scale_down_workers env pool rest (inst # insts) err =
     with_lock (i_Name inst) (scale_down_workers env pool rest insts err)
       (m_bind (m_try (m_seq (DeleteRunner env inst False False) (recordLifecycleEvent pool ''idle_scaledown''))) (\<lambda>res.
          scale_down_workers env pool rest insts (first_error err res)))
       (\<lambda>_. False)"

definition delete_stale_queued :: "Pool \<Rightarrow> ('w sys, unit) prog" where
  "delete_stale_queued pool = m_bind (get_mgr pm_entity) (\<lambda>entity.
     m_bind (m_try (on_db (ListEntityJobsByStatus (e_EntityType entity) (e_ID entity) JobStatusQueued))) (\<lambda>res.
       m_bind (case res of Inr js \<Rightarrow> m_ret js
          | Inl e \<Rightarrow> if error_is e NotFoundError then m_ret [] else m_throw e) (\<lambda>queued.
       m_bind time_now (\<lambda>now. m_for (\<lambda>job.
         if now - j_CreatedAt job > 10 * minute \<and> Pool_HasRequiredLabels pool (j_Labels job)
         then m_ignore (on_db (DeleteJob (j_WorkflowJobID job))) else m_ret ()) queued))))"

definition scaleDownOnePool :: "'w env \<Rightarrow> Pool \<Rightarrow> ('w sys, unit) prog" where
  "scaleDownOnePool env pool =
     (if \<not> p_Enabled pool then m_ret ()
      else m_bind (on_db (ListPoolInstances (p_ID pool) False)) (\<lambda>existingInstances.
        let idleWorkers = idle_workers existingInstances in
        if idleWorkers = [] then m_ret ()
        else m_bind (get_mgr getQueuedJobs) (\<lambda>queued.
          let numScaleDown = scale_down_count (int (length idleWorkers)) (MinIdleRunnersAsInt pool) (int (length queued)) in
          if numScaleDown \<le> 0 then m_ret ()
          else if numScaleDown > int (length idleWorkers)
          then m_throw (OtherError ''invalid number of instances to scale down'')
          else scale_down_workers env pool
            (\<lambda>err. m_seq (delete_stale_queued pool) (case err of None \<Rightarrow> m_ret () | Some e \<Rightarrow> m_throw e))
            (take (nat numScaleDown) idleWorkers) None)))"

definition scaleDown :: "'w env \<Rightarrow> ('w sys, unit) prog" where
  "scaleDown env = m_bind (m_get (\<lambda>s. cv_pools (sy_cache s))) (m_group (scaleDownOnePool env))"

subsection \<open>Retry\<close>

definition retry_instance :: "'w env \<Rightarrow> Instance \<Rightarrow> ('w sys, unit) prog" where
  "retry_instance env instance0 = m_seq (deleteInstanceFromProvider env instance0)
     (m_ignore (on_db (ForceUpdateInstance (i_Name instance0) (empty_update\<lparr>
        uip_CreateAttempt := i_CreateAttempt instance0 + 1,
        uip_TokenFetched := Some (i_JitConfiguration instance0 \<noteq> []),
        uip_Status := InstancePendingCreate, uip_RunnerStatus := RunnerPending\<rparr>))))"

definition retryFailedInstancesForOnePool :: "'w env \<Rightarrow> Pool \<Rightarrow> ('w sys, unit) prog" where
  "retryFailedInstancesForOnePool env pool =
     (if \<not> p_Enabled pool then m_ret ()
      else m_bind (on_db (ListPoolInstances (p_ID pool) False)) (m_group (\<lambda>instance0.
        if i_Status instance0 \<noteq> InstanceError \<or> i_CreateAttempt instance0 \<ge> maxCreateAttempts then m_ret ()
        else with_lock (i_Name instance0) (m_ret ()) (retry_instance env instance0) (\<lambda>_. False))))"

definition retryFailedInstances :: "'w env \<Rightarrow> ('w sys, unit) prog" where
  "retryFailedInstances env = m_bind (m_get (\<lambda>s. cv_pools (sy_cache s)))
     (m_group (retryFailedInstancesForOnePool env))"

subsection \<open>The forge's list of runners\<close>

text \<open>The loop over the pages, up to \<open>env_max_pages\<close> of them.\<close>

primrec list_runner_pages :: "'w env \<Rightarrow> nat \<Rightarrow> int \<Rightarrow> forgeRunner list \<Rightarrow> ('w sys, forgeRunner list) prog" where
  "list_runner_pages env 0 page acc = m_throw (OtherError ''too many pages'')"
| "list_runner_pages env (Suc n) page acc = m_bind (ghcall (env_ListEntityRunners env page)) (\<lambda>res. case res of
     Inl (e, code) \<Rightarrow> m_throw (if code = Some 401 then UnauthorizedError else e)
   | Inr (runners, nextPage) \<Rightarrow>
       if nextPage = 0 then m_ret (acc @ runners) else list_runner_pages env n nextPage (acc @ runners))"

definition listRunnersWithPagination :: "'w env \<Rightarrow> ('w sys, forgeRunner list) prog" where
  "listRunnersWithPagination env = list_runner_pages env (env_max_pages env) 0 []"

definition listRunnersWithScaleSetAPI :: "'w env \<Rightarrow> ('w sys, forgeRunner list) prog" where
  "listRunnersWithScaleSetAPI env = m_bind (get_mgr pm_scaleSetClient) (\<lambda>present.
     if \<not> present then m_throw (OtherError ''scaleset client not initialized'')
     else m_bind (on_world (env_ListAllRunners env)) (\<lambda>runners.
       m_ret (map snd (filter (\<lambda>r. fst r = 0) runners))))"

definition GetGithubRunners :: "'w env \<Rightarrow> ('w sys, forgeRunner list) prog" where
  "GetGithubRunners env = m_bind (get_mgr pm_scaleSetClient) (\<lambda>present.
     if \<not> present then listRunnersWithPagination env
     else m_bind (m_try (listRunnersWithScaleSetAPI env)) (\<lambda>res. case res of
         Inl e \<Rightarrow> listRunnersWithPagination env
       | Inr runners \<Rightarrow> m_bind (m_get (\<lambda>s. cv_instances (sy_cache s))) (\<lambda>entityInstances.
           if entityInstances > 0 \<and> runners = [] then listRunnersWithPagination env else m_ret runners)))"

subsection \<open>Clean-up\<close>

definition managed_runners :: "basePoolManager \<Rightarrow> forgeRunner list \<Rightarrow> forgeRunner list" where
  "managed_runners r = filter (\<lambda>run. isManagedRunner (labelsFromRunner run)
     (uuid_string (ci_ControllerID (pm_controllerInfo r))))"

definition is_pending :: "InstanceStatus \<Rightarrow> bool" where
  "is_pending st \<longleftrightarrow> st = InstancePendingCreate \<or> st = InstancePendingDelete \<or> st = InstancePendingForceDelete"

definition orphaned_provider_body :: "string set \<Rightarrow> Instance \<Rightarrow> ('w sys, unit) prog" where
  "orphaned_provider_body runnerNames instance0 =
     (if is_pending (i_Status instance0) then m_ret ()
      else m_bind (GetEntityPool' (i_PoolID instance0)) (\<lambda>pool.
        m_bind time_now (\<lambda>now.
        if (i_RunnerStatus instance0 = RunnerPending \<or> i_RunnerStatus instance0 = RunnerInstalling) \<and>
           now - i_CreatedAt instance0 < int (Pool_RunnerTimeout pool) * minute
        then m_ret ()
        else if i_Name instance0 \<in> runnerNames then m_ret ()
        else m_seq (setInstanceStatus (i_Name instance0) InstancePendingDelete [] True) (m_ret ()))))"

definition cleanupOrphanedProviderRunners :: "'w env \<Rightarrow> forgeRunner list \<Rightarrow> ('w sys, unit) prog" where
  "cleanupOrphanedProviderRunners env runners = m_bind ListEntityInstances' (\<lambda>dbInstances.
     m_bind (get_mgr (\<lambda>r. set (map fr_Name (managed_runners r runners)))) (\<lambda>runnerNames.
       locked_loop (\<lambda>inst. i_ScaleSetID inst \<noteq> 0) (orphaned_provider_body runnerNames) dbInstances))"

text \<open>A later runner of the same name replaces an earlier one in the map.\<close>

definition runner_by_name :: "forgeRunner list \<Rightarrow> string \<Rightarrow> forgeRunner option" where
  "runner_by_name runners name = List.find (\<lambda>run. fr_Name run = name) (rev runners)"

definition reap_body :: "'w env \<Rightarrow> forgeRunner list \<Rightarrow> Instance \<Rightarrow> ('w sys, unit) prog" where
  "reap_body env managed instance0 =
     m_bind (GetEntityPool' (i_PoolID instance0)) (\<lambda>pool.
     m_bind time_now (\<lambda>now.
     if now - i_UpdatedAt instance0 < int (Pool_RunnerTimeout pool) * minute then m_ret ()
     else if (case runner_by_name managed (i_Name instance0) of None \<Rightarrow> True | Some run \<Rightarrow> fr_Status run = ''offline'')
     then m_seq (DeleteRunner env instance0 False False) (recordLifecycleEvent pool ''bootstrap_timeout'')
     else m_ret ()))"

definition reapTimedOutRunners :: "'w env \<Rightarrow> forgeRunner list \<Rightarrow> ('w sys, unit) prog" where
  "reapTimedOutRunners env runners = m_bind ListEntityInstances' (\<lambda>dbInstances.
     m_bind (get_mgr (\<lambda>r. managed_runners r runners)) (\<lambda>managed.
       locked_loop (\<lambda>inst. i_ScaleSetID inst \<noteq> 0) (reap_body env managed) dbInstances))"

text \<open>The goroutine of \<^verbatim>\<open>cleanupOrphanedGithubRunners\<close>: \<open>True\<close> when the row was deleted.\<close>

definition orphaned_github_body ::
    "'w env \<Rightarrow> 'w provider \<Rightarrow> Pool \<Rightarrow> Instance \<Rightarrow> ProviderInstance list \<Rightarrow> forgeRunner \<Rightarrow> ('w sys, bool) prog" where
  "orphaned_github_body env provider pool dbInstance poolInstances runner =
     (case instanceInList (i_Name dbInstance) poolInstances of
        None \<Rightarrow> m_bind (m_try (ghcli (env_RemoveEntityRunner env (fr_ID runner)))) (\<lambda>res.
          case (case res of Inr _ \<Rightarrow> None | Inl e \<Rightarrow> if error_is e NotFoundError then None else Some e) of
            Some e \<Rightarrow> m_throw e
          | None \<Rightarrow> m_seq (on_db (DeleteInstance (i_PoolID dbInstance) (i_Name dbInstance))) (m_ret True))
      | Some providerInstance \<Rightarrow>
          if pri_Status providerInstance = InstanceRunning then m_ret False
          else m_bind (get_mgr (\<lambda>r. getProviderBaseParams r pool)) (\<lambda>base.
            m_seq (on_world (prov_Start provider (i_ProviderID dbInstance) base)) (m_ret False)))"

text \<open>One iteration: the cached provider listings and the first error of the goroutines are carried along.\<close>

definition orphaned_github_one :: "'w env \<Rightarrow> forgeRunner \<Rightarrow> (string \<times> ProviderInstance list) list \<times> garm_error option \<Rightarrow>
    ('w sys, (string \<times> ProviderInstance list) list \<times> garm_error option) prog" where
  "orphaned_github_one env runner acc =
     (if fr_Status runner \<noteq> ''offline'' then m_ret acc
      else m_bind (m_try (on_db (GetInstance (fr_Name runner)))) (\<lambda>res. case res of
        Inl e \<Rightarrow> if \<not> error_is e NotFoundError then m_throw e
          else m_bind (m_try (ghcli (env_RemoveEntityRunner env (fr_ID runner)))) (\<lambda>res'. case res' of
              Inr _ \<Rightarrow> m_ret acc
            | Inl e' \<Rightarrow> if error_is e' NotFoundError then m_ret acc else m_throw e')
      | Inr dbInstance \<Rightarrow> m_bind time_now (\<lambda>now.
          if i_ScaleSetID dbInstance \<noteq> 0 \<or>
             i_Status dbInstance \<in> {InstancePendingDelete, InstanceDeleting, InstancePendingCreate, InstanceCreating} \<or>
             i_Status dbInstance = InstanceRunning \<and> now - i_UpdatedAt dbInstance < 5 * minute
          then m_ret acc
          else m_bind (GetEntityPool' (i_PoolID dbInstance)) (\<lambda>pool.
            m_bind (get_provider env (i_ProviderName dbInstance)) (\<lambda>provider.
            m_bind (get_mgr (\<lambda>r. getProviderBaseParams r pool)) (\<lambda>base.
            m_bind (case map_of (fst acc) (i_PoolID dbInstance) of
                Some poolInstances \<Rightarrow> m_ret poolInstances
              | None \<Rightarrow> on_world (prov_ListInstances provider (p_ID pool) base)) (\<lambda>poolInstances.
            m_bind (m_try (with_lock (i_Name dbInstance) (m_ret False)
               (orphaned_github_body env provider pool dbInstance poolInstances runner) (\<lambda>r. r = Inr True))) (\<lambda>res'.
            m_ret ((i_PoolID dbInstance, poolInstances) # fst acc, first_error (snd acc) res')))))))))"

definition cleanupOrphanedGithubRunners :: "'w env \<Rightarrow> forgeRunner list \<Rightarrow> ('w sys, unit) prog" where
  "cleanupOrphanedGithubRunners env runners = m_bind (get_mgr (\<lambda>r. managed_runners r runners)) (\<lambda>managed.
     m_bind (m_fold (orphaned_github_one env) managed ([], None)) (\<lambda>acc.
       case snd acc of None \<Rightarrow> m_ret () | Some e \<Rightarrow> m_throw e))"

definition cleanupOrphanedRunners :: "'w env \<Rightarrow> forgeRunner list \<Rightarrow> ('w sys, unit) prog" where
  "cleanupOrphanedRunners env runners =
     m_seq (cleanupOrphanedProviderRunners env runners) (cleanupOrphanedGithubRunners env runners)"

definition runnerCleanup :: "'w env \<Rightarrow> ('w sys, unit) prog" where
  "runnerCleanup env = m_bind (GetGithubRunners env) (\<lambda>runners.
     m_seq (reapTimedOutRunners env runners) (cleanupOrphanedRunners env runners))"

end
