(* ===== verification/Garm_Workflow.thy ===== *)
theory Garm_Workflow
  imports Garm_Runners
begin

text \<open>
  What a pool manager does with workflow jobs (\<^verbatim>\<open>runner/pool/pool.go\<close>): the webhook handler, the consumer
  of queued jobs, the reconciliation of stale jobs; and the loops a running manager executes.
\<close>

subsection \<open>Webhooks\<close>

definition ValidateOwner :: "basePoolManager \<Rightarrow> WorkflowJobHook \<Rightarrow> garm_error + unit" where
  "ValidateOwner r job = (case e_EntityType (pm_entity r) of
     ForgeEntityTypeRepository \<Rightarrow>
       if \<not> equal_fold (h_RepoName job) (e_Name (pm_entity r)) \<or> \<not> equal_fold (h_RepoOwnerLogin job) (e_Owner (pm_entity r))
       then Inl BadRequestError else Inr ()
   | ForgeEntityTypeOrganization \<Rightarrow>
       if \<not> equal_fold (GetOrgName job (c_ForgeType (e_Credentials (pm_entity r)))) (e_Owner (pm_entity r))
       then Inl BadRequestError else Inr ()
   | ForgeEntityTypeEnterprise \<Rightarrow>
       if \<not> equal_fold (h_EnterpriseSlug job) (e_Owner (pm_entity r)) then Inl BadRequestError else Inr ()
   | ForgeEntityTypeInstance \<Rightarrow> Inr ()
   | _ \<Rightarrow> Inl BadRequestError)"

definition hook_job :: "WorkflowJobHook \<Rightarrow> Job" where
  "hook_job job = \<lparr>j_ID = 0, j_WorkflowJobID = h_ID job, j_RunID = h_RunID job, j_Action = h_Action job,
     j_Conclusion = h_Conclusion job, j_Status = h_Status job, j_Name = h_Name job,
     j_StartedAt = h_StartedAt job, j_CompletedAt = h_CompletedAt job, j_GithubRunnerID = h_RunnerID job,
     j_RunnerName = h_RunnerName job, j_RunnerGroupID = h_RunnerGroupID job,
     j_RunnerGroupName = h_RunnerGroupName job, j_RepositoryName = h_RepoName job,
     j_RepositoryOwner = h_RepoOwnerLogin job,
     j_WorkflowRunURL = (if h_RepoHTMLURL job \<noteq> [] \<and> h_RunID job \<noteq> 0
        then trim_right (h_RepoHTMLURL job) (CHR ''/'') @ ''/actions/runs/'' @ int_dec (h_RunID job) else []),
     j_Labels = h_Labels job, j_RepoID = None, j_OrgID = None, j_EnterpriseID = None,
     j_ForgeInstanceID = None, j_PoolID = None, j_LockedBy = uuid_nil, j_CreatedAt = 0, j_UpdatedAt = 0\<rparr>"

definition paramsWorkflowJobToParamsJob :: "basePoolManager \<Rightarrow> WorkflowJobHook \<Rightarrow> garm_error + Job" where
  "paramsWorkflowJobToParamsJob r job = (case uuid_parse (e_ID (pm_entity r)) of
     None \<Rightarrow> Inl (OtherError ''error parsing pool ID as UUID'')
   | Some asUUID \<Rightarrow> (case e_EntityType (pm_entity r) of
       ForgeEntityTypeEnterprise \<Rightarrow> Inr ((hook_job job)\<lparr>j_EnterpriseID := Some asUUID\<rparr>)
     | ForgeEntityTypeRepository \<Rightarrow> Inr ((hook_job job)\<lparr>j_RepoID := Some asUUID\<rparr>)
     | ForgeEntityTypeOrganization \<Rightarrow> Inr ((hook_job job)\<lparr>j_OrgID := Some asUUID\<rparr>)
     | ForgeEntityTypeInstance \<Rightarrow> Inr ((hook_job job)\<lparr>j_ForgeInstanceID := Some asUUID\<rparr>)
     | _ \<Rightarrow> Inl (OtherError ''unknown pool type'')))"

definition shouldRecordJob :: "Job \<Rightarrow> bool \<Rightarrow> ('w sys, bool) prog" where
  "shouldRecordJob jobParams isNewJob =
     (if \<not> isNewJob then m_ret True
      else if j_Status jobParams = JobStatusQueued
      then m_bind (get_mgr pm_entity) (\<lambda>entity.
        m_bind (m_try (on_db (FindPoolsMatchingAllTags (e_EntityType entity) (e_ID entity) (j_Labels jobParams)))) (\<lambda>res.
          m_ret (case res of Inl e \<Rightarrow> False | Inr potentialPools \<Rightarrow> potentialPools \<noteq> [])))
      else if j_RunnerName jobParams \<noteq> []
      then m_bind (m_try (on_db (GetInstance (j_RunnerName jobParams)))) (\<lambda>res.
        m_ret (case res of Inl e \<Rightarrow> False | Inr _ \<Rightarrow> True))
      else m_ret False)"

text \<open>The map \<^verbatim>\<open>statusRank\<close>; a missing key reads as zero.\<close>

definition statusRank :: "string \<Rightarrow> nat" where
  "statusRank action = (if action = JobStatusQueued then 1 else if action = JobStatusInProgress then 2
     else if action = JobStatusCompleted then 3 else 0)"

definition persistJobToDB :: "Job \<Rightarrow> ('w sys, unit) prog" where
  "persistJobToDB jobParams =
     (if j_WorkflowJobID jobParams = 0 then m_throw BadRequestError
      else m_bind (m_try (on_db (GetJobByID (j_WorkflowJobID jobParams)))) (\<lambda>res.
        m_bind (case res of
            Inl e \<Rightarrow> if error_is e NotFoundError then m_ret True else m_throw e
          | Inr existingJob \<Rightarrow> if statusRank (j_Action jobParams) < statusRank (j_Action existingJob)
              then m_throw BadRequestError else m_ret False) (\<lambda>isNewJob.
        m_bind (shouldRecordJob jobParams isNewJob) (\<lambda>record0.
          if \<not> record0 then m_throw UnprocessableError
          else m_seq (on_db (CreateOrUpdateJob jobParams)) (m_ret ())))))"

text \<open>A lookup whose errors are logged and ignored.\<close>

definition m_option :: "('s, 'a) prog \<Rightarrow> ('s, 'a option) prog" where
  "m_option m = m_bind (m_try m) (\<lambda>res. m_ret (case res of Inl e \<Rightarrow> None | Inr x \<Rightarrow> Some x))"

text \<open>A refused transition of an instance that is already being deleted.\<close>

definition leaving_already :: "garm_error \<Rightarrow> bool" where
  "leaving_already e = (case e of InstanceTransitionError from0 to0 \<Rightarrow> InstanceIsBeingDeleted from0 | _ \<Rightarrow> False)"

definition handleCompletedJob :: "Job \<Rightarrow> ('w sys, unit) prog" where
  "handleCompletedJob jobParams =
     (if j_RunnerName jobParams = [] then m_ret ()
      else m_bind (m_option (on_db (GetInstance (j_RunnerName jobParams)))) (\<lambda>inst. case inst of
        None \<Rightarrow> m_ret ()
      | Some instance0 \<Rightarrow> m_bind (m_option (on_db (GetPoolByID (i_PoolID instance0)))) (\<lambda>pl. case pl of
        None \<Rightarrow> m_ret ()
      | Some pool \<Rightarrow> m_bind (get_mgr (\<lambda>r. isEntityPool r pool)) (\<lambda>mine0.
        if \<not> mine0 then m_ret ()
        else m_bind (m_try (setInstanceRunnerStatus (j_RunnerName jobParams) RunnerTerminated)) (\<lambda>res. case res of
          Inl e \<Rightarrow> if error_is e NotFoundError then m_ret () else m_throw e
        | Inr _ \<Rightarrow> m_bind (m_try (setInstanceStatus (j_RunnerName jobParams) InstancePendingDelete [] False)) (\<lambda>res'. case res' of
            Inl e \<Rightarrow> if error_is e NotFoundError then m_ret ()
              else if leaving_already e then m_ret () else m_throw e
          | Inr _ \<Rightarrow> recordLifecycleEvent pool ''job_completed''))))))"

definition handleInProgressJob :: "'w env \<Rightarrow> Job \<Rightarrow> ('w sys, int) prog" where
  "handleInProgressJob env jobParams =
     (if j_RunnerName jobParams = [] then m_ret 0
      else m_bind (m_try (setInstanceRunnerStatus (j_RunnerName jobParams) RunnerActive)) (\<lambda>res. case res of
        Inl e \<Rightarrow> if error_is e NotFoundError then m_ret 0 else m_throw e
      | Inr instance0 \<Rightarrow> m_bind (m_option (on_db (GetPoolByID (i_PoolID instance0)))) (\<lambda>pl. case pl of
          None \<Rightarrow> m_ret 0
        | Some pool \<Rightarrow> m_bind (get_mgr (\<lambda>r. isEntityPool r pool)) (\<lambda>mine0.
            if \<not> mine0 then m_ret 0
            else m_seq (m_ignore (ensureIdleRunnersForOnePool env pool))
              (m_ret (jobIDFromLabels (i_AditionalLabels instance0)))))))"

definition wake_consumer :: "('w sys, unit) prog" where
  "wake_consumer = on_mgr (\<lambda>r. if JobBackoff (pm_controllerInfo r) = 0 then r\<lparr>pm_consumeJobsCh := True\<rparr> else r)"

text \<open>The action on a recorded job.\<close>

definition act_on_job :: "'w env \<Rightarrow> string \<Rightarrow> Job \<Rightarrow> ('w sys, unit) prog" where
  "act_on_job env action jobParams =
     (if action = JobStatusQueued then wake_consumer
      else if action = JobStatusInProgress
      then m_bind (m_try (handleInProgressJob env jobParams)) (\<lambda>res.
        m_seq (case res of Inl e \<Rightarrow> m_ret ()
            | Inr triggeredBy \<Rightarrow> if triggeredBy \<noteq> 0 \<and> j_WorkflowJobID jobParams \<noteq> triggeredBy
                then m_ignore (on_db (BreakLockJobIsQueued triggeredBy)) else m_ret ())
          (case res of Inl e \<Rightarrow> m_throw e | Inr _ \<Rightarrow> m_ret ()))
      else if action = JobStatusCompleted then handleCompletedJob jobParams
      else m_ret ())"

text \<open>The runner that services a started or finished job: \<open>None\<close> when a scale set handles the job and the
  webhook is dropped, otherwise the job with the pool it ran in.\<close>

definition attribute_job :: "string \<Rightarrow> Job \<Rightarrow> ('w sys, Job option) prog" where
  "attribute_job action jobParams =
     (if (action = JobStatusInProgress \<or> action = JobStatusCompleted) \<and> j_RunnerName jobParams \<noteq> []
      then m_bind (m_option (on_db (GetInstance (j_RunnerName jobParams)))) (\<lambda>inst. case inst of
          None \<Rightarrow> m_ret (Some jobParams)
        | Some instance0 \<Rightarrow> if i_ScaleSetID instance0 \<noteq> 0
            then m_seq (m_ignore (on_db (DeleteJob (j_WorkflowJobID jobParams)))) (m_ret None)
            else m_ret (Some (case uuid_parse (i_PoolID instance0) of
                None \<Rightarrow> jobParams | Some poolID \<Rightarrow> jobParams\<lparr>j_PoolID := Some poolID\<rparr>)))
      else m_ret (Some jobParams))"

definition HandleWorkflowJob :: "'w env \<Rightarrow> WorkflowJobHook \<Rightarrow> ('w sys, unit) prog" where
  "HandleWorkflowJob env job = m_bind (get_mgr id) (\<lambda>r.
     m_seq (m_result (ValidateOwner r job))
       (if h_Labels job = [] then m_ret ()
        else m_bind (m_result (paramsWorkflowJobToParamsJob r job)) (\<lambda>jobParams0.
          m_bind (attribute_job (h_Action job) jobParams0) (\<lambda>attributed. case attributed of
            None \<Rightarrow> m_ret ()
          | Some jobParams \<Rightarrow> m_seq (persistJobToDB jobParams) (act_on_job env (h_Action job) jobParams)))))"

subsection \<open>The consumer of queued jobs\<close>

text \<open>The pools for the labels of a job: from the run's cache, or looked up and put there. The result is the key
  of the round robin, or nothing when the lookup failed.\<close>

definition pools_for_job :: "Job \<Rightarrow> poolsForTags \<Rightarrow> ('w sys, string option \<times> poolsForTags) prog" where
  "pools_for_job job poolsCache = (case poolsForTags_Get (j_Labels job) poolsCache of
     (Some key, poolsCache') \<Rightarrow> m_ret (Some key, poolsCache')
   | (None, poolsCache') \<Rightarrow> m_bind (get_mgr pm_entity) (\<lambda>entity.
       m_bind (m_option (on_db (FindPoolsMatchingAllTags (e_EntityType entity) (e_ID entity) (j_Labels job)))) (\<lambda>found.
         case found of None \<Rightarrow> m_ret (None, poolsCache')
         | Some potentialPools \<Rightarrow> m_bind (m_get (\<lambda>s. cv_scalesets (sy_cache s))) (\<lambda>scaleSets.
             case poolsForTags_Add (j_Labels job)
                (filter (\<lambda>pool. \<not> poolShadowedByScaleSet scaleSets pool (j_Labels job)) potentialPools) poolsCache' of
               (key, poolsCache'') \<Rightarrow> m_ret (Some key, poolsCache'')))))"

text \<open>At most as many attempts as there are pools; the first pool that takes a runner ends them.\<close>

primrec try_pools :: "'w env \<Rightarrow> Job \<Rightarrow> string \<Rightarrow> nat \<Rightarrow> poolsForTags \<Rightarrow> ('w sys, bool \<times> poolsForTags) prog" where
  "try_pools env job key 0 poolsCache = m_ret (False, poolsCache)"
| "try_pools env job key (Suc n) poolsCache = (case poolsForTags_Next key poolsCache of
     (Inl e, poolsCache') \<Rightarrow> if e = PanicError then m_throw e else m_ret (False, poolsCache')
   | (Inr pool, poolsCache') \<Rightarrow>
       m_bind (m_try (addRunnerToPool env pool [jobLabel (j_WorkflowJobID job)])) (\<lambda>res. case res of
         Inr _ \<Rightarrow> m_ret (True, poolsCache')
       | Inl e \<Rightarrow> try_pools env job key n poolsCache'))"

definition jobAgeLimit :: duration where "jobAgeLimit = 10 * minute"

text \<open>One iteration of the consumer: the run's pool cache and the number of added runners are carried along.\<close>

definition consume_job :: "'w env \<Rightarrow> Job \<Rightarrow> poolsForTags \<times> nat \<Rightarrow> ('w sys, poolsForTags \<times> nat) prog" where
  "consume_job env job acc = m_bind (get_mgr id) (\<lambda>r. m_bind time_now (\<lambda>now.
     let ID = e_ID (pm_entity r) in
     if j_LockedBy job \<noteq> uuid_nil \<and> uuid_string (j_LockedBy job) \<noteq> ID then m_ret acc
     else if now - j_UpdatedAt job < JobBackoff (pm_controllerInfo r) then m_ret acc
     else m_bind (if now - j_UpdatedAt job \<ge> jobAgeLimit
          then m_option (on_db (UnlockJob (j_WorkflowJobID job) ID)) else m_ret (Some ())) (\<lambda>unlocked.
       if unlocked = None \<or> uuid_string (j_LockedBy job) = ID then m_ret acc
       else m_bind (pools_for_job job (fst acc)) (\<lambda>(found, poolsCache). case found of
           None \<Rightarrow> m_ret (poolsCache, snd acc)
         | Some key \<Rightarrow>
             if poolsForTags_Len key poolsCache = 0 then m_ret (poolsCache, snd acc)
             else m_bind (m_option (on_db (LockJob (j_WorkflowJobID job) ID))) (\<lambda>locked.
               if locked = None then m_ret (poolsCache, snd acc)
               else m_bind (try_pools env job key (poolsForTags_Len key poolsCache) poolsCache) (\<lambda>(runnerCreated, poolsCache').
                 if runnerCreated then m_ret (poolsCache', snd acc + 1)
                 else m_seq (on_db (UnlockJob (j_WorkflowJobID job) ID)) (m_ret (poolsCache', snd acc))))))))"

definition consumeQueuedJobs :: "'w env \<Rightarrow> ('w sys, unit) prog" where
  "consumeQueuedJobs env = m_bind (get_mgr id) (\<lambda>r.
     m_bind (m_fold (consume_job env) (getQueuedJobs r)
       (\<lparr>pft_pools = Map.empty, pft_poolCacheType = GetPoolBalancerType (pm_entity r)\<rparr>, 0)) (\<lambda>(poolsCache, addedRunners).
       m_when (addedRunners > 0) (on_mgr (\<lambda>r. r\<lparr>pm_addPendingCh := True\<rparr>))))"

subsection \<open>Stale jobs\<close>

definition forget_checked :: "int \<Rightarrow> ('w sys, unit) prog" where
  "forget_checked jobID = on_mgr (\<lambda>r. r\<lparr>pm_checkedJobs := (pm_checkedJobs r)(jobID := None)\<rparr>)"

definition needs_check :: "basePoolManager \<Rightarrow> time \<Rightarrow> Job \<Rightarrow> bool" where
  "needs_check r now job \<longleftrightarrow> \<not> now - j_CreatedAt job < hour \<and>
     (case pm_checkedJobs r (j_WorkflowJobID job) of None \<Rightarrow> True | Some lastChecked \<Rightarrow> \<not> now - lastChecked < hour) \<and>
     j_RepositoryOwner job \<noteq> [] \<and> j_RepositoryName job \<noteq> []"

definition reconcile_job :: "'w env \<Rightarrow> Job \<Rightarrow> nat \<Rightarrow> ('w sys, nat) prog" where
  "reconcile_job env job checked = m_bind (get_mgr id) (\<lambda>r. m_bind time_now (\<lambda>now.
     if checked \<ge> 5 \<or> \<not> needs_check r now job then m_ret checked
     else let lockKey = staleJobLockPrefix @ ''-'' @ int_dec (j_WorkflowJobID job) in
       m_bind (with_lock lockKey (m_ret None)
         (m_bind (ghcall (env_GetWorkflowJobByID env (j_RepositoryOwner job) (j_RepositoryName job) (j_WorkflowJobID job))) (\<lambda>res.
            case res of
              Inl (e, code) \<Rightarrow> m_seq (if code = Some 404
                 then m_seq (m_ignore (on_db (DeleteJob (j_WorkflowJobID job)))) (forget_checked (j_WorkflowJobID job))
                 else m_ret ()) (m_ret (Some None))
            | Inr status \<Rightarrow> m_ret (Some (Some status))))
         (\<lambda>_. True))
       (\<lambda>outcome. case outcome of
          None \<Rightarrow> m_ret checked
        | Some None \<Rightarrow> m_ret (checked + 1)
        | Some (Some status) \<Rightarrow> m_seq
            (if status \<noteq> ''queued''
             then m_seq (m_ignore (on_db (DeleteJob (j_WorkflowJobID job)))) (forget_checked (j_WorkflowJobID job))
             else on_mgr (\<lambda>r. r\<lparr>pm_checkedJobs := (pm_checkedJobs r)(j_WorkflowJobID job \<mapsto> now)\<rparr>))
            (m_ret (checked + 1)))))"

definition reconcileStaleJobs :: "'w env \<Rightarrow> ('w sys, unit) prog" where
  "reconcileStaleJobs env = m_bind (get_mgr pm_entity) (\<lambda>entity.
     m_bind (m_try (on_db (ListEntityJobsByStatus (e_EntityType entity) (e_ID entity) JobStatusQueued))) (\<lambda>res. case res of
       Inl e \<Rightarrow> if error_is e NotFoundError then m_ret () else m_throw e
     | Inr queued \<Rightarrow> m_seq (m_fold (reconcile_job env) queued 0)
         (m_bind time_now (\<lambda>now. on_mgr (\<lambda>r. r\<lparr>pm_checkedJobs := (\<lambda>jobID. case pm_checkedJobs r jobID of
            None \<Rightarrow> None | Some lastChecked \<Rightarrow> if now - lastChecked > 2 * hour then None else Some lastChecked)\<rparr>)))))"

subsection \<open>The loops\<close>

datatype pool_loop = timeout_reaper | scale_down | delete_pending_loop | add_pending | ensure_min_idle
  | retry_failed | update_tools | job_queue_consumer | stale_job_reconciler | job_tombstone_reaper

fun loop_function :: "'w env \<Rightarrow> pool_loop \<Rightarrow> ('w sys, unit) prog" where
  "loop_function env timeout_reaper = runnerCleanup env"
| "loop_function env scale_down = scaleDown env"
| "loop_function env delete_pending_loop = deletePendingInstances env"
| "loop_function env add_pending = addPendingInstances env"
| "loop_function env ensure_min_idle = ensureMinIdleRunners env"
| "loop_function env retry_failed = retryFailedInstances env"
| "loop_function env update_tools = updateTools env"
| "loop_function env job_queue_consumer = consumeQueuedJobs env"
| "loop_function env stale_job_reconciler = reconcileStaleJobs env"
| "loop_function env job_tombstone_reaper = m_bind time_now (\<lambda>now. on_mgr (reapJobTombstones now))"

fun loop_always :: "pool_loop \<Rightarrow> bool" where
  "loop_always delete_pending_loop = True"
| "loop_always update_tools = True"
| "loop_always job_tombstone_reaper = True"
| "loop_always _ = False"

fun loop_tier :: "pool_loop \<Rightarrow> rateLimitTier" where
  "loop_tier delete_pending_loop = tierCritical"
| "loop_tier update_tools = tierInternal"
| "loop_tier job_tombstone_reaper = tierInternal"
| "loop_tier _ = tierNormal"

text \<open>One turn of \<^verbatim>\<open>startLoopForFunction\<close>.\<close>

definition loop_turn :: "'w env \<Rightarrow> pool_loop \<Rightarrow> ('w sys, unit) prog" where
  "loop_turn env l = m_bind (get_mgr pm_managerIsRunning) (\<lambda>isRunning.
     if \<not> (isRunning \<or> loop_always l) then m_ret ()
     else m_bind time_now (\<lambda>now. m_bind (m_get (\<lambda>s. tier_rateLimitReached (loop_tier l) (sy_cache s) now)) (\<lambda>(limited, resetAt).
       if limited then m_ret ()
       else m_bind (m_try (loop_function env l)) (\<lambda>res. case res of
           Inr _ \<Rightarrow> m_ret ()
         | Inl e \<Rightarrow> if error_is e UnauthorizedError then SetPoolRunningState False (env_error_text env e) else m_ret ()))))"

text \<open>The start of a manager up to the loops: runners caught in flight, then the tools.\<close>

definition Start_init :: "'w env \<Rightarrow> ('w sys, unit) prog" where
  "Start_init env = m_seq (SetPoolRunningState False ''pool manager is starting up'')
     (m_seq (m_ignore (cleanupRunnersInterruptedInFlight env)) (m_ignore (updateTools env)))"

text \<open>What can happen to a running system: a turn of a loop, a webhook, a notification of the store, a request
  to delete a runner, a rebuild of the client, its start and its end, time passing, another answer of the cache. A
  turn after \<open>Stop\<close> stands for what is still under way.\<close>

datatype manager_act = Turn pool_loop | Webhook WorkflowJobHook | Notification ChangePayload
  | Delete_Runner Instance bool bool | Rebuild_Client | Restart | Stop | Pass duration | Cache_Update cacheView

fun manager_run :: "'w env \<Rightarrow> manager_act \<Rightarrow> ('w sys, unit) prog" where
  "manager_run env (Turn l) = loop_turn env l"
| "manager_run env (Webhook job) = HandleWorkflowJob env job"
| "manager_run env (Notification ev) = m_bind time_now (\<lambda>now. on_mgr (handleWatcherEvent now ev))"
| "manager_run env (Delete_Runner inst force bypass) = DeleteRunner env inst force bypass"
| "manager_run env Rebuild_Client = updateClient env"
| "manager_run env Restart = Start_init env"
| "manager_run env Stop = m_modify (\<lambda>s. s\<lparr>sy_quit := True\<rparr>)"
| "manager_run env (Pass t) = m_modify (\<lambda>s. s\<lparr>sy_db := (sy_db s)\<lparr>db_clock := db_clock (sy_db s) + \<bar>t\<bar>\<rparr>\<rparr>)"
| "manager_run env (Cache_Update c) = m_modify (\<lambda>s. s\<lparr>sy_cache := c\<rparr>)"

definition manager_trace :: "'w env \<Rightarrow> manager_act list \<Rightarrow> 'w sys \<Rightarrow> 'w sys" where
  "manager_trace env = fold (\<lambda>a s. snd (manager_run env a s))"

end
