(* ===== verification/Garm_Manager_Steps.thy ===== *)
theory Garm_Manager_Steps
  imports Garm_Workflow
begin

text \<open>
  Relations every act of a manager steps along. The locale \<open>manager_order\<close> states what such a relation
  has to keep for the primitive calls of a manager (the writes of the store, the calls of the world, a
  section under a lock); inside it the whole manager is lifted once, loop by loop. Its interpretations
  are the limits of the pools, the ranks of the jobs, the locks and the creation attempts.
\<close>

subsection \<open>The reads of the store\<close>

lemma tbl_reads:
  "steps same_tables (GetPoolByID p)" "steps same_tables (GetEntityPool e p)" "steps same_tables (ListEntityInstances e)"
  "steps same_tables (FindPoolsMatchingAllTags t i l)" "steps same_tables (GetJobByID k)"
  "steps same_tables (ListEntityJobsByStatus t i s)"
  unfolding GetPoolByID_def GetEntityPool_def ListEntityInstances_def FindPoolsMatchingAllTags_def findPoolByTags_def
    GetJobByID_def ListEntityJobsByStatus_def list_jobs_where_def
  by (intro tbl.db_rules)+

lemmas store_reads = tbl_reads tbl.instance_reads

subsection \<open>The locale\<close>

locale manager_order = step_order Q for Q :: "'w sys \<Rightarrow> 'w sys \<Rightarrow> bool" +
  assumes Q_tables: "same_tables (sy_db s) d \<Longrightarrow> Q s (s\<lparr>sy_db := d\<rparr>)"
    and Q_status: "steps Q (on_db (SetEntityPoolManagerStatus e st))"
    and Q_mgr: "Q s (s\<lparr>sy_mgr := m\<rparr>)"
    and Q_world: "Q s (s\<lparr>sy_world := w\<rparr>)"
    and Q_backoff: "Q s (s\<lparr>sy_backoff := b\<rparr>)"
    and Q_lifecycle: "Q s (s\<lparr>sy_lifecycle := l\<rparr>)"
    and Q_cache: "Q s (s\<lparr>sy_cache := c\<rparr>)"
    and Q_clock: "Q s (s\<lparr>sy_db := (sy_db s)\<lparr>db_clock := t\<rparr>\<rparr>)"
    and Q_stop: "Q s (s\<lparr>sy_quit := True\<rparr>)"
    and Q_pending: "steps Q (delete_pending env i) \<Longrightarrow> steps Q (delete_pending_locked env i)"
    and Q_create: "steps Q (on_db (CreateInstance p cp))"
    and Q_update: "uip_CreateAttempt up \<le> maxCreateAttempts \<Longrightarrow> steps Q (on_db (updateInstance n up f))"
    and Q_delete: "steps Q (on_db (DeleteInstance p n))"
    and Q_DeleteJob: "steps Q (on_db (DeleteJob k))"
    and Q_LockJob: "steps Q (on_db (LockJob k e'))"
    and Q_UnlockJob: "steps Q (on_db (UnlockJob k e'))"
    and Q_BreakLock: "steps Q (on_db (BreakLockJobIsQueued k))"
    and Q_persist: "steps Q (persistJobToDB j)"
    and Q_lock: "steps Q (busy :: ('w sys, unit) prog) \<Longrightarrow> steps Q body \<Longrightarrow> steps Q (with_lock key busy body rm)"
    and Q_lock_bool: "steps Q (busyb :: ('w sys, bool) prog) \<Longrightarrow> steps Q bodyb \<Longrightarrow> steps Q (with_lock key busyb bodyb rmb)"
    and Q_lock_opt: "steps Q (busyo :: ('w sys, string option option) prog) \<Longrightarrow> steps Q bodyo \<Longrightarrow>
      steps Q (with_lock key busyo bodyo rmo)"
begin

lemma st_read: "steps same_tables m \<Longrightarrow> steps Q (on_db m)"
  unfolding on_db_def by (erule steps_lift) (rule Q_tables)

lemmas st_reads = store_reads [THEN st_read]

lemma st_world: "steps Q (on_world m)"
  by (rule stepsI) (simp add: on_world_def m_lift_def Q_world split: prod.splits)

lemma st_on_mgr: "steps Q (on_mgr f)"
  by (rule stepsI) (simp add: on_mgr_def Q_mgr)

lemma st_get_mgr: "steps Q (get_mgr f)"
  unfolding get_mgr_def by (rule st_get)

lemma st_time: "steps Q time_now"
  unfolding time_now_def by (rule st_get)

lemma st_ghcli: "steps Q (ghcli m)"
  unfolding ghcli_def by (intro st_rules st_get_mgr st_world)

lemma st_ghcall: "steps Q (ghcall m)"
proof -
  have "steps Q (\<lambda>s. case m (sy_world s) of (r, w) \<Rightarrow> (Inr r, s\<lparr>sy_world := w\<rparr>))"
    by (rule stepsI) (simp add: Q_world split: prod.splits)
  then show ?thesis unfolding ghcall_def by (intro st_rules st_get_mgr)
qed

lemma st_on_backoff: "steps Q (on_backoff f)"
  by (rule stepsI) (simp add: on_backoff_def Q_backoff)

lemma st_should_process: "steps Q (should_process k)"
  by (rule stepsI) (simp add: should_process_def Q_backoff split: prod.splits)

lemma st_lifecycle: "steps Q (recordLifecycleEvent p out)"
  by (rule stepsI) (simp add: recordLifecycleEvent_def Q_lifecycle)

lemma st_UpdateInstance: "uip_CreateAttempt up \<le> maxCreateAttempts \<Longrightarrow> steps Q (on_db (UpdateInstance n up))"
  and st_ForceUpdateInstance: "uip_CreateAttempt up \<le> maxCreateAttempts \<Longrightarrow> steps Q (on_db (ForceUpdateInstance n up))"
  unfolding UpdateInstance_def ForceUpdateInstance_def by (rule Q_update, assumption)+

lemma st_setInstanceRunnerStatus: "steps Q (setInstanceRunnerStatus n st)"
  unfolding setInstanceRunnerStatus_def
  by (rule st_ForceUpdateInstance) (simp add: empty_update_def maxCreateAttempts_def)

lemma st_setInstanceStatus: "steps Q (setInstanceStatus n st pf f)"
  unfolding setInstanceStatus_def Let_def
  by (intro st_if st_UpdateInstance st_ForceUpdateInstance) (simp_all add: empty_update_def maxCreateAttempts_def)

lemma st_SetPoolRunningState: "steps Q (SetPoolRunningState b why)"
  unfolding SetPoolRunningState_def by (intro st_rules st_on_mgr st_get_mgr Q_status)

lemma st_GetEntityPool': "steps Q (GetEntityPool' p)"
  unfolding GetEntityPool'_def by (intro st_rules st_get_mgr st_reads)

lemma st_ListEntityInstances': "steps Q ListEntityInstances'"
  unfolding ListEntityInstances'_def by (intro st_rules st_get_mgr st_reads)

lemma st_get_provider: "steps Q (get_provider env n)"
  unfolding get_provider_def by (rule st_result)

lemmas base_rules = st_rules st_reads st_world st_on_mgr st_get_mgr st_time st_ghcli st_ghcall st_on_backoff st_should_process
  st_lifecycle st_setInstanceRunnerStatus st_setInstanceStatus st_SetPoolRunningState st_GetEntityPool'
  st_ListEntityInstances' st_get_provider Q_create Q_delete Q_DeleteJob Q_LockJob Q_UnlockJob Q_BreakLock Q_persist
  Q_lock Q_lock_bool Q_lock_opt

subsection \<open>Runners\<close>

lemma st_updateTools: "steps Q (updateTools env)"
  unfolding updateTools_def by (intro base_rules)

lemma st_updateClient: "steps Q (updateClient env)"
  unfolding updateClient_def by (intro base_rules st_updateTools)

lemma st_AddRunner: "steps Q (AddRunner env p l)"
  unfolding AddRunner_def by (intro base_rules)

lemma st_cleanup_provider: "steps Q (cleanup_provider pv b i)"
  unfolding cleanup_provider_def by (intro base_rules)

lemma st_addInstanceToProvider: "steps Q (addInstanceToProvider env i)"
  unfolding addInstanceToProvider_def
  by (intro base_rules st_cleanup_provider st_UpdateInstance)
    (simp add: updateArgsFromProviderInstance_def empty_update_def maxCreateAttempts_def)

lemma st_addPendingInstances: "steps Q (addPendingInstances env)"
  unfolding addPendingInstances_def by (intro base_rules st_addInstanceToProvider)

lemma st_addRunnerToPool: "steps Q (addRunnerToPool env p l)"
  unfolding addRunnerToPool_def by (intro base_rules st_AddRunner)

lemma st_ensureIdle: "steps Q (ensureIdleRunnersForOnePool env p)"
  unfolding ensureIdleRunnersForOnePool_def by (intro base_rules st_AddRunner)

lemma st_ensureMinIdle: "steps Q (ensureMinIdleRunners env)"
  unfolding ensureMinIdleRunners_def by (intro base_rules st_ensureIdle)

lemma st_DeleteRunner: "steps Q (DeleteRunner env i f b)"
  unfolding DeleteRunner_def by (intro base_rules)

lemma st_deleteInstanceFromProvider: "steps Q (deleteInstanceFromProvider env i)"
  unfolding deleteInstanceFromProvider_def by (intro base_rules)

lemma st_delete_pending: "steps Q (delete_pending env i)"
  unfolding delete_pending_def delete_pending_body_def by (intro base_rules st_deleteInstanceFromProvider)

lemma st_delete_pending_locked: "steps Q (delete_pending_locked env i)"
  by (rule Q_pending) (rule st_delete_pending)

lemma st_deletePendingInstances: "steps Q (deletePendingInstances env)"
  unfolding deletePendingInstances_def by (intro base_rules st_delete_pending_locked)

lemma st_cleanupInterrupted: "steps Q (cleanupRunnersInterruptedInFlight env)"
  unfolding cleanupRunnersInterruptedInFlight_def by (intro base_rules st_DeleteRunner)

lemma st_scale_down_workers: "(\<And>e. steps Q (rest e)) \<Longrightarrow> steps Q (scale_down_workers env p rest is err)"
  by (induction "is" arbitrary: err) (auto intro!: base_rules st_DeleteRunner)

lemma st_delete_stale_queued: "steps Q (delete_stale_queued p)"
  unfolding delete_stale_queued_def by (intro base_rules)

lemma st_scaleDown: "steps Q (scaleDown env)"
  unfolding scaleDown_def scaleDownOnePool_def
  by (intro base_rules st_scale_down_workers st_delete_stale_queued)

lemma st_retry: "i_CreateAttempt i < maxCreateAttempts \<Longrightarrow> steps Q (retry_instance env i)"
  unfolding retry_instance_def
  by (intro base_rules st_deleteInstanceFromProvider st_ForceUpdateInstance) (simp add: empty_update_def)

lemma st_retryFailed: "steps Q (retryFailedInstances env)"
  unfolding retryFailedInstances_def retryFailedInstancesForOnePool_def
  by (intro base_rules st_retry) simp

lemma st_list_runner_pages: "steps Q (list_runner_pages env n page acc)"
  by (induction n arbitrary: page acc) (auto intro!: base_rules split: prod.splits)

lemma st_GetGithubRunners: "steps Q (GetGithubRunners env)"
  unfolding GetGithubRunners_def listRunnersWithPagination_def listRunnersWithScaleSetAPI_def
  by (intro base_rules st_list_runner_pages)

lemma st_locked_loop: "(\<And>i. steps Q (body i)) \<Longrightarrow> steps Q (locked_loop skip body is)"
  by (induction "is") (auto intro!: base_rules)

lemma st_reap: "steps Q (reapTimedOutRunners env rs)"
  unfolding reapTimedOutRunners_def reap_body_def by (intro base_rules st_locked_loop st_DeleteRunner)

lemma st_orphaned_provider: "steps Q (cleanupOrphanedProviderRunners env rs)"
  unfolding cleanupOrphanedProviderRunners_def orphaned_provider_body_def by (intro base_rules st_locked_loop)

lemma st_orphaned_github: "steps Q (cleanupOrphanedGithubRunners env rs)"
  unfolding cleanupOrphanedGithubRunners_def orphaned_github_one_def orphaned_github_body_def
  by (intro base_rules)

lemma st_runnerCleanup: "steps Q (runnerCleanup env)"
  unfolding runnerCleanup_def cleanupOrphanedRunners_def
  by (intro base_rules st_GetGithubRunners st_reap st_orphaned_provider st_orphaned_github)

subsection \<open>Jobs\<close>

lemma st_m_option: "steps Q m \<Longrightarrow> steps Q (m_option m)"
  unfolding m_option_def by (intro base_rules)

lemma st_handleCompletedJob: "steps Q (handleCompletedJob j)"
  unfolding handleCompletedJob_def by (intro base_rules st_m_option)

lemma st_handleInProgressJob: "steps Q (handleInProgressJob env j)"
  unfolding handleInProgressJob_def by (intro base_rules st_m_option st_ensureIdle)

lemma st_HandleWorkflowJob: "steps Q (HandleWorkflowJob env h)"
  unfolding HandleWorkflowJob_def attribute_job_def act_on_job_def wake_consumer_def
  by (intro base_rules st_m_option st_handleInProgressJob st_handleCompletedJob)

lemma st_try_pools: "steps Q (try_pools env j k n c)"
  by (induction n arbitrary: c) (auto intro!: base_rules st_addRunnerToPool split: prod.splits sum.splits)

lemma st_pools_for_job: "steps Q (pools_for_job j c)"
  unfolding pools_for_job_def by (intro base_rules st_m_option)

lemma st_consume_job: "steps Q (consume_job env j acc)"
  unfolding consume_job_def by (intro base_rules st_m_option st_pools_for_job st_try_pools)

lemma st_consumeQueuedJobs: "steps Q (consumeQueuedJobs env)"
  unfolding consumeQueuedJobs_def by (intro base_rules st_consume_job)

lemma st_reconcileStaleJobs: "steps Q (reconcileStaleJobs env)"
  unfolding reconcileStaleJobs_def reconcile_job_def forget_checked_def by (intro base_rules)

subsection \<open>The whole manager\<close>

lemma st_loop_function: "steps Q (loop_function env l)"
  by (cases l) (simp_all add: st_runnerCleanup st_scaleDown st_deletePendingInstances st_addPendingInstances
      st_ensureMinIdle st_retryFailed st_updateTools st_consumeQueuedJobs st_reconcileStaleJobs base_rules)

lemma st_loop_turn: "steps Q (loop_turn env l)"
  unfolding loop_turn_def by (intro base_rules st_loop_function)

lemma st_Start_init: "steps Q (Start_init env)"
  unfolding Start_init_def by (intro base_rules st_cleanupInterrupted st_updateTools)

lemma st_manager_run: "steps Q (manager_run env a)"
proof (cases a)
  case (Pass t)
  then show ?thesis by (simp add: steps_def Q_clock)
next
  case (Cache_Update c)
  then show ?thesis by (simp add: steps_def Q_cache)
next
  case Stop
  then show ?thesis by (simp add: steps_def Q_stop)
qed (simp_all add: st_loop_turn st_HandleWorkflowJob st_DeleteRunner st_updateClient st_Start_init base_rules)

lemma trace: "Q s (manager_trace env as s)"
proof (induction as arbitrary: s)
  case (Cons a as)
  have "Q s (snd (manager_run env a s))" using st_manager_run by (rule stepsD_snd)
  with Cons R_trans show ?case by (simp add: manager_trace_def)
qed (simp add: manager_trace_def R_refl)

end

subsection \<open>Recording a job\<close>

lemma GetJobByID_result:
  assumes "GetJobByID k d = (r, d')"
  shows "same_tables d d'"
    and "r = Inl e \<Longrightarrow> error_is e NotFoundError \<Longrightarrow> find_job k d = None"
    and "r = Inr job \<Longrightarrow> \<exists>j. find_job k d = Some j \<and> j_Action job = jr_Action j"
proof -
  show "same_tables d d'" using stepsD [OF tbl_reads(5) assms] .
  show "find_job k d = None" if "r = Inl e" "error_is e NotFoundError"
    using assms that
    by (auto simp: GetJobByID_def db_read_def db_stmt_def option_or_def DatabaseError_def find_job_def
        split: list.splits if_splits option.splits)
  show "\<exists>j. find_job k d = Some j \<and> j_Action job = jr_Action j" if "r = Inr job"
    using assms that
    by (auto simp: GetJobByID_def db_read_def db_stmt_def option_or_def job_with_instance_def sqlWorkflowJobToParamsJob_def
        find_job_def split: list.splits if_splits option.splits)
qed

lemma on_db_run: "on_db m s = (case m (sy_db s) of (r, d) \<Rightarrow> (r, s\<lparr>sy_db := d\<rparr>))"
  by (simp add: on_db_def m_lift_def)

lemma shouldRecordJob_tables:
  assumes "shouldRecordJob j new s = (r, s')"
  shows "same_tables (sy_db s) (sy_db s')"
proof -
  have refl: "same_tables d d" for d by (rule tbl.R_refl)
  have "same_tables (sy_db s) (sy_db (snd (on_db m s)))" if "steps same_tables m" for m :: "(db, 'b) prog" and s :: "'a sys"
    using stepsD_snd [OF that, of "sy_db s"] by (cases "m (sy_db s)") (simp add: on_db_run)
  from this [OF tbl_reads(4)] this [OF store_reads(7)] assms refl show ?thesis
    by (auto simp: shouldRecordJob_def m_bind_def m_try_def get_mgr_def split: if_splits prod.splits)
      (metis snd_conv)+
qed

lemma persistJobToDB_cases:
  assumes "persistJobToDB j s = (r, s')"
  obtains (kept) "same_tables (sy_db s) (sy_db s')"
  | (recorded) d1 where "same_tables (sy_db s) d1" "sy_db s' = snd (CreateOrUpdateJob j d1)"
      "\<And>j0. find_job (j_WorkflowJobID j) (sy_db s) = Some j0 \<Longrightarrow> statusRank (jr_Action j0) \<le> statusRank (j_Action j)"
proof -
  obtain res d0 where get: "GetJobByID (j_WorkflowJobID j) (sy_db s) = (res, d0)"
    by (cases "GetJobByID (j_WorkflowJobID j) (sy_db s)") auto
  have t0: "same_tables (sy_db s) d0" using GetJobByID_result(1) [OF get] .
  let ?ok = "case res of Inl e \<Rightarrow> error_is e NotFoundError | Inr job \<Rightarrow> \<not> statusRank (j_Action j) < statusRank (j_Action job)"
  show thesis
  proof (cases "j_WorkflowJobID j \<noteq> 0 \<and> ?ok")
    case False
    then have "sy_db s' = sy_db s \<or> sy_db s' = d0"
      using assms get by (auto simp: persistJobToDB_def m_bind_def m_try_def on_db_run split: sum.splits if_splits)
    with t0 kept tbl.R_refl show thesis by metis
  next
    case True
    obtain rr s1 where sh: "shouldRecordJob j (isl res) (s\<lparr>sy_db := d0\<rparr>) = (rr, s1)"
      by (cases "shouldRecordJob j (isl res) (s\<lparr>sy_db := d0\<rparr>)") auto
    have t1: "same_tables (sy_db s) (sy_db s1)"
      using tbl.R_trans [OF t0] shouldRecordJob_tables [OF sh] by simp
    have rank: "statusRank (jr_Action j0) \<le> statusRank (j_Action j)"
      if "find_job (j_WorkflowJobID j) (sy_db s) = Some j0" for j0
      using True GetJobByID_result(2,3) [OF get] that by (cases res) auto
    have "persistJobToDB j s = (m_bind (shouldRecordJob j (isl res)) (\<lambda>record0. if \<not> record0 then m_throw UnprocessableError
        else m_seq (on_db (CreateOrUpdateJob j)) (m_ret ()))) (s\<lparr>sy_db := d0\<rparr>)"
      using True get by (cases res) (simp_all add: persistJobToDB_def m_bind_def m_try_def on_db_run)
    with assms sh have "sy_db s' = sy_db s1 \<or> sy_db s' = snd (CreateOrUpdateJob j (sy_db s1))"
      by (auto simp: m_bind_def m_seq_def on_db_run split: sum.splits if_splits prod.splits)
    then show thesis using kept recorded t1 rank by metis
  qed
qed

subsection \<open>Relations on the store\<close>

lemma on_db_steps: "steps R m \<Longrightarrow> steps (\<lambda>s s'. R (sy_db s) (sy_db s')) (on_db m)"
  unfolding on_db_def by (erule steps_lift) simp

locale db_manager = db_order R for R :: "db \<Rightarrow> db \<Rightarrow> bool" +
  assumes D_tables: "same_tables d d' \<Longrightarrow> R d d'"
    and D_clock: "R d (d\<lparr>db_clock := t\<rparr>)"
    and D_status: "steps R (SetEntityPoolManagerStatus e st)"
    and D_create: "steps R (CreateInstance p cp)"
    and D_update: "uip_CreateAttempt up \<le> maxCreateAttempts \<Longrightarrow> steps R (updateInstance n up f)"
    and D_delete: "steps R (DeleteInstance p n)"
    and D_jobs: "steps R (DeleteJob k)" "steps R (LockJob k e')" "steps R (UnlockJob k e')" "steps R (BreakLockJobIsQueued k)"
    and D_record: "(\<And>j0. find_job (j_WorkflowJobID j) d = Some j0 \<Longrightarrow> statusRank (jr_Action j0) \<le> statusRank (j_Action j)) \<Longrightarrow>
      R d (snd (CreateOrUpdateJob j d))"
begin

lemma on_stores: "steps (\<lambda>s s'. R (sy_db s) (sy_db s')) (try_lock key)" "steps (\<lambda>s s'. R (sy_db s) (sy_db s')) (unlock key rm)"
  "steps (\<lambda>s s'. R (sy_db s) (sy_db s')) (should_process key)" "steps (\<lambda>s s'. R (sy_db s) (sy_db s')) (on_backoff f)"
  by (rule stepsI, simp add: try_lock_def unlock_def should_process_def on_backoff_def R_refl split: prod.splits)+

end

sublocale db_manager \<subseteq> so: step_order "\<lambda>s s'. R (sy_db s) (sy_db s')"
  by unfold_locales (rule R_refl, rule R_trans)

context db_manager
begin

lemma with_lock_db:
  "steps (\<lambda>s s'. R (sy_db s) (sy_db s')) busy \<Longrightarrow> steps (\<lambda>s s'. R (sy_db s) (sy_db s')) body \<Longrightarrow>
   steps (\<lambda>s s'. R (sy_db s) (sy_db s')) (with_lock key busy body rm)"
  unfolding with_lock_def by (intro so.st_rules on_stores)

lemma pending_db:
  "steps (\<lambda>s s'. R (sy_db s) (sy_db s')) (delete_pending env i) \<Longrightarrow>
   steps (\<lambda>s s'. R (sy_db s) (sy_db s')) (delete_pending_locked env i)"
  unfolding delete_pending_locked_def by (intro so.st_rules on_stores)

lemma persist_db: "steps (\<lambda>s s'. R (sy_db s) (sy_db s')) (persistJobToDB j)"
proof (rule stepsI)
  fix s :: "'w sys"
  have "persistJobToDB j s = (fst (persistJobToDB j s), snd (persistJobToDB j s))" by simp
  then show "R (sy_db s) (sy_db (snd (persistJobToDB j s)))"
  proof (cases rule: persistJobToDB_cases)
    case (recorded d1)
    have "find_job k d1 = find_job k (sy_db s)" for k
      using recorded(1) by (simp add: same_tables_def find_job_def)
    with recorded(3) have "R d1 (snd (CreateOrUpdateJob j d1))" by (intro D_record) simp
    with recorded(2) R_trans [OF D_tables [OF recorded(1)]] show ?thesis by simp
  qed (rule D_tables)
qed

end

sublocale db_manager \<subseteq> mo: manager_order "\<lambda>s s'. R (sy_db s) (sy_db s')"
  by unfold_locales (simp_all add: R_refl D_tables D_clock on_db_steps D_status D_create D_update D_delete D_jobs
    with_lock_db pending_db persist_db)

subsection \<open>Limits and creation attempts\<close>

text \<open>What does not touch runners and pools.\<close>

definition same_runners :: "db \<Rightarrow> db \<Rightarrow> bool" where
  "same_runners d d' \<longleftrightarrow> db_instances d' = db_instances d \<and> db_pools d' = db_pools d"

interpretation srun: db_order same_runners
  by unfold_locales (simp_all add: same_runners_def)

lemma srun_rows: "steps same_runners (save_job inst j)" "steps same_runners (insert_job j)"
  "(\<And>d. same_runners d (g d)) \<Longrightarrow> steps same_runners (m_modify g)"
  by (rule stepsI, simp add: save_job_def insert_job_def same_runners_def Let_def)+

lemma srun_jobs: "steps same_runners (DeleteJob k)" "steps same_runners (LockJob k e)" "steps same_runners (UnlockJob k e)"
  "steps same_runners (BreakLockJobIsQueued k)" "steps same_runners (CreateOrUpdateJob j)"
  unfolding DeleteJob_def LockJob_def UnlockJob_def BreakLockJobIsQueued_def CreateOrUpdateJob_def create_or_update_tx_def
    set_lock_def notify_job_def
  by (intro srun.db_rules srun_rows; simp add: same_runners_def)+

lemma srun_status: "steps same_runners (SetEntityPoolManagerStatus e st)"
  unfolding SetEntityPoolManagerStatus_def
  by (intro srun.st_tx stepsI) (simp add: same_runners_def split: option.splits)

text \<open>A relation on the runners and pools holds of the whole manager when creation, update and deletion step along it.\<close>

locale runner_manager = db_order R for R :: "db \<Rightarrow> db \<Rightarrow> bool" +
  assumes S_keep: "same_runners d d' \<Longrightarrow> R d d'"
    and S_create: "steps R (create_instance_tx p cp)"
    and S_update: "uip_CreateAttempt up \<le> maxCreateAttempts \<Longrightarrow> steps R (update_instance_tx n up f)"
    and S_delete: "steps R (m_modify (delete_instance_row u))"
begin

lemma keep_steps: "steps same_runners m \<Longrightarrow> steps R m"
  by (simp add: steps_def S_keep)

end

sublocale runner_manager \<subseteq> dm: db_manager R
proof (unfold_locales, goal_cases)
  case (1 d d') then show ?case by (intro S_keep) (simp add: same_tables_def same_runners_def)
next
  case (2 d t) then show ?case by (intro S_keep) (simp add: same_runners_def)
next
  case 11 then show ?case by (intro stepsD_snd [OF keep_steps] srun_jobs)
qed (simp_all add: keep_steps srun_status srun_jobs st_CreateInstance S_create st_updateInstance S_update
    st_DeleteInstance S_delete)

lemma store_keep: "same_runners d d' \<Longrightarrow> store_step d d'"
  by (rule store_stepI) (simp_all add: same_runners_def keys_ok_def capacity_same count_pool_def)

interpretation lim: runner_manager store_step
  by unfold_locales (simp_all add: store_keep store_create_tx store_update_tx store_delete_row)

definition attempts_ok :: "db \<Rightarrow> bool" where
  "attempts_ok d \<longleftrightarrow> (\<forall>i \<in> set (db_instances d). ir_CreateAttempt i \<le> maxCreateAttempts)"

definition attempts_step :: "db \<Rightarrow> db \<Rightarrow> bool" where
  "attempts_step d d' \<longleftrightarrow> (attempts_ok d \<longrightarrow> attempts_ok d')"

lemma attempts_keep: "same_runners d d' \<Longrightarrow> attempts_step d d'"
  by (simp add: attempts_step_def attempts_ok_def same_runners_def)

interpretation att: db_order attempts_step
  by unfold_locales (simp add: attempts_step_def, simp add: attempts_step_def, simp_all add: attempts_keep same_runners_def)

lemma attempts_insert: "ir_CreateAttempt r = 0 \<Longrightarrow> steps attempts_step (insert_instance r)"
  by (rule stepsI) (auto simp: insert_instance_def attempts_step_def attempts_ok_def maxCreateAttempts_def)

lemma attempts_create: "steps attempts_step (create_instance_tx p c)"
  unfolding create_instance_tx_def by (intro att.db_rules attempts_insert) (simp add: new_instance_def)

lemma attempts_update:
  assumes "uip_CreateAttempt up \<le> maxCreateAttempts"
  shows "steps attempts_step (update_instance_tx n up f)"
proof (rule stepsI)
  fix d
  obtain r d' where run: "update_instance_tx n up f d = (r, d')"
    by (cases "update_instance_tx n up f d") auto
  from run have "attempts_step d d'"
  proof (cases rule: update_tx_cases)
    case (ok i addrs)
    have "attempts_ok d \<Longrightarrow> ir_CreateAttempt (applyInstanceUpdates up i) \<le> maxCreateAttempts"
      using assms ok(2) by (simp add: attempts_ok_def applyInstanceUpdates_def)
    then show ?thesis
      by (auto simp: ok(6) attempts_step_def attempts_ok_def upd_instance_def elim!: upd_rowsE)
  qed (simp add: att.R_refl)
  with run show "attempts_step d (snd (update_instance_tx n up f d))" by simp
qed

lemma attempts_delete: "steps attempts_step (m_modify (delete_instance_row u))"
  by (rule steps_modify) (simp add: attempts_step_def attempts_ok_def delete_instance_row_def del_rows_def)

interpretation tries: runner_manager attempts_step
  by unfold_locales (simp_all add: attempts_keep attempts_create attempts_update attempts_delete)

subsection \<open>The rank of a job\<close>

text \<open>A row that was there before the step keeps its identity and its rank does not fall. Row identifiers below
  \<open>db_next_job\<close> have been given out.\<close>

definition job_advances :: "WorkflowJob \<Rightarrow> WorkflowJob \<Rightarrow> bool" where
  "job_advances j j' \<longleftrightarrow> jr_ID j = jr_ID j' \<and> jr_WorkflowJobID j = jr_WorkflowJobID j' \<and>
     statusRank (jr_Action j) \<le> statusRank (jr_Action j')"

definition rank_step :: "db \<Rightarrow> db \<Rightarrow> bool" where
  "rank_step d d' \<longleftrightarrow> (jobs_ok d \<longrightarrow> jobs_ok d' \<and> db_next_job d \<le> db_next_job d' \<and>
     (\<forall>j' \<in> set (db_jobs d'). jr_ID j' < db_next_job d \<longrightarrow> (\<exists>j \<in> set (db_jobs d). job_advances j j')))"

lemma job_advances_refl: "job_advances j j"
  by (simp add: job_advances_def)

lemma job_advances_trans: "job_advances i j \<Longrightarrow> job_advances j k \<Longrightarrow> job_advances i k"
  by (simp add: job_advances_def)

lemma rank_stepI:
  assumes "jobs_step d d'" "db_next_job d \<le> db_next_job d'"
    "\<And>j'. jobs_ok d \<Longrightarrow> j' \<in> set (db_jobs d') \<Longrightarrow> jr_ID j' < db_next_job d \<Longrightarrow> \<exists>j \<in> set (db_jobs d). job_advances j j'"
  shows "rank_step d d'"
  using assms unfolding rank_step_def jobs_step_def by blast

lemma rank_step_less:
  assumes "jobs_step d d'" "db_next_job d' = db_next_job d" "set (db_jobs d') \<subseteq> set (db_jobs d)"
  shows "rank_step d d'"
  using assms job_advances_refl by (intro rank_stepI) auto

lemma rank_step_trans:
  assumes "rank_step a b" "rank_step b c"
  shows "rank_step a c"
  unfolding rank_step_def
proof (intro impI conjI ballI)
  assume ok: "jobs_ok a"
  note ab = assms(1) [unfolded rank_step_def, rule_format, OF ok]
  then have "jobs_ok b" by blast
  note bc = assms(2) [unfolded rank_step_def, rule_format, OF this]
  show "jobs_ok c" using bc by blast
  show "db_next_job a \<le> db_next_job c" using ab bc by (meson order_trans)
  fix k assume k: "k \<in> set (db_jobs c)" "jr_ID k < db_next_job a"
  with ab have "jr_ID k < db_next_job b" by (meson less_le_trans)
  with bc k(1) obtain j where j: "j \<in> set (db_jobs b)" "job_advances j k" by blast
  with k(2) have "jr_ID j < db_next_job a" by (simp add: job_advances_def)
  with ab j(1) obtain i where "i \<in> set (db_jobs a)" "job_advances i j" by blast
  with j(2) job_advances_trans show "\<exists>j \<in> set (db_jobs a). job_advances j k" by blast
qed

lemma rank_step_same: "db_jobs d' = db_jobs d \<Longrightarrow> db_next_job d' = db_next_job d \<Longrightarrow> rank_step d d'"
  by (rule rank_step_less) (simp_all add: jobs_step_same)

interpretation rnk: db_order rank_step
  by unfold_locales (simp add: rank_step_same, erule (1) rank_step_trans, simp_all add: rank_step_same)

text \<open>A row rewritten under its old identity.\<close>

lemma rank_save:
  assumes "j \<in> set (db_jobs d)" "jr_ID j1 = jr_ID j" "jr_WorkflowJobID j1 = jr_WorkflowJobID j"
    "statusRank (jr_Action j) \<le> statusRank (jr_Action j1)"
  shows "rank_step d (snd (save_job inst j1 d))"
proof (rule rank_stepI)
  show "jobs_step d (snd (save_job inst j1 d))"
    using save_job_ok [OF _ assms(1-3)] by (simp add: jobs_step_def)
  show "db_next_job d \<le> db_next_job (snd (save_job inst j1 d))" by (simp add: save_job_def Let_def)
  fix j' assume j': "j' \<in> set (db_jobs (snd (save_job inst j1 d)))"
  show "\<exists>j \<in> set (db_jobs d). job_advances j j'"
  proof (cases "j' \<in> set (db_jobs d)")
    case False
    with j' have "jr_ID j' = jr_ID j1" "jr_WorkflowJobID j' = jr_WorkflowJobID j1" "jr_Action j' = jr_Action j1"
      by (auto simp: save_job_def Let_def split: if_splits elim!: upd_rowsE)
    with assms have "job_advances j j'" by (simp add: job_advances_def)
    with assms(1) show ?thesis by blast
  qed (use job_advances_refl in blast)
qed

lemma rank_del: "steps rank_step (m_modify (\<lambda>d. d\<lparr>db_jobs := del_rows P (db_jobs d)\<rparr>))"
  using stepsD_snd [OF jobs_step_del [of P]] by (intro stepsI rank_step_less) (simp_all add: del_rows_def)

interpretation rjb: job_rows rank_step
  by unfold_locales (rule rank_del, erule rank_save, simp_all)

lemma rank_insert:
  assumes "find_job (jr_WorkflowJobID j) d = None"
  shows "rank_step d (snd (insert_job j d))"
proof (rule rank_stepI)
  show "jobs_step d (snd (insert_job j d))" using insert_job_ok [OF _ assms] by (simp add: jobs_step_def)
  show "db_next_job d \<le> db_next_job (snd (insert_job j d))" by (simp add: insert_job_def Let_def)
  show "\<exists>i \<in> set (db_jobs d). job_advances i j'"
    if "j' \<in> set (db_jobs (snd (insert_job j d)))" "jr_ID j' < db_next_job d" for j'
    using that job_advances_refl by (auto simp: insert_job_def Let_def split: if_splits)
qed

lemma rank_create_or_update:
  assumes "\<And>j0. find_job (j_WorkflowJobID job) d = Some j0 \<Longrightarrow> statusRank (jr_Action j0) \<le> statusRank (j_Action job)"
  shows "rank_step d (snd (create_or_update_tx job d))"
proof (cases "find_job (j_WorkflowJobID job) d")
  case None
  then have "rank_step d (snd (insert_job ((paramsJobToWorkflowJob job d)\<lparr>jr_WorkflowRunURL := w\<rparr>) d))" for w
    by (intro rank_insert) simp
  with None show ?thesis
    by (simp add: create_or_update_tx_def m_bind_def split: prod.splits sum.splits) (metis snd_conv)
next
  case (Some j)
  have "rank_step d (snd (save_job inst (update_job_row job d j) d))" for inst
    using find_job_mem [OF Some] assms [OF Some] by (intro rank_save [of j]) (simp_all add: update_job_row_def)
  with Some show ?thesis
    by (simp add: create_or_update_tx_def m_bind_def split: prod.splits sum.splits) (metis snd_conv)
qed

lemma rank_record:
  assumes "\<And>j0. find_job (j_WorkflowJobID job) d = Some j0 \<Longrightarrow> statusRank (jr_Action j0) \<le> statusRank (j_Action job)"
  shows "rank_step d (snd (CreateOrUpdateJob job d))"
proof -
  obtain r d1 where tx: "db_tx (create_or_update_tx job) d = (r, d1)"
    by (cases "db_tx (create_or_update_tx job) d") auto
  have "rank_step d d1"
    using tx
  proof (cases rule: db_tx_cases)
    case (committed x bs)
    have "rank_step (d\<lparr>db_faults := bs\<rparr>) (snd (create_or_update_tx job (d\<lparr>db_faults := bs\<rparr>)))"
      by (rule rank_create_or_update) (simp add: assms)
    with committed(2) rnk.R_trans [OF rnk.R_faults] show ?thesis by (metis snd_conv)
  qed (simp add: same_tables_def rank_step_same)
  moreover have "rank_step d1 (snd (m_seq (sendNotify JobEntityType a (JobPayload b)) (m_ret b) d1))" for a b
    by (rule stepsD_snd) (intro rnk.db_rules)
  ultimately show ?thesis
    using tx by (cases r) (auto simp: CreateOrUpdateJob_def m_bind_def intro: rank_step_trans)
qed

lemma rank_tables: "same_tables d d' \<Longrightarrow> rank_step d d'"
  by (rule rank_step_same) (simp_all add: same_tables_def)

lemma rank_runners:
  "steps rank_step (SetEntityPoolManagerStatus e st)" "steps rank_step (create_instance_tx p c)"
  "steps rank_step (update_instance_tx n up f)" "steps rank_step (m_modify (delete_instance_row u))"
proof -
  show "steps rank_step (SetEntityPoolManagerStatus e st)"
    unfolding SetEntityPoolManagerStatus_def
    by (intro rnk.st_tx stepsI) (simp add: rank_step_same split: option.splits)
  show "steps rank_step (create_instance_tx p c)"
    unfolding create_instance_tx_def by (intro rnk.db_rules stepsI) (simp add: insert_instance_def rank_step_same)
  show "steps rank_step (update_instance_tx n up f)"
  proof (rule stepsI)
    fix d
    obtain r d' where run: "update_instance_tx n up f d = (r, d')"
      by (cases "update_instance_tx n up f d") auto
    from run have "rank_step d d'"
      by (cases rule: update_tx_cases) (simp_all add: rnk.R_refl rank_step_same upd_instance_def)
    with run show "rank_step d (snd (update_instance_tx n up f d))" by simp
  qed
  show "steps rank_step (m_modify (delete_instance_row u))"
    using stepsD_snd [OF jobs_instance_row [of u]]
    by (intro stepsI rank_step_less) (auto simp: delete_instance_row_def del_rows_def)
qed

interpretation rank: db_manager rank_step
proof (unfold_locales, goal_cases)
  case 11 then show ?case by (rule rank_record)
qed (simp_all add: rank_tables rank_step_same rank_runners rnk.st_CreateInstance rnk.st_updateInstance rnk.st_DeleteInstance
    rjb.st_DeleteJob rjb.st_LockJob rjb.st_UnlockJob rjb.st_BreakLock)

subsection \<open>The locks\<close>

text \<open>Until the manager is stopped.\<close>

definition locks_step :: "'w sys \<Rightarrow> 'w sys \<Rightarrow> bool" where
  "locks_step s s' \<longleftrightarrow> (sy_quit s \<longrightarrow> sy_quit s') \<and> (keyMutex_invar (sy_locks s) \<longrightarrow> keyMutex_invar (sy_locks s') \<and>
     (\<not> sy_quit s' \<longrightarrow> keyMutex_held (sy_locks s') = keyMutex_held (sy_locks s)))"

lemma locks_step_same: "sy_locks s' = sy_locks s \<Longrightarrow> sy_quit s' = sy_quit s \<Longrightarrow> locks_step s s'"
  by (simp add: locks_step_def)

lemma locks_on_db: "steps locks_step (on_db m)"
  by (rule stepsI) (simp add: on_db_run locks_step_same split: prod.splits)

interpretation lko: step_order locks_step
  by unfold_locales (auto simp: locks_step_def)

text \<open>A section under a lock that is released at its end.\<close>

lemma locks_section:
  fixes body :: "('w sys, 'a) prog"
  assumes "keyMutex_TryLock key ident (sy_locks s) = (True, m)" "steps locks_step body"
    and s': "sy_locks s' = m" "sy_quit s' = sy_quit s"
  shows "locks_step s (snd (m_finally body (\<lambda>r. unlock key (rm r)) s'))"
proof -
  let ?b = "body s'"
  have run: "sy_locks (snd (m_finally body (\<lambda>r. unlock key (rm r)) s')) = keyMutex_Unlock key (rm (fst ?b)) (sy_locks (snd ?b))"
    "sy_quit (snd (m_finally body (\<lambda>r. unlock key (rm r)) s')) = sy_quit (snd ?b)"
    by (cases ?b; simp add: m_finally_def unlock_def)+
  have b: "locks_step s' (snd ?b)" using stepsD_snd [OF assms(2)] .
  show ?thesis
  proof (cases "keyMutex_invar (sy_locks s)")
    case True
    note mut = keyMutex_laws(1,2,4) [OF this, of key ident, unfolded assms(1) fst_conv snd_conv]
    from b mut s' show ?thesis by (auto simp: locks_step_def run keyMutex_laws fun_eq_iff)
  qed (use b s' in \<open>auto simp: locks_step_def run\<close>)
qed

lemma locks_with_lock:
  fixes busy :: "('w sys, 'a) prog"
  assumes "steps locks_step busy" "steps locks_step body"
  shows "steps locks_step (with_lock key busy body rm)"
proof (rule stepsI)
  fix s :: "'w sys"
  show "locks_step s (snd (with_lock key busy body rm s))"
  proof (cases "keyMutex_TryLock key (pm_consumerID (sy_mgr s)) (sy_locks s)")
    case (Pair ok m)
    show ?thesis
    proof (cases ok)
      case False
      with Pair have "m = sy_locks s" by (simp add: keyMutex_TryLock_failed_keeps)
      with Pair False have "with_lock key busy body rm s = busy s"
        by (simp add: with_lock_def m_bind_def try_lock_def)
      with stepsD_snd [OF assms(1)] show ?thesis by simp
    next
      case True
      with Pair have "with_lock key busy body rm s = m_finally body (\<lambda>r. unlock key (rm r)) (s\<lparr>sy_locks := m\<rparr>)"
        by (simp add: with_lock_def m_bind_def try_lock_def)
      with locks_section [OF Pair [unfolded True [THEN eqTrueI]] assms(2)] show ?thesis by simp
    qed
  qed
qed

lemma locks_persist: "steps locks_step (persistJobToDB j)"
  unfolding persistJobToDB_def shouldRecordJob_def get_mgr_def by (intro lko.st_rules locks_on_db)

lemma locks_pending:
  fixes env :: "'w env"
  assumes "steps locks_step (delete_pending env i)"
  shows "steps locks_step (delete_pending_locked env i)"
proof (rule stepsI)
  fix s :: "'w sys"
  let ?n = "i_Name i"
  obtain ok m where tl: "keyMutex_TryLock ?n (pm_consumerID (sy_mgr s)) (sy_locks s) = (ok, m)"
    by (cases "keyMutex_TryLock ?n (pm_consumerID (sy_mgr s)) (sy_locks s)") auto
  obtain sp dl b where sp: "backoff_ShouldProcess ?n (db_clock (sy_db s)) (sy_backoff s) = ((sp, dl), b)"
    by (cases "backoff_ShouldProcess ?n (db_clock (sy_db s)) (sy_backoff s)") auto
  let ?s' = "s\<lparr>sy_locks := m, sy_backoff := b\<rparr>"
  have run: "delete_pending_locked env i s = (if \<not> ok then (Inr (), s\<lparr>sy_locks := m\<rparr>)
      else if \<not> sp then unlock ?n False ?s' else if sy_quit s then (Inr (), ?s')
      else m_bind (m_finally (delete_pending env i) (\<lambda>r. unlock ?n (r = Inr True)))
           (\<lambda>deleteMux. m_when deleteMux (on_backoff (backoff_Delete ?n))) ?s')"
    using tl sp by (simp add: delete_pending_locked_def m_bind_def try_lock_def should_process_def)
  consider "\<not> ok" | "ok" "\<not> sp" | "ok" "sp" "sy_quit s" | "ok" "sp" "\<not> sy_quit s" by blast
  then show "locks_step s (snd (delete_pending_locked env i s))"
  proof cases
    case 1
    with tl have "m = sy_locks s" by (simp add: keyMutex_TryLock_failed_keeps)
    with 1 run show ?thesis by (simp add: locks_step_def)
  next
    case 2
    with tl have "locks_step s (snd (m_finally (m_ret ()) (\<lambda>r. unlock ?n False) ?s'))"
      by (intro locks_section [OF _ lko.st_ret]) simp_all
    with 2 run show ?thesis by (simp add: m_finally_def unlock_def)
  next
    case 3
    with tl run show ?thesis
      using keyMutex_laws(4) [of "sy_locks s" ?n "pm_consumerID (sy_mgr s)"] by (simp add: locks_step_def)
  next
    case 4
    let ?f = "m_finally (delete_pending env i) (\<lambda>r. unlock ?n (r = Inr True))"
    have "locks_step s (snd (?f ?s'))" using tl 4 by (intro locks_section [OF _ assms]) simp_all
    moreover have "locks_step t (snd (m_when b (on_backoff f) t))" for b f and t :: "'w sys"
      by (rule stepsD_snd, intro lko.st_when stepsI) (simp add: on_backoff_def locks_step_same)
    ultimately have "locks_step s (snd (m_bind ?f (\<lambda>deleteMux. m_when deleteMux (on_backoff (backoff_Delete ?n))) ?s'))"
      by (cases "?f ?s'"; cases "fst (?f ?s')") (auto simp: m_bind_def intro: lko.R_trans)
    with 4 run show ?thesis by simp
  qed
qed

interpretation lks: manager_order locks_step
  by unfold_locales (simp_all add: locks_step_same locks_on_db locks_with_lock locks_persist locks_pending, simp add: locks_step_def)

end
