(* ===== verification/Garm_Cache.thy ===== *)
theory Garm_Cache
  imports Garm_Events "HOL-Library.AList"
begin

text \<open>
  Package \<^verbatim>\<open>cache\<close>: what the process keeps in memory of the store (entities with their pools and scale sets,
  credentials, instances, endpoints, proxies, templates, tools), and the worker that feeds it from the notifications
  of the store (\<^verbatim>\<open>workers/cache/cache.go\<close>).

  A Go map is an association list without repeated keys; its order stands for some order of iteration. Every method
  runs under the mutex of its cache and is one step. The listings sort; entries with equal keys keep the order of the
  list, where \<^verbatim>\<open>sort.Slice\<close> may return them in any order. The package level functions around the methods only name
  the global variable, here a field of \<open>caches\<close>.
\<close>

subsection \<open>keyedCache\<close>

type_synonym ('k, 'v) keyedCache = "('k \<times> 'v) list"

definition keyedCache_Set :: "'k \<Rightarrow> 'v \<Rightarrow> ('k, 'v) keyedCache \<Rightarrow> ('k, 'v) keyedCache" where
  "keyedCache_Set key value c = AList.update key value c"

definition keyedCache_Get :: "'k \<Rightarrow> ('k, 'v) keyedCache \<Rightarrow> 'v option" where
  "keyedCache_Get key c = map_of c key"

definition keyedCache_Delete :: "'k \<Rightarrow> ('k, 'v) keyedCache \<Rightarrow> ('k, 'v) keyedCache" where
  "keyedCache_Delete key c = AList.delete key c"

definition keyedCache_List :: "('v \<Rightarrow> bool) list \<Rightarrow> ('k, 'v) keyedCache \<Rightarrow> 'v list" where
  "keyedCache_List filters c = filter (\<lambda>v. list_all (\<lambda>f. f v) filters) (map snd c)"

definition keyedCache_AsMap :: "('k, 'v) keyedCache \<Rightarrow> 'k \<rightharpoonup> 'v" where
  "keyedCache_AsMap c = map_of c"

definition keyedCache_Clear :: "('k, 'v) keyedCache" where
  "keyedCache_Clear = []"

subsection \<open>EntityCache\<close>

record RunnerGroupEntry =
  rg_RunnerGroupID :: int
  rg_time :: time

record EntityItem =
  ei_Entity :: ForgeEntity
  ei_Pools :: "string list"
  ei_ScaleSets :: "nat list"
  ei_RunnerGroups :: "(string, RunnerGroupEntry) keyedCache"

record EntityCache =
  ec_entities :: "(string, EntityItem) keyedCache"
  ec_pools :: "(string, Pool) keyedCache"
  ec_scalesets :: "(nat, ScaleSet) keyedCache"

definition get_item :: "EntityCache \<Rightarrow> string \<Rightarrow> EntityItem option" where
  "get_item e entityID = keyedCache_Get entityID (ec_entities e)"

definition put_item :: "string \<Rightarrow> EntityItem \<Rightarrow> EntityCache \<Rightarrow> EntityCache" where
  "put_item entityID item e = e\<lparr>ec_entities := keyedCache_Set entityID item (ec_entities e)\<rparr>"

definition EntityCache_GetPoolByID :: "string \<Rightarrow> EntityCache \<Rightarrow> Pool option" where
  "EntityCache_GetPoolByID poolID e = keyedCache_Get poolID (ec_pools e)"

definition EntityCache_GetScaleSetByID :: "nat \<Rightarrow> EntityCache \<Rightarrow> ScaleSet option" where
  "EntityCache_GetScaleSetByID scaleSetID e = keyedCache_Get scaleSetID (ec_scalesets e)"

definition EntityCache_GetEntityForScaleSet :: "nat \<Rightarrow> EntityCache \<Rightarrow> ForgeEntity option" where
  "EntityCache_GetEntityForScaleSet scaleSetID e = (case keyedCache_Get scaleSetID (ec_scalesets e) of
     None \<Rightarrow> None
   | Some scaleSet \<Rightarrow> (case ScaleSet_GetEntity scaleSet of
       Inl _ \<Rightarrow> None
     | Inr (_, entityID) \<Rightarrow> map_option ei_Entity (get_item e entityID)))"

definition EntityCache_GetEntityForPool :: "string \<Rightarrow> EntityCache \<Rightarrow> ForgeEntity option" where
  "EntityCache_GetEntityForPool poolID e = (case keyedCache_Get poolID (ec_pools e) of
     None \<Rightarrow> None
   | Some pool \<Rightarrow> (case Pool_GetEntity pool of
       Inl _ \<Rightarrow> None
     | Inr (_, entityID) \<Rightarrow> map_option ei_Entity (get_item e entityID)))"

definition EntityCache_UpdateCredentialsInAffectedEntities :: "ForgeCredentials \<Rightarrow> EntityCache \<Rightarrow> EntityCache" where
  "EntityCache_UpdateCredentialsInAffectedEntities creds e = e\<lparr>ec_entities := map (\<lambda>(entityID, item).
     (entityID, if c_ID (e_Credentials (ei_Entity item)) = c_ID creds
        then item\<lparr>ei_Entity := (ei_Entity item)\<lparr>e_Credentials := creds\<rparr>\<rparr> else item)) (ec_entities e)\<rparr>"

definition EntityCache_SetEntity :: "ForgeEntity \<Rightarrow> EntityCache \<Rightarrow> EntityCache" where
  "EntityCache_SetEntity entity e = (case get_item e (e_ID entity) of
     None \<Rightarrow> put_item (e_ID entity) \<lparr>ei_Entity = entity, ei_Pools = [], ei_ScaleSets = [], ei_RunnerGroups = []\<rparr> e
   | Some item \<Rightarrow> put_item (e_ID entity) (item\<lparr>ei_Entity := entity\<rparr>) e)"

definition pool_of_entity :: "string \<Rightarrow> Pool \<Rightarrow> bool" where
  "pool_of_entity entityID pool = (case Pool_GetEntity pool of Inl _ \<Rightarrow> False | Inr (_, i) \<Rightarrow> i = entityID)"

definition scaleset_of_entity :: "string \<Rightarrow> ScaleSet \<Rightarrow> bool" where
  "scaleset_of_entity entityID scaleSet = (case ScaleSet_GetEntity scaleSet of Inl _ \<Rightarrow> False | Inr (_, i) \<Rightarrow> i = entityID)"

definition EntityCache_ReplaceEntityPools :: "string \<Rightarrow> Pool list \<Rightarrow> EntityCache \<Rightarrow> EntityCache" where
  "EntityCache_ReplaceEntityPools entityID pools e = (case get_item e entityID of
     None \<Rightarrow> e
   | Some item \<Rightarrow>
       let mine0 = filter (pool_of_entity entityID) pools;
           cleared = fold keyedCache_Delete (ei_Pools item) (ec_pools e)
       in put_item entityID (item\<lparr>ei_Pools := remdups (map p_ID mine0)\<rparr>)
            (e\<lparr>ec_pools := fold (\<lambda>pool. keyedCache_Set (p_ID pool) pool) mine0 cleared\<rparr>))"

definition EntityCache_ReplaceEntityScaleSets :: "string \<Rightarrow> ScaleSet list \<Rightarrow> EntityCache \<Rightarrow> EntityCache" where
  "EntityCache_ReplaceEntityScaleSets entityID scaleSets e = (case get_item e entityID of
     None \<Rightarrow> e
   | Some item \<Rightarrow>
       let mine0 = filter (scaleset_of_entity entityID) scaleSets;
           cleared = fold keyedCache_Delete (ei_ScaleSets item) (ec_scalesets e)
       in put_item entityID (item\<lparr>ei_ScaleSets := remdups (map ss_ID mine0)\<rparr>)
            (e\<lparr>ec_scalesets := fold (\<lambda>scaleSet. keyedCache_Set (ss_ID scaleSet) scaleSet) mine0 cleared\<rparr>))"

definition EntityCache_DeleteEntity :: "string \<Rightarrow> EntityCache \<Rightarrow> EntityCache" where
  "EntityCache_DeleteEntity entityID e =
     (let e' = (case get_item e entityID of
          None \<Rightarrow> e
        | Some item \<Rightarrow> e\<lparr>ec_pools := fold keyedCache_Delete (ei_Pools item) (ec_pools e),
            ec_scalesets := fold keyedCache_Delete (ei_ScaleSets item) (ec_scalesets e)\<rparr>)
      in e'\<lparr>ec_entities := keyedCache_Delete entityID (ec_entities e')\<rparr>)"

definition EntityCache_SetEntityPool :: "string \<Rightarrow> Pool \<Rightarrow> EntityCache \<Rightarrow> EntityCache" where
  "EntityCache_SetEntityPool entityID pool e =
     (if \<not> pool_of_entity entityID pool then e
      else case get_item e entityID of
        None \<Rightarrow> e
      | Some item \<Rightarrow> put_item entityID (item\<lparr>ei_Pools := List.insert (p_ID pool) (ei_Pools item)\<rparr>)
          (e\<lparr>ec_pools := keyedCache_Set (p_ID pool) pool (ec_pools e)\<rparr>))"

definition EntityCache_SetEntityScaleSet :: "string \<Rightarrow> ScaleSet \<Rightarrow> EntityCache \<Rightarrow> EntityCache" where
  "EntityCache_SetEntityScaleSet entityID scaleSet e =
     (if \<not> scaleset_of_entity entityID scaleSet then e
      else case get_item e entityID of
        None \<Rightarrow> e
      | Some item \<Rightarrow> put_item entityID (item\<lparr>ei_ScaleSets := List.insert (ss_ID scaleSet) (ei_ScaleSets item)\<rparr>)
          (e\<lparr>ec_scalesets := keyedCache_Set (ss_ID scaleSet) scaleSet (ec_scalesets e)\<rparr>))"

definition EntityCache_DeleteEntityPool :: "string \<Rightarrow> string \<Rightarrow> EntityCache \<Rightarrow> EntityCache" where
  "EntityCache_DeleteEntityPool entityID poolID e =
     (let e' = (case get_item e entityID of
          None \<Rightarrow> e | Some item \<Rightarrow> put_item entityID (item\<lparr>ei_Pools := removeAll poolID (ei_Pools item)\<rparr>) e)
      in e'\<lparr>ec_pools := keyedCache_Delete poolID (ec_pools e')\<rparr>)"

definition EntityCache_DeleteEntityScaleSet :: "string \<Rightarrow> nat \<Rightarrow> EntityCache \<Rightarrow> EntityCache" where
  "EntityCache_DeleteEntityScaleSet entityID scaleSetID e =
     (let e' = (case get_item e entityID of
          None \<Rightarrow> e | Some item \<Rightarrow> put_item entityID (item\<lparr>ei_ScaleSets := removeAll scaleSetID (ei_ScaleSets item)\<rparr>) e)
      in e'\<lparr>ec_scalesets := keyedCache_Delete scaleSetID (ec_scalesets e')\<rparr>)"

definition EntityCache_GetEntityPool :: "string \<Rightarrow> string \<Rightarrow> EntityCache \<Rightarrow> Pool option" where
  "EntityCache_GetEntityPool entityID poolID e = (case get_item e entityID of
     None \<Rightarrow> None
   | Some item \<Rightarrow> if poolID \<in> set (ei_Pools item) then keyedCache_Get poolID (ec_pools e) else None)"

definition EntityCache_GetEntityScaleSet :: "string \<Rightarrow> nat \<Rightarrow> EntityCache \<Rightarrow> ScaleSet option" where
  "EntityCache_GetEntityScaleSet entityID scaleSetID e = (case get_item e entityID of
     None \<Rightarrow> None
   | Some item \<Rightarrow> if scaleSetID \<in> set (ei_ScaleSets item) then keyedCache_Get scaleSetID (ec_scalesets e) else None)"

definition item_pools :: "EntityCache \<Rightarrow> EntityItem \<Rightarrow> Pool list" where
  "item_pools e item = List.map_filter (\<lambda>poolID. keyedCache_Get poolID (ec_pools e)) (ei_Pools item)"

definition EntityCache_FindPoolsMatchingAllTags :: "string \<Rightarrow> string list \<Rightarrow> EntityCache \<Rightarrow> Pool list" where
  "EntityCache_FindPoolsMatchingAllTags entityID tags e = (case get_item e entityID of
     None \<Rightarrow> []
   | Some item \<Rightarrow> sort_key p_CreatedAt (filter (\<lambda>pool. Pool_HasRequiredLabels pool tags) (item_pools e item)))"

definition EntityCache_GetEntityPools :: "string \<Rightarrow> EntityCache \<Rightarrow> Pool list" where
  "EntityCache_GetEntityPools entityID e = (case get_item e entityID of
     None \<Rightarrow> []
   | Some item \<Rightarrow> sort_key p_CreatedAt (item_pools e item))"

definition EntityCache_GetEntityScaleSets :: "string \<Rightarrow> EntityCache \<Rightarrow> ScaleSet list" where
  "EntityCache_GetEntityScaleSets entityID e = (case get_item e entityID of
     None \<Rightarrow> []
   | Some item \<Rightarrow> sort_key ss_ID
       (List.map_filter (\<lambda>scaleSetID. keyedCache_Get scaleSetID (ec_scalesets e)) (ei_ScaleSets item)))"

definition EntityCache_GetEntitiesUsingEndpoint :: "ForgeEndpoint \<Rightarrow> EntityCache \<Rightarrow> ForgeEntity list" where
  "EntityCache_GetEntitiesUsingEndpoint endpoint e = sort_key e_CreatedAt
     (filter (\<lambda>entity. ep_Name (c_Endpoint (e_Credentials entity)) = ep_Name endpoint) (map (ei_Entity \<circ> snd) (ec_entities e)))"

definition EntityCache_GetEntitiesUsingCredentials :: "ForgeCredentials \<Rightarrow> EntityCache \<Rightarrow> ForgeEntity list" where
  "EntityCache_GetEntitiesUsingCredentials creds e = sort_key e_CreatedAt
     (filter (\<lambda>entity. c_ForgeType (e_Credentials entity) = c_ForgeType creds \<and> c_ID (e_Credentials entity) = c_ID creds)
       (map (ei_Entity \<circ> snd) (ec_entities e)))"

definition EntityCache_GetAllPools :: "EntityCache \<Rightarrow> Pool list" where
  "EntityCache_GetAllPools e = sort_key p_CreatedAt (keyedCache_List [] (ec_pools e))"

definition EntityCache_GetAllScaleSets :: "EntityCache \<Rightarrow> ScaleSet list" where
  "EntityCache_GetAllScaleSets e = sort_key ss_ID (keyedCache_List [] (ec_scalesets e))"

definition EntityCache_SetEntityRunnerGroup :: "string \<Rightarrow> string \<Rightarrow> int \<Rightarrow> time \<Rightarrow> EntityCache \<Rightarrow> EntityCache" where
  "EntityCache_SetEntityRunnerGroup entityID runnerGroupName runnerGroupID now e = (case get_item e entityID of
     None \<Rightarrow> e
   | Some item \<Rightarrow> put_item entityID (item\<lparr>ei_RunnerGroups := keyedCache_Set runnerGroupName
       \<lparr>rg_RunnerGroupID = runnerGroupID, rg_time = now\<rparr> (ei_RunnerGroups item)\<rparr>) e)"

definition EntityCache_GetEntityRunnerGroup :: "string \<Rightarrow> string \<Rightarrow> time \<Rightarrow> EntityCache \<Rightarrow> int option \<times> EntityCache" where
  "EntityCache_GetEntityRunnerGroup entityID runnerGroupName now e = (case get_item e entityID of
     None \<Rightarrow> (None, e)
   | Some item \<Rightarrow> (case keyedCache_Get runnerGroupName (ei_RunnerGroups item) of
       None \<Rightarrow> (None, e)
     | Some runnerGroup \<Rightarrow> if now > rg_time runnerGroup + hour
         then (None, put_item entityID (item\<lparr>ei_RunnerGroups := keyedCache_Delete runnerGroupName (ei_RunnerGroups item)\<rparr>) e)
         else (Some (rg_RunnerGroupID runnerGroup), e)))"

subsection \<open>The tools of an entity\<close>

record GithubEntityTools =
  gt_updatedAt :: time
  gt_expiresAt :: time
  gt_err :: "garm_error option"
  gt_entity :: ForgeEntity
  gt_tools :: "string list"

definition GithubToolsCache_Get :: "string \<Rightarrow> time \<Rightarrow> (string, GithubEntityTools) keyedCache \<Rightarrow>
    (garm_error + string list) \<times> (string, GithubEntityTools) keyedCache" where
  "GithubToolsCache_Get entityID now g = (case keyedCache_Get entityID g of
     None \<Rightarrow> (Inl (OtherError ''no cache found for entity''), g)
   | Some cache \<Rightarrow>
       if c_ForgeType (e_Credentials (gt_entity cache)) = GithubEndpointType \<and> now > gt_expiresAt cache - 5 * minute
       then (Inl (OtherError ''cache expired for entity''), keyedCache_Delete entityID g)
       else (case gt_err cache of Some e \<Rightarrow> Inl e | None \<Rightarrow> Inr (gt_tools cache), g))"

definition GithubToolsCache_Set :: "ForgeEntity \<Rightarrow> string list \<Rightarrow> time \<Rightarrow> (string, GithubEntityTools) keyedCache \<Rightarrow>
    (string, GithubEntityTools) keyedCache" where
  "GithubToolsCache_Set entity tools now g = keyedCache_Set (e_ID entity) \<lparr>gt_updatedAt = now,
     gt_expiresAt = (if c_ForgeType (e_Credentials entity) = GithubEndpointType then now + hour else 0),
     gt_err = None, gt_entity = entity, gt_tools = tools\<rparr> g"

definition GithubToolsCache_SetToolsError :: "ForgeEntity \<Rightarrow> garm_error \<Rightarrow> time \<Rightarrow> (string, GithubEntityTools) keyedCache \<Rightarrow>
    (string, GithubEntityTools) keyedCache" where
  "GithubToolsCache_SetToolsError entity err now g = (case keyedCache_Get (e_ID entity) g of
     None \<Rightarrow> keyedCache_Set (e_ID entity) \<lparr>gt_updatedAt = now, gt_expiresAt = 0, gt_err = Some err, gt_entity = entity,
       gt_tools = []\<rparr> g
   | Some cache \<Rightarrow> keyedCache_Set (e_ID entity) (cache\<lparr>gt_err := Some err\<rparr>) g)"

subsection \<open>The caches of the process\<close>

record caches =
  ca_entity :: EntityCache
  ca_credentials :: "(nat, ForgeCredentials) keyedCache"
  ca_giteaCredentials :: "(nat, ForgeCredentials) keyedCache"
  ca_instances :: "(string, Instance) keyedCache"
  ca_endpoints :: "(string, ForgeEndpoint) keyedCache"
  ca_proxies :: "(nat, Proxy) keyedCache"
  ca_templates :: "(nat, Template) keyedCache"
  ca_tools :: "(string, GithubEntityTools) keyedCache"
  ca_clients :: "string list"
  ca_controller :: ControllerInfo

definition on_entities :: "(EntityCache \<Rightarrow> EntityCache) \<Rightarrow> caches \<Rightarrow> caches" where
  "on_entities f c = c\<lparr>ca_entity := f (ca_entity c)\<rparr>"

definition credentialCache_SetCredentialsRateLimit :: "nat \<Rightarrow> GithubRateLimit \<Rightarrow> (nat, ForgeCredentials) keyedCache \<Rightarrow>
    (nat, ForgeCredentials) keyedCache" where
  "credentialCache_SetCredentialsRateLimit credsID rateLimit g = (case keyedCache_Get credsID g of
     None \<Rightarrow> g | Some creds \<Rightarrow> keyedCache_Set credsID (creds\<lparr>c_RateLimit := Some rateLimit\<rparr>) g)"

definition SetGithubCredentials :: "ForgeCredentials \<Rightarrow> caches \<Rightarrow> caches" where
  "SetGithubCredentials creds c = on_entities (EntityCache_UpdateCredentialsInAffectedEntities creds)
     (c\<lparr>ca_credentials := keyedCache_Set (c_ID creds) creds (ca_credentials c)\<rparr>)"

definition SetGiteaCredentials :: "ForgeCredentials \<Rightarrow> caches \<Rightarrow> caches" where
  "SetGiteaCredentials creds c = on_entities (EntityCache_UpdateCredentialsInAffectedEntities creds)
     (c\<lparr>ca_giteaCredentials := keyedCache_Set (c_ID creds) creds (ca_giteaCredentials c)\<rparr>)"

definition SetCredentialsRateLimit :: "nat \<Rightarrow> GithubRateLimit \<Rightarrow> caches \<Rightarrow> caches" where
  "SetCredentialsRateLimit credsID rateLimit c =
     c\<lparr>ca_credentials := credentialCache_SetCredentialsRateLimit credsID rateLimit (ca_credentials c)\<rparr>"

text \<open>The credentials that use the endpoint, with the new version of it.\<close>

definition creds_with_endpoint :: "ForgeEndpoint \<Rightarrow> (nat, ForgeCredentials) keyedCache \<Rightarrow> ForgeCredentials list" where
  "creds_with_endpoint ep g = map (\<lambda>creds. creds\<lparr>c_Endpoint := ep\<rparr>)
     (filter (\<lambda>creds. ep_Name (c_Endpoint creds) = ep_Name ep) (map snd g))"

text \<open>The package level function works on the Gitea credentials.\<close>

definition UpdateCredentialsUsingEndpoint :: "ForgeEndpoint \<Rightarrow> caches \<Rightarrow> caches" where
  "UpdateCredentialsUsingEndpoint ep c =
     (let updated = creds_with_endpoint ep (ca_giteaCredentials c)
      in fold (\<lambda>creds. on_entities (EntityCache_UpdateCredentialsInAffectedEntities creds)) updated
           (c\<lparr>ca_giteaCredentials := fold (\<lambda>creds. keyedCache_Set (c_ID creds) creds) updated (ca_giteaCredentials c)\<rparr>))"

definition SetEndpoint :: "ForgeEndpoint \<Rightarrow> caches \<Rightarrow> caches" where
  "SetEndpoint ep c = UpdateCredentialsUsingEndpoint ep (c\<lparr>ca_endpoints := keyedCache_Set (ep_Name ep) ep (ca_endpoints c)\<rparr>)"

definition GetForgeCredentials :: "EndpointType \<Rightarrow> nat \<Rightarrow> caches \<Rightarrow> ForgeCredentials option" where
  "GetForgeCredentials forgeType credsID c =
     (if forgeType = GithubEndpointType then keyedCache_Get credsID (ca_credentials c)
      else if forgeType = GiteaEndpointType then keyedCache_Get credsID (ca_giteaCredentials c)
      else None)"

definition withCachedCredentials :: "caches \<Rightarrow> ForgeEntity \<Rightarrow> ForgeEntity" where
  "withCachedCredentials c entity = (case GetForgeCredentials (c_ForgeType (e_Credentials entity)) (c_ID (e_Credentials entity)) c of
     None \<Rightarrow> entity | Some creds \<Rightarrow> entity\<lparr>e_Credentials := creds\<rparr>)"

definition EntityCache_GetEntity :: "string \<Rightarrow> caches \<Rightarrow> ForgeEntity option" where
  "EntityCache_GetEntity entityID c = map_option (\<lambda>item. withCachedCredentials c (ei_Entity item)) (get_item (ca_entity c) entityID)"

definition EntityCache_GetAllEntities :: "caches \<Rightarrow> ForgeEntity list" where
  "EntityCache_GetAllEntities c = sort_key e_CreatedAt
     (map (withCachedCredentials c \<circ> ei_Entity \<circ> snd) (ec_entities (ca_entity c)))"

definition entityCredentials :: "string \<Rightarrow> caches \<Rightarrow> ForgeCredentials option" where
  "entityCredentials entityID c = (case EntityCache_GetEntity entityID c of
     None \<Rightarrow> None
   | Some entity \<Rightarrow> GetForgeCredentials (c_ForgeType (e_Credentials entity)) (c_ID (e_Credentials entity)) c)"

definition GetAllInstancesCache :: "caches \<Rightarrow> Instance list" where
  "GetAllInstancesCache c = sort_key i_CreatedAt (keyedCache_List [] (ca_instances c))"

definition GetInstancesForPool :: "string \<Rightarrow> caches \<Rightarrow> Instance list" where
  "GetInstancesForPool poolID c = sort_key i_CreatedAt (keyedCache_List [\<lambda>inst. i_PoolID inst = poolID] (ca_instances c))"

definition GetInstancesForScaleSet :: "nat \<Rightarrow> caches \<Rightarrow> Instance list" where
  "GetInstancesForScaleSet scaleSetID c =
     sort_key i_CreatedAt (keyedCache_List [\<lambda>inst. i_ScaleSetID inst = scaleSetID] (ca_instances c))"

definition GetEntityInstances :: "string \<Rightarrow> caches \<Rightarrow> Instance list" where
  "GetEntityInstances entityID c =
     (let pools = map p_ID (EntityCache_GetEntityPools entityID (ca_entity c))
      in filter (\<lambda>inst. i_PoolID inst \<in> set pools) (GetAllInstancesCache c))"

definition GetEntityForInstance :: "string \<Rightarrow> caches \<Rightarrow> ForgeEntity option" where
  "GetEntityForInstance name c = (case keyedCache_Get name (ca_instances c) of
     None \<Rightarrow> None
   | Some inst \<Rightarrow>
       let entityID =
         (if i_ScaleSetID inst > 0 then (case EntityCache_GetScaleSetByID (i_ScaleSetID inst) (ca_entity c) of
              None \<Rightarrow> Some [] | Some scaleSet \<Rightarrow> (case ScaleSet_GetEntity scaleSet of Inl _ \<Rightarrow> None | Inr (_, i) \<Rightarrow> Some i))
          else if i_PoolID inst \<noteq> [] then (case EntityCache_GetPoolByID (i_PoolID inst) (ca_entity c) of
              None \<Rightarrow> Some [] | Some pool \<Rightarrow> (case Pool_GetEntity pool of Inl _ \<Rightarrow> None | Inr (_, i) \<Rightarrow> Some i))
          else None)
       in case entityID of None \<Rightarrow> None
          | Some i \<Rightarrow> if i \<noteq> [] then EntityCache_GetEntity i c else None)"

definition ListTemplates :: "string option \<Rightarrow> EndpointType option \<Rightarrow> caches \<Rightarrow> Template list" where
  "ListTemplates osType forgeType c = keyedCache_List [\<lambda>tpl.
     (case osType of None \<Rightarrow> True | Some t \<Rightarrow> tpl_OSType tpl = t) \<and>
     (case forgeType of None \<Rightarrow> True | Some t \<Rightarrow> tpl_ForgeType tpl = t)] (ca_templates c)"

end
