(* ===== verification/Garm_Cache_Worker.thy ===== *)
theory Garm_Cache_Worker
  imports Garm_Cache Garm_Monad
begin

text \<open>
  The worker that keeps the caches up to date (\<^verbatim>\<open>workers/cache/cache.go\<close>): it loads everything when it starts and then
  applies the notifications of the store. It also starts, resets and stops the updater of the tools of every entity
  (\<^verbatim>\<open>workers/cache/tool_cache.go\<close>), of which only the life cycle is modelled: \<open>tu_waiting\<close> says that its loop has
  installed a reset channel, \<open>tu_resets\<close> counts the channels that were closed.
\<close>

record toolsUpdater =
  tu_entity :: ForgeEntity
  tu_running :: bool
  tu_waiting :: bool
  tu_resets :: nat

definition newToolsUpdater :: "ForgeEntity \<Rightarrow> toolsUpdater" where
  "newToolsUpdater entity = \<lparr>tu_entity = entity, tu_running = False, tu_waiting = False, tu_resets = 0\<rparr>"

definition toolsUpdater_Start :: "toolsUpdater \<Rightarrow> toolsUpdater" where
  "toolsUpdater_Start t = (if tu_running t then t else t\<lparr>tu_running := True\<rparr>)"

definition toolsUpdater_Stop :: "toolsUpdater \<Rightarrow> toolsUpdater" where
  "toolsUpdater_Stop t = (if \<not> tu_running t then t else t\<lparr>tu_running := False\<rparr>)"

definition toolsUpdater_Reset :: "toolsUpdater \<Rightarrow> toolsUpdater" where
  "toolsUpdater_Reset t = (if \<not> tu_running t then t
     else if tu_waiting t then t\<lparr>tu_waiting := False, tu_resets := tu_resets t + 1\<rparr> else t)"

record cacheWorker =
  cw_caches :: caches
  cw_toolsWorkers :: "(string, toolsUpdater) keyedCache"
  cw_running :: bool

definition on_caches :: "(caches \<Rightarrow> caches) \<Rightarrow> cacheWorker \<Rightarrow> cacheWorker" where
  "on_caches f w = w\<lparr>cw_caches := f (cw_caches w)\<rparr>"

definition start_tools :: "ForgeEntity \<Rightarrow> cacheWorker \<Rightarrow> cacheWorker" where
  "start_tools entity w = w\<lparr>cw_toolsWorkers :=
     keyedCache_Set (e_ID entity) (toolsUpdater_Start (newToolsUpdater entity)) (cw_toolsWorkers w)\<rparr>"

definition reset_tools :: "string \<Rightarrow> cacheWorker \<Rightarrow> cacheWorker" where
  "reset_tools entityID w = (case keyedCache_Get entityID (cw_toolsWorkers w) of
     None \<Rightarrow> w
   | Some worker \<Rightarrow> w\<lparr>cw_toolsWorkers := keyedCache_Set entityID (toolsUpdater_Reset worker) (cw_toolsWorkers w)\<rparr>)"

subsection \<open>Loading\<close>

definition setCacheForEntity :: "Pool list \<Rightarrow> ScaleSet list \<Rightarrow> ForgeEntity \<Rightarrow> cacheWorker \<Rightarrow> cacheWorker" where
  "setCacheForEntity pools scaleSets entity = on_caches (on_entities
     (EntityCache_ReplaceEntityScaleSets (e_ID entity) (filter (\<lambda>scaleSet. ScaleSet_BelongsTo scaleSet entity) scaleSets) \<circ>
      EntityCache_ReplaceEntityPools (e_ID entity) (filter (\<lambda>pool. Pool_BelongsTo pool entity) pools) \<circ>
      EntityCache_SetEntity entity))"

text \<open>What the store answers while the worker loads; the listings of the four kinds of entities give the entities
  \<^verbatim>\<open>GetEntity\<close> builds from them.\<close>

record cacheSources =
  cs_controller :: "garm_error + ControllerInfo"
  cs_githubCredentials :: "garm_error + ForgeCredentials list"
  cs_giteaCredentials :: "garm_error + ForgeCredentials list"
  cs_giteaEndpoints :: "garm_error + ForgeEndpoint list"
  cs_githubEndpoints :: "garm_error + ForgeEndpoint list"
  cs_pools :: "garm_error + Pool list"
  cs_scalesets :: "garm_error + ScaleSet list"
  cs_repositories :: "garm_error + ForgeEntity list"
  cs_organizations :: "garm_error + ForgeEntity list"
  cs_enterprises :: "garm_error + ForgeEntity list"
  cs_forgeInstances :: "garm_error + ForgeEntity list"
  cs_instances :: "garm_error + Instance list"
  cs_proxies :: "garm_error + Proxy list"
  cs_registerConsumer :: "garm_error + unit"
  cs_toolsSyncStart :: "garm_error + unit"

definition load_source :: "garm_error + 'a list \<Rightarrow> ('a \<Rightarrow> cacheWorker \<Rightarrow> cacheWorker) \<Rightarrow> (cacheWorker, unit) prog" where
  "load_source source f = m_bind (m_result source) (\<lambda>xs. m_modify (fold f xs))"

definition loadAllEntities :: "cacheSources \<Rightarrow> (cacheWorker, unit) prog" where
  "loadAllEntities src =
     m_seq (m_ignore (load_source (cs_giteaEndpoints src) (\<lambda>ep. on_caches (SetEndpoint ep))))
     (m_seq (m_ignore (load_source (cs_githubEndpoints src) (\<lambda>ep. on_caches (SetEndpoint ep))))
     (m_bind (m_result (cs_pools src)) (\<lambda>pools.
      m_bind (m_result (cs_scalesets src)) (\<lambda>scaleSets.
      m_bind (m_result (cs_repositories src)) (\<lambda>repos.
      m_bind (m_result (cs_organizations src)) (\<lambda>orgs.
      m_bind (m_result (cs_enterprises src)) (\<lambda>enterprises.
      m_seq (m_modify (fold (setCacheForEntity pools scaleSets) (repos @ orgs @ enterprises)))
      (m_seq (load_source (cs_forgeInstances src) (setCacheForEntity pools scaleSets))
      (m_modify (\<lambda>w. fold start_tools (EntityCache_GetAllEntities (cw_caches w)) w))))))))))"

definition loadAllInstances :: "cacheSources \<Rightarrow> (cacheWorker, unit) prog" where
  "loadAllInstances src = load_source (cs_instances src)
     (\<lambda>inst. on_caches (\<lambda>c. c\<lparr>ca_instances := keyedCache_Set (i_Name inst) inst (ca_instances c)\<rparr>))"

definition loadAllProxies :: "cacheSources \<Rightarrow> (cacheWorker, unit) prog" where
  "loadAllProxies src = load_source (cs_proxies src)
     (\<lambda>proxy. on_caches (\<lambda>c. c\<lparr>ca_proxies := keyedCache_Set (px_ID proxy) proxy (ca_proxies c)\<rparr>))"

definition loadAllGithubCredentials :: "cacheSources \<Rightarrow> (cacheWorker, unit) prog" where
  "loadAllGithubCredentials src = load_source (cs_githubCredentials src) (\<lambda>cred. on_caches (SetGithubCredentials cred))"

definition loadAllGiteaCredentials :: "cacheSources \<Rightarrow> (cacheWorker, unit) prog" where
  "loadAllGiteaCredentials src = load_source (cs_giteaCredentials src) (\<lambda>cred. on_caches (SetGiteaCredentials cred))"

text \<open>The six goroutines of \<^verbatim>\<open>Start\<close>, one after the other in the order they are started; the first error is returned.
  Then the consumer of the notifications is registered, and the worker counts as running before the synchronisation of
  the agent's tools starts. The answers of these two calls are part of the sources.\<close>

definition cacheWorker_Start :: "cacheSources \<Rightarrow> (cacheWorker, unit) prog" where
  "cacheWorker_Start src = m_bind (m_get cw_running) (\<lambda>running.
     if running then m_ret ()
     else m_seq (m_group (\<lambda>g. g)
         [m_bind (m_result (cs_controller src)) (\<lambda>ctrl. m_modify (on_caches (\<lambda>c. c\<lparr>ca_controller := ctrl\<rparr>))),
          loadAllGithubCredentials src, loadAllGiteaCredentials src, loadAllEntities src, loadAllInstances src,
          loadAllProxies src])
       (m_seq (m_result (cs_registerConsumer src))
       (m_seq (m_modify (\<lambda>w. w\<lparr>cw_running := True\<rparr>)) (m_result (cs_toolsSyncStart src)))))"

definition cacheWorker_Stop :: "cacheWorker \<Rightarrow> cacheWorker" where
  "cacheWorker_Stop w = (if \<not> cw_running w then w
     else w\<lparr>cw_toolsWorkers := map (\<lambda>(i, t). (i, toolsUpdater_Stop t)) (cw_toolsWorkers w), cw_running := False\<rparr>)"

subsection \<open>Notifications\<close>

definition handleEntityEvent :: "ForgeEntity \<Rightarrow> OperationType \<Rightarrow> cacheWorker \<Rightarrow> cacheWorker" where
  "handleEntityEvent entity op0 w = (case op0 of
     DeleteOperation \<Rightarrow>
       (let w' = on_caches (\<lambda>c. (on_entities (EntityCache_DeleteEntity (e_ID entity)) c)\<lparr>
              ca_clients := removeAll (e_ID entity) (ca_clients c),
              ca_tools := keyedCache_Delete (e_ID entity) (ca_tools c)\<rparr>) w
        in w'\<lparr>cw_toolsWorkers := keyedCache_Delete (e_ID entity) (cw_toolsWorkers w')\<rparr>)
   | _ \<Rightarrow>
       (let old = EntityCache_GetEntity (e_ID entity) (cw_caches w);
            w' = on_caches (on_entities (EntityCache_SetEntity entity)) w
        in case keyedCache_Get (e_ID entity) (cw_toolsWorkers w') of
             None \<Rightarrow> start_tools entity w'
           | Some worker \<Rightarrow> (case old of
                 None \<Rightarrow> w'
               | Some oldEntity \<Rightarrow> if c_ID (e_Credentials oldEntity) \<noteq> c_ID (e_Credentials entity)
                   then reset_tools (e_ID entity) w' else w')))"

definition handlePoolEvent :: "Pool \<Rightarrow> OperationType \<Rightarrow> cacheWorker \<Rightarrow> cacheWorker" where
  "handlePoolEvent pool op0 w = (case Pool_GetEntity pool of
     Inl _ \<Rightarrow> w
   | Inr (_, entityID) \<Rightarrow> on_caches (on_entities (if op0 = DeleteOperation
       then EntityCache_DeleteEntityPool entityID (p_ID pool) else EntityCache_SetEntityPool entityID pool)) w)"

definition handleScaleSetEvent :: "ScaleSet \<Rightarrow> OperationType \<Rightarrow> cacheWorker \<Rightarrow> cacheWorker" where
  "handleScaleSetEvent scaleSet op0 w = (case ScaleSet_GetEntity scaleSet of
     Inl _ \<Rightarrow> w
   | Inr (_, entityID) \<Rightarrow> on_caches (on_entities (if op0 = DeleteOperation
       then EntityCache_DeleteEntityScaleSet entityID (ss_ID scaleSet) else EntityCache_SetEntityScaleSet entityID scaleSet)) w)"

definition handleInstanceEvent :: "Instance \<Rightarrow> OperationType \<Rightarrow> cacheWorker \<Rightarrow> cacheWorker" where
  "handleInstanceEvent inst op0 = on_caches (\<lambda>c. c\<lparr>ca_instances := (if op0 = DeleteOperation
     then keyedCache_Delete (i_Name inst) (ca_instances c) else keyedCache_Set (i_Name inst) inst (ca_instances c))\<rparr>)"

definition handleTemplateEvent :: "Template \<Rightarrow> OperationType \<Rightarrow> cacheWorker \<Rightarrow> cacheWorker" where
  "handleTemplateEvent tpl op0 = on_caches (\<lambda>c. c\<lparr>ca_templates := (if op0 = DeleteOperation
     then keyedCache_Delete (tpl_ID tpl) (ca_templates c) else keyedCache_Set (tpl_ID tpl) tpl (ca_templates c))\<rparr>)"

definition handleProxyEvent :: "Proxy \<Rightarrow> OperationType \<Rightarrow> cacheWorker \<Rightarrow> cacheWorker" where
  "handleProxyEvent proxy op0 = on_caches (\<lambda>c. c\<lparr>ca_proxies := (if op0 = DeleteOperation
     then keyedCache_Delete (px_ID proxy) (ca_proxies c) else keyedCache_Set (px_ID proxy) proxy (ca_proxies c))\<rparr>)"

definition handleCredentialsEvent :: "ForgeCredentials \<Rightarrow> OperationType \<Rightarrow> cacheWorker \<Rightarrow> cacheWorker" where
  "handleCredentialsEvent creds op0 w =
     (if op0 = DeleteOperation
      then on_caches (\<lambda>c. if c_ForgeType creds = GithubEndpointType
             then c\<lparr>ca_credentials := keyedCache_Delete (c_ID creds) (ca_credentials c)\<rparr>
           else if c_ForgeType creds = GiteaEndpointType
             then c\<lparr>ca_giteaCredentials := keyedCache_Delete (c_ID creds) (ca_giteaCredentials c)\<rparr>
           else c) w
      else if c_ForgeType creds \<noteq> GithubEndpointType \<and> c_ForgeType creds \<noteq> GiteaEndpointType then w
      else let w' = on_caches (if c_ForgeType creds = GithubEndpointType then SetGithubCredentials creds else SetGiteaCredentials creds) w
           in fold (\<lambda>entity. reset_tools (e_ID entity))
                (EntityCache_GetEntitiesUsingCredentials creds (ca_entity (cw_caches w'))) w')"

definition handleEndpointEvent :: "ForgeEndpoint \<Rightarrow> OperationType \<Rightarrow> cacheWorker \<Rightarrow> cacheWorker" where
  "handleEndpointEvent endpoint op0 w =
     (if op0 = DeleteOperation
      then on_caches (\<lambda>c. c\<lparr>ca_endpoints := keyedCache_Delete (ep_Name endpoint) (ca_endpoints c)\<rparr>) w
      else let w' = on_caches (SetEndpoint endpoint) w
           in fold (\<lambda>entity. reset_tools (e_ID entity))
                (EntityCache_GetEntitiesUsingEndpoint endpoint (ca_entity (cw_caches w'))) w')"

definition handleControllerInfoEvent :: "ControllerInfo \<Rightarrow> cacheWorker \<Rightarrow> cacheWorker" where
  "handleControllerInfoEvent ctrl = on_caches (\<lambda>c. c\<lparr>ca_controller := ctrl\<rparr>)"

text \<open>A payload of the wrong type is dropped.\<close>

definition cacheWorker_handleEvent :: "ChangePayload \<Rightarrow> cacheWorker \<Rightarrow> cacheWorker" where
  "cacheWorker_handleEvent ev w = (case (ev_EntityType ev, ev_Payload ev) of
     (PoolEntityType, PoolPayload pool) \<Rightarrow> handlePoolEvent pool (ev_Operation ev) w
   | (ScaleSetEntityType, ScaleSetPayload scaleSet) \<Rightarrow> handleScaleSetEvent scaleSet (ev_Operation ev) w
   | (InstanceEntityType, InstancePayload inst) \<Rightarrow> handleInstanceEvent inst (ev_Operation ev) w
   | (RepositoryEntityType, RepositoryPayload entity) \<Rightarrow> handleEntityEvent entity (ev_Operation ev) w
   | (OrganizationEntityType, OrganizationPayload entity) \<Rightarrow> handleEntityEvent entity (ev_Operation ev) w
   | (EnterpriseEntityType, EnterprisePayload entity) \<Rightarrow> handleEntityEvent entity (ev_Operation ev) w
   | (ForgeInstanceEntityType, ForgeInstancePayload entity) \<Rightarrow> handleEntityEvent entity (ev_Operation ev) w
   | (GithubCredentialsEntityType, CredentialsPayload creds) \<Rightarrow> handleCredentialsEvent creds (ev_Operation ev) w
   | (GiteaCredentialsEntityType, CredentialsPayload creds) \<Rightarrow> handleCredentialsEvent creds (ev_Operation ev) w
   | (ControllerEntityType, ControllerPayload ctrl) \<Rightarrow> handleControllerInfoEvent ctrl w
   | (TemplateEntityType, TemplatePayload tpl) \<Rightarrow> handleTemplateEvent tpl (ev_Operation ev) w
   | (ProxyEntityType, ProxyPayload proxy) \<Rightarrow> handleProxyEvent proxy (ev_Operation ev) w
   | (GithubEndpointEntityType, EndpointPayload endpoint) \<Rightarrow> handleEndpointEvent endpoint (ev_Operation ev) w
   | _ \<Rightarrow> w)"

end
