(* ===== verification/Garm_ScaleSets.thy ===== *)
theory Garm_ScaleSets
  imports Garm_Pools Garm_Jobs
begin

text \<open>
  The scale sets of the store: \<^verbatim>\<open>database/sql/scalesets.go\<close>, \<^verbatim>\<open>scaleset_instances.go\<close>, \<^verbatim>\<open>scaleset_jobs.go\<close> and the helpers of
  \<^verbatim>\<open>util.go\<close>. The callback of an update is a closure of the caller; of it the model keeps whether it returns an error.
\<close>

subsection \<open>Requests\<close>

record CreateScaleSetParams =
  csp_Prefix :: string
  csp_Name :: string
  csp_DisableUpdate :: bool
  csp_ScaleSetID :: int
  csp_ProviderName :: string
  csp_MaxRunners :: uint64
  csp_MinIdleRunners :: uint64
  csp_Image :: string
  csp_Flavor :: string
  csp_OSType :: string
  csp_OSArch :: string
  csp_Enabled :: bool
  csp_RunnerBootstrapTimeout :: nat
  csp_ExtraSpecs :: string
  csp_EnableShell :: bool
  csp_GitHubRunnerGroup :: string
  csp_TemplateID :: "nat option"
  csp_Labels :: "string list"
  csp_ProxyID :: "nat option"

record UpdateScaleSetParams =
  usp_Prefix :: string
  usp_Name :: string
  usp_DisableUpdate :: "bool option"
  usp_Enabled :: "bool option"
  usp_MaxRunners :: "uint64 option"
  usp_MinIdleRunners :: "uint64 option"
  usp_RunnerBootstrapTimeout :: "nat option"
  usp_Image :: string
  usp_Flavor :: string
  usp_OSType :: string
  usp_OSArch :: string
  usp_ExtraSpecs :: "string option"
  usp_EnableShell :: "bool option"
  usp_GitHubRunnerGroup :: "string option"
  usp_State :: "string option"
  usp_ExtendedState :: "string option"
  usp_TemplateID :: "nat option"
  usp_ScaleSetID :: int
  usp_ProxyID :: "nat option"

definition CreateScaleSetParams_Validate :: "CreateScaleSetParams \<Rightarrow> garm_error option" where
  "CreateScaleSetParams_Validate s =
     (if csp_ProviderName s = [] then Some (OtherError ''missing provider'')
      else if csp_MinIdleRunners s > csp_MaxRunners s
        then Some (OtherError ''min_idle_runners cannot be larger than max_runners'')
      else if csp_MaxRunners s = 0 then Some (OtherError ''max_runners cannot be 0'')
      else if csp_Flavor s = [] then Some (OtherError ''missing flavor'')
      else if csp_Image s = [] then Some (OtherError ''missing image'')
      else if csp_Name s = [] then Some (OtherError ''missing scale set name'')
      else None)"

subsection \<open>Rows to params\<close>

text \<open>A row with the associations a query preloaded; \<open>sl_endpoint\<close>: the endpoint of the entity as well.\<close>

record ScaleSetLoaded =
  sl_row :: ScaleSetRow
  sl_tags :: "Tag list"
  sl_instances :: "InstanceLoaded list"
  sl_entity :: "EntityRow option"
  sl_endpoint :: bool

definition sqlToCommonScaleSet :: "ScaleSetLoaded \<Rightarrow> garm_error + ScaleSet" where
  "sqlToCommonScaleSet l = (let r = sl_row l;
       of_type = (\<lambda>ty. case sl_entity l of None \<Rightarrow> None | Some e \<Rightarrow> if er_Type e = ty then Some e else None);
       name_of = (\<lambda>e. case e of None \<Rightarrow> [] | Some x \<Rightarrow> er_Name x)
     in case convert_instances (sl_instances l) of Inl e \<Rightarrow> Inl e
        | Inr insts \<Rightarrow> Inr \<lparr>
          ss_Prefix = sr_RunnerPrefix r, ss_CreatedAt = sr_CreatedAt r, ss_UpdatedAt = sr_UpdatedAt r, ss_ID = sr_ID r,
          ss_ScaleSetID = sr_ScaleSetID r, ss_Name = sr_Name r, ss_DisableUpdate = sr_DisableUpdate r,
          ss_State = sr_State r, ss_ExtendedState = sr_ExtendedState r, ss_ProviderName = sr_ProviderName r,
          ss_MaxRunners = sr_MaxRunners r, ss_MinIdleRunners = sr_MinIdleRunners r, ss_Image = sr_Image r,
          ss_Flavor = sr_Flavor r, ss_OSType = sr_OSType r, ss_OSArch = sr_OSArch r, ss_Enabled = sr_Enabled r,
          ss_Instances = insts, ss_DesiredRunnerCount = sr_DesiredRunnerCount r, ss_EnableShell = sr_EnableShell r,
          ss_Generation = sr_Generation r,
          ss_Endpoint = (if \<not> sl_endpoint l then [] else case sl_entity l of None \<Rightarrow> [] | Some e \<Rightarrow> er_EndpointName e),
          ss_RunnerBootstrapTimeout = sr_RunnerBootstrapTimeout r, ss_ExtraSpecs = sr_ExtraSpecs r,
          ss_GitHubRunnerGroup = sr_GitHubRunnerGroup r, ss_Tags = sl_tags l,
          ss_RepoID = opt_uuid_string (sr_RepoID r),
          ss_RepoName = (if sr_RepoID r = None then [] else case of_type ForgeEntityTypeRepository of None \<Rightarrow> []
             | Some e \<Rightarrow> if er_Owner e \<noteq> [] \<and> er_Name e \<noteq> [] then er_Owner e @ ''/'' @ er_Name e else []),
          ss_OrgID = opt_uuid_string (sr_OrgID r),
          ss_OrgName = (if sr_OrgID r = None then [] else name_of (of_type ForgeEntityTypeOrganization)),
          ss_EnterpriseID = opt_uuid_string (sr_EnterpriseID r),
          ss_EnterpriseName = (if sr_EnterpriseID r = None then [] else name_of (of_type ForgeEntityTypeEnterprise)),
          ss_TemplateID = (case sr_TemplateID r of None \<Rightarrow> 0 | Some n \<Rightarrow> n),
          ss_ProxyID = (case sr_ProxyID r of None \<Rightarrow> 0 | Some n \<Rightarrow> n), ss_LastMessageID = sr_LastMessageID r\<rparr>)"

primrec convert_scalesets :: "ScaleSetLoaded list \<Rightarrow> garm_error + ScaleSet list" where
  "convert_scalesets [] = Inr []"
| "convert_scalesets (l # ls) = (case sqlToCommonScaleSet l of Inl e \<Rightarrow> Inl e
     | Inr s \<Rightarrow> (case convert_scalesets ls of Inl e \<Rightarrow> Inl e | Inr ss \<Rightarrow> Inr (s # ss)))"

definition scaleset_tags :: "db \<Rightarrow> ScaleSetRow \<Rightarrow> Tag list" where
  "scaleset_tags d r = List.map_filter (\<lambda>u. List.find (\<lambda>t. t_ID t = u) (db_tags d)) (sr_Tags r)"

definition scaleset_entity :: "db \<Rightarrow> ScaleSetRow \<Rightarrow> EntityRow option" where
  "scaleset_entity d r = List.find (\<lambda>e.
     (er_Type e = ForgeEntityTypeRepository \<and> sr_RepoID r = Some (er_ID e)) \<or>
     (er_Type e = ForgeEntityTypeOrganization \<and> sr_OrgID r = Some (er_ID e)) \<or>
     (er_Type e = ForgeEntityTypeEnterprise \<and> sr_EnterpriseID r = Some (er_ID e))) (db_entities d)"

definition scaleset_instances :: "db \<Rightarrow> nat \<Rightarrow> InstanceRow list" where
  "scaleset_instances d n = filter (\<lambda>i. ir_ScaleSetFkID i = Some n) (db_instances d)"

definition load_scaleset :: "db \<Rightarrow> ScaleSetRow \<Rightarrow> ScaleSetLoaded" where
  "load_scaleset d r = \<lparr>sl_row = r, sl_tags = scaleset_tags d r, sl_instances = map load_bare (scaleset_instances d (sr_ID r)),
     sl_entity = scaleset_entity d r, sl_endpoint = True\<rparr>"

subsection \<open>Lookups\<close>

definition find_scaleset :: "nat \<Rightarrow> db \<Rightarrow> ScaleSetRow option" where
  "find_scaleset n d = List.find (\<lambda>r. sr_ID r = n) (db_scalesets d)"

definition getScaleSetByID :: "nat \<Rightarrow> db \<Rightarrow> garm_error + ScaleSetRow" where
  "getScaleSetByID scaleSetID d = option_or NotFoundError (find_scaleset scaleSetID d)"

definition scaleset_field :: "ForgeEntityType \<Rightarrow> (ScaleSetRow \<Rightarrow> uuid option) option" where
  "scaleset_field ty = (case ty of
     ForgeEntityTypeRepository \<Rightarrow> Some sr_RepoID
   | ForgeEntityTypeOrganization \<Rightarrow> Some sr_OrgID
   | ForgeEntityTypeEnterprise \<Rightarrow> Some sr_EnterpriseID
   | _ \<Rightarrow> None)"

definition getEntityScaleSet :: "ForgeEntityType \<Rightarrow> string \<Rightarrow> nat \<Rightarrow> db \<Rightarrow> garm_error + ScaleSetRow" where
  "getEntityScaleSet entityType entityID scaleSetID d =
     (if entityID = [] then Inl BadRequestError
      else if scaleSetID = 0 then Inl BadRequestError
      else case scaleset_field entityType of
        None \<Rightarrow> Inl (OtherError ''invalid entityType'')
      | Some field \<Rightarrow> option_or NotFoundError
          (List.find (\<lambda>r. sr_ID r = scaleSetID \<and> opt_uuid_is (field r) entityID) (db_scalesets d)))"

definition listEntityScaleSets :: "ForgeEntityType \<Rightarrow> string \<Rightarrow> db \<Rightarrow> garm_error + ScaleSetRow list" where
  "listEntityScaleSets entityType entityID d = (case uuid_parse entityID of
     None \<Rightarrow> Inl BadRequestError
   | Some _ \<Rightarrow> (case hasGithubEntity entityType entityID d of
       Inl e \<Rightarrow> Inl e
     | Inr _ \<Rightarrow> (case scaleset_field entityType of
         None \<Rightarrow> Inl (OtherError ''invalid entityType'')
       | Some field \<Rightarrow> Inr (map (\<lambda>r. r\<lparr>sr_ExtraSpecs := []\<rparr>)
           (filter (\<lambda>r. opt_uuid_is (field r) entityID) (db_scalesets d))))))"

definition ListAllScaleSets :: "(db, ScaleSet list) prog" where
  "ListAllScaleSets = db_read (\<lambda>d. convert_scalesets (map (\<lambda>r. \<lparr>sl_row = r\<lparr>sr_ExtraSpecs := []\<rparr>, sl_tags = scaleset_tags d r,
     sl_instances = [], sl_entity = scaleset_entity d r, sl_endpoint = True\<rparr>) (db_scalesets d)))"

definition ListEntityScaleSets :: "ForgeEntity \<Rightarrow> (db, ScaleSet list) prog" where
  "ListEntityScaleSets entity = db_read (\<lambda>d. case listEntityScaleSets (e_EntityType entity) (e_ID entity) d of
     Inl e \<Rightarrow> Inl e
   | Inr rs \<Rightarrow> convert_scalesets (map (\<lambda>r. \<lparr>sl_row = r, sl_tags = scaleset_tags d r, sl_instances = [],
       sl_entity = scaleset_entity d r, sl_endpoint = False\<rparr>) rs))"

definition GetScaleSetByID :: "nat \<Rightarrow> (db, ScaleSet) prog" where
  "GetScaleSetByID scaleSetID = db_read (\<lambda>d. case getScaleSetByID scaleSetID d of
     Inl e \<Rightarrow> Inl e | Inr r \<Rightarrow> sqlToCommonScaleSet (load_scaleset d r))"

subsection \<open>Creation\<close>

definition new_scaleset :: "nat \<Rightarrow> uuid \<Rightarrow> ForgeEntityType \<Rightarrow> CreateScaleSetParams \<Rightarrow> time \<Rightarrow> ScaleSetRow" where
  "new_scaleset n entityID ty param now = \<lparr>sr_ID = n, sr_ScaleSetID = csp_ScaleSetID param, sr_Name = csp_Name param,
     sr_GitHubRunnerGroup = csp_GitHubRunnerGroup param, sr_DisableUpdate = csp_DisableUpdate param,
     sr_State = ''pending_create'', sr_ExtendedState = [], sr_ProviderName = csp_ProviderName param,
     sr_RunnerPrefix = GetRunnerPrefix (csp_Prefix param), sr_MaxRunners = csp_MaxRunners param,
     sr_MinIdleRunners = csp_MinIdleRunners param, sr_RunnerBootstrapTimeout = csp_RunnerBootstrapTimeout param,
     sr_Image = csp_Image param, sr_Flavor = csp_Flavor param, sr_OSType = csp_OSType param, sr_OSArch = csp_OSArch param,
     sr_Enabled = csp_Enabled param, sr_LastMessageID = 0, sr_DesiredRunnerCount = 0, sr_ExtraSpecs = csp_ExtraSpecs param,
     sr_EnableShell = csp_EnableShell param, sr_Generation = 0,
     sr_RepoID = (if ty = ForgeEntityTypeRepository then Some entityID else None),
     sr_OrgID = (if ty = ForgeEntityTypeOrganization then Some entityID else None),
     sr_EnterpriseID = (if ty = ForgeEntityTypeEnterprise then Some entityID else None),
     sr_TemplateID = csp_TemplateID param,
     sr_ProxyID = (if csp_ProxyID param = Some 0 then None else csp_ProxyID param),
     sr_Tags = [], sr_CreatedAt = now, sr_UpdatedAt = now\<rparr>"

definition upd_scaleset :: "nat \<Rightarrow> (ScaleSetRow \<Rightarrow> ScaleSetRow) \<Rightarrow> db \<Rightarrow> db" where
  "upd_scaleset n f d = d\<lparr>db_scalesets := upd_rows (\<lambda>r. sr_ID r = n) f (db_scalesets d)\<rparr>"

definition insert_scaleset :: "uuid \<Rightarrow> ForgeEntityType \<Rightarrow> CreateScaleSetParams \<Rightarrow> (db, nat) prog" where
  "insert_scaleset entityID ty param d = (let n = db_next_scaleset d; r = new_scaleset n entityID ty param (db_clock d)
     in if \<not> template_ok (sr_TemplateID r) d then (Inl DatabaseError, d)
        else (Inr n, d\<lparr>db_scalesets := db_scalesets d @ [r], db_next_scaleset := n + 1\<rparr>))"

definition create_scaleset_tx :: "ForgeEntity \<Rightarrow> uuid \<Rightarrow> CreateScaleSetParams \<Rightarrow> (db, nat) prog" where
  "create_scaleset_tx entity entityID param =
     m_seq (m_query (hasGithubEntity (e_EntityType entity) (e_ID entity)))
     (m_seq (case csp_ProxyID param of None \<Rightarrow> m_ret () | Some n \<Rightarrow> if n = 0 then m_ret () else m_query (hasProxy n))
     (m_bind (insert_scaleset entityID (e_EntityType entity) param) (\<lambda>n.
      m_seq (m_when (csp_Labels param \<noteq> []) (m_bind (m_map getOrCreateTag (csp_Labels param)) (\<lambda>tags.
         m_modify (upd_scaleset n (\<lambda>r. r\<lparr>sr_Tags := append_tags (sr_Tags r) (map t_ID tags)\<rparr>)))))
      (m_ret n))))"

definition CreateEntityScaleSet :: "ForgeEntity \<Rightarrow> CreateScaleSetParams \<Rightarrow> (db, ScaleSet) prog" where
  "CreateEntityScaleSet entity param = (case CreateScaleSetParams_Validate param of
     Some e \<Rightarrow> m_throw e
   | None \<Rightarrow> (case uuid_parse (e_ID entity) of
       None \<Rightarrow> m_throw BadRequestError
     | Some entityID \<Rightarrow> m_bind (db_tx (create_scaleset_tx entity entityID param)) (\<lambda>n.
         m_bind (GetScaleSetByID n) (\<lambda>scaleSet.
           m_seq (sendNotify ScaleSetEntityType CreateOperation (ScaleSetPayload scaleSet)) (m_ret scaleSet)))))"

subsection \<open>Update\<close>

definition ss_proxy_change :: "UpdateScaleSetParams \<Rightarrow> ScaleSetRow \<Rightarrow> nat option option" where
  "ss_proxy_change param r = (case usp_ProxyID param of
     None \<Rightarrow> None
   | Some n \<Rightarrow> if sr_ProxyID r = Some n then None
       else if n = 0 then (if sr_ProxyID r \<noteq> None then Some None else None)
       else Some (Some n))"

definition runner_group_changes :: "UpdateScaleSetParams \<Rightarrow> ScaleSetRow \<Rightarrow> bool" where
  "runner_group_changes param r \<longleftrightarrow> usp_GitHubRunnerGroup param \<noteq> Some [] \<and> differs (usp_GitHubRunnerGroup param) (sr_GitHubRunnerGroup r)"

text \<open>The conditions under which \<^verbatim>\<open>updateScaleSet\<close> sets \<^verbatim>\<open>incrementGeneration\<close>.\<close>

definition ss_increment_generation :: "UpdateScaleSetParams \<Rightarrow> ScaleSetRow \<Rightarrow> bool" where
  "ss_increment_generation param r \<longleftrightarrow> ss_proxy_change param r \<noteq> None \<or> differs (usp_EnableShell param) (sr_EnableShell r) \<or>
     runner_group_changes param r \<or> set_str (usp_Flavor param) (sr_Flavor r) \<or> set_str (usp_Image param) (sr_Image r) \<or>
     set_str (usp_OSArch param) (sr_OSArch r) \<or> set_str (usp_OSType param) (sr_OSType r) \<or>
     differs (usp_ExtraSpecs param) (sr_ExtraSpecs r)"

definition ss_has_updates :: "UpdateScaleSetParams \<Rightarrow> ScaleSetRow \<Rightarrow> bool" where
  "ss_has_updates param r \<longleftrightarrow> ss_increment_generation param r \<or> differs (usp_Enabled param) (sr_Enabled r) \<or>
     differs (usp_State param) (sr_State r) \<or> differs (usp_ExtendedState param) (sr_ExtendedState r) \<or>
     (usp_ScaleSetID param \<noteq> 0 \<and> usp_ScaleSetID param \<noteq> sr_ScaleSetID r) \<or>
     (usp_TemplateID param \<noteq> None \<and> usp_TemplateID param \<noteq> sr_TemplateID r) \<or> set_str (usp_Name param) (sr_Name r) \<or>
     differs (usp_DisableUpdate param) (sr_DisableUpdate r) \<or> set_str (usp_Prefix param) (sr_RunnerPrefix r) \<or>
     differs (usp_MaxRunners param) (sr_MaxRunners r) \<or> differs (usp_MinIdleRunners param) (sr_MinIdleRunners r) \<or>
     (usp_RunnerBootstrapTimeout param \<noteq> Some 0 \<and> differs (usp_RunnerBootstrapTimeout param) (sr_RunnerBootstrapTimeout r))"

definition pick_str :: "string \<Rightarrow> string \<Rightarrow> string" where
  "pick_str new old = (if set_str new old then new else old)"

definition apply_scaleset_updates :: "UpdateScaleSetParams \<Rightarrow> ScaleSetRow \<Rightarrow> ScaleSetRow" where
  "apply_scaleset_updates param r = r\<lparr>
     sr_Enabled := override (usp_Enabled param) (sr_Enabled r), sr_State := override (usp_State param) (sr_State r),
     sr_ExtendedState := override (usp_ExtendedState param) (sr_ExtendedState r),
     sr_ScaleSetID := (if usp_ScaleSetID param \<noteq> 0 then usp_ScaleSetID param else sr_ScaleSetID r),
     sr_TemplateID := (case usp_TemplateID param of None \<Rightarrow> sr_TemplateID r | Some n \<Rightarrow> Some n),
     sr_ProxyID := override (ss_proxy_change param r) (sr_ProxyID r),
     sr_EnableShell := override (usp_EnableShell param) (sr_EnableShell r), sr_Name := pick_str (usp_Name param) (sr_Name r),
     sr_DisableUpdate := override (usp_DisableUpdate param) (sr_DisableUpdate r),
     sr_GitHubRunnerGroup := (if runner_group_changes param r then override (usp_GitHubRunnerGroup param) (sr_GitHubRunnerGroup r)
        else sr_GitHubRunnerGroup r),
     sr_Flavor := pick_str (usp_Flavor param) (sr_Flavor r), sr_Image := pick_str (usp_Image param) (sr_Image r),
     sr_RunnerPrefix := pick_str (usp_Prefix param) (sr_RunnerPrefix r),
     sr_MaxRunners := override (usp_MaxRunners param) (sr_MaxRunners r),
     sr_MinIdleRunners := override (usp_MinIdleRunners param) (sr_MinIdleRunners r),
     sr_OSArch := pick_str (usp_OSArch param) (sr_OSArch r), sr_OSType := pick_str (usp_OSType param) (sr_OSType r),
     sr_ExtraSpecs := override (usp_ExtraSpecs param) (sr_ExtraSpecs r),
     sr_RunnerBootstrapTimeout := (if usp_RunnerBootstrapTimeout param = Some 0 then sr_RunnerBootstrapTimeout r
        else override (usp_RunnerBootstrapTimeout param) (sr_RunnerBootstrapTimeout r)),
     sr_Generation := (if ss_increment_generation param r then sr_Generation r + 1 else sr_Generation r)\<rparr>"

definition save_scaleset :: "UpdateScaleSetParams \<Rightarrow> ScaleSetRow \<Rightarrow> (db, bool) prog" where
  "save_scaleset param r d =
     (if \<not> ss_has_updates param r then (Inr False, d)
      else if sr_TemplateID (apply_scaleset_updates param r) \<noteq> sr_TemplateID r \<and>
          \<not> template_ok (sr_TemplateID (apply_scaleset_updates param r)) d then (Inl DatabaseError, d)
      else (Inr True, upd_scaleset (sr_ID r) (\<lambda>_. (apply_scaleset_updates param r)\<lparr>sr_UpdatedAt := db_clock d\<rparr>) d))"

text \<open>The reloaded row keeps the instances and the entity that were preloaded before the update.\<close>

definition updateScaleSet :: "ScaleSetLoaded \<Rightarrow> UpdateScaleSetParams \<Rightarrow> (db, ScaleSet \<times> bool) prog" where
  "updateScaleSet l param =
     m_seq (case ss_proxy_change param (sl_row l) of Some (Some n) \<Rightarrow> m_query (hasProxy n) | _ \<Rightarrow> m_ret ())
     (m_bind (save_scaleset param (sl_row l)) (\<lambda>affected.
      m_bind (m_query (\<lambda>d. case find_scaleset (sr_ID (sl_row l)) d of None \<Rightarrow> Inl DatabaseError
         | Some r \<Rightarrow> sqlToCommonScaleSet (l\<lparr>sl_row := r, sl_tags := scaleset_tags d r\<rparr>))) (\<lambda>scaleSet.
        m_ret (scaleSet, affected))))"

type_synonym update_callback = "(ScaleSet \<Rightarrow> ScaleSet \<Rightarrow> garm_error option) option"

definition update_scaleset_tx :: "ForgeEntity \<Rightarrow> nat \<Rightarrow> UpdateScaleSetParams \<Rightarrow> update_callback \<Rightarrow> (db, bool) prog" where
  "update_scaleset_tx entity scaleSetID param callback =
     m_bind (m_query (\<lambda>d. case getEntityScaleSet (e_EntityType entity) (e_ID entity) scaleSetID d of
         Inl e \<Rightarrow> Inl e | Inr r \<Rightarrow> Inr ((load_scaleset d r)\<lparr>sl_endpoint := False\<rparr>))) (\<lambda>l.
     m_bind (m_result (sqlToCommonScaleSet l)) (\<lambda>old.
     m_bind (updateScaleSet l param) (\<lambda>(updated, affected).
       case callback of None \<Rightarrow> m_ret affected
       | Some f \<Rightarrow> (case f old updated of Some e \<Rightarrow> m_throw e | None \<Rightarrow> m_ret affected))))"

definition UpdateEntityScaleSet :: "ForgeEntity \<Rightarrow> nat \<Rightarrow> UpdateScaleSetParams \<Rightarrow> update_callback \<Rightarrow> (db, ScaleSet) prog" where
  "UpdateEntityScaleSet entity scaleSetID param callback =
     m_bind (db_tx (update_scaleset_tx entity scaleSetID param callback)) (\<lambda>affected.
     m_bind (GetScaleSetByID scaleSetID) (\<lambda>updated.
       m_seq (m_when affected (sendNotify ScaleSetEntityType UpdateOperation (ScaleSetPayload updated))) (m_ret updated)))"

subsection \<open>Deletion and counters\<close>

text \<open>The jobs of a deleted scale set go with it.\<close>

definition delete_scaleset_row :: "nat \<Rightarrow> db \<Rightarrow> db" where
  "delete_scaleset_row n d = d\<lparr>db_scalesets := del_rows (\<lambda>r. sr_ID r = n) (db_scalesets d),
     db_scaleset_jobs := del_rows (\<lambda>j. sj_ScaleSetID j = n) (db_scaleset_jobs d)\<rparr>"

definition DeleteScaleSetByID :: "nat \<Rightarrow> (db, unit) prog" where
  "DeleteScaleSetByID scaleSetID = m_bind (db_tx (
       m_bind (m_query (getScaleSetByID scaleSetID)) (\<lambda>r.
       m_bind (m_get (\<lambda>d. scaleset_instances d scaleSetID)) (\<lambda>instances.
         if instances \<noteq> [] then m_throw BadRequestError
         else m_bind (m_query (\<lambda>d. sqlToCommonScaleSet ((load_scaleset d r)\<lparr>sl_tags := [], sl_endpoint := False\<rparr>))) (\<lambda>scaleSet.
           m_seq (m_modify (delete_scaleset_row scaleSetID)) (m_ret scaleSet))))))
     (\<lambda>scaleSet. m_when (ss_ID scaleSet \<noteq> 0) (sendNotify ScaleSetEntityType DeleteOperation (ScaleSetPayload scaleSet)))"

definition set_scaleset_column :: "nat \<Rightarrow> (ScaleSetRow \<Rightarrow> ScaleSetRow) \<Rightarrow> (db, unit) prog" where
  "set_scaleset_column scaleSetID f = m_bind (db_tx (
       m_bind (m_query (getScaleSetByID scaleSetID)) (\<lambda>_.
       m_seq (m_modify (\<lambda>d. upd_scaleset scaleSetID (\<lambda>r. (f r)\<lparr>sr_UpdatedAt := db_clock d\<rparr>) d))
       (m_query (\<lambda>d. case getScaleSetByID scaleSetID d of Inl e \<Rightarrow> Inl e
          | Inr r \<Rightarrow> sqlToCommonScaleSet ((load_scaleset d r)\<lparr>sl_tags := [], sl_endpoint := False\<rparr>))))))
     (\<lambda>scaleSet. m_when (ss_ID scaleSet \<noteq> 0) (sendNotify ScaleSetEntityType UpdateOperation (ScaleSetPayload scaleSet)))"

definition SetScaleSetLastMessageID :: "nat \<Rightarrow> int \<Rightarrow> (db, unit) prog" where
  "SetScaleSetLastMessageID scaleSetID lastMessageID = set_scaleset_column scaleSetID (\<lambda>r. r\<lparr>sr_LastMessageID := lastMessageID\<rparr>)"

definition SetScaleSetDesiredRunnerCount :: "nat \<Rightarrow> int \<Rightarrow> (db, unit) prog" where
  "SetScaleSetDesiredRunnerCount scaleSetID desiredRunnerCount =
     set_scaleset_column scaleSetID (\<lambda>r. r\<lparr>sr_DesiredRunnerCount := desiredRunnerCount\<rparr>)"

subsection \<open>Instances of a scale set\<close>

definition new_scaleset_instance :: "uuid \<Rightarrow> nat \<Rightarrow> CreateInstanceParams \<Rightarrow> time \<Rightarrow> InstanceRow" where
  "new_scaleset_instance u scaleSetID param now = \<lparr>ir_ID = u, ir_ProviderID = None, ir_Name = cip_Name param,
     ir_AgentID = cip_AgentID param, ir_OSType = cip_OSType param, ir_OSArch = cip_OSArch param, ir_OSName = [],
     ir_OSVersion = [], ir_Addresses = [], ir_Status = cip_Status param, ir_RunnerStatus = cip_RunnerStatus param,
     ir_Heartbeat = 0, ir_CallbackURL = cip_CallbackURL param, ir_MetadataURL = cip_MetadataURL param, ir_ProviderFault = [],
     ir_CreateAttempt = 0, ir_TokenFetched = False, ir_JitConfiguration = cip_JitConfiguration param,
     ir_GitHubRunnerGroup = cip_GitHubRunnerGroup param, ir_AditionalLabels = [], ir_HasShell = False, ir_Generation = 0,
     ir_PoolID = None, ir_ScaleSetFkID = Some scaleSetID, ir_StatusMessages = [], ir_CreatedAt = now, ir_UpdatedAt = now\<rparr>"

definition CreateScaleSetInstance :: "nat \<Rightarrow> CreateInstanceParams \<Rightarrow> (db, Instance) prog" where
  "CreateScaleSetInstance scaleSetID param =
     m_bind (db_read (getScaleSetByID scaleSetID)) (\<lambda>scaleSet.
     m_bind (db_stmt (m_bind new_uuid (\<lambda>u. m_bind (m_get db_clock) (\<lambda>now.
        let r = new_scaleset_instance u (sr_ID scaleSet) param now in m_seq (insert_instance r) (m_ret r))))) (\<lambda>r.
     m_bind (m_result (sqlToParamsInstance ((load_bare r)\<lparr>il_scaleset := Some (sr_ProviderName scaleSet)\<rparr>))) (\<lambda>inst.
       m_seq (sendNotify InstanceEntityType CreateOperation (InstancePayload inst)) (m_ret inst))))"

definition ListScaleSetInstances :: "nat \<Rightarrow> bool \<Rightarrow> (db, Instance list) prog" where
  "ListScaleSetInstances scalesetID outdatedOnly = listInstancesBatched (\<lambda>d i. ir_ScaleSetFkID i = Some scalesetID \<and>
     (outdatedOnly \<longrightarrow> (case find_scaleset scalesetID d of None \<Rightarrow> False | Some r \<Rightarrow> ir_Generation i < sr_Generation r)))"

subsection \<open>Jobs of a scale set\<close>

definition scaleSetJobStatusRank :: "string \<Rightarrow> nat" where
  "scaleSetJobStatusRank status = (if status = JobStatusQueued then 1 else if status = JobStatusInProgress then 2
     else if status = JobStatusCompleted then 3 else 0)"

text \<open>The conversion to params keeps every column: a row is its \<^verbatim>\<open>params.ScaleSetJob\<close>. A job refers to an existing scale
  set or to none.\<close>

definition scaleset_ref_ok :: "nat \<Rightarrow> db \<Rightarrow> bool" where
  "scaleset_ref_ok n d \<longleftrightarrow> n = 0 \<or> (\<exists>r \<in> set (db_scalesets d). sr_ID r = n)"

definition merge_scaleset_job :: "ScaleSetJob \<Rightarrow> ScaleSetJob \<Rightarrow> ScaleSetJob" where
  "merge_scaleset_job job dbJob = dbJob\<lparr>
     sj_Status := (if scaleSetJobStatusRank (sj_Status job) \<ge> scaleSetJobStatusRank (sj_Status dbJob)
        then sj_Status job else sj_Status dbJob),
     sj_Result := (if scaleSetJobStatusRank (sj_Status job) \<ge> scaleSetJobStatusRank (sj_Status dbJob)
        then sj_Result job else sj_Result dbJob),
     sj_RunnerID := (if sj_RunnerID job \<noteq> 0 then sj_RunnerID job else sj_RunnerID dbJob),
     sj_RunnerName := (if sj_RunnerName job \<noteq> [] then sj_RunnerName job else sj_RunnerName dbJob),
     sj_ScaleSetID := (if sj_ScaleSetID job \<noteq> 0 then sj_ScaleSetID job else sj_ScaleSetID dbJob),
     sj_QueueTime := (if sj_QueueTime job \<noteq> 0 then sj_QueueTime job else sj_QueueTime dbJob),
     sj_ScaleSetAssignTime := (if sj_ScaleSetAssignTime job \<noteq> 0 then sj_ScaleSetAssignTime job else sj_ScaleSetAssignTime dbJob),
     sj_RunnerAssignTime := (if sj_RunnerAssignTime job \<noteq> 0 then sj_RunnerAssignTime job else sj_RunnerAssignTime dbJob),
     sj_FinishTime := (if sj_FinishTime job \<noteq> 0 then sj_FinishTime job else sj_FinishTime dbJob)\<rparr>"

definition save_scaleset_job :: "ScaleSetJob \<Rightarrow> (db, OperationType \<times> ScaleSetJob) prog" where
  "save_scaleset_job job d = (case List.find (\<lambda>j. sj_ScaleSetJobID j = sj_ScaleSetJobID job) (db_scaleset_jobs d) of
     None \<Rightarrow>
       (let new = job\<lparr>sj_ID := db_next_scaleset_job d, sj_CreatedAt := db_clock d, sj_UpdatedAt := db_clock d\<rparr>
        in if \<not> scaleset_ref_ok (sj_ScaleSetID new) d then (Inl DatabaseError, d)
           else (Inr (CreateOperation, new), d\<lparr>db_scaleset_jobs := db_scaleset_jobs d @ [new],
             db_next_scaleset_job := db_next_scaleset_job d + 1\<rparr>))
   | Some dbJob \<Rightarrow>
       (let saved = (merge_scaleset_job job dbJob)\<lparr>sj_UpdatedAt := db_clock d\<rparr>
        in if \<not> scaleset_ref_ok (sj_ScaleSetID saved) d then (Inl DatabaseError, d)
           else (Inr (UpdateOperation, saved), d\<lparr>db_scaleset_jobs :=
             upd_rows (\<lambda>j. sj_ID j = sj_ID dbJob) (\<lambda>_. saved) (db_scaleset_jobs d)\<rparr>)))"

definition CreateOrUpdateScaleSetJob :: "ScaleSetJob \<Rightarrow> (db, ScaleSetJob) prog" where
  "CreateOrUpdateScaleSetJob job =
     (if sj_ScaleSetJobID job = [] then m_throw (OtherError ''scale set job has no ID'')
      else m_bind (db_tx (save_scaleset_job job)) (\<lambda>(operation, asParams).
        m_seq (sendNotify ScaleSetJobEntityType operation (ScaleSetJobPayload asParams)) (m_ret asParams)))"

definition ListScaleSetJobs :: "nat \<Rightarrow> (db, ScaleSetJob list) prog" where
  "ListScaleSetJobs scaleSetID = db_read (\<lambda>d. Inr (rev (filter (\<lambda>j. sj_ScaleSetID j = scaleSetID \<and> scaleSetID \<noteq> 0) (db_scaleset_jobs d))))"

definition ListAllScaleSetJobs :: "(db, ScaleSetJob list) prog" where
  "ListAllScaleSetJobs = db_read (\<lambda>d. Inr (rev (db_scaleset_jobs d)))"

definition scaleset_job_listed :: "nat \<Rightarrow> ListJobsFilter \<Rightarrow> ScaleSetJob \<Rightarrow> bool" where
  "scaleset_job_listed scaleSetID f j \<longleftrightarrow> (scaleSetID \<noteq> 0 \<longrightarrow> sj_ScaleSetID j = scaleSetID) \<and>
     (\<not> f_IncludeCompleted f \<longrightarrow> sj_Status j \<noteq> JobStatusCompleted) \<and>
     (f_Since f \<noteq> 0 \<longrightarrow> sj_CreatedAt j \<ge> f_Since f) \<and>
     (f_Until f \<noteq> 0 \<longrightarrow> sj_CreatedAt j \<le> f_Until f)"

record ScaleSetJobsPaginatedResponse =
  sjp_TotalCount :: uint64
  sjp_Pages :: uint64
  sjp_CurrentPage :: uint64
  sjp_NextPage :: "uint64 option"
  sjp_PreviousPage :: "uint64 option"
  sjp_Results :: "ScaleSetJob list"

definition ListScaleSetJobsPaginated :: "nat \<Rightarrow> ListJobsFilter \<Rightarrow> (db, ScaleSetJobsPaginatedResponse) prog" where
  "ListScaleSetJobsPaginated scaleSetID f =
     m_bind (db_read (\<lambda>d. Inr (int (length (filter (scaleset_job_listed scaleSetID f) (db_scaleset_jobs d)))))) (\<lambda>total0.
     m_bind (m_result (paginationInfo total0 (f_Page f) (f_PageSize f))) (\<lambda>info.
     m_bind (db_read (\<lambda>d. Inr (take (nat (pi_limit info)) (drop (nat (pi_offset info))
         (rev (filter (scaleset_job_listed scaleSetID f) (db_scaleset_jobs d))))))) (\<lambda>results.
       m_ret \<lparr>sjp_TotalCount = word_of_int total0, sjp_Pages = pi_pages info, sjp_CurrentPage = pi_page info,
         sjp_NextPage = pi_next info, sjp_PreviousPage = pi_prev info, sjp_Results = results\<rparr>)))"

definition DeleteOldScaleSetJobs :: "duration \<Rightarrow> (db, unit) prog" where
  "DeleteOldScaleSetJobs olderThan = m_bind (db_tx (m_bind
       (m_get (\<lambda>d. filter (\<lambda>j. sj_UpdatedAt j < db_clock d - olderThan) (db_scaleset_jobs d)))
       (\<lambda>jobs. if jobs = [] then m_ret []
          else m_seq (m_modify (\<lambda>d. d\<lparr>db_scaleset_jobs := del_rows (\<lambda>j. sj_ID j \<in> set (map sj_ID jobs)) (db_scaleset_jobs d)\<rparr>))
            (m_ret jobs))))
     (m_for (\<lambda>j. sendNotify ScaleSetJobEntityType DeleteOperation (ScaleSetJobPayload j)))"

subsection \<open>Jobs of scale sets\<close>

definition scaleset_job :: "string \<Rightarrow> db \<Rightarrow> ScaleSetJob option" where
  "scaleset_job i d = List.find (\<lambda>j. sj_ScaleSetJobID j = i) (db_scaleset_jobs d)"

definition scaleset_jobs_ok :: "db \<Rightarrow> bool" where
  "scaleset_jobs_ok d \<longleftrightarrow> distinct (map sj_ScaleSetJobID (db_scaleset_jobs d)) \<and> distinct (map sj_ID (db_scaleset_jobs d)) \<and>
     (\<forall>j \<in> set (db_scaleset_jobs d). sj_ID j < db_next_scaleset_job d)"

definition job_rank :: "string \<Rightarrow> db \<Rightarrow> nat option" where
  "job_rank i d = map_option (\<lambda>j. scaleSetJobStatusRank (sj_Status j)) (scaleset_job i d)"

lemma find_upd_row:
  assumes "List.find P xs = Some x" "P y" "distinct (map k xs)" "\<And>z. z \<in> set xs \<Longrightarrow> Q z \<longleftrightarrow> k z = k x"
  shows "List.find P (upd_rows Q (\<lambda>_. y) xs) = Some y"
  using assms
proof (induction xs)
  case (Cons a xs)
  show ?case
  proof (cases "P a")
    case True
    with Cons show ?thesis by auto
  next
    case False
    with Cons.prems have f: "List.find P xs = Some x" by simp
    then have "x \<in> set xs" by (simp add: find_SomeD)
    with Cons.prems have "\<not> Q a" by auto
    with False f Cons show ?thesis by simp
  qed
qed simp

lemma find_upd_other:
  assumes "\<And>z. z \<in> set xs \<Longrightarrow> Q z \<Longrightarrow> \<not> P z \<and> \<not> P y"
  shows "List.find P (upd_rows Q (\<lambda>_. y) xs) = List.find P xs"
  using assms by (induction xs) auto

lemma merge_frame [simp]: "sj_ScaleSetJobID (merge_scaleset_job j dbJob) = sj_ScaleSetJobID dbJob" "sj_ID (merge_scaleset_job j dbJob) = sj_ID dbJob"
  by (simp_all add: merge_scaleset_job_def)

lemma merge_rank: "scaleSetJobStatusRank (sj_Status (merge_scaleset_job j dbJob)) =
    max (scaleSetJobStatusRank (sj_Status j)) (scaleSetJobStatusRank (sj_Status dbJob))"
  by (simp add: merge_scaleset_job_def)

text \<open>What a successful save does to the jobs.\<close>

lemma save_scaleset_job_effect:
  assumes "scaleset_jobs_ok d" "save_scaleset_job j d = (Inr (op0, saved), d')"
  shows "scaleset_jobs_ok d'" "scaleset_job i d' = (if i = sj_ScaleSetJobID j then Some saved else scaleset_job i d)"
    "scaleSetJobStatusRank (sj_Status saved) = (case job_rank (sj_ScaleSetJobID j) d of None \<Rightarrow> scaleSetJobStatusRank (sj_Status j)
       | Some n \<Rightarrow> max (scaleSetJobStatusRank (sj_Status j)) n)"
proof -
  have *: "scaleset_jobs_ok d' \<and> scaleset_job i d' = (if i = sj_ScaleSetJobID j then Some saved else scaleset_job i d) \<and>
    scaleSetJobStatusRank (sj_Status saved) = (case job_rank (sj_ScaleSetJobID j) d of None \<Rightarrow> scaleSetJobStatusRank (sj_Status j)
       | Some n \<Rightarrow> max (scaleSetJobStatusRank (sj_Status j)) n)"
  proof (cases "scaleset_job (sj_ScaleSetJobID j) d")
    case None
    then have new: "\<forall>x \<in> set (db_scaleset_jobs d). sj_ScaleSetJobID x \<noteq> sj_ScaleSetJobID j"
      by (simp add: scaleset_job_def find_None_iff)
    let ?new = "j\<lparr>sj_ID := db_next_scaleset_job d, sj_CreatedAt := db_clock d, sj_UpdatedAt := db_clock d\<rparr>"
    have d': "d' = d\<lparr>db_scaleset_jobs := db_scaleset_jobs d @ [?new], db_next_scaleset_job := db_next_scaleset_job d + 1\<rparr>" "saved = ?new"
      using None assms(2) by (auto simp: save_scaleset_job_def scaleset_job_def Let_def split: if_splits)
    have "scaleset_jobs_ok d'" using assms(1) new by (auto simp: d' scaleset_jobs_ok_def)
    moreover have "scaleset_job i d' = (if i = sj_ScaleSetJobID j then Some saved else scaleset_job i d)"
      using None by (auto simp: d' scaleset_job_def find_append split: option.splits)
    ultimately show ?thesis using None by (simp add: job_rank_def d')
  next
    case (Some dbJob)
    note f = Some [unfolded scaleset_job_def]
    have mem: "dbJob \<in> set (db_scaleset_jobs d)" "sj_ScaleSetJobID dbJob = sj_ScaleSetJobID j" using find_SomeD [OF f] by simp_all
    let ?saved = "(merge_scaleset_job j dbJob)\<lparr>sj_UpdatedAt := db_clock d\<rparr>"
    have d': "d' = d\<lparr>db_scaleset_jobs := upd_rows (\<lambda>x. sj_ID x = sj_ID dbJob) (\<lambda>_. ?saved) (db_scaleset_jobs d)\<rparr>" "saved = ?saved"
      using f assms(2) by (auto simp: save_scaleset_job_def Let_def split: if_splits)
    have same: "z = dbJob" if "z \<in> set (db_scaleset_jobs d)" "sj_ID z = sj_ID dbJob" for z
      using that mem assms(1) by (auto simp: scaleset_jobs_ok_def distinct_map dest: inj_onD)
    have keys: "map g (db_scaleset_jobs d') = map g (db_scaleset_jobs d)" if "g ?saved = g dbJob" for g :: "ScaleSetJob \<Rightarrow> 'a"
      unfolding d' upd_rows_def using that by (auto dest: same)
    have "scaleset_jobs_ok d'"
      using assms(1) keys [of sj_ScaleSetJobID] keys [of sj_ID] unfolding scaleset_jobs_ok_def
      by (auto simp: d' elim!: upd_rowsE)
    moreover have "scaleset_job i d' = (if i = sj_ScaleSetJobID j then Some saved else scaleset_job i d)"
    proof (cases "i = sj_ScaleSetJobID j")
      case True
      have "List.find (\<lambda>x. sj_ScaleSetJobID x = sj_ScaleSetJobID j)
          (upd_rows (\<lambda>x. sj_ID x = sj_ID dbJob) (\<lambda>_. ?saved) (db_scaleset_jobs d)) = Some ?saved"
        using assms(1) mem by (intro find_upd_row [OF f, where k = sj_ID]) (auto simp: scaleset_jobs_ok_def)
      with True show ?thesis by (simp add: scaleset_job_def d')
    next
      case False
      then have "List.find (\<lambda>x. sj_ScaleSetJobID x = i)
          (upd_rows (\<lambda>x. sj_ID x = sj_ID dbJob) (\<lambda>_. ?saved) (db_scaleset_jobs d)) = List.find (\<lambda>x. sj_ScaleSetJobID x = i) (db_scaleset_jobs d)"
        using mem by (intro find_upd_other) (auto dest: same)
      with False show ?thesis by (simp add: scaleset_job_def d')
    qed
    ultimately show ?thesis by (simp add: job_rank_def Some d' merge_rank)
  qed
  from * show "scaleset_jobs_ok d'" "scaleset_job i d' = (if i = sj_ScaleSetJobID j then Some saved else scaleset_job i d)"
    "scaleSetJobStatusRank (sj_Status saved) = (case job_rank (sj_ScaleSetJobID j) d of None \<Rightarrow> scaleSetJobStatusRank (sj_Status j)
       | Some n \<Rightarrow> max (scaleSetJobStatusRank (sj_Status j)) n)" by blast+
qed


text \<open>Every job refers to a stored scale set, or to none.\<close>

definition scaleset_refs_ok :: "db \<Rightarrow> bool" where
  "scaleset_refs_ok d \<longleftrightarrow> (\<forall>j \<in> set (db_scaleset_jobs d). scaleset_ref_ok (sj_ScaleSetID j) d)"

definition recordable :: "db \<Rightarrow> ScaleSetJob \<Rightarrow> bool" where
  "recordable d j \<longleftrightarrow> sj_ScaleSetJobID j \<noteq> [] \<and> scaleset_ref_ok (sj_ScaleSetID j) d"

definition record_job :: "ScaleSetJob \<Rightarrow> db \<Rightarrow> db" where
  "record_job j d = snd (CreateOrUpdateScaleSetJob j d)"

lemma save_scaleset_job_ok:
  assumes "scaleset_refs_ok d" "recordable d j"
  obtains op0 saved d' where "save_scaleset_job j d = (Inr (op0, saved), d')" "db_faults d' = db_faults d"
    "db_scalesets d' = db_scalesets d" "scaleset_refs_ok d'"
proof (cases "List.find (\<lambda>x. sj_ScaleSetJobID x = sj_ScaleSetJobID j) (db_scaleset_jobs d)")
  case None
  with assms show thesis
    by (intro that [of CreateOperation "j\<lparr>sj_ID := db_next_scaleset_job d, sj_CreatedAt := db_clock d, sj_UpdatedAt := db_clock d\<rparr>"
          "d\<lparr>db_scaleset_jobs := db_scaleset_jobs d @ [j\<lparr>sj_ID := db_next_scaleset_job d, sj_CreatedAt := db_clock d,
            sj_UpdatedAt := db_clock d\<rparr>], db_next_scaleset_job := db_next_scaleset_job d + 1\<rparr>"])
      (auto simp: save_scaleset_job_def recordable_def Let_def scaleset_refs_ok_def scaleset_ref_ok_def)
next
  case (Some dbJob)
  let ?saved = "(merge_scaleset_job j dbJob)\<lparr>sj_UpdatedAt := db_clock d\<rparr>"
  have "scaleset_ref_ok (sj_ScaleSetID ?saved) d"
    using assms find_SomeD [OF Some] by (auto simp: merge_scaleset_job_def scaleset_refs_ok_def recordable_def)
  with assms Some show thesis
    by (intro that [of UpdateOperation ?saved "d\<lparr>db_scaleset_jobs := upd_rows (\<lambda>x. sj_ID x = sj_ID dbJob) (\<lambda>_. ?saved) (db_scaleset_jobs d)\<rparr>"])
      (auto simp: save_scaleset_job_def Let_def scaleset_refs_ok_def scaleset_ref_ok_def elim!: upd_rowsE)
qed

lemma record_job_effect:
  assumes "scaleset_jobs_ok d" "scaleset_refs_ok d" "recordable d j" "db_faults d = []"
  shows "scaleset_jobs_ok (record_job j d)" "scaleset_refs_ok (record_job j d)" "db_faults (record_job j d) = []"
    "db_scalesets (record_job j d) = db_scalesets d"
    "job_rank i (record_job j d) = (if i = sj_ScaleSetJobID j then Some (case job_rank i d of
       None \<Rightarrow> scaleSetJobStatusRank (sj_Status j) | Some n \<Rightarrow> max (scaleSetJobStatusRank (sj_Status j)) n) else job_rank i d)"
proof -
  obtain op0 saved d' where save: "save_scaleset_job j d = (Inr (op0, saved), d')" "db_faults d' = db_faults d"
    "db_scalesets d' = db_scalesets d" "scaleset_refs_ok d'"
    using save_scaleset_job_ok [OF assms(2,3)] by metis
  note eff = save_scaleset_job_effect [OF assms(1) save(1)]
  have run: "record_job j d = snd (sendNotify ScaleSetJobEntityType op0 (ScaleSetJobPayload saved) d')"
    using assms(3,4) save(1)
    by (simp add: record_job_def CreateOrUpdateScaleSetJob_def recordable_def db_tx_nofault m_bind_def m_seq_def sendNotify_def)
  show "scaleset_jobs_ok (record_job j d)" "scaleset_refs_ok (record_job j d)" "db_faults (record_job j d) = []"
    "db_scalesets (record_job j d) = db_scalesets d"
    using eff(1) save(2-4) assms(4) by (simp_all add: run sendNotify_def scaleset_jobs_ok_def scaleset_refs_ok_def scaleset_ref_ok_def)
  have "job_rank i (record_job j d) = job_rank i d'" by (simp add: run sendNotify_def job_rank_def scaleset_job_def)
  with eff(2) [of i] eff(3) show "job_rank i (record_job j d) = (if i = sj_ScaleSetJobID j then Some (case job_rank i d of
       None \<Rightarrow> scaleSetJobStatusRank (sj_Status j) | Some n \<Rightarrow> max (scaleSetJobStatusRank (sj_Status j)) n) else job_rank i d)"
    by (simp add: job_rank_def split: option.splits)
qed

definition recorded_ranks :: "string \<Rightarrow> ScaleSetJob list \<Rightarrow> nat set" where
  "recorded_ranks i js = {scaleSetJobStatusRank (sj_Status j) | j. j \<in> set js \<and> sj_ScaleSetJobID j = i}"

lemma recorded_ranks_simps [simp]: "recorded_ranks i [] = {}"
  "recorded_ranks i (j # js) = (if sj_ScaleSetJobID j = i then {scaleSetJobStatusRank (sj_Status j)} else {}) \<union> recorded_ranks i js"
  "finite (recorded_ranks i js)"
  by (auto simp: recorded_ranks_def)

text \<open>
  (C23) The recorded status of a scale set job does not depend on the order in which the messages about it are recorded: it has the
  highest rank (queued, in progress, completed) among what was stored before and what was recorded.
\<close>

theorem scaleset_job_rank_is_maximum:
  assumes "scaleset_jobs_ok d" "scaleset_refs_ok d" "db_faults d = []" "list_all (recordable d) js"
  shows "job_rank i (fold record_job js d) = (if recorded_ranks i js = {} then job_rank i d
    else Some (Max (set_option (job_rank i d) \<union> recorded_ranks i js)))"
  using assms
proof (induction js arbitrary: d)
  case (Cons j js)
  then have j: "recordable d j" by simp
  note eff = record_job_effect [OF Cons.prems(1,2) j Cons.prems(3)]
  have "list_all (recordable (record_job j d)) js"
    using Cons.prems(4) eff(4) by (simp add: recordable_def [abs_def] scaleset_ref_ok_def)
  from Cons.IH [OF eff(1-3) this] eff(5) [of i] show ?case
    by (cases "job_rank i d"; cases "recorded_ranks i js = {}") (auto simp: max.assoc max.left_commute max.commute)
qed simp


definition ex_job_message :: "string \<Rightarrow> ScaleSetJobMessage" where
  "ex_job_message ty = \<lparr>m_MessageType = ty, m_JobID = ''job-1'', m_RunnerRequestID = 1, m_RepositoryName = ''app'',
     m_OwnerName = ''acme'', m_JobWorkflowRef = [], m_JobDisplayName = [], m_WorkflowRunID = 8, m_EventName = [], m_RequestLabels = [],
     m_QueueTime = 0, m_ScaleSetAssignTime = 0, m_RunnerAssignTime = 0, m_FinishTime = 0, m_Result = [], m_RunnerID = 0,
     m_RunnerName = []\<rparr>"

theorem scaleset_job_rank_is_maximum_witness:
  "job_rank ''job-1'' (fold record_job (map (\<lambda>ty. ToScaleSetJob (ex_job_message ty) 0 []) [MessageTypeJobCompleted, MessageTypeJobStarted])
     (ex_db\<lparr>db_scaleset_jobs := []\<rparr>)) = Some (scaleSetJobStatusRank JobStatusCompleted)"
  using scaleset_job_rank_is_maximum [of "ex_db\<lparr>db_scaleset_jobs := []\<rparr>"
      "map (\<lambda>ty. ToScaleSetJob (ex_job_message ty) 0 []) [MessageTypeJobCompleted, MessageTypeJobStarted]" "''job-1''"]
  by (simp add: scaleset_jobs_ok_def scaleset_refs_ok_def recordable_def scaleset_ref_ok_def ToScaleSetJob_def ex_job_message_def
      job_rank_def scaleset_job_def MessageTypeToStatus_def MessageTypeJobCompleted_def MessageTypeJobStarted_def
      MessageTypeJobAssigned_def scaleSetJobStatusRank_def)

subsection \<open>Generations\<close>

lemma new_scaleset_runner_outdated:
  assumes "CreateScaleSetInstance n param d = (Inr inst, d')" "db_faults d = []" "find_scaleset n d = Some r" "sr_Generation r > 0"
  shows "\<exists>i \<in> set (db_instances d'). uuid_string (ir_ID i) = i_ID inst \<and> ir_ScaleSetFkID i = Some n \<and> ir_Generation i < sr_Generation r"
proof -
  have n: "sr_ID r = n" using find_SomeD [OF assms(3) [unfolded find_scaleset_def]] by simp
  let ?u = "db_uuids d (db_uuid_next d)"
  let ?i = "new_scaleset_instance ?u n param (db_clock d)"
  have "sqlToParamsInstance ((load_bare ?i)\<lparr>il_scaleset := Some (sr_ProviderName r)\<rparr>) = Inr inst \<and> ?i \<in> set (db_instances d')"
    using assms(1-3) n
    by (auto simp: CreateScaleSetInstance_def getScaleSetByID_def option_or_def m_bind_def m_seq_def new_uuid_def insert_instance_def
        Let_def sendNotify_def split: if_splits sum.splits)
  with sqlToParamsInstance_Inr(4) [of "(load_bare ?i)\<lparr>il_scaleset := Some (sr_ProviderName r)\<rparr>" inst] assms(4) show ?thesis
    by (intro bexI [of _ ?i]) (auto simp: new_scaleset_instance_def load_bare_def)
qed

end
