(* ===== verification/Garm_ScaleSet_Worker.thy ===== *)
theory Garm_ScaleSet_Worker
  imports Garm_ScaleSets Garm_Cache Garm_Manager
begin

text \<open>
  The worker of a scale set (\<^verbatim>\<open>workers/scaleset/scaleset.go\<close>, \<^verbatim>\<open>scaleset_helper.go\<close>) and its listener
  (\<^verbatim>\<open>scaleset_listener.go\<close>). The state \<open>ssys\<close> holds the store, the worker, the listener, the process wide lock table, what
  package \<^verbatim>\<open>cache\<close> answers for the entity, the recorded life cycle events and the world of the forge and the provider. The
  requests to the actions service and the calls of the provider plugin are functions of the record \<open>ss_env\<close>; they may
  answer anything.

  A function that holds the mutex of the worker is one step. \<^verbatim>\<open>locking.Lock\<close> returns once the holder has released the
  key: of what happens while it waits the model keeps the release. The map of the runners is an association list by
  instance ID; ranging over it visits the entries it has when the loop starts, in some order.
\<close>

subsection \<open>Forge and provider\<close>

text \<open>\<open>rf_Status\<close> is \<open>None\<close> when the forge sends something else than a string; \<open>rf_Labels\<close> are the names of the labels.\<close>

record RunnerReference =
  rf_ID :: int
  rf_Name :: string
  rf_RunnerScaleSetID :: int
  rf_Status :: "string option"
  rf_Busy :: bool
  rf_Labels :: "string list"

definition runner_status :: "string \<Rightarrow> RunnerStatus" where
  "runner_status s = (if s = ''idle'' then RunnerIdle else if s = ''pending'' then RunnerPending
     else if s = ''terminated'' then RunnerTerminated else if s = ''installing'' then RunnerInstalling
     else if s = ''failed'' then RunnerFailed else if s = ''active'' then RunnerActive
     else if s = ''offline'' then RunnerOffline else if s = ''online'' then RunnerOnline
     else if s = ''unknown'' then RunnerUnknown else if s = [] then RunnerStatusEmpty else RunnerStatusOther s)"

definition RunnerReference_GetStatus :: "RunnerReference \<Rightarrow> RunnerStatus" where
  "RunnerReference_GetStatus r = (case rf_Status r of
     None \<Rightarrow> RunnerUnknown
   | Some s \<Rightarrow> if \<not> RunnerStatus_IsValid (runner_status s) then RunnerUnknown
       else if runner_status s = RunnerOnline then (if rf_Busy r then RunnerActive else RunnerIdle)
       else runner_status s)"

text \<open>A message of the queue: \<open>msg_Jobs\<close> is what parsing its body gives, \<open>msg_TotalAssignedJobs\<close> is \<open>None\<close> without statistics.\<close>

record RunnerScaleSetMessage =
  msg_MessageID :: int
  msg_MessageType :: string
  msg_Jobs :: "garm_error + ScaleSetJobMessage list"
  msg_TotalAssignedJobs :: "int option"

record ScaleSetBaseParams =
  sbp_ControllerInfo :: ControllerInfo
  sbp_ScaleSetID :: nat
  sbp_EntityType :: ForgeEntityType
  sbp_EntityID :: string

record 'w ss_env =
  se_NewClient :: "('w, unit) prog"
  se_GetEntityRunnerGroupIDByName :: "string \<Rightarrow> ('w, int) prog"
  se_GetRunnerScaleSetByNameAndRunnerGroup :: "int \<Rightarrow> string \<Rightarrow> ('w, int) prog"
  se_CreateRunnerScaleSet :: "ScaleSet \<Rightarrow> int \<Rightarrow> ('w, int) prog"
  se_RemoveRunner :: "int \<Rightarrow> ('w, unit) prog"
  se_GetRunner :: "int \<Rightarrow> ('w, RunnerReference) prog"
  se_GenerateJitRunnerConfig :: "string \<Rightarrow> int \<Rightarrow> ('w, int \<times> string) prog"
  se_DecodedJITConfig :: "string \<Rightarrow> garm_error + (string \<times> string) list"
  se_AcquireJobs :: "int \<Rightarrow> int list \<Rightarrow> ('w, int list) prog"
  se_CreateMessageSession :: "int \<Rightarrow> string \<Rightarrow> ('w, unit) prog"
  se_DeleteMessageSession :: "('w, unit) prog"
  se_GetMessage :: "int \<Rightarrow> uint64 \<Rightarrow> ('w, RunnerScaleSetMessage option) prog"
  se_DeleteMessage :: "int \<Rightarrow> ('w, unit) prog"
  se_ListInstances :: "string \<Rightarrow> ScaleSetBaseParams \<Rightarrow> ('w, ProviderInstance list) prog"
  se_DeleteInstance :: "string \<Rightarrow> ScaleSetBaseParams \<Rightarrow> ('w, unit) prog"
  se_NewID :: "'w \<Rightarrow> string \<times> 'w"
  se_ControllerInfo :: "garm_error + ControllerInfo"

subsection \<open>The state\<close>

text \<open>\<open>sv_client\<close> tells the installed forge clients apart by a number; the worker compares pointers.\<close>

record ssView =
  sv_tools :: "garm_error + string list"
  sv_credentials :: "ForgeCredentials option"
  sv_client :: "nat option"

record scaleSetListener =
  li_lastMessageID :: int
  li_running :: bool
  li_retryAfterUnauthorized :: bool

text \<open>Why scaling is paused; the code keeps the text of the log line.\<close>

datatype pauseReason = NotPaused | CredentialsRejected | RateLimited time

record scaleSetWorker =
  wk_consumerID :: string
  wk_controllerInfo :: ControllerInfo
  wk_scaleSet :: ScaleSet
  wk_entity :: ForgeEntity
  wk_runners :: "(string, Instance) keyedCache"
  wk_pseudoPoolID :: string
  wk_legacyPoolIDDrained :: bool
  wk_running :: bool
  wk_authFailed :: bool
  wk_authFailedCli :: "nat option"
  wk_authFailureAt :: time
  wk_scalingPauseReason :: pauseReason
  wk_listener :: scaleSetListener

record 'w ssys =
  sk_db :: db
  sk_worker :: scaleSetWorker
  sk_locks :: keyMutex
  sk_view :: ssView
  sk_lifecycle :: "string list"
  sk_world :: 'w

definition ss_db :: "(db, 'a) prog \<Rightarrow> ('w ssys, 'a) prog" where
  "ss_db = m_lift sk_db (\<lambda>d s. s\<lparr>sk_db := d\<rparr>)"

definition ss_world :: "('w, 'a) prog \<Rightarrow> ('w ssys, 'a) prog" where
  "ss_world = m_lift sk_world (\<lambda>w s. s\<lparr>sk_world := w\<rparr>)"

definition upd_worker :: "(scaleSetWorker \<Rightarrow> scaleSetWorker) \<Rightarrow> ('w ssys, unit) prog" where
  "upd_worker f = m_modify (\<lambda>s. s\<lparr>sk_worker := f (sk_worker s)\<rparr>)"

definition get_worker :: "(scaleSetWorker \<Rightarrow> 'a) \<Rightarrow> ('w ssys, 'a) prog" where
  "get_worker f = m_get (\<lambda>s. f (sk_worker s))"

definition ss_now :: "('w ssys, time) prog" where
  "ss_now = m_get (\<lambda>s. db_clock (sk_db s))"

definition set_runner :: "string \<Rightarrow> Instance \<Rightarrow> ('w ssys, unit) prog" where
  "set_runner i inst = upd_worker (\<lambda>w. w\<lparr>wk_runners := keyedCache_Set i inst (wk_runners w)\<rparr>)"

definition drop_runner :: "string \<Rightarrow> ('w ssys, unit) prog" where
  "drop_runner i = upd_worker (\<lambda>w. w\<lparr>wk_runners := keyedCache_Delete i (wk_runners w)\<rparr>)"

definition ss_try_lock :: "string \<Rightarrow> ('w ssys, bool) prog" where
  "ss_try_lock key s = (case keyMutex_TryLock key (wk_consumerID (sk_worker s)) (sk_locks s) of
     (ok, m) \<Rightarrow> (Inr ok, s\<lparr>sk_locks := m\<rparr>))"

definition ss_unlock :: "string \<Rightarrow> bool \<Rightarrow> ('w ssys, unit) prog" where
  "ss_unlock key remove = m_modify (\<lambda>s. s\<lparr>sk_locks := keyMutex_Unlock key remove (sk_locks s)\<rparr>)"

definition ss_lock :: "string \<Rightarrow> ('w ssys, unit) prog" where
  "ss_lock key = m_modify (\<lambda>s. s\<lparr>sk_locks := (case keyMutex_Lock key (wk_consumerID (sk_worker s)) (sk_locks s) of
     Some m \<Rightarrow> m
   | None \<Rightarrow> snd (keyMutex_TryLock key (wk_consumerID (sk_worker s)) (keyMutex_Unlock key False (sk_locks s))))\<rparr>)"

definition ss_lifecycle :: "string \<Rightarrow> ('w ssys, unit) prog" where
  "ss_lifecycle outcome = m_modify (\<lambda>s. s\<lparr>sk_lifecycle := sk_lifecycle s @ [outcome]\<rparr>)"

subsection \<open>Helpers\<close>

text \<open>Without a client the code wraps a nil error; the result is an error all the same.\<close>

definition GetScaleSetClient :: "'w ss_env \<Rightarrow> ('w ssys, unit) prog" where
  "GetScaleSetClient env = m_bind (get_worker (\<lambda>w. ScaleSet_GetEntity (wk_scaleSet w))) (\<lambda>r. case r of
     Inl e \<Rightarrow> m_throw e
   | Inr _ \<Rightarrow> m_bind (m_get (\<lambda>s. sv_client (sk_view s))) (\<lambda>cli. case cli of
       None \<Rightarrow> m_throw (OtherError ''getting github client'')
     | Some _ \<Rightarrow> ss_world (se_NewClient env)))"

definition SetLastMessageID :: "int \<Rightarrow> ('w ssys, unit) prog" where
  "SetLastMessageID i = m_bind (get_worker (\<lambda>w. ss_ID (wk_scaleSet w))) (\<lambda>n. ss_db (SetScaleSetLastMessageID n i))"

definition SetDesiredRunnerCount :: "int \<Rightarrow> ('w ssys, unit) prog" where
  "SetDesiredRunnerCount count = m_bind (get_worker (\<lambda>w. ss_ID (wk_scaleSet w))) (\<lambda>n. ss_db (SetScaleSetDesiredRunnerCount n count))"

definition trim_right :: "string \<Rightarrow> string" where
  "trim_right s = rev (dropWhile (\<lambda>c. c = CHR ''/'') (rev s))"

text \<open>\<^verbatim>\<open>recordOrUpdateJob\<close> logs a failure and returns nil.\<close>

definition recordOrUpdateJob :: "ScaleSetJobMessage \<Rightarrow> ('w ssys, unit) prog" where
  "recordOrUpdateJob job = m_bind (get_worker id) (\<lambda>w.
     let jobParams = ToScaleSetJob job (ss_ID (wk_scaleSet w)) (ss_GitHubRunnerGroup (wk_scaleSet w));
         baseURL = trim_right (c_BaseURL (e_Credentials (wk_entity w)));
         withURL = (if baseURL = [] then jobParams else jobParams\<lparr>sj_WorkflowRunURL := baseURL @ ''/'' @ sj_RepositoryOwner jobParams @
            ''/'' @ sj_RepositoryName jobParams @ ''/actions/runs/'' @ int_dec (sj_WorkflowRunID jobParams)\<rparr>)
     in m_ignore (ss_db (CreateOrUpdateScaleSetJob withURL)))"

definition setRunnerDBStatus :: "string \<Rightarrow> InstanceStatus \<Rightarrow> ('w ssys, Instance) prog" where
  "setRunnerDBStatus runner status = ss_db (UpdateInstance runner (empty_update\<lparr>uip_Status := status\<rparr>))"

definition transition_from :: "(InstanceStatus \<Rightarrow> bool) \<Rightarrow> garm_error \<Rightarrow> bool" where
  "transition_from P e = (case e of InstanceTransitionError f _ \<Rightarrow> P f | _ \<Rightarrow> False)"

definition runner_transition_from :: "(RunnerStatus \<Rightarrow> bool) \<Rightarrow> garm_error \<Rightarrow> bool" where
  "runner_transition_from P e = (case e of RunnerTransitionError f _ \<Rightarrow> P f | _ \<Rightarrow> False)"

definition ignore_not_found :: "('s, 'a) prog \<Rightarrow> ('s, unit) prog" where
  "ignore_not_found m = m_bind (m_try m) (\<lambda>r. case r of
     Inl e \<Rightarrow> if error_is e NotFoundError then m_ret () else m_throw e
   | Inr _ \<Rightarrow> m_ret ())"

definition removeRunnerFromGithubAndSetPendingDelete :: "'w ss_env \<Rightarrow> string \<Rightarrow> int \<Rightarrow> ('w ssys, unit) prog" where
  "removeRunnerFromGithubAndSetPendingDelete env runnerName agentID =
     m_seq (GetScaleSetClient env)
     (m_seq (ignore_not_found (ss_world (se_RemoveRunner env agentID)))
     (m_bind (m_try (setRunnerDBStatus runnerName InstancePendingDelete)) (\<lambda>r. case r of
        Inl e \<Rightarrow> if error_is e NotFoundError then m_ret () else m_throw e
      | Inr instance0 \<Rightarrow> set_runner (i_ID instance0) instance0)))"

definition providerBaseParams :: "scaleSetWorker \<Rightarrow> ScaleSetBaseParams" where
  "providerBaseParams w = (case ScaleSet_GetEntity (wk_scaleSet w) of
     Inl _ \<Rightarrow> \<lparr>sbp_ControllerInfo = wk_controllerInfo w, sbp_ScaleSetID = ss_ID (wk_scaleSet w),
       sbp_EntityType = ForgeEntityTypeOther [], sbp_EntityID = []\<rparr>
   | Inr (ty, i) \<Rightarrow> \<lparr>sbp_ControllerInfo = wk_controllerInfo w, sbp_ScaleSetID = ss_ID (wk_scaleSet w),
       sbp_EntityType = ty, sbp_EntityID = i\<rparr>)"

definition legacyPseudoPoolID :: "scaleSetWorker \<Rightarrow> garm_error + string" where
  "legacyPseudoPoolID w = (case ScaleSet_GetEntity (wk_scaleSet w) of
     Inl e \<Rightarrow> Inl e | Inr (_, i) \<Rightarrow> Inr (ss_Name (wk_scaleSet w) @ ''-'' @ i))"

text \<open>Two runners of the same name cannot exist in the store; the later one of the iteration would win.\<close>

definition runnerByName :: "scaleSetWorker \<Rightarrow> (string, Instance) keyedCache" where
  "runnerByName w = fold (\<lambda>runner. keyedCache_Set (i_Name runner) runner) (map snd (wk_runners w)) []"

subsection \<open>Messages about jobs\<close>

definition handle_job_completed :: "ScaleSetJobMessage \<Rightarrow> ('w ssys, unit) prog" where
  "handle_job_completed job = m_seq (recordOrUpdateJob job)
     (if m_RunnerName job = [] then m_ret ()
      else m_seq (ss_lock (m_RunnerName job))
        (m_bind (m_try (ss_db (UpdateInstance (m_RunnerName job)
            (empty_update\<lparr>uip_Status := InstancePendingDelete, uip_RunnerStatus := RunnerTerminated\<rparr>)))) (\<lambda>r. case r of
           Inl e \<Rightarrow> if error_is e NotFoundError then ss_unlock (m_RunnerName job) True
             else if transition_from InstanceIsBeingDeleted e then ss_unlock (m_RunnerName job) False
             else if transition_from InstanceIsProvisioning e then ss_unlock (m_RunnerName job) False
             else m_seq (ss_unlock (m_RunnerName job) False) (m_throw e)
         | Inr _ \<Rightarrow> m_seq (ss_lifecycle ''job_completed'') (ss_unlock (m_RunnerName job) False))))"

definition HandleJobsCompleted :: "ScaleSetJobMessage list \<Rightarrow> ('w ssys, unit) prog" where
  "HandleJobsCompleted jobs = m_for handle_job_completed jobs"

definition handle_job_started :: "ScaleSetJobMessage \<Rightarrow> ('w ssys, unit) prog" where
  "handle_job_started job = m_seq (recordOrUpdateJob job)
     (if m_RunnerName job = [] then m_ret ()
      else m_seq (ss_lock (m_RunnerName job))
        (m_bind (m_try (ss_db (UpdateInstance (m_RunnerName job) (empty_update\<lparr>uip_RunnerStatus := RunnerActive\<rparr>)))) (\<lambda>r. case r of
           Inl e \<Rightarrow> if error_is e NotFoundError then ss_unlock (m_RunnerName job) True
             else if runner_transition_from RunnerIsTerminal e then ss_unlock (m_RunnerName job) False
             else m_seq (ss_unlock (m_RunnerName job) False) (m_throw e)
         | Inr _ \<Rightarrow> ss_unlock (m_RunnerName job) False)))"

definition HandleJobsStarted :: "ScaleSetJobMessage list \<Rightarrow> ('w ssys, unit) prog" where
  "HandleJobsStarted jobs = m_for handle_job_started jobs"

definition HandleJobsAvailable :: "ScaleSetJobMessage list \<Rightarrow> ('w ssys, unit) prog" where
  "HandleJobsAvailable jobs = m_for recordOrUpdateJob jobs"

subsection \<open>The listener\<close>

definition upd_listener :: "(scaleSetListener \<Rightarrow> scaleSetListener) \<Rightarrow> ('w ssys, unit) prog" where
  "upd_listener f = upd_worker (\<lambda>w. w\<lparr>wk_listener := f (wk_listener w)\<rparr>)"

definition listener_Start :: "'w ss_env \<Rightarrow> ('w ssys, unit) prog" where
  "listener_Start env = m_bind (get_worker id) (\<lambda>w. if li_running (wk_listener w) then m_ret ()
     else m_seq (GetScaleSetClient env)
       (m_seq (ss_world (se_CreateMessageSession env (ss_ScaleSetID (wk_scaleSet w))
          (''garm-'' @ uuid_string (ci_ControllerID (wk_controllerInfo w)))))
       (upd_listener (\<lambda>l. l\<lparr>li_running := True, li_retryAfterUnauthorized := False\<rparr>))))"

definition listener_Stop :: "'w ss_env \<Rightarrow> ('w ssys, unit) prog" where
  "listener_Stop env = m_bind (get_worker (\<lambda>w. li_running (wk_listener w))) (\<lambda>running. if \<not> running then m_ret ()
     else m_seq (m_ignore (m_seq (GetScaleSetClient env) (ss_world (se_DeleteMessageSession env))))
       (upd_listener (\<lambda>l. l\<lparr>li_running := False\<rparr>)))"

definition jobs_of_type :: "string \<Rightarrow> ScaleSetJobMessage list \<Rightarrow> ScaleSetJobMessage list" where
  "jobs_of_type ty jobs = filter (\<lambda>job. m_MessageType job = ty) jobs"

text \<open>After the jobs are handled the message is acknowledged. The statistics are a pointer that is not checked.\<close>

definition acknowledge :: "'w ss_env \<Rightarrow> RunnerScaleSetMessage \<Rightarrow> ('w ssys, unit) prog" where
  "acknowledge env msg =
     m_seq (m_bind (m_try (SetLastMessageID (msg_MessageID msg))) (\<lambda>r. case r of
       Inl _ \<Rightarrow> m_ret ()
     | Inr _ \<Rightarrow> upd_listener (\<lambda>l. l\<lparr>li_lastMessageID := msg_MessageID msg\<rparr>)))
     (case msg_TotalAssignedJobs msg of
       None \<Rightarrow> m_throw (OtherError ''panic: nil pointer dereference'')
     | Some count \<Rightarrow> m_seq (m_ignore (SetDesiredRunnerCount count))
         (m_ignore (ss_world (se_DeleteMessage env (msg_MessageID msg)))))"

definition acquire_jobs :: "'w ss_env \<Rightarrow> ScaleSetJobMessage list \<Rightarrow> ('w ssys, unit) prog" where
  "acquire_jobs env availableJobs = (if availableJobs = [] then m_ret ()
     else m_bind (get_worker (\<lambda>w. ss_ScaleSetID (wk_scaleSet w))) (\<lambda>i.
       m_seq (ss_world (se_AcquireJobs env i (map m_RunnerRequestID availableJobs)))
         (m_ignore (HandleJobsAvailable availableJobs))))"

text \<open>An error of this program means that the message is not acknowledged and the handler returns; the code logs it.
  A body that cannot be parsed counts as empty.\<close>

definition process_message :: "'w ss_env \<Rightarrow> RunnerScaleSetMessage \<Rightarrow> ('w ssys, unit) prog" where
  "process_message env msg = (let body = (case msg_Jobs msg of Inl _ \<Rightarrow> [] | Inr jobs \<Rightarrow> jobs);
       assigned = jobs_of_type MessageTypeJobAssigned body; started = jobs_of_type MessageTypeJobStarted body;
       completed = jobs_of_type MessageTypeJobCompleted body; available = jobs_of_type MessageTypeJobAvailable body
     in m_seq (GetScaleSetClient env)
       (m_seq (acquire_jobs env available)
       (m_seq (m_when (assigned \<noteq> []) (m_ignore (HandleJobsAvailable assigned)))
       (m_seq (m_when (started \<noteq> []) (HandleJobsStarted started))
       (m_when (completed \<noteq> []) (HandleJobsCompleted completed))))))"

definition handleSessionMessage :: "'w ss_env \<Rightarrow> RunnerScaleSetMessage \<Rightarrow> ('w ssys, unit) prog" where
  "handleSessionMessage env msg =
     (if msg_MessageType msg \<noteq> ''RunnerScaleSetJobMessages'' then m_ret ()
      else m_bind (m_try (process_message env msg)) (\<lambda>r. case r of
        Inl _ \<Rightarrow> m_ret ()
      | Inr _ \<Rightarrow> acknowledge env msg))"

text \<open>One turn of the loop of the listener; when it ends, the deferred \<^verbatim>\<open>Stop\<close> runs.\<close>

definition listener_poll :: "'w ss_env \<Rightarrow> ('w ssys, unit) prog" where
  "listener_poll env = m_bind (get_worker id) (\<lambda>w. if \<not> li_running (wk_listener w) then m_ret ()
     else m_bind (m_try (ss_world (se_GetMessage env (li_lastMessageID (wk_listener w)) (ss_MaxRunners (wk_scaleSet w))))) (\<lambda>r. case r of
       Inl e \<Rightarrow> if error_is e UnauthorizedError \<and> \<not> li_retryAfterUnauthorized (wk_listener w)
         then upd_listener (\<lambda>l. l\<lparr>li_retryAfterUnauthorized := True\<rparr>)
         else listener_Stop env
     | Inr m \<Rightarrow> m_seq (upd_listener (\<lambda>l. l\<lparr>li_retryAfterUnauthorized := False\<rparr>))
         (case m of None \<Rightarrow> m_ret () | Some msg \<Rightarrow> handleSessionMessage env msg)))"

subsection \<open>Rejected credentials and rate limits\<close>

definition forgeAuthRetryInterval :: duration where "forgeAuthRetryInterval = 5 * minute"

definition ss_RateLimitReached :: "ssView \<Rightarrow> time \<Rightarrow> bool \<times> time" where
  "ss_RateLimitReached v now = (case sv_credentials v of None \<Rightarrow> (False, 0) | Some creds \<Rightarrow> RateLimitReached creds now)"

definition ss_RateLimitExhausted :: "ssView \<Rightarrow> time \<Rightarrow> bool \<times> time" where
  "ss_RateLimitExhausted v now = (case sv_credentials v of None \<Rightarrow> (False, 0) | Some creds \<Rightarrow> CriticalRateLimitReached creds now)"

definition markAuthFailure :: "('w ssys, unit) prog" where
  "markAuthFailure = m_modify (\<lambda>s. if fst (ss_RateLimitExhausted (sk_view s) (db_clock (sk_db s))) then s
     else s\<lparr>sk_worker := (sk_worker s)\<lparr>wk_authFailed := True, wk_authFailedCli := sv_client (sk_view s),
       wk_authFailureAt := db_clock (sk_db s)\<rparr>\<rparr>)"

definition clearAuthFailureLocked :: "scaleSetWorker \<Rightarrow> scaleSetWorker" where
  "clearAuthFailureLocked w = w\<lparr>wk_authFailed := False, wk_authFailedCli := None\<rparr>"

text \<open>The answer, and the worker afterwards.\<close>

definition forgeAuthBlockedLocked :: "ssView \<Rightarrow> time \<Rightarrow> scaleSetWorker \<Rightarrow> bool \<times> scaleSetWorker" where
  "forgeAuthBlockedLocked v now w =
     (if \<not> wk_authFailed w then (False, w)
      else if sv_client v \<noteq> None \<and> sv_client v \<noteq> wk_authFailedCli w then (False, clearAuthFailureLocked w)
      else if now - wk_authFailureAt w \<ge> forgeAuthRetryInterval then (False, w)
      else (True, w))"

definition scalingPausedLocked :: "ssView \<Rightarrow> time \<Rightarrow> scaleSetWorker \<Rightarrow> bool \<times> scaleSetWorker" where
  "scalingPausedLocked v now w = (case forgeAuthBlockedLocked v now w of (blocked, w') \<Rightarrow>
     let reason = (if blocked then CredentialsRejected
           else case ss_RateLimitReached v now of (limited, resetAt) \<Rightarrow> if limited then RateLimited resetAt else NotPaused)
     in (reason \<noteq> NotPaused, w'\<lparr>wk_scalingPauseReason := reason\<rparr>))"

definition sessionLoopMayRun :: "ssView \<Rightarrow> time \<Rightarrow> scaleSetWorker \<Rightarrow> bool \<times> scaleSetWorker" where
  "sessionLoopMayRun v now w =
     (if \<not> ss_Enabled (wk_scaleSet w) then (False, w)
      else case forgeAuthBlockedLocked v now w of (blocked, w') \<Rightarrow>
        if blocked then (False, w') else (\<not> fst (ss_RateLimitExhausted v now), w'))"

definition ask_worker :: "(ssView \<Rightarrow> time \<Rightarrow> scaleSetWorker \<Rightarrow> bool \<times> scaleSetWorker) \<Rightarrow> ('w ssys, bool) prog" where
  "ask_worker f s = (case f (sk_view s) (db_clock (sk_db s)) (sk_worker s) of (b, w) \<Rightarrow> (Inr b, s\<lparr>sk_worker := w\<rparr>))"

text \<open>The parts of \<^verbatim>\<open>keepListenerAlive\<close> between two sleeps: the attempt at the head of the loop, and an attempt to restart a
  listener that has stopped, which gives the next back-off or \<open>None\<close> when the loop goes back to its head.\<close>

definition keepListenerAlive_turn :: "'w ss_env \<Rightarrow> ('w ssys, unit) prog" where
  "keepListenerAlive_turn env = m_bind (ask_worker sessionLoopMayRun) (\<lambda>may. if \<not> may then m_ret ()
     else m_bind (m_try (listener_Start env)) (\<lambda>r. case r of
       Inl e \<Rightarrow> m_when (error_is e UnauthorizedError) markAuthFailure
     | Inr _ \<Rightarrow> upd_worker clearAuthFailureLocked))"

definition next_backoff :: "duration \<Rightarrow> duration" where
  "next_backoff backoff = (if backoff = 0 then 5 * second else min (backoff * 3 div 2) (60 * second))"

definition keepListenerAlive_restart :: "'w ss_env \<Rightarrow> duration \<Rightarrow> ('w ssys, duration option) prog" where
  "keepListenerAlive_restart env backoff = m_bind (get_worker (\<lambda>w. ss_Enabled (wk_scaleSet w))) (\<lambda>enabled.
     if \<not> enabled then m_ret None
     else m_bind (ask_worker forgeAuthBlockedLocked) (\<lambda>blocked. if blocked then m_ret None
     else m_bind (m_try (listener_Start env)) (\<lambda>r. case r of
       Inl e \<Rightarrow> if error_is e UnauthorizedError then m_seq markAuthFailure (m_ret None) else m_ret (Some (next_backoff backoff))
     | Inr _ \<Rightarrow> m_seq (upd_worker clearAuthFailureLocked) (m_ret None))))"

subsection \<open>Scaling\<close>

text \<open>The sum is one of machine words, and so is the conversion to \<^verbatim>\<open>int\<close>.\<close>

definition targetRunners :: "scaleSetWorker \<Rightarrow> int" where
  "targetRunners w = (let scaleSet = wk_scaleSet w;
       desired = (if ss_DesiredRunnerCount scaleSet > 0 then word_of_int (ss_DesiredRunnerCount scaleSet) else 0);
       sum = ss_MinIdleRunners scaleSet + desired
     in sint (if sum < ss_MaxRunners scaleSet then sum else ss_MaxRunners scaleSet))"

definition runnerCount :: "scaleSetWorker \<Rightarrow> int" where
  "runnerCount w = int (length (filter (\<lambda>(_, runner). i_Status runner \<noteq> InstanceDeleted) (wk_runners w)))"

text \<open>One round of the loop of \<^verbatim>\<open>handleScaleUp\<close>; a failure goes on with the next round.\<close>

definition scale_up_one :: "'w ss_env \<Rightarrow> ControllerInfo \<Rightarrow> ('w ssys, unit) prog" where
  "scale_up_one env controllerConfig = m_bind (get_worker wk_scaleSet) (\<lambda>scaleSet.
     m_bind (ss_world (\<lambda>w. case se_NewID env w of (i, w') \<Rightarrow> (Inr i, w'))) (\<lambda>newID.
     let newRunnerName = to_lower (GetRunnerPrefix (ss_Prefix scaleSet) @ ''-'' @ newID)
     in m_bind (ss_world (se_GenerateJitRunnerConfig env newRunnerName (ss_ScaleSetID scaleSet))) (\<lambda>(runnerID, encoded).
     m_bind (m_result (se_DecodedJITConfig env encoded)) (\<lambda>decodedJit.
     m_bind (m_try (ss_db (CreateScaleSetInstance (ss_ID scaleSet) \<lparr>cip_Name = newRunnerName,
         cip_OSType = ss_OSType scaleSet, cip_OSArch = ss_OSArch scaleSet, cip_Status = InstancePendingCreate,
         cip_RunnerStatus = RunnerPending, cip_CallbackURL = ci_CallbackURL controllerConfig,
         cip_MetadataURL = ci_MetadataURL controllerConfig, cip_GitHubRunnerGroup = ss_GitHubRunnerGroup scaleSet,
         cip_CreateAttempt = 1, cip_AgentID = runnerID, cip_AditionalLabels = [], cip_JitConfiguration = decodedJit,
         cip_Generation = 0\<rparr>))) (\<lambda>r. case r of
        Inl _ \<Rightarrow> m_ignore (ss_world (se_RemoveRunner env runnerID))
      | Inr dbInstance \<Rightarrow> set_runner (i_ID dbInstance) dbInstance)))))"

definition handleScaleUp :: "'w ss_env \<Rightarrow> ('w ssys, unit) prog" where
  "handleScaleUp env = m_bind (get_worker id) (\<lambda>w.
     if \<not> ss_Enabled (wk_scaleSet w) \<or> targetRunners w \<le> runnerCount w then m_ret ()
     else case se_ControllerInfo env of
       Inl _ \<Rightarrow> m_ret ()
     | Inr controllerConfig \<Rightarrow> m_bind (m_try (GetScaleSetClient env)) (\<lambda>r. case r of
         Inl _ \<Rightarrow> m_ret ()
       | Inr _ \<Rightarrow> m_for (\<lambda>_. m_ignore (scale_up_one env controllerConfig))
           (replicate (nat (targetRunners w - runnerCount w)) ())))"

definition on_the_way_out :: "Instance \<Rightarrow> bool" where
  "on_the_way_out runner \<longleftrightarrow> (case i_Status runner of
     InstancePendingDelete \<Rightarrow> True | InstancePendingForceDelete \<Rightarrow> True | InstanceDeleting \<Rightarrow> True | _ \<Rightarrow> False)"

text \<open>What happens to a chosen victim: whether it counts as removed.\<close>

definition scale_down_victim :: "'w ss_env \<Rightarrow> Instance \<Rightarrow> ('w ssys, bool) prog" where
  "scale_down_victim env runner = m_bind (ss_try_lock (i_Name runner)) (\<lambda>locked. if \<not> locked then m_ret False
     else m_bind (m_try (ignore_not_found (ss_world (se_RemoveRunner env (i_AgentID runner))))) (\<lambda>r. case r of
       Inl _ \<Rightarrow> m_seq (ss_unlock (i_Name runner) False) (m_ret False)
     | Inr _ \<Rightarrow> m_bind (m_try (ss_db (UpdateInstance (i_Name runner) (empty_update\<lparr>uip_Status := InstancePendingDelete\<rparr>)))) (\<lambda>u. case u of
         Inl e \<Rightarrow> if error_is e NotFoundError
           then m_seq (drop_runner (i_ID runner)) (m_seq (ss_unlock (i_Name runner) True) (m_ret True))
           else if transition_from InstanceIsBeingDeleted e then m_seq (ss_unlock (i_Name runner) False) (m_ret True)
           else m_seq (ss_unlock (i_Name runner) False) (m_ret False)
       | Inr updatedRunner \<Rightarrow> m_seq (set_runner (i_ID runner) updatedRunner)
           (m_seq (ss_lifecycle ''idle_scale_down'') (m_seq (ss_unlock (i_Name runner) False) (m_ret True))))))"

primrec scale_down_loop :: "'w ss_env \<Rightarrow> int \<Rightarrow> Instance list \<Rightarrow> int \<Rightarrow> ('w ssys, unit) prog" where
  "scale_down_loop env delta [] removed = m_ret ()"
| "scale_down_loop env delta (runner # runners) removed =
     (if removed \<ge> delta then m_ret ()
      else if i_Status runner = InstanceRunning \<and> i_RunnerStatus runner = RunnerIdle
      then m_bind (scale_down_victim env runner) (\<lambda>gone. scale_down_loop env delta runners (if gone then removed + 1 else removed))
      else scale_down_loop env delta runners removed)"

definition handleScaleDown :: "'w ss_env \<Rightarrow> ('w ssys, unit) prog" where
  "handleScaleDown env = m_bind (get_worker id) (\<lambda>w. let delta = runnerCount w - targetRunners w; runners = map snd (wk_runners w) in
     if delta \<le> 0 then m_ret ()
     else m_bind (m_try (GetScaleSetClient env)) (\<lambda>r. case r of
       Inl _ \<Rightarrow> m_ret ()
     | Inr _ \<Rightarrow> scale_down_loop env delta runners (int (length (filter on_the_way_out runners)))))"

definition handleInstanceCleanup :: "Instance \<Rightarrow> ('w ssys, unit) prog" where
  "handleInstanceCleanup instance0 = (if i_Status instance0 = InstanceDeleted
     then m_seq (ignore_not_found (ss_db (DeleteInstanceByName (i_Name instance0)))) (drop_runner (i_ID instance0))
     else m_ret ())"

text \<open>One tick of \<^verbatim>\<open>handleAutoScale\<close> after the wait for the tools.\<close>

definition handleAutoScale_tick :: "'w ss_env \<Rightarrow> ('w ssys, unit) prog" where
  "handleAutoScale_tick env = m_bind (m_get (\<lambda>s. sv_tools (sk_view s))) (\<lambda>tools. case tools of Inl _ \<Rightarrow> m_ret ()
     | Inr _ \<Rightarrow> m_bind (get_worker (\<lambda>w. map snd (wk_runners w))) (\<lambda>runners.
        m_seq (m_for (\<lambda>inst. m_ignore (handleInstanceCleanup inst)) runners)
        (m_bind (ask_worker scalingPausedLocked) (\<lambda>paused. if paused then m_ret ()
          else m_bind (get_worker id) (\<lambda>w. if runnerCount w = targetRunners w then m_ret ()
            else if runnerCount w < targetRunners w then handleScaleUp env else handleScaleDown env)))))"

subsection \<open>Consolidation with forge and provider\<close>

definition runners_by_name :: "RunnerReference list \<Rightarrow> string \<rightharpoonup> RunnerReference" where
  "runners_by_name runners = map_of (rev (map (\<lambda>r. (rf_Name r, r)) runners))"

text \<open>The runners \<^verbatim>\<open>reapTimedOutRunners\<close> considers: too old, not yet useful, and not owned by the provider worker.\<close>

definition reapable :: "time \<Rightarrow> nat \<Rightarrow> (string \<rightharpoonup> RunnerReference) \<Rightarrow> Instance \<Rightarrow> bool" where
  "reapable now timeout gh runner \<longleftrightarrow> now - i_CreatedAt runner \<ge> int timeout * minute \<and>
     \<not> InstanceIsBeingDeleted (i_Status runner) \<and> \<not> InstanceIsProvisioning (i_Status runner) \<and>
     i_RunnerStatus runner \<in> {RunnerPending, RunnerInstalling, RunnerFailed} \<and>
     (case gh (i_Name runner) of None \<Rightarrow> True | Some r \<Rightarrow> RunnerReference_GetStatus r = RunnerOffline)"

text \<open>The names of the runners that stay locked until the caller returns.\<close>

definition reap_one :: "'w ss_env \<Rightarrow> Instance \<Rightarrow> string list \<Rightarrow> ('w ssys, string list) prog" where
  "reap_one env runner lockNames = m_bind (ss_try_lock (i_Name runner)) (\<lambda>ok. if \<not> ok then m_ret lockNames
     else m_bind (m_try (removeRunnerFromGithubAndSetPendingDelete env (i_Name runner) (i_AgentID runner))) (\<lambda>r. case r of
       Inl _ \<Rightarrow> m_seq (ss_unlock (i_Name runner) False) (m_ret lockNames)
     | Inr _ \<Rightarrow> m_seq (ss_lifecycle ''bootstrap_timeout'') (m_ret (lockNames @ [i_Name runner]))))"

definition ss_reapTimedOutRunners :: "'w ss_env \<Rightarrow> (string \<rightharpoonup> RunnerReference) \<Rightarrow> ('w ssys, string list) prog" where
  "ss_reapTimedOutRunners env gh = m_bind (get_worker id) (\<lambda>w. m_bind ss_now (\<lambda>now.
     m_fold (\<lambda>runner lockNames. if reapable now (ScaleSet_RunnerTimeout (wk_scaleSet w)) gh runner then reap_one env runner lockNames
       else m_ret lockNames) (map snd (wk_runners w)) []))"

text \<open>Runners of the forge that the worker does not know, and that neither wait for a job nor run one, are removed.\<close>

definition remove_unknown :: "'w ss_env \<Rightarrow> (string, Instance) keyedCache \<Rightarrow> RunnerReference \<Rightarrow> ('w ssys, unit) prog" where
  "remove_unknown env known runner = m_when (keyedCache_Get (rf_Name runner) known = None \<and>
       RunnerReference_GetStatus runner \<noteq> RunnerIdle \<and> RunnerReference_GetStatus runner \<noteq> RunnerActive)
     (m_ignore (ss_world (se_RemoveRunner env (rf_ID runner))))"

definition missing_in_github :: "time \<Rightarrow> (string \<rightharpoonup> RunnerReference) \<Rightarrow> Instance \<Rightarrow> bool" where
  "missing_in_github listedAt gh runner \<longleftrightarrow> \<not> InstanceIsBeingDeleted (i_Status runner) \<and> i_Status runner \<noteq> InstanceCreating \<and>
     gh (i_Name runner) = None \<and> \<not> i_CreatedAt runner > listedAt - minute"

definition judge_missing :: "'w ss_env \<Rightarrow> Instance \<Rightarrow> ('w ssys, unit) prog" where
  "judge_missing env runner = m_bind (m_try (ignore_not_found (ss_world (se_RemoveRunner env (i_AgentID runner))))) (\<lambda>r. case r of
     Inl _ \<Rightarrow> m_ret ()
   | Inr _ \<Rightarrow> m_bind (m_try (setRunnerDBStatus (i_Name runner) InstancePendingDelete)) (\<lambda>u. case u of
       Inl e \<Rightarrow> if error_is e NotFoundError then drop_runner (i_ID runner) else m_ret ()
     | Inr instance0 \<Rightarrow> m_seq (set_runner (i_ID runner) instance0) (ss_lifecycle ''orphaned'')))"

text \<open>A loop that keeps the locks it takes until \<open>rest\<close>, which follows the loop, has returned.\<close>

primrec hold_locks :: "(Instance \<Rightarrow> bool) \<Rightarrow> (Instance \<Rightarrow> ('w ssys, unit) prog) \<Rightarrow> Instance list \<Rightarrow> ('w ssys, unit) prog \<Rightarrow> ('w ssys, unit) prog" where
  "hold_locks P body [] rest = rest"
| "hold_locks P body (runner # runners) rest = (if \<not> P runner then hold_locks P body runners rest
     else m_bind (ss_try_lock (i_Name runner)) (\<lambda>ok. if \<not> ok then hold_locks P body runners rest
       else m_finally (m_seq (body runner) (hold_locks P body runners rest)) (\<lambda>_. ss_unlock (i_Name runner) False)))"

text \<open>The runners of the provider under the new pool ID, with those under the old one while there are any.\<close>

definition provider_runners :: "'w ss_env \<Rightarrow> ('w ssys, ProviderInstance list) prog" where
  "provider_runners env = m_bind (get_worker id) (\<lambda>w.
     m_bind (ss_world (se_ListInstances env (wk_pseudoPoolID w) (providerBaseParams w))) (\<lambda>providerRunners.
     if wk_legacyPoolIDDrained w then m_ret providerRunners
     else m_bind (m_result (legacyPseudoPoolID w)) (\<lambda>legacyID.
       m_bind (m_try (ss_world (se_ListInstances env legacyID (providerBaseParams w)))) (\<lambda>r. case r of
         Inl _ \<Rightarrow> m_seq (upd_worker (\<lambda>w. w\<lparr>wk_legacyPoolIDDrained := True\<rparr>)) (m_ret providerRunners)
       | Inr legacyRunners \<Rightarrow> m_seq (m_when (legacyRunners = []) (upd_worker (\<lambda>w. w\<lparr>wk_legacyPoolIDDrained := True\<rparr>)))
           (m_ret (fold (\<lambda>r acc. if pri_Name r \<in> pri_Name ` set acc then acc else acc @ [r]) legacyRunners providerRunners))))))"

definition missing_in_provider :: "'w ss_env \<Rightarrow> ProviderInstance list \<Rightarrow> Instance \<Rightarrow> ('w ssys, unit) prog" where
  "missing_in_provider env providerRunners runner =
     (if InstanceIsBeingDeleted (i_Status runner) \<or> InstanceIsProvisioning (i_Status runner) then m_ret ()
      else m_bind (ss_try_lock (i_Name runner)) (\<lambda>locked. if \<not> locked then m_ret ()
        else m_finally (m_when (i_Name runner \<notin> pri_Name ` set providerRunners)
            (m_bind (m_try (removeRunnerFromGithubAndSetPendingDelete env (i_Name runner) (i_AgentID runner))) (\<lambda>r. case r of
              Inl _ \<Rightarrow> m_ret () | Inr _ \<Rightarrow> ss_lifecycle ''orphaned'')))
          (\<lambda>_. ss_unlock (i_Name runner) False)))"

definition consolidateProviderState :: "'w ss_env \<Rightarrow> ('w ssys, unit) prog" where
  "consolidateProviderState env = m_bind (provider_runners env) (\<lambda>providerRunners. m_bind (get_worker id) (\<lambda>w.
     m_seq (m_for (\<lambda>runner. m_when (keyedCache_Get (pri_Name runner) (runnerByName w) = None)
         (m_ignore (ss_world (se_DeleteInstance env (pri_Name runner) (providerBaseParams w))))) providerRunners)
     (m_bind (get_worker (\<lambda>w. map snd (runnerByName w))) (m_for (missing_in_provider env providerRunners)))))"

definition consolidateRunnerState :: "'w ss_env \<Rightarrow> time \<Rightarrow> RunnerReference list \<Rightarrow> ('w ssys, unit) prog" where
  "consolidateRunnerState env listedAt runners = (let gh = runners_by_name runners in
     m_seq (GetScaleSetClient env)
     (m_bind (get_worker runnerByName) (\<lambda>known.
      m_seq (m_for (\<lambda>name. case gh name of None \<Rightarrow> m_ret () | Some runner \<Rightarrow> remove_unknown env known runner) (remdups (map rf_Name runners)))
      (m_bind (ss_reapTimedOutRunners env gh) (\<lambda>lockNames.
        m_finally (m_bind (get_worker (\<lambda>w. map snd (runnerByName w))) (\<lambda>dbRunners.
            hold_locks (missing_in_github listedAt gh) (judge_missing env) dbRunners (consolidateProviderState env)))
          (\<lambda>_. m_for (\<lambda>name. ss_unlock name False) lockNames))))))"

subsection \<open>Notifications\<close>

definition scaleSetWorker_handleScaleSetEvent :: "'w ss_env \<Rightarrow> ScaleSet \<Rightarrow> OperationType \<Rightarrow> ('w ssys, unit) prog" where
  "scaleSetWorker_handleScaleSetEvent env scaleSet op0 = (if op0 \<noteq> UpdateOperation then m_ret ()
     else m_bind (get_worker wk_scaleSet) (\<lambda>old.
       m_seq (m_when (ss_MaxRunners scaleSet < ss_MaxRunners old \<or> \<not> ss_Enabled scaleSet) (listener_Stop env))
         (upd_worker (\<lambda>w. w\<lparr>wk_scaleSet := scaleSet\<rparr>))))"

definition handleInstanceEntityEvent :: "Instance \<Rightarrow> OperationType \<Rightarrow> ('w ssys, unit) prog" where
  "handleInstanceEntityEvent instance0 op0 = (case op0 of
     CreateOperation \<Rightarrow> set_runner (i_ID instance0) instance0
   | UpdateOperation \<Rightarrow> if i_Status instance0 = InstanceDeleted then m_ignore (handleInstanceCleanup instance0)
       else set_runner (i_ID instance0) instance0
   | DeleteOperation \<Rightarrow> drop_runner (i_ID instance0))"

definition scaleSetWorker_handleEvent :: "'w ss_env \<Rightarrow> ChangePayload \<Rightarrow> ('w ssys, unit) prog" where
  "scaleSetWorker_handleEvent env ev = (case (ev_EntityType ev, ev_Payload ev) of
     (ScaleSetEntityType, ScaleSetPayload scaleSet) \<Rightarrow> scaleSetWorker_handleScaleSetEvent env scaleSet (ev_Operation ev)
   | (InstanceEntityType, InstancePayload instance0) \<Rightarrow> handleInstanceEntityEvent instance0 (ev_Operation ev)
   | _ \<Rightarrow> m_ret ())"

subsection \<open>Start and stop\<close>

text \<open>What becomes of an instance that was left in creating: \<open>None\<close> keeps it for a later pass. The status of the runner is
  compared as the forge sends it.\<close>

definition recover_creating :: "'w ss_env \<Rightarrow> Instance \<Rightarrow> ('w ssys, InstanceStatus option) prog" where
  "recover_creating env inst = (if i_AgentID inst = 0 then m_ret (Some InstancePendingDelete)
     else m_seq (GetScaleSetClient env)
       (m_bind (m_try (ss_world (se_RemoveRunner env (i_AgentID inst)))) (\<lambda>r. case r of
         Inr _ \<Rightarrow> m_ret (Some InstancePendingDelete)
       | Inl e \<Rightarrow> if error_is e NotFoundError then m_ret (Some InstancePendingDelete)
           else if error_is e UnauthorizedError \<or> error_is e ForbiddenError then m_ret None
           else m_bind (m_try (ss_world (se_GetRunner env (i_AgentID inst)))) (\<lambda>g. case g of
             Inl e' \<Rightarrow> if error_is e' NotFoundError then m_ret (Some InstancePendingDelete) else m_ret None
           | Inr runnerInstance \<Rightarrow> if rf_Status runnerInstance = Some ''idle'' \<or> rf_Status runnerInstance = Some ''active''
               then m_ret (Some InstanceRunning) else m_ret (Some InstancePendingDelete)))))"

text \<open>On an error \<^verbatim>\<open>ForceUpdateInstance\<close> returns the zero value, which then stands for the instance.\<close>

definition force_status :: "Instance \<Rightarrow> InstanceStatus \<Rightarrow> ('w ssys, Instance) prog" where
  "force_status inst status = m_bind (m_try (ss_db (ForceUpdateInstance (i_Name inst) (empty_update\<lparr>uip_Status := status\<rparr>)))) (\<lambda>r. case r of
     Inl e \<Rightarrow> if error_is e NotFoundError then m_ret zero_Instance
       else m_seq (ss_unlock (i_Name zero_Instance) False) (m_throw e)
   | Inr inst' \<Rightarrow> m_ret inst')"

definition keep_runner :: "Instance \<Rightarrow> ('w ssys, unit) prog" where
  "keep_runner inst = m_seq (set_runner (i_ID inst) inst) (ss_unlock (i_Name inst) False)"

definition start_instance :: "'w ss_env \<Rightarrow> Instance \<Rightarrow> ('w ssys, unit) prog" where
  "start_instance env inst =
     (if i_Status inst = InstanceCreating
      then m_seq (ss_lock (i_Name inst)) (m_bind (recover_creating env inst) (\<lambda>st. case st of
        None \<Rightarrow> keep_runner inst
      | Some instanceState \<Rightarrow> m_bind (force_status inst instanceState) (\<lambda>inst'.
          m_seq (m_when (instanceState = InstancePendingDelete) (ss_lifecycle ''startup_recovery'')) (keep_runner inst'))))
      else if i_Status inst = InstanceDeleting
      then m_bind (force_status inst InstancePendingDelete) keep_runner
      else if i_Status inst = InstanceDeleted
      then m_bind (m_try (handleInstanceCleanup inst)) (\<lambda>r. case r of
        Inl e \<Rightarrow> m_seq (ss_unlock (i_Name inst) False) (m_throw e) | Inr _ \<Rightarrow> m_ret ())
      else keep_runner inst)"

definition empty_scaleset_update :: UpdateScaleSetParams where
  "empty_scaleset_update = \<lparr>usp_Prefix = [], usp_Name = [], usp_DisableUpdate = None, usp_Enabled = None, usp_MaxRunners = None,
     usp_MinIdleRunners = None, usp_RunnerBootstrapTimeout = None, usp_Image = [], usp_Flavor = [], usp_OSType = [], usp_OSArch = [],
     usp_ExtraSpecs = None, usp_EnableShell = None, usp_GitHubRunnerGroup = None, usp_State = None, usp_ExtendedState = None,
     usp_TemplateID = None, usp_ScaleSetID = 0, usp_ProxyID = None\<rparr>"

definition ensureScaleSetInGitHub :: "'w ss_env \<Rightarrow> ('w ssys, unit) prog" where
  "ensureScaleSetInGitHub env = m_bind (get_worker wk_scaleSet) (\<lambda>scaleSet.
     m_bind (m_result (ScaleSet_GetEntity scaleSet)) (\<lambda>tid.
     m_seq (GetScaleSetClient env)
     (m_bind (ss_world (se_GetEntityRunnerGroupIDByName env (ss_GitHubRunnerGroup scaleSet))) (\<lambda>rgID.
      m_bind (m_try (ss_world (se_GetRunnerScaleSetByNameAndRunnerGroup env rgID (ss_Name scaleSet)))) (\<lambda>r. case r of
        Inr scaleSetID \<Rightarrow> if scaleSetID \<noteq> ss_ScaleSetID scaleSet then m_throw (OtherError ''scale set already exists in github'') else m_ret ()
      | Inl e \<Rightarrow> if \<not> error_is e NotFoundError then m_throw e
          else m_bind (ss_world (se_CreateRunnerScaleSet env scaleSet rgID)) (\<lambda>newID.
            m_seq (ss_db (UpdateEntityScaleSet (bare_entity tid) (ss_ID scaleSet) (empty_scaleset_update\<lparr>usp_ScaleSetID := newID\<rparr>) None))
            (m_seq (SetLastMessageID 0)
            (upd_worker (\<lambda>w. w\<lparr>wk_scaleSet := (wk_scaleSet w)\<lparr>ss_ScaleSetID := newID\<rparr>\<rparr>)))))))))"

text \<open>The registration of the watcher may fail: \<open>registered\<close>. A new listener starts at the last message the worker knows of.\<close>

definition scaleSetWorker_Start :: "'w ss_env \<Rightarrow> garm_error + unit \<Rightarrow> ('w ssys, unit) prog" where
  "scaleSetWorker_Start env registered = m_bind (get_worker id) (\<lambda>w. if wk_running w then m_ret ()
     else m_bind (ss_db (ListScaleSetInstances (ss_ID (wk_scaleSet w)) False)) (\<lambda>instances.
       m_seq (m_for (start_instance env) instances)
       (m_seq (ensureScaleSetInGitHub env)
       (m_seq (m_result registered)
       (upd_worker (\<lambda>w. w\<lparr>wk_running := True, wk_listener := \<lparr>li_lastMessageID = ss_LastMessageID (wk_scaleSet w),
          li_running = False, li_retryAfterUnauthorized = False\<rparr>\<rparr>))))))"

definition scaleSetWorker_Stop :: "'w ss_env \<Rightarrow> ('w ssys, unit) prog" where
  "scaleSetWorker_Stop env = m_bind (get_worker wk_running) (\<lambda>running. if \<not> running then m_ret ()
     else m_seq (upd_worker (\<lambda>w. w\<lparr>wk_running := False\<rparr>)) (listener_Stop env))"

end
