(* ===== verification/Garm_ScaleSet_Spec.thy ===== *)
theory Garm_ScaleSet_Spec
  imports Garm_ScaleSet_Worker Garm_Cache_Spec
begin

text \<open>
  What the worker of a scale set guarantees: bounds on the runners after scaling up and down, acknowledgement of messages,
  the locks it takes. The locale \<open>graded_steps\<close> adds up the costs of the steps of a program; \<open>scaleSet_act\<close> are the acts of the
  goroutines of a worker, which may come in any order.
\<close>

subsection \<open>Counting runners\<close>

definition count_runners :: "(Instance \<Rightarrow> bool) \<Rightarrow> (string, Instance) keyedCache \<Rightarrow> nat" where
  "count_runners P c = length (filter (\<lambda>(_, r). P r) c)"

lemma runnerCount_count: "runnerCount w = int (count_runners (\<lambda>r. i_Status r \<noteq> InstanceDeleted) (wk_runners w))"
  by (simp add: runnerCount_def count_runners_def)

lemma count_runners_Cons [simp]: "count_runners P (kv # c) = (if P (snd kv) then 1 else 0) + count_runners P c"
  by (cases kv) (simp add: count_runners_def)

lemma count_runners_Nil [simp]: "count_runners P [] = 0"
  by (simp add: count_runners_def)

lemma count_Set_le: "count_runners P (keyedCache_Set k v c) \<le> count_runners P c + 1"
  unfolding keyedCache_Set_def by (induction c) auto

lemma count_Set_ge: "count_runners P c \<le> count_runners P (keyedCache_Set k v c) + 1"
  unfolding keyedCache_Set_def by (induction c) auto

lemma count_Set_known: "keyedCache_Get k c = Some old \<Longrightarrow> P old \<Longrightarrow> count_runners P (keyedCache_Set k v c) \<le> count_runners P c"
  unfolding keyedCache_Set_def keyedCache_Get_def by (induction c) (auto split: if_splits)

lemma count_Delete_le: "count_runners P (keyedCache_Delete k c) \<le> count_runners P c"
  unfolding keyedCache_Delete_def by (induction c) auto

lemma count_Delete_ge: "distinct (map fst c) \<Longrightarrow> count_runners P c \<le> count_runners P (keyedCache_Delete k c) + 1"
  unfolding keyedCache_Delete_def
proof (induction c)
  case (Cons kv c)
  then show ?case by (cases "fst kv = k") (auto simp: delete_id split: prod.splits)
qed simp

lemma distinct_keys_Set: "distinct (map fst c) \<Longrightarrow> distinct (map fst (keyedCache_Set k v c))"
  by (simp add: keyedCache_Set_def distinct_update)

lemma distinct_keys_Delete: "distinct (map fst c) \<Longrightarrow> distinct (map fst (keyedCache_Delete k c))"
  by (simp add: keyedCache_Delete_def distinct_delete)

lemma targetRunners_le: "targetRunners w \<le> uint (ss_MaxRunners (wk_scaleSet w))"
proof -
  have "sint x \<le> uint m" if "x \<le> m" for x m :: uint64
  proof -
    have "take_bit 64 (uint x) = uint x" by transfer simp
    then have "sint x \<le> uint x" by (simp add: sint_uint signed_take_bit_eq_take_bit_minus)
    with that show ?thesis by (simp add: word_le_def)
  qed
  then show ?thesis by (simp add: targetRunners_def Let_def)
qed

subsection \<open>Scaling up\<close>

definition same_worker :: "'w ssys \<Rightarrow> 'w ssys \<Rightarrow> bool" where
  "same_worker s s' \<longleftrightarrow> sk_worker s' = sk_worker s"

interpretation swk: step_order same_worker
  by unfold_locales (simp_all add: same_worker_def)

lemma same_worker_parts [intro]:
  "steps same_worker (ss_db m)" "steps same_worker (ss_world p)" "steps same_worker (ss_lock k)"
  "steps same_worker (ss_unlock k b)" "steps same_worker (ss_try_lock k)" "steps same_worker (ss_lifecycle ev)"
  "steps same_worker (get_worker f)"
  by (auto intro!: stepsI simp: same_worker_def ss_db_def ss_world_def ss_lock_def ss_unlock_def ss_try_lock_def ss_lifecycle_def
      get_worker_def m_lift_def split: prod.splits)

lemma same_worker_GetScaleSetClient [intro]: "steps same_worker (GetScaleSetClient env)"
  unfolding GetScaleSetClient_def by (intro swk.st_rules same_worker_parts)

text \<open>A step that costs at most \<open>n\<close>: costs add up along a program.\<close>

locale graded_steps =
  fixes G :: "nat \<Rightarrow> 's \<Rightarrow> 's \<Rightarrow> bool"
  assumes G_refl: "G 0 s s"
    and G_mono: "G m s t \<Longrightarrow> m \<le> n \<Longrightarrow> G n s t"
    and G_add: "G m s t \<Longrightarrow> G n t u \<Longrightarrow> G (m + n) s u"
begin

lemma gr_mono: "steps (G m) p \<Longrightarrow> m \<le> n \<Longrightarrow> steps (G n) p"
  by (auto simp: steps_def intro: G_mono)

lemma gr_bind:
  assumes "steps (G m) p" "\<And>x. steps (G n) (f x)"
  shows "steps (G (m + n)) (m_bind p f)"
proof (rule stepsI)
  fix s
  have p: "G m s (snd (p s))" using stepsD_snd [OF assms(1)] .
  show "G (m + n) s (snd (m_bind p f s))"
  proof (cases "fst (p s)")
    case (Inl e)
    with p show ?thesis by (cases "p s") (auto simp: m_bind_def intro: G_mono)
  next
    case (Inr x)
    with p G_add [OF p stepsD_snd [OF assms(2)], of x] show ?thesis by (cases "p s") (auto simp: m_bind_def)
  qed
qed

lemma gr_free: "steps (G 0) p \<Longrightarrow> (\<And>x. steps (G n) (f x)) \<Longrightarrow> steps (G n) (m_bind p f)"
  using gr_bind [of 0 p n f] by simp

lemma gr_ignore: "steps (G n) p \<Longrightarrow> steps (G n) (m_ignore p)"
  by (auto simp: steps_def m_ignore_def split: prod.splits) (metis snd_conv)

lemma gr_for: "(\<And>x. steps (G n) (f x)) \<Longrightarrow> steps (G (length xs * n)) (m_for f xs)"
proof (induction xs)
  case (Cons x xs)
  then show ?case using gr_bind [of n "f x" "length xs * n" "\<lambda>_. m_for f xs"] by (simp add: m_seq_def)
qed (simp add: steps_def G_refl)

end

definition grown :: "nat \<Rightarrow> 'w ssys \<Rightarrow> 'w ssys \<Rightarrow> bool" where
  "grown n s s' \<longleftrightarrow> wk_scaleSet (sk_worker s') = wk_scaleSet (sk_worker s) \<and>
     runnerCount (sk_worker s') \<le> runnerCount (sk_worker s) + int n"

interpretation grw: graded_steps grown
  by unfold_locales (auto simp: grown_def)

lemma grown_same: "steps same_worker p \<Longrightarrow> steps (grown n) p"
  by (auto simp: steps_def same_worker_def grown_def)

lemma grown_set_runner: "steps (grown 1) (set_runner k r)"
proof (rule stepsI)
  fix s :: "'a ssys"
  show "grown 1 s (snd (set_runner k r s))"
    using count_Set_le [of "\<lambda>r. i_Status r \<noteq> InstanceDeleted" k r "wk_runners (sk_worker s)"]
    by (simp add: grown_def set_runner_def upd_worker_def runnerCount_count)
qed

lemma grown_scale_up_one: "steps (grown 1) (scale_up_one env c)"
  unfolding scale_up_one_def Let_def case_prod_beta
  by (intro grw.gr_free grown_same [of "get_worker _"] grown_same [of "ss_world _"] grown_same [of "m_result _"]
      grown_same [of "m_try _"] swk.st_rules same_worker_parts)
    (auto intro!: grown_same swk.st_ignore grown_set_runner [unfolded One_nat_def] split: sum.splits)

lemma grown_handleScaleUp:
  defines "grow s \<equiv> nat (targetRunners (sk_worker s) - runnerCount (sk_worker s))"
  shows "grown (grow s) s (snd (handleScaleUp env s))"
proof -
  let ?loop = "\<lambda>c. m_for (\<lambda>_. m_ignore (scale_up_one env c)) (replicate (grow s) ())"
  have "steps (grown (grow s)) (?loop c)" for c :: ControllerInfo
    using grw.gr_for [of 1 "\<lambda>_. m_ignore (scale_up_one env c)" "replicate (grow s) ()"]
          grw.gr_ignore [OF grown_scale_up_one, of env c] by simp
  then have "steps (grown (grow s)) (m_bind (m_try (GetScaleSetClient env)) (\<lambda>r. case r of Inl _ \<Rightarrow> m_ret () | Inr _ \<Rightarrow> ?loop c))" 
    for c :: ControllerInfo
    by (intro grw.gr_free) (auto intro!: grown_same swk.st_rules split: sum.splits)
  from stepsD_snd [OF this, of s] show ?thesis 
    by (auto simp: handleScaleUp_def get_worker_def grow_def grown_def split: sum.splits)
qed

subsection \<open>Scaling down\<close>

definition staying :: "Instance \<Rightarrow> bool" where
  "staying r \<longleftrightarrow> i_Status r \<noteq> InstanceDeleted \<and> \<not> on_the_way_out r"

definition idle_runner :: "Instance \<Rightarrow> bool" where
  "idle_runner r \<longleftrightarrow> i_Status r = InstanceRunning \<and> i_RunnerStatus r = RunnerIdle"

text \<open>The runners are kept under their own IDs.\<close>

definition runners_keyed :: "scaleSetWorker \<Rightarrow> bool" where
  "runners_keyed w \<longleftrightarrow> distinct (map fst (wk_runners w)) \<and> list_all (\<lambda>(k, r). k = i_ID r) (wk_runners w)"

lemma runnerCount_staying: "runnerCount w = int (count_runners staying (wk_runners w) + length (filter on_the_way_out (map snd (wk_runners w))))"
proof -
  have "count_runners (\<lambda>r. i_Status r \<noteq> InstanceDeleted) c = count_runners staying c + length (filter on_the_way_out (map snd c))" for c
    by (induction c) (auto simp: staying_def on_the_way_out_def split: InstanceStatus.splits)
  then show ?thesis by (simp add: runnerCount_count)
qed

text \<open>What one victim does to the worker.\<close>

definition victim_effect :: "Instance \<Rightarrow> bool \<Rightarrow> scaleSetWorker \<Rightarrow> scaleSetWorker \<Rightarrow> bool" where
  "victim_effect r gone w w' \<longleftrightarrow> w' = w \<or> (gone \<and> (w' = w\<lparr>wk_runners := keyedCache_Delete (i_ID r) (wk_runners w)\<rparr> \<or>
     (\<exists>u. w' = w\<lparr>wk_runners := keyedCache_Set (i_ID r) u (wk_runners w)\<rparr>)))"

lemma ss_db_worker: "ss_db m s = (r, s') \<Longrightarrow> sk_worker s' = sk_worker s"
  and ss_world_worker: "ss_world p s = (r', s') \<Longrightarrow> sk_worker s' = sk_worker s"
  by (auto simp: ss_db_def ss_world_def m_lift_def split: prod.splits)

lemma ss_try_lock_run: "ss_try_lock k s = (Inr (fst (keyMutex_TryLock k (wk_consumerID (sk_worker s)) (sk_locks s))),
    s\<lparr>sk_locks := snd (keyMutex_TryLock k (wk_consumerID (sk_worker s)) (sk_locks s))\<rparr>)"
  by (simp add: ss_try_lock_def split: prod.splits)

lemma ss_unlock_run [simp]: "ss_unlock k b s = (Inr (), s\<lparr>sk_locks := keyMutex_Unlock k b (sk_locks s)\<rparr>)"
  by (simp add: ss_unlock_def)

lemma ss_lifecycle_run [simp]: "ss_lifecycle ev s = (Inr (), s\<lparr>sk_lifecycle := sk_lifecycle s @ [ev]\<rparr>)"
  by (simp add: ss_lifecycle_def)

lemma upd_worker_run [simp]: "upd_worker f s = (Inr (), s\<lparr>sk_worker := f (sk_worker s)\<rparr>)"
  by (simp add: upd_worker_def)

lemma get_worker_run [simp]: "get_worker f s = (Inr (f (sk_worker s)), s)"
  by (simp add: get_worker_def)

lemma m_bind_get_worker [simp]: "m_bind (get_worker f) g s = g (f (sk_worker s)) s"
  by (simp add: get_worker_def)

lemma m_try_run: "m_try m s = (Inr (fst (m s)), snd (m s))"
  by (simp add: m_try_def split: prod.splits)

lemma m_bind_try [simp]: "m_bind (m_try m) f s = f (fst (m s)) (snd (m s))"
  by (simp add: m_bind_def m_try_run)

lemma ss_seq_run [simp]:
  "m_seq (ss_unlock k b) n s = n (s\<lparr>sk_locks := keyMutex_Unlock k b (sk_locks s)\<rparr>)"
  "m_seq (ss_lifecycle ev) n s = n (s\<lparr>sk_lifecycle := sk_lifecycle s @ [ev]\<rparr>)"
  "m_seq (upd_worker f) n s = n (s\<lparr>sk_worker := f (sk_worker s)\<rparr>)"
  by (simp_all add: m_seq_def m_bind_def)

lemma m_bind_try_lock: "m_bind (ss_try_lock k) f s = f (fst (keyMutex_TryLock k (wk_consumerID (sk_worker s)) (sk_locks s)))
    (s\<lparr>sk_locks := snd (keyMutex_TryLock k (wk_consumerID (sk_worker s)) (sk_locks s))\<rparr>)"
  by (simp add: m_bind_def ss_try_lock_run)

lemma ignore_not_found_worker [simp]: "sk_worker (snd (ignore_not_found (ss_world p) s)) = sk_worker s"
  by (cases "ss_world p s") (auto simp: ignore_not_found_def dest!: ss_world_worker split: sum.splits)

lemma ss_db_worker_snd [simp]: "sk_worker (snd (ss_db m s)) = sk_worker s"
  by (cases "ss_db m s") (auto dest: ss_db_worker)

lemma scale_down_victim_effect:
  obtains gone where "fst (scale_down_victim env r s) = Inr gone"
    "victim_effect r gone (sk_worker s) (sk_worker (snd (scale_down_victim env r s)))"
proof -
  let ?E = "\<lambda>p. \<exists>gone. fst p = Inr gone \<and> victim_effect r gone (sk_worker s) (sk_worker (snd p))"
  define ok s1 where "ok = fst (keyMutex_TryLock (i_Name r) (wk_consumerID (sk_worker s)) (sk_locks s))"
    and "s1 = s\<lparr>sk_locks := snd (keyMutex_TryLock (i_Name r) (wk_consumerID (sk_worker s)) (sk_locks s))\<rparr>"
  define r2 s2 where "r2 = fst (ignore_not_found (ss_world (se_RemoveRunner env (i_AgentID r))) s1)"
    and "s2 = snd (ignore_not_found (ss_world (se_RemoveRunner env (i_AgentID r))) s1)"
  define r3 s3 where "r3 = fst (ss_db (UpdateInstance (i_Name r) (empty_update\<lparr>uip_Status := InstancePendingDelete\<rparr>)) s2)"
    and "s3 = snd (ss_db (UpdateInstance (i_Name r) (empty_update\<lparr>uip_Status := InstancePendingDelete\<rparr>)) s2)"
  note run = scale_down_victim_def m_bind_try_lock ok_def [symmetric] s1_def [symmetric] m_bind_try r2_def [symmetric] s2_def [symmetric]
    r3_def [symmetric] s3_def [symmetric]
  have w: "sk_worker s1 = sk_worker s" "sk_worker s2 = sk_worker s" "sk_worker s3 = sk_worker s"
    by (simp_all add: s1_def s2_def s3_def)
  note [simp] = victim_effect_def w drop_runner_def set_runner_def
  consider "\<not> ok" | e where "ok" "r2 = Inl e" | e where "ok" "r2 = Inr ()" "r3 = Inl e" | u where "ok" "r2 = Inr ()" "r3 = Inr u"
    by (cases ok; cases r2; cases r3) auto
  then have "?E (scale_down_victim env r s)"
    by cases (simp_all add: run, blast+)
  with that show thesis by blast
qed

text \<open>A series of victims: at most \<open>n\<close> runners leave the staying ones, and only the runners with the given keys change.\<close>

definition shrunk :: "nat \<Rightarrow> string set \<Rightarrow> scaleSetWorker \<Rightarrow> scaleSetWorker \<Rightarrow> bool" where
  "shrunk n keys w w' \<longleftrightarrow> wk_scaleSet w' = wk_scaleSet w \<and> distinct (map fst (wk_runners w')) \<and>
     count_runners staying (wk_runners w) \<le> count_runners staying (wk_runners w') + n \<and>
     (\<forall>k. k \<notin> keys \<longrightarrow> keyedCache_Get k (wk_runners w') = keyedCache_Get k (wk_runners w))"

lemma shrunk_victim:
  assumes "victim_effect r gone w w'" "distinct (map fst (wk_runners w))"
  shows "shrunk (if gone then 1 else 0) {i_ID r} w w'"
  using assms count_Set_ge [of staying] count_Delete_ge [of "wk_runners w" staying "i_ID r"]
  by (auto simp: victim_effect_def shrunk_def keyed_simps distinct_keys_Set distinct_keys_Delete)

lemma shrunk_trans: "shrunk m A w w1 \<Longrightarrow> shrunk n B w1 w2 \<Longrightarrow> shrunk (m + n) (A \<union> B) w w2"
  by (auto simp: shrunk_def)

lemma shrunk_weaken: "shrunk m A w w' \<Longrightarrow> m \<le> n \<Longrightarrow> A \<subseteq> B \<Longrightarrow> shrunk n B w w'"
  by (auto simp: shrunk_def)

lemma shrunk_refl: "distinct (map fst (wk_runners w)) \<Longrightarrow> shrunk 0 {} w w"
  by (simp add: shrunk_def)

lemma shrunk_loop:
  "distinct (map fst (wk_runners (sk_worker s))) \<Longrightarrow>
   shrunk (nat (delta - removed)) (i_ID ` set (filter idle_runner rs)) (sk_worker s)
     (sk_worker (snd (scale_down_loop env delta rs removed s)))"
proof (induction rs arbitrary: s removed)
  case Nil
  then show ?case by (auto intro: shrunk_weaken [OF shrunk_refl])
next
  case (Cons r rs)
  show ?case
  proof (cases "removed < delta \<and> idle_runner r")
    case False
    with Cons show ?thesis
      by (auto simp: idle_runner_def intro: shrunk_weaken [OF shrunk_refl] shrunk_weaken [OF Cons.IH])
  next
    case True
    obtain gone where g: "fst (scale_down_victim env r s) = Inr gone"
      and eff: "victim_effect r gone (sk_worker s) (sk_worker (snd (scale_down_victim env r s)))"
      by (rule scale_down_victim_effect)
    let ?s = "snd (scale_down_victim env r s)" and ?removed = "if gone then removed + 1 else removed"
    note one = shrunk_victim [OF eff Cons.prems]
    then have "distinct (map fst (wk_runners (sk_worker ?s)))" by (simp add: shrunk_def)
    note shrunk_trans [OF one Cons.IH [OF this, of ?removed]]
    moreover have "scale_down_loop env delta (r # rs) removed s = scale_down_loop env delta rs ?removed ?s"
      using True g by (cases "scale_down_victim env r s") (auto simp: idle_runner_def m_bind_def)
    ultimately show ?thesis using True by (auto elim!: shrunk_weaken)
  qed
qed

lemma shrunk_handleScaleDown:
  assumes "distinct (map fst (wk_runners (sk_worker s)))"
  shows "shrunk (nat (int (count_runners staying (wk_runners (sk_worker s))) - targetRunners (sk_worker s)))
    (i_ID ` set (filter idle_runner (map snd (wk_runners (sk_worker s))))) (sk_worker s) (sk_worker (snd (handleScaleDown env s)))"
proof -
  let ?w = "sk_worker s" and ?cli = "snd (GetScaleSetClient env s)"
  let ?rs = "map snd (wk_runners ?w)"
  have cli: "sk_worker ?cli = ?w" using stepsD_snd [OF same_worker_GetScaleSetClient] by (simp add: same_worker_def)
  have d: "runnerCount ?w - targetRunners ?w - int (length (filter on_the_way_out ?rs))
      = int (count_runners staying (wk_runners ?w)) - targetRunners ?w" by (simp add: runnerCount_staying)
  note loop = shrunk_loop [of ?cli "runnerCount ?w - targetRunners ?w" "int (length (filter on_the_way_out ?rs))" ?rs env, unfolded d cli, OF assms]
  note stay = shrunk_weaken [OF shrunk_refl [OF assms]]
  show ?thesis
  proof (cases "0 < runnerCount ?w - targetRunners ?w")
    case True
    then show ?thesis using loop stay cli by (auto simp: handleScaleDown_def Let_def split: sum.split)
  next
    case False
    then show ?thesis using stay by (simp add: handleScaleDown_def Let_def)
  qed
qed

text \<open>No runner is added on the way down.\<close>

lemma runnerCount_victim:
  assumes "victim_effect r gone w w'" "keyedCache_Get (i_ID r) (wk_runners w) = Some r" "idle_runner r"
  shows "runnerCount w' \<le> runnerCount w"
  using assms count_Delete_le count_Set_known [OF assms(2), of "\<lambda>r. i_Status r \<noteq> InstanceDeleted"]
  by (auto simp: victim_effect_def runnerCount_count idle_runner_def)

lemma runnerCount_loop:
  "distinct (map i_ID rs) \<Longrightarrow> (\<And>r. r \<in> set rs \<Longrightarrow> keyedCache_Get (i_ID r) (wk_runners (sk_worker s)) = Some r) \<Longrightarrow>
   runnerCount (sk_worker (snd (scale_down_loop env delta rs removed s))) \<le> runnerCount (sk_worker s)"
proof (induction rs arbitrary: s removed)
  case (Cons r rs)
  show ?case
  proof (cases "removed < delta \<and> idle_runner r")
    case False
    with Cons show ?thesis by (auto simp: idle_runner_def)
  next
    case True
    obtain gone where g: "fst (scale_down_victim env r s) = Inr gone"
      and eff: "victim_effect r gone (sk_worker s) (sk_worker (snd (scale_down_victim env r s)))"
      by (rule scale_down_victim_effect)
    let ?s = "snd (scale_down_victim env r s)" and ?removed = "if gone then removed + 1 else removed"
    have "keyedCache_Get k (wk_runners (sk_worker ?s)) = keyedCache_Get k (wk_runners (sk_worker s))" if "k \<noteq> i_ID r" for k
      using eff that by (auto simp: victim_effect_def keyed_simps)
    moreover have "i_ID x \<noteq> i_ID r" if "x \<in> set rs" for x using that Cons.prems(1) by (metis distinct.simps(2) image_eqI list.set_map list.simps(9))
    ultimately have "keyedCache_Get (i_ID x) (wk_runners (sk_worker ?s)) = Some x" if "x \<in> set rs" for x
      using Cons.prems(2) [of x] that by simp
    with Cons.prems(1) have "runnerCount (sk_worker (snd (scale_down_loop env delta rs ?removed ?s))) \<le> runnerCount (sk_worker ?s)"
      by (intro Cons.IH) simp_all
    moreover have "runnerCount (sk_worker ?s) \<le> runnerCount (sk_worker s)"
      using runnerCount_victim [OF eff] Cons.prems(2) [of r] True by simp
    moreover have "scale_down_loop env delta (r # rs) removed s = scale_down_loop env delta rs ?removed ?s"
      using True g by (cases "scale_down_victim env r s") (auto simp: idle_runner_def m_bind_def)
    ultimately show ?thesis by simp
  qed
qed simp

lemma runners_keyedD:
  assumes "runners_keyed w"
  shows "distinct (map fst (wk_runners w))" "distinct (map i_ID (map snd (wk_runners w)))"
    "r \<in> set (map snd (wk_runners w)) \<Longrightarrow> keyedCache_Get (i_ID r) (wk_runners w) = Some r"
    "keyedCache_Get k (wk_runners w) = Some r \<Longrightarrow> k = i_ID r \<and> r \<in> set (map snd (wk_runners w))"
proof -
  have ids: "map i_ID (map snd (wk_runners w)) = map fst (wk_runners w)"
    using assms by (auto simp: runners_keyed_def list_all_iff)
  show d: "distinct (map fst (wk_runners w))" using assms by (simp add: runners_keyed_def)
  then show "distinct (map i_ID (map snd (wk_runners w)))" by (simp only: ids)
  show "keyedCache_Get (i_ID r) (wk_runners w) = Some r" if "r \<in> set (map snd (wk_runners w))"
    using that d assms by (auto simp: runners_keyed_def keyedCache_Get_def list_all_iff)
  show "k = i_ID r \<and> r \<in> set (map snd (wk_runners w))" if "keyedCache_Get k (wk_runners w) = Some r"
    using map_of_SomeD [OF that [unfolded keyedCache_Get_def]] assms by (force simp: runners_keyed_def list_all_iff)
qed

lemma runnerCount_handleScaleDown:
  assumes "runners_keyed (sk_worker s)"
  shows "runnerCount (sk_worker (snd (handleScaleDown env s))) \<le> runnerCount (sk_worker s)"
proof -
  let ?cli = "snd (GetScaleSetClient env s)"
  have cli: "sk_worker ?cli = sk_worker s" using stepsD_snd [OF same_worker_GetScaleSetClient] by (simp add: same_worker_def)
  note loop = runnerCount_loop [of "map snd (wk_runners (sk_worker s))" ?cli env, unfolded cli,
      OF runners_keyedD(2,3) [OF assms]]
  show ?thesis using loop cli by (auto simp: handleScaleDown_def Let_def split: sum.split)
qed

subsection \<open>A tick\<close>

definition cleaned :: "'w ssys \<Rightarrow> 'w ssys \<Rightarrow> bool" where
  "cleaned s s' \<longleftrightarrow> wk_scaleSet (sk_worker s') = wk_scaleSet (sk_worker s) \<and> runnerCount (sk_worker s') \<le> runnerCount (sk_worker s) \<and>
     (runners_keyed (sk_worker s) \<longrightarrow> runners_keyed (sk_worker s'))"

interpretation cle: step_order cleaned
  by unfold_locales (auto simp: cleaned_def)

lemma cleaned_same: "steps same_worker p \<Longrightarrow> steps cleaned p"
  by (auto simp: steps_def same_worker_def cleaned_def)

lemma runners_keyed_Delete: "runners_keyed w \<Longrightarrow> runners_keyed (w\<lparr>wk_runners := keyedCache_Delete k (wk_runners w)\<rparr>)"
proof -
  assume k: "runners_keyed w"
  have "set (keyedCache_Delete k (wk_runners w)) \<subseteq> set (wk_runners w)"
    by (auto simp: keyedCache_Delete_def AList.delete_eq)
  with k show ?thesis by (auto simp: runners_keyed_def distinct_keys_Delete list_all_iff)
qed

lemma cleaned_drop: "steps cleaned (drop_runner k)"
  by (rule stepsI) (simp add: drop_runner_def cleaned_def runnerCount_count count_Delete_le runners_keyed_Delete)

lemma cleaned_handleInstanceCleanup: "steps cleaned (handleInstanceCleanup r)"
  unfolding handleInstanceCleanup_def ignore_not_found_def
  by (intro cle.st_rules cleaned_same [OF same_worker_parts(1)] cleaned_drop)

lemma cleaned_ask:
  assumes "\<And>v t w. let w' = snd (f v t w) in wk_scaleSet w' = wk_scaleSet w \<and> wk_runners w' = wk_runners w"
  shows "steps cleaned (ask_worker f)"
proof (rule stepsI)
  fix s :: "'a ssys"
  show "cleaned s (snd (ask_worker f s))"
    using assms [of "sk_view s" "db_clock (sk_db s)" "sk_worker s"]
    by (cases "f (sk_view s) (db_clock (sk_db s)) (sk_worker s)")
      (simp add: ask_worker_def cleaned_def Let_def runnerCount_def runners_keyed_def)
qed

lemma cleaned_scalingPaused: "steps cleaned (ask_worker scalingPausedLocked)"
  by (rule cleaned_ask) (simp add: scalingPausedLocked_def forgeAuthBlockedLocked_def clearAuthFailureLocked_def Let_def split: prod.splits)

definition tick_head :: "('w ssys, bool) prog" where
  "tick_head = m_bind (get_worker (\<lambda>w. map snd (wk_runners w))) (\<lambda>runners.
     m_seq (m_for (\<lambda>inst. m_ignore (handleInstanceCleanup inst)) runners) (ask_worker scalingPausedLocked))"

lemma tick_head: "steps cleaned tick_head"
  unfolding tick_head_def
  by (intro cle.st_rules cleaned_scalingPaused cleaned_handleInstanceCleanup cleaned_same [OF same_worker_parts(7)])

lemma tick_split:
  "handleAutoScale_tick env = m_bind (m_get (\<lambda>s. sv_tools (sk_view s))) (\<lambda>tools. case tools of Inl _ \<Rightarrow> m_ret ()
     | Inr _ \<Rightarrow> m_bind tick_head (\<lambda>paused. if paused then m_ret ()
          else m_bind (get_worker id) (\<lambda>w. if runnerCount w = targetRunners w then m_ret ()
            else if runnerCount w < targetRunners w then handleScaleUp env else handleScaleDown env)))"
  unfolding handleAutoScale_tick_def tick_head_def m_bind_assoc m_seq_def by (rule refl)

lemma tick_bound:
  assumes "runners_keyed (sk_worker s)"
  shows "runnerCount (sk_worker (snd (handleAutoScale_tick env s))) \<le>
    max (runnerCount (sk_worker s)) (uint (ss_MaxRunners (wk_scaleSet (sk_worker s))))"
proof -
  obtain r s1 where h: "tick_head s = (r, s1)" by (cases "tick_head s")
  with stepsD [OF tick_head h] assms have c: "runnerCount (sk_worker s1) \<le> runnerCount (sk_worker s)"
    "wk_scaleSet (sk_worker s1) = wk_scaleSet (sk_worker s)" "runners_keyed (sk_worker s1)"
    by (auto simp: cleaned_def)
  have "runnerCount (sk_worker (snd (handleScaleUp env s1))) \<le>
      max (runnerCount (sk_worker s1)) (uint (ss_MaxRunners (wk_scaleSet (sk_worker s1))))"
    using grown_handleScaleUp [of s1 env] targetRunners_le [of "sk_worker s1"] by (auto simp: grown_def split: if_splits)
  moreover note runnerCount_handleScaleDown [OF c(3), of env]
  ultimately show ?thesis using c h
    by (auto simp: tick_split m_bind_def [of tick_head] split: sum.split)
qed

subsection \<open>The locks of the worker\<close>




















































subsection \<open>Messages\<close>


























subsection \<open>An example\<close>

definition ex_ss_row :: ScaleSetRow where
  "ex_ss_row = \<lparr>sr_ID = 7, sr_ScaleSetID = 70, sr_Name = ''set'', sr_GitHubRunnerGroup = [], sr_DisableUpdate = False,
     sr_State = [], sr_ExtendedState = [], sr_ProviderName = ''lxd'', sr_RunnerPrefix = ''garm'', sr_MaxRunners = 2,
     sr_MinIdleRunners = 1, sr_RunnerBootstrapTimeout = 20, sr_Image = ''img'', sr_Flavor = ''small'', sr_OSType = ''linux'',
     sr_OSArch = ''amd64'', sr_Enabled = True, sr_LastMessageID = 3, sr_DesiredRunnerCount = 5, sr_ExtraSpecs = [],
     sr_EnableShell = False, sr_Generation = 4, sr_RepoID = Some 1, sr_OrgID = None, sr_EnterpriseID = None, sr_TemplateID = None,
     sr_ProxyID = None, sr_Tags = [], sr_CreatedAt = 1, sr_UpdatedAt = 1\<rparr>"

definition ex_ss_db :: db where
  "ex_ss_db = ex_db\<lparr>db_scalesets := [ex_ss_row], db_instances := []\<rparr>"

definition ex_scaleset :: ScaleSet where
  "ex_scaleset = (case fst (GetScaleSetByID 7 ex_ss_db) of Inr ss \<Rightarrow> ss)"

definition ex_ssys :: "nat ssys" where
  "ex_ssys = \<lparr>sk_db = ex_ss_db, sk_worker = \<lparr>wk_consumerID = ''scaleset-worker'', wk_controllerInfo = ex_controller,
     wk_scaleSet = ex_scaleset, wk_entity = ex_forge_entity, wk_runners = [], wk_pseudoPoolID = ''pool'', wk_legacyPoolIDDrained = True,
     wk_running = True, wk_authFailed = False, wk_authFailedCli = None, wk_authFailureAt = 0, wk_scalingPauseReason = NotPaused,
     wk_listener = \<lparr>li_lastMessageID = 3, li_running = True, li_retryAfterUnauthorized = False\<rparr>\<rparr>,
     sk_locks = Map.empty, sk_view = \<lparr>sv_tools = Inr [], sv_credentials = None, sv_client = Some 1\<rparr>, sk_lifecycle = [], sk_world = 0\<rparr>"

definition ex_ss_env :: "nat ss_env" where
  "ex_ss_env = \<lparr>se_NewClient = m_ret (), se_GetEntityRunnerGroupIDByName = (\<lambda>_. m_ret 1),
     se_GetRunnerScaleSetByNameAndRunnerGroup = (\<lambda>_ _. m_ret 70), se_CreateRunnerScaleSet = (\<lambda>_ _. m_ret 70),
     se_RemoveRunner = (\<lambda>_. m_ret ()), se_GetRunner = (\<lambda>_. m_throw NotFoundError),
     se_GenerateJitRunnerConfig = (\<lambda>_ _. m_ret (9, [])), se_DecodedJITConfig = (\<lambda>_. Inr []),
     se_AcquireJobs = (\<lambda>_ is. m_ret is), se_CreateMessageSession = (\<lambda>_ _. m_ret ()), se_DeleteMessageSession = m_ret (),
     se_GetMessage = (\<lambda>_ _. m_ret None), se_DeleteMessage = (\<lambda>_. m_ret ()), se_ListInstances = (\<lambda>_ _. m_ret []),
     se_DeleteInstance = (\<lambda>_ _. m_ret ()), se_NewID = (\<lambda>n. (if n = 0 then ''zero'' else ''one'', n + 1)),
     se_ControllerInfo = Inr ex_controller\<rparr>"


definition ex_idle :: "string \<Rightarrow> Instance" where
  "ex_idle i = zero_Instance\<lparr>i_ID := i, i_Name := ''garm-'' @ i, i_Status := InstanceRunning, i_RunnerStatus := RunnerIdle\<rparr>"

definition ex_ssys_idle :: "nat ssys" where
  "ex_ssys_idle = ex_ssys\<lparr>sk_worker := (sk_worker ex_ssys)\<lparr>wk_runners := [(''a'', ex_idle ''a''), (''b'', ex_idle ''b''),
     (''c'', (ex_idle ''c'')\<lparr>i_RunnerStatus := RunnerActive\<rparr>)]\<rparr>\<rparr>"


subsection \<open>Properties of the worker\<close>

text \<open>
  (C19) A tick of the scaling loop, whatever the forge, the provider and the store answer, never leaves the scale set with more
  runners than its maximum, unless it had more before; then it adds none.
\<close>

theorem autoscale_respects_maximum:
  assumes "runners_keyed (sk_worker s)"
  shows "runnerCount (sk_worker (snd (handleAutoScale_tick env s))) \<le>
    max (runnerCount (sk_worker s)) (uint (ss_MaxRunners (wk_scaleSet (sk_worker s))))"
  using assms by (rule tick_bound)

theorem autoscale_respects_maximum_witness:
  "runnerCount (sk_worker (snd (handleAutoScale_tick ex_ss_env ex_ssys))) = 2 \<and>
   runnerCount (sk_worker (snd (handleAutoScale_tick ex_ss_env ex_ssys))) \<le> 2"
proof -
  have "runnerCount (sk_worker (snd (handleAutoScale_tick ex_ss_env ex_ssys))) = 2" by code_simp
  moreover have "runners_keyed (sk_worker ex_ssys)" "runnerCount (sk_worker ex_ssys) = 0"
    "uint (ss_MaxRunners (wk_scaleSet (sk_worker ex_ssys))) = 2" by code_simp+
  ultimately show ?thesis using autoscale_respects_maximum [of ex_ssys ex_ss_env] by simp
qed

text \<open>
  (C20) Scaling down keeps the runners the forge asks for: however the forge and the store answer, the runners that are not on
  their way out do not fall below the target, and a runner that is not running and idle is left as it is.
\<close>

theorem scale_down_keeps_target:
  assumes "runners_keyed (sk_worker s)"
  shows "let before = wk_runners (sk_worker s); after = wk_runners (sk_worker (snd (handleScaleDown env s))) in
    min (int (count_runners staying before)) (targetRunners (sk_worker s)) \<le> int (count_runners staying after) \<and>
    (\<forall>k r. keyedCache_Get k before = Some r \<and> \<not> idle_runner r \<longrightarrow> keyedCache_Get k after = Some r)"
proof -
  define before after where "before = wk_runners (sk_worker s)" and "after = wk_runners (sk_worker (snd (handleScaleDown env s)))"
  note k = runners_keyedD [OF assms(1)]
  note shrunk = shrunk_handleScaleDown [OF k(1), of env, unfolded shrunk_def]
  have "keyedCache_Get x after = Some r" if "keyedCache_Get x before = Some r" "\<not> idle_runner r" for x r
  proof -
    have "x \<notin> i_ID ` set (filter idle_runner (map snd before))"
    proof
      assume "x \<in> i_ID ` set (filter idle_runner (map snd before))"
      then obtain r' where "r' \<in> set (map snd before)" "idle_runner r'" "x = i_ID r'" by auto
      with that k(3) [of r'] show False by (simp add: before_def)
    qed
    with shrunk that show ?thesis by (simp add: before_def after_def)
  qed
  moreover have "min (int (count_runners staying before)) (targetRunners (sk_worker s)) \<le> int (count_runners staying after)"
    using conjunct1 [OF conjunct2 [OF conjunct2 [OF shrunk]]] unfolding before_def after_def by linarith
  ultimately show ?thesis by (simp add: before_def after_def Let_def)
qed

theorem scale_down_keeps_target_witness:
  "count_runners staying (wk_runners (sk_worker (snd (handleScaleDown ex_ss_env ex_ssys_idle)))) = 2 \<and>
   keyedCache_Get ''c'' (wk_runners (sk_worker (snd (handleScaleDown ex_ss_env ex_ssys_idle)))) =
     Some ((ex_idle ''c'')\<lparr>i_RunnerStatus := RunnerActive\<rparr>)"
proof -
  have "runners_keyed (sk_worker ex_ssys_idle)" by code_simp
  note scale_down_keeps_target [OF this, of ex_ss_env, unfolded Let_def]
  moreover have "keyedCache_Get ''c'' (wk_runners (sk_worker ex_ssys_idle)) = Some ((ex_idle ''c'')\<lparr>i_RunnerStatus := RunnerActive\<rparr>)"
    "\<not> idle_runner ((ex_idle ''c'')\<lparr>i_RunnerStatus := RunnerActive\<rparr>)" by code_simp+
  ultimately have "keyedCache_Get ''c'' (wk_runners (sk_worker (snd (handleScaleDown ex_ss_env ex_ssys_idle)))) =
     Some ((ex_idle ''c'')\<lparr>i_RunnerStatus := RunnerActive\<rparr>)" by blast
  moreover have "count_runners staying (wk_runners (sk_worker (snd (handleScaleDown ex_ss_env ex_ssys_idle)))) = 2" by code_simp
  ultimately show ?thesis by blast
qed






text \<open>
  With a minimum below the maximum, and within the range of 64 bit integers, the target of a scale set is what the forge asks for
  on top of the minimum, cut at the maximum: the machine arithmetic does not wrap around.
\<close>

theorem targetRunners_exact:
  assumes "uint (ss_MaxRunners (wk_scaleSet w)) \<le> max_int" "ss_MinIdleRunners (wk_scaleSet w) \<le> ss_MaxRunners (wk_scaleSet w)"
    and "ss_DesiredRunnerCount (wk_scaleSet w) \<le> max_int"
  shows "targetRunners w = min (uint (ss_MinIdleRunners (wk_scaleSet w)) + max 0 (ss_DesiredRunnerCount (wk_scaleSet w)))
    (uint (ss_MaxRunners (wk_scaleSet w)))"
proof -
  let ?ss = "wk_scaleSet w"
  let ?d = "ss_DesiredRunnerCount ?ss" and ?mn = "ss_MinIdleRunners ?ss" and ?mx = "ss_MaxRunners ?ss"
  let ?des = "(if ?d > 0 then word_of_int ?d else 0) :: uint64"
  have mx: "uint ?mx < 2 ^ 63" "uint ?mn < 2 ^ 63" using assms(1,2) by (simp_all add: max_int_def word_le_def)
  have des: "uint ?des = max 0 ?d" using assms(3) by (auto simp: max_int_def uint_word_of_int)
  have "uint ?des < 2 ^ 63" using assms(3) unfolding des by (auto simp: max_int_def)
  with mx have sum: "uint (?mn + ?des) = uint ?mn + max 0 ?d" by (simp add: uint_plus_if' des)
  have s: "sint x = uint x" if "uint x < 2 ^ 63" for x :: uint64
    using that signed_take_bit_int_eq_self [of 63 "uint x"] order_trans [of _ 0 "uint x"] by (simp add: sint_uint)
  show ?thesis
  proof (cases "?mn + ?des < ?mx")
    case True
    then have "uint (?mn + ?des) < uint ?mx" by (simp add: word_less_def)
    with mx have "sint (?mn + ?des) = uint ?mn + max 0 ?d" using s [of "?mn + ?des"] sum by simp
    with True sum \<open>uint (?mn + ?des) < uint ?mx\<close> show ?thesis by (simp add: targetRunners_def Let_def)
  next
    case False
    then have "uint ?mx \<le> uint ?mn + max 0 ?d" using sum by (simp add: word_less_def)
    with False s [OF mx(1)] show ?thesis by (simp add: targetRunners_def Let_def)
  qed
qed

theorem targetRunners_exact_witness: "targetRunners (sk_worker ex_ssys) = 2"
proof -
  have "uint (ss_MaxRunners (wk_scaleSet (sk_worker ex_ssys))) = 2" "uint (ss_MinIdleRunners (wk_scaleSet (sk_worker ex_ssys))) = 1"
    "ss_DesiredRunnerCount (wk_scaleSet (sk_worker ex_ssys)) = 5" by code_simp+
  with targetRunners_exact [of "sk_worker ex_ssys"] show ?thesis by (simp add: max_int_def word_le_def)
qed

subsection \<open>Where the start of a worker differs from what it means\<close>

text \<open>A runner that is online and busy counts as dead: its status is compared before it is interpreted.\<close>

lemma online_runner_recovered_as_dead:
  assumes "i_AgentID inst \<noteq> 0" "GetScaleSetClient env s = (Inr (), s1)" "ss_world (se_RemoveRunner env (i_AgentID inst)) s1 = (Inl e, s2)"
    and "\<not> error_is e NotFoundError" "\<not> error_is e UnauthorizedError" "\<not> error_is e ForbiddenError"
    and "ss_world (se_GetRunner env (i_AgentID inst)) s2 = (Inr r, s3)" "rf_Status r = Some ''online''" "rf_Busy r"
  shows "RunnerReference_GetStatus r = RunnerActive \<and> recover_creating env inst s = (Inr (Some InstancePendingDelete), s3)"
  using assms by (simp add: recover_creating_def RunnerReference_GetStatus_def runner_status_def RunnerStatus_IsValid_def m_seq_def m_bind_def m_try_run)

lemma start_without_client_keeps_lock:
  assumes "keyMutex_invar (sk_locks s)" "\<not> keyMutex_held (sk_locks s) (i_Name inst)" "i_Status inst = InstanceCreating" "i_AgentID inst \<noteq> 0"
    and "sv_client (sk_view s) = None"
  shows "\<exists>e. fst (start_instance env inst s) = Inl e \<and> keyMutex_held (sk_locks (snd (start_instance env inst s))) (i_Name inst)"
proof -
  let ?i = "wk_consumerID (sk_worker s)"
  obtain ok m where tl: "keyMutex_TryLock (i_Name inst) ?i (sk_locks s) = (ok, m)" by (cases "keyMutex_TryLock (i_Name inst) ?i (sk_locks s)")
  with keyMutex_laws(1,2) [OF assms(1), of "i_Name inst" ?i] assms(2) have "ok" "keyMutex_held m (i_Name inst)" by auto
  with tl assms(3-5) show ?thesis
    by (auto simp: start_instance_def recover_creating_def GetScaleSetClient_def ss_lock_def keyMutex_Lock_def m_seq_def m_bind_def split: sum.split)
qed

end
