(* ===== verification/Garm_Provider.thy ===== *)
theory Garm_Provider
  imports Garm_ScaleSet_Worker
begin

text \<open>
  The provider worker (\<^verbatim>\<open>workers/provider\<close>): it keeps a manager for every instance of a scale set. A manager hands a new instance
  to the compute provider and removes it there when it is to go. \<^verbatim>\<open>workers/common/backoff.go\<close> spaces out the attempts to start a
  manager.

  A pass of a manager (\<^verbatim>\<open>consolidateState\<close>) runs to its end; updates of the instance arrive before or after it. The channel of a
  manager is unbuffered and its reader does nothing but store the update, so sending an update is the reader's step; the
  ten seconds after which the sender gives up are not modelled. A manager is kept in the entry that points to it; the provider it
  uses is the one its scale set names, since the table of the providers never changes.
\<close>

subsection \<open>Backoff\<close>

text \<open>The factors are \<^verbatim>\<open>float64\<close> in the code; here they are fractions. The random draw is a number below \<open>2 ^ 16\<close>, or \<open>None\<close> when the
  random source fails.\<close>

record backoffEntry =
  be_backoff :: duration
  be_lastRecordedFailure :: time

type_synonym Backoff = "(string, backoffEntry) keyedCache"

definition backoff_Initial :: duration where "backoff_Initial = 10 * second"
definition backoff_Max :: duration where "backoff_Max = 5 * minute"

definition backoff_jitter :: "nat option \<Rightarrow> duration \<Rightarrow> duration" where
  "backoff_jitter draw b = (case draw of
     None \<Rightarrow> b
   | Some n \<Rightarrow> min \<lfloor>rat_of_int b * (1 + (rat_of_int (int (n mod 2 ^ 16)) / 2 ^ 16 * 2 - 1) * (1 / 5))\<rfloor> backoff_Max)"

definition Backoff_ShouldRetry :: "string \<Rightarrow> time \<Rightarrow> Backoff \<Rightarrow> bool" where
  "Backoff_ShouldRetry key now b = (case keyedCache_Get key b of
     None \<Rightarrow> True
   | Some entry \<Rightarrow> if be_lastRecordedFailure entry = 0 \<or> be_backoff entry = 0 then True
       else be_lastRecordedFailure entry + be_backoff entry < now)"

definition Backoff_RecordFailure :: "nat option \<Rightarrow> string \<Rightarrow> time \<Rightarrow> Backoff \<Rightarrow> Backoff" where
  "Backoff_RecordFailure draw key now b =
     (let old = (case keyedCache_Get key b of None \<Rightarrow> 0 | Some entry \<Rightarrow> be_backoff entry);
          grown0 = (if old = 0 then backoff_Initial else \<lfloor>rat_of_int old * (3 / 2)\<rfloor>)
      in keyedCache_Set key \<lparr>be_backoff = backoff_jitter draw (min grown0 backoff_Max), be_lastRecordedFailure = now\<rparr> b)"

definition Backoff_RecordSuccess :: "string \<Rightarrow> Backoff \<Rightarrow> Backoff" where
  "Backoff_RecordSuccess key b = keyedCache_Delete key b"

subsection \<open>The state\<close>

record instanceManager =
  im_instance :: Instance
  im_scaleSet :: ScaleSet
  im_scaleSetEntity :: "ForgeEntityType \<times> string"
  im_deleteBackoff :: duration
  im_running :: bool

record runnerEntry =
  re_instance :: Instance
  re_manager :: "instanceManager option"

record providerWorker =
  pw_scaleSets :: "(nat, ScaleSet) keyedCache"
  pw_runners :: "(string, runnerEntry) keyedCache"
  pw_backoff :: Backoff
  pw_scaleSetsLoaded :: bool
  pw_runnersLoaded :: bool
  pw_running :: bool

text \<open>What the caches answer: the tools of an entity, the proxies, the controller.\<close>

record providerView =
  pv_tools :: "string \<Rightarrow> garm_error + string list"
  pv_proxies :: "nat \<rightharpoonup> string"
  pv_controller :: ControllerInfo

record 'w psys =
  ps_db :: db
  ps_worker :: providerWorker
  ps_view :: providerView
  ps_lifecycle :: "string list"
  ps_world :: 'w

text \<open>The provider plugins, the signing of tokens, parsing, hashing, randomness, and the tables of controller and entities.\<close>

record 'w ss_provider =
  sp_CreateInstance :: "BootstrapInstance \<Rightarrow> ScaleSetBaseParams \<Rightarrow> ('w, ProviderInstance) prog"
  sp_DeleteInstance :: "string \<Rightarrow> ScaleSetBaseParams \<Rightarrow> ('w, unit) prog"

record 'w p_env =
  pe_providers :: "string \<Rightarrow> 'w ss_provider option"
  pe_ControllerInfo :: "('w, ControllerInfo) prog"
  pe_GetForgeEntity :: "ForgeEntityType \<Rightarrow> string \<Rightarrow> ('w, ForgeEntity) prog"
  pe_NewInstanceJWTToken :: "Instance \<Rightarrow> ForgeEntity \<Rightarrow> nat \<Rightarrow> ('w, string) prog"
  pe_HasInstallTemplate :: "string \<Rightarrow> garm_error + bool"
  pe_CombineBundles :: "string \<Rightarrow> string \<Rightarrow> garm_error + string"
  pe_AddWrapper :: "BootstrapInstance \<Rightarrow> BootstrapInstance"
  pe_PseudoPoolID :: "string \<Rightarrow> nat \<Rightarrow> string"
  pe_error_text :: "garm_error \<Rightarrow> string"
  pe_rand :: "'w \<Rightarrow> nat option \<times> 'w"

definition p_db :: "(db, 'a) prog \<Rightarrow> ('w psys, 'a) prog" where
  "p_db = m_lift ps_db (\<lambda>d s. s\<lparr>ps_db := d\<rparr>)"

definition p_world :: "('w, 'a) prog \<Rightarrow> ('w psys, 'a) prog" where
  "p_world = m_lift ps_world (\<lambda>w s. s\<lparr>ps_world := w\<rparr>)"

definition p_lifecycle :: "string \<Rightarrow> ('w psys, unit) prog" where
  "p_lifecycle outcome = m_modify (\<lambda>s. s\<lparr>ps_lifecycle := ps_lifecycle s @ [outcome]\<rparr>)"

definition p_upd :: "(providerWorker \<Rightarrow> providerWorker) \<Rightarrow> ('w psys, unit) prog" where
  "p_upd f = m_modify (\<lambda>s. s\<lparr>ps_worker := f (ps_worker s)\<rparr>)"

definition p_get :: "(providerWorker \<Rightarrow> 'a) \<Rightarrow> ('w psys, 'a) prog" where
  "p_get f = m_get (\<lambda>s. f (ps_worker s))"

definition find_entry :: "string \<Rightarrow> providerWorker \<Rightarrow> runnerEntry option" where
  "find_entry name w = keyedCache_Get name (pw_runners w)"

definition find_manager :: "string \<Rightarrow> providerWorker \<Rightarrow> instanceManager option" where
  "find_manager name w = (case find_entry name w of None \<Rightarrow> None | Some e \<Rightarrow> re_manager e)"

definition store_entry :: "string \<Rightarrow> runnerEntry \<Rightarrow> providerWorker \<Rightarrow> providerWorker" where
  "store_entry name e w = w\<lparr>pw_runners := keyedCache_Set name e (pw_runners w)\<rparr>"

definition delete_entry :: "string \<Rightarrow> providerWorker \<Rightarrow> providerWorker" where
  "delete_entry name w = w\<lparr>pw_runners := keyedCache_Delete name (pw_runners w)\<rparr>"

definition upd_manager :: "string \<Rightarrow> (instanceManager \<Rightarrow> instanceManager) \<Rightarrow> providerWorker \<Rightarrow> providerWorker" where
  "upd_manager name f w = (case find_entry name w of
     None \<Rightarrow> w
   | Some e \<Rightarrow> store_entry name (e\<lparr>re_manager := map_option f (re_manager e)\<rparr>) w)"

definition record_failure :: "'w p_env \<Rightarrow> string \<Rightarrow> ('w psys, unit) prog" where
  "record_failure env name = m_bind (p_world (\<lambda>w. case pe_rand env w of (n, w') \<Rightarrow> (Inr n, w'))) (\<lambda>draw.
     m_bind (m_get (\<lambda>s. db_clock (ps_db s))) (\<lambda>now.
       p_upd (\<lambda>w. w\<lparr>pw_backoff := Backoff_RecordFailure draw name now (pw_backoff w)\<rparr>)))"

definition record_success :: "string \<Rightarrow> ('w psys, unit) prog" where
  "record_success name = p_upd (\<lambda>w. w\<lparr>pw_backoff := Backoff_RecordSuccess name (pw_backoff w)\<rparr>)"

subsection \<open>The helper of the managers\<close>

definition provider_SetInstanceStatus :: "string \<Rightarrow> InstanceStatus \<Rightarrow> string \<Rightarrow> bool \<Rightarrow> ('w psys, unit) prog" where
  "provider_SetInstanceStatus instanceName status providerFault force =
     (let updateParams = empty_update\<lparr>uip_Status := status, uip_ProviderFault := providerFault\<rparr>
      in m_seq (p_db (if force then ForceUpdateInstance instanceName updateParams else UpdateInstance instanceName updateParams))
           (m_ret ()))"

definition persistProviderInstanceState :: "string \<Rightarrow> ProviderInstance \<Rightarrow> ('w psys, Instance) prog" where
  "persistProviderInstanceState instanceName p = p_db (UpdateInstance instanceName (empty_update\<lparr>
     uip_ProviderID := pri_ProviderID p, uip_OSName := pri_OSName p, uip_OSVersion := pri_OSVersion p,
     uip_Addresses := pri_Addresses p, uip_Status := pri_Status p, uip_ProviderFault := pri_ProviderFault p\<rparr>))"

subsection \<open>instanceManager\<close>

definition newInstanceManager :: "Instance \<Rightarrow> ScaleSet \<Rightarrow> garm_error + instanceManager" where
  "newInstanceManager instance0 scaleSet = (case ScaleSet_GetEntity scaleSet of
     Inl e \<Rightarrow> Inl e
   | Inr entity \<Rightarrow> Inr \<lparr>im_instance = instance0, im_scaleSet = scaleSet, im_scaleSetEntity = entity, im_deleteBackoff = 0,
       im_running = False\<rparr>)"

definition instanceManager_Start :: "instanceManager \<Rightarrow> instanceManager" where
  "instanceManager_Start i = i\<lparr>im_running := True\<rparr>"

definition instanceManager_Stop :: "instanceManager \<Rightarrow> instanceManager" where
  "instanceManager_Stop i = i\<lparr>im_running := False\<rparr>"

definition incrementBackOff :: "instanceManager \<Rightarrow> instanceManager" where
  "incrementBackOff i = (let b = (if im_deleteBackoff i = 0 then second else im_deleteBackoff i * 2)
     in i\<lparr>im_deleteBackoff := (if b > 5 * minute then 5 * minute else b)\<rparr>)"

definition im_getProviderBaseParams :: "'w p_env \<Rightarrow> instanceManager \<Rightarrow> ('w psys, ScaleSetBaseParams) prog" where
  "im_getProviderBaseParams env i = m_bind (p_world (pe_ControllerInfo env)) (\<lambda>info.
     m_ret \<lparr>sbp_ControllerInfo = info, sbp_ScaleSetID = ss_ID (im_scaleSet i), sbp_EntityType = fst (im_scaleSetEntity i),
       sbp_EntityID = snd (im_scaleSetEntity i)\<rparr>)"

definition im_getEntity :: "'w p_env \<Rightarrow> instanceManager \<Rightarrow> ('w psys, ForgeEntity) prog" where
  "im_getEntity env i = m_bind (m_result (ScaleSet_GetEntity (im_scaleSet i))) (\<lambda>(ty, eid). p_world (pe_GetForgeEntity env ty eid))"

definition im_provider :: "'w p_env \<Rightarrow> instanceManager \<Rightarrow> ('w psys, 'w ss_provider) prog" where
  "im_provider env i = m_result (option_or (OtherError ''provider not configured'') (pe_providers env (ss_ProviderName (im_scaleSet i))))"

definition im_check_template :: "'w p_env \<Rightarrow> ScaleSet \<Rightarrow> garm_error + unit" where
  "im_check_template env scaleSet = (if ss_TemplateID scaleSet \<noteq> 0 then Inr ()
     else case pe_HasInstallTemplate env (ss_ExtraSpecs scaleSet) of
       Inl e \<Rightarrow> Inl e
     | Inr has \<Rightarrow> if has then Inr () else Inl (OtherError ''pool has no template set and extra specs has no runner_install_template set''))"

definition im_proxy :: "ScaleSet \<Rightarrow> providerView \<Rightarrow> garm_error + string option" where
  "im_proxy scaleSet v = (if ss_ProxyID scaleSet = 0 then Inr None
     else case pv_proxies v (ss_ProxyID scaleSet) of
       None \<Rightarrow> Inl (OtherError ''proxy was not found in cache'') | Some p \<Rightarrow> Inr (Some p))"

definition im_bootstrap_args ::
    "'w p_env \<Rightarrow> instanceManager \<Rightarrow> Instance \<Rightarrow> ForgeEntity \<Rightarrow> string \<Rightarrow> string list \<Rightarrow> string \<Rightarrow> string option \<Rightarrow> BootstrapInstance" where
  "im_bootstrap_args env i instance0 entity token tools caBundles proxy = (let scaleSet = im_scaleSet i in
     pe_AddWrapper env \<lparr>bi_Name = i_Name instance0, bi_Tools = tools, bi_RepoURL = ForgeURL entity,
       bi_MetadataURL = i_MetadataURL instance0, bi_CallbackURL = i_CallbackURL instance0, bi_InstanceToken = token,
       bi_OSArch = ss_OSArch scaleSet, bi_OSType = ss_OSType scaleSet, bi_Flavor = ss_Flavor scaleSet, bi_Image = ss_Image scaleSet,
       bi_ExtraSpecs = ss_ExtraSpecs scaleSet, bi_PoolID = pe_PseudoPoolID env (snd (im_scaleSetEntity i)) (ss_ID scaleSet),
       bi_CACertBundle = caBundles, bi_GitHubRunnerGroup = ss_GitHubRunnerGroup scaleSet, bi_JitConfigEnabled = True,
       bi_ProxyConfig = proxy, bi_Labels = []\<rparr>)"

text \<open>The deferred removal of what a failed creation left behind.\<close>

definition im_cleanup :: "'w ss_provider \<Rightarrow> ScaleSetBaseParams \<Rightarrow> string \<Rightarrow> ('w psys, unit) prog" where
  "im_cleanup provider base instanceIDToDelete = m_when (instanceIDToDelete \<noteq> [])
     (m_ignore (p_world (sp_DeleteInstance provider instanceIDToDelete base)))"

definition im_store_result :: "string \<Rightarrow> Instance \<Rightarrow> ('w psys, unit) prog" where
  "im_store_result name updated = p_upd (upd_manager name (\<lambda>i. if \<not> i_UpdatedAt (im_instance i) > i_UpdatedAt updated
     then i\<lparr>im_instance := updated\<rparr> else i))"

definition handleCreateInstanceInProvider :: "'w p_env \<Rightarrow> string \<Rightarrow> instanceManager \<Rightarrow> Instance \<Rightarrow> ('w psys, unit) prog" where
  "handleCreateInstanceInProvider env name i instance0 =
     m_bind (im_getEntity env i) (\<lambda>entity.
     m_bind (p_world (pe_NewInstanceJWTToken env instance0 entity (ss_RunnerBootstrapTimeout (im_scaleSet i)))) (\<lambda>token.
     m_bind (m_bind (m_get (\<lambda>s. pv_tools (ps_view s) (e_ID entity))) m_result) (\<lambda>tools.
     m_seq (m_result (im_check_template env (im_scaleSet i)))
     (m_bind (m_bind (m_get (\<lambda>s. pe_CombineBundles env (c_CABundle (e_Credentials entity)) (ci_CACertBundle (pv_controller (ps_view s))))) m_result) (\<lambda>caBundles.
     m_bind (m_bind (m_get (\<lambda>s. im_proxy (im_scaleSet i) (ps_view s))) m_result) (\<lambda>proxy.
     m_bind (im_getProviderBaseParams env i) (\<lambda>baseParams.
     m_bind (im_provider env i) (\<lambda>provider.
     m_bind (m_try (p_world (sp_CreateInstance provider (im_bootstrap_args env i instance0 entity token tools caBundles proxy) baseParams))) (\<lambda>res.
       case res of
         Inl e \<Rightarrow> m_seq (im_cleanup provider baseParams (i_Name instance0)) (m_throw e)
       | Inr providerInstance \<Rightarrow>
           m_finally
             (m_bind (persistProviderInstanceState (i_Name instance0) providerInstance) (im_store_result name))
             (\<lambda>_. im_cleanup provider baseParams (if pri_Status providerInstance \<noteq> InstanceError then []
                else if i_ProviderID instance0 = [] then i_Name instance0 else i_ProviderID instance0)))))))))))"

definition handleDeleteInstanceInProvider :: "'w p_env \<Rightarrow> instanceManager \<Rightarrow> Instance \<Rightarrow> ('w psys, unit) prog" where
  "handleDeleteInstanceInProvider env i instance0 =
     m_bind (im_getProviderBaseParams env i) (\<lambda>baseParams.
     m_bind (im_provider env i) (\<lambda>provider.
       p_world (sp_DeleteInstance provider (if i_ProviderID instance0 = [] then i_Name instance0 else i_ProviderID instance0) baseParams)))"

text \<open>A pass returns \<open>True\<close> for \<^verbatim>\<open>ErrInstanceDeleted\<close>, which ends the loop of the manager.\<close>

definition create_pass :: "'w p_env \<Rightarrow> string \<Rightarrow> instanceManager \<Rightarrow> Instance \<Rightarrow> ('w psys, bool) prog" where
  "create_pass env name i instance0 =
     m_seq (provider_SetInstanceStatus (i_Name instance0) InstanceCreating [] False)
     (m_bind (m_try (handleCreateInstanceInProvider env name i instance0)) (\<lambda>r. case r of
        Inr _ \<Rightarrow> m_ret False
      | Inl e \<Rightarrow> m_seq (p_lifecycle ''provider_error'')
          (m_seq (provider_SetInstanceStatus (i_Name instance0) InstanceError (pe_error_text env e) True) (m_ret False))))"

definition is_transition_error :: "garm_error \<Rightarrow> bool" where
  "is_transition_error e = transition_from (\<lambda>_. True) e"

definition interrupted_pass :: "Instance \<Rightarrow> ('w psys, bool) prog" where
  "interrupted_pass instance0 = m_bind (m_try (provider_SetInstanceStatus (i_Name instance0) InstanceError
       ''create was interrupted before the provider result was recorded'' False)) (\<lambda>r. case r of
     Inr _ \<Rightarrow> m_ret False
   | Inl e \<Rightarrow> if is_transition_error e \<or> error_is e NotFoundError then m_ret False else m_throw e)"

definition mark_deleted :: "Instance \<Rightarrow> ('w psys, bool) prog" where
  "mark_deleted instance0 = m_bind (m_try (provider_SetInstanceStatus (i_Name instance0) InstanceDeleted [] False)) (\<lambda>r. case r of
     Inr _ \<Rightarrow> m_ret True
   | Inl e \<Rightarrow> if error_is e NotFoundError then m_ret True
       else if transition_from InstanceIsBeingDeleted e
       then m_bind (m_try (provider_SetInstanceStatus (i_Name instance0) InstanceDeleted [] True)) (\<lambda>r'. case r' of
         Inr _ \<Rightarrow> m_ret True
       | Inl e' \<Rightarrow> if error_is e' NotFoundError then m_ret True else m_throw e')
       else m_throw e)"

definition delete_pass :: "'w p_env \<Rightarrow> string \<Rightarrow> bool \<Rightarrow> instanceManager \<Rightarrow> Instance \<Rightarrow> ('w psys, bool) prog" where
  "delete_pass env name canceled i instance0 = (let forced = (i_Status instance0 = InstancePendingForceDelete) in
     if \<not> forced \<and> canceled then m_ret False
     else m_bind (m_try (provider_SetInstanceStatus (i_Name instance0) InstanceDeleting [] True)) (\<lambda>r. case r of
       Inl e \<Rightarrow> if error_is e NotFoundError then m_ret False else m_throw e
     | Inr _ \<Rightarrow> m_bind (m_try (handleDeleteInstanceInProvider env i instance0)) (\<lambda>d. case d of
         Inr _ \<Rightarrow> mark_deleted instance0
       | Inl e \<Rightarrow> if forced then mark_deleted instance0
           else m_seq (p_upd (upd_manager name incrementBackOff))
             (m_seq (provider_SetInstanceStatus (i_Name instance0) InstancePendingDelete (pe_error_text env e) True) (m_throw e)))))"

text \<open>\<open>canceled\<close>: the worker is stopped while the manager waits for its back-off.\<close>

definition consolidateState :: "'w p_env \<Rightarrow> string \<Rightarrow> bool \<Rightarrow> ('w psys, bool) prog" where
  "consolidateState env name canceled = m_bind (p_get (find_manager name)) (\<lambda>m. case m of
     None \<Rightarrow> m_ret False
   | Some i \<Rightarrow> if \<not> im_running i then m_ret False
       else let instance0 = im_instance i in (case i_Status instance0 of
         InstancePendingCreate \<Rightarrow> create_pass env name i instance0
       | InstanceCreating \<Rightarrow> interrupted_pass instance0
       | InstancePendingDelete \<Rightarrow> delete_pass env name canceled i instance0
       | InstancePendingForceDelete \<Rightarrow> delete_pass env name canceled i instance0
       | InstanceDeleting \<Rightarrow> delete_pass env name canceled i instance0
       | InstanceError \<Rightarrow> m_seq (provider_SetInstanceStatus (i_Name instance0) InstancePendingDelete [] True) (m_ret False)
       | InstanceDeleted \<Rightarrow> m_ret True
       | _ \<Rightarrow> m_ret False))"

text \<open>A tick of the loop of a manager; an error is logged.\<close>

definition instanceManager_tick :: "'w p_env \<Rightarrow> string \<Rightarrow> bool \<Rightarrow> ('w psys, unit) prog" where
  "instanceManager_tick env name canceled = m_bind (m_try (consolidateState env name canceled)) (\<lambda>r.
     m_when (r = Inr True) (p_upd (upd_manager name instanceManager_Stop)))"

definition instanceManager_handleUpdate :: "Instance \<Rightarrow> instanceManager \<Rightarrow> instanceManager" where
  "instanceManager_handleUpdate instance0 i = (if im_running i then i\<lparr>im_instance := instance0\<rparr> else i)"

subsection \<open>The worker\<close>

definition manager_running :: "runnerEntry \<Rightarrow> bool" where
  "manager_running e = (case re_manager e of None \<Rightarrow> False | Some i \<Rightarrow> im_running i)"

text \<open>The common part of adding an instance and of loading one: an entry without a manager is retried later.\<close>

definition add_runner_entry :: "'w p_env \<Rightarrow> Instance \<Rightarrow> ('w psys, unit) prog" where
  "add_runner_entry env instance0 = m_bind (p_get (\<lambda>w. keyedCache_Get (i_ScaleSetID instance0) (pw_scaleSets w))) (\<lambda>r. case r of
     None \<Rightarrow> m_seq (p_upd (store_entry (i_Name instance0) \<lparr>re_instance = instance0, re_manager = None\<rparr>))
       (record_failure env (i_Name instance0))
   | Some scaleSet \<Rightarrow> (case pe_providers env (ss_ProviderName scaleSet) of
       None \<Rightarrow> m_ret ()
     | Some _ \<Rightarrow> (case newInstanceManager instance0 scaleSet of
         Inl _ \<Rightarrow> m_seq (p_upd (store_entry (i_Name instance0) \<lparr>re_instance = instance0, re_manager = None\<rparr>))
           (record_failure env (i_Name instance0))
       | Inr manager \<Rightarrow> p_upd (store_entry (i_Name instance0)
           \<lparr>re_instance = instance0, re_manager = Some (instanceManager_Start manager)\<rparr>))))"

definition loadAllScaleSets :: "('w psys, unit) prog" where
  "loadAllScaleSets = m_bind (p_db ListAllScaleSets) (\<lambda>scaleSets.
     p_upd (\<lambda>w. w\<lparr>pw_scaleSets := fold (\<lambda>scaleSet. keyedCache_Set (ss_ID scaleSet) scaleSet) scaleSets (pw_scaleSets w)\<rparr>))"

definition load_runner :: "'w p_env \<Rightarrow> Instance \<Rightarrow> ('w psys, unit) prog" where
  "load_runner env runner = (if i_ScaleSetID runner = 0 \<or> i_Status runner \<in> {InstanceCreating, InstanceDeleting, InstanceDeleted} then m_ret ()
     else m_bind (p_get (find_entry (i_Name runner))) (\<lambda>e. if e \<noteq> None then m_ret () else add_runner_entry env runner))"

definition loadAllRunners :: "'w p_env \<Rightarrow> ('w psys, unit) prog" where
  "loadAllRunners env = m_bind (p_db ListAllInstances) (m_for (load_runner env))"

definition providerWorker_Start :: "'w p_env \<Rightarrow> garm_error + unit \<Rightarrow> ('w psys, unit) prog" where
  "providerWorker_Start env registered = m_bind (p_get pw_running) (\<lambda>running. if running then m_ret ()
     else m_seq (m_result registered)
       (m_seq (p_upd (\<lambda>w. w\<lparr>pw_running := True\<rparr>))
       (m_seq (m_bind (m_try loadAllScaleSets) (\<lambda>r. m_when (r = Inr ()) (p_upd (\<lambda>w. w\<lparr>pw_scaleSetsLoaded := True\<rparr>))))
       (m_bind (p_get pw_scaleSetsLoaded) (\<lambda>loaded. m_when loaded
         (m_bind (m_try (loadAllRunners env)) (\<lambda>r. m_when (r = Inr ()) (p_upd (\<lambda>w. w\<lparr>pw_runnersLoaded := True\<rparr>)))))))))"

definition stop_entry :: "runnerEntry \<Rightarrow> runnerEntry" where
  "stop_entry e = e\<lparr>re_manager := map_option instanceManager_Stop (re_manager e)\<rparr>"

definition providerWorker_Stop :: "('w psys, unit) prog" where
  "providerWorker_Stop = p_upd (\<lambda>w. if \<not> pw_running w then w
     else w\<lparr>pw_runners := map (\<lambda>(name, e). (name, stop_entry e)) (pw_runners w), pw_running := False\<rparr>)"

text \<open>A manager that was stopped is started again with what it knows of the instance.\<close>

definition retry_runner :: "'w p_env \<Rightarrow> string \<Rightarrow> ('w psys, unit) prog" where
  "retry_runner env name = m_bind (p_get (find_entry name)) (\<lambda>r. case r of None \<Rightarrow> m_ret ()
   | Some entry \<Rightarrow>
     if manager_running entry then m_ret ()
     else if i_Status (re_instance entry) = InstanceDeleted \<or> i_Status (re_instance entry) = InstanceDeleting
     then m_seq (p_upd (delete_entry name)) (record_success name)
     else m_bind (m_get (\<lambda>s. Backoff_ShouldRetry name (db_clock (ps_db s)) (pw_backoff (ps_worker s)))) (\<lambda>should. if \<not> should then m_ret ()
     else m_bind (p_get (\<lambda>w. keyedCache_Get (i_ScaleSetID (re_instance entry)) (pw_scaleSets w))) (\<lambda>v. case v of
       None \<Rightarrow> record_failure env name
     | Some scaleSet \<Rightarrow> (case pe_providers env (ss_ProviderName scaleSet) of
         None \<Rightarrow> m_seq (p_upd (delete_entry name)) (record_success name)
       | Some _ \<Rightarrow> (case (case re_manager entry of Some i \<Rightarrow> Inr i | None \<Rightarrow> newInstanceManager (re_instance entry) scaleSet) of
           Inl _ \<Rightarrow> record_failure env name
         | Inr manager \<Rightarrow> m_seq (p_upd (store_entry name (entry\<lparr>re_manager := Some (instanceManager_Start manager)\<rparr>)))
             (record_success name))))))"

definition retryFailedRunners :: "'w p_env \<Rightarrow> ('w psys, unit) prog" where
  "retryFailedRunners env = m_bind (p_get id) (\<lambda>w. if \<not> pw_running w then m_ret ()
     else m_bind (if pw_scaleSetsLoaded w then m_ret True
        else m_bind (m_try loadAllScaleSets) (\<lambda>r. case r of
          Inl _ \<Rightarrow> m_ret False | Inr _ \<Rightarrow> m_seq (p_upd (\<lambda>w. w\<lparr>pw_scaleSetsLoaded := True\<rparr>)) (m_ret True))) (\<lambda>loaded.
       if \<not> loaded then m_ret ()
       else m_seq (m_when (\<not> pw_runnersLoaded w) (m_bind (m_try (loadAllRunners env)) (\<lambda>r.
          m_when (r = Inr ()) (p_upd (\<lambda>w. w\<lparr>pw_runnersLoaded := True\<rparr>)))))
        (m_bind (p_get (\<lambda>w. map fst (pw_runners w))) (m_for (retry_runner env)))))"

subsection \<open>Notifications\<close>

definition providerWorker_handleScaleSetEvent :: "ScaleSet \<Rightarrow> OperationType \<Rightarrow> ('w psys, unit) prog" where
  "providerWorker_handleScaleSetEvent scaleSet op0 = p_upd (\<lambda>w. w\<lparr>pw_scaleSets := (case op0 of
     DeleteOperation \<Rightarrow> keyedCache_Delete (ss_ID scaleSet) (pw_scaleSets w)
   | _ \<Rightarrow> keyedCache_Set (ss_ID scaleSet) scaleSet (pw_scaleSets w))\<rparr>)"

definition handleInstanceAdded :: "'w p_env \<Rightarrow> Instance \<Rightarrow> ('w psys, unit) prog" where
  "handleInstanceAdded env instance0 = m_bind (p_get (find_entry (i_Name instance0))) (\<lambda>r. case r of
     Some entry \<Rightarrow> if manager_running entry then m_ret ()
       else m_seq (p_upd (store_entry (i_Name instance0) (entry\<lparr>re_instance := instance0\<rparr>))) (record_success (i_Name instance0))
   | None \<Rightarrow> add_runner_entry env instance0)"

definition stopAndDeleteInstance :: "Instance \<Rightarrow> ('w psys, unit) prog" where
  "stopAndDeleteInstance instance0 = (if i_Status instance0 \<noteq> InstanceDeleted then m_ret ()
     else m_bind (p_get (find_entry (i_Name instance0))) (\<lambda>r. case r of None \<Rightarrow> m_ret ()
       | Some _ \<Rightarrow> m_seq (p_upd (delete_entry (i_Name instance0))) (record_success (i_Name instance0))))"

definition update_entry :: "Instance \<Rightarrow> runnerEntry \<Rightarrow> ('w psys, unit) prog" where
  "update_entry instance0 entry = (if manager_running entry
     then p_upd (store_entry (i_Name instance0) (entry\<lparr>re_instance := instance0,
       re_manager := map_option (instanceManager_handleUpdate instance0) (re_manager entry)\<rparr>))
     else m_seq (p_upd (store_entry (i_Name instance0) (entry\<lparr>re_instance := instance0\<rparr>))) (record_success (i_Name instance0)))"

definition providerWorker_handleInstanceEvent :: "'w p_env \<Rightarrow> Instance \<Rightarrow> OperationType \<Rightarrow> ('w psys, unit) prog" where
  "providerWorker_handleInstanceEvent env instance0 op0 = (if i_ScaleSetID instance0 = 0 then m_ret ()
     else case op0 of
       CreateOperation \<Rightarrow> handleInstanceAdded env instance0
     | UpdateOperation \<Rightarrow> m_bind (p_get (find_entry (i_Name instance0))) (\<lambda>r. case r of
         None \<Rightarrow> if i_Status instance0 = InstanceDeleted then m_ret () else handleInstanceAdded env instance0
       | Some entry \<Rightarrow> if i_Status instance0 = InstanceDeleted then stopAndDeleteInstance instance0 else update_entry instance0 entry)
     | DeleteOperation \<Rightarrow> stopAndDeleteInstance instance0)"

definition providerWorker_handleWatcherEvent :: "'w p_env \<Rightarrow> ChangePayload \<Rightarrow> ('w psys, unit) prog" where
  "providerWorker_handleWatcherEvent env ev = m_bind (p_get pw_running) (\<lambda>running. if \<not> running then m_ret ()
     else case (ev_EntityType ev, ev_Payload ev) of
       (ScaleSetEntityType, ScaleSetPayload scaleSet) \<Rightarrow> providerWorker_handleScaleSetEvent scaleSet (ev_Operation ev)
     | (InstanceEntityType, InstancePayload instance0) \<Rightarrow> providerWorker_handleInstanceEvent env instance0 (ev_Operation ev)
     | _ \<Rightarrow> m_ret ())"

definition composeProviderWatcher :: "ChangePayload \<Rightarrow> bool" where
  "composeProviderWatcher = WithAny [WithEntityTypeFilter InstanceEntityType, WithEntityTypeFilter ScaleSetEntityType]"

end
