(* ===== verification/Garm_Provider_Spec.thy ===== *)
theory Garm_Provider_Spec
  imports Garm_Provider Garm_ScaleSet_Spec
begin

text \<open>
  What the provider worker guarantees.
\<close>

subsection \<open>Backoff\<close>

definition Backoff_invar :: "Backoff \<Rightarrow> bool" where
  "Backoff_invar b \<longleftrightarrow> (\<forall>k e. keyedCache_Get k b = Some e \<longrightarrow> 8 * second \<le> be_backoff e \<and> be_backoff e \<le> backoff_Max)"

definition Backoff_deadline :: "Backoff \<Rightarrow> string \<Rightarrow> time option" where
  "Backoff_deadline b k = (case keyedCache_Get k b of
     None \<Rightarrow> None
   | Some e \<Rightarrow> if be_lastRecordedFailure e = 0 \<or> be_backoff e = 0 then None else Some (be_lastRecordedFailure e + be_backoff e))"

lemma jitter_range:
  assumes "10 * second \<le> b" "b \<le> backoff_Max"
  shows "8 * second \<le> backoff_jitter draw b" "backoff_jitter draw b \<le> backoff_Max"
proof -
  show "backoff_jitter draw b \<le> backoff_Max" using assms by (simp add: backoff_jitter_def split: option.split)
  show "8 * second \<le> backoff_jitter draw b"
  proof (cases draw)
    case None
    with assms show ?thesis by (simp add: backoff_jitter_def second_def)
  next
    case (Some n)
    let ?f = "1 + (rat_of_int (int (n mod 2 ^ 16)) / 2 ^ 16 * 2 - 1) * (1 / 5)"
    have shrink: "4 / 5 \<le> 1 + (x * 2 - 1) * (1 / 5)" if "0 \<le> x" for x :: rat using that by (simp add: field_simps)
    have "4 / 5 \<le> ?f" by (rule shrink) simp
    moreover have "rat_of_int (10 * second) \<le> rat_of_int b" "0 \<le> rat_of_int b" using assms(1) unit_durations(1) by (simp_all add: second_def)
    ultimately have "rat_of_int (10 * second) * (4 / 5) \<le> rat_of_int b * ?f" by (intro mult_mono) simp_all
    then have "rat_of_int (8 * second) \<le> rat_of_int b * ?f" by simp
    then have "8 * second \<le> \<lfloor>rat_of_int b * ?f\<rfloor>" by (simp only: le_floor_iff)
    moreover have "8 * second \<le> backoff_Max" by (simp add: backoff_Max_def second_def minute_def)
    ultimately show ?thesis by (simp add: backoff_jitter_def Some)
  qed
qed

lemma grown_backoff_range:
  assumes "old = 0 \<or> 8 * second \<le> old \<and> old \<le> backoff_Max"
  defines "b \<equiv> min (if old = 0 then backoff_Initial else \<lfloor>rat_of_int old * (3 / 2)\<rfloor>) backoff_Max"
  shows "10 * second \<le> b" "b \<le> backoff_Max"
proof -
  have "10 * second \<le> \<lfloor>rat_of_int old * (3 / 2)\<rfloor>" if "8 * second \<le> old"
  proof -
    have "rat_of_int (8 * second) \<le> rat_of_int old" using that by (simp only: of_int_le_iff)
    then have "rat_of_int (10 * second) \<le> rat_of_int old * (3 / 2)" by (simp add: second_def)
    then show ?thesis by (simp only: le_floor_iff)
  qed
  with assms(1) show "10 * second \<le> b" "b \<le> backoff_Max"
    unfolding b_def by (auto simp: backoff_Initial_def backoff_Max_def second_def minute_def)
qed

interpretation wb: delete_backoff Backoff_invar Backoff_deadline "\<lambda>k now b. ((Backoff_ShouldRetry k now b, 0), b)"
  Backoff_RecordSuccess "Backoff_RecordFailure draw" "8 * second" backoff_Max for draw
proof unfold_locales
  fix s k now
  assume inv: "Backoff_invar s"
  show "fst (fst ((Backoff_ShouldRetry k now s, 0), s)) \<longleftrightarrow> (case Backoff_deadline s k of None \<Rightarrow> True | Some d \<Rightarrow> d < now)"
    by (simp add: Backoff_ShouldRetry_def Backoff_deadline_def split: option.split)
  show "Backoff_deadline (snd ((Backoff_ShouldRetry k now s, 0), s)) = Backoff_deadline s" by simp
  show "Backoff_deadline (Backoff_RecordSuccess k s) = (Backoff_deadline s)(k := None)"
    by (auto simp: Backoff_RecordSuccess_def Backoff_deadline_def keyed_simps)
  show "Backoff_invar (snd ((Backoff_ShouldRetry k now s, 0), s))" using inv by simp
  show "Backoff_invar (Backoff_RecordSuccess k s)" using inv by (simp add: Backoff_invar_def Backoff_RecordSuccess_def keyed_simps)
next
  fix s k and now :: time
  assume inv: "Backoff_invar s" and now: "0 < now"
  define old where "old = (case keyedCache_Get k s of None \<Rightarrow> 0 | Some entry \<Rightarrow> be_backoff entry)"
  define b where "b = backoff_jitter draw (min (if old = 0 then backoff_Initial else \<lfloor>rat_of_int old * (3 / 2)\<rfloor>) backoff_Max)"
  have "old = 0 \<or> 8 * second \<le> old \<and> old \<le> backoff_Max"
    using inv by (auto simp: old_def Backoff_invar_def split: option.splits)
  note b = jitter_range [OF grown_backoff_range [OF this], of draw, folded b_def]
  have rec: "Backoff_RecordFailure draw k now s = keyedCache_Set k \<lparr>be_backoff = b, be_lastRecordedFailure = now\<rparr> s"
    by (simp add: Backoff_RecordFailure_def old_def b_def Let_def)
  have "Backoff_deadline (Backoff_RecordFailure draw k now s) = (Backoff_deadline s)(k \<mapsto> now + b)"
    using b(1) now by (auto simp: rec Backoff_deadline_def keyed_simps second_def)
  with b show "\<exists>d. Backoff_deadline (Backoff_RecordFailure draw k now s) = (Backoff_deadline s)(k \<mapsto> d) \<and>
      now + 8 * second \<le> d \<and> d \<le> now + backoff_Max" by auto
  show "Backoff_invar (Backoff_RecordFailure draw k now s)"
    using inv b by (auto simp: rec Backoff_invar_def keyed_simps)
qed

text \<open>
  After a failed start a worker is left alone for at least eight seconds and started again at the latest after five minutes,
  whatever the jitter and however often it failed before.
\<close>

theorem worker_backoff_window:
  assumes "Backoff_invar b" and "0 < t"
  shows "(now \<le> t + 8 * second \<longrightarrow> \<not> Backoff_ShouldRetry key now (Backoff_RecordFailure draw key t b)) \<and>
    (t + 5 * minute < now \<longrightarrow> Backoff_ShouldRetry key now (Backoff_RecordFailure draw key t b))"
  using wb.refused_after_failure [OF assms] wb.allowed_after_max_wait [OF assms] by (simp add: backoff_Max_def)

theorem worker_backoff_window_witness:
  "\<not> Backoff_ShouldRetry ''a'' (3 * second) (Backoff_RecordFailure (Some 5) ''a'' 1 []) \<and>
   Backoff_ShouldRetry ''a'' (6 * minute) (Backoff_RecordFailure (Some 5) ''a'' 1 [])"
  using worker_backoff_window [of "[]" 1 "3 * second" "''a''" "Some 5"] worker_backoff_window [of "[]" 1 "6 * minute" "''a''" "Some 5"]
  by (simp add: Backoff_invar_def keyedCache_Get_def second_def minute_def)

subsection \<open>Passes of a manager\<close>

lemma p_db_run: "p_db m s = (fst (m (ps_db s)), s\<lparr>ps_db := snd (m (ps_db s))\<rparr>)"
  and p_world_run: "p_world u s = (fst (u (ps_world s)), s\<lparr>ps_world := snd (u (ps_world s))\<rparr>)"
  by (simp_all add: p_db_def p_world_def m_lift_def case_prod_unfold)

definition status_update :: "InstanceStatus \<Rightarrow> string \<Rightarrow> UpdateInstanceParams" where
  "status_update st fault = empty_update\<lparr>uip_Status := st, uip_ProviderFault := fault\<rparr>"

lemma SetInstanceStatus_run:
  "provider_SetInstanceStatus n st fault force s =
     (case updateInstance n (status_update st fault) force (ps_db s) of
        (Inl e, d) \<Rightarrow> (Inl e, s\<lparr>ps_db := d\<rparr>) | (Inr _, d) \<Rightarrow> (Inr (), s\<lparr>ps_db := d\<rparr>))"
  by (simp add: provider_SetInstanceStatus_def status_update_def UpdateInstance_def ForceUpdateInstance_def m_seq_def m_bind_def Let_def
      p_db_run split: prod.split sum.split)


text \<open>The statuses from which a row may be moved to \<open>InstanceCreating\<close>.\<close>

definition creatable :: "InstanceStatus \<Rightarrow> bool" where
  "creatable st \<longleftrightarrow> st \<in> {InstancePendingCreate, InstanceCreating, InstanceStatusUnknown}"

lemma step_to_creating: "inst_step st InstanceCreating \<Longrightarrow> creatable st"
  by (cases st) (simp_all add: inst_step_iff creatable_def)

lemma refused_to_create:
  assumes "\<forall>row. List.find (instance_matches n) (db_instances d) = Some row \<longrightarrow> \<not> creatable (ir_Status row)"
  shows "\<exists>e d'. updateInstance n (status_update InstanceCreating fault) False d = (Inl e, d') \<and> db_instances d' = db_instances d"
proof -
  obtain r d' where run: "updateInstance n (status_update InstanceCreating fault) False d = (r, d')" by fastforce
  then show ?thesis
  proof (cases rule: updateInstance_effect)
    case (some i t addrs)
    then have "validate_update (status_update InstanceCreating fault) i = None" by simp
    from validate_update_None(1) [OF this] have "creatable (ir_Status i)"
      by (auto simp: status_update_def creatable_def dest: step_to_creating)
    with assms some(1) show ?thesis by blast
  qed (use run in simp)
qed

text \<open>
  (C26) A manager that still holds an instance as waiting for its creation, while the store already has it in a status from which
  it must not be created (or no longer has it), reports an error and asks the provider for nothing.
\<close>

theorem stale_create_refused:
  assumes "find_manager name (ps_worker s) = Some i" "im_running i" "i_Status (im_instance i) = InstancePendingCreate"
    and "\<forall>row. List.find (instance_matches (i_Name (im_instance i))) (db_instances (ps_db s)) = Some row \<longrightarrow> \<not> creatable (ir_Status row)"
  shows "\<exists>e d'. consolidateState env name canceled s = (Inl e, s\<lparr>ps_db := d'\<rparr>) \<and> db_instances d' = db_instances (ps_db s)"
proof -
  obtain e d' where "updateInstance (i_Name (im_instance i)) (status_update InstanceCreating []) False (ps_db s) = (Inl e, d')"
    "db_instances d' = db_instances (ps_db s)"
    using refused_to_create [OF assms(4)] by blast
  then have "consolidateState env name canceled s = (Inl e, s\<lparr>ps_db := d'\<rparr>)"
    using assms(1-3) by (simp add: consolidateState_def p_get_def create_pass_def SetInstanceStatus_run m_seq_def m_bind_def Let_def)
  with \<open>db_instances d' = _\<close> show ?thesis by blast
qed





lemma find_upd_manager:
  "find_manager name (upd_manager name f w) = map_option f (find_manager name w)"
  by (auto simp: find_manager_def upd_manager_def find_entry_def store_entry_def keyed_simps split: option.split)




subsection \<open>Deletions that end\<close>

text \<open>The store answers, and the row of a scale set's instance can be updated.\<close>

definition stored_instance :: "string \<Rightarrow> InstanceRow \<Rightarrow> db \<Rightarrow> bool" where
  "stored_instance n i d \<longleftrightarrow> db_faults d = [] \<and> keys_ok d \<and> List.find (instance_matches n) (db_instances d) = Some i \<and>
     ir_PoolID i = None \<and> ir_ScaleSetFkID i \<notin> {None, Some 0} \<and>
     (\<forall>j \<in> set (db_instances d). ir_ID j \<noteq> ir_ID i \<longrightarrow> ir_ProviderID i = None \<or> ir_ProviderID j \<noteq> ir_ProviderID i)"

lemma find_replaced_row:
  assumes "List.find P rows = Some i" "distinct (map ir_ID rows)" "P r"
  shows "List.find P (upd_rows (\<lambda>x. ir_ID x = ir_ID i) (\<lambda>_. r) rows) = Some r"
  using assms by (induction rows) (auto split: if_splits dest: find_SomeD)

lemma updateInstance_stored:
  assumes "stored_instance n i d" "uip_ProviderID p = []" "force \<or> validate_update p i = None"
  obtains inst r d' where "updateInstance n p force d = (Inr inst, d')" "stored_instance n r d'"
    "ir_Status r = ir_Status (applyInstanceUpdates p i)" "ir_ID r = ir_ID i"
proof -
  note st = assms(1) [unfolded stored_instance_def]
  let ?r = "(applyInstanceUpdates p i)\<lparr>ir_UpdatedAt := db_clock d,
    ir_Addresses := (if uip_Addresses p \<noteq> [] then uip_Addresses p else ir_Addresses (applyInstanceUpdates p i))\<rparr>"
  let ?d1 = "upd_instance (ir_ID i) (\<lambda>_. ?r) d"
  have r: "ir_ID ?r = ir_ID i" "ir_Name ?r = ir_Name i" "ir_PoolID ?r = None" "ir_ScaleSetFkID ?r = ir_ScaleSetFkID i"
    "ir_ProviderID (applyInstanceUpdates p i) = ir_ProviderID i"
    using st assms(2) by (simp_all add: applyInstanceUpdates_def)
  have save: "save_instance p (applyInstanceUpdates p i) d = (Inr (), ?d1)"
    using st r by (auto simp: save_instance_def)
  have tx: "db_tx (update_instance_tx n p force) d = (Inr (), ?d1)"
    using st save assms(3) by (auto simp: db_tx_nofault update_instance_tx_def m_bind_def m_query_def getInstance_def load_full_def)
  have m: "instance_matches n ?r"
    using find_SomeD [of "instance_matches n" "db_instances d" i] st r by (auto simp: instance_matches_def split: option.splits)
  have found: "List.find (instance_matches n) (db_instances ?d1) = Some ?r"
    using find_replaced_row [of "instance_matches n" "db_instances d" i ?r] st m by (simp add: upd_instance_def keys_ok_def)
  obtain k where k: "ir_ScaleSetFkID ?r = Some k" "k \<noteq> 0" using st r(4) by auto
  obtain inst where inst: "sqlToParamsInstance (load_full ?d1 ?r) = Inr inst"
    using k r(3) by (simp add: sqlToParamsInstance_def load_full_def Let_def)
  let ?d' = "snd (sendNotify InstanceEntityType UpdateOperation (InstancePayload inst) ?d1)"
  have run: "updateInstance n p force d = (Inr inst, ?d')"
    using tx found inst st
    by (simp add: updateInstance_def m_seq_def m_bind_def sendNotify_def getInstance_def upd_instance_def)
  have rows: "db_instances ?d' = db_instances ?d1" "db_faults ?d' = []" using st by (simp_all add: sendNotify_def upd_instance_def)
  have "keys_ok ?d'" using stepsD [OF store_updateInstance run] st by (simp add: store_step_def)
  moreover have "ir_ProviderID ?r = None \<or> ir_ProviderID j \<noteq> ir_ProviderID ?r" if "j \<in> set (db_instances ?d1)" "ir_ID j \<noteq> ir_ID ?r" for j
    using that st r by (auto simp: upd_instance_def elim!: upd_rowsE)
  ultimately have "stored_instance n ?r ?d'" using found k r(3) rows unfolding stored_instance_def by simp
  with run r(1) that show thesis by simp
qed

lemma SetInstanceStatus_stored:
  assumes "stored_instance n i (ps_db s)" "force \<or> ir_Status i = st \<or> inst_step (ir_Status i) st" "st \<noteq> InstanceStatusEmpty"
  obtains r d' where "provider_SetInstanceStatus n st fault force s = (Inr (), s\<lparr>ps_db := d'\<rparr>)" "stored_instance n r d'"
    "ir_Status r = st" "ir_ID r = ir_ID i"
proof -
  have prov: "uip_ProviderID (status_update st fault) = []" by (simp add: status_update_def empty_update_def)
  have "force \<or> validate_update (status_update st fault) i = None"
    using assms(2) validateInstance_accepts_iff [of "ir_Status i" st]
    by (auto simp: validate_update_def status_update_def empty_update_def validateAgentID_def validateRunnerStatusTransition_def)
  then obtain inst r d' where "updateInstance n (status_update st fault) force (ps_db s) = (Inr inst, d')" "stored_instance n r d'"
    "ir_Status r = ir_Status (applyInstanceUpdates (status_update st fault) i)" "ir_ID r = ir_ID i"
    by (rule updateInstance_stored [OF assms(1) prov])
  with that [of d' r] assms(3) show thesis by (simp add: SetInstanceStatus_run applyInstanceUpdates_def status_update_def)
qed

definition world_only :: "'w psys \<Rightarrow> 'w psys \<Rightarrow> bool" where
  "world_only s s' \<longleftrightarrow> ps_db s' = ps_db s \<and> ps_worker s' = ps_worker s"

interpretation wo: step_order world_only
  by unfold_locales (simp_all add: world_only_def)

lemma world_only_p_world: "steps world_only (p_world m)"
  by (rule stepsI) (simp add: world_only_def p_world_run)

lemma world_only_delete: "steps world_only (handleDeleteInstanceInProvider env i inst)"
  unfolding handleDeleteInstanceInProvider_def im_getProviderBaseParams_def im_provider_def
  by (intro wo.st_rules world_only_p_world)

lemma mark_deleted_run:
  assumes "stored_instance (i_Name inst) row (ps_db s)" "ir_Status row = InstanceDeleting"
  obtains r d' where "mark_deleted inst s = (Inr True, s\<lparr>ps_db := d'\<rparr>)" "stored_instance (i_Name inst) r d'"
    "ir_Status r = InstanceDeleted" "ir_ID r = ir_ID row"
proof -
  have "inst_step (ir_Status row) InstanceDeleted" using assms(2) by (simp add: inst_step_iff)
  then obtain r d' where "provider_SetInstanceStatus (i_Name inst) InstanceDeleted [] False s = (Inr (), s\<lparr>ps_db := d'\<rparr>)"
    "stored_instance (i_Name inst) r d'" "ir_Status r = InstanceDeleted" "ir_ID r = ir_ID row"
    using SetInstanceStatus_stored [OF assms(1), of False InstanceDeleted] by blast
  with that [of d' r] show thesis by (simp add: mark_deleted_def m_bind_def m_try_run)
qed

text \<open>
  (C25) When the store answers and the provider confirms the removal, or the removal is forced, one tick of the manager finishes it:
  the row of the instance is deleted, whatever status it had in the meantime, and the manager ends.
\<close>

theorem deletion_completes:
  assumes "find_manager name (ps_worker s) = Some i" "im_running i"
    and "i_Status (im_instance i) \<in> {InstancePendingDelete, InstanceDeleting, InstancePendingForceDelete}"
    and "stored_instance (i_Name (im_instance i)) row (ps_db s)"
    and "i_Status (im_instance i) = InstancePendingForceDelete \<or> (\<forall>t. \<exists>t'. handleDeleteInstanceInProvider env i (im_instance i) t = (Inr (), t'))"
  shows "let s' = snd (instanceManager_tick env name False s) in
    (\<exists>row'. List.find (instance_matches (i_Name (im_instance i))) (db_instances (ps_db s')) = Some row' \<and> ir_ID row' = ir_ID row \<and>
       ir_Status row' = InstanceDeleted) \<and>
    (\<exists>i'. find_manager name (ps_worker s') = Some i' \<and> \<not> im_running i')"
proof -
  let ?inst = "im_instance i"
  have pass: "consolidateState env name False s = delete_pass env name False i ?inst s"
    using assms(1-3) by (auto simp: consolidateState_def p_get_def)
  obtain r1 d1 where deleting: "provider_SetInstanceStatus (i_Name ?inst) InstanceDeleting [] True s = (Inr (), s\<lparr>ps_db := d1\<rparr>)"
    "stored_instance (i_Name ?inst) r1 d1" "ir_Status r1 = InstanceDeleting" "ir_ID r1 = ir_ID row"
    by (rule SetInstanceStatus_stored [OF assms(4), of True InstanceDeleting "[]"]) simp_all
  obtain d s2 where del: "handleDeleteInstanceInProvider env i ?inst (s\<lparr>ps_db := d1\<rparr>) = (d, s2)" by fastforce
  with stepsD [OF world_only_delete del] have s2: "ps_db s2 = d1" "ps_worker s2 = ps_worker s" by (simp_all add: world_only_def)
  with deleting have "stored_instance (i_Name ?inst) r1 (ps_db s2)" by simp
  then obtain r3 d3 where marked: "mark_deleted ?inst s2 = (Inr True, s2\<lparr>ps_db := d3\<rparr>)" "stored_instance (i_Name ?inst) r3 d3"
    "ir_Status r3 = InstanceDeleted" "ir_ID r3 = ir_ID r1"
    using mark_deleted_run deleting(3) by blast
  have forced: "d = Inr () \<or> i_Status ?inst = InstancePendingForceDelete"
    using assms(5) del by (metis fst_conv)
  have "delete_pass env name False i ?inst s = (Inr True, s2\<lparr>ps_db := d3\<rparr>)"
    using forced deleting(1) del marked(1)
    by (cases d) (auto simp: delete_pass_def Let_def m_bind_def m_try_run)
  then have "snd (instanceManager_tick env name False s) =
      s2\<lparr>ps_db := d3, ps_worker := upd_manager name instanceManager_Stop (ps_worker s)\<rparr>"
    by (simp add: instanceManager_tick_def m_bind_def m_try_run pass p_upd_def s2)
  with marked deleting(4) assms(1) show ?thesis
    by (simp add: Let_def find_upd_manager instanceManager_Stop_def stored_instance_def)
qed

subsection \<open>The instances of the worker\<close>

definition tracked :: "providerWorker \<Rightarrow> string set" where
  "tracked w = {name. find_entry name w \<noteq> None}"

text \<open>What a notification means for the instances a worker keeps.\<close>

definition track_event :: "ChangePayload \<Rightarrow> string set \<Rightarrow> string set" where
  "track_event ev T = (case (ev_EntityType ev, ev_Payload ev) of
     (InstanceEntityType, InstancePayload inst) \<Rightarrow>
       if i_ScaleSetID inst = 0 then T
       else if i_Status inst = InstanceDeleted \<and> ev_Operation ev \<noteq> CreateOperation then T - {i_Name inst}
       else if ev_Operation ev = DeleteOperation then T
       else insert (i_Name inst) T
   | _ \<Rightarrow> T)"







lemma tracked_simps [simp]:
  "tracked (store_entry n e w) = insert n (tracked w)"
  "tracked (delete_entry n w) = tracked w - {n}"
  "tracked (w\<lparr>pw_backoff := b\<rparr>) = tracked w"
  "tracked (w\<lparr>pw_scaleSets := c\<rparr>) = tracked w"
  "pw_scaleSets (store_entry n e w) = pw_scaleSets w" "pw_running (store_entry n e w) = pw_running w"
  "pw_scaleSets (delete_entry n w) = pw_scaleSets w" "pw_running (delete_entry n w) = pw_running w"
  by (auto simp: tracked_def find_entry_def store_entry_def delete_entry_def keyed_simps split: if_splits)















text \<open>The notification the store sends for a removed row carries no status, so it does not make the worker forget the instance.\<close>

lemma removed_row_stays_tracked:
  "track_event \<lparr>ev_EntityType = InstanceEntityType, ev_Operation = DeleteOperation, ev_Payload = InstancePayload (delete_notification row)\<rparr> T = T"
  by (simp add: track_event_def delete_notification_def zero_Instance_def)

subsection \<open>Examples\<close>

definition ex_scaleset_row :: "InstanceStatus \<Rightarrow> InstanceRow" where
  "ex_scaleset_row st = ex_instance\<lparr>ir_PoolID := None, ir_ScaleSetFkID := Some 7, ir_Status := st\<rparr>"

definition ex_scaleset_instance :: "InstanceStatus \<Rightarrow> Instance" where
  "ex_scaleset_instance st = zero_Instance\<lparr>i_Name := ''garm-one'', i_Status := st, i_ScaleSetID := 7\<rparr>"

definition ex_instance_manager :: "InstanceStatus \<Rightarrow> instanceManager" where
  "ex_instance_manager st = \<lparr>im_instance = ex_scaleset_instance st, im_scaleSet = ex_scaleset,
     im_scaleSetEntity = (ForgeEntityTypeRepository, ''r''), im_deleteBackoff = 0, im_running = True\<rparr>"

text \<open>The first status is the one the manager knows, the second the one of the store.\<close>

definition ex_psys :: "InstanceStatus \<Rightarrow> InstanceStatus \<Rightarrow> nat psys" where
  "ex_psys known stored = \<lparr>ps_db = ex_ss_db\<lparr>db_instances := [ex_scaleset_row stored]\<rparr>,
     ps_worker = \<lparr>pw_scaleSets = [(7, ex_scaleset)],
       pw_runners = [(''garm-one'', \<lparr>re_instance = ex_scaleset_instance known, re_manager = Some (ex_instance_manager known)\<rparr>)],
       pw_backoff = [], pw_scaleSetsLoaded = True, pw_runnersLoaded = True, pw_running = True\<rparr>,
     ps_view = \<lparr>pv_tools = (\<lambda>_. Inr []), pv_proxies = Map.empty, pv_controller = ex_controller\<rparr>, ps_lifecycle = [], ps_world = 0\<rparr>"

definition ex_p_env :: "(garm_error + unit) \<Rightarrow> nat p_env" where
  "ex_p_env deletion = \<lparr>pe_providers = (\<lambda>n. if n = ''lxd'' then Some \<lparr>sp_CreateInstance = (\<lambda>_ _ w. (Inl ProviderError, w + 1)),
       sp_DeleteInstance = (\<lambda>_ _ w. (deletion, w + 1))\<rparr> else None),
     pe_ControllerInfo = m_ret ex_controller, pe_GetForgeEntity = (\<lambda>_ _. m_ret ex_forge_entity),
     pe_NewInstanceJWTToken = (\<lambda>_ _ _. m_ret ''token''), pe_HasInstallTemplate = (\<lambda>_. Inr True),
     pe_CombineBundles = (\<lambda>a b. Inr (a @ b)), pe_AddWrapper = (\<lambda>b. b), pe_PseudoPoolID = (\<lambda>e n. e),
     pe_error_text = (\<lambda>_. ''failed''), pe_rand = (\<lambda>w. (None, w))\<rparr>"

lemma ex_psys_simps [simp]:
  "find_manager ''garm-one'' (ps_worker (ex_psys known stored)) = Some (ex_instance_manager known)"
  "im_running (ex_instance_manager known)" "im_deleteBackoff (ex_instance_manager known) = 0"
  "i_Status (im_instance (ex_instance_manager known)) = known" "i_Name (im_instance (ex_instance_manager known)) = ''garm-one''"
  "db_instances (ps_db (ex_psys known stored)) = [ex_scaleset_row stored]" "ps_world (ex_psys known stored) = 0"
  "pw_running (ps_worker (ex_psys known stored))" "tracked (ps_worker (ex_psys known stored)) = {''garm-one''}"
  by (simp_all add: ex_psys_def ex_instance_manager_def ex_scaleset_instance_def find_manager_def find_entry_def keyedCache_Get_def tracked_def)

lemma ex_scaleset_row_simps [simp]:
  "instance_matches ''garm-one'' (ex_scaleset_row st)" "ir_Status (ex_scaleset_row st) = st" "ir_ID (ex_scaleset_row st) = 2"
  by (simp_all add: ex_scaleset_row_def instance_matches_def ex_instance_def)

lemma ex_scaleset_provider: "ss_ProviderName (im_scaleSet (ex_instance_manager st)) = ''lxd''" "ss_ProviderName ex_scaleset = ''lxd''"
proof -
  show "ss_ProviderName ex_scaleset = ''lxd''" by code_simp
  then show "ss_ProviderName (im_scaleSet (ex_instance_manager st)) = ''lxd''" by (simp add: ex_instance_manager_def)
qed

lemma ex_stored: "stored_instance ''garm-one'' (ex_scaleset_row st) (ps_db (ex_psys known st))"
  by (simp add: stored_instance_def keys_ok_def) (simp add: ex_psys_def ex_ss_db_def ex_scaleset_row_def)

theorem stale_create_refused_witness:
  "ps_world (snd (consolidateState (ex_p_env (Inr ())) ''garm-one'' False (ex_psys InstancePendingCreate InstancePendingDelete))) = 0"
proof -
  let ?s = "ex_psys InstancePendingCreate InstancePendingDelete"
  obtain e d' where "consolidateState (ex_p_env (Inr ())) ''garm-one'' False ?s = (Inl e, ?s\<lparr>ps_db := d'\<rparr>)"
    using stale_create_refused [of "''garm-one''" ?s "ex_instance_manager InstancePendingCreate" "ex_p_env (Inr ())" False]
    by (auto simp: creatable_def)
  then show ?thesis by simp
qed


theorem deletion_completes_witness:
  "\<exists>row. List.find (instance_matches ''garm-one'') (db_instances (ps_db (snd (instanceManager_tick (ex_p_env (Inr ())) ''garm-one'' False
     (ex_psys InstancePendingDelete InstancePendingForceDelete))))) = Some row \<and> ir_ID row = 2 \<and> ir_Status row = InstanceDeleted"
proof -
  let ?s = "ex_psys InstancePendingDelete InstancePendingForceDelete" and ?env = "ex_p_env (Inr ())"
    and ?i = "ex_instance_manager InstancePendingDelete"
  have "\<exists>t'. handleDeleteInstanceInProvider ?env ?i (im_instance ?i) t = (Inr (), t')" for t
    by (simp add: handleDeleteInstanceInProvider_def im_getProviderBaseParams_def im_provider_def ex_scaleset_provider option_or_def
        m_bind_def p_world_run ex_p_env_def)
  with deletion_completes [of "''garm-one''" ?s ?i "ex_scaleset_row InstancePendingForceDelete" ?env] ex_stored
  show ?thesis by (simp add: Let_def)
qed


end
