(* ===== verification/Garm_Controllers.thy ===== *)
theory Garm_Controllers
  imports Garm_Provider
begin

text \<open>
  The controllers above the workers of scale sets: the scale set controller of an entity (\<^verbatim>\<open>workers/scaleset/controller.go\<close>,
  \<^verbatim>\<open>controller_watcher.go\<close>) keeps a worker for every scale set; the entity worker (\<^verbatim>\<open>workers/entity/worker.go\<close>,
  \<^verbatim>\<open>worker_watcher.go\<close>) owns the forge client and that controller; the entity controller (\<^verbatim>\<open>workers/entity/controller.go\<close>,
  \<^verbatim>\<open>controller_watcher.go\<close>) keeps a worker for every entity. A worker is started by the retry loop of its controller, never by
  a notification.

  A program of a scale set worker runs on the part of the state it sees (\<open>with_worker\<close>), and so does a program of a scale set
  controller (\<open>run_controller\<close>). A loop over a \<^verbatim>\<open>sync.Map\<close> visits the keys it has when the loop starts. The queue between the
  watcher and a handler is left out: an event is handled when it is delivered.
\<close>

subsection \<open>The scale set controller\<close>

record scaleSetEntry =
  sx_scaleSet :: ScaleSet
  sx_worker :: "scaleSetWorker option"

record scaleSetController =
  sc_Entity :: ForgeEntity
  sc_ScaleSets :: "(nat, scaleSetEntry) keyedCache"
  sc_backoff :: Backoff
  sc_running :: bool
  sc_filters :: "PayloadFilterFunc option"

record 'w csys =
  ct_db :: db
  ct_controller :: scaleSetController
  ct_locks :: keyMutex
  ct_view :: ssView
  ct_lifecycle :: "string list"
  ct_world :: 'w

text \<open>The providers with the requests to the forge, the tables of controller and entities; what the watcher answers when a
  consumer registers.\<close>

record 'w c_env =
  cn_providers :: "string \<Rightarrow> 'w ss_env option"
  cn_ControllerInfo :: "('w, ControllerInfo) prog"
  cn_GetForgeEntity :: "ForgeEntityType \<Rightarrow> string \<Rightarrow> ('w, ForgeEntity) prog"
  cn_PseudoPoolID :: "string \<Rightarrow> nat \<Rightarrow> string"
  cn_Registered :: "string \<Rightarrow> garm_error + unit"
  cn_rand :: "'w \<Rightarrow> nat option \<times> 'w"

definition c_db :: "(db, 'a) prog \<Rightarrow> ('w csys, 'a) prog" where
  "c_db = m_lift ct_db (\<lambda>d s. s\<lparr>ct_db := d\<rparr>)"

definition c_world :: "('w, 'a) prog \<Rightarrow> ('w csys, 'a) prog" where
  "c_world = m_lift ct_world (\<lambda>w s. s\<lparr>ct_world := w\<rparr>)"

definition c_upd :: "(scaleSetController \<Rightarrow> scaleSetController) \<Rightarrow> ('w csys, unit) prog" where
  "c_upd f = m_modify (\<lambda>s. s\<lparr>ct_controller := f (ct_controller s)\<rparr>)"

definition c_get :: "(scaleSetController \<Rightarrow> 'a) \<Rightarrow> ('w csys, 'a) prog" where
  "c_get f = m_get (\<lambda>s. f (ct_controller s))"

definition find_scaleSet :: "nat \<Rightarrow> scaleSetController \<Rightarrow> scaleSetEntry option" where
  "find_scaleSet k c = keyedCache_Get k (sc_ScaleSets c)"

definition store_scaleSet :: "nat \<Rightarrow> scaleSetEntry \<Rightarrow> scaleSetController \<Rightarrow> scaleSetController" where
  "store_scaleSet k e c = c\<lparr>sc_ScaleSets := keyedCache_Set k e (sc_ScaleSets c)\<rparr>"

definition delete_scaleSet :: "nat \<Rightarrow> scaleSetController \<Rightarrow> scaleSetController" where
  "delete_scaleSet k c = c\<lparr>sc_ScaleSets := keyedCache_Delete k (sc_ScaleSets c)\<rparr>"

definition scaleSet_SetWorker :: "nat \<Rightarrow> scaleSetWorker \<Rightarrow> scaleSetController \<Rightarrow> scaleSetController" where
  "scaleSet_SetWorker k w c = (case find_scaleSet k c of None \<Rightarrow> c | Some e \<Rightarrow> store_scaleSet k (e\<lparr>sx_worker := Some w\<rparr>) c)"

definition find_worker :: "nat \<Rightarrow> scaleSetController \<Rightarrow> scaleSetWorker option" where
  "find_worker k c = (case find_scaleSet k c of None \<Rightarrow> None | Some e \<Rightarrow> sx_worker e)"

definition worker_running :: "nat \<Rightarrow> scaleSetController \<Rightarrow> bool" where
  "worker_running k c = (case find_worker k c of None \<Rightarrow> False | Some w \<Rightarrow> wk_running w)"

text \<open>A program of the worker of a scale set. Its provider is the one the scale set names: neither changes.\<close>

definition with_worker :: "'w c_env \<Rightarrow> nat \<Rightarrow> ('w ss_env \<Rightarrow> ('w ssys, unit) prog) \<Rightarrow> ('w csys, unit) prog" where
  "with_worker env k m s = (case find_worker k (ct_controller s) of
     None \<Rightarrow> (Inr (), s)
   | Some w \<Rightarrow> (case cn_providers env (ss_ProviderName (wk_scaleSet w)) of
       None \<Rightarrow> (Inr (), s)
     | Some senv \<Rightarrow> (case m senv \<lparr>sk_db = ct_db s, sk_worker = w, sk_locks = ct_locks s, sk_view = ct_view s,
           sk_lifecycle = ct_lifecycle s, sk_world = ct_world s\<rparr> of
         (r, t) \<Rightarrow> (r, s\<lparr>ct_db := sk_db t, ct_controller := scaleSet_SetWorker k (sk_worker t) (ct_controller s), ct_locks := sk_locks t,
           ct_view := sk_view t, ct_lifecycle := sk_lifecycle t, ct_world := sk_world t\<rparr>))))"

definition scaleSetBackoffKey :: "ScaleSet \<Rightarrow> string" where
  "scaleSetBackoffKey sSet = (if ss_GitHubRunnerGroup sSet = [] then ''Default'' else ss_GitHubRunnerGroup sSet) @ '':'' @ nat_dec (ss_ID sSet)"

definition c_record_failure :: "'w c_env \<Rightarrow> string \<Rightarrow> ('w csys, unit) prog" where
  "c_record_failure env key = m_bind (c_world (\<lambda>w. case cn_rand env w of (n, w') \<Rightarrow> (Inr n, w'))) (\<lambda>draw.
     m_bind (m_get (\<lambda>s. db_clock (ct_db s))) (\<lambda>now.
       c_upd (\<lambda>c. c\<lparr>sc_backoff := Backoff_RecordFailure draw key now (sc_backoff c)\<rparr>)))"

definition c_record_success :: "string \<Rightarrow> ('w csys, unit) prog" where
  "c_record_success key = c_upd (\<lambda>c. c\<lparr>sc_backoff := Backoff_RecordSuccess key (sc_backoff c)\<rparr>)"

subsection \<open>Workers of scale sets\<close>

definition newScaleSetWorker :: "'w c_env \<Rightarrow> ScaleSet \<Rightarrow> ('w csys, scaleSetWorker) prog" where
  "newScaleSetWorker env scaleSet = m_bind (c_world (cn_ControllerInfo env)) (\<lambda>info.
     m_bind (m_result (ScaleSet_GetEntity scaleSet)) (\<lambda>(ty, eid).
     m_bind (c_world (cn_GetForgeEntity env ty eid)) (\<lambda>entity.
       m_ret \<lparr>wk_consumerID = ''scaleset-worker-'' @ ss_Name scaleSet @ ''-'' @ nat_dec (ss_ID scaleSet), wk_controllerInfo = info,
         wk_scaleSet = scaleSet, wk_entity = entity, wk_runners = [], wk_pseudoPoolID = cn_PseudoPoolID env eid (ss_ID scaleSet),
         wk_legacyPoolIDDrained = False, wk_running = False, wk_authFailed = False, wk_authFailedCli = None, wk_authFailureAt = 0,
         wk_scalingPauseReason = NotPaused, wk_listener = \<lparr>li_lastMessageID = 0, li_running = False, li_retryAfterUnauthorized = False\<rparr>\<rparr>)))"

definition createScaleSetWorker :: "'w c_env \<Rightarrow> ScaleSet \<Rightarrow> ('w csys, scaleSetWorker) prog" where
  "createScaleSetWorker env scaleSet = (case cn_providers env (ss_ProviderName scaleSet) of
     None \<Rightarrow> m_throw (OtherError ''provider not found for scale set'')
   | Some _ \<Rightarrow> newScaleSetWorker env scaleSet)"

definition scaleSet_Stop :: "'w c_env \<Rightarrow> nat \<Rightarrow> ('w csys, unit) prog" where
  "scaleSet_Stop env k = with_worker env k scaleSetWorker_Stop"

definition handleScaleSetCreateOperation :: "'w c_env \<Rightarrow> ScaleSet \<Rightarrow> ('w csys, unit) prog" where
  "handleScaleSetCreateOperation env sSet = m_bind (c_get (find_scaleSet (ss_ID sSet))) (\<lambda>found. if found \<noteq> None then m_ret ()
     else m_bind (m_try (createScaleSetWorker env sSet)) (\<lambda>r. case r of
       Inl e \<Rightarrow> m_seq (c_upd (store_scaleSet (ss_ID sSet) \<lparr>sx_scaleSet = sSet, sx_worker = None\<rparr>))
         (m_seq (c_record_failure env (scaleSetBackoffKey sSet)) (m_throw e))
     | Inr worker \<Rightarrow> c_upd (store_scaleSet (ss_ID sSet) \<lparr>sx_scaleSet = sSet, sx_worker = Some worker\<rparr>)))"

definition handleScaleSetDeleteOperation :: "'w c_env \<Rightarrow> ScaleSet \<Rightarrow> ('w csys, unit) prog" where
  "handleScaleSetDeleteOperation env sSet = m_bind (c_get (find_scaleSet (ss_ID sSet))) (\<lambda>found. if found = None then m_ret ()
     else m_seq (scaleSet_Stop env (ss_ID sSet))
       (m_seq (c_upd (delete_scaleSet (ss_ID sSet))) (c_record_success (scaleSetBackoffKey sSet))))"

definition handleScaleSetUpdateOperation :: "'w c_env \<Rightarrow> ScaleSet \<Rightarrow> ('w csys, unit) prog" where
  "handleScaleSetUpdateOperation env sSet = m_bind (c_get id) (\<lambda>c. case find_scaleSet (ss_ID sSet) c of
     None \<Rightarrow> handleScaleSetCreateOperation env sSet
   | Some set0 \<Rightarrow>
     m_bind (if worker_running (ss_ID sSet) c then m_ret (sx_worker set0)
       else m_bind (m_try (createScaleSetWorker env sSet)) (\<lambda>r. case r of
         Inl e \<Rightarrow> m_seq (c_record_failure env (scaleSetBackoffKey sSet)) (m_throw e)
       | Inr worker \<Rightarrow> m_seq (c_record_success (scaleSetBackoffKey sSet)) (m_ret (Some worker)))) (\<lambda>worker.
     c_upd (store_scaleSet (ss_ID sSet) \<lparr>sx_scaleSet = sSet, sx_worker = worker\<rparr>)))"

definition controller_handleScaleSet :: "'w c_env \<Rightarrow> ScaleSet \<Rightarrow> OperationType \<Rightarrow> ('w csys, unit) prog" where
  "controller_handleScaleSet env scaleSet op0 = m_ignore (case op0 of
     CreateOperation \<Rightarrow> handleScaleSetCreateOperation env scaleSet
   | UpdateOperation \<Rightarrow> handleScaleSetUpdateOperation env scaleSet
   | DeleteOperation \<Rightarrow> handleScaleSetDeleteOperation env scaleSet)"

definition controller_handleEntityEvent :: "payload \<Rightarrow> OperationType \<Rightarrow> ('w csys, unit) prog" where
  "controller_handleEntityEvent payload op0 = m_bind (c_get (\<lambda>c. e_EntityType (sc_Entity c))) (\<lambda>ty.
     case (case (ty, payload) of
         (ForgeEntityTypeRepository, RepositoryPayload e) \<Rightarrow> Some (entity_with_id e)
       | (ForgeEntityTypeOrganization, OrganizationPayload e) \<Rightarrow> Some (entity_with_id e)
       | (ForgeEntityTypeEnterprise, EnterprisePayload e) \<Rightarrow> Some (entity_with_id e)
       | _ \<Rightarrow> None) of
       Some (Inr entity) \<Rightarrow> m_when (op0 = UpdateOperation) (c_upd (\<lambda>c. c\<lparr>sc_Entity := entity\<rparr>))
     | _ \<Rightarrow> m_ret ())"

definition controller_handleWatcherEvent :: "'w c_env \<Rightarrow> ChangePayload \<Rightarrow> ('w csys, unit) prog" where
  "controller_handleWatcherEvent env ev = m_bind (c_get id) (\<lambda>c. if \<not> sc_running c then m_ret ()
     else if ev_EntityType ev = ScaleSetEntityType
     then (case ev_Payload ev of ScaleSetPayload scaleSet \<Rightarrow> controller_handleScaleSet env scaleSet (ev_Operation ev) | _ \<Rightarrow> m_ret ())
     else if db_entity_string (ev_EntityType ev) = forge_entity_string (e_EntityType (sc_Entity c))
     then controller_handleEntityEvent (ev_Payload ev) (ev_Operation ev)
     else m_ret ())"

subsection \<open>Life cycle of the scale set controller\<close>

definition composeScaleSetControllerFilters :: "ForgeEntity \<Rightarrow> PayloadFilterFunc" where
  "composeScaleSetControllerFilters entity = WithAny [
     WithAll [WithEntityScaleSetFilter entity, WithAny [WithOperationTypeFilter CreateOperation,
       WithOperationTypeFilter UpdateOperation, WithOperationTypeFilter DeleteOperation]],
     WithAll [WithEntityFilter entity, WithOperationTypeFilter UpdateOperation]]"

definition newScaleSetController :: "ForgeEntity \<Rightarrow> scaleSetController" where
  "newScaleSetController entity = \<lparr>sc_Entity = entity, sc_ScaleSets = [], sc_backoff = [], sc_running = False, sc_filters = None\<rparr>"

definition controller_loadAllScaleSets :: "'w c_env \<Rightarrow> ('w csys, unit) prog" where
  "controller_loadAllScaleSets env = m_bind (c_get sc_Entity) (\<lambda>entity. m_bind (c_db (ListEntityScaleSets entity))
     (m_for (\<lambda>sSet. m_ignore (handleScaleSetCreateOperation env sSet))))"

definition scaleSetController_Start :: "'w c_env \<Rightarrow> ('w csys, unit) prog" where
  "scaleSetController_Start env = m_bind (c_get id) (\<lambda>c. if sc_running c then m_ret ()
     else m_bind (m_result (GetForgeType (sc_Entity c))) (\<lambda>forgeType.
       m_seq (m_when (forgeType = GithubEndpointType) (controller_loadAllScaleSets env))
       (m_seq (m_result (cn_Registered env (''scaleset-controller-'' @ e_ID (sc_Entity c))))
       (c_upd (\<lambda>c. c\<lparr>sc_running := True, sc_filters := Some (composeScaleSetControllerFilters (sc_Entity c))\<rparr>)))))"

definition stop_and_delete_scaleSet :: "'w c_env \<Rightarrow> nat \<Rightarrow> ('w csys, unit) prog" where
  "stop_and_delete_scaleSet env k = m_bind (m_try (scaleSet_Stop env k)) (\<lambda>r. m_when (r = Inr ()) (c_upd (delete_scaleSet k)))"

definition scaleSetController_Stop :: "'w c_env \<Rightarrow> ('w csys, unit) prog" where
  "scaleSetController_Stop env = m_bind (c_get id) (\<lambda>c. if \<not> sc_running c then m_ret ()
     else m_seq (m_for (stop_and_delete_scaleSet env) (map fst (sc_ScaleSets c)))
       (c_upd (\<lambda>c. c\<lparr>sc_running := False, sc_filters := None\<rparr>)))"

definition ConsolidateRunnerState :: "'w c_env \<Rightarrow> time \<Rightarrow> (int \<Rightarrow> RunnerReference list) \<Rightarrow> ('w csys, unit) prog" where
  "ConsolidateRunnerState env listedAt byScaleSetID = m_bind (c_get id) (\<lambda>c.
     m_group (\<lambda>(k, set0). with_worker env k (\<lambda>senv. consolidateRunnerState senv listedAt (byScaleSetID (ss_ScaleSetID (sx_scaleSet set0)))))
       (filter (\<lambda>(k, _). worker_running k c) (sc_ScaleSets c)))"

definition retry_scaleSet :: "'w c_env \<Rightarrow> nat \<Rightarrow> ('w csys, unit) prog" where
  "retry_scaleSet env k = m_bind (m_get (\<lambda>s. (ct_controller s, db_clock (ct_db s)))) (\<lambda>(c, now). case find_scaleSet k c of None \<Rightarrow> m_ret ()
   | Some set0 \<Rightarrow> let backoffKey = scaleSetBackoffKey (sx_scaleSet set0) in
     if worker_running k c then m_ret ()
     else if \<not> Backoff_ShouldRetry backoffKey now (sc_backoff c) then m_ret ()
     else m_bind (case sx_worker set0 of Some w \<Rightarrow> m_ret (Inr ())
         | None \<Rightarrow> m_try (m_bind (createScaleSetWorker env (sx_scaleSet set0)) (\<lambda>w. c_upd (scaleSet_SetWorker k w)))) (\<lambda>created. case created of
       Inl _ \<Rightarrow> c_record_failure env backoffKey
     | Inr _ \<Rightarrow> m_bind (m_try (with_worker env k (\<lambda>senv. m_bind (get_worker wk_consumerID) (\<lambda>i.
           scaleSetWorker_Start senv (cn_Registered env i))))) (\<lambda>r. case r of
         Inl _ \<Rightarrow> c_record_failure env backoffKey
       | Inr _ \<Rightarrow> c_record_success backoffKey)))"

definition retryFailedScaleSets :: "'w c_env \<Rightarrow> ('w csys, unit) prog" where
  "retryFailedScaleSets env = m_bind (m_get id) (\<lambda>s. if \<not> sc_running (ct_controller s) then m_ret ()
     else if fst (ss_RateLimitExhausted (ct_view s) (db_clock (ct_db s))) then m_ret ()
     else m_for (retry_scaleSet env) (map fst (sc_ScaleSets (ct_controller s))))"


subsection \<open>The entity worker\<close>

text \<open>\<open>ew_filters\<close> is what the consumer of the worker lets through, \<open>None\<close> without a consumer; \<open>ew_ghCli\<close> tells the forge clients apart.\<close>

record entityWorker =
  ew_Entity :: ForgeEntity
  ew_ghCli :: "nat option"
  ew_scaleSetController :: "scaleSetController option"
  ew_filters :: "PayloadFilterFunc option"
  ew_running :: bool

record entityController =
  ec_Entities :: "(string, entityWorker) keyedCache"
  eco_backoff :: Backoff
  eco_running :: bool

record 'w esys =
  es_db :: db
  es_controller :: entityController
  es_locks :: keyMutex
  es_views :: "string \<Rightarrow> ssView"
  es_lifecycle :: "string list"
  es_world :: 'w

record 'w e_env =
  en_controller :: "'w c_env"
  en_Client :: "ForgeEntity \<Rightarrow> ('w, nat) prog"
  en_NewScaleSetClient :: "nat option \<Rightarrow> ('w, unit) prog"
  en_ListAllRunners :: "('w, RunnerReference list) prog"
  en_AddEntityEvent :: "ForgeEntity \<Rightarrow> string \<Rightarrow> ('w, unit) prog"
  en_ListEnterprises :: "('w, ForgeEntity list) prog"
  en_ListOrganizations :: "('w, ForgeEntity list) prog"
  en_ListRepositories :: "('w, ForgeEntity list) prog"

definition e_world :: "('w, 'a) prog \<Rightarrow> ('w esys, 'a) prog" where
  "e_world = m_lift es_world (\<lambda>w s. s\<lparr>es_world := w\<rparr>)"

definition e_upd :: "(entityController \<Rightarrow> entityController) \<Rightarrow> ('w esys, unit) prog" where
  "e_upd f = m_modify (\<lambda>s. s\<lparr>es_controller := f (es_controller s)\<rparr>)"

definition e_get :: "(entityController \<Rightarrow> 'a) \<Rightarrow> ('w esys, 'a) prog" where
  "e_get f = m_get (\<lambda>s. f (es_controller s))"

definition find_entity :: "string \<Rightarrow> entityController \<Rightarrow> entityWorker option" where
  "find_entity k c = keyedCache_Get k (ec_Entities c)"

definition store_entity :: "string \<Rightarrow> entityWorker \<Rightarrow> entityController \<Rightarrow> entityController" where
  "store_entity k w c = c\<lparr>ec_Entities := keyedCache_Set k w (ec_Entities c)\<rparr>"

definition upd_entity :: "string \<Rightarrow> (entityWorker \<Rightarrow> entityWorker) \<Rightarrow> ('w esys, unit) prog" where
  "upd_entity k f = e_upd (\<lambda>c. case find_entity k c of None \<Rightarrow> c | Some w \<Rightarrow> store_entity k (f w) c)"

definition entity_running :: "string \<Rightarrow> entityController \<Rightarrow> bool" where
  "entity_running k c = (case find_entity k c of None \<Rightarrow> False | Some w \<Rightarrow> ew_running w)"

text \<open>A program of a scale set controller of the entity \<open>k\<close>; the controller it leaves is returned beside its result.\<close>

definition run_controller :: "string \<Rightarrow> scaleSetController \<Rightarrow> ('w csys, unit) prog \<Rightarrow> ('w esys, (garm_error + unit) \<times> scaleSetController) prog" where
  "run_controller k c m s = (case m \<lparr>ct_db = es_db s, ct_controller = c, ct_locks = es_locks s, ct_view = es_views s k,
       ct_lifecycle = es_lifecycle s, ct_world = es_world s\<rparr> of
     (r, t) \<Rightarrow> (Inr (r, ct_controller t), s\<lparr>es_db := ct_db t, es_locks := ct_locks t, es_views := (es_views s)(k := ct_view t),
       es_lifecycle := ct_lifecycle t, es_world := ct_world t\<rparr>))"

text \<open>\<^verbatim>\<open>cache.SetGithubClient\<close>.\<close>

definition SetGithubClient :: "string \<Rightarrow> nat \<Rightarrow> ('w esys, unit) prog" where
  "SetGithubClient entityID cli = m_modify (\<lambda>s. s\<lparr>es_views := (es_views s)(entityID := (es_views s entityID)\<lparr>sv_client := Some cli\<rparr>)\<rparr>)"

definition composeWorkerWatcherFilters :: "ForgeEntity \<Rightarrow> PayloadFilterFunc" where
  "composeWorkerWatcherFilters entity = WithAny [
     WithAll [WithEntityFilter entity, WithOperationTypeFilter UpdateOperation],
     WithAll [WithForgeCredentialsFilter (e_Credentials entity), WithOperationTypeFilter UpdateOperation]]"

definition newEntityWorker :: "ForgeEntity \<Rightarrow> entityWorker" where
  "newEntityWorker entity = \<lparr>ew_Entity = entity, ew_ghCli = None, ew_scaleSetController = None, ew_filters = None, ew_running = False\<rparr>"

definition addStatusEvent :: "'w e_env \<Rightarrow> ForgeEntity \<Rightarrow> string \<Rightarrow> ('w esys, unit) prog" where
  "addStatusEvent env entity level = m_ignore (e_world (en_AddEntityEvent env entity level))"

definition with_entity :: "string \<Rightarrow> (entityWorker \<Rightarrow> ('w esys, unit) prog) \<Rightarrow> ('w esys, unit) prog" where
  "with_entity k f = m_bind (e_get (find_entity k)) (\<lambda>w. case w of None \<Rightarrow> m_ret () | Some w \<Rightarrow> f w)"

definition stop_controller :: "'w e_env \<Rightarrow> string \<Rightarrow> ('w esys, unit) prog" where
  "stop_controller env k = with_entity k (\<lambda>w. case ew_scaleSetController w of None \<Rightarrow> m_ret ()
     | Some c \<Rightarrow> m_bind (run_controller k c (scaleSetController_Stop (en_controller env))) (\<lambda>(r, c').
         m_seq (upd_entity k (\<lambda>w. w\<lparr>ew_scaleSetController := Some c'\<rparr>)) (m_result r)))"

definition entityWorker_Start :: "'w e_env \<Rightarrow> string \<Rightarrow> ('w esys, unit) prog" where
  "entityWorker_Start env k = with_entity k (\<lambda>w. if ew_running w then m_ret ()
     else m_bind (m_result (GetForgeType (ew_Entity w))) (\<lambda>epType.
       if epType \<noteq> GithubEndpointType then upd_entity k (\<lambda>w. w\<lparr>ew_running := True\<rparr>)
       else m_bind (e_world (en_Client env (ew_Entity w))) (\<lambda>ghCli.
         m_seq (upd_entity k (\<lambda>w. w\<lparr>ew_ghCli := Some ghCli\<rparr>))
         (m_seq (SetGithubClient (e_ID (ew_Entity w)) ghCli)
         (m_bind (run_controller k (newScaleSetController (ew_Entity w)) (scaleSetController_Start (en_controller env))) (\<lambda>(r, c).
          case r of Inl e \<Rightarrow> m_throw e
          | Inr _ \<Rightarrow> m_seq (upd_entity k (\<lambda>w. w\<lparr>ew_scaleSetController := Some c\<rparr>))
            (case cn_Registered (en_controller env) (''entity-worker-'' @ e_ID (ew_Entity w)) of
               Inl e \<Rightarrow> m_seq (m_ignore (stop_controller env k)) (m_throw e)
             | Inr _ \<Rightarrow> upd_entity k (\<lambda>w. w\<lparr>ew_filters := Some (composeWorkerWatcherFilters (ew_Entity w)), ew_running := True\<rparr>))))))))"

definition entityWorker_Stop :: "'w e_env \<Rightarrow> string \<Rightarrow> ('w esys, unit) prog" where
  "entityWorker_Stop env k = with_entity k (\<lambda>w. if \<not> ew_running w then m_ret ()
     else m_seq (stop_controller env k) (upd_entity k (\<lambda>w. w\<lparr>ew_running := False, ew_filters := None\<rparr>)))"

definition poolIDLabelprefix :: string where "poolIDLabelprefix = ''runner-pool-id:''"

definition entity_poolIDFromLabels :: "RunnerReference \<Rightarrow> string" where
  "entity_poolIDFromLabels runner = (case List.find (\<lambda>l. take (length poolIDLabelprefix) l = poolIDLabelprefix) (rf_Labels runner) of
     None \<Rightarrow> [] | Some l \<Rightarrow> drop (length poolIDLabelprefix) l)"

text \<open>The runners of the forge by scale set; those of pools are sorted out and not used.\<close>

definition byScaleSetID :: "RunnerReference list \<Rightarrow> int \<Rightarrow> RunnerReference list" where
  "byScaleSetID runners n = filter (\<lambda>r. rf_RunnerScaleSetID r \<noteq> 0 \<and> rf_RunnerScaleSetID r = n) runners"

definition entityWorker_consolidateRunnerState :: "'w e_env \<Rightarrow> string \<Rightarrow> ('w esys, unit) prog" where
  "entityWorker_consolidateRunnerState env k = with_entity k (\<lambda>w.
     m_seq (e_world (en_NewScaleSetClient env (ew_ghCli w)))
     (m_bind (m_get (\<lambda>s. db_clock (es_db s))) (\<lambda>listedAt.
      m_bind (e_world (en_ListAllRunners env)) (\<lambda>runners. case ew_scaleSetController w of None \<Rightarrow> m_ret ()
       | Some c \<Rightarrow> m_bind (run_controller k c (ConsolidateRunnerState (en_controller env) listedAt (byScaleSetID runners))) (\<lambda>(r, c').
           m_seq (upd_entity k (\<lambda>w. w\<lparr>ew_scaleSetController := Some c'\<rparr>)) (m_result r))))))"

definition consolidateRunnerLoop_turn :: "'w e_env \<Rightarrow> string \<Rightarrow> ('w esys, unit) prog" where
  "consolidateRunnerLoop_turn env k = with_entity k (\<lambda>w. m_bind (m_get (\<lambda>s. ss_RateLimitReached (es_views s (e_ID (ew_Entity w))) (db_clock (es_db s))))
     (\<lambda>(limited, _). if limited then m_ret ()
       else m_bind (m_try (entityWorker_consolidateRunnerState env k)) (\<lambda>r. case r of
         Inr _ \<Rightarrow> m_ret () | Inl _ \<Rightarrow> addStatusEvent env (ew_Entity w) ''error'')))"

definition handleEntityEventPayload :: "'w e_env \<Rightarrow> string \<Rightarrow> payload \<Rightarrow> OperationType \<Rightarrow> ('w esys, unit) prog" where
  "handleEntityEventPayload env k payload op0 = (case payload_GetEntity payload of
     Some (Inr entity) \<Rightarrow> if op0 \<noteq> UpdateOperation then m_ret ()
       else with_entity k (\<lambda>w.
         if c_ID (e_Credentials (ew_Entity w)) = c_ID (e_Credentials entity) then upd_entity k (\<lambda>w. w\<lparr>ew_Entity := entity\<rparr>)
         else m_seq (upd_entity k (\<lambda>w. w\<lparr>ew_filters := Some (composeWorkerWatcherFilters entity)\<rparr>))
           (m_bind (m_try (e_world (en_Client env entity))) (\<lambda>r. case r of
             Inl _ \<Rightarrow> m_ret ()
           | Inr ghCli \<Rightarrow> m_seq (upd_entity k (\<lambda>w. w\<lparr>ew_ghCli := Some ghCli\<rparr>))
               (m_seq (SetGithubClient (e_ID entity) ghCli) (upd_entity k (\<lambda>w. w\<lparr>ew_Entity := entity\<rparr>))))))
   | _ \<Rightarrow> m_ret ())"

definition handleEntityCredentialsEventPayload :: "'w e_env \<Rightarrow> string \<Rightarrow> payload \<Rightarrow> OperationType \<Rightarrow> ('w esys, unit) prog" where
  "handleEntityCredentialsEventPayload env k payload op0 = (case payload of
     CredentialsPayload creds \<Rightarrow> if op0 \<noteq> UpdateOperation then m_ret ()
       else with_entity k (\<lambda>w. if c_ID (e_Credentials (ew_Entity w)) \<noteq> c_ID creds then m_ret ()
         else let entity = (ew_Entity w)\<lparr>e_Credentials := creds\<rparr> in
           m_seq (upd_entity k (\<lambda>w. w\<lparr>ew_Entity := entity\<rparr>))
           (m_bind (m_try (e_world (en_Client env entity))) (\<lambda>r. case r of
             Inl _ \<Rightarrow> m_ret ()
           | Inr ghCli \<Rightarrow> m_seq (upd_entity k (\<lambda>w. w\<lparr>ew_ghCli := Some ghCli\<rparr>)) (SetGithubClient (e_ID entity) ghCli))))
   | _ \<Rightarrow> m_ret ())"

definition handleWorkerWatcherEvent :: "'w e_env \<Rightarrow> string \<Rightarrow> ChangePayload \<Rightarrow> ('w esys, unit) prog" where
  "handleWorkerWatcherEvent env k ev = with_entity k (\<lambda>w.
     if db_entity_string (ev_EntityType ev) = forge_entity_string (e_EntityType (ew_Entity w))
     then handleEntityEventPayload env k (ev_Payload ev) (ev_Operation ev)
     else if ev_EntityType ev \<in> {GithubCredentialsEntityType, GiteaCredentialsEntityType}
     then handleEntityCredentialsEventPayload env k (ev_Payload ev) (ev_Operation ev)
     else m_ret ())"

text \<open>A notification reaches the worker through the filters of its consumer.\<close>

definition deliver_to_worker :: "'w e_env \<Rightarrow> string \<Rightarrow> ChangePayload \<Rightarrow> ('w esys, unit) prog" where
  "deliver_to_worker env k ev = with_entity k (\<lambda>w. case ew_filters w of None \<Rightarrow> m_ret ()
     | Some f \<Rightarrow> if f ev then handleWorkerWatcherEvent env k ev else m_ret ())"

subsection \<open>The entity controller\<close>

definition e_record_failure :: "'w e_env \<Rightarrow> string \<Rightarrow> ('w esys, unit) prog" where
  "e_record_failure env key = m_bind (e_world (\<lambda>w. case cn_rand (en_controller env) w of (n, w') \<Rightarrow> (Inr n, w'))) (\<lambda>draw.
     m_bind (m_get (\<lambda>s. db_clock (es_db s))) (\<lambda>now.
       e_upd (\<lambda>c. c\<lparr>eco_backoff := Backoff_RecordFailure draw key now (eco_backoff c)\<rparr>)))"

definition e_record_success :: "string \<Rightarrow> ('w esys, unit) prog" where
  "e_record_success key = e_upd (\<lambda>c. c\<lparr>eco_backoff := Backoff_RecordSuccess key (eco_backoff c)\<rparr>)"

definition storeEntityWorker :: "ForgeEntity \<Rightarrow> ('w esys, unit) prog" where
  "storeEntityWorker entity = e_upd (store_entity (e_ID entity) (newEntityWorker entity))"

text \<open>The three loaders: a failed listing loads nothing, an entity without an ID is skipped.\<close>

definition load_entities :: "('w, ForgeEntity list) prog \<Rightarrow> ('w esys, unit) prog" where
  "load_entities listing = m_bind (m_try (e_world listing)) (\<lambda>r. case r of
     Inl _ \<Rightarrow> m_ret ()
   | Inr entities \<Rightarrow> m_for (\<lambda>x. case entity_with_id x of Inl _ \<Rightarrow> m_ret () | Inr entity \<Rightarrow> storeEntityWorker entity) entities)"

definition loadAllEnterprises :: "'w e_env \<Rightarrow> ('w esys, unit) prog" where
  "loadAllEnterprises env = load_entities (en_ListEnterprises env)"

definition loadAllOrganizations :: "'w e_env \<Rightarrow> ('w esys, unit) prog" where
  "loadAllOrganizations env = load_entities (en_ListOrganizations env)"

definition loadAllRepositories :: "'w e_env \<Rightarrow> ('w esys, unit) prog" where
  "loadAllRepositories env = load_entities (en_ListRepositories env)"

definition composeEntityControllerFilters :: PayloadFilterFunc where
  "composeEntityControllerFilters = WithAny [
     WithAll [WithAny [WithEntityTypeFilter RepositoryEntityType, WithEntityTypeFilter OrganizationEntityType,
         WithEntityTypeFilter EnterpriseEntityType],
       WithAny [WithOperationTypeFilter CreateOperation, WithOperationTypeFilter DeleteOperation, WithOperationTypeFilter UpdateOperation]],
     WithAll [WithAny [WithEntityTypeFilter GithubCredentialsEntityType, WithEntityTypeFilter GiteaCredentialsEntityType],
       WithOperationTypeFilter UpdateOperation]]"

definition entityController_Start :: "'w e_env \<Rightarrow> ('w esys, unit) prog" where
  "entityController_Start env = m_bind (e_get eco_running) (\<lambda>running. if running then m_ret ()
     else m_seq (loadAllEnterprises env) (m_seq (loadAllOrganizations env) (m_seq (loadAllRepositories env)
       (m_seq (m_result (cn_Registered (en_controller env) ''entity-controller''))
       (e_upd (\<lambda>c. c\<lparr>eco_running := True\<rparr>))))))"

definition entityController_Stop :: "'w e_env \<Rightarrow> ('w esys, unit) prog" where
  "entityController_Stop env = m_bind (e_get id) (\<lambda>c. if \<not> eco_running c then m_ret ()
     else m_seq (m_for (\<lambda>k. m_ignore (entityWorker_Stop env k)) (map fst (ec_Entities c)))
       (e_upd (\<lambda>c. c\<lparr>eco_running := False\<rparr>)))"

definition retry_entity :: "'w e_env \<Rightarrow> string \<Rightarrow> ('w esys, unit) prog" where
  "retry_entity env k = m_bind (m_get (\<lambda>s. (es_controller s, db_clock (es_db s)))) (\<lambda>(c, now).
     if entity_running k c then m_ret ()
     else if \<not> Backoff_ShouldRetry k now (eco_backoff c) then m_ret ()
     else with_entity k (\<lambda>w. m_bind (m_try (entityWorker_Start env k)) (\<lambda>r. case r of
       Inl _ \<Rightarrow> m_seq (addStatusEvent env (ew_Entity w) ''error'') (e_record_failure env k)
     | Inr _ \<Rightarrow> m_seq (addStatusEvent env (ew_Entity w) ''info'') (e_record_success k))))"

definition retryFailedWorkers :: "'w e_env \<Rightarrow> ('w esys, unit) prog" where
  "retryFailedWorkers env = m_bind (e_get id) (\<lambda>c. if \<not> eco_running c then m_ret ()
     else m_for (retry_entity env) (map fst (ec_Entities c)))"

definition update_idle_credentials :: "ForgeCredentials \<Rightarrow> string \<Rightarrow> ('w esys, unit) prog" where
  "update_idle_credentials creds k = with_entity k (\<lambda>w. if ew_running w then m_ret ()
     else if c_ID (e_Credentials (ew_Entity w)) \<noteq> c_ID creds then m_ret ()
     else m_seq (upd_entity k (\<lambda>w. w\<lparr>ew_Entity := (ew_Entity w)\<lparr>e_Credentials := creds\<rparr>\<rparr>)) (e_record_success (e_ID (ew_Entity w))))"

definition handleCredentialsUpdateEvent :: "payload \<Rightarrow> ('w esys, unit) prog" where
  "handleCredentialsUpdateEvent payload = (case payload of
     CredentialsPayload creds \<Rightarrow> m_bind (e_get (\<lambda>c. map fst (ec_Entities c))) (m_for (update_idle_credentials creds))
   | _ \<Rightarrow> m_ret ())"

definition handleWatcherUpdateOperation :: "ForgeEntity \<Rightarrow> ('w esys, unit) prog" where
  "handleWatcherUpdateOperation entity = with_entity (e_ID entity) (\<lambda>w. if ew_running w then m_ret ()
     else m_seq (upd_entity (e_ID entity) (\<lambda>w. w\<lparr>ew_Entity := entity\<rparr>)) (e_record_success (e_ID entity)))"

definition handleWatcherCreateOperation :: "ForgeEntity \<Rightarrow> ('w esys, unit) prog" where
  "handleWatcherCreateOperation entity = m_bind (e_get (find_entity (e_ID entity))) (\<lambda>w. if w \<noteq> None then m_ret ()
     else e_upd (store_entity (e_ID entity) (newEntityWorker entity)))"

text \<open>A worker that cannot be stopped stays in the table.\<close>

definition handleWatcherDeleteOperation :: "'w e_env \<Rightarrow> ForgeEntity \<Rightarrow> ('w esys, unit) prog" where
  "handleWatcherDeleteOperation env entity = with_entity (e_ID entity) (\<lambda>w. m_seq (e_record_success (e_ID entity))
     (m_bind (m_try (entityWorker_Stop env (e_ID entity))) (\<lambda>r.
       m_when (r = Inr ()) (e_upd (\<lambda>c. c\<lparr>ec_Entities := keyedCache_Delete (e_ID entity) (ec_Entities c)\<rparr>)))))"

definition event_entity :: "ChangePayload \<Rightarrow> ForgeEntity option" where
  "event_entity ev = (case (case (ev_EntityType ev, ev_Payload ev) of
       (RepositoryEntityType, RepositoryPayload e) \<Rightarrow> Some (entity_with_id e)
     | (OrganizationEntityType, OrganizationPayload e) \<Rightarrow> Some (entity_with_id e)
     | (EnterpriseEntityType, EnterprisePayload e) \<Rightarrow> Some (entity_with_id e)
     | _ \<Rightarrow> None) of Some (Inr entity) \<Rightarrow> Some entity | _ \<Rightarrow> None)"

definition entityController_handleWatcherEvent :: "'w e_env \<Rightarrow> ChangePayload \<Rightarrow> ('w esys, unit) prog" where
  "entityController_handleWatcherEvent env ev = m_bind (e_get eco_running) (\<lambda>running. if \<not> running then m_ret ()
     else if ev_EntityType ev \<in> {GithubCredentialsEntityType, GiteaCredentialsEntityType} then handleCredentialsUpdateEvent (ev_Payload ev)
     else case event_entity ev of
       None \<Rightarrow> m_ret ()
     | Some entity \<Rightarrow> (case ev_Operation ev of
         CreateOperation \<Rightarrow> handleWatcherCreateOperation entity
       | DeleteOperation \<Rightarrow> handleWatcherDeleteOperation env entity
       | UpdateOperation \<Rightarrow> handleWatcherUpdateOperation entity))"

end
