(* ===== verification/Garm_Controllers_Spec.thy ===== *)
theory Garm_Controllers_Spec
  imports Garm_Controllers Garm_Provider_Spec
begin

text \<open>
  What the controllers guarantee: they keep exactly the scale sets and the entities of the store, an entity worker watches what it
  works on, and a scale set that could not be started is tried again in time.
\<close>

subsection \<open>The scale sets of a controller\<close>

lemma c_run:
  "c_world m s = (fst (m (ct_world s)), s\<lparr>ct_world := snd (m (ct_world s))\<rparr>)"
  "c_db u s = (fst (u (ct_db s)), s\<lparr>ct_db := snd (u (ct_db s))\<rparr>)"
  "c_upd f s = (Inr (), s\<lparr>ct_controller := f (ct_controller s)\<rparr>)"
  "c_get g s = (Inr (g (ct_controller s)), s)"
  by (simp_all add: c_world_def c_db_def c_upd_def c_get_def m_lift_def case_prod_unfold)

definition scaleSet_IDs :: "scaleSetController \<Rightarrow> nat set" where
  "scaleSet_IDs c = {k. find_scaleSet k c \<noteq> None}"

lemma scaleSet_IDs_simps [simp]:
  "scaleSet_IDs (store_scaleSet k e c) = insert k (scaleSet_IDs c)"
  "scaleSet_IDs (delete_scaleSet k c) = scaleSet_IDs c - {k}"
  "scaleSet_IDs (c\<lparr>sc_backoff := b\<rparr>) = scaleSet_IDs c" "scaleSet_IDs (c\<lparr>sc_Entity := entity\<rparr>) = scaleSet_IDs c"
  "sc_running (store_scaleSet k e c) = sc_running c" "sc_running (delete_scaleSet k c) = sc_running c"
  "sc_backoff (store_scaleSet k e c) = sc_backoff c"
  by (auto simp: scaleSet_IDs_def find_scaleSet_def store_scaleSet_def delete_scaleSet_def keyed_simps split: if_splits)

lemma SetWorker_simps [simp]:
  "scaleSet_IDs (scaleSet_SetWorker k w c) = scaleSet_IDs c" "sc_running (scaleSet_SetWorker k w c) = sc_running c"
  "sc_backoff (scaleSet_SetWorker k w c) = sc_backoff c"
  by (auto simp: scaleSet_SetWorker_def scaleSet_IDs_def find_scaleSet_def store_scaleSet_def keyed_simps split: option.split)

text \<open>Programs that keep the scale sets of the controller, and whether it runs.\<close>

definition ids_kept :: "'w csys \<Rightarrow> 'w csys \<Rightarrow> bool" where
  "ids_kept s s' \<longleftrightarrow> scaleSet_IDs (ct_controller s') = scaleSet_IDs (ct_controller s) \<and>
     sc_running (ct_controller s') = sc_running (ct_controller s)"

interpretation idk: step_order ids_kept
  by unfold_locales (simp_all add: ids_kept_def)

lemma ids_kept_parts:
  "steps ids_kept (c_world m)" "steps ids_kept (c_db u)" "steps ids_kept (c_get g)" "steps ids_kept (with_worker env k p)"
  "steps ids_kept (c_record_success key)" "steps ids_kept (c_upd (scaleSet_SetWorker k w))"
  by (auto intro!: stepsI simp: c_run ids_kept_def with_worker_def c_record_success_def split: option.split prod.split)

lemma ids_kept_record_failure: "steps ids_kept (c_record_failure env key)"
  by (rule stepsI) (simp add: c_record_failure_def m_bind_def c_run ids_kept_def split: prod.split)

lemma ids_kept_create: "steps ids_kept (createScaleSetWorker env sSet)"
  unfolding createScaleSetWorker_def newScaleSetWorker_def by (intro idk.st_rules ids_kept_parts)

lemma stop_worker_ok: "fst (scaleSetWorker_Stop senv s) = Inr ()"
  by (simp add: scaleSetWorker_Stop_def listener_Stop_def get_worker_def upd_worker_def upd_listener_def m_seq_def m_bind_def m_ignore_def
      split: prod.split)

lemma with_worker_ok: "(\<And>senv t. fst (m senv t) = Inr ()) \<Longrightarrow> fst (with_worker env k m s) = Inr ()"
  by (simp add: with_worker_def case_prod_unfold split: option.split)

lemma scaleSet_Stop_ok: "\<exists>t. scaleSet_Stop env k s = (Inr (), t) \<and> ids_kept s t"
proof -
  obtain r t where run: "scaleSet_Stop env k s = (r, t)" by fastforce
  with with_worker_ok [of scaleSetWorker_Stop env k s, OF stop_worker_ok] have "r = Inr ()" by (simp add: scaleSet_Stop_def)
  with run stepsD [OF ids_kept_parts(4) run [unfolded scaleSet_Stop_def]] show ?thesis by blast
qed

text \<open>A program that ends with the scale sets \<open>T\<close>, whatever it returns.\<close>

definition leaves :: "nat set \<Rightarrow> 'w csys \<Rightarrow> ('w csys, 'a) prog \<Rightarrow> bool" where
  "leaves T s m \<longleftrightarrow> scaleSet_IDs (ct_controller (snd (m s))) = T \<and> sc_running (ct_controller (snd (m s))) = sc_running (ct_controller s)"

lemma leaves_kept: "steps ids_kept m \<Longrightarrow> leaves (scaleSet_IDs (ct_controller s)) s m"
  using stepsD_snd [of ids_kept m s] by (simp add: leaves_def ids_kept_def)

lemma leaves_then:
  assumes "m s = (r, s')" "steps ids_kept m" "leaves T s' (n r)"
  shows "leaves T s (m_bind (m_try m) n)"
  using assms stepsD [OF assms(2,1)] by (simp add: leaves_def m_bind_def m_try_run ids_kept_def)

lemma leaves_store:
  assumes "steps ids_kept n"
  shows "leaves (insert k (scaleSet_IDs (ct_controller s))) s (m_seq (c_upd (store_scaleSet k e)) n)"
  using stepsD_snd [OF assms, of "s\<lparr>ct_controller := store_scaleSet k e (ct_controller s)\<rparr>"]
  by (simp add: leaves_def m_seq_def m_bind_def c_run ids_kept_def)

lemma leaves_create: "leaves (insert (ss_ID sSet) (scaleSet_IDs (ct_controller s))) s (handleScaleSetCreateOperation env sSet)"
proof (cases "find_scaleSet (ss_ID sSet) (ct_controller s)")
  case None
  obtain r s' where run: "createScaleSetWorker env sSet s = (r, s')" by fastforce
  have ids: "scaleSet_IDs (ct_controller s') = scaleSet_IDs (ct_controller s)" using stepsD [OF ids_kept_create run] by (simp add: ids_kept_def)
  have "leaves (insert (ss_ID sSet) (scaleSet_IDs (ct_controller s))) s (m_bind (m_try (createScaleSetWorker env sSet)) (\<lambda>r. case r of
       Inl e \<Rightarrow> m_seq (c_upd (store_scaleSet (ss_ID sSet) \<lparr>sx_scaleSet = sSet, sx_worker = None\<rparr>))
         (m_seq (c_record_failure env (scaleSetBackoffKey sSet)) (m_throw e))
     | Inr worker \<Rightarrow> c_upd (store_scaleSet (ss_ID sSet) \<lparr>sx_scaleSet = sSet, sx_worker = Some worker\<rparr>)))"
  proof (rule leaves_then [OF run ids_kept_create], cases r)
    case (Inl e)
    have "steps ids_kept (m_seq (c_record_failure env (scaleSetBackoffKey sSet)) (m_throw e :: ('a csys, unit) prog))"
      by (intro idk.st_rules ids_kept_record_failure)
    from leaves_store [OF this, of "ss_ID sSet" s'] Inl ids
    show "leaves (insert (ss_ID sSet) (scaleSet_IDs (ct_controller s))) s' (case r of
       Inl e \<Rightarrow> m_seq (c_upd (store_scaleSet (ss_ID sSet) \<lparr>sx_scaleSet = sSet, sx_worker = None\<rparr>))
         (m_seq (c_record_failure env (scaleSetBackoffKey sSet)) (m_throw e))
     | Inr worker \<Rightarrow> c_upd (store_scaleSet (ss_ID sSet) \<lparr>sx_scaleSet = sSet, sx_worker = Some worker\<rparr>))" by simp
  next
    case (Inr w)
    with ids show "leaves (insert (ss_ID sSet) (scaleSet_IDs (ct_controller s))) s' (case r of
       Inl e \<Rightarrow> m_seq (c_upd (store_scaleSet (ss_ID sSet) \<lparr>sx_scaleSet = sSet, sx_worker = None\<rparr>))
         (m_seq (c_record_failure env (scaleSetBackoffKey sSet)) (m_throw e))
     | Inr worker \<Rightarrow> c_upd (store_scaleSet (ss_ID sSet) \<lparr>sx_scaleSet = sSet, sx_worker = Some worker\<rparr>))"
      by (simp add: leaves_def c_run)
  qed
  with None show ?thesis by (simp add: handleScaleSetCreateOperation_def leaves_def m_bind_def c_run)
next
  case (Some e)
  then show ?thesis by (auto simp: handleScaleSetCreateOperation_def leaves_def m_bind_def c_run scaleSet_IDs_def)
qed

lemma leaves_delete: "leaves (scaleSet_IDs (ct_controller s) - {ss_ID sSet}) s (handleScaleSetDeleteOperation env sSet)"
proof -
  obtain t where t: "scaleSet_Stop env (ss_ID sSet) s = (Inr (), t)" "ids_kept s t" using scaleSet_Stop_ok by blast
  show ?thesis
  proof (cases "find_scaleSet (ss_ID sSet) (ct_controller s)")
    case None
    then show ?thesis by (auto simp: handleScaleSetDeleteOperation_def leaves_def m_bind_def c_run scaleSet_IDs_def)
  next
    case (Some e)
    with t show ?thesis
      by (simp add: handleScaleSetDeleteOperation_def leaves_def m_bind_def m_seq_def c_run c_record_success_def ids_kept_def)
  qed
qed

lemma leaves_update: "leaves (insert (ss_ID sSet) (scaleSet_IDs (ct_controller s))) s (handleScaleSetUpdateOperation env sSet)"
proof (cases "find_scaleSet (ss_ID sSet) (ct_controller s)")
  case None
  with leaves_create [of sSet s env] show ?thesis by (simp add: handleScaleSetUpdateOperation_def leaves_def m_bind_def c_run)
next
  case (Some set0)
  then have known: "insert (ss_ID sSet) (scaleSet_IDs (ct_controller s)) = scaleSet_IDs (ct_controller s)" by (auto simp: scaleSet_IDs_def)
  let ?pick = "if worker_running (ss_ID sSet) (ct_controller s) then m_ret (sx_worker set0)
       else m_bind (m_try (createScaleSetWorker env sSet)) (\<lambda>r. case r of
         Inl e \<Rightarrow> m_seq (c_record_failure env (scaleSetBackoffKey sSet)) (m_throw e)
       | Inr worker \<Rightarrow> m_seq (c_record_success (scaleSetBackoffKey sSet)) (m_ret (Some worker)))"
  have pick: "steps ids_kept ?pick" by (intro idk.st_rules ids_kept_parts ids_kept_create ids_kept_record_failure)
  obtain r s' where run: "?pick s = (r, s')" by fastforce
  from stepsD [OF pick run] known run Some show ?thesis
    by (cases r) (simp_all add: handleScaleSetUpdateOperation_def leaves_def m_bind_def c_run ids_kept_def)
qed

text \<open>What a notification means for the scale sets a controller keeps.\<close>

definition keep_scaleSet :: "ChangePayload \<Rightarrow> nat set \<Rightarrow> nat set" where
  "keep_scaleSet ev T = (case (ev_EntityType ev, ev_Payload ev) of
     (ScaleSetEntityType, ScaleSetPayload sSet) \<Rightarrow> if ev_Operation ev = DeleteOperation then T - {ss_ID sSet} else insert (ss_ID sSet) T
   | _ \<Rightarrow> T)"

lemma leaves_ignore: "leaves T s m \<Longrightarrow> leaves T s (m_ignore m)"
  by (simp add: leaves_def m_ignore_def case_prod_unfold)

lemma leaves_event:
  assumes "sc_running (ct_controller s)"
  shows "leaves (keep_scaleSet ev (scaleSet_IDs (ct_controller s))) s (controller_handleWatcherEvent env ev)"
proof (cases "ev_EntityType ev = ScaleSetEntityType")
  case True
  show ?thesis
  proof (cases "\<exists>sSet. ev_Payload ev = ScaleSetPayload sSet")
    case True
    then obtain sSet where sSet: "ev_Payload ev = ScaleSetPayload sSet" by blast
    have "leaves (keep_scaleSet ev (scaleSet_IDs (ct_controller s))) s (controller_handleScaleSet env sSet (ev_Operation ev))"
      unfolding controller_handleScaleSet_def using \<open>ev_EntityType ev = _\<close> sSet leaves_create leaves_update leaves_delete
      by (cases "ev_Operation ev") (auto simp: keep_scaleSet_def intro!: leaves_ignore)
    with \<open>ev_EntityType ev = _\<close> sSet assms show ?thesis by (simp add: controller_handleWatcherEvent_def leaves_def m_bind_def c_run)
  next
    case False
    with \<open>ev_EntityType ev = _\<close> show ?thesis
      by (cases "ev_Payload ev") (simp_all add: controller_handleWatcherEvent_def keep_scaleSet_def leaves_def m_bind_def c_run)
  qed
next
  case False
  have keep: "keep_scaleSet ev T = T" for T using False by (cases "ev_EntityType ev") (simp_all add: keep_scaleSet_def)
  have "steps ids_kept (c_upd (\<lambda>c. c\<lparr>sc_Entity := e\<rparr>))" for e by (rule stepsI) (simp add: c_run ids_kept_def)
  then have "steps ids_kept (controller_handleEntityEvent (ev_Payload ev) (ev_Operation ev))"
    unfolding controller_handleEntityEvent_def by (intro idk.st_rules ids_kept_parts)
  from leaves_kept [OF this, of s] False assms show ?thesis
    by (simp add: keep controller_handleWatcherEvent_def leaves_def m_bind_def c_run)
qed

interpretation sct: event_refinement "\<lambda>s. sc_running (ct_controller s)" "\<lambda>s. scaleSet_IDs (ct_controller s)"
  "\<lambda>ev s. snd (controller_handleWatcherEvent env ev s)" keep_scaleSet "\<lambda>_. True" for env
  using leaves_event by unfold_locales (auto simp: leaves_def)

text \<open>
  (C28) Whatever the forge, the store and the providers answer, the scale sets a running controller keeps are, after any sequence of
  notifications, exactly those that have been created or updated and not deleted since: a scale set whose worker cannot be made is
  kept for a later attempt.
\<close>

theorem controller_keeps_scale_sets:
  assumes "sc_running (ct_controller s)"
  shows "scaleSet_IDs (ct_controller (fold (\<lambda>ev s. snd (controller_handleWatcherEvent env ev s)) evs s)) =
    fold keep_scaleSet evs (scaleSet_IDs (ct_controller s))"
  using sct.run_refines [OF assms] by simp

subsection \<open>Retries\<close>

lemma start_runs: "scaleSetWorker_Start senv reg t = (Inr (), t') \<Longrightarrow> wk_running (sk_worker t')"
  by (auto simp: scaleSetWorker_Start_def get_worker_def upd_worker_def m_seq_def m_bind_def split: if_splits prod.splits sum.splits)

lemma find_SetWorker:
  "find_worker k (scaleSet_SetWorker k w c) = (if find_scaleSet k c = None then None else Some w)"
  by (auto simp: find_worker_def scaleSet_SetWorker_def find_scaleSet_def store_scaleSet_def keyed_simps split: option.split)

lemma worker_running_backoff [simp]: "worker_running k (c\<lparr>sc_backoff := b\<rparr>) = worker_running k c"
  by (simp add: worker_running_def find_worker_def find_scaleSet_def)

lemma with_worker_starts:
  assumes "with_worker env k (\<lambda>senv. m_bind (get_worker wk_consumerID) (\<lambda>i. scaleSetWorker_Start senv (cn_Registered env i))) s = (Inr (), s')"
    and "find_worker k (ct_controller s) = Some w" "cn_providers env (ss_ProviderName (wk_scaleSet w)) \<noteq> None"
  shows "worker_running k (ct_controller s')"
proof -
  have "find_scaleSet k (ct_controller s) \<noteq> None" using assms(2) by (auto simp: find_worker_def split: option.splits)
  with assms show ?thesis
    by (auto simp: with_worker_def get_worker_def worker_running_def find_SetWorker dest: start_runs split: option.splits prod.splits)
qed

text \<open>The failure recorded last keeps the scale set for at least eight seconds, and at most five minutes.\<close>

definition retried_in_time :: "string \<Rightarrow> 'w csys \<Rightarrow> bool" where
  "retried_in_time key s \<longleftrightarrow> (let now = db_clock (ct_db s); b = sc_backoff (ct_controller s) in \<forall>t.
     (t \<le> now + 8 * second \<longrightarrow> \<not> Backoff_ShouldRetry key t b) \<and> (now + 5 * minute < t \<longrightarrow> Backoff_ShouldRetry key t b))"

lemma record_failure_retried:
  assumes "Backoff_invar (sc_backoff (ct_controller s))" "0 < db_clock (ct_db s)"
  shows "fst (c_record_failure env key s) = Inr ()" "retried_in_time key (snd (c_record_failure env key s))"
proof -
  obtain n w' where r: "cn_rand env (ct_world s) = (n, w')" by fastforce
  have run: "c_record_failure env key s = (Inr (), s\<lparr>ct_world := w', ct_controller := (ct_controller s)\<lparr>sc_backoff :=
      Backoff_RecordFailure n key (db_clock (ct_db s)) (sc_backoff (ct_controller s))\<rparr>\<rparr>)"
    by (simp add: c_record_failure_def m_bind_def c_run r)
  then show "fst (c_record_failure env key s) = Inr ()" by simp
  show "retried_in_time key (snd (c_record_failure env key s))"
    using wb.refused_after_failure [OF assms] wb.allowed_after_max_wait [OF assms]
    by (simp add: run retried_in_time_def Let_def backoff_Max_def)
qed

definition controller_kept :: "'w csys \<Rightarrow> 'w csys \<Rightarrow> bool" where
  "controller_kept s s' \<longleftrightarrow> ct_controller s' = ct_controller s"

interpretation cok: step_order controller_kept
  by unfold_locales (simp_all add: controller_kept_def)

lemma controller_kept_world: "steps controller_kept (c_world m)"
  by (rule stepsI) (simp add: c_run controller_kept_def)

lemma controller_kept_create: "steps controller_kept (createScaleSetWorker env sSet)"
  unfolding createScaleSetWorker_def newScaleSetWorker_def by (intro cok.st_rules controller_kept_world)

lemma created_worker:
  assumes "createScaleSetWorker env sSet s = (Inr w, s')"
  shows "wk_scaleSet w = sSet" "cn_providers env (ss_ProviderName sSet) \<noteq> None" "ct_controller s' = ct_controller s"
  using assms stepsD [OF controller_kept_create assms]
  by (auto simp: createScaleSetWorker_def newScaleSetWorker_def m_bind_def controller_kept_def split: option.splits prod.splits sum.splits)

lemma with_worker_backoff: "sc_backoff (ct_controller (snd (with_worker env k m s))) = sc_backoff (ct_controller s)"
  by (simp add: with_worker_def case_prod_unfold split: option.split)

lemma record_failure_clock: "db_clock (ct_db (snd (c_record_failure env key s))) = db_clock (ct_db s)"
  by (simp add: c_record_failure_def m_bind_def c_run split: prod.split)

lemma start_or_record:
  fixes key :: string
  assumes "find_worker k (ct_controller s) = Some w" "cn_providers env (ss_ProviderName (wk_scaleSet w)) \<noteq> None"
    and "Backoff_invar (sc_backoff (ct_controller s))"
  defines "s' \<equiv> snd (m_bind (m_try (with_worker env k (\<lambda>senv. m_bind (get_worker wk_consumerID) (\<lambda>i.
       scaleSetWorker_Start senv (cn_Registered env i))))) (\<lambda>r. case r of
         Inl _ \<Rightarrow> c_record_failure env key | Inr _ \<Rightarrow> c_record_success key) s)"
  assumes "0 < db_clock (ct_db s')"
  shows "worker_running k (ct_controller s') \<or> retried_in_time key s'"
proof -
  let ?start = "with_worker env k (\<lambda>senv. m_bind (get_worker wk_consumerID) (\<lambda>i. scaleSetWorker_Start senv (cn_Registered env i)))"
  obtain r t where run: "?start s = (r, t)" by fastforce
  show ?thesis
  proof (cases r)
    case (Inl e)
    then have s': "s' = snd (c_record_failure env key t)" using run by (simp add: s'_def m_bind_def m_try_run)
    have "Backoff_invar (sc_backoff (ct_controller t))" using with_worker_backoff [of env k _ s] run assms(3) by (metis snd_conv)
    moreover have "0 < db_clock (ct_db t)" using assms(5) by (simp add: s' record_failure_clock)
    ultimately show ?thesis using record_failure_retried(2) unfolding s' by blast
  next
    case (Inr u)
    then have "s' = snd (c_record_success key t)" using run by (simp add: s'_def m_bind_def m_try_run)
    then show ?thesis using with_worker_starts [OF _ assms(1,2)] run Inr by (simp add: c_record_success_def c_run)
  qed
qed

text \<open>
  A scale set whose back-off has passed is either served by a running worker after the attempt to start it, or it waits for at
  least eight seconds and is tried again at the latest after five minutes; it is never forgotten.
\<close>

theorem scaleset_retried_in_time:
  assumes "find_scaleSet k (ct_controller s) = Some set0" "Backoff_invar (sc_backoff (ct_controller s))"
    and "Backoff_ShouldRetry (scaleSetBackoffKey (sx_scaleSet set0)) (db_clock (ct_db s)) (sc_backoff (ct_controller s))"
    and "\<forall>w. sx_worker set0 = Some w \<longrightarrow> cn_providers env (ss_ProviderName (wk_scaleSet w)) \<noteq> None"
    and "0 < db_clock (ct_db (snd (retry_scaleSet env k s)))"
  shows "let s' = snd (retry_scaleSet env k s) in
    worker_running k (ct_controller s') \<or> retried_in_time (scaleSetBackoffKey (sx_scaleSet set0)) s'"
proof (cases "worker_running k (ct_controller s)")
  case True
  with assms(1) show ?thesis by (simp add: retry_scaleSet_def Let_def)
next
  case False
  let ?key = "scaleSetBackoffKey (sx_scaleSet set0)"
  let ?rest = "m_bind (m_try (with_worker env k (\<lambda>senv. m_bind (get_worker wk_consumerID) (\<lambda>i.
       scaleSetWorker_Start senv (cn_Registered env i))))) (\<lambda>r. case r of
         Inl _ \<Rightarrow> c_record_failure env ?key | Inr _ \<Rightarrow> c_record_success ?key)"
  show ?thesis
  proof (cases "sx_worker set0")
    case (Some w)
    then have w: "find_worker k (ct_controller s) = Some w" using assms(1) by (simp add: find_worker_def)
    have run: "retry_scaleSet env k s = ?rest s" using False assms(1,3) Some by (simp add: retry_scaleSet_def Let_def)
    from start_or_record [OF w _ assms(2), where env = env and key = ?key] assms(4,5) Some show ?thesis by (simp add: run Let_def)
  next
    case None
    obtain r t where create: "createScaleSetWorker env (sx_scaleSet set0) s = (r, t)" by fastforce
    with stepsD [OF controller_kept_create create] have t: "ct_controller t = ct_controller s" by (simp add: controller_kept_def)
    show ?thesis
    proof (cases r)
      case (Inl e)
      have run: "retry_scaleSet env k s = c_record_failure env ?key t"
        using False assms(1,3) None create Inl by (simp add: retry_scaleSet_def Let_def m_bind_def m_try_run)
      with record_failure_retried(2) [where s = t and env = env and key = ?key] assms(2,5) t show ?thesis by (simp add: record_failure_clock Let_def)
    next
      case (Inr w)
      let ?t = "t\<lparr>ct_controller := scaleSet_SetWorker k w (ct_controller t)\<rparr>"
      have run: "retry_scaleSet env k s = ?rest ?t"
        using False assms(1,3) None create Inr by (simp add: retry_scaleSet_def Let_def m_bind_def m_try_run c_run)
      have w: "find_worker k (ct_controller ?t) = Some w" using assms(1) t by (simp add: find_SetWorker)
      have "cn_providers env (ss_ProviderName (wk_scaleSet w)) \<noteq> None" using created_worker [of env "sx_scaleSet set0" s w t] create Inr by simp
      from start_or_record [OF w this, where key = ?key] assms(2,5) t show ?thesis by (simp add: run Let_def)
    qed
  qed
qed

subsection \<open>What an entity worker watches\<close>

lemma e_run:
  "e_world m s = (fst (m (es_world s)), s\<lparr>es_world := snd (m (es_world s))\<rparr>)"
  "e_upd f s = (Inr (), s\<lparr>es_controller := f (es_controller s)\<rparr>)"
  "e_get g s = (Inr (g (es_controller s)), s)"
  "SetGithubClient i cli s = (Inr (), s\<lparr>es_views := (es_views s)(i := (es_views s i)\<lparr>sv_client := Some cli\<rparr>)\<rparr>)"
  by (simp_all add: e_world_def e_upd_def e_get_def SetGithubClient_def m_lift_def case_prod_unfold)

lemma find_store_entity [simp]: "find_entity k (store_entity j w c) = (if k = j then Some w else find_entity k c)"
  by (simp add: find_entity_def store_entity_def keyed_simps)

lemma store_store_entity [simp]: "find_entity k (store_entity k w' (store_entity k w c)) = Some w'"
  by simp

lemma upd_entity_run:
  "find_entity k (es_controller s) = Some w \<Longrightarrow> upd_entity k f s = (Inr (), s\<lparr>es_controller := store_entity k (f w) (es_controller s)\<rparr>)"
  by (simp add: upd_entity_def e_run)

lemma with_entity_run:
  "find_entity k (es_controller s) = Some w \<Longrightarrow> with_entity k f s = f w s"
  "find_entity k (es_controller s) = None \<Longrightarrow> with_entity k f s = (Inr (), s)"
  by (simp_all add: with_entity_def m_bind_def e_run)


definition github_entity :: "ForgeEntity \<Rightarrow> bool" where
  "github_entity e \<longleftrightarrow> e_EntityType e \<in> {ForgeEntityTypeRepository, ForgeEntityTypeOrganization, ForgeEntityTypeEnterprise} \<and>
     c_ForgeType (e_Credentials e) = GithubEndpointType"

text \<open>The worker of \<open>k\<close> has a consumer that lets through what concerns its entity and the credentials in use, and the client it uses is
  the one in the cache.\<close>

definition watching :: "string \<Rightarrow> 'w esys \<Rightarrow> bool" where
  "watching k s \<longleftrightarrow> k \<noteq> [] \<and> (case find_entity k (es_controller s) of None \<Rightarrow> False
     | Some w \<Rightarrow> e_ID (ew_Entity w) = k \<and> github_entity (ew_Entity w) \<and> ew_filters w = Some (composeWorkerWatcherFilters (ew_Entity w)) \<and>
         ew_ghCli w = sv_client (es_views s k))"


definition served_entity :: "string \<Rightarrow> 'w esys \<Rightarrow> ForgeEntity option" where
  "served_entity k s = map_option ew_Entity (find_entity k (es_controller s))"







text \<open>When the client for exchanged credentials cannot be made, the consumer follows the new credentials and the worker keeps the old
  ones. From then on no notification about credentials reaches it.\<close>

lemma failed_exchange_detaches:
  assumes "watching k s" "find_entity k (es_controller s) = Some w" "payload_GetEntity payload = Some (Inr e)"
    and "c_ID (e_Credentials e) \<noteq> c_ID (e_Credentials (ew_Entity w))" "en_Client env e (es_world s) = (Inl err, x)"
  defines "s' \<equiv> snd (handleEntityEventPayload env k payload UpdateOperation s)"
  shows "find_entity k (es_controller s') = Some (w\<lparr>ew_filters := Some (composeWorkerWatcherFilters e)\<rparr>)"
  using assms(2-5)
  by (simp add: s'_def handleEntityEventPayload_def with_entity_run(1) upd_entity_run m_seq_def m_bind_def m_try_run e_run)

lemma detached_worker_ignores_credentials:
  assumes "find_entity k (es_controller s) = Some w" "ew_filters w = Some (composeWorkerWatcherFilters e)"
    and "c_ID (e_Credentials e) \<noteq> c_ID (e_Credentials (ew_Entity w))" "github_entity (ew_Entity w)"
    and "ev_EntityType ev \<in> {GithubCredentialsEntityType, GiteaCredentialsEntityType}"
  shows "deliver_to_worker env k ev s = (Inr (), s)"
proof (cases "composeWorkerWatcherFilters e ev")
  case False
  with assms(1,2) show ?thesis by (simp add: deliver_to_worker_def with_entity_run(1))
next
  case True
  have no: "\<not> WithEntityFilter e ev" using assms(5) by (auto simp: WithEntityFilter_def)
  with True obtain c where "ev_Payload ev = CredentialsPayload c" "c_ID c = c_ID (e_Credentials e)"
    by (auto simp: composeWorkerWatcherFilters_def WithAny_iff WithAll_iff WithForgeCredentialsFilter_def split: payload.splits)
  moreover have "db_entity_string (ev_EntityType ev) \<noteq> forge_entity_string (e_EntityType (ew_Entity w))"
    using assms(4,5) by (auto simp: github_entity_def)
  ultimately show ?thesis using assms
    by (auto simp: deliver_to_worker_def handleWorkerWatcherEvent_def handleEntityCredentialsEventPayload_def with_entity_run(1))
qed

text \<open>Credentials are told apart by their number only: those of another forge replace the credentials of a worker that is not running.\<close>

lemma find_entity_backoff [simp]: "find_entity k (c\<lparr>eco_backoff := b\<rparr>) = find_entity k c"
  by (simp add: find_entity_def)

lemma idle_worker_takes_foreign_credentials:
  assumes "find_entity k (es_controller s) = Some w" "\<not> ew_running w" "c_ID creds = c_ID (e_Credentials (ew_Entity w))"
    "c_ForgeType creds \<noteq> c_ForgeType (e_Credentials (ew_Entity w))"
  shows "served_entity k (snd (update_idle_credentials creds k s)) = Some ((ew_Entity w)\<lparr>e_Credentials := creds\<rparr>)"
  using assms by (simp add: update_idle_credentials_def with_entity_run(1) upd_entity_run m_seq_def m_bind_def e_run e_record_success_def
      served_entity_def)

subsection \<open>The entities of the controller\<close>

definition entity_IDs :: "entityController \<Rightarrow> string set" where
  "entity_IDs c = {k. find_entity k c \<noteq> None}"

definition entities_kept :: "'w esys \<Rightarrow> 'w esys \<Rightarrow> bool" where
  "entities_kept s s' \<longleftrightarrow> entity_IDs (es_controller s') = entity_IDs (es_controller s) \<and>
     eco_running (es_controller s') = eco_running (es_controller s)"

interpretation enk: step_order entities_kept
  by unfold_locales (simp_all add: entities_kept_def)

lemma entity_IDs_simps [simp]:
  "entity_IDs (store_entity k w c) = insert k (entity_IDs c)" "eco_running (store_entity k w c) = eco_running c"
  "entity_IDs (c\<lparr>ec_Entities := keyedCache_Delete k (ec_Entities c)\<rparr>) = entity_IDs c - {k}"
  "entity_IDs (c\<lparr>eco_backoff := b\<rparr>) = entity_IDs c"
  by (auto simp: entity_IDs_def find_entity_def store_entity_def keyed_simps split: if_splits)

lemma entities_kept_parts:
  "steps entities_kept (e_world m)" "steps entities_kept (e_get g)" "steps entities_kept (run_controller k c p)"
  "steps entities_kept (upd_entity k f)" "steps entities_kept (e_record_success key)"
proof -
  show "steps entities_kept (upd_entity k f)"
    by (rule stepsI) (auto simp: upd_entity_def e_run entities_kept_def entity_IDs_def split: option.split)
qed (auto intro!: stepsI simp: e_run entities_kept_def run_controller_def e_record_success_def split: prod.split)

lemma entities_kept_with_entity: "(\<And>w. steps entities_kept (f w)) \<Longrightarrow> steps entities_kept (with_entity k f)"
  unfolding with_entity_def by (intro enk.st_rules entities_kept_parts)

lemma m_for_ok: "(\<And>x s. fst (f x s) = Inr ()) \<Longrightarrow> fst (m_for f xs s) = Inr ()"
  by (induction xs arbitrary: s) (auto simp: m_seq_def m_bind_def split: prod.split sum.split, (metis fst_conv sum.distinct(1))+)

lemma controller_Stop_ok: "fst (scaleSetController_Stop env s) = Inr ()"
proof -
  have "fst (stop_and_delete_scaleSet env k t) = Inr ()" for k t
    using scaleSet_Stop_ok [of env k t] by (auto simp: stop_and_delete_scaleSet_def m_bind_def m_try_run c_run)
  then have "fst (m_for (stop_and_delete_scaleSet env) (map fst (sc_ScaleSets (ct_controller s))) s) = Inr ()" by (rule m_for_ok)
  then obtain t where "m_for (stop_and_delete_scaleSet env) (map fst (sc_ScaleSets (ct_controller s))) s = (Inr (), t)" by (metis prod.collapse)
  then show ?thesis by (simp add: scaleSetController_Stop_def m_seq_def m_bind_def c_run)
qed

lemma stop_controller_ok: "\<exists>t. stop_controller env k s = (Inr (), t)"
proof (cases "find_entity k (es_controller s)")
  case (Some w)
  show ?thesis
  proof (cases "ew_scaleSetController w")
    case (Some c)
    obtain c' t where "run_controller k c (scaleSetController_Stop (en_controller env)) s = (Inr (Inr (), c'), t)"
      by (simp add: run_controller_def case_prod_unfold controller_Stop_ok)
    with Some \<open>find_entity k _ = _\<close> show ?thesis
      by (simp add: stop_controller_def with_entity_run m_bind_def m_seq_def upd_entity_def e_run)
  qed (simp add: stop_controller_def with_entity_run Some)
qed (simp add: stop_controller_def with_entity_run)

lemma entityWorker_Stop_ok: "\<exists>t. entityWorker_Stop env k s = (Inr (), t) \<and> entities_kept s t"
proof -
  have kept: "steps entities_kept (entityWorker_Stop env k)"
    unfolding entityWorker_Stop_def stop_controller_def by (intro entities_kept_with_entity enk.st_rules entities_kept_parts)
  have "\<exists>t. entityWorker_Stop env k s = (Inr (), t)"
    using stop_controller_ok [of env k s]
    by (cases "find_entity k (es_controller s)") (auto simp: entityWorker_Stop_def with_entity_run m_seq_def m_bind_def upd_entity_def e_run)
  with stepsD [OF kept] show ?thesis by blast
qed

text \<open>What a notification means for the entities a controller keeps.\<close>

definition keep_entity :: "ChangePayload \<Rightarrow> string set \<Rightarrow> string set" where
  "keep_entity ev T = (case event_entity ev of None \<Rightarrow> T
   | Some e \<Rightarrow> (case ev_Operation ev of CreateOperation \<Rightarrow> insert (e_ID e) T | UpdateOperation \<Rightarrow> T | DeleteOperation \<Rightarrow> T - {e_ID e}))"

lemma entity_delete:
  shows "entity_IDs (es_controller (snd (handleWatcherDeleteOperation env e s))) = entity_IDs (es_controller s) - {e_ID e}" "eco_running (es_controller (snd (handleWatcherDeleteOperation env e s))) = eco_running (es_controller s)"
proof -
  have "entity_IDs (es_controller (snd (handleWatcherDeleteOperation env e s))) = entity_IDs (es_controller s) - {e_ID e} \<and> eco_running (es_controller (snd (handleWatcherDeleteOperation env e s))) = eco_running (es_controller s)"
  proof (cases "find_entity (e_ID e) (es_controller s)")
    case None
    then show ?thesis by (auto simp: handleWatcherDeleteOperation_def with_entity_run entity_IDs_def)
  next
    case (Some w)
    let ?s = "snd (e_record_success (e_ID e) s)"
    obtain t where t: "entityWorker_Stop env (e_ID e) ?s = (Inr (), t)" "entities_kept ?s t" using entityWorker_Stop_ok by blast
    moreover have "entities_kept s ?s" using stepsD_snd [OF entities_kept_parts(5)] .
    ultimately show ?thesis using Some
      by (simp add: handleWatcherDeleteOperation_def with_entity_run m_seq_def m_bind_def m_try_run e_run e_record_success_def entities_kept_def)
  qed
  then show "entity_IDs (es_controller (snd (handleWatcherDeleteOperation env e s))) = entity_IDs (es_controller s) - {e_ID e}"
    "eco_running (es_controller (snd (handleWatcherDeleteOperation env e s))) = eco_running (es_controller s)" by blast+
qed

lemma entity_event:
  fixes s :: "'w esys" and env :: "'w e_env" and ev :: ChangePayload
  assumes "eco_running (es_controller s)"
  defines "s' \<equiv> snd (entityController_handleWatcherEvent env ev s)"
  shows "entity_IDs (es_controller s') = keep_entity ev (entity_IDs (es_controller s)) \<and> eco_running (es_controller s')"
proof (cases "ev_EntityType ev \<in> {GithubCredentialsEntityType, GiteaCredentialsEntityType}")
  case True
  then have none: "event_entity ev = None" by (auto simp: event_entity_def)
  have "steps entities_kept (handleCredentialsUpdateEvent (ev_Payload ev))"
  proof -
    have "steps entities_kept (update_idle_credentials c k)" for c k
      unfolding update_idle_credentials_def by (intro entities_kept_with_entity enk.st_rules entities_kept_parts)
    then show ?thesis unfolding handleCredentialsUpdateEvent_def
      by (cases "ev_Payload ev") (auto intro!: enk.st_ret enk.st_bind enk.st_for entities_kept_parts)
  qed
  from stepsD_snd [OF this, of s] True assms(1) show ?thesis
    by (auto simp: s'_def entityController_handleWatcherEvent_def m_bind_def e_run entities_kept_def keep_entity_def none)
next
  case False
  show ?thesis
  proof (cases "event_entity ev")
    case None
    with False assms(1) show ?thesis by (simp add: s'_def entityController_handleWatcherEvent_def m_bind_def e_run keep_entity_def)
  next
    case (Some e)
    have upd: "steps entities_kept (handleWatcherUpdateOperation e)"
      unfolding handleWatcherUpdateOperation_def by (intro entities_kept_with_entity enk.st_rules entities_kept_parts)
    have create: "entity_IDs (es_controller (snd (handleWatcherCreateOperation e s))) = insert (e_ID e) (entity_IDs (es_controller s)) \<and>
        eco_running (es_controller (snd (handleWatcherCreateOperation e s))) = eco_running (es_controller s)"
      by (auto simp: handleWatcherCreateOperation_def m_bind_def e_run entity_IDs_def)
    from False Some assms(1) create entity_delete [of env e s] stepsD_snd [OF upd, of s] show ?thesis
      by (cases "ev_Operation ev")
        (auto simp: s'_def entityController_handleWatcherEvent_def m_bind_def e_run entities_kept_def keep_entity_def)
  qed
qed

interpretation ect: event_refinement "\<lambda>s. eco_running (es_controller s)" "\<lambda>s. entity_IDs (es_controller s)"
  "\<lambda>ev s. snd (entityController_handleWatcherEvent env ev s)" keep_entity "\<lambda>_. True" for env
  using entity_event by unfold_locales blast+

text \<open>
  Whatever the forge, the store and the providers answer, the entities a running controller keeps workers for are, after any
  sequence of notifications, exactly those that were there or have been created, and have not been deleted since.
\<close>

theorem controller_keeps_entities:
  assumes "eco_running (es_controller s)"
  shows "entity_IDs (es_controller (fold (\<lambda>ev s. snd (entityController_handleWatcherEvent env ev s)) evs s)) =
    fold keep_entity evs (entity_IDs (es_controller s))"
  using ect.run_refines [OF assms] by simp

subsection \<open>Examples\<close>

definition ex_c_env :: "nat c_env" where
  "ex_c_env = \<lparr>cn_providers = (\<lambda>n. if n = ''lxd'' then Some ex_ss_env else None), cn_ControllerInfo = m_ret ex_controller,
     cn_GetForgeEntity = (\<lambda>_ _. m_throw NotFoundError), cn_PseudoPoolID = (\<lambda>e n. e), cn_Registered = (\<lambda>_. Inr ()),
     cn_rand = (\<lambda>w. (None, w))\<rparr>"

definition ex_scaleSetController :: scaleSetController where
  "ex_scaleSetController = \<lparr>sc_Entity = ex_forge_entity, sc_ScaleSets = [(7, \<lparr>sx_scaleSet = ex_scaleset, sx_worker = None\<rparr>)],
     sc_backoff = [], sc_running = True, sc_filters = None\<rparr>"

definition ex_csys :: "nat csys" where
  "ex_csys = \<lparr>ct_db = ex_ss_db, ct_controller = ex_scaleSetController, ct_locks = Map.empty,
     ct_view = \<lparr>sv_tools = Inr [], sv_credentials = None, sv_client = Some 1\<rparr>, ct_lifecycle = [], ct_world = 0\<rparr>"

theorem controller_keeps_scale_sets_witness:
  "scaleSet_IDs (ct_controller (fold (\<lambda>ev s. snd (controller_handleWatcherEvent ex_c_env ev s))
     [\<lparr>ev_EntityType = ScaleSetEntityType, ev_Operation = UpdateOperation, ev_Payload = ScaleSetPayload (ex_scaleset\<lparr>ss_ID := 8\<rparr>)\<rparr>,
      \<lparr>ev_EntityType = ScaleSetEntityType, ev_Operation = DeleteOperation, ev_Payload = ScaleSetPayload (ex_scaleset\<lparr>ss_ID := 7\<rparr>)\<rparr>]
     ex_csys)) = {8}"
proof -
  have "scaleSet_IDs (ct_controller ex_csys) = {7}" "sc_running (ct_controller ex_csys)"
    by (auto simp: scaleSet_IDs_def find_scaleSet_def ex_csys_def ex_scaleSetController_def keyedCache_Get_def)
  then show ?thesis by (subst controller_keeps_scale_sets) (auto simp: keep_scaleSet_def)
qed

theorem scaleset_retried_in_time_witness:
  "retried_in_time (scaleSetBackoffKey ex_scaleset) (snd (retry_scaleSet ex_c_env 7 ex_csys))"
proof -
  have "find_scaleSet 7 (ct_controller ex_csys) = Some \<lparr>sx_scaleSet = ex_scaleset, sx_worker = None\<rparr>"
    "Backoff_invar (sc_backoff (ct_controller ex_csys))"
    "Backoff_ShouldRetry (scaleSetBackoffKey ex_scaleset) (db_clock (ct_db ex_csys)) (sc_backoff (ct_controller ex_csys))"
    by (simp_all add: find_scaleSet_def ex_csys_def ex_scaleSetController_def keyedCache_Get_def Backoff_invar_def Backoff_ShouldRetry_def)
  moreover have "0 < db_clock (ct_db (snd (retry_scaleSet ex_c_env 7 ex_csys)))" by code_simp
  moreover have "\<not> worker_running 7 (ct_controller (snd (retry_scaleSet ex_c_env 7 ex_csys)))" by code_simp
  ultimately show ?thesis
    using scaleset_retried_in_time [of 7 ex_csys "\<lparr>sx_scaleSet = ex_scaleset, sx_worker = None\<rparr>" ex_c_env] by (simp add: Let_def)
qed

definition ex_e_env :: "nat e_env" where
  "ex_e_env = \<lparr>en_controller = ex_c_env, en_Client = (\<lambda>_ w. (Inr w, w + 1)), en_NewScaleSetClient = (\<lambda>_. m_ret ()),
     en_ListAllRunners = m_ret [], en_AddEntityEvent = (\<lambda>_ _. m_ret ()), en_ListEnterprises = m_ret [], en_ListOrganizations = m_ret [],
     en_ListRepositories = m_ret [ex_forge_entity]\<rparr>"

definition ex_esys :: "nat esys" where
  "ex_esys = \<lparr>es_db = ex_ss_db, es_controller = \<lparr>ec_Entities = [(uuid_string 9, \<lparr>ew_Entity = ex_forge_entity, ew_ghCli = Some 0,
       ew_scaleSetController = Some ex_scaleSetController, ew_filters = Some (composeWorkerWatcherFilters ex_forge_entity), ew_running = True\<rparr>)],
       eco_backoff = [], eco_running = True\<rparr>, es_locks = Map.empty,
     es_views = (\<lambda>_. \<lparr>sv_tools = Inr [], sv_credentials = None, sv_client = Some 0\<rparr>), es_lifecycle = [], es_world = 1\<rparr>"



theorem controller_keeps_entities_witness:
  "entity_IDs (es_controller (fold (\<lambda>ev s. snd (entityController_handleWatcherEvent ex_e_env ev s))
     [\<lparr>ev_EntityType = RepositoryEntityType, ev_Operation = CreateOperation, ev_Payload = RepositoryPayload (ex_forge_entity\<lparr>e_ID := ''other''\<rparr>)\<rparr>,
      \<lparr>ev_EntityType = RepositoryEntityType, ev_Operation = DeleteOperation, ev_Payload = RepositoryPayload ex_forge_entity\<rparr>] ex_esys)) = {''other''}"
proof -
  have "entity_IDs (es_controller ex_esys) = {uuid_string 9}" "eco_running (es_controller ex_esys)"
    by (auto simp: entity_IDs_def ex_esys_def find_entity_def keyedCache_Get_def)
  moreover have "e_ID ex_forge_entity = uuid_string 9" by (simp add: ex_forge_entity_def)
  moreover have "uuid_string 9 \<noteq> ''other''" by code_simp
  ultimately show ?thesis
    by (subst controller_keeps_entities) (simp_all add: keep_entity_def event_entity_def entity_with_id_def insert_Diff_if)
qed

end
