(* ===== verification/Garm_Bus.thy ===== *)
theory Garm_Bus
  imports Garm_Events Garm_Cache
begin

text \<open>
  How notifications travel (\<^verbatim>\<open>database/watcher\<close> and \<^verbatim>\<open>workers/common/unbounded_chan.go\<close>): a producer puts them into a buffered channel; a
  goroutine of the watcher takes them one at a time and offers each to every consumer; a consumer that lets it through keeps it
  in a channel, an unbounded queue and a second channel until its reader takes it. The readers of the workers pass it on to an
  \<^verbatim>\<open>UnboundedChan\<close>, whose items are handled one after the other.

  The goroutines are the steps of the relation \<open>bus_trace\<close>: a step that would block is not enabled. A \<^verbatim>\<open>select\<close> with several ready
  cases may take any of them. The channels hold 128 items. Once a producer is closed, at the end of the program, it is not served
  any more. The fields \<open>co_read\<close>, \<open>co_offered\<close> and \<open>bus_served\<close> record what happened; no operation reads them.
\<close>

subsection \<open>First in, first out\<close>

text \<open>What the queues promise: what is put in comes out in order, once. \<open>move\<close> is a step inside the queue.\<close>

datatype ('a, 'm) queue_act = PutAct 'a | GetAct | MoveAct 'm

locale fifo =
  fixes contents :: "'s \<Rightarrow> 'a list"
    and put :: "'a \<Rightarrow> 's \<Rightarrow> 's option"
    and get :: "'s \<Rightarrow> ('a \<times> 's) option"
    and move :: "'m \<Rightarrow> 's \<Rightarrow> 's option"
  assumes put_contents: "put x s = Some s' \<Longrightarrow> contents s' = contents s @ [x]"
    and get_contents: "get s = Some (x, s') \<Longrightarrow> contents s = x # contents s'"
    and move_contents: "move m s = Some s' \<Longrightarrow> contents s' = contents s"
begin

text \<open>The output of a sequence of acts; an act that would block does nothing.\<close>

primrec outputs :: "('a, 'm) queue_act list \<Rightarrow> 's \<Rightarrow> 'a list \<times> 'a list \<times> 's" where
  "outputs [] s = ([], [], s)"
| "outputs (a # as) s = (case a of
     PutAct x \<Rightarrow> (case put x s of None \<Rightarrow> outputs as s
       | Some s' \<Rightarrow> (case outputs as s' of (taken, out, t) \<Rightarrow> (x # taken, out, t)))
   | GetAct \<Rightarrow> (case get s of None \<Rightarrow> outputs as s
       | Some (x, s') \<Rightarrow> (case outputs as s' of (taken, out, t) \<Rightarrow> (taken, x # out, t)))
   | MoveAct m \<Rightarrow> (case move m s of None \<Rightarrow> outputs as s | Some s' \<Rightarrow> outputs as s'))"

lemma in_order: "outputs as s = (taken, out, t) \<Longrightarrow> contents s @ taken = out @ contents t"
proof (induction as arbitrary: s taken out)
  case (Cons a as)
  show ?case
  proof (cases a)
    case (PutAct x)
    show ?thesis
    proof (cases "put x s")
      case None
      with Cons PutAct show ?thesis by simp
    next
      case (Some s')
      then obtain taken' where "outputs as s' = (taken', out, t)" "taken = x # taken'"
        using Cons.prems PutAct by (auto split: prod.splits)
      with Cons.IH [of s' taken' out] put_contents [OF Some] show ?thesis by simp
    qed
  next
    case GetAct
    show ?thesis
    proof (cases "get s")
      case None
      with Cons GetAct show ?thesis by simp
    next
      case (Some p)
      then obtain x s' where p: "get s = Some (x, s')" by (cases p) auto
      then obtain out' where "outputs as s' = (taken, out', t)" "out = x # out'"
        using Cons.prems GetAct by (auto split: prod.splits)
      with Cons.IH [of s' taken out'] get_contents [OF p] show ?thesis by simp
    qed
  next
    case (MoveAct m)
    show ?thesis
    proof (cases "move m s")
      case None
      with Cons MoveAct show ?thesis by simp
    next
      case (Some s')
      with Cons.IH [of s' taken out] Cons.prems MoveAct move_contents [OF Some] show ?thesis by simp
    qed
  qed
qed simp

end

subsection \<open>UnboundedChan\<close>

text \<open>The router has its queue; both channels are unbuffered, so a send is a step of the router.\<close>

record 'a UnboundedChan =
  uc_queue :: "'a list"
  uc_quit :: bool

definition NewUnboundedChan :: "'a UnboundedChan" where
  "NewUnboundedChan = \<lparr>uc_queue = [], uc_quit = False\<rparr>"

definition UnboundedChan_In :: "'a \<Rightarrow> 'a UnboundedChan \<Rightarrow> 'a UnboundedChan option" where
  "UnboundedChan_In x u = (if uc_quit u then None else Some (u\<lparr>uc_queue := uc_queue u @ [x]\<rparr>))"

definition UnboundedChan_Out :: "'a UnboundedChan \<Rightarrow> ('a \<times> 'a UnboundedChan) option" where
  "UnboundedChan_Out u = (case uc_queue u of [] \<Rightarrow> None | x # xs \<Rightarrow> if uc_quit u then None else Some (x, u\<lparr>uc_queue := xs\<rparr>))"

text \<open>\<^verbatim>\<open>Process\<close> hands the items to the handler one at a time; \<open>n\<close> of them.\<close>

fun UnboundedChan_Process :: "('a \<Rightarrow> 's \<Rightarrow> 's) \<Rightarrow> nat \<Rightarrow> 'a UnboundedChan \<Rightarrow> 's \<Rightarrow> 's \<times> 'a UnboundedChan" where
  "UnboundedChan_Process handler 0 u s = (s, u)"
| "UnboundedChan_Process handler (Suc n) u s = (case UnboundedChan_Out u of
     None \<Rightarrow> (s, u) | Some (x, u') \<Rightarrow> UnboundedChan_Process handler n u' (handler x s))"

interpretation ucf: fifo uc_queue UnboundedChan_In UnboundedChan_Out "\<lambda>_ _. None"
  by unfold_locales (auto simp: UnboundedChan_In_def UnboundedChan_Out_def split: list.splits if_splits)

lemma Process_folds:
  "\<not> uc_quit u \<Longrightarrow> UnboundedChan_Process handler n u s = (fold handler (take n (uc_queue u)) s, u\<lparr>uc_queue := drop n (uc_queue u)\<rparr>)"
  by (induction handler n u s rule: UnboundedChan_Process.induct) (auto simp: UnboundedChan_Out_def split: list.split)

subsection \<open>Consumers and producers\<close>

definition channel_size :: nat where "channel_size = 128"

record consumer =
  co_filters :: "PayloadFilterFunc list"
  co_in :: "ChangePayload list"
  co_queue :: "ChangePayload list"
  co_messages :: "ChangePayload list"
  co_closed :: bool
  co_done :: bool
  co_offered :: "ChangePayload list"
  co_read :: "ChangePayload list"

definition new_consumer :: "PayloadFilterFunc list \<Rightarrow> consumer" where
  "new_consumer filters = \<lparr>co_filters = filters, co_in = [], co_queue = [], co_messages = [], co_closed = False, co_done = False,
     co_offered = [], co_read = []\<rparr>"

definition consumer_SetFilters :: "PayloadFilterFunc list \<Rightarrow> consumer \<Rightarrow> consumer" where
  "consumer_SetFilters filters c = c\<lparr>co_filters := filters\<rparr>"

definition consumer_Close :: "consumer \<Rightarrow> consumer" where
  "consumer_Close c = c\<lparr>co_closed := True\<rparr>"

definition passes :: "PayloadFilterFunc list \<Rightarrow> ChangePayload \<Rightarrow> bool" where
  "passes filters payload \<longleftrightarrow> (\<forall>f \<in> set filters. f payload)"

text \<open>\<open>None\<close> while the channel is full.\<close>

definition consumer_Send :: "ChangePayload \<Rightarrow> consumer \<Rightarrow> consumer option" where
  "consumer_Send payload c = (if co_closed c then Some c
     else if \<not> passes (co_filters c) payload then Some (c\<lparr>co_offered := co_offered c @ [payload]\<rparr>)
     else if length (co_in c) < channel_size then Some (c\<lparr>co_in := co_in c @ [payload], co_offered := co_offered c @ [payload]\<rparr>)
     else None)"

text \<open>The cases of the loop of \<^verbatim>\<open>dispatch\<close>.\<close>

definition dispatch_accept :: "consumer \<Rightarrow> consumer option" where
  "dispatch_accept c = (case co_in c of [] \<Rightarrow> None
   | x # xs \<Rightarrow> if co_done c then None else Some (c\<lparr>co_in := xs, co_queue := co_queue c @ [x]\<rparr>))"

definition dispatch_deliver :: "consumer \<Rightarrow> consumer option" where
  "dispatch_deliver c = (case co_queue c of [] \<Rightarrow> None
   | x # xs \<Rightarrow> if co_done c \<or> length (co_messages c) \<ge> channel_size then None
       else Some (c\<lparr>co_queue := xs, co_messages := co_messages c @ [x]\<rparr>))"

definition dispatch_exit :: "consumer \<Rightarrow> consumer option" where
  "dispatch_exit c = (if co_closed c \<and> \<not> co_done c then Some (c\<lparr>co_done := True, co_queue := [], co_in := []\<rparr>) else None)"

definition consumer_receive :: "consumer \<Rightarrow> (ChangePayload \<times> consumer) option" where
  "consumer_receive c = (case co_messages c of [] \<Rightarrow> None
   | x # xs \<Rightarrow> Some (x, c\<lparr>co_messages := xs, co_read := co_read c @ [x]\<rparr>))"

record producer =
  pd_messages :: "ChangePayload list"
  pd_closed :: bool

definition new_producer :: producer where "new_producer = \<lparr>pd_messages = [], pd_closed = False\<rparr>"

text \<open>A full channel ends in the timeout.\<close>

definition producer_Notify :: "ChangePayload \<Rightarrow> producer \<Rightarrow> (garm_error + unit) \<times> producer" where
  "producer_Notify payload p = (if pd_closed p then (Inl (OtherError ''producer is closed''), p)
     else if length (pd_messages p) < channel_size then (Inr (), p\<lparr>pd_messages := pd_messages p @ [payload]\<rparr>)
     else (Inl (OtherError ''producer timeout error''), p))"

definition producer_Close :: "producer \<Rightarrow> producer" where
  "producer_Close p = p\<lparr>pd_closed := True\<rparr>"

subsection \<open>The watcher\<close>

record watcher =
  bus_producers :: "(string, producer) keyedCache"
  bus_consumers :: "(string, consumer) keyedCache"
  bus_closed :: bool
  bus_served :: "ChangePayload list"

definition watcher_RegisterProducer :: "string \<Rightarrow> watcher \<Rightarrow> garm_error + watcher" where
  "watcher_RegisterProducer i w = (if bus_closed w then Inl (OtherError ''watcher not initialized'')
     else if keyedCache_Get i (bus_producers w) \<noteq> None then Inl (OtherError ''producer already registered'')
     else Inr (w\<lparr>bus_producers := keyedCache_Set i new_producer (bus_producers w)\<rparr>))"

definition watcher_RegisterConsumer :: "string \<Rightarrow> PayloadFilterFunc list \<Rightarrow> watcher \<Rightarrow> garm_error + watcher" where
  "watcher_RegisterConsumer i filters w = (if bus_closed w then Inl (OtherError ''watcher not initialized'')
     else if keyedCache_Get i (bus_consumers w) \<noteq> None then Inl (OtherError ''consumer already registered'')
     else Inr (w\<lparr>bus_consumers := keyedCache_Set i (new_consumer filters) (bus_consumers w)\<rparr>))"

text \<open>All consumers are offered the payload; the watcher waits for the slowest.\<close>

fun send_all :: "ChangePayload \<Rightarrow> (string, consumer) keyedCache \<Rightarrow> (string, consumer) keyedCache option" where
  "send_all payload [] = Some []"
| "send_all payload ((i, c) # cs) = (case consumer_Send payload c of None \<Rightarrow> None
   | Some c' \<Rightarrow> (case send_all payload cs of None \<Rightarrow> None | Some cs' \<Rightarrow> Some ((i, c') # cs')))"

definition serviceProducer :: "string \<Rightarrow> watcher \<Rightarrow> watcher option" where
  "serviceProducer i w = (case keyedCache_Get i (bus_producers w) of None \<Rightarrow> None
   | Some p \<Rightarrow> (case pd_messages p of [] \<Rightarrow> None
     | payload # rest \<Rightarrow> if pd_closed p \<or> bus_closed w then None
         else (case send_all payload (bus_consumers w) of None \<Rightarrow> None
           | Some cs \<Rightarrow> Some (w\<lparr>bus_producers := keyedCache_Set i (p\<lparr>pd_messages := rest\<rparr>) (bus_producers w), bus_consumers := cs,
               bus_served := bus_served w @ [payload]\<rparr>))))"

definition serviceProducer_exit :: "string \<Rightarrow> watcher \<Rightarrow> watcher option" where
  "serviceProducer_exit i w = (case keyedCache_Get i (bus_producers w) of None \<Rightarrow> None
   | Some p \<Rightarrow> if pd_closed p \<or> bus_closed w then Some (w\<lparr>bus_producers := keyedCache_Delete i (bus_producers w)\<rparr>) else None)"

definition serviceConsumer_exit :: "string \<Rightarrow> watcher \<Rightarrow> watcher option" where
  "serviceConsumer_exit i w = (case keyedCache_Get i (bus_consumers w) of None \<Rightarrow> None
   | Some c \<Rightarrow> if co_closed c \<or> bus_closed w then Some (w\<lparr>bus_consumers := keyedCache_Delete i (bus_consumers w)\<rparr>) else None)"

definition watcher_Close :: "watcher \<Rightarrow> watcher" where
  "watcher_Close w = (if bus_closed w then w else w\<lparr>bus_closed := True,
     bus_producers := map (\<lambda>(i, p). (i, producer_Close p)) (bus_producers w),
     bus_consumers := map (\<lambda>(i, c). (i, consumer_Close c)) (bus_consumers w)\<rparr>)"

definition upd_consumer :: "string \<Rightarrow> (consumer \<Rightarrow> consumer option) \<Rightarrow> watcher \<Rightarrow> watcher option" where
  "upd_consumer i f w = (case keyedCache_Get i (bus_consumers w) of None \<Rightarrow> None
   | Some c \<Rightarrow> (case f c of None \<Rightarrow> None | Some c' \<Rightarrow> Some (w\<lparr>bus_consumers := keyedCache_Set i c' (bus_consumers w)\<rparr>)))"

definition Notify :: "string \<Rightarrow> ChangePayload \<Rightarrow> watcher \<Rightarrow> (garm_error + unit) \<times> watcher" where
  "Notify i payload w = (case keyedCache_Get i (bus_producers w) of None \<Rightarrow> (Inl (OtherError ''producer is closed''), w)
   | Some p \<Rightarrow> (case producer_Notify payload p of (r, p') \<Rightarrow> (r, w\<lparr>bus_producers := keyedCache_Set i p' (bus_producers w)\<rparr>)))"

subsection \<open>Steps\<close>

datatype bus_act =
    NotifyAct string ChangePayload | ServeAct string | AcceptAct string | DeliverAct string | ReceiveAct string
  | SetFiltersAct string "PayloadFilterFunc list" | CloseConsumerAct string | DispatchExitAct string | RemoveConsumerAct string
  | RegisterConsumerAct string "PayloadFilterFunc list" | RegisterProducerAct string | RemoveProducerAct string | CloseAct

definition sum_option :: "'e + 'a \<Rightarrow> 'a option" where
  "sum_option r = (case r of Inl _ \<Rightarrow> None | Inr x \<Rightarrow> Some x)"

fun bus_do :: "bus_act \<Rightarrow> watcher \<Rightarrow> watcher option" where
  "bus_do (NotifyAct i payload) w = Some (snd (Notify i payload w))"
| "bus_do (ServeAct i) w = serviceProducer i w"
| "bus_do (AcceptAct i) w = upd_consumer i dispatch_accept w"
| "bus_do (DeliverAct i) w = upd_consumer i dispatch_deliver w"
| "bus_do (ReceiveAct i) w = upd_consumer i (\<lambda>c. map_option snd (consumer_receive c)) w"
| "bus_do (SetFiltersAct i filters) w = upd_consumer i (\<lambda>c. Some (consumer_SetFilters filters c)) w"
| "bus_do (CloseConsumerAct i) w = upd_consumer i (\<lambda>c. Some (consumer_Close c)) w"
| "bus_do (DispatchExitAct i) w = upd_consumer i dispatch_exit w"
| "bus_do (RemoveConsumerAct i) w = serviceConsumer_exit i w"
| "bus_do (RegisterConsumerAct i filters) w = sum_option (watcher_RegisterConsumer i filters w)"
| "bus_do (RegisterProducerAct i) w = sum_option (watcher_RegisterProducer i w)"
| "bus_do (RemoveProducerAct i) w = serviceProducer_exit i w"
| "bus_do CloseAct w = Some (watcher_Close w)"

inductive bus_trace :: "watcher \<Rightarrow> bus_act list \<Rightarrow> watcher \<Rightarrow> bool" where
  trace_nil: "bus_trace w [] w"
| trace_step: "bus_trace w acts w' \<Longrightarrow> bus_do act w' = Some w'' \<Longrightarrow> bus_trace w (acts @ [act]) w''"


subsection \<open>What a consumer holds\<close>

definition co_contents :: "consumer \<Rightarrow> ChangePayload list" where
  "co_contents c = co_messages c @ co_queue c @ co_in c"

text \<open>The steps of an open consumer, in the order of the locale.\<close>

definition consumer_put :: "ChangePayload \<Rightarrow> consumer \<Rightarrow> consumer option" where
  "consumer_put payload c = (if co_closed c \<or> \<not> passes (co_filters c) payload then None else consumer_Send payload c)"

definition consumer_move :: "bool \<Rightarrow> consumer \<Rightarrow> consumer option" where
  "consumer_move accept c = (if accept then dispatch_accept c else dispatch_deliver c)"

interpretation cof: fifo co_contents consumer_put consumer_receive consumer_move
proof unfold_locales
  fix x s s'
  show "consumer_put x s = Some s' \<Longrightarrow> co_contents s' = co_contents s @ [x]"
    by (auto simp: consumer_put_def consumer_Send_def co_contents_def split: if_splits)
  show "consumer_receive s = Some (x, s') \<Longrightarrow> co_contents s = x # co_contents s'"
    by (auto simp: consumer_receive_def co_contents_def split: list.splits)
next
  fix m s s'
  show "consumer_move m s = Some s' \<Longrightarrow> co_contents s' = co_contents s"
    by (auto simp: consumer_move_def dispatch_accept_def dispatch_deliver_def co_contents_def split: if_splits list.splits)
qed

text \<open>What a consumer has handed out and still holds is what it was offered and lets through.\<close>

definition in_order :: "PayloadFilterFunc list \<Rightarrow> consumer \<Rightarrow> bool" where
  "in_order fs c \<longleftrightarrow> \<not> co_closed c \<and> \<not> co_done c \<and> co_filters c = fs \<and> co_read c @ co_contents c = filter (passes fs) (co_offered c)"

lemma in_order_Send:
  assumes "in_order fs c" "consumer_Send payload c = Some c'"
  shows "in_order fs c' \<and> co_offered c' = co_offered c @ [payload]"
proof (cases "passes fs payload")
  case True
  with assms have "consumer_put payload c = Some c'" by (simp add: consumer_put_def in_order_def)
  from cof.put_contents [OF this] assms True show ?thesis by (auto simp: consumer_Send_def in_order_def split: if_splits)
next
  case False
  with assms show ?thesis by (auto simp: consumer_Send_def in_order_def co_contents_def split: if_splits)
qed

lemma in_order_move:
  assumes "in_order fs c" "consumer_move m c = Some c'"
  shows "in_order fs c' \<and> co_offered c' = co_offered c"
proof -
  have "co_read c' = co_read c" "co_filters c' = co_filters c" "co_closed c' = co_closed c" "co_done c' = co_done c" "co_offered c' = co_offered c"
    using assms(2) by (auto simp: consumer_move_def dispatch_accept_def dispatch_deliver_def split: if_splits list.splits)
  with assms cof.move_contents [OF assms(2)] show ?thesis by (simp add: in_order_def)
qed

lemmas in_order_dispatch = in_order_move [where m = True, unfolded consumer_move_def, simplified]
  in_order_move [where m = False, unfolded consumer_move_def, simplified]

lemma in_order_receive:
  assumes "in_order fs c" "consumer_receive c = Some (x, c')"
  shows "in_order fs c' \<and> co_offered c' = co_offered c"
  using assms cof.get_contents [OF assms(2)] by (auto simp: in_order_def consumer_receive_def split: list.splits)

subsection \<open>Delivery\<close>

lemma send_all_get:
  assumes "send_all payload cs = Some cs'"
  shows "keyedCache_Get i cs' = (case keyedCache_Get i cs of None \<Rightarrow> None | Some c \<Rightarrow> consumer_Send payload c)"
  using assms
proof (induction payload cs arbitrary: cs' rule: send_all.induct)
  case (2 payload j c cs)
  then obtain c' ds where "consumer_Send payload c = Some c'" "send_all payload cs = Some ds" "cs' = (j, c') # ds"
    by (auto split: option.splits)
  with 2 show ?case by (auto simp: keyedCache_Get_def)
qed (simp add: keyedCache_Get_def)

lemma send_all_keys: "send_all payload cs = Some cs' \<Longrightarrow> map fst cs' = map fst cs"
  by (induction payload cs arbitrary: cs' rule: send_all.induct) (auto split: option.splits)

lemma keyed_Set_get: "keyedCache_Get i (keyedCache_Set j v c) = (if i = j then Some v else keyedCache_Get i c)"
  and keyed_Delete_get: "keyedCache_Get i (keyedCache_Delete j c) = (if i = j then None else keyedCache_Get i c)"
  by (simp_all add: keyedCache_Get_def keyedCache_Set_def keyedCache_Delete_def update_conv' delete_conv')

text \<open>The acts that leave the subscription \<open>i\<close> alone.\<close>

fun leaves_alone :: "string \<Rightarrow> bus_act \<Rightarrow> bool" where
  "leaves_alone i CloseAct = False"
| "leaves_alone i (CloseConsumerAct j) = (j \<noteq> i)"
| "leaves_alone i (SetFiltersAct j fs) = (j \<noteq> i)"
| "leaves_alone i _ = True"

definition subscribed :: "string \<Rightarrow> PayloadFilterFunc list \<Rightarrow> ChangePayload list \<Rightarrow> watcher \<Rightarrow> bool" where
  "subscribed i fs before w \<longleftrightarrow> \<not> bus_closed w \<and> (\<exists>c. keyedCache_Get i (bus_consumers w) = Some c \<and> in_order fs c \<and>
     bus_served w = before @ co_offered c)"

lemma subscribed_upd_other:
  assumes "subscribed i fs before w" "upd_consumer j f w = Some w'" "j \<noteq> i"
  shows "subscribed i fs before w'"
  using assms by (auto simp: subscribed_def upd_consumer_def keyed_Set_get split: option.splits)

lemma subscribed_upd_same:
  assumes "subscribed i fs before w" "upd_consumer i f w = Some w'" "\<And>c c'. in_order fs c \<Longrightarrow> f c = Some c' \<Longrightarrow> in_order fs c' \<and> co_offered c' = co_offered c"
  shows "subscribed i fs before w'"
proof -
  from assms(1) obtain c where c: "\<not> bus_closed w" "keyedCache_Get i (bus_consumers w) = Some c" "in_order fs c" "bus_served w = before @ co_offered c"
    by (auto simp: subscribed_def)
  with assms(2) obtain c' where c': "f c = Some c'" "w' = w\<lparr>bus_consumers := keyedCache_Set i c' (bus_consumers w)\<rparr>"
    by (auto simp: upd_consumer_def split: option.splits)
  from assms(3) [OF c(3) c'(1)] c show ?thesis by (simp add: subscribed_def c'(2) keyed_Set_get)
qed

lemma subscribed_serve:
  assumes "subscribed i fs before w" "serviceProducer j w = Some w'"
  shows "subscribed i fs before w'"
proof -
  from assms(1) obtain c where c: "\<not> bus_closed w" "keyedCache_Get i (bus_consumers w) = Some c" "in_order fs c" "bus_served w = before @ co_offered c"
    by (auto simp: subscribed_def)
  from assms(2) obtain payload cs where cs: "send_all payload (bus_consumers w) = Some cs" "bus_consumers w' = cs"
    "bus_served w' = bus_served w @ [payload]" "bus_closed w' = bus_closed w"
    by (auto simp: serviceProducer_def split: option.splits list.splits if_splits)
  have sent: "keyedCache_Get i cs = consumer_Send payload c" using send_all_get [OF cs(1), of i] c(2) by simp
  moreover have "consumer_Send payload c \<noteq> None"
  proof
    assume "consumer_Send payload c = None"
    with sent have "map_of cs i = None" by (simp add: keyedCache_Get_def)
    moreover note send_all_keys [OF cs(1)]
    moreover have "i \<in> set (map fst (bus_consumers w))" using c(2) by (force simp: keyedCache_Get_def dest: map_of_SomeD)
    ultimately show False by (metis list.set_map map_of_eq_None_iff)
  qed
  ultimately obtain c' where c': "consumer_Send payload c = Some c'" "keyedCache_Get i cs = Some c'" by auto
  with in_order_Send [OF c(3) c'(1)] c cs show ?thesis by (auto simp: subscribed_def)
qed

lemma subscribed_step:
  assumes "subscribed i fs before w" "bus_do act w = Some w'" "leaves_alone i act"
  shows "subscribed i fs before w'"
proof -
  have upd: "subscribed i fs before w'" if "upd_consumer j f w = Some w'"
    "\<And>c c'. in_order fs c \<Longrightarrow> f c = Some c' \<Longrightarrow> in_order fs c' \<and> co_offered c' = co_offered c" for j f
    using that subscribed_upd_same [OF assms(1), of f w'] subscribed_upd_other [OF assms(1), of j f w'] by blast
  show ?thesis
  proof (cases act)
    case (AcceptAct j)
    with assms(2) have "upd_consumer j dispatch_accept w = Some w'" by simp
    then show ?thesis by (rule upd) (rule in_order_dispatch(1))
  next
    case (DeliverAct j)
    with assms(2) have "upd_consumer j dispatch_deliver w = Some w'" by simp
    then show ?thesis by (rule upd) (rule in_order_dispatch(2))
  next
    case (ReceiveAct j)
    with assms(2) have "upd_consumer j (\<lambda>c. map_option snd (consumer_receive c)) w = Some w'" by simp
    then show ?thesis by (rule upd) (auto dest: in_order_receive)
  next
    case (DispatchExitAct j)
    with assms(2) have "upd_consumer j dispatch_exit w = Some w'" by simp
    then show ?thesis by (rule upd) (auto simp: dispatch_exit_def in_order_def split: if_splits)
  next
    case (ServeAct j)
    with assms subscribed_serve show ?thesis by simp
  next
    case (SetFiltersAct j gs)
    with assms show ?thesis using subscribed_upd_other [OF assms(1), of j _ w'] by simp
  next
    case (CloseConsumerAct j)
    with assms show ?thesis using subscribed_upd_other [OF assms(1), of j _ w'] by simp
  next
    case (NotifyAct j payload)
    with assms(1,2) show ?thesis by (auto simp: subscribed_def Notify_def split: option.splits prod.splits)
  next
    case (RemoveConsumerAct j)
    with assms(1,2) show ?thesis
      by (auto simp: subscribed_def serviceConsumer_exit_def keyed_Delete_get in_order_def split: option.splits if_splits)
  next
    case (RegisterConsumerAct j gs)
    with assms(1,2) show ?thesis
      by (auto simp: subscribed_def watcher_RegisterConsumer_def sum_option_def keyed_Set_get split: if_splits)
  next
    case (RegisterProducerAct j)
    with assms(1,2) show ?thesis by (auto simp: subscribed_def watcher_RegisterProducer_def sum_option_def split: if_splits)
  next
    case (RemoveProducerAct j)
    with assms(1,2) show ?thesis by (auto simp: subscribed_def serviceProducer_exit_def split: option.splits if_splits)
  next
    case CloseAct
    with assms(3) show ?thesis by simp
  qed
qed

lemma subscribed_trace:
  "bus_trace w acts w' \<Longrightarrow> subscribed i fs before w \<Longrightarrow> \<forall>act \<in> set acts. leaves_alone i act \<Longrightarrow> subscribed i fs before w'"
  by (induction rule: bus_trace.induct) (auto intro: subscribed_step)

text \<open>
  (C30) However the goroutines of the watcher, of the other consumers and of the store interleave, a consumer whose subscription is left
  alone has handed to its reader, or still holds, exactly the notifications that were served since it registered and that its filters
  let through, in that order: none is lost, doubled or overtaken.
\<close>

theorem consumer_receives_in_order:
  assumes "bus_trace w acts w'" and "keyedCache_Get i (bus_consumers w) = Some (new_consumer fs)" and "\<not> bus_closed w"
    and "\<forall>act \<in> set acts. leaves_alone i act"
  shows "\<exists>c served. keyedCache_Get i (bus_consumers w') = Some c \<and> bus_served w' = bus_served w @ served \<and>
    co_read c @ co_messages c @ co_queue c @ co_in c = filter (passes fs) served"
proof -
  have "subscribed i fs (bus_served w) w"
    using assms(2,3) by (simp add: subscribed_def in_order_def new_consumer_def co_contents_def)
  from subscribed_trace [OF assms(1) this assms(4)] show ?thesis
    by (auto simp: subscribed_def in_order_def co_contents_def)
qed

subsection \<open>Progress\<close>






















definition ex_notice :: "OperationType \<Rightarrow> ChangePayload" where
  "ex_notice operation = \<lparr>ev_EntityType = UserEntityType, ev_Operation = operation, ev_Payload = OtherPayload\<rparr>"

definition ex_bus :: watcher where
  "ex_bus = \<lparr>bus_producers = [(''sql'', new_producer\<lparr>pd_messages := [ex_notice CreateOperation, ex_notice DeleteOperation, ex_notice CreateOperation]\<rparr>)],
     bus_consumers = [(''reader'', new_consumer [WithOperationTypeFilter CreateOperation])], bus_closed = False, bus_served = []\<rparr>"

definition ex_bus_run :: "bus_act list" where
  "ex_bus_run = [ServeAct ''sql'', ServeAct ''sql'', AcceptAct ''reader'', ServeAct ''sql'', DeliverAct ''reader'', ReceiveAct ''reader'']"

lemma bus_trace_fold: "foldl (\<lambda>r act. Option.bind r (bus_do act)) (Some w) acts = Some w' \<Longrightarrow> bus_trace w acts w'"
proof (induction acts arbitrary: w' rule: rev_induct)
  case (snoc act acts)
  then show ?case by (cases "foldl (\<lambda>r act. Option.bind r (bus_do act)) (Some w) acts") (auto intro: trace_step)
qed (auto intro: trace_nil)

lemmas ex_bus_defs = ex_bus_def ex_bus_run_def ex_notice_def new_producer_def new_consumer_def keyedCache_Get_def

lemma ex_bus_runs: "\<exists>w'. bus_trace ex_bus ex_bus_run w' \<and> \<not> bus_closed ex_bus"
  by (rule exI, rule conjI, rule bus_trace_fold)
    (simp_all add: ex_bus_defs serviceProducer_def upd_consumer_def consumer_Send_def dispatch_accept_def dispatch_deliver_def
      consumer_receive_def channel_size_def passes_def WithOperationTypeFilter_def keyedCache_Set_def)

theorem consumer_receives_in_order_witness:
  "\<exists>w' c served. bus_trace ex_bus ex_bus_run w' \<and> keyedCache_Get ''reader'' (bus_consumers w') = Some c \<and> bus_served w' = bus_served ex_bus @ served \<and>
    co_read c @ co_messages c @ co_queue c @ co_in c = filter (passes [WithOperationTypeFilter CreateOperation]) served"
proof -
  obtain w' where run: "bus_trace ex_bus ex_bus_run w'" "\<not> bus_closed ex_bus" using ex_bus_runs by blast
  have "keyedCache_Get ''reader'' (bus_consumers ex_bus) = Some (new_consumer [WithOperationTypeFilter CreateOperation])"
    "\<forall>act \<in> set ex_bus_run. leaves_alone ''reader'' act" by (simp_all add: ex_bus_defs)
  from consumer_receives_in_order [OF run(1) this(1) run(2) this(2)] run(1) show ?thesis by blast
qed


end
