(* ===== verification/Garm_Context.thy ===== *)
theory Garm_Context
  imports Garm_Params
begin

text \<open>
  What package \<^verbatim>\<open>auth\<close> keeps in the context of a request (\<^verbatim>\<open>auth/context.go\<close>). A value that was never set reads as the value
  the getter returns for it, so that a context is a record; the getters and setters are its fields.
\<close>

record Context =
  cx_UserID :: string
  cx_IsAdmin :: bool
  cx_IsEnabled :: bool
  cx_FullName :: string
  cx_Expires :: "time option"
  cx_PasswordGeneration :: uint64
  cx_ReadMetrics :: bool
  cx_InstanceID :: string
  cx_InstanceName :: string
  cx_InstancePoolID :: string
  cx_InstanceRunnerStatus :: RunnerStatus
  cx_InstanceTokenFetched :: bool
  cx_InstanceHasJITConfig :: bool
  cx_InstanceParams :: "Instance option"
  cx_InstanceForgeType :: string
  cx_InstanceEntity :: "ForgeEntity option"
  cx_InstanceIsAgent :: bool
  cx_InstanceAuthToken :: "string option"

definition background :: Context where
  "background = \<lparr>cx_UserID = [], cx_IsAdmin = False, cx_IsEnabled = False, cx_FullName = [], cx_Expires = None,
     cx_PasswordGeneration = 0, cx_ReadMetrics = False, cx_InstanceID = [], cx_InstanceName = [], cx_InstancePoolID = [],
     cx_InstanceRunnerStatus = RunnerPending, cx_InstanceTokenFetched = False, cx_InstanceHasJITConfig = False,
     cx_InstanceParams = None, cx_InstanceForgeType = [], cx_InstanceEntity = None, cx_InstanceIsAgent = False,
     cx_InstanceAuthToken = None\<rparr>"

record User =
  u_ID :: string
  u_CreatedAt :: time
  u_UpdatedAt :: time
  u_Email :: string
  u_Username :: string
  u_FullName :: string
  u_Enabled :: bool
  u_IsAdmin :: bool
  u_Password :: string
  u_Generation :: uint64

definition SetExpires :: "time option \<Rightarrow> Context \<Rightarrow> Context" where
  "SetExpires expires ctx = (if expires = None then ctx else ctx\<lparr>cx_Expires := expires\<rparr>)"

definition PopulateContext :: "User \<Rightarrow> time option \<Rightarrow> Context \<Rightarrow> Context" where
  "PopulateContext user authExpires ctx = (SetExpires authExpires (ctx\<lparr>cx_UserID := u_ID user, cx_IsAdmin := u_IsAdmin user,
     cx_IsEnabled := u_Enabled user, cx_FullName := u_FullName user\<rparr>))\<lparr>cx_PasswordGeneration := u_Generation user\<rparr>"

definition PopulateInstanceContext :: "Instance \<Rightarrow> ForgeEntity \<Rightarrow> string \<Rightarrow> bool \<Rightarrow> Context \<Rightarrow> Context" where
  "PopulateInstanceContext inst entity forgeType isAgent ctx = ctx\<lparr>cx_InstanceID := i_ID inst, cx_InstanceName := i_Name inst,
     cx_InstancePoolID := i_PoolID inst, cx_InstanceRunnerStatus := i_RunnerStatus inst, cx_InstanceTokenFetched := i_TokenFetched inst,
     cx_InstanceHasJITConfig := (i_JitConfiguration inst \<noteq> []), cx_InstanceParams := Some inst, cx_InstanceForgeType := forgeType,
     cx_InstanceEntity := Some entity, cx_InstanceIsAgent := isAgent\<rparr>"

definition GetAdminContext :: "Context \<Rightarrow> Context" where
  "GetAdminContext ctx = ctx\<lparr>cx_UserID := [], cx_IsAdmin := True, cx_IsEnabled := True\<rparr>"

end
