(* ===== verification/Garm_Entities.thy ===== *)
theory Garm_Entities
  imports Garm_Context Garm_Pools
begin

text \<open>
  Endpoints, credentials and entities in the store (\<^verbatim>\<open>database/sql/github.go\<close>, \<^verbatim>\<open>gitea.go\<close>, \<^verbatim>\<open>repositories.go\<close>, \<^verbatim>\<open>organizations.go\<close>,
  \<^verbatim>\<open>enterprise.go\<close>, \<^verbatim>\<open>forge_instances.go\<close>). The types \<^verbatim>\<open>params.Repository\<close>, \<^verbatim>\<open>Organization\<close>, \<^verbatim>\<open>Enterprise\<close> and \<^verbatim>\<open>ForgeInstance\<close> are kept as
  the \<^verbatim>\<open>ForgeEntity\<close> their \<^verbatim>\<open>GetEntity\<close> gives, with the endpoint in \<open>e_Forge\<close>; their lists of pools and events are left out. The tokens
  of a credential are kept as the text that is marshalled.

  The constraints of the tables that the code relies on are part of the statements: an insert with an unknown foreign key or a taken
  unique key fails, a deleted row that pools or scale sets refer to stays, other references to it become NULL.
\<close>

subsection \<open>Rows to params\<close>

definition GiteaRunnerReleasesURL :: string where
  "GiteaRunnerReleasesURL = ''https://gitea.com/api/v1/repos/gitea/runner/releases''"

definition zero_ForgeEndpoint :: ForgeEndpoint where
  "zero_ForgeEndpoint = \<lparr>ep_Name = [], ep_Description = [], ep_APIBaseURL = [], ep_UploadBaseURL = [], ep_BaseURL = [], ep_CACertBundle = [],
     ep_CreatedAt = 0, ep_UpdatedAt = 0, ep_ToolsMetadataURL = [], ep_UseInternalToolsMetadata = None, ep_EndpointType = AutoEndpointType\<rparr>"

definition zero_ForgeCredentials :: ForgeCredentials where
  "zero_ForgeCredentials = \<lparr>c_ID = 0, c_Name = [], c_Description = [], c_APIBaseURL = [], c_UploadBaseURL = [], c_BaseURL = [], c_CABundle = [],
     c_AuthType = [], c_ForgeType = AutoEndpointType, c_ReserveUsageEnabled = False, c_ReserveUsagePercentage = 0,
     c_Endpoint = zero_ForgeEndpoint, c_CreatedAt = 0, c_UpdatedAt = 0, c_RateLimit = None, c_CredentialsPayload = []\<rparr>"

definition sqlToCommonGithubEndpoint :: "ForgeEndpoint \<Rightarrow> ForgeEndpoint" where
  "sqlToCommonGithubEndpoint ep = (if ep_EndpointType ep = GiteaEndpointType
     then ep\<lparr>ep_UseInternalToolsMetadata := Some (ep_UseInternalToolsMetadata ep = Some True),
       ep_ToolsMetadataURL := (if ep_ToolsMetadataURL ep = [] then GiteaRunnerReleasesURL else ep_ToolsMetadataURL ep)\<rparr>
     else ep\<lparr>ep_UseInternalToolsMetadata := None, ep_ToolsMetadataURL := []\<rparr>)"

text \<open>The preloaded associations; a missing one is the zero row.\<close>

definition endpoint_of :: "string \<Rightarrow> db \<Rightarrow> ForgeEndpoint" where
  "endpoint_of name d = (case List.find (\<lambda>ep. ep_Name ep = name) (db_endpoints d) of None \<Rightarrow> zero_ForgeEndpoint | Some ep \<Rightarrow> ep)"

definition find_credentials :: "EndpointType \<Rightarrow> nat option \<Rightarrow> db \<Rightarrow> CredentialsRow option" where
  "find_credentials forge i d = (case i of None \<Rightarrow> None
     | Some n \<Rightarrow> List.find (\<lambda>c. cr_ForgeType c = forge \<and> cr_ID c = n) (db_credentials d))"

definition sqlToCommonForgeCredentials :: "db \<Rightarrow> CredentialsRow option \<Rightarrow> garm_error + ForgeCredentials" where
  "sqlToCommonForgeCredentials d creds = (case creds of None \<Rightarrow> Inl (OtherError ''empty credentials payload'')
     | Some c \<Rightarrow> if cr_Payload c = [] then Inl (OtherError ''empty credentials payload'')
       else let ep = endpoint_of (cr_EndpointName c) d in
         Inr \<lparr>c_ID = cr_ID c, c_Name = cr_Name c, c_Description = cr_Description c, c_APIBaseURL = ep_APIBaseURL ep,
           c_UploadBaseURL = ep_UploadBaseURL ep, c_BaseURL = ep_BaseURL ep, c_CABundle = ep_CACertBundle ep, c_AuthType = cr_AuthType c,
           c_ForgeType = ep_EndpointType ep, c_ReserveUsageEnabled = cr_ReserveUsageEnabled c,
           c_ReserveUsagePercentage = cr_ReserveUsagePercentage c, c_Endpoint = sqlToCommonGithubEndpoint ep,
           c_CreatedAt = cr_CreatedAt c, c_UpdatedAt = cr_UpdatedAt c, c_RateLimit = None, c_CredentialsPayload = cr_Payload c\<rparr>)"

definition sqlGiteaToCommonForgeCredentials :: "db \<Rightarrow> CredentialsRow option \<Rightarrow> garm_error + ForgeCredentials" where
  "sqlGiteaToCommonForgeCredentials d creds = (case creds of None \<Rightarrow> Inl (OtherError ''empty credentials payload'')
     | Some c \<Rightarrow> if cr_Payload c = [] then Inl (OtherError ''empty credentials payload'')
       else let ep = endpoint_of (cr_EndpointName c) d in
         Inr \<lparr>c_ID = cr_ID c, c_Name = cr_Name c, c_Description = cr_Description c, c_APIBaseURL = ep_APIBaseURL ep,
           c_UploadBaseURL = [], c_BaseURL = ep_BaseURL ep, c_CABundle = ep_CACertBundle ep, c_AuthType = cr_AuthType c,
           c_ForgeType = ep_EndpointType ep, c_ReserveUsageEnabled = False, c_ReserveUsagePercentage = 0,
           c_Endpoint = sqlToCommonGithubEndpoint ep, c_CreatedAt = cr_CreatedAt c, c_UpdatedAt = cr_UpdatedAt c, c_RateLimit = None, c_CredentialsPayload = cr_Payload c\<rparr>)"

definition balancer_or_default :: "PoolBalancerType \<Rightarrow> PoolBalancerType" where
  "balancer_or_default b = (if b = PoolBalancerTypeNone then PoolBalancerTypeRoundRobin else b)"

definition common_entity :: "db \<Rightarrow> EntityRow \<Rightarrow> string \<Rightarrow> string \<Rightarrow> ForgeCredentials \<Rightarrow> ForgeEntity" where
  "common_entity d r own nm creds = \<lparr>e_ID = uuid_string (er_ID r), e_Forge = sqlToCommonGithubEndpoint (endpoint_of (er_EndpointName r) d),
     e_Owner = own, e_Name = nm, e_EntityType = er_Type r, e_Credentials = creds,
     e_PoolBalancerType = balancer_or_default (er_PoolBalancerType r), e_PoolManagerStatus = er_PoolManagerStatus r,
     e_CreatedAt = er_CreatedAt r, e_UpdatedAt = er_UpdatedAt r, e_AgentMode = er_AgentMode r, e_WebhookSecret = er_WebhookSecret r\<rparr>"

text \<open>The credentials of a repository or organization: Gitea's, when both are set.\<close>

definition either_credentials :: "db \<Rightarrow> EntityRow \<Rightarrow> garm_error + ForgeCredentials" where
  "either_credentials d r = (if er_GiteaCredentialsID r \<noteq> None
     then sqlGiteaToCommonForgeCredentials d (find_credentials GiteaEndpointType (er_GiteaCredentialsID r) d)
     else if er_CredentialsID r \<noteq> None then sqlToCommonForgeCredentials d (find_credentials GithubEndpointType (er_CredentialsID r) d)
     else Inr zero_ForgeCredentials)"

definition sqlToCommonRepository :: "db \<Rightarrow> EntityRow \<Rightarrow> garm_error + ForgeEntity" where
  "sqlToCommonRepository d r = (if er_WebhookSecret r = [] then Inl (OtherError ''missing secret'')
     else if er_CredentialsID r \<noteq> None \<and> er_GiteaCredentialsID r \<noteq> None then Inl ConflictError
     else case either_credentials d r of Inl e \<Rightarrow> Inl e | Inr creds \<Rightarrow> Inr (common_entity d r (er_Owner r) (er_Name r) creds))"

definition sqlToCommonOrganization :: "db \<Rightarrow> EntityRow \<Rightarrow> garm_error + ForgeEntity" where
  "sqlToCommonOrganization d r = (if er_WebhookSecret r = [] then Inl (OtherError ''missing secret'')
     else case either_credentials d r of Inl e \<Rightarrow> Inl e | Inr creds \<Rightarrow> Inr (common_entity d r (er_Name r) [] creds))"

definition sqlToCommonEnterprise :: "db \<Rightarrow> EntityRow \<Rightarrow> garm_error + ForgeEntity" where
  "sqlToCommonEnterprise d r = (if er_WebhookSecret r = [] then Inl (OtherError ''missing secret'')
     else case sqlToCommonForgeCredentials d (find_credentials GithubEndpointType (er_CredentialsID r) d) of Inl e \<Rightarrow> Inl e
       | Inr creds \<Rightarrow> Inr (common_entity d r (er_Name r) [] creds))"

definition sqlToCommonForgeInstance :: "db \<Rightarrow> EntityRow \<Rightarrow> garm_error + ForgeEntity" where
  "sqlToCommonForgeInstance d r = (if er_WebhookSecret r = [] then Inl (OtherError ''missing secret'')
     else case sqlGiteaToCommonForgeCredentials d (find_credentials GiteaEndpointType (er_GiteaCredentialsID r) d) of Inl e \<Rightarrow> Inl e
       | Inr creds \<Rightarrow> Inr (common_entity d r (ep_Name (endpoint_of (er_EndpointName r) d)) [] creds))"

subsection \<open>Endpoints\<close>

record CreateEndpointParams =
  cep_Name :: string
  cep_Description :: string
  cep_APIBaseURL :: string
  cep_UploadBaseURL :: string
  cep_BaseURL :: string
  cep_CACertBundle :: string
  cep_ToolsMetadataURL :: string
  cep_UseInternalToolsMetadata :: "bool option"

record UpdateEndpointParams =
  uep_Description :: "string option"
  uep_APIBaseURL :: "string option"
  uep_UploadBaseURL :: "string option"
  uep_BaseURL :: "string option"
  uep_CACertBundle :: "string option"
  uep_ToolsMetadataURL :: string
  uep_UseInternalToolsMetadata :: "bool option"

definition find_endpoint :: "EndpointType \<Rightarrow> string \<Rightarrow> db \<Rightarrow> ForgeEndpoint option" where
  "find_endpoint forge name d = List.find (\<lambda>ep. to_lower (ep_Name ep) = to_lower name \<and> ep_EndpointType ep = forge) (db_endpoints d)"

definition insert_endpoint :: "ForgeEndpoint \<Rightarrow> (db, ForgeEndpoint) prog" where
  "insert_endpoint ep d = (if \<exists>x \<in> set (db_endpoints d). to_lower (ep_Name x) = to_lower (ep_Name ep) then (Inl DuplicateUserError, d)
     else let row = ep\<lparr>ep_CreatedAt := db_clock d, ep_UpdatedAt := db_clock d\<rparr> in (Inr row, d\<lparr>db_endpoints := db_endpoints d @ [row]\<rparr>))"

definition notify_endpoint :: "OperationType \<Rightarrow> ForgeEndpoint \<Rightarrow> (db, ForgeEndpoint) prog" where
  "notify_endpoint operation ep = (let asParams = sqlToCommonGithubEndpoint ep in
     m_seq (sendNotify GithubEndpointEntityType operation (EndpointPayload asParams)) (m_ret asParams))"

definition CreateGithubEndpoint :: "CreateEndpointParams \<Rightarrow> (db, ForgeEndpoint) prog" where
  "CreateGithubEndpoint param = m_bind (db_tx (insert_endpoint \<lparr>ep_Name = cep_Name param, ep_Description = cep_Description param,
     ep_APIBaseURL = cep_APIBaseURL param, ep_UploadBaseURL = cep_UploadBaseURL param, ep_BaseURL = cep_BaseURL param,
     ep_CACertBundle = cep_CACertBundle param, ep_CreatedAt = 0, ep_UpdatedAt = 0, ep_ToolsMetadataURL = [],
     ep_UseInternalToolsMetadata = None, ep_EndpointType = GithubEndpointType\<rparr>)) (notify_endpoint CreateOperation)"

definition CreateGiteaEndpoint :: "CreateEndpointParams \<Rightarrow> (db, ForgeEndpoint) prog" where
  "CreateGiteaEndpoint param = m_bind (db_tx (insert_endpoint \<lparr>ep_Name = cep_Name param, ep_Description = cep_Description param,
     ep_APIBaseURL = cep_APIBaseURL param, ep_UploadBaseURL = [], ep_BaseURL = cep_BaseURL param,
     ep_CACertBundle = cep_CACertBundle param, ep_CreatedAt = 0, ep_UpdatedAt = 0,
     ep_ToolsMetadataURL = (if cep_ToolsMetadataURL param = [] then GiteaRunnerReleasesURL else cep_ToolsMetadataURL param),
     ep_UseInternalToolsMetadata = Some (cep_UseInternalToolsMetadata param = Some True), ep_EndpointType = GiteaEndpointType\<rparr>))
     (notify_endpoint CreateOperation)"

definition list_endpoints :: "EndpointType \<Rightarrow> (db, ForgeEndpoint list) prog" where
  "list_endpoints forge = db_read (\<lambda>d. Inr (map sqlToCommonGithubEndpoint (filter (\<lambda>ep. ep_EndpointType ep = forge) (db_endpoints d))))"

definition ListGithubEndpoints :: "(db, ForgeEndpoint list) prog" where "ListGithubEndpoints = list_endpoints GithubEndpointType"
definition ListGiteaEndpoints :: "(db, ForgeEndpoint list) prog" where "ListGiteaEndpoints = list_endpoints GiteaEndpointType"

definition get_endpoint :: "EndpointType \<Rightarrow> string \<Rightarrow> (db, ForgeEndpoint) prog" where
  "get_endpoint forge name = db_read (\<lambda>d. option_or NotFoundError (map_option sqlToCommonGithubEndpoint (find_endpoint forge name d)))"

definition GetGithubEndpoint :: "string \<Rightarrow> (db, ForgeEndpoint) prog" where "GetGithubEndpoint = get_endpoint GithubEndpointType"
definition GetGiteaEndpoint :: "string \<Rightarrow> (db, ForgeEndpoint) prog" where "GetGiteaEndpoint = get_endpoint GiteaEndpointType"

definition endpoint_credentials :: "EndpointType \<Rightarrow> string \<Rightarrow> db \<Rightarrow> CredentialsRow list" where
  "endpoint_credentials forge name d = filter (\<lambda>c. cr_ForgeType c = forge \<and> cr_EndpointName c = name) (db_credentials d)"

text \<open>The columns that change, as updates of the row; the first list holds those that need an endpoint without credentials.\<close>

definition changed :: "'a option \<Rightarrow> 'a \<Rightarrow> ('a \<Rightarrow> 'r \<Rightarrow> 'r) \<Rightarrow> ('r \<Rightarrow> 'r) list" where
  "changed new old put = (case new of None \<Rightarrow> [] | Some x \<Rightarrow> if x \<noteq> old then [put x] else [])"

definition url_updates :: "EndpointType \<Rightarrow> UpdateEndpointParams \<Rightarrow> ForgeEndpoint \<Rightarrow> (ForgeEndpoint \<Rightarrow> ForgeEndpoint) list" where
  "url_updates forge param ep = changed (uep_APIBaseURL param) (ep_APIBaseURL ep) (\<lambda>x. ep_APIBaseURL_update (\<lambda>_. x)) @
     changed (uep_BaseURL param) (ep_BaseURL ep) (\<lambda>x. ep_BaseURL_update (\<lambda>_. x)) @
     (if forge = GithubEndpointType then changed (uep_UploadBaseURL param) (ep_UploadBaseURL ep) (\<lambda>x. ep_UploadBaseURL_update (\<lambda>_. x)) else [])"

definition other_updates :: "EndpointType \<Rightarrow> UpdateEndpointParams \<Rightarrow> ForgeEndpoint \<Rightarrow> (ForgeEndpoint \<Rightarrow> ForgeEndpoint) list" where
  "other_updates forge param ep = changed (uep_CACertBundle param) (ep_CACertBundle ep) (\<lambda>x. ep_CACertBundle_update (\<lambda>_. x)) @
     changed (uep_Description param) (ep_Description ep) (\<lambda>x. ep_Description_update (\<lambda>_. x)) @
     (if forge \<noteq> GiteaEndpointType then []
      else changed (map_option Some (uep_UseInternalToolsMetadata param)) (Some (ep_UseInternalToolsMetadata ep = Some True))
          (\<lambda>x. ep_UseInternalToolsMetadata_update (\<lambda>_. x)) @
        (if uep_ToolsMetadataURL param = [] then []
         else changed (Some (uep_ToolsMetadataURL param)) (ep_ToolsMetadataURL ep) (\<lambda>x. ep_ToolsMetadataURL_update (\<lambda>_. x))))"

definition update_endpoint_tx :: "EndpointType \<Rightarrow> string \<Rightarrow> UpdateEndpointParams \<Rightarrow> (db, ForgeEndpoint \<times> bool) prog" where
  "update_endpoint_tx forge name param d = (case find_endpoint forge name d of None \<Rightarrow> (Inl NotFoundError, d)
     | Some ep \<Rightarrow> let urls = url_updates forge param ep; updates = urls @ other_updates forge param ep in
       if endpoint_credentials forge (ep_Name ep) d \<noteq> [] \<and> urls \<noteq> [] then (Inl BadRequestError, d)
       else if updates = [] then (Inr (ep, False), d)
       else let ep' = fold id updates (ep\<lparr>ep_UpdatedAt := db_clock d\<rparr>) in
         (Inr (ep', True), d\<lparr>db_endpoints := upd_rows (\<lambda>x. ep_Name x = ep_Name ep) (\<lambda>_. ep') (db_endpoints d)\<rparr>))"

definition update_endpoint :: "EndpointType \<Rightarrow> string \<Rightarrow> UpdateEndpointParams \<Rightarrow> (db, ForgeEndpoint) prog" where
  "update_endpoint forge name param = m_bind (db_tx (update_endpoint_tx forge name param)) (\<lambda>(ep, affected).
     if affected then notify_endpoint UpdateOperation ep else m_ret (sqlToCommonGithubEndpoint ep))"

definition UpdateGithubEndpoint :: "string \<Rightarrow> UpdateEndpointParams \<Rightarrow> (db, ForgeEndpoint) prog" where
  "UpdateGithubEndpoint = update_endpoint GithubEndpointType"
definition UpdateGiteaEndpoint :: "string \<Rightarrow> UpdateEndpointParams \<Rightarrow> (db, ForgeEndpoint) prog" where
  "UpdateGiteaEndpoint = update_endpoint GiteaEndpointType"

text \<open>Whether rows of one of the given tables refer to the endpoint.\<close>

definition endpoint_used :: "ForgeEntityType list \<Rightarrow> string \<Rightarrow> db \<Rightarrow> bool" where
  "endpoint_used types name d \<longleftrightarrow> (\<exists>r \<in> set (db_entities d). er_Type r \<in> set types \<and> er_EndpointName r = name)"

definition remove_endpoint :: "ForgeEndpoint \<Rightarrow> db \<Rightarrow> db" where
  "remove_endpoint ep d = d\<lparr>db_endpoints := filter (\<lambda>x. ep_Name x \<noteq> ep_Name ep) (db_endpoints d),
     db_entities := upd_rows (\<lambda>r. er_EndpointName r = ep_Name ep) (\<lambda>r. r\<lparr>er_EndpointName := []\<rparr>) (db_entities d)\<rparr>"

definition delete_endpoint :: "EndpointType \<Rightarrow> ForgeEntityType list \<Rightarrow> string \<Rightarrow> (db, unit) prog" where
  "delete_endpoint forge types name = m_seq (db_tx (\<lambda>d. case find_endpoint forge name d of None \<Rightarrow> (Inr (), d)
       | Some ep \<Rightarrow> if endpoint_credentials forge (ep_Name ep) d \<noteq> [] \<or> endpoint_used types (ep_Name ep) d then (Inl BadRequestError, d)
         else (Inr (), remove_endpoint ep d)))
     (sendNotify GithubEndpointEntityType DeleteOperation (EndpointPayload (zero_ForgeEndpoint\<lparr>ep_Name := name\<rparr>)))"

definition DeleteGithubEndpoint :: "string \<Rightarrow> (db, unit) prog" where
  "DeleteGithubEndpoint = delete_endpoint GithubEndpointType [ForgeEntityTypeRepository, ForgeEntityTypeOrganization, ForgeEntityTypeEnterprise]"
definition DeleteGiteaEndpoint :: "string \<Rightarrow> (db, unit) prog" where
  "DeleteGiteaEndpoint = delete_endpoint GiteaEndpointType [ForgeEntityTypeRepository, ForgeEntityTypeOrganization]"

subsection \<open>Credentials\<close>

record CreateCredentialsParams =
  ccp_Name :: string
  ccp_Description :: string
  ccp_Endpoint :: string
  ccp_AuthType :: string
  ccp_PAT :: string
  ccp_App :: string
  ccp_ReserveUsageEnabled :: bool
  ccp_ReserveUsagePercentage :: int

record UpdateCredentialsParams =
  ucp_Name :: "string option"
  ucp_Description :: "string option"
  ucp_PAT :: "string option"
  ucp_App :: "string option"
  ucp_ReserveUsageEnabled :: "bool option"
  ucp_ReserveUsagePercentage :: "int option"

definition marshalAndSeal :: "string \<Rightarrow> string" where
  "marshalAndSeal data = CHR ''{'' # data @ ''}''"

definition getUIDFromContext :: "Context \<Rightarrow> garm_error + uuid" where
  "getUIDFromContext ctx = (if cx_UserID ctx = [] then Inl UnauthorizedError else option_or UnauthorizedError (uuid_parse (cx_UserID ctx)))"

definition credentials_by_name :: "EndpointType \<Rightarrow> Context \<Rightarrow> string \<Rightarrow> db \<Rightarrow> garm_error + CredentialsRow" where
  "credentials_by_name forge ctx name d = (case getUIDFromContext ctx of Inl e \<Rightarrow> Inl e
     | Inr userID \<Rightarrow> option_or NotFoundError (List.find (\<lambda>c. cr_ForgeType c = forge \<and> cr_UserID c = Some userID \<and>
         to_lower (cr_Name c) = to_lower name) (db_credentials d)))"

definition getGithubCredentialsByName :: "Context \<Rightarrow> string \<Rightarrow> db \<Rightarrow> garm_error + CredentialsRow" where
  "getGithubCredentialsByName = credentials_by_name GithubEndpointType"
definition getGiteaCredentialsByName :: "Context \<Rightarrow> string \<Rightarrow> db \<Rightarrow> garm_error + CredentialsRow" where
  "getGiteaCredentialsByName = credentials_by_name GiteaEndpointType"

definition common_credentials :: "EndpointType \<Rightarrow> db \<Rightarrow> CredentialsRow \<Rightarrow> garm_error + ForgeCredentials" where
  "common_credentials forge d c = (if forge = GiteaEndpointType then sqlGiteaToCommonForgeCredentials d (Some c)
     else sqlToCommonForgeCredentials d (Some c))"

definition GetGithubCredentialsByName :: "Context \<Rightarrow> string \<Rightarrow> (db, ForgeCredentials) prog" where
  "GetGithubCredentialsByName ctx name = db_read (\<lambda>d. case getGithubCredentialsByName ctx name d of Inl e \<Rightarrow> Inl e
     | Inr c \<Rightarrow> sqlToCommonForgeCredentials d (Some c))"
definition GetGiteaCredentialsByName :: "Context \<Rightarrow> string \<Rightarrow> (db, ForgeCredentials) prog" where
  "GetGiteaCredentialsByName ctx name = db_read (\<lambda>d. case getGiteaCredentialsByName ctx name d of Inl e \<Rightarrow> Inl e
     | Inr c \<Rightarrow> sqlGiteaToCommonForgeCredentials d (Some c))"

text \<open>An administrator sees all credentials, another user his own.\<close>

definition visible :: "Context \<Rightarrow> garm_error + (CredentialsRow \<Rightarrow> bool)" where
  "visible ctx = (if cx_IsAdmin ctx then Inr (\<lambda>_. True) else case getUIDFromContext ctx of Inl e \<Rightarrow> Inl e
     | Inr userID \<Rightarrow> Inr (\<lambda>c. cr_UserID c = Some userID))"

definition credentials_by_id :: "EndpointType \<Rightarrow> Context \<Rightarrow> nat \<Rightarrow> db \<Rightarrow> garm_error + CredentialsRow" where
  "credentials_by_id forge ctx i d = (case visible ctx of Inl e \<Rightarrow> Inl e
     | Inr ok \<Rightarrow> option_or NotFoundError (List.find (\<lambda>c. cr_ForgeType c = forge \<and> cr_ID c = i \<and> ok c) (db_credentials d)))"

definition get_credentials :: "EndpointType \<Rightarrow> Context \<Rightarrow> nat \<Rightarrow> (db, ForgeCredentials) prog" where
  "get_credentials forge ctx i = db_read (\<lambda>d. case credentials_by_id forge ctx i d of Inl e \<Rightarrow> Inl e | Inr c \<Rightarrow> common_credentials forge d c)"

definition GetGithubCredentials :: "Context \<Rightarrow> nat \<Rightarrow> (db, ForgeCredentials) prog" where
  "GetGithubCredentials = get_credentials GithubEndpointType"
definition GetGiteaCredentials :: "Context \<Rightarrow> nat \<Rightarrow> (db, ForgeCredentials) prog" where
  "GetGiteaCredentials = get_credentials GiteaEndpointType"

primrec all_converted :: "(garm_error + 'a) list \<Rightarrow> garm_error + 'a list" where
  "all_converted [] = Inr []"
| "all_converted (r # rs) = (case r of Inl e \<Rightarrow> Inl e | Inr x \<Rightarrow> (case all_converted rs of Inl e \<Rightarrow> Inl e | Inr xs \<Rightarrow> Inr (x # xs)))"

definition list_credentials :: "EndpointType \<Rightarrow> Context \<Rightarrow> (db, ForgeCredentials list) prog" where
  "list_credentials forge ctx = db_read (\<lambda>d. case visible ctx of Inl e \<Rightarrow> Inl e
     | Inr ok \<Rightarrow> all_converted (map (common_credentials forge d) (filter (\<lambda>c. cr_ForgeType c = forge \<and> ok c) (db_credentials d))))"

definition ListGithubCredentials :: "Context \<Rightarrow> (db, ForgeCredentials list) prog" where
  "ListGithubCredentials = list_credentials GithubEndpointType"
definition ListGiteaCredentials :: "Context \<Rightarrow> (db, ForgeCredentials list) prog" where
  "ListGiteaCredentials = list_credentials GiteaEndpointType"

definition credentials_entity_type :: "EndpointType \<Rightarrow> DatabaseEntityType" where
  "credentials_entity_type forge = (if forge = GiteaEndpointType then GiteaCredentialsEntityType else GithubCredentialsEntityType)"

definition notify_credentials :: "EndpointType \<Rightarrow> OperationType \<Rightarrow> CredentialsRow \<Rightarrow> (db, ForgeCredentials) prog" where
  "notify_credentials forge operation c = m_bind (m_query (\<lambda>d. common_credentials forge d c)) (\<lambda>asParams.
     m_seq (sendNotify (credentials_entity_type forge) operation (CredentialsPayload asParams)) (m_ret asParams))"

text \<open>What is sealed for a kind of authentication; Gitea knows tokens only.\<close>

definition sealed_payload :: "EndpointType \<Rightarrow> CreateCredentialsParams \<Rightarrow> garm_error + string" where
  "sealed_payload forge param = (if ccp_AuthType param = ''pat'' then Inr (marshalAndSeal (ccp_PAT param))
     else if ccp_AuthType param = ''app'' \<and> forge = GithubEndpointType then Inr (marshalAndSeal (ccp_App param))
     else Inl BadRequestError)"

definition new_credentials :: "EndpointType \<Rightarrow> uuid \<Rightarrow> CreateCredentialsParams \<Rightarrow> string \<Rightarrow> ForgeEndpoint \<Rightarrow> db \<Rightarrow> CredentialsRow" where
  "new_credentials forge userID param payload ep d = \<lparr>cr_ID = db_next_credentials d forge, cr_ForgeType = forge, cr_UserID = Some userID,
     cr_Name = ccp_Name param, cr_Description = ccp_Description param, cr_AuthType = ccp_AuthType param, cr_Payload = payload,
     cr_EndpointName = ep_Name ep, cr_ReserveUsageEnabled = (forge = GithubEndpointType \<and> ccp_ReserveUsageEnabled param),
     cr_ReserveUsagePercentage = (if forge = GithubEndpointType then ccp_ReserveUsagePercentage param else 0),
     cr_CreatedAt = db_clock d, cr_UpdatedAt = db_clock d\<rparr>"

definition append_credentials :: "CredentialsRow \<Rightarrow> db \<Rightarrow> db" where
  "append_credentials c d = d\<lparr>db_credentials := db_credentials d @ [c],
     db_next_credentials := (db_next_credentials d)(cr_ForgeType c := cr_ID c + 1)\<rparr>"

definition insert_credentials :: "EndpointType \<Rightarrow> uuid \<Rightarrow> CreateCredentialsParams \<Rightarrow> (db, CredentialsRow) prog" where
  "insert_credentials forge userID param d = (case find_endpoint forge (ccp_Endpoint param) d of None \<Rightarrow> (Inl NotFoundError, d)
     | Some ep \<Rightarrow> if \<exists>c \<in> set (db_credentials d). cr_ForgeType c = forge \<and> cr_UserID c = Some userID \<and>
           to_lower (cr_Name c) = to_lower (ccp_Name param) then (Inl DuplicateUserError, d)
       else (case sealed_payload forge param of Inl e \<Rightarrow> (Inl e, d)
         | Inr payload \<Rightarrow> if \<forall>u \<in> set (db_users d). us_ID u \<noteq> userID then (Inl DatabaseError, d)
             else let c = new_credentials forge userID param payload ep d in (Inr c, append_credentials c d)))"

definition create_credentials :: "EndpointType \<Rightarrow> Context \<Rightarrow> CreateCredentialsParams \<Rightarrow> (db, ForgeCredentials) prog" where
  "create_credentials forge ctx param = m_bind (m_result (getUIDFromContext ctx)) (\<lambda>userID.
     if ccp_Endpoint param = [] then m_throw BadRequestError
     else m_bind (db_tx (insert_credentials forge userID param)) (notify_credentials forge CreateOperation))"

definition CreateGithubCredentials :: "Context \<Rightarrow> CreateCredentialsParams \<Rightarrow> (db, ForgeCredentials) prog" where
  "CreateGithubCredentials = create_credentials GithubEndpointType"
definition CreateGiteaCredentials :: "Context \<Rightarrow> CreateCredentialsParams \<Rightarrow> (db, ForgeCredentials) prog" where
  "CreateGiteaCredentials = create_credentials GiteaEndpointType"

definition common_updates :: "EndpointType \<Rightarrow> UpdateCredentialsParams \<Rightarrow> CredentialsRow \<Rightarrow> (CredentialsRow \<Rightarrow> CredentialsRow) list" where
  "common_updates forge param c = changed (ucp_Name param) (cr_Name c) (\<lambda>x. cr_Name_update (\<lambda>_. x)) @
     changed (ucp_Description param) (cr_Description c) (\<lambda>x. cr_Description_update (\<lambda>_. x)) @
     (if forge \<noteq> GithubEndpointType then []
      else changed (ucp_ReserveUsageEnabled param) (cr_ReserveUsageEnabled c) (\<lambda>x. cr_ReserveUsageEnabled_update (\<lambda>_. x)) @
        changed (ucp_ReserveUsagePercentage param) (cr_ReserveUsagePercentage c) (\<lambda>x. cr_ReserveUsagePercentage_update (\<lambda>_. x)))"

definition payload_updates :: "string option \<Rightarrow> (CredentialsRow \<Rightarrow> CredentialsRow) list" where
  "payload_updates token = (case token of None \<Rightarrow> [] | Some x \<Rightarrow> [cr_Payload_update (\<lambda>_. marshalAndSeal x)])"

definition credentials_updates :: "EndpointType \<Rightarrow> UpdateCredentialsParams \<Rightarrow> CredentialsRow \<Rightarrow> garm_error + (CredentialsRow \<Rightarrow> CredentialsRow) list" where
  "credentials_updates forge param c =
     (if cr_AuthType c = ''pat'' then (if forge = GithubEndpointType \<and> ucp_App param \<noteq> None then Inl BadRequestError
        else Inr (common_updates forge param c @ payload_updates (ucp_PAT param)))
      else if cr_AuthType c = ''app'' \<and> forge = GithubEndpointType then (if ucp_PAT param \<noteq> None then Inl BadRequestError
        else Inr (common_updates forge param c @ payload_updates (ucp_App param)))
      else Inl BadRequestError)"

text \<open>The new name must stay unique among the credentials of the user.\<close>

definition update_credentials_tx :: "EndpointType \<Rightarrow> Context \<Rightarrow> nat \<Rightarrow> UpdateCredentialsParams \<Rightarrow> (db, CredentialsRow \<times> bool) prog" where
  "update_credentials_tx forge ctx i param d = (case credentials_by_id forge ctx i d of Inl e \<Rightarrow> (Inl e, d)
     | Inr c \<Rightarrow> (case credentials_updates forge param c of Inl e \<Rightarrow> (Inl e, d)
       | Inr updates \<Rightarrow> if updates = [] then (Inr (c, False), d)
         else let c' = fold id updates (c\<lparr>cr_UpdatedAt := db_clock d\<rparr>) in
           if \<exists>x \<in> set (db_credentials d). cr_ForgeType x = forge \<and> cr_ID x \<noteq> cr_ID c \<and> cr_UserID x = cr_UserID c \<and>
             cr_UserID c \<noteq> None \<and> to_lower (cr_Name x) = to_lower (cr_Name c') then (Inl DatabaseError, d)
           else (Inr (c', True), d\<lparr>db_credentials := upd_rows (\<lambda>x. cr_ForgeType x = forge \<and> cr_ID x = cr_ID c) (\<lambda>_. c') (db_credentials d)\<rparr>)))"

definition update_credentials :: "EndpointType \<Rightarrow> Context \<Rightarrow> nat \<Rightarrow> UpdateCredentialsParams \<Rightarrow> (db, ForgeCredentials) prog" where
  "update_credentials forge ctx i param = m_bind (db_tx (update_credentials_tx forge ctx i param)) (\<lambda>(c, affected).
     if affected then notify_credentials forge UpdateOperation c else m_query (\<lambda>d. common_credentials forge d c))"

definition UpdateGithubCredentials :: "Context \<Rightarrow> nat \<Rightarrow> UpdateCredentialsParams \<Rightarrow> (db, ForgeCredentials) prog" where
  "UpdateGithubCredentials = update_credentials GithubEndpointType"
definition UpdateGiteaCredentials :: "Context \<Rightarrow> nat \<Rightarrow> UpdateCredentialsParams \<Rightarrow> (db, ForgeCredentials) prog" where
  "UpdateGiteaCredentials = update_credentials GiteaEndpointType"

definition entity_credentials :: "EndpointType \<Rightarrow> EntityRow \<Rightarrow> nat option" where
  "entity_credentials forge r = (if forge = GiteaEndpointType then er_GiteaCredentialsID r else er_CredentialsID r)"

definition credentials_used :: "EndpointType \<Rightarrow> ForgeEntityType list \<Rightarrow> nat \<Rightarrow> db \<Rightarrow> bool" where
  "credentials_used forge types i d \<longleftrightarrow> (\<exists>r \<in> set (db_entities d). er_Type r \<in> set types \<and> entity_credentials forge r = Some i)"

definition drop_credentials :: "EndpointType \<Rightarrow> nat \<Rightarrow> EntityRow \<Rightarrow> EntityRow" where
  "drop_credentials forge i r = (if entity_credentials forge r \<noteq> Some i then r
     else if forge = GiteaEndpointType then r\<lparr>er_GiteaCredentialsID := None\<rparr> else r\<lparr>er_CredentialsID := None\<rparr>)"

definition remove_credentials :: "EndpointType \<Rightarrow> nat \<Rightarrow> db \<Rightarrow> db" where
  "remove_credentials forge i d = d\<lparr>db_credentials := filter (\<lambda>c. \<not> (cr_ForgeType c = forge \<and> cr_ID c = i)) (db_credentials d),
     db_entities := map (drop_credentials forge i) (db_entities d)\<rparr>"

definition delete_credentials_tx :: "EndpointType \<Rightarrow> ForgeEntityType list \<Rightarrow> Context \<Rightarrow> nat \<Rightarrow> (db, string option) prog" where
  "delete_credentials_tx forge types ctx i d = (case visible ctx of Inl e \<Rightarrow> (Inl e, d)
     | Inr ok \<Rightarrow> (case List.find (\<lambda>c. cr_ForgeType c = forge \<and> cr_ID c = i \<and> ok c) (db_credentials d) of None \<Rightarrow> (Inr None, d)
       | Some c \<Rightarrow> if credentials_used forge types i d then (Inl BadRequestError, d)
         else (Inr (Some (cr_Name c)), remove_credentials forge i d)))"

definition deleted_credentials :: "EndpointType \<Rightarrow> nat \<Rightarrow> string \<Rightarrow> (db, unit) prog" where
  "deleted_credentials forge i name = sendNotify (credentials_entity_type forge) DeleteOperation
     (CredentialsPayload (zero_ForgeCredentials\<lparr>c_ID := i, c_Name := name, c_ForgeType := forge\<rparr>))"

definition DeleteGithubCredentials :: "Context \<Rightarrow> nat \<Rightarrow> (db, unit) prog" where
  "DeleteGithubCredentials ctx i = m_bind (db_tx (delete_credentials_tx GithubEndpointType
       [ForgeEntityTypeRepository, ForgeEntityTypeOrganization, ForgeEntityTypeEnterprise] ctx i)) (\<lambda>name.
     deleted_credentials GithubEndpointType i (case name of None \<Rightarrow> [] | Some n \<Rightarrow> n))"

definition DeleteGiteaCredentials :: "Context \<Rightarrow> nat \<Rightarrow> (db, unit) prog" where
  "DeleteGiteaCredentials ctx i = m_bind (db_tx (delete_credentials_tx GiteaEndpointType
       [ForgeEntityTypeRepository, ForgeEntityTypeOrganization] ctx i)) (\<lambda>name.
     case name of None \<Rightarrow> m_ret () | Some n \<Rightarrow> m_when (i \<noteq> 0 \<and> n \<noteq> []) (deleted_credentials GiteaEndpointType i n))"

subsection \<open>Entities\<close>

record UpdateEntityParams =
  uen_CredentialsName :: string
  uen_WebhookSecret :: string
  uen_PoolBalancerType :: PoolBalancerType
  uen_AgentMode :: "bool option"
  uen_PoolManagerStatus :: "PoolManagerStatus option"

definition same_row :: "EntityRow \<Rightarrow> EntityRow \<Rightarrow> bool" where
  "same_row r x \<longleftrightarrow> er_Type x = er_Type r \<and> er_ID x = er_ID r"

definition getEntityByID :: "ForgeEntityType \<Rightarrow> string \<Rightarrow> db \<Rightarrow> garm_error + EntityRow" where
  "getEntityByID ty i d = (case uuid_parse i of None \<Rightarrow> Inl BadRequestError
     | Some u \<Rightarrow> option_or NotFoundError (List.find (\<lambda>r. er_Type r = ty \<and> er_ID r = u) (db_entities d)))"

definition getRepoByID :: "string \<Rightarrow> db \<Rightarrow> garm_error + EntityRow" where "getRepoByID = getEntityByID ForgeEntityTypeRepository"
definition getOrgByID :: "string \<Rightarrow> db \<Rightarrow> garm_error + EntityRow" where "getOrgByID = getEntityByID ForgeEntityTypeOrganization"
definition getEnterpriseByID :: "string \<Rightarrow> db \<Rightarrow> garm_error + EntityRow" where "getEnterpriseByID = getEntityByID ForgeEntityTypeEnterprise"
definition getForgeInstanceByID :: "string \<Rightarrow> db \<Rightarrow> garm_error + EntityRow" where "getForgeInstanceByID = getEntityByID ForgeEntityTypeInstance"

definition getRepo :: "string \<Rightarrow> string \<Rightarrow> string \<Rightarrow> db \<Rightarrow> garm_error + EntityRow" where
  "getRepo own nm endpointName d = option_or NotFoundError (List.find (\<lambda>r. er_Type r = ForgeEntityTypeRepository \<and>
     to_lower (er_Name r) = to_lower nm \<and> to_lower (er_Owner r) = to_lower own \<and>
     to_lower (er_EndpointName r) = to_lower endpointName) (db_entities d))"

definition entity_by_name :: "ForgeEntityType \<Rightarrow> string \<Rightarrow> string \<Rightarrow> db \<Rightarrow> garm_error + EntityRow" where
  "entity_by_name ty nm endpointName d = option_or NotFoundError (List.find (\<lambda>r. er_Type r = ty \<and>
     to_lower (er_Name r) = to_lower nm \<and> to_lower (er_EndpointName r) = to_lower endpointName) (db_entities d))"

definition getOrg :: "string \<Rightarrow> string \<Rightarrow> db \<Rightarrow> garm_error + EntityRow" where "getOrg = entity_by_name ForgeEntityTypeOrganization"
definition getEnterprise :: "string \<Rightarrow> string \<Rightarrow> db \<Rightarrow> garm_error + EntityRow" where "getEnterprise = entity_by_name ForgeEntityTypeEnterprise"

definition getForgeInstanceByName :: "string \<Rightarrow> db \<Rightarrow> garm_error + EntityRow" where
  "getForgeInstanceByName nm d = (if nm = [] then Inl BadRequestError else option_or NotFoundError
     (List.find (\<lambda>r. er_Type r = ForgeEntityTypeInstance \<and> to_lower (er_EndpointName r) = to_lower nm) (db_entities d)))"

definition converted :: "(db \<Rightarrow> EntityRow \<Rightarrow> garm_error + ForgeEntity) \<Rightarrow> (db \<Rightarrow> garm_error + EntityRow) \<Rightarrow> (db, ForgeEntity) prog" where
  "converted conv query = db_read (\<lambda>d. case query d of Inl e \<Rightarrow> Inl e | Inr r \<Rightarrow> conv d r)"

definition GetRepository :: "string \<Rightarrow> string \<Rightarrow> string \<Rightarrow> (db, ForgeEntity) prog" where
  "GetRepository own nm endpointName = converted sqlToCommonRepository (getRepo own nm endpointName)"
definition GetRepositoryByID :: "string \<Rightarrow> (db, ForgeEntity) prog" where
  "GetRepositoryByID i = converted sqlToCommonRepository (getRepoByID i)"
definition GetOrganization :: "string \<Rightarrow> string \<Rightarrow> (db, ForgeEntity) prog" where
  "GetOrganization nm endpointName = converted sqlToCommonOrganization (getOrg nm endpointName)"
definition GetOrganizationByID :: "string \<Rightarrow> (db, ForgeEntity) prog" where
  "GetOrganizationByID i = converted sqlToCommonOrganization (getOrgByID i)"
definition GetEnterprise :: "string \<Rightarrow> string \<Rightarrow> (db, ForgeEntity) prog" where
  "GetEnterprise nm endpointName = converted sqlToCommonEnterprise (getEnterprise nm endpointName)"
definition GetEnterpriseByID :: "string \<Rightarrow> (db, ForgeEntity) prog" where
  "GetEnterpriseByID i = converted sqlToCommonEnterprise (getEnterpriseByID i)"
definition GetForgeInstance :: "string \<Rightarrow> (db, ForgeEntity) prog" where
  "GetForgeInstance endpointName = converted sqlToCommonForgeInstance (getForgeInstanceByName endpointName)"
definition GetForgeInstanceByID :: "string \<Rightarrow> (db, ForgeEntity) prog" where
  "GetForgeInstanceByID i = converted sqlToCommonForgeInstance (getForgeInstanceByID i)"

definition GetForgeEntity :: "ForgeEntityType \<Rightarrow> string \<Rightarrow> (db, ForgeEntity) prog" where
  "GetForgeEntity entityType entityID = (case entityType of
     ForgeEntityTypeEnterprise \<Rightarrow> GetEnterpriseByID entityID
   | ForgeEntityTypeOrganization \<Rightarrow> GetOrganizationByID entityID
   | ForgeEntityTypeRepository \<Rightarrow> GetRepositoryByID entityID
   | ForgeEntityTypeInstance \<Rightarrow> GetForgeInstanceByID entityID
   | ForgeEntityTypeOther _ \<Rightarrow> m_throw BadRequestError)"

text \<open>A filter keeps the rows whose columns equal the given values; an empty value does not filter.\<close>

definition matches :: "string \<Rightarrow> string \<Rightarrow> bool" where
  "matches wanted val \<longleftrightarrow> wanted = [] \<or> wanted = val"

definition list_entities :: "ForgeEntityType \<Rightarrow> (db \<Rightarrow> EntityRow \<Rightarrow> garm_error + ForgeEntity) \<Rightarrow> (EntityRow \<Rightarrow> bool) \<Rightarrow> (db, ForgeEntity list) prog" where
  "list_entities ty conv keep = db_read (\<lambda>d. all_converted (map (conv d) (filter (\<lambda>r. er_Type r = ty \<and> keep r) (db_entities d))))"

definition ListRepositories :: "string \<Rightarrow> string \<Rightarrow> string \<Rightarrow> (db, ForgeEntity list) prog" where
  "ListRepositories own nm endpoint = list_entities ForgeEntityTypeRepository sqlToCommonRepository
     (\<lambda>r. matches own (er_Owner r) \<and> matches nm (er_Name r) \<and> matches endpoint (er_EndpointName r))"
definition ListOrganizations :: "string \<Rightarrow> string \<Rightarrow> (db, ForgeEntity list) prog" where
  "ListOrganizations nm endpoint = list_entities ForgeEntityTypeOrganization sqlToCommonOrganization
     (\<lambda>r. matches nm (er_Name r) \<and> matches endpoint (er_EndpointName r))"
definition ListEnterprises :: "string \<Rightarrow> string \<Rightarrow> (db, ForgeEntity list) prog" where
  "ListEnterprises nm endpoint = list_entities ForgeEntityTypeEnterprise sqlToCommonEnterprise
     (\<lambda>r. matches nm (er_Name r) \<and> matches endpoint (er_EndpointName r))"
definition ListForgeInstances :: "string \<Rightarrow> (db, ForgeEntity list) prog" where
  "ListForgeInstances endpoint = list_entities ForgeEntityTypeInstance sqlToCommonForgeInstance (\<lambda>r. matches endpoint (er_EndpointName r))"

subsubsection \<open>Creation\<close>

definition new_entity :: "ForgeEntityType \<Rightarrow> string \<Rightarrow> string \<Rightarrow> string \<Rightarrow> string \<Rightarrow> PoolBalancerType \<Rightarrow> bool \<Rightarrow> EntityRow" where
  "new_entity ty own nm endpointName webhookSecret balancer agentMode = \<lparr>er_ID = uuid_nil, er_Type = ty, er_Owner = own, er_Name = nm,
     er_EndpointName = endpointName, er_PoolManagerStatus = \<lparr>pms_IsRunning = False, pms_FailureReason = []\<rparr>, er_CredentialsID = None,
     er_GiteaCredentialsID = None, er_WebhookSecret = webhookSecret, er_PoolBalancerType = balancer, er_AgentMode = agentMode,
     er_CreatedAt = 0, er_UpdatedAt = 0\<rparr>"

definition foreign_keys_ok :: "EntityRow \<Rightarrow> db \<Rightarrow> bool" where
  "foreign_keys_ok r d \<longleftrightarrow> (\<exists>ep \<in> set (db_endpoints d). ep_Name ep = er_EndpointName r) \<and>
     (er_CredentialsID r \<noteq> None \<longrightarrow> find_credentials GithubEndpointType (er_CredentialsID r) d \<noteq> None) \<and>
     (er_GiteaCredentialsID r \<noteq> None \<longrightarrow> find_credentials GiteaEndpointType (er_GiteaCredentialsID r) d \<noteq> None)"

text \<open>The unique indexes: repositories by owner, name and endpoint, forge instances by endpoint.\<close>

definition unique_key_taken :: "EntityRow \<Rightarrow> db \<Rightarrow> bool" where
  "unique_key_taken r d \<longleftrightarrow> (\<exists>x \<in> set (db_entities d). er_Type x = er_Type r \<and> (er_ID x = er_ID r \<or>
     to_lower (er_EndpointName x) = to_lower (er_EndpointName r) \<and>
     (er_Type r = ForgeEntityTypeInstance \<or> er_Type r = ForgeEntityTypeRepository \<and>
       to_lower (er_Owner x) = to_lower (er_Owner r) \<and> to_lower (er_Name x) = to_lower (er_Name r))))"

definition insert_entity :: "EntityRow \<Rightarrow> (db, uuid) prog" where
  "insert_entity row = m_bind new_uuid (\<lambda>u d. let r = row\<lparr>er_ID := u, er_CreatedAt := db_clock d, er_UpdatedAt := db_clock d\<rparr> in
     if unique_key_taken r d \<or> \<not> foreign_keys_ok r d then (Inl DatabaseError, d)
     else (Inr u, d\<lparr>db_entities := db_entities d @ [r]\<rparr>))"

definition with_credentials :: "ForgeCredentials \<Rightarrow> EntityRow \<Rightarrow> garm_error + EntityRow" where
  "with_credentials credentials r = (case c_ForgeType credentials of
     GithubEndpointType \<Rightarrow> Inr (r\<lparr>er_CredentialsID := Some (c_ID credentials)\<rparr>)
   | GiteaEndpointType \<Rightarrow> Inr (r\<lparr>er_GiteaCredentialsID := Some (c_ID credentials)\<rparr>)
   | AutoEndpointType \<Rightarrow> Inl BadRequestError)"

definition create_entity :: "DatabaseEntityType \<Rightarrow> (ForgeEntity \<Rightarrow> payload) \<Rightarrow> (string \<Rightarrow> (db, ForgeEntity) prog) \<Rightarrow> garm_error + EntityRow \<Rightarrow> (db, ForgeEntity) prog" where
  "create_entity entityType wrap reload row = m_bind (db_tx (m_bind (m_result row) insert_entity)) (\<lambda>u.
     m_bind (reload (uuid_string u)) (\<lambda>ret. m_seq (sendNotify entityType CreateOperation (wrap ret)) (m_ret ret)))"

definition CreateRepository :: "string \<Rightarrow> string \<Rightarrow> ForgeCredentials \<Rightarrow> string \<Rightarrow> PoolBalancerType \<Rightarrow> bool \<Rightarrow> (db, ForgeEntity) prog" where
  "CreateRepository own nm credentials webhookSecret poolBalancerType agentMode = (if webhookSecret = [] then m_throw (OtherError ''creating repo: missing secret'')
     else create_entity RepositoryEntityType RepositoryPayload GetRepositoryByID (with_credentials credentials
       (new_entity ForgeEntityTypeRepository own nm (ep_Name (c_Endpoint credentials)) webhookSecret poolBalancerType agentMode)))"

definition CreateOrganization :: "string \<Rightarrow> ForgeCredentials \<Rightarrow> string \<Rightarrow> PoolBalancerType \<Rightarrow> bool \<Rightarrow> (db, ForgeEntity) prog" where
  "CreateOrganization nm credentials webhookSecret poolBalancerType agentMode = (if webhookSecret = [] then m_throw (OtherError ''creating org: missing secret'')
     else create_entity OrganizationEntityType OrganizationPayload GetOrganizationByID (with_credentials credentials
       (new_entity ForgeEntityTypeOrganization [] nm (ep_Name (c_Endpoint credentials)) webhookSecret poolBalancerType agentMode)))"

text \<open>The enterprise is read back once more inside the transaction.\<close>

definition CreateEnterprise :: "string \<Rightarrow> ForgeCredentials \<Rightarrow> string \<Rightarrow> PoolBalancerType \<Rightarrow> bool \<Rightarrow> (db, ForgeEntity) prog" where
  "CreateEnterprise nm credentials webhookSecret poolBalancerType agentMode = (if webhookSecret = [] then m_throw (OtherError ''creating enterprise: missing secret'')
     else if c_ForgeType credentials \<noteq> GithubEndpointType then m_throw BadRequestError
     else create_entity EnterpriseEntityType EnterprisePayload GetEnterpriseByID (with_credentials credentials
       (new_entity ForgeEntityTypeEnterprise [] nm (ep_Name (c_Endpoint credentials)) webhookSecret poolBalancerType agentMode)))"

definition CreateForgeInstance :: "string \<Rightarrow> ForgeCredentials \<Rightarrow> string \<Rightarrow> PoolBalancerType \<Rightarrow> bool \<Rightarrow> (db, ForgeEntity) prog" where
  "CreateForgeInstance endpointName credentials webhookSecret poolBalancerType agentMode = (if webhookSecret = [] then m_throw (OtherError ''creating forge instance: missing secret'')
     else if c_ForgeType credentials \<noteq> GiteaEndpointType then m_throw BadRequestError
     else if ep_Name (c_Endpoint credentials) \<noteq> endpointName then m_throw BadRequestError
     else create_entity ForgeInstanceEntityType ForgeInstancePayload GetForgeInstanceByID (with_credentials credentials
       (new_entity ForgeEntityTypeInstance [] [] endpointName webhookSecret poolBalancerType agentMode)))"

subsubsection \<open>Deletion\<close>

text \<open>Pools and scale sets keep the row alive; jobs lose their reference.\<close>

definition entity_referenced :: "EntityRow \<Rightarrow> db \<Rightarrow> bool" where
  "entity_referenced r d \<longleftrightarrow> (case er_Type r of
     ForgeEntityTypeRepository \<Rightarrow> (\<exists>p \<in> set (db_pools d). pr_RepoID p = Some (er_ID r)) \<or> (\<exists>s \<in> set (db_scalesets d). sr_RepoID s = Some (er_ID r))
   | ForgeEntityTypeOrganization \<Rightarrow> (\<exists>p \<in> set (db_pools d). pr_OrgID p = Some (er_ID r)) \<or> (\<exists>s \<in> set (db_scalesets d). sr_OrgID s = Some (er_ID r))
   | ForgeEntityTypeEnterprise \<Rightarrow> (\<exists>p \<in> set (db_pools d). pr_EnterpriseID p = Some (er_ID r)) \<or> (\<exists>s \<in> set (db_scalesets d). sr_EnterpriseID s = Some (er_ID r))
   | ForgeEntityTypeInstance \<Rightarrow> (\<exists>p \<in> set (db_pools d). pr_ForgeInstanceID p = Some (er_ID r))
   | ForgeEntityTypeOther _ \<Rightarrow> False)"

definition forget_entity :: "EntityRow \<Rightarrow> WorkflowJob \<Rightarrow> WorkflowJob" where
  "forget_entity r j = (let clear = (\<lambda>x. if x = Some (er_ID r) then None else x) in case er_Type r of
     ForgeEntityTypeRepository \<Rightarrow> j\<lparr>jr_RepoID := clear (jr_RepoID j)\<rparr>
   | ForgeEntityTypeOrganization \<Rightarrow> j\<lparr>jr_OrgID := clear (jr_OrgID j)\<rparr>
   | ForgeEntityTypeEnterprise \<Rightarrow> j\<lparr>jr_EnterpriseID := clear (jr_EnterpriseID j)\<rparr>
   | ForgeEntityTypeInstance \<Rightarrow> j\<lparr>jr_ForgeInstanceID := clear (jr_ForgeInstanceID j)\<rparr>
   | ForgeEntityTypeOther _ \<Rightarrow> j)"

definition delete_entity_row :: "EntityRow \<Rightarrow> (db, unit) prog" where
  "delete_entity_row r d = (if entity_referenced r d then (Inl DatabaseError, d)
     else (Inr (), d\<lparr>db_entities := filter (\<lambda>x. \<not> same_row r x) (db_entities d), db_jobs := map (forget_entity r) (db_jobs d)\<rparr>))"

definition notify_deleted :: "DatabaseEntityType \<Rightarrow> (ForgeEntity \<Rightarrow> payload) \<Rightarrow> garm_error + ForgeEntity \<Rightarrow> (db, unit) prog" where
  "notify_deleted entityType wrap asParams = (case asParams of Inl e \<Rightarrow> m_ret () | Inr p \<Rightarrow> sendNotify entityType DeleteOperation (wrap p))"

definition loaded_for_delete :: "(db \<Rightarrow> EntityRow \<Rightarrow> garm_error + ForgeEntity) \<Rightarrow> (db \<Rightarrow> garm_error + EntityRow) \<Rightarrow> (db, EntityRow \<times> (garm_error + ForgeEntity)) prog" where
  "loaded_for_delete conv query = db_read (\<lambda>d. case query d of Inl e \<Rightarrow> Inl e | Inr r \<Rightarrow> Inr (r, conv d r))"

definition DeleteRepository :: "string \<Rightarrow> (db, unit) prog" where
  "DeleteRepository repoID = m_bind (loaded_for_delete sqlToCommonRepository (getRepoByID repoID)) (\<lambda>(r, asParams).
     m_seq (db_stmt (delete_entity_row r)) (notify_deleted RepositoryEntityType RepositoryPayload asParams))"

definition DeleteOrganization :: "string \<Rightarrow> (db, unit) prog" where
  "DeleteOrganization orgID = m_bind (loaded_for_delete sqlToCommonOrganization (getOrgByID orgID)) (\<lambda>(r, asParams).
     m_seq (db_stmt (delete_entity_row r)) (notify_deleted OrganizationEntityType OrganizationPayload asParams))"

text \<open>The next two functions do not name their result: the deferred call looks at the error of the load, which is \<^verbatim>\<open>nil\<close> by then,
  and notifies also when the deletion failed.\<close>

definition DeleteEnterprise :: "string \<Rightarrow> (db, unit) prog" where
  "DeleteEnterprise enterpriseID = m_bind (loaded_for_delete sqlToCommonEnterprise (getEnterpriseByID enterpriseID)) (\<lambda>(r, asParams).
     m_finally (db_stmt (delete_entity_row r)) (\<lambda>_. notify_deleted EnterpriseEntityType EnterprisePayload asParams))"

definition DeleteForgeInstance :: "string \<Rightarrow> (db, unit) prog" where
  "DeleteForgeInstance forgeInstanceID = m_bind (loaded_for_delete sqlToCommonForgeInstance (getForgeInstanceByID forgeInstanceID)) (\<lambda>(r, asParams).
     m_finally (db_stmt (delete_entity_row r)) (\<lambda>_. notify_deleted ForgeInstanceEntityType ForgeInstancePayload asParams))"

subsubsection \<open>Update\<close>

definition fetchCredentialsByType :: "Context \<Rightarrow> string \<Rightarrow> EndpointType \<Rightarrow> db \<Rightarrow> garm_error + CredentialsRow" where
  "fetchCredentialsByType ctx name forgeType d = (case forgeType of
     GithubEndpointType \<Rightarrow> getGithubCredentialsByName ctx name d
   | GiteaEndpointType \<Rightarrow> getGiteaCredentialsByName ctx name d
   | AutoEndpointType \<Rightarrow> Inl BadRequestError)"

definition updateEntityCredentials :: "Context \<Rightarrow> EntityRow \<Rightarrow> string \<Rightarrow> db \<Rightarrow> garm_error + (EntityRow \<Rightarrow> EntityRow) list" where
  "updateEntityCredentials ctx r credentialsName d = (if credentialsName = [] then Inr []
     else let forgeType = ep_EndpointType (endpoint_of (er_EndpointName r) d) in
       if er_EndpointName r = [] then Inl UnprocessableError
       else (case fetchCredentialsByType ctx credentialsName forgeType d of Inl e \<Rightarrow> Inl e
         | Inr creds \<Rightarrow> if cr_EndpointName creds = [] then Inl UnprocessableError
           else if cr_EndpointName creds \<noteq> er_EndpointName r then Inl BadRequestError
           else let credID = cr_ID creds in (case forgeType of
               GithubEndpointType \<Rightarrow> Inr (if er_Type r \<in> {ForgeEntityTypeRepository, ForgeEntityTypeOrganization, ForgeEntityTypeEnterprise} \<and>
                 er_CredentialsID r \<noteq> Some credID then [er_CredentialsID_update (\<lambda>_. Some credID)] else [])
             | GiteaEndpointType \<Rightarrow> Inr (if er_Type r \<in> {ForgeEntityTypeRepository, ForgeEntityTypeOrganization, ForgeEntityTypeInstance} \<and>
                 er_GiteaCredentialsID r \<noteq> Some credID then [er_GiteaCredentialsID_update (\<lambda>_. Some credID)] else [])
             | AutoEndpointType \<Rightarrow> Inl BadRequestError)))"

definition entity_updates :: "UpdateEntityParams \<Rightarrow> EntityRow \<Rightarrow> (EntityRow \<Rightarrow> EntityRow) list" where
  "entity_updates param r =
     (if uen_WebhookSecret param = [] then []
      else changed (Some (uen_WebhookSecret param)) (er_WebhookSecret r) (\<lambda>x. er_WebhookSecret_update (\<lambda>_. x))) @
     changed (uen_PoolManagerStatus param) (er_PoolManagerStatus r) (\<lambda>x. er_PoolManagerStatus_update (\<lambda>_. x)) @
     (if uen_PoolBalancerType param = PoolBalancerTypeNone then []
      else changed (Some (uen_PoolBalancerType param)) (er_PoolBalancerType r) (\<lambda>x. er_PoolBalancerType_update (\<lambda>_. x))) @
     changed (uen_AgentMode param) (er_AgentMode r) (\<lambda>x. er_AgentMode_update (\<lambda>_. x))"

definition update_entity_tx :: "(db \<Rightarrow> garm_error + EntityRow) \<Rightarrow> Context \<Rightarrow> UpdateEntityParams \<Rightarrow> (db, bool) prog" where
  "update_entity_tx query ctx param d = (case query d of Inl e \<Rightarrow> (Inl e, d)
     | Inr r \<Rightarrow> if er_EndpointName r = [] then (Inl UnprocessableError, d)
       else (case updateEntityCredentials ctx r (uen_CredentialsName param) d of Inl e \<Rightarrow> (Inl e, d)
         | Inr creds \<Rightarrow> let updates = creds @ entity_updates param r in
           if updates = [] then (Inr False, d)
           else (Inr True, d\<lparr>db_entities := upd_rows (same_row r)
             (\<lambda>_. fold id updates (r\<lparr>er_UpdatedAt := db_clock d\<rparr>)) (db_entities d)\<rparr>)))"

definition update_entity :: "DatabaseEntityType \<Rightarrow> (ForgeEntity \<Rightarrow> payload) \<Rightarrow> (db \<Rightarrow> EntityRow \<Rightarrow> garm_error + ForgeEntity) \<Rightarrow>
    (db \<Rightarrow> garm_error + EntityRow) \<Rightarrow> Context \<Rightarrow> UpdateEntityParams \<Rightarrow> (db, ForgeEntity) prog" where
  "update_entity entityType wrap conv query ctx param = m_bind (db_tx (update_entity_tx query ctx param)) (\<lambda>affected.
     m_bind (converted conv query) (\<lambda>newParams.
       m_seq (m_when affected (sendNotify entityType UpdateOperation (wrap newParams))) (m_ret newParams)))"

definition UpdateRepository :: "Context \<Rightarrow> string \<Rightarrow> UpdateEntityParams \<Rightarrow> (db, ForgeEntity) prog" where
  "UpdateRepository ctx repoID = update_entity RepositoryEntityType RepositoryPayload sqlToCommonRepository (getRepoByID repoID) ctx"
definition UpdateOrganization :: "Context \<Rightarrow> string \<Rightarrow> UpdateEntityParams \<Rightarrow> (db, ForgeEntity) prog" where
  "UpdateOrganization ctx orgID = update_entity OrganizationEntityType OrganizationPayload sqlToCommonOrganization (getOrgByID orgID) ctx"
definition UpdateEnterprise :: "Context \<Rightarrow> string \<Rightarrow> UpdateEntityParams \<Rightarrow> (db, ForgeEntity) prog" where
  "UpdateEnterprise ctx enterpriseID = update_entity EnterpriseEntityType EnterprisePayload sqlToCommonEnterprise (getEnterpriseByID enterpriseID) ctx"
definition UpdateForgeInstance :: "Context \<Rightarrow> string \<Rightarrow> UpdateEntityParams \<Rightarrow> (db, ForgeEntity) prog" where
  "UpdateForgeInstance ctx forgeInstanceID =
     update_entity ForgeInstanceEntityType ForgeInstancePayload sqlToCommonForgeInstance (getForgeInstanceByID forgeInstanceID) ctx"

definition HasEntitiesWithAgentModeEnabled :: "(db, bool) prog" where
  "HasEntitiesWithAgentModeEnabled = db_read (\<lambda>d. Inr (\<exists>r \<in> set (db_entities d). er_AgentMode r \<and>
     er_Type r \<in> {ForgeEntityTypeRepository, ForgeEntityTypeOrganization, ForgeEntityTypeEnterprise}))"

subsubsection \<open>Creation as the service asks for it\<close>

text \<open>The credentials are looked up by name, for the forge that was asked for or for the one that has them; a second row of the same
  name is refused (\<^verbatim>\<open>runner/common.go\<close>, \<^verbatim>\<open>runner/repositories.go\<close> and its companions).\<close>

definition ResolveForgeCredentialByName :: "Context \<Rightarrow> string \<Rightarrow> (db, ForgeCredentials) prog" where
  "ResolveForgeCredentialByName ctx name = m_bind (m_try (GetGithubCredentialsByName ctx name)) (\<lambda>github.
     case github of Inl e \<Rightarrow> if \<not> error_is e NotFoundError then m_throw e else
         m_bind (m_try (GetGiteaCredentialsByName ctx name)) (\<lambda>gitea. case gitea of
             Inl e \<Rightarrow> if \<not> error_is e NotFoundError then m_throw e else m_throw BadRequestError
           | Inr t \<Rightarrow> if c_ID t \<noteq> 0 then m_ret t else m_throw BadRequestError)
     | Inr g \<Rightarrow> m_bind (m_try (GetGiteaCredentialsByName ctx name)) (\<lambda>gitea. case gitea of
             Inl e \<Rightarrow> if \<not> error_is e NotFoundError then m_throw e else if c_ID g \<noteq> 0 then m_ret g else m_throw BadRequestError
           | Inr t \<Rightarrow> if c_ID g \<noteq> 0 \<and> c_ID t \<noteq> 0 then m_throw BadRequestError
               else if c_ID g \<noteq> 0 then m_ret g else if c_ID t \<noteq> 0 then m_ret t else m_throw BadRequestError))"

definition entity_credentials_by_name :: "EndpointType \<Rightarrow> Context \<Rightarrow> string \<Rightarrow> (db, ForgeCredentials) prog" where
  "entity_credentials_by_name forge ctx name = m_bind (m_try (case forge of
       GithubEndpointType \<Rightarrow> GetGithubCredentialsByName ctx name
     | GiteaEndpointType \<Rightarrow> GetGiteaCredentialsByName ctx name
     | AutoEndpointType \<Rightarrow> ResolveForgeCredentialByName ctx name)) (\<lambda>r. case r of Inl _ \<Rightarrow> m_throw BadRequestError | Inr creds \<Rightarrow> m_ret creds)"

text \<open>Go on when the lookup finds nothing.\<close>

definition unless_found :: "(db, ForgeEntity) prog \<Rightarrow> (db, ForgeEntity) prog \<Rightarrow> (db, ForgeEntity) prog" where
  "unless_found lookup m = m_bind (m_try lookup) (\<lambda>r. case r of Inr _ \<Rightarrow> m_throw ConflictError
     | Inl e \<Rightarrow> if error_is e NotFoundError then m else m_throw e)"

record CreateEntityParams =
  cen_Owner :: string
  cen_Name :: string
  cen_EndpointName :: string
  cen_CredentialsName :: string
  cen_WebhookSecret :: string
  cen_PoolBalancerType :: PoolBalancerType
  cen_ForgeType :: EndpointType
  cen_AgentMode :: bool

definition add_repository :: "Context \<Rightarrow> CreateEntityParams \<Rightarrow> (db, ForgeEntity) prog" where
  "add_repository ctx param = m_bind (entity_credentials_by_name (cen_ForgeType param) ctx (cen_CredentialsName param)) (\<lambda>creds.
     unless_found (GetRepository (cen_Owner param) (cen_Name param) (ep_Name (c_Endpoint creds)))
       (CreateRepository (cen_Owner param) (cen_Name param) creds (cen_WebhookSecret param) (cen_PoolBalancerType param) (cen_AgentMode param)))"

definition add_organization :: "Context \<Rightarrow> CreateEntityParams \<Rightarrow> (db, ForgeEntity) prog" where
  "add_organization ctx param = m_bind (entity_credentials_by_name (cen_ForgeType param) ctx (cen_CredentialsName param)) (\<lambda>creds.
     unless_found (GetOrganization (cen_Name param) (ep_Name (c_Endpoint creds)))
       (CreateOrganization (cen_Name param) creds (cen_WebhookSecret param) (cen_PoolBalancerType param) (cen_AgentMode param)))"

definition add_enterprise :: "Context \<Rightarrow> CreateEntityParams \<Rightarrow> (db, ForgeEntity) prog" where
  "add_enterprise ctx param = m_bind (entity_credentials_by_name GithubEndpointType ctx (cen_CredentialsName param)) (\<lambda>creds.
     unless_found (GetEnterprise (cen_Name param) (ep_Name (c_Endpoint creds)))
       (CreateEnterprise (cen_Name param) creds (cen_WebhookSecret param) (cen_PoolBalancerType param) (cen_AgentMode param)))"

definition add_forge_instance :: "Context \<Rightarrow> CreateEntityParams \<Rightarrow> (db, ForgeEntity) prog" where
  "add_forge_instance ctx param = (if cen_ForgeType param \<noteq> GiteaEndpointType then m_throw BadRequestError
     else m_bind (entity_credentials_by_name GiteaEndpointType ctx (cen_CredentialsName param)) (\<lambda>creds.
       if ep_Name (c_Endpoint creds) \<noteq> cen_EndpointName param then m_throw BadRequestError
       else unless_found (GetForgeInstance (cen_EndpointName param))
         (CreateForgeInstance (cen_EndpointName param) creds (cen_WebhookSecret param) (cen_PoolBalancerType param) (cen_AgentMode param))))"

end
