(* ===== verification/Garm_Entities_Spec.thy ===== *)
theory Garm_Entities_Spec
  imports Garm_Entities
begin

text \<open>
  What the calls on endpoints, credentials and entities keep: every set of credentials has its endpoint and every repository, organization and
  enterprise has exactly one set of credentials, of its own endpoint and forge. So these entities can always be loaded. Forge instances are not
  protected in the same way; the last part shows what happens to them.
\<close>

subsection \<open>References\<close>

text \<open>Repositories, organizations and enterprises have exactly one set of credentials: it exists, belongs to the endpoint of the entity
  and is of its forge.\<close>

definition has_credentials :: "db \<Rightarrow> EntityRow \<Rightarrow> bool" where
  "has_credentials d r \<longleftrightarrow> er_WebhookSecret r \<noteq> [] \<and> (\<exists>c \<in> set (db_credentials d). cr_EndpointName c = er_EndpointName r \<and>
     (cr_ForgeType c = GithubEndpointType \<and> er_CredentialsID r = Some (cr_ID c) \<and> er_GiteaCredentialsID r = None \<or>
      cr_ForgeType c = GiteaEndpointType \<and> er_GiteaCredentialsID r = Some (cr_ID c) \<and> er_CredentialsID r = None \<and>
        er_Type r \<noteq> ForgeEntityTypeEnterprise))"

definition owned :: "EntityRow \<Rightarrow> bool" where
  "owned r \<longleftrightarrow> er_Type r \<in> {ForgeEntityTypeRepository, ForgeEntityTypeOrganization, ForgeEntityTypeEnterprise}"

definition has_endpoint :: "db \<Rightarrow> CredentialsRow \<Rightarrow> bool" where
  "has_endpoint d c \<longleftrightarrow> cr_Payload c \<noteq> [] \<and> cr_EndpointName c \<noteq> [] \<and>
     (\<exists>ep \<in> set (db_endpoints d). ep_Name ep = cr_EndpointName c \<and> ep_EndpointType ep = cr_ForgeType c)"

definition tables_ok :: "db \<Rightarrow> bool" where
  "tables_ok d \<longleftrightarrow> distinct (map (\<lambda>ep. to_lower (ep_Name ep)) (db_endpoints d)) \<and>
     distinct (map (\<lambda>c. (cr_ForgeType c, cr_ID c)) (db_credentials d)) \<and>
     (\<forall>c \<in> set (db_credentials d). cr_ID c < db_next_credentials d (cr_ForgeType c) \<and> cr_ForgeType c \<noteq> AutoEndpointType)"

definition refs_ok :: "db \<Rightarrow> bool" where
  "refs_ok d \<longleftrightarrow> tables_ok d \<and> (\<forall>c \<in> set (db_credentials d). has_endpoint d c) \<and>
     (\<forall>r \<in> set (db_entities d). owned r \<longrightarrow> has_credentials d r)"

definition refs_kept :: "db \<Rightarrow> db \<Rightarrow> bool" where
  "refs_kept d d' \<longleftrightarrow> (refs_ok d \<longrightarrow> refs_ok d')"

lemmas refs_defs = refs_ok_def tables_ok_def has_endpoint_def has_credentials_def

lemma refs_ok_ignores [simp]:
  "refs_ok (d\<lparr>db_faults := fs\<rparr>) = refs_ok d" "refs_ok (d\<lparr>db_uuid_next := n\<rparr>) = refs_ok d"
  "refs_ok (d\<lparr>db_notifications := ns\<rparr>) = refs_ok d"
  by (simp_all add: refs_defs)

interpretation rfk: db_order refs_kept
  by unfold_locales (auto simp: refs_kept_def)

lemma refs_okD:
  assumes "refs_ok d"
  shows "tables_ok d" and "c \<in> set (db_credentials d) \<Longrightarrow> has_endpoint d c"
    and "r \<in> set (db_entities d) \<Longrightarrow> owned r \<Longrightarrow> has_credentials d r"
  using assms by (auto simp: refs_ok_def)

lemma endpoint_unique:
  "tables_ok d \<Longrightarrow> ep \<in> set (db_endpoints d) \<Longrightarrow> ep' \<in> set (db_endpoints d) \<Longrightarrow> to_lower (ep_Name ep) = to_lower (ep_Name ep') \<Longrightarrow> ep = ep'"
  by (auto simp: tables_ok_def distinct_map inj_on_def)

lemma credentials_unique:
  "tables_ok d \<Longrightarrow> c \<in> set (db_credentials d) \<Longrightarrow> c' \<in> set (db_credentials d) \<Longrightarrow> cr_ForgeType c = cr_ForgeType c' \<Longrightarrow> cr_ID c = cr_ID c' \<Longrightarrow> c = c'"
  by (auto simp: tables_ok_def distinct_map inj_on_def)

lemma endpoint_of_mem:
  assumes "tables_ok d" "ep \<in> set (db_endpoints d)"
  shows "endpoint_of (ep_Name ep) d = ep"
proof -
  obtain x where x: "List.find (\<lambda>x. ep_Name x = ep_Name ep) (db_endpoints d) = Some x"
    using assms(2) by (cases "List.find (\<lambda>x. ep_Name x = ep_Name ep) (db_endpoints d)") (auto simp: find_None_iff)
  from find_SomeD [OF x] endpoint_unique [OF assms(1), of x ep] assms(2) have "x = ep" by simp
  with x show ?thesis by (simp add: endpoint_of_def)
qed

lemma find_endpointD: "find_endpoint forge name d = Some ep \<Longrightarrow> ep \<in> set (db_endpoints d) \<and> ep_EndpointType ep = forge \<and> to_lower (ep_Name ep) = to_lower name"
  by (auto simp: find_endpoint_def dest: find_SomeD)

text \<open>Folding column updates that keep a view of the row.\<close>

lemma fold_updates_keep:
  assumes "\<And>f r. f \<in> set fs \<Longrightarrow> view (f r) = view r"
  shows "view (fold id fs r) = view r"
  using assms by (induction fs arbitrary: r) auto

lemma changed_keeps: "f \<in> set (changed new old put) \<Longrightarrow> (\<And>x r. view (put x r) = view r) \<Longrightarrow> view (f r) = view r"
  by (auto simp: changed_def split: option.splits if_splits)

subsubsection \<open>Endpoints\<close>

lemma refs_add_endpoint:
  assumes "refs_ok d" "\<forall>x \<in> set (db_endpoints d). to_lower (ep_Name x) \<noteq> to_lower (ep_Name row)"
  shows "refs_ok (d\<lparr>db_endpoints := db_endpoints d @ [row]\<rparr>)"
proof -
  have "has_endpoint (d\<lparr>db_endpoints := db_endpoints d @ [row]\<rparr>) c" if "has_endpoint d c" for c
    using that by (auto simp: has_endpoint_def)
  moreover have "has_credentials (d\<lparr>db_endpoints := db_endpoints d @ [row]\<rparr>) = has_credentials d" by (simp add: fun_eq_iff has_credentials_def)
  ultimately show ?thesis using assms by (auto simp: refs_ok_def tables_ok_def)
qed

lemma insert_endpoint_kept: "steps refs_kept (insert_endpoint ep)"
  by (rule stepsI) (auto simp: insert_endpoint_def Let_def refs_kept_def intro: refs_add_endpoint)

lemma endpoint_updates_keep:
  assumes "f \<in> set (url_updates forge param ep @ other_updates forge param ep)"
  shows "(ep_Name (f r), ep_EndpointType (f r)) = (ep_Name r, ep_EndpointType r)"
  using assms unfolding url_updates_def other_updates_def
  by (auto simp: changed_def split: if_splits option.splits)

lemma refs_upd_endpoint:
  assumes "refs_ok d" "ep \<in> set (db_endpoints d)" "ep_Name ep' = ep_Name ep" "ep_EndpointType ep' = ep_EndpointType ep"
  shows "refs_ok (d\<lparr>db_endpoints := upd_rows (\<lambda>x. ep_Name x = ep_Name ep) (\<lambda>_. ep') (db_endpoints d)\<rparr>)" (is "refs_ok ?d")
proof -
  have same: "x = ep" if "x \<in> set (db_endpoints d)" "ep_Name x = ep_Name ep" for x
    using that endpoint_unique [OF refs_okD(1) [OF assms(1)], of x ep] assms(2) by simp
  have "has_endpoint ?d c" if "has_endpoint d c" for c
  proof -
    from that obtain x where x: "x \<in> set (db_endpoints d)" "ep_Name x = cr_EndpointName c" "ep_EndpointType x = cr_ForgeType c"
      by (auto simp: has_endpoint_def)
    let ?y = "if ep_Name x = ep_Name ep then ep' else x"
    have "?y \<in> set (db_endpoints ?d)" using x(1) by (auto simp: set_upd_rows)
    moreover have "ep_Name ?y = cr_EndpointName c" "ep_EndpointType ?y = cr_ForgeType c" using x same [OF x(1)] assms(3,4) by auto
    ultimately show ?thesis using that unfolding has_endpoint_def by blast
  qed
  moreover have "has_credentials ?d = has_credentials d" by (simp add: fun_eq_iff has_credentials_def)
  moreover have "map (\<lambda>ep. to_lower (ep_Name ep)) (db_endpoints ?d) = map (\<lambda>ep. to_lower (ep_Name ep)) (db_endpoints d)"
    by (simp, rule map_upd_rows_frame, simp add: assms(3))
  ultimately show ?thesis using assms(1) by (simp add: refs_ok_def tables_ok_def)
qed

lemma update_endpoint_kept: "steps refs_kept (update_endpoint_tx forge name param)"
proof (rule stepsI)
  fix d
  show "refs_kept d (snd (update_endpoint_tx forge name param d))"
  proof (cases "find_endpoint forge name d")
    case (Some ep)
    define ups where "ups = url_updates forge param ep @ other_updates forge param ep"
    define d' where "d' = d\<lparr>db_endpoints := upd_rows (\<lambda>x. ep_Name x = ep_Name ep) (\<lambda>_. fold id ups (ep\<lparr>ep_UpdatedAt := db_clock d\<rparr>)) (db_endpoints d)\<rparr>"
    have "(ep_Name (fold id ups r), ep_EndpointType (fold id ups r)) = (ep_Name r, ep_EndpointType r)" for r
      unfolding ups_def by (rule fold_updates_keep [where view = "\<lambda>x. (ep_Name x, ep_EndpointType x)"]) (rule endpoint_updates_keep)
    then have "refs_ok d \<Longrightarrow> refs_ok d'" unfolding d'_def using find_endpointD [OF Some] by (intro refs_upd_endpoint) auto
    moreover have "update_endpoint_tx forge name param d =
      (if endpoint_credentials forge (ep_Name ep) d \<noteq> [] \<and> url_updates forge param ep \<noteq> [] then (Inl BadRequestError, d)
       else if ups = [] then (Inr (ep, False), d) else (Inr (fold id ups (ep\<lparr>ep_UpdatedAt := db_clock d\<rparr>), True), d'))"
      by (simp only: update_endpoint_tx_def Some option.case Let_def ups_def d'_def)
    ultimately show ?thesis by (simp add: refs_kept_def)
  qed (simp add: update_endpoint_tx_def refs_kept_def)
qed

text \<open>An endpoint that neither credentials nor repositories, organizations and enterprises refer to may go.\<close>

lemma refs_remove_endpoint:
  assumes "refs_ok d" "ep \<in> set (db_endpoints d)" "endpoint_credentials (ep_EndpointType ep) (ep_Name ep) d = []"
  shows "refs_ok (remove_endpoint ep d)"
proof -
  have unused: "cr_EndpointName c \<noteq> ep_Name ep" if c: "c \<in> set (db_credentials d)" for c
  proof
    assume eq: "cr_EndpointName c = ep_Name ep"
    from refs_okD(2) [OF assms(1) c] obtain x where "x \<in> set (db_endpoints d)" "ep_Name x = cr_EndpointName c" "ep_EndpointType x = cr_ForgeType c"
      by (auto simp: has_endpoint_def)
    with eq endpoint_unique [OF refs_okD(1) [OF assms(1)], of x ep] assms(2) have "cr_ForgeType c = ep_EndpointType ep" by simp
    with c eq assms(3) show False by (auto simp: endpoint_credentials_def filter_empty_conv)
  qed
  have ends: "has_endpoint (remove_endpoint ep d) c" if "c \<in> set (db_credentials d)" for c
    using refs_okD(2) [OF assms(1) that] unused [OF that] by (auto simp: has_endpoint_def remove_endpoint_def)
  have ents: "has_credentials (remove_endpoint ep d) r" if r: "r \<in> set (db_entities (remove_endpoint ep d))" "owned r" for r
  proof -
    from r obtain r0 where r0: "r0 \<in> set (db_entities d)" "r = (if er_EndpointName r0 = ep_Name ep then r0\<lparr>er_EndpointName := []\<rparr> else r0)"
      by (auto simp: remove_endpoint_def set_upd_rows)
    then have "owned r0" using r(2) by (auto simp: owned_def split: if_splits)
    from refs_okD(3) [OF assms(1) r0(1) this] have c: "has_credentials d r0" .
    then have "er_EndpointName r0 \<noteq> ep_Name ep" using unused by (auto simp: has_credentials_def)
    with c r0(2) show ?thesis by (simp add: has_credentials_def remove_endpoint_def)
  qed
  have "tables_ok (remove_endpoint ep d)"
    using refs_okD(1) [OF assms(1)] by (auto simp: tables_ok_def remove_endpoint_def distinct_map_filter)
  moreover have "db_credentials (remove_endpoint ep d) = db_credentials d" by (simp add: remove_endpoint_def)
  ultimately show ?thesis using ends ents by (simp add: refs_ok_def)
qed

lemma delete_endpoint_kept: "steps refs_kept (delete_endpoint forge types name)"
  unfolding delete_endpoint_def
  by (intro rfk.db_rules stepsI) (auto simp: refs_kept_def split: option.splits dest: find_endpointD intro: refs_remove_endpoint)

subsubsection \<open>Credentials\<close>

lemma has_credentials_mono:
  assumes "has_credentials d r" "set (db_credentials d) \<subseteq> set (db_credentials d')"
  shows "has_credentials d' r"
  using assms unfolding has_credentials_def by blast

lemma refs_add_credentials:
  assumes "refs_ok d" "has_endpoint d c" "cr_ID c = db_next_credentials d (cr_ForgeType c)" "cr_ForgeType c \<noteq> AutoEndpointType"
  shows "refs_ok (append_credentials c d)"
proof -
  let ?d = "append_credentials c d"
  have fresh: "(cr_ForgeType x, cr_ID x) \<noteq> (cr_ForgeType c, cr_ID c)" if "x \<in> set (db_credentials d)" for x
    using that refs_okD(1) [OF assms(1)] assms(3) by (auto simp: tables_ok_def)
  have "tables_ok ?d" using refs_okD(1) [OF assms(1)] fresh assms(3,4) by (fastforce simp: tables_ok_def append_credentials_def)
  moreover have "has_endpoint ?d x" if "x \<in> set (db_credentials ?d)" for x
    using that assms(2) refs_okD(2) [OF assms(1)] by (auto simp: has_endpoint_def append_credentials_def)
  moreover have "has_credentials ?d r" if "r \<in> set (db_entities ?d)" "owned r" for r
    using that by (intro has_credentials_mono [OF refs_okD(3) [OF assms(1)]]) (auto simp: append_credentials_def)
  ultimately show ?thesis by (simp add: refs_ok_def)
qed

lemma insert_credentials_kept:
  assumes "ccp_Endpoint param \<noteq> []" "forge \<noteq> AutoEndpointType"
  shows "steps refs_kept (insert_credentials forge userID param)"
proof (rule stepsI)
  fix d
  show "refs_kept d (snd (insert_credentials forge userID param d))"
  proof (cases "find_endpoint forge (ccp_Endpoint param) d")
    case (Some ep)
    note ep = find_endpointD [OF Some]
    then have "ep_Name ep \<noteq> []" using assms(1) by (auto simp: to_lower_def)
    then have ok: "has_endpoint d (new_credentials forge userID param payload ep d)" if "sealed_payload forge param = Inr payload" for payload
      using that ep by (auto simp: has_endpoint_def new_credentials_def sealed_payload_def marshalAndSeal_def split: if_splits)
    have "refs_ok d \<Longrightarrow> refs_ok (append_credentials (new_credentials forge userID param payload ep d) d)"
      if "sealed_payload forge param = Inr payload" for payload
      by (rule refs_add_credentials [OF _ ok [OF that]]) (simp_all add: new_credentials_def assms(2))
    with Some show ?thesis by (auto simp: insert_credentials_def refs_kept_def Let_def split: sum.splits)
  qed (simp add: insert_credentials_def refs_kept_def)
qed

lemma credentials_by_idD:
  "credentials_by_id forge ctx i d = Inr c \<Longrightarrow> c \<in> set (db_credentials d) \<and> cr_ForgeType c = forge \<and> cr_ID c = i"
  by (auto simp: credentials_by_id_def option_or_def dest: find_SomeD split: sum.splits option.splits)

lemma in_changed: "f \<in> set (changed new old put) \<longleftrightarrow> (\<exists>x. new = Some x \<and> x \<noteq> old \<and> f = put x)"
  by (auto simp: changed_def split: option.splits)

lemma credentials_updates_set:
  "credentials_updates forge param c = Inr fs \<Longrightarrow>
   set fs \<subseteq> set (common_updates forge param c) \<union> set (payload_updates (ucp_PAT param)) \<union> set (payload_updates (ucp_App param))"
  by (auto simp: credentials_updates_def split: if_splits)

lemma common_updates_keep:
  "f \<in> set (common_updates forge param c) \<Longrightarrow> cr_ForgeType (f r) = cr_ForgeType r \<and> cr_ID (f r) = cr_ID r \<and>
     cr_EndpointName (f r) = cr_EndpointName r \<and> cr_Payload (f r) = cr_Payload r"
  by (auto simp: common_updates_def in_changed split: if_splits)

lemma payload_updates_keep:
  "f \<in> set (payload_updates t) \<Longrightarrow> cr_ForgeType (f r) = cr_ForgeType r \<and> cr_ID (f r) = cr_ID r \<and>
     cr_EndpointName (f r) = cr_EndpointName r \<and> cr_Payload (f r) \<noteq> []"
  by (auto simp: payload_updates_def marshalAndSeal_def split: option.splits)

lemma credentials_updates_keep:
  assumes "credentials_updates forge param c = Inr fs" "f \<in> set fs"
  shows "(cr_ForgeType (f r), cr_ID (f r), cr_EndpointName (f r)) = (cr_ForgeType r, cr_ID r, cr_EndpointName r)"
    and "cr_Payload r \<noteq> [] \<Longrightarrow> cr_Payload (f r) \<noteq> []"
  using credentials_updates_set [OF assms(1)] assms(2) common_updates_keep [of f forge param c r]
    payload_updates_keep [of f "ucp_PAT param" r] payload_updates_keep [of f "ucp_App param" r] by auto

lemma credentials_updates_fold:
  assumes "credentials_updates forge param c = Inr fs"
  shows "cr_ForgeType (fold id fs r) = cr_ForgeType r" "cr_ID (fold id fs r) = cr_ID r" "cr_EndpointName (fold id fs r) = cr_EndpointName r"
    "cr_Payload r \<noteq> [] \<Longrightarrow> cr_Payload (fold id fs r) \<noteq> []"
proof -
  have "(cr_ForgeType (fold id fs r), cr_ID (fold id fs r), cr_EndpointName (fold id fs r)) = (cr_ForgeType r, cr_ID r, cr_EndpointName r)"
    by (rule fold_updates_keep [where view = "\<lambda>x. (cr_ForgeType x, cr_ID x, cr_EndpointName x)"]) (rule credentials_updates_keep(1) [OF assms])
  then show "cr_ForgeType (fold id fs r) = cr_ForgeType r" "cr_ID (fold id fs r) = cr_ID r" "cr_EndpointName (fold id fs r) = cr_EndpointName r" by simp_all
  have "cr_Payload (fold id gs r) \<noteq> []" if "set gs \<subseteq> set fs" "cr_Payload r \<noteq> []" for gs
    using that by (induction gs arbitrary: r) (auto dest: credentials_updates_keep(2) [OF assms])
  then show "cr_Payload r \<noteq> [] \<Longrightarrow> cr_Payload (fold id fs r) \<noteq> []" by blast
qed

lemma refs_upd_credentials:
  assumes "refs_ok d" "c \<in> set (db_credentials d)" "cr_ForgeType c' = cr_ForgeType c" "cr_ID c' = cr_ID c" "cr_EndpointName c' = cr_EndpointName c"
    "cr_Payload c' \<noteq> []"
  shows "refs_ok (d\<lparr>db_credentials := upd_rows (\<lambda>x. cr_ForgeType x = cr_ForgeType c \<and> cr_ID x = cr_ID c) (\<lambda>_. c') (db_credentials d)\<rparr>)" (is "refs_ok ?d")
proof -
  let ?f = "\<lambda>x. if cr_ForgeType x = cr_ForgeType c \<and> cr_ID x = cr_ID c then c' else x"
  have rows: "set (db_credentials ?d) = ?f ` set (db_credentials d)" by (simp add: set_upd_rows)
  have f: "cr_ForgeType (?f x) = cr_ForgeType x \<and> cr_ID (?f x) = cr_ID x \<and> cr_EndpointName (?f x) = cr_EndpointName x"
    if "x \<in> set (db_credentials d)" for x
    using that assms credentials_unique [OF refs_okD(1) [OF assms(1)], of x c] by auto
  have "has_endpoint ?d y" if y: "y \<in> set (db_credentials ?d)" for y
  proof -
    from y rows obtain x where x: "x \<in> set (db_credentials d)" "y = ?f x" by auto
    from refs_okD(2) [OF assms(1) x(1)] f [OF x(1)] assms(6) x(2) show ?thesis by (auto simp: has_endpoint_def)
  qed
  moreover have "has_credentials ?d r" if "r \<in> set (db_entities ?d)" "owned r" for r
  proof -
    from that refs_okD(3) [OF assms(1), of r] obtain x where x: "x \<in> set (db_credentials d)" "er_WebhookSecret r \<noteq> []"
      "cr_EndpointName x = er_EndpointName r" "cr_ForgeType x = GithubEndpointType \<and> er_CredentialsID r = Some (cr_ID x) \<and> er_GiteaCredentialsID r = None \<or>
        cr_ForgeType x = GiteaEndpointType \<and> er_GiteaCredentialsID r = Some (cr_ID x) \<and> er_CredentialsID r = None \<and> er_Type r \<noteq> ForgeEntityTypeEnterprise"
      by (auto simp: has_credentials_def)
    define y where "y = ?f x"
    have y: "y \<in> set (db_credentials ?d)" using x(1) rows unfolding y_def by blast
    from f [OF x(1)] have "cr_ForgeType y = cr_ForgeType x" "cr_ID y = cr_ID x" "cr_EndpointName y = cr_EndpointName x" by (simp_all add: y_def)
    with x(2-4) show ?thesis unfolding has_credentials_def by (intro conjI bexI [OF _ y]) auto
  qed
  moreover have "tables_ok ?d"
  proof -
    have "map (\<lambda>c. (cr_ForgeType c, cr_ID c)) (db_credentials ?d) = map (\<lambda>c. (cr_ForgeType c, cr_ID c)) (db_credentials d)"
      by (simp, rule map_upd_rows_frame, simp add: assms)
    moreover have "cr_ID y < db_next_credentials d (cr_ForgeType y) \<and> cr_ForgeType y \<noteq> AutoEndpointType" if "y \<in> set (db_credentials ?d)" for y
    proof -
      from that rows obtain x where x: "x \<in> set (db_credentials d)" "y = ?f x" by auto
      with f [OF x(1)] have "cr_ForgeType y = cr_ForgeType x" "cr_ID y = cr_ID x" by simp_all
      with x(1) refs_okD(1) [OF assms(1)] show ?thesis by (simp add: tables_ok_def)
    qed
    ultimately show ?thesis using refs_okD(1) [OF assms(1)] by (simp add: tables_ok_def)
  qed
  ultimately show ?thesis by (simp add: refs_ok_def)
qed

lemma update_credentials_kept: "steps refs_kept (update_credentials_tx forge ctx i param)"
proof (rule stepsI)
  fix d
  show "refs_kept d (snd (update_credentials_tx forge ctx i param d))"
  proof (cases "credentials_by_id forge ctx i d")
    case (Inr c)
    note c = credentials_by_idD [OF this]
    show ?thesis
    proof (cases "credentials_updates forge param c")
      case (Inr fs)
      define c' where "c' = fold id fs (c\<lparr>cr_UpdatedAt := db_clock d\<rparr>)"
      have "refs_ok (d\<lparr>db_credentials := upd_rows (\<lambda>x. cr_ForgeType x = cr_ForgeType c \<and> cr_ID x = cr_ID c) (\<lambda>_. c') (db_credentials d)\<rparr>)" if "refs_ok d"
        using that c refs_okD(2) [OF that, of c] unfolding c'_def
        by (intro refs_upd_credentials) (auto simp: credentials_updates_fold [OF Inr] has_endpoint_def intro!: credentials_updates_fold(4) [OF Inr])
      with c show ?thesis
        by (simp add: update_credentials_tx_def \<open>credentials_by_id forge ctx i d = Inr c\<close> Inr Let_def refs_kept_def c'_def [symmetric])
    qed (simp add: update_credentials_tx_def Inr refs_kept_def)
  qed (simp add: update_credentials_tx_def refs_kept_def)
qed

text \<open>Credentials that no repository, organization or enterprise uses may go.\<close>

lemma refs_remove_credentials:
  assumes "refs_ok d" "\<not> credentials_used forge types i d" "forge \<noteq> AutoEndpointType"
    "set types \<supseteq> {ForgeEntityTypeRepository, ForgeEntityTypeOrganization}" "forge = GithubEndpointType \<Longrightarrow> ForgeEntityTypeEnterprise \<in> set types"
  shows "refs_ok (remove_credentials forge i d)"
proof -
  let ?d = "remove_credentials forge i d"
  have rows: "set (db_credentials ?d) = {c \<in> set (db_credentials d). \<not> (cr_ForgeType c = forge \<and> cr_ID c = i)}"
    by (auto simp: remove_credentials_def)
  have "has_credentials ?d r" if r: "r \<in> set (db_entities ?d)" "owned r" for r
  proof -
    from r(1) obtain r0 where r0: "r0 \<in> set (db_entities d)" "r = drop_credentials forge i r0" by (auto simp: remove_credentials_def)
    have "owned r0" using r(2) r0(2) by (auto simp: drop_credentials_def owned_def split: if_splits)
    from refs_okD(3) [OF assms(1) r0(1) this] obtain c where c: "c \<in> set (db_credentials d)" "er_WebhookSecret r0 \<noteq> []"
      "cr_EndpointName c = er_EndpointName r0" "cr_ForgeType c = GithubEndpointType \<and> er_CredentialsID r0 = Some (cr_ID c) \<and> er_GiteaCredentialsID r0 = None \<or>
        cr_ForgeType c = GiteaEndpointType \<and> er_GiteaCredentialsID r0 = Some (cr_ID c) \<and> er_CredentialsID r0 = None \<and> er_Type r0 \<noteq> ForgeEntityTypeEnterprise"
      by (auto simp: has_credentials_def)
    have used: "entity_credentials (cr_ForgeType c) r0 = Some (cr_ID c)" using c(4) by (auto simp: entity_credentials_def)
    have "er_Type r0 \<in> set types" if "cr_ForgeType c = forge"
      using that c(4) \<open>owned r0\<close> assms(4,5) by (auto simp: owned_def)
    with used assms(2) r0(1) have other: "\<not> (cr_ForgeType c = forge \<and> cr_ID c = i)" by (auto simp: credentials_used_def)
    have "r = r0" using r0(2) c(4) other assms(3) by (cases forge) (auto simp: drop_credentials_def entity_credentials_def)
    with c other rows show ?thesis unfolding has_credentials_def by blast
  qed
  moreover have "has_endpoint ?d c" if "c \<in> set (db_credentials ?d)" for c
    using that rows refs_okD(2) [OF assms(1), of c] by (auto simp: has_endpoint_def remove_credentials_def)
  moreover have "tables_ok ?d" using refs_okD(1) [OF assms(1)] by (auto simp: tables_ok_def remove_credentials_def distinct_map_filter)
  ultimately show ?thesis by (simp add: refs_ok_def)
qed

lemma delete_credentials_kept:
  assumes "forge \<noteq> AutoEndpointType" "set types \<supseteq> {ForgeEntityTypeRepository, ForgeEntityTypeOrganization}"
    "forge = GithubEndpointType \<Longrightarrow> ForgeEntityTypeEnterprise \<in> set types"
  shows "steps refs_kept (delete_credentials_tx forge types ctx i)"
  using assms(2) by (intro stepsI) (auto simp: delete_credentials_tx_def refs_kept_def split: sum.splits option.splits intro!: refs_remove_credentials assms(1,3))

subsubsection \<open>Entities\<close>

text \<open>What a caller holds after reading credentials: they are still a row of the store, of that forge and endpoint.\<close>

definition current :: "ForgeCredentials \<Rightarrow> db \<Rightarrow> bool" where
  "current creds d \<longleftrightarrow> (\<exists>c \<in> set (db_credentials d). c_ID creds = cr_ID c \<and> c_ForgeType creds = cr_ForgeType c \<and>
     ep_Name (c_Endpoint creds) = cr_EndpointName c)"

definition refs_kept_with :: "ForgeCredentials \<Rightarrow> db \<Rightarrow> db \<Rightarrow> bool" where
  "refs_kept_with creds d d' \<longleftrightarrow> (refs_ok d \<and> current creds d \<longrightarrow> refs_ok d' \<and> current creds d')"

lemma current_ignores [simp]:
  "current creds (d\<lparr>db_faults := fs\<rparr>) = current creds d" "current creds (d\<lparr>db_uuid_next := n\<rparr>) = current creds d"
  "current creds (d\<lparr>db_notifications := ns\<rparr>) = current creds d"
  by (simp_all add: current_def)

interpretation rfw: db_order "refs_kept_with creds" for creds
  by unfold_locales (auto simp: refs_kept_with_def)

lemma endpoint_of_credentials:
  assumes "refs_ok d" "c \<in> set (db_credentials d)"
  shows "ep_Name (endpoint_of (cr_EndpointName c) d) = cr_EndpointName c" "ep_EndpointType (endpoint_of (cr_EndpointName c) d) = cr_ForgeType c"
proof -
  from refs_okD(2) [OF assms] obtain ep where ep: "ep \<in> set (db_endpoints d)" "ep_Name ep = cr_EndpointName c" "ep_EndpointType ep = cr_ForgeType c"
    by (auto simp: has_endpoint_def)
  with endpoint_of_mem [OF refs_okD(1) [OF assms(1)] ep(1)]
  show "ep_Name (endpoint_of (cr_EndpointName c) d) = cr_EndpointName c" "ep_EndpointType (endpoint_of (cr_EndpointName c) d) = cr_ForgeType c"
    by simp_all
qed

lemma sqlToCommonGithubEndpoint_keeps [simp]:
  "ep_Name (sqlToCommonGithubEndpoint ep) = ep_Name ep" "ep_EndpointType (sqlToCommonGithubEndpoint ep) = ep_EndpointType ep"
  by (simp_all add: sqlToCommonGithubEndpoint_def)

lemma converted_current:
  assumes "refs_ok d" "c \<in> set (db_credentials d)"
    "sqlToCommonForgeCredentials d (Some c) = Inr creds \<or> sqlGiteaToCommonForgeCredentials d (Some c) = Inr creds"
  shows "current creds d"
  unfolding current_def by (rule bexI [OF _ assms(2)])
    (use assms(3) endpoint_of_credentials [OF assms(1,2)] in \<open>auto simp: sqlToCommonForgeCredentials_def sqlGiteaToCommonForgeCredentials_def Let_def split: if_splits\<close>)

lemma credentials_by_nameD:
  "credentials_by_name forge ctx name d = Inr c \<Longrightarrow> c \<in> set (db_credentials d) \<and> cr_ForgeType c = forge"
  by (auto simp: credentials_by_name_def option_or_def dest: find_SomeD split: sum.splits option.splits)

text \<open>Reading keeps the rows; successful lookups give current credentials.\<close>

definition gives_current :: "(db, ForgeCredentials) prog \<Rightarrow> bool" where
  "gives_current m \<longleftrightarrow> (\<forall>d creds d'. refs_ok d \<longrightarrow> m d = (Inr creds, d') \<longrightarrow> refs_ok d' \<and> current creds d')"

lemma gives_currentI:
  assumes "\<And>d creds d'. refs_ok d \<Longrightarrow> m d = (Inr creds, d') \<Longrightarrow> refs_ok d' \<and> current creds d'"
  shows "gives_current m"
  using assms unfolding gives_current_def by blast

lemma gives_current_read:
  assumes "\<And>d creds. refs_ok d \<Longrightarrow> q d = Inr creds \<Longrightarrow> current creds d"
  shows "gives_current (db_read q)"
proof (rule gives_currentI)
  fix d creds d' assume "refs_ok d" "db_read q d = (Inr creds, d')"
  then obtain bs where "q (d\<lparr>db_faults := bs\<rparr>) = Inr creds" "d' = d\<lparr>db_faults := bs\<rparr>" unfolding db_read_def by (auto elim!: db_stmt_ok)
  with assms [of "d\<lparr>db_faults := bs\<rparr>" creds] \<open>refs_ok d\<close> show "refs_ok d' \<and> current creds d'" by simp
qed

lemma gives_current_byName: "gives_current (GetGithubCredentialsByName ctx name)" "gives_current (GetGiteaCredentialsByName ctx name)"
  unfolding GetGithubCredentialsByName_def GetGiteaCredentialsByName_def getGithubCredentialsByName_def getGiteaCredentialsByName_def
  by (rule gives_current_read; auto split: sum.splits dest!: credentials_by_nameD intro: converted_current)+

lemma by_name_kept:
  "steps (refs_kept_with creds) (GetGithubCredentialsByName ctx name)" "steps (refs_kept_with creds) (GetGiteaCredentialsByName ctx name)"
  "steps refs_kept (GetGithubCredentialsByName ctx name)" "steps refs_kept (GetGiteaCredentialsByName ctx name)"
  unfolding GetGithubCredentialsByName_def GetGiteaCredentialsByName_def by (rule rfw.st_read rfk.st_read)+

lemma gives_current_resolve: "gives_current (ResolveForgeCredentialByName ctx name)"
proof (rule gives_currentI)
  fix d creds d' assume d: "refs_ok d" and run: "ResolveForgeCredentialByName ctx name d = (Inr creds, d')"
  obtain r1 d1 where m1: "GetGithubCredentialsByName ctx name d = (r1, d1)" by fastforce
  obtain r2 d2 where m2: "GetGiteaCredentialsByName ctx name d1 = (r2, d2)" by fastforce
  have d1: "refs_ok d1" using stepsD [OF by_name_kept(3) m1] d by (simp add: refs_kept_def)
  have g1: "current g d1" if "r1 = Inr g" for g using gives_current_byName(1) m1 d that by (auto simp: gives_current_def)
  have g2: "refs_ok d2 \<and> current g d2" if "r1 = Inr g" for g
    using stepsD [OF by_name_kept(2) m2, of g] d1 g1 [OF that] by (simp add: refs_kept_with_def)
  have g3: "refs_ok d2 \<and> current t d2" if "r2 = Inr t" for t using gives_current_byName(2) m2 d1 that by (auto simp: gives_current_def)
  from run m1 m2 g2 g3 show "refs_ok d' \<and> current creds d'"
    by (auto simp: ResolveForgeCredentialByName_def m_defs split: sum.splits if_splits)
qed

lemma gives_current_or_bad:
  "gives_current m \<Longrightarrow> gives_current (m_bind (m_try m) (\<lambda>r. case r of Inl _ \<Rightarrow> m_throw e | Inr creds \<Rightarrow> m_ret creds))"
  by (rule gives_currentI) (auto simp: gives_current_def m_defs split: sum.splits prod.splits)

lemma gives_current_entity: "gives_current (entity_credentials_by_name forge ctx name)"
  unfolding entity_credentials_by_name_def
  by (rule gives_current_or_bad) (simp add: gives_current_byName gives_current_resolve split: EndpointType.split)

lemma has_credentials_rows:
  "has_credentials (d\<lparr>db_entities := es\<rparr>) = has_credentials d" "has_endpoint (d\<lparr>db_entities := es\<rparr>) = has_endpoint d"
  "tables_ok (d\<lparr>db_entities := es\<rparr>) = tables_ok d"
  by (simp_all add: fun_eq_iff has_credentials_def has_endpoint_def tables_ok_def)

lemma refs_set_entities:
  "refs_ok d \<Longrightarrow> (\<And>r. r \<in> set es \<Longrightarrow> owned r \<Longrightarrow> has_credentials d r) \<Longrightarrow> refs_ok (d\<lparr>db_entities := es\<rparr>)"
  by (simp add: refs_ok_def has_credentials_rows)

lemma has_credentials_ignores [simp]:
  "has_credentials d (r\<lparr>er_ID := u\<rparr>) = has_credentials d r" "has_credentials d (r\<lparr>er_CreatedAt := t\<rparr>) = has_credentials d r"
  "has_credentials d (r\<lparr>er_UpdatedAt := t'\<rparr>) = has_credentials d r"
  by (simp_all add: has_credentials_def)

lemma new_entity_credentials:
  assumes "current creds d" "webhookSecret \<noteq> []" "ty = ForgeEntityTypeEnterprise \<Longrightarrow> c_ForgeType creds = GithubEndpointType"
    "with_credentials creds (new_entity ty own nm (ep_Name (c_Endpoint creds)) webhookSecret b a) = Inr r"
  shows "has_credentials d r"
  using assms unfolding has_credentials_def current_def
  by (cases "c_ForgeType creds") (auto simp: with_credentials_def new_entity_def)

lemma insert_entity_kept:
  assumes "\<And>d. current creds d \<Longrightarrow> owned r \<Longrightarrow> has_credentials d r"
  shows "steps (refs_kept_with creds) (insert_entity r)"
  unfolding insert_entity_def
proof (intro rfw.db_rules stepsI)
  fix u and d :: db
  let ?r = "r\<lparr>er_ID := u, er_CreatedAt := db_clock d, er_UpdatedAt := db_clock d\<rparr>"
  have "refs_ok (d\<lparr>db_entities := db_entities d @ [?r]\<rparr>)" if "refs_ok d" "current creds d"
    by (rule refs_set_entities [OF that(1)]) (use assms [OF that(2)] refs_okD(3) [OF that(1)] in \<open>auto simp: owned_def\<close>)
  then show "refs_kept_with creds d (snd (let r = ?r in if unique_key_taken r d \<or> \<not> foreign_keys_ok r d then (Inl DatabaseError, d)
      else (Inr u, d\<lparr>db_entities := db_entities d @ [r]\<rparr>)))"
    by (simp add: Let_def refs_kept_with_def current_def)
qed

lemma create_entity_kept:
  assumes "\<And>r d. row = Inr r \<Longrightarrow> current creds d \<Longrightarrow> owned r \<Longrightarrow> has_credentials d r" "\<And>i. steps (refs_kept_with creds) (reload i)"
  shows "steps (refs_kept_with creds) (create_entity t w reload row)"
proof -
  have "steps (refs_kept_with creds) (m_bind (m_result row) insert_entity)"
  proof (cases row)
    case (Inl e)
    then show ?thesis by (simp add: steps_def m_bind_def rfw.R_refl)
  next
    case (Inr r)
    then have "m_bind (m_result row) insert_entity = insert_entity r" by (simp add: fun_eq_iff m_bind_def)
    with insert_entity_kept [of creds r] assms(1) [OF Inr] show ?thesis by simp
  qed
  note tx = rfw.st_tx [OF this]
  show ?thesis unfolding create_entity_def by (rule rfw.st_bind [OF tx], intro rfw.db_rules assms(2))
qed

lemma reads_kept:
  "steps (refs_kept_with creds) (GetRepositoryByID i)" "steps (refs_kept_with creds) (GetOrganizationByID i)"
  "steps (refs_kept_with creds) (GetEnterpriseByID i)" "steps (refs_kept_with creds) (GetForgeInstanceByID i)"
  "steps (refs_kept_with creds) (GetRepository own nm en)" "steps (refs_kept_with creds) (GetOrganization nm en)"
  "steps (refs_kept_with creds) (GetEnterprise nm en)" "steps (refs_kept_with creds) (GetForgeInstance en)"
  unfolding GetRepositoryByID_def GetOrganizationByID_def GetEnterpriseByID_def GetForgeInstanceByID_def
    GetRepository_def GetOrganization_def GetEnterprise_def GetForgeInstance_def converted_def by (rule rfw.st_read)+

lemma instance_not_owned: "with_credentials creds (new_entity ForgeEntityTypeInstance own nm en ws b a) = Inr r \<Longrightarrow> \<not> owned r"
  by (auto simp: with_credentials_def new_entity_def owned_def split: EndpointType.splits)

lemma creates_kept:
  "steps (refs_kept_with creds) (CreateRepository own nm creds ws b a)" "steps (refs_kept_with creds) (CreateOrganization nm creds ws b a)"
  "steps (refs_kept_with creds) (CreateEnterprise nm creds ws b a)" "steps (refs_kept_with creds) (CreateForgeInstance en creds ws b a)"
  unfolding CreateRepository_def CreateOrganization_def CreateEnterprise_def CreateForgeInstance_def
  by (intro rfw.st_if rfw.st_throw create_entity_kept reads_kept, erule (1) new_entity_credentials [rotated -1]; simp)+
     (intro rfw.st_if rfw.st_throw create_entity_kept reads_kept, auto dest: instance_not_owned)

text \<open>Updates: new credentials are of the forge and endpoint that the entity has already.\<close>

lemma updateEntityCredentials_type:
  "updateEntityCredentials ctx r nm d = Inr cs \<Longrightarrow> er_Type (fold id cs r') = er_Type r'"
  by (auto simp: updateEntityCredentials_def Let_def split: if_splits sum.splits EndpointType.splits)

lemma updateEntityCredentials_ok:
  assumes "refs_ok d" "has_credentials d r" "updateEntityCredentials ctx r nm d = Inr cs"
  shows "has_credentials d (fold id cs (r\<lparr>er_UpdatedAt := t\<rparr>))"
proof (cases "cs = []")
  case False
  from assms(2) obtain c where c: "c \<in> set (db_credentials d)" "er_WebhookSecret r \<noteq> []" "cr_EndpointName c = er_EndpointName r"
    "cr_ForgeType c = GithubEndpointType \<and> er_CredentialsID r = Some (cr_ID c) \<and> er_GiteaCredentialsID r = None \<or>
     cr_ForgeType c = GiteaEndpointType \<and> er_GiteaCredentialsID r = Some (cr_ID c) \<and> er_CredentialsID r = None \<and> er_Type r \<noteq> ForgeEntityTypeEnterprise"
    by (auto simp: has_credentials_def)
  have ty: "ep_EndpointType (endpoint_of (er_EndpointName r) d) = cr_ForgeType c"
    using endpoint_of_credentials(2) [OF assms(1) c(1)] c(3) by simp
  from False assms(3) obtain c' where fetch: "fetchCredentialsByType ctx nm (cr_ForgeType c) d = Inr c'" and ep: "cr_EndpointName c' = er_EndpointName r"
    by (auto simp: updateEntityCredentials_def Let_def ty split: if_splits sum.splits)
  have c': "c' \<in> set (db_credentials d)" "cr_ForgeType c' = cr_ForgeType c"
    using fetch by (auto simp: fetchCredentialsByType_def getGithubCredentialsByName_def getGiteaCredentialsByName_def dest: credentials_by_nameD split: EndpointType.splits)
  have "cs = [er_CredentialsID_update (\<lambda>_. Some (cr_ID c'))] \<and> cr_ForgeType c = GithubEndpointType \<or>
     cs = [er_GiteaCredentialsID_update (\<lambda>_. Some (cr_ID c'))] \<and> cr_ForgeType c = GiteaEndpointType"
    using False assms(3) fetch by (auto simp: updateEntityCredentials_def Let_def ty split: if_splits EndpointType.splits)
  then show ?thesis unfolding has_credentials_def using c(2,4) c'(2) ep by (intro conjI bexI [OF _ c'(1)]) auto
qed (use assms(2) in simp)

lemma entity_updates_keep:
  "f \<in> set (entity_updates param r) \<Longrightarrow> er_Type (f x) = er_Type x \<and> (has_credentials d x \<longrightarrow> has_credentials d (f x))"
  by (auto simp: entity_updates_def in_changed has_credentials_def split: if_splits)

lemma entity_updates_fold:
  assumes "set fs \<subseteq> set (entity_updates param r)"
  shows "er_Type (fold id fs x) = er_Type x" "has_credentials d x \<Longrightarrow> has_credentials d (fold id fs x)"
  using assms by (induction fs arbitrary: x) (auto dest: entity_updates_keep)

lemma update_entity_tx_kept:
  assumes "\<And>d r. query d = Inr r \<Longrightarrow> r \<in> set (db_entities d)"
  shows "steps refs_kept (update_entity_tx query ctx param)"
proof (rule stepsI)
  fix d
  have "refs_ok (d\<lparr>db_entities := upd_rows (same_row r) (\<lambda>_. fold id (cs @ entity_updates param r) (r\<lparr>er_UpdatedAt := db_clock d\<rparr>)) (db_entities d)\<rparr>)"
    if "refs_ok d" "query d = Inr r" "updateEntityCredentials ctx r (uen_CredentialsName param) d = Inr cs" for r cs
  proof -
    define r' where "r' = fold id (cs @ entity_updates param r) (r\<lparr>er_UpdatedAt := db_clock d\<rparr>)"
    have ty: "er_Type r' = er_Type r" unfolding r'_def by (simp add: entity_updates_fold(1) [OF subset_refl] updateEntityCredentials_type [OF that(3)])
    have "has_credentials d r'" if "owned r" unfolding r'_def fold_append comp_apply
      by (rule entity_updates_fold(2) [OF subset_refl], rule updateEntityCredentials_ok [OF \<open>refs_ok d\<close> refs_okD(3) [OF \<open>refs_ok d\<close> assms that]])
        (rule \<open>query d = Inr r\<close> \<open>updateEntityCredentials ctx r (uen_CredentialsName param) d = Inr cs\<close>)+
    then have "has_credentials d x" if "x \<in> set (upd_rows (same_row r) (\<lambda>_. r') (db_entities d))" "owned x" for x
      using that ty refs_okD(3) [OF \<open>refs_ok d\<close>, of x] by (auto simp: set_upd_rows owned_def split: if_splits)
    then show ?thesis unfolding r'_def [symmetric] by (intro refs_set_entities [OF \<open>refs_ok d\<close>])
  qed
  then show "refs_kept d (snd (update_entity_tx query ctx param d))"
    by (auto simp: update_entity_tx_def refs_kept_def Let_def simp del: fold_append split: sum.splits if_splits)
qed

lemma getEntityByID_mem: "getEntityByID ty i d = Inr r \<Longrightarrow> r \<in> set (db_entities d) \<and> er_Type r = ty"
  by (auto simp: getEntityByID_def option_or_def dest: find_SomeD split: option.splits)

lemma updates_kept:
  "steps refs_kept (UpdateRepository ctx i p)" "steps refs_kept (UpdateOrganization ctx i p)" "steps refs_kept (UpdateEnterprise ctx i p)"
  "steps refs_kept (UpdateForgeInstance ctx i p)"
  unfolding UpdateRepository_def UpdateOrganization_def UpdateEnterprise_def UpdateForgeInstance_def update_entity_def converted_def
    getRepoByID_def getOrgByID_def getEnterpriseByID_def getForgeInstanceByID_def
  by (intro rfk.db_rules update_entity_tx_kept, simp add: getEntityByID_mem)+

lemma delete_entity_row_kept: "steps refs_kept (delete_entity_row r)"
proof (rule stepsI)
  fix d
  have "refs_ok (d\<lparr>db_entities := es, db_jobs := js\<rparr>) = refs_ok (d\<lparr>db_entities := es\<rparr>)" for es js
    by (simp add: refs_defs)
  moreover have "refs_ok (d\<lparr>db_entities := filter P (db_entities d)\<rparr>)" if "refs_ok d" for P
    by (rule refs_set_entities [OF that]) (simp add: refs_okD(3) [OF that])
  ultimately show "refs_kept d (snd (delete_entity_row r d))"
    by (simp add: delete_entity_row_def refs_kept_def)
qed

lemma deletes_kept:
  "steps refs_kept (DeleteRepository i)" "steps refs_kept (DeleteOrganization i)" "steps refs_kept (DeleteEnterprise i)" "steps refs_kept (DeleteForgeInstance i)"
  unfolding DeleteRepository_def DeleteOrganization_def DeleteEnterprise_def DeleteForgeInstance_def loaded_for_delete_def notify_deleted_def
  by (intro rfk.db_rules delete_entity_row_kept)+

subsubsection \<open>Any sequence of calls\<close>

lemma steps_with_current:
  assumes "gives_current m" "steps refs_kept m" "\<And>creds. steps (refs_kept_with creds) (f creds)"
  shows "steps refs_kept (m_bind m f)"
proof (rule stepsI)
  fix d
  obtain r d1 where m: "m d = (r, d1)" by fastforce
  show "refs_kept d (snd (m_bind m f d))"
  proof (cases r)
    case (Inl e)
    with m stepsD [OF assms(2) m] show ?thesis by (simp add: m_bind_def)
  next
    case (Inr creds)
    have "refs_ok d1 \<and> current creds d1" if "refs_ok d" using assms(1) that m Inr by (simp add: gives_current_def)
    with m Inr stepsD_snd [OF assms(3), of creds d1] show ?thesis by (simp add: m_bind_def refs_kept_def refs_kept_with_def)
  qed
qed

lemma entity_credentials_by_name_kept: "steps refs_kept (entity_credentials_by_name forge ctx name)"
  unfolding entity_credentials_by_name_def ResolveForgeCredentialByName_def
  by (cases forge) (simp_all, (intro rfk.db_rules by_name_kept)+)

lemma unless_found_kept:
  "steps (refs_kept_with creds) l \<Longrightarrow> steps (refs_kept_with creds) m \<Longrightarrow> steps (refs_kept_with creds) (unless_found l m)"
  unfolding unless_found_def by (intro rfw.db_rules)

lemma adds_kept:
  "steps refs_kept (add_repository ctx p)" "steps refs_kept (add_organization ctx p)" "steps refs_kept (add_enterprise ctx p)"
  "steps refs_kept (add_forge_instance ctx p)"
  unfolding add_repository_def add_organization_def add_enterprise_def add_forge_instance_def
  by (intro rfk.st_if rfk.st_throw rfw.st_if rfw.st_throw steps_with_current gives_current_entity entity_credentials_by_name_kept unless_found_kept reads_kept creates_kept)+

lemma endpoints_kept:
  "steps refs_kept (CreateGithubEndpoint c)" "steps refs_kept (CreateGiteaEndpoint c)" "steps refs_kept (UpdateGithubEndpoint nm u)"
  "steps refs_kept (UpdateGiteaEndpoint nm u)" "steps refs_kept (DeleteGithubEndpoint nm)" "steps refs_kept (DeleteGiteaEndpoint nm)"
  unfolding CreateGithubEndpoint_def CreateGiteaEndpoint_def UpdateGithubEndpoint_def UpdateGiteaEndpoint_def DeleteGithubEndpoint_def
    DeleteGiteaEndpoint_def notify_endpoint_def update_endpoint_def
  by (intro rfk.db_rules insert_endpoint_kept update_endpoint_kept delete_endpoint_kept)+

lemma credentials_kept:
  "steps refs_kept (CreateGithubCredentials ctx c)" "steps refs_kept (CreateGiteaCredentials ctx c)" "steps refs_kept (UpdateGithubCredentials ctx i u)"
  "steps refs_kept (UpdateGiteaCredentials ctx i u)" "steps refs_kept (DeleteGithubCredentials ctx i)" "steps refs_kept (DeleteGiteaCredentials ctx i)"
  unfolding CreateGithubCredentials_def CreateGiteaCredentials_def UpdateGithubCredentials_def UpdateGiteaCredentials_def DeleteGithubCredentials_def
    DeleteGiteaCredentials_def notify_credentials_def update_credentials_def create_credentials_def deleted_credentials_def
  by (intro rfk.db_rules insert_credentials_kept update_credentials_kept delete_credentials_kept; simp)+

text \<open>A call to the store as the service makes it: for endpoints and credentials, and for entities of each kind.\<close>

datatype store_call =
    AddEndpoint EndpointType CreateEndpointParams
  | ChangeEndpoint EndpointType string UpdateEndpointParams
  | DropEndpoint EndpointType string
  | AddCredentials EndpointType Context CreateCredentialsParams
  | ChangeCredentials EndpointType Context nat UpdateCredentialsParams
  | DropCredentials EndpointType Context nat
  | AddEntity ForgeEntityType Context CreateEntityParams
  | ChangeEntity ForgeEntityType Context string UpdateEntityParams
  | DropEntity ForgeEntityType string

fun store_do :: "store_call \<Rightarrow> (db, unit) prog" where
  "store_do (AddEndpoint forge p) = m_ignore (if forge = GiteaEndpointType then CreateGiteaEndpoint p else CreateGithubEndpoint p)"
| "store_do (ChangeEndpoint forge nm p) = m_ignore (if forge = GiteaEndpointType then UpdateGiteaEndpoint nm p else UpdateGithubEndpoint nm p)"
| "store_do (DropEndpoint forge nm) = m_ignore (if forge = GiteaEndpointType then DeleteGiteaEndpoint nm else DeleteGithubEndpoint nm)"
| "store_do (AddCredentials forge ctx p) = m_ignore (if forge = GiteaEndpointType then CreateGiteaCredentials ctx p else CreateGithubCredentials ctx p)"
| "store_do (ChangeCredentials forge ctx i p) = m_ignore (if forge = GiteaEndpointType then UpdateGiteaCredentials ctx i p else UpdateGithubCredentials ctx i p)"
| "store_do (DropCredentials forge ctx i) = m_ignore (if forge = GiteaEndpointType then DeleteGiteaCredentials ctx i else DeleteGithubCredentials ctx i)"
| "store_do (AddEntity ty ctx p) = m_ignore (case ty of ForgeEntityTypeRepository \<Rightarrow> add_repository ctx p | ForgeEntityTypeOrganization \<Rightarrow> add_organization ctx p
     | ForgeEntityTypeEnterprise \<Rightarrow> add_enterprise ctx p | ForgeEntityTypeInstance \<Rightarrow> add_forge_instance ctx p | ForgeEntityTypeOther _ \<Rightarrow> m_throw BadRequestError)"
| "store_do (ChangeEntity ty ctx i p) = m_ignore (case ty of ForgeEntityTypeRepository \<Rightarrow> UpdateRepository ctx i p | ForgeEntityTypeOrganization \<Rightarrow> UpdateOrganization ctx i p
     | ForgeEntityTypeEnterprise \<Rightarrow> UpdateEnterprise ctx i p | ForgeEntityTypeInstance \<Rightarrow> UpdateForgeInstance ctx i p | ForgeEntityTypeOther _ \<Rightarrow> m_throw BadRequestError)"
| "store_do (DropEntity ty i) = (case ty of ForgeEntityTypeRepository \<Rightarrow> m_ignore (DeleteRepository i) | ForgeEntityTypeOrganization \<Rightarrow> m_ignore (DeleteOrganization i)
     | ForgeEntityTypeEnterprise \<Rightarrow> m_ignore (DeleteEnterprise i) | ForgeEntityTypeInstance \<Rightarrow> m_ignore (DeleteForgeInstance i) | ForgeEntityTypeOther _ \<Rightarrow> m_ret ())"

lemma store_do_kept: "steps refs_kept (store_do a)"
proof (cases a)
  case (AddEntity ty ctx p)
  then show ?thesis by (cases ty) (simp_all add: rfk.st_ignore rfk.st_throw adds_kept)
next
  case (ChangeEntity ty ctx i p)
  then show ?thesis by (cases ty) (simp_all add: rfk.st_ignore rfk.st_throw updates_kept)
next
  case (DropEntity ty i)
  then show ?thesis by (cases ty) (simp_all add: rfk.st_ignore rfk.st_ret deletes_kept)
qed (simp_all add: rfk.st_ignore endpoints_kept credentials_kept)

lemma store_run_refs: "refs_ok d \<Longrightarrow> refs_ok (snd (m_for store_do calls d))"
  using stepsD_snd [OF rfk.st_for [of calls store_do], of d] store_do_kept by (simp add: refs_kept_def)

lemma find_credentials_mem:
  assumes "tables_ok d" "c \<in> set (db_credentials d)" "forge = cr_ForgeType c"
  shows "find_credentials forge (Some (cr_ID c)) d = Some c"
proof -
  obtain x where x: "List.find (\<lambda>x. cr_ForgeType x = forge \<and> cr_ID x = cr_ID c) (db_credentials d) = Some x"
    using assms(2,3) by (cases "List.find (\<lambda>x. cr_ForgeType x = forge \<and> cr_ID x = cr_ID c) (db_credentials d)") (auto simp: find_None_iff)
  from find_SomeD [OF x] credentials_unique [OF assms(1), of x c] assms(2,3) have "x = c" by simp
  with x show ?thesis by (simp add: find_credentials_def)
qed

definition conv_of :: "ForgeEntityType \<Rightarrow> db \<Rightarrow> EntityRow \<Rightarrow> garm_error + ForgeEntity" where
  "conv_of ty = (case ty of ForgeEntityTypeRepository \<Rightarrow> sqlToCommonRepository | ForgeEntityTypeOrganization \<Rightarrow> sqlToCommonOrganization
     | ForgeEntityTypeEnterprise \<Rightarrow> sqlToCommonEnterprise | _ \<Rightarrow> sqlToCommonForgeInstance)"

text \<open>What a listed entity promises: it is the row, and its credentials are those of its own endpoint.\<close>

definition loaded_well :: "EntityRow \<Rightarrow> ForgeEntity \<Rightarrow> bool" where
  "loaded_well r e \<longleftrightarrow> e_ID e = uuid_string (er_ID r) \<and> e_EntityType e = er_Type r \<and> c_CredentialsPayload (e_Credentials e) \<noteq> [] \<and>
     c_Endpoint (e_Credentials e) = e_Forge e \<and> c_ForgeType (e_Credentials e) = ep_EndpointType (e_Forge e) \<and> ep_Name (e_Forge e) = er_EndpointName r"

lemma refs_ok_converts:
  assumes "refs_ok d" "r \<in> set (db_entities d)" "owned r"
  shows "\<exists>e. conv_of (er_Type r) d r = Inr e \<and> loaded_well r e"
proof -
  from refs_okD(3) [OF assms] obtain c where c: "c \<in> set (db_credentials d)" "er_WebhookSecret r \<noteq> []" "cr_EndpointName c = er_EndpointName r"
    "cr_ForgeType c = GithubEndpointType \<and> er_CredentialsID r = Some (cr_ID c) \<and> er_GiteaCredentialsID r = None \<or>
     cr_ForgeType c = GiteaEndpointType \<and> er_GiteaCredentialsID r = Some (cr_ID c) \<and> er_CredentialsID r = None \<and> er_Type r \<noteq> ForgeEntityTypeEnterprise"
    by (auto simp: has_credentials_def)
  have ep: "ep_Name (endpoint_of (er_EndpointName r) d) = er_EndpointName r" "ep_EndpointType (endpoint_of (er_EndpointName r) d) = cr_ForgeType c"
    using endpoint_of_credentials [OF assms(1) c(1)] c(3) by simp_all
  have payload: "cr_Payload c \<noteq> []" using refs_okD(2) [OF assms(1) c(1)] by (simp add: has_endpoint_def)
  note find = find_credentials_mem [OF refs_okD(1) [OF assms(1)] c(1)]
  from assms(3) consider "er_Type r = ForgeEntityTypeRepository" | "er_Type r = ForgeEntityTypeOrganization" | "er_Type r = ForgeEntityTypeEnterprise"
    by (auto simp: owned_def)
  then show ?thesis
    by cases (use c(2-4) ep payload find in \<open>auto simp: conv_of_def loaded_well_def sqlToCommonRepository_def sqlToCommonOrganization_def
      sqlToCommonEnterprise_def either_credentials_def sqlToCommonForgeCredentials_def sqlGiteaToCommonForgeCredentials_def Let_def common_entity_def\<close>)
qed

lemma all_converted_ok:
  assumes "\<And>r. r \<in> set rs \<Longrightarrow> \<exists>e. f r = Inr e \<and> Q r e"
  shows "\<exists>es. all_converted (map f rs) = Inr es \<and> list_all2 Q rs es"
  using assms
proof (induction rs)
  case (Cons r rs)
  then obtain es e where "all_converted (map f rs) = Inr es" "list_all2 Q rs es" "f r = Inr e" "Q r e"
    by (metis list.set_intros(1,2))
  then show ?case by simp
qed simp

definition entity_rows :: "ForgeEntityType \<Rightarrow> db \<Rightarrow> EntityRow list" where
  "entity_rows ty d = filter (\<lambda>r. er_Type r = ty) (db_entities d)"

lemma lists_all:
  assumes "refs_ok d" "owned_type = ForgeEntityTypeRepository \<or> owned_type = ForgeEntityTypeOrganization \<or> owned_type = ForgeEntityTypeEnterprise"
  shows "\<exists>es. all_converted (map (conv_of owned_type d) (entity_rows owned_type d)) = Inr es \<and> list_all2 loaded_well (entity_rows owned_type d) es"
proof (rule all_converted_ok)
  fix r assume "r \<in> set (entity_rows owned_type d)"
  then have "r \<in> set (db_entities d)" "owned r" "er_Type r = owned_type" using assms(2) by (auto simp: entity_rows_def owned_def)
  with refs_ok_converts [OF assms(1)] show "\<exists>e. conv_of owned_type d r = Inr e \<and> loaded_well r e" by blast
qed

text \<open>
  (C18) After any sequence of calls that add, change and drop endpoints, credentials and entities, failing statements included, the repositories,
  organizations and enterprises can all be listed, each with the credentials of its own endpoint and forge.\<close>

theorem entities_always_load:
  assumes "refs_ok d0" "snd (m_for store_do calls d0) = d" "db_faults d = []"
  shows "\<exists>rs os es. ListRepositories [] [] [] d = (Inr rs, d) \<and> list_all2 loaded_well (entity_rows ForgeEntityTypeRepository d) rs \<and>
    ListOrganizations [] [] d = (Inr os, d) \<and> list_all2 loaded_well (entity_rows ForgeEntityTypeOrganization d) os \<and>
    ListEnterprises [] [] d = (Inr es, d) \<and> list_all2 loaded_well (entity_rows ForgeEntityTypeEnterprise d) es"
proof -
  have ok: "refs_ok d" using store_run_refs [OF assms(1), of calls] assms(2) by simp
  from lists_all [OF ok, of ForgeEntityTypeRepository] lists_all [OF ok, of ForgeEntityTypeOrganization] lists_all [OF ok, of ForgeEntityTypeEnterprise]
  show ?thesis by (simp add: ListRepositories_def ListOrganizations_def ListEnterprises_def list_entities_def matches_def assms(3)
    entity_rows_def [symmetric] conv_of_def)
qed

definition ex_admin_ctx :: Context where
  "ex_admin_ctx = background\<lparr>cx_UserID := uuid_string 3, cx_IsAdmin := True\<rparr>"

definition ex_new_entity :: CreateEntityParams where
  "ex_new_entity = \<lparr>cen_Owner = [], cen_Name = ''tools'', cen_EndpointName = ''git.acme'', cen_CredentialsName = ''bot'', cen_WebhookSecret = ''s3cret'',
     cen_PoolBalancerType = PoolBalancerTypeNone, cen_ForgeType = AutoEndpointType, cen_AgentMode = False\<rparr>"

lemma ex_refs_ok [simp]: "refs_ok ex_db"
  by (simp add: refs_ok_def tables_ok_def has_endpoint_def has_credentials_def ex_endpoint_row_def ex_credentials_row_def ex_entity_def owned_def ex_db_def)

lemma ex_drop_credentials: "store_do (DropCredentials GithubEndpointType ex_admin_ctx 1) ex_db = (Inr (), ex_db)"
  by (simp add: DeleteGithubCredentials_def m_defs delete_credentials_tx_def visible_def ex_admin_ctx_def ex_credentials_row_def
    credentials_used_def ex_entity_def entity_credentials_def db_tx_def db_stmt_def)

lemma ex_add_organization:
  "db_faults (snd (store_do (AddEntity ForgeEntityTypeOrganization ex_admin_ctx ex_new_entity) ex_db)) = [] \<and>
   map er_Name (db_entities (snd (store_do (AddEntity ForgeEntityTypeOrganization ex_admin_ctx ex_new_entity) ex_db))) = [''app'', ''tools'']"
  by (simp add: ex_new_entity_def add_organization_def entity_credentials_by_name_def ResolveForgeCredentialByName_def m_defs GetGithubCredentialsByName_def GetGiteaCredentialsByName_def
    getGithubCredentialsByName_def getGiteaCredentialsByName_def credentials_by_name_def getUIDFromContext_def ex_admin_ctx_def background_def option_or_def
    ex_credentials_row_def sqlToCommonForgeCredentials_def Let_def endpoint_of_def ex_endpoint_row_def unless_found_def
    GetOrganization_def converted_def getOrg_def entity_by_name_def ex_entity_def CreateOrganization_def create_entity_def with_credentials_def
    insert_entity_def new_entity_def db_tx_def db_stmt_def new_uuid_def unique_key_taken_def foreign_keys_ok_def find_credentials_def
    GetOrganizationByID_def getOrgByID_def getEntityByID_def sqlToCommonOrganization_def either_credentials_def sendNotify_def db_read_def)

definition ex_calls :: "store_call list" where
  "ex_calls = [DropCredentials GithubEndpointType ex_admin_ctx 1, AddEntity ForgeEntityTypeOrganization ex_admin_ctx ex_new_entity]"

theorem entities_always_load_witness:
  "let d = snd (m_for store_do ex_calls ex_db) in map er_Name (db_entities d) = [''app'', ''tools''] \<and>
     (\<exists>os. ListOrganizations [] [] d = (Inr os, d) \<and> list_all2 loaded_well (entity_rows ForgeEntityTypeOrganization d) os)"
proof -
  define d where "d = snd (m_for store_do ex_calls ex_db)"
  have run: "d = snd (store_do (AddEntity ForgeEntityTypeOrganization ex_admin_ctx ex_new_entity) ex_db)"
    unfolding d_def ex_calls_def by (simp add: m_seq_def m_bind_def ex_drop_credentials [unfolded One_nat_def] del: store_do.simps split: prod.splits sum.splits)
  from entities_always_load [OF ex_refs_ok d_def [symmetric]] ex_add_organization show ?thesis
    unfolding d_def [symmetric] Let_def run [symmetric] by blast
qed

subsubsection \<open>What is not kept\<close>

text \<open>A forge instance is not looked at when credentials are deleted: its credentials go although it uses them, and forge instances
  cannot be listed or loaded any more.\<close>

definition ex_gitea_row :: ForgeEndpoint where
  "ex_gitea_row = ex_endpoint_row\<lparr>ep_Name := ''git.acme'', ep_EndpointType := GiteaEndpointType\<rparr>"

definition ex_forge_db :: db where
  "ex_forge_db = ex_db\<lparr>db_endpoints := [ex_gitea_row], db_credentials := [ex_credentials_row\<lparr>cr_ForgeType := GiteaEndpointType, cr_EndpointName := ''git.acme''\<rparr>],
     db_entities := [ex_entity\<lparr>er_Type := ForgeEntityTypeInstance, er_EndpointName := ''git.acme'', er_CredentialsID := None, er_GiteaCredentialsID := Some 1\<rparr>]\<rparr>"

theorem used_gitea_credentials_deleted:
  "(\<exists>e. fst (GetForgeInstanceByID (uuid_string 9) ex_forge_db) = Inr e \<and> c_Name (e_Credentials e) = ''bot'') \<and>
   fst (DeleteGiteaCredentials ex_admin_ctx 1 ex_forge_db) = Inr () \<and>
   (let d = snd (DeleteGiteaCredentials ex_admin_ctx 1 ex_forge_db) in
      fst (GetForgeInstanceByID (uuid_string 9) d) = Inl (OtherError ''empty credentials payload'') \<and>
      fst (ListForgeInstances [] d) = Inl (OtherError ''empty credentials payload''))"
  by (simp add: ex_forge_db_def GetForgeInstanceByID_def getForgeInstanceByID_def getEntityByID_def converted_def option_or_def sqlToCommonForgeInstance_def
    ex_entity_def find_credentials_def ex_credentials_row_def sqlGiteaToCommonForgeCredentials_def Let_def common_entity_def DeleteGiteaCredentials_def
    m_defs db_tx_def db_stmt_def delete_credentials_tx_def visible_def ex_admin_ctx_def credentials_used_def entity_credentials_def remove_credentials_def
    drop_credentials_def deleted_credentials_def sendNotify_def ListForgeInstances_def list_entities_def matches_def db_read_def ex_db_def)

text \<open>An enterprise that cannot be deleted because pools refer to it is announced as deleted.\<close>

definition ex_enterprise_db :: db where
  "ex_enterprise_db = ex_db\<lparr>db_entities := [ex_entity\<lparr>er_Type := ForgeEntityTypeEnterprise\<rparr>], db_pools := [ex_pool\<lparr>pr_RepoID := None, pr_EnterpriseID := Some 9\<rparr>]\<rparr>"

theorem failed_delete_announced:
  "fst (DeleteEnterprise (uuid_string 9) ex_enterprise_db) = Inl DatabaseError \<and>
   db_entities (snd (DeleteEnterprise (uuid_string 9) ex_enterprise_db)) = db_entities ex_enterprise_db \<and>
   map (\<lambda>ev. (ev_EntityType ev, ev_Operation ev)) (db_notifications (snd (DeleteEnterprise (uuid_string 9) ex_enterprise_db))) =
     [(EnterpriseEntityType, DeleteOperation)]"
  by (simp add: ex_enterprise_db_def DeleteEnterprise_def loaded_for_delete_def getEnterpriseByID_def getEntityByID_def option_or_def sqlToCommonEnterprise_def
    ex_entity_def find_credentials_def ex_credentials_row_def sqlToCommonForgeCredentials_def Let_def common_entity_def m_defs db_stmt_def db_read_def
    delete_entity_row_def entity_referenced_def ex_pool_def notify_deleted_def sendNotify_def ex_db_def)

text \<open>Agent mode of a forge instance does not count.\<close>

theorem agent_mode_of_instances_ignored:
  "fst (HasEntitiesWithAgentModeEnabled (ex_forge_db\<lparr>db_entities := map (er_AgentMode_update (\<lambda>_. True)) (db_entities ex_forge_db)\<rparr>)) = Inr False"
  by (simp add: HasEntitiesWithAgentModeEnabled_def ex_forge_db_def ex_entity_def db_read_def db_stmt_def ex_db_def)

end
