(* ===== verification/Garm_Users.thy ===== *)
theory Garm_Users
  imports Garm_Context Garm_Instances
begin

text \<open>
  Users and the record of the controller in the store (\<^verbatim>\<open>database/sql/users.go\<close>, \<^verbatim>\<open>database/sql/controller.go\<close>). The functions of libraries that users,
  the controller record and package \<^verbatim>\<open>auth\<close> need are the fields of \<open>auth_env\<close>; the tools of the cached release index are left out of the controller
  record.
\<close>

subsection \<open>Libraries\<close>

text \<open>A token carries a JSON object. \<open>ae_parse\<close> verifies the signature of a token with the secret and its dates at the given time; it gives the claims
  and whether the token is valid. \<open>ae_ParseURL\<close> and \<open>ae_ParseRequestURI\<close> give the scheme and the host of a URL.\<close>

datatype json = JString string | JBool bool | JNumber int

type_synonym json_object = "(string \<times> json) list"

record auth_env =
  ae_sign :: "string \<Rightarrow> json_object \<Rightarrow> garm_error + string"
  ae_parse :: "string \<Rightarrow> time \<Rightarrow> string \<Rightarrow> (json_object \<times> bool) option"
  ae_GetRandomString :: "nat \<Rightarrow> garm_error + string"
  ae_IsValidEmail :: "string \<Rightarrow> bool"
  ae_IsAlphanumeric :: "string \<Rightarrow> bool"
  ae_PasswordScore :: "string \<Rightarrow> int"
  ae_PasswordToBcrypt :: "string \<Rightarrow> garm_error + string"
  ae_CompareHashAndPassword :: "string \<Rightarrow> string \<Rightarrow> bool"
  ae_JoinPath :: "string \<Rightarrow> string \<Rightarrow> garm_error + string"
  ae_ParseURL :: "string \<Rightarrow> (string \<times> string) option"
  ae_ParseRequestURI :: "string \<Rightarrow> (string \<times> string) option"
  ae_SanitizeCABundle :: "string \<Rightarrow> bool"
  ae_IsSemver :: "string \<Rightarrow> bool"

subsection \<open>Users\<close>

record NewUserParams =
  nu_Email :: string
  nu_Username :: string
  nu_FullName :: string
  nu_Password :: string
  nu_IsAdmin :: bool
  nu_Enabled :: bool

record UpdateUserParams =
  up_FullName :: string
  up_Password :: string
  up_Enabled :: "bool option"

definition sqlToParamsUser :: "UserRow \<Rightarrow> User" where
  "sqlToParamsUser u = \<lparr>u_ID = uuid_string (us_ID u), u_CreatedAt = us_CreatedAt u, u_UpdatedAt = us_UpdatedAt u, u_Email = us_Email u,
     u_Username = us_Username u, u_FullName = us_FullName u, u_Enabled = us_Enabled u, u_IsAdmin = us_IsAdmin u, u_Password = us_Password u,
     u_Generation = us_Generation u\<rparr>"

definition getUserByUsernameOrEmail :: "auth_env \<Rightarrow> string \<Rightarrow> db \<Rightarrow> garm_error + UserRow" where
  "getUserByUsernameOrEmail env user d = option_or NotFoundError
     (List.find (\<lambda>u. (if ae_IsValidEmail env user then us_Email u else us_Username u) = user) (db_users d))"

definition getUserByID :: "string \<Rightarrow> db \<Rightarrow> garm_error + UserRow" where
  "getUserByID userID d = (case uuid_parse userID of None \<Rightarrow> Inl NotFoundError
     | Some i \<Rightarrow> option_or NotFoundError (List.find (\<lambda>u. us_ID u = i) (db_users d)))"

definition hasAdmin :: "db \<Rightarrow> bool" where
  "hasAdmin d \<longleftrightarrow> (\<exists>u \<in> set (db_users d). us_IsAdmin u)"

definition new_user :: "NewUserParams \<Rightarrow> uuid \<Rightarrow> db \<Rightarrow> UserRow" where
  "new_user user u d = \<lparr>us_ID = u, us_Username = nu_Username user, us_FullName = nu_FullName user, us_Email = nu_Email user,
     us_Password = nu_Password user, us_Generation = 0, us_IsAdmin = nu_IsAdmin user, us_Enabled = nu_Enabled user,
     us_CreatedAt = db_clock d, us_UpdatedAt = db_clock d\<rparr>"

text \<open>User names and addresses are unique.\<close>

definition user_key_taken :: "UserRow \<Rightarrow> db \<Rightarrow> bool" where
  "user_key_taken u d \<longleftrightarrow> (\<exists>x \<in> set (db_users d). us_ID x = us_ID u \<or> us_Username x = us_Username u \<or> us_Email x = us_Email u)"

definition save_new_user :: "NewUserParams \<Rightarrow> (db, UserRow) prog" where
  "save_new_user user = m_bind new_uuid (\<lambda>i d. let u = new_user user i d in
     if user_key_taken u d then (Inl DatabaseError, d) else (Inr u, d\<lparr>db_users := db_users d @ [u]\<rparr>))"

definition create_user_tx :: "auth_env \<Rightarrow> NewUserParams \<Rightarrow> (db, UserRow) prog" where
  "create_user_tx env user d = (
     if getUserByUsernameOrEmail env (nu_Username user) d \<noteq> Inl NotFoundError then (Inl ConflictError, d)
     else if getUserByUsernameOrEmail env (nu_Email user) d \<noteq> Inl NotFoundError then (Inl ConflictError, d)
     else if hasAdmin d \<and> nu_IsAdmin user then (Inl BadRequestError, d)
     else save_new_user user d)"

definition CreateUser :: "auth_env \<Rightarrow> NewUserParams \<Rightarrow> (db, User) prog" where
  "CreateUser env user = (if nu_Username user = [] \<or> nu_Email user = [] \<or> nu_Password user = [] then m_throw BadRequestError
     else m_bind (db_tx (create_user_tx env user)) (\<lambda>u. m_ret (sqlToParamsUser u)))"

text \<open>A failing query counts as no administrator.\<close>

definition HasAdminUser :: "(db, bool) prog" where
  "HasAdminUser = m_bind (m_try (db_read (\<lambda>d. Inr (hasAdmin d)))) (\<lambda>r. m_ret (r = Inr True))"

definition GetUser :: "auth_env \<Rightarrow> string \<Rightarrow> (db, User) prog" where
  "GetUser env user = db_read (\<lambda>d. case getUserByUsernameOrEmail env user d of Inl e \<Rightarrow> Inl e | Inr u \<Rightarrow> Inr (sqlToParamsUser u))"

definition GetUserByID :: "string \<Rightarrow> (db, User) prog" where
  "GetUserByID userID = db_read (\<lambda>d. case getUserByID userID d of Inl e \<Rightarrow> Inl e | Inr u \<Rightarrow> Inr (sqlToParamsUser u))"

definition GetAdminUser :: "(db, User) prog" where
  "GetAdminUser = db_read (\<lambda>d. option_or NotFoundError (map_option sqlToParamsUser (List.find us_IsAdmin (db_users d))))"

definition updated_user :: "UpdateUserParams \<Rightarrow> UserRow \<Rightarrow> UserRow" where
  "updated_user param u = (let
     u1 = (if up_FullName param \<noteq> [] then u\<lparr>us_FullName := up_FullName param\<rparr> else u);
     u2 = (case up_Enabled param of None \<Rightarrow> u1 | Some b \<Rightarrow> u1\<lparr>us_Enabled := b\<rparr>)
   in if up_Password param \<noteq> [] then u2\<lparr>us_Password := up_Password param, us_Generation := us_Generation u2 + 1\<rparr> else u2)"

definition update_user_tx :: "auth_env \<Rightarrow> string \<Rightarrow> UpdateUserParams \<Rightarrow> (db, UserRow) prog" where
  "update_user_tx env user param d = (case getUserByUsernameOrEmail env user d of Inl e \<Rightarrow> (Inl e, d)
     | Inr u \<Rightarrow> let u' = (updated_user param u)\<lparr>us_UpdatedAt := db_clock d\<rparr> in
       (Inr u', d\<lparr>db_users := upd_rows (\<lambda>x. us_ID x = us_ID u) (\<lambda>_. u') (db_users d)\<rparr>))"

definition UpdateUser :: "auth_env \<Rightarrow> string \<Rightarrow> UpdateUserParams \<Rightarrow> (db, User) prog" where
  "UpdateUser env user param = m_bind (db_tx (update_user_tx env user param)) (\<lambda>u. m_ret (sqlToParamsUser u))"

subsection \<open>The controller\<close>

definition GARMAgentDefaultReleasesURL :: string where
  "GARMAgentDefaultReleasesURL = ''https://api.github.com/repos/cloudbase/garm-agent/releases''"

definition GARMAgentLatestVersion :: string where "GARMAgentLatestVersion = ''latest''"

definition trim_suffix :: "string \<Rightarrow> string \<Rightarrow> string" where
  "trim_suffix suf s = (if suf \<noteq> [] \<and> length suf \<le> length s \<and> drop (length s - length suf) s = suf then take (length s - length suf) s else s)"

definition is_space :: "char \<Rightarrow> bool" where
  "is_space c \<longleftrightarrow> of_char c \<in> {9 :: nat, 10, 11, 12, 13, 32}"

definition TrimSpace :: "string \<Rightarrow> string" where
  "TrimSpace s = rev (dropWhile is_space (rev (dropWhile is_space s)))"

definition inferAgentURL :: "auth_env \<Rightarrow> string \<Rightarrow> garm_error + string" where
  "inferAgentURL env uri = (if uri = [] then Inl ConflictError else case ae_ParseRequestURI env uri of None \<Rightarrow> Inl (OtherError ''failed to parse URL'')
     | Some (sch, host) \<Rightarrow> Inr (trim_suffix ''/'' (sch @ ''://'' @ host)))"

definition dbControllerToCommonController :: "auth_env \<Rightarrow> ControllerRow \<Rightarrow> garm_error + ControllerInfo" where
  "dbControllerToCommonController env c = (case ae_JoinPath env (ctl_WebhookBaseURL c) (uuid_string (ctl_ControllerID c)) of Inl e \<Rightarrow> Inl e
     | Inr webhookURL \<Rightarrow> Inr \<lparr>ci_ControllerID = ctl_ControllerID c, ci_MetadataURL = ctl_MetadataURL c, ci_CallbackURL = ctl_CallbackURL c,
         ci_WebhookURL = ctl_WebhookBaseURL c, ci_ControllerWebhookURL = webhookURL, ci_MinimumJobAgeBackoff = ctl_MinimumJobAgeBackoff c,
         ci_CACertBundle = ctl_CACertBundle c,
         ci_AgentURL = (if ctl_AgentURL c \<noteq> [] then ctl_AgentURL c else case inferAgentURL env (ctl_CallbackURL c) of Inl _ \<Rightarrow> [] | Inr u \<Rightarrow> u),
         ci_GARMAgentReleasesURL = (if ctl_GARMAgentReleasesURL c = [] then GARMAgentDefaultReleasesURL else ctl_GARMAgentReleasesURL c),
         ci_SyncGARMAgentTools = ctl_SyncGARMAgentTools c, ci_GARMAgentVersion = ctl_GARMAgentVersion c,
         ci_AllowInsecureGARMAgent = ctl_AllowInsecureGARMAgent c, ci_CachedGARMAgentReleases = ctl_CachedGARMAgentReleases c,
         ci_CachedGARMAgentReleaseFetchedAt = ctl_CachedGARMAgentReleaseFetchedAt c\<rparr>)"

definition ControllerInfo :: "auth_env \<Rightarrow> (db, ControllerInfo) prog" where
  "ControllerInfo env = db_read (\<lambda>d. case db_controller d of None \<Rightarrow> Inl NotFoundError | Some c \<Rightarrow> dbControllerToCommonController env c)"

text \<open>Any error of the lookup lets the initialization go on; the table keeps its first row.\<close>

definition db_InitController :: "auth_env \<Rightarrow> (db, uuid) prog" where
  "db_InitController env = m_bind (m_try (ControllerInfo env)) (\<lambda>r. case r of Inr _ \<Rightarrow> m_throw ConflictError
     | Inl _ \<Rightarrow> m_bind new_uuid (\<lambda>newID. db_stmt (\<lambda>d. (Inr newID, if db_controller d \<noteq> None then d else
         d\<lparr>db_controller := Some \<lparr>ctl_ControllerID = newID, ctl_CallbackURL = [], ctl_MetadataURL = [], ctl_WebhookBaseURL = [], ctl_AgentURL = [],
           ctl_GARMAgentReleasesURL = GARMAgentDefaultReleasesURL, ctl_SyncGARMAgentTools = False, ctl_GARMAgentVersion = [],
           ctl_MinimumJobAgeBackoff = 30, ctl_CachedGARMAgentReleases = [], ctl_CachedGARMAgentReleaseFetchedAt = None,
           ctl_AllowInsecureGARMAgent = False, ctl_CACertBundle = []\<rparr>\<rparr>))))"

record UpdateControllerParams =
  ucr_MetadataURL :: "string option"
  ucr_CallbackURL :: "string option"
  ucr_WebhookURL :: "string option"
  ucr_AgentURL :: "string option"
  ucr_GARMAgentReleasesURL :: "string option"
  ucr_SyncGARMAgentTools :: "bool option"
  ucr_GARMAgentVersion :: "string option"
  ucr_AllowInsecureGARMAgent :: "bool option"
  ucr_MinimumJobAgeBackoff :: "uint64 option"
  ucr_CACertBundle :: string
  ucr_ClearCACertBundle :: "bool option"

definition invalid_url :: "auth_env \<Rightarrow> string option \<Rightarrow> bool" where
  "invalid_url env u \<longleftrightarrow> (case u of None \<Rightarrow> False | Some s \<Rightarrow> (case ae_ParseURL env s of None \<Rightarrow> True | Some (sch, host) \<Rightarrow> sch = [] \<or> host = []))"

text \<open>The regular expression \<^verbatim>\<open>^v?\d+\.\d+\.\d+([-+]|$)\<close>.\<close>

definition after_number :: "string \<Rightarrow> string option" where
  "after_number s = (let ds = takeWhile (\<lambda>c. c \<in> set ''0123456789'') s in if ds = [] then None else Some (drop (length ds) s))"

definition after_dot :: "string option \<Rightarrow> string option" where
  "after_dot s = (case s of Some (c # cs) \<Rightarrow> if c = CHR ''.'' then Some cs else None | _ \<Rightarrow> None)"

definition semverCoreRe :: "string \<Rightarrow> bool" where
  "semverCoreRe s \<longleftrightarrow> (let s0 = (case s of [] \<Rightarrow> [] | c # cs \<Rightarrow> if c = CHR ''v'' then cs else s) in
     case after_dot (after_number s0) of None \<Rightarrow> False | Some s1 \<Rightarrow> (case after_dot (after_number s1) of None \<Rightarrow> False
       | Some s2 \<Rightarrow> (case after_number s2 of None \<Rightarrow> False | Some [] \<Rightarrow> True | Some (c # _) \<Rightarrow> c = CHR ''-'' \<or> c = CHR ''+'')))"

definition ValidateGARMAgentVersion :: "auth_env \<Rightarrow> string \<Rightarrow> bool" where
  "ValidateGARMAgentVersion env version \<longleftrightarrow> version = [] \<or> version = GARMAgentLatestVersion \<or>
     (let canonical = (if has_prefix version ''v'' then version else CHR ''v'' # version) in semverCoreRe canonical \<and> ae_IsSemver env canonical)"

definition UpdateControllerParams_Validate :: "auth_env \<Rightarrow> UpdateControllerParams \<Rightarrow> garm_error option" where
  "UpdateControllerParams_Validate env u = (
     if invalid_url env (ucr_MetadataURL u) then Some BadRequestError
     else if ucr_CACertBundle u \<noteq> [] \<and> ucr_ClearCACertBundle u = Some True then Some BadRequestError
     else if ucr_CACertBundle u \<noteq> [] \<and> \<not> ae_SanitizeCABundle env (ucr_CACertBundle u) then Some BadRequestError
     else if invalid_url env (ucr_CallbackURL u) then Some BadRequestError
     else if invalid_url env (ucr_WebhookURL u) then Some BadRequestError
     else if invalid_url env (ucr_AgentURL u) then Some BadRequestError
     else case ucr_GARMAgentVersion u of None \<Rightarrow> None
       | Some v \<Rightarrow> if ValidateGARMAgentVersion env (TrimSpace v) then None else Some BadRequestError)"

definition set_if_changed :: "'a option \<Rightarrow> 'a \<Rightarrow> ('a \<Rightarrow> 'r \<Rightarrow> 'r) \<Rightarrow> ('r \<Rightarrow> 'r) list" where
  "set_if_changed new old put = (case new of None \<Rightarrow> [] | Some x \<Rightarrow> if x \<noteq> old then [put x] else [])"

definition controllerUpdates :: "UpdateControllerParams \<Rightarrow> ControllerRow \<Rightarrow> (ControllerRow \<Rightarrow> ControllerRow) list" where
  "controllerUpdates info c =
     set_if_changed (ucr_MetadataURL info) (ctl_MetadataURL c) (\<lambda>x. ctl_MetadataURL_update (\<lambda>_. x)) @
     set_if_changed (ucr_CallbackURL info) (ctl_CallbackURL c) (\<lambda>x. ctl_CallbackURL_update (\<lambda>_. x)) @
     set_if_changed (ucr_WebhookURL info) (ctl_WebhookBaseURL c) (\<lambda>x. ctl_WebhookBaseURL_update (\<lambda>_. x)) @
     set_if_changed (ucr_AgentURL info) (ctl_AgentURL c) (\<lambda>x. ctl_AgentURL_update (\<lambda>_. x)) @
     (if ucr_ClearCACertBundle info = Some True then [ctl_CACertBundle_update (\<lambda>_. [])]
      else if ucr_CACertBundle info \<noteq> [] then [ctl_CACertBundle_update (\<lambda>_. ucr_CACertBundle info)] else []) @
     set_if_changed (map_option (\<lambda>u. if u = [] then GARMAgentDefaultReleasesURL else u) (ucr_GARMAgentReleasesURL info)) (ctl_GARMAgentReleasesURL c)
       (\<lambda>x. ctl_GARMAgentReleasesURL_update (\<lambda>_. x)) @
     set_if_changed (ucr_SyncGARMAgentTools info) (ctl_SyncGARMAgentTools c) (\<lambda>x. ctl_SyncGARMAgentTools_update (\<lambda>_. x)) @
     set_if_changed (map_option (\<lambda>v. if TrimSpace v = GARMAgentLatestVersion then [] else TrimSpace v) (ucr_GARMAgentVersion info)) (ctl_GARMAgentVersion c)
       (\<lambda>x. ctl_GARMAgentVersion_update (\<lambda>_. x)) @
     set_if_changed (ucr_AllowInsecureGARMAgent info) (ctl_AllowInsecureGARMAgent c) (\<lambda>x. ctl_AllowInsecureGARMAgent_update (\<lambda>_. x)) @
     set_if_changed (ucr_MinimumJobAgeBackoff info) (ctl_MinimumJobAgeBackoff c) (\<lambda>x. ctl_MinimumJobAgeBackoff_update (\<lambda>_. x))"

definition update_controller_tx :: "auth_env \<Rightarrow> UpdateControllerParams \<Rightarrow> (db, ControllerRow \<times> bool) prog" where
  "update_controller_tx env info d = (case db_controller d of None \<Rightarrow> (Inl NotFoundError, d)
     | Some c \<Rightarrow> (case UpdateControllerParams_Validate env info of Some e \<Rightarrow> (Inl e, d)
       | None \<Rightarrow> let updates = controllerUpdates info c; c' = fold id updates c in
           if updates = [] then (Inr (c, False), d) else (Inr (c', True), d\<lparr>db_controller := Some c'\<rparr>)))"

definition UpdateController :: "auth_env \<Rightarrow> UpdateControllerParams \<Rightarrow> (db, ControllerInfo) prog" where
  "UpdateController env info = m_bind (db_tx (update_controller_tx env info)) (\<lambda>(c, affected).
     m_bind (m_result (dbControllerToCommonController env c)) (\<lambda>paramInfo.
       m_seq (m_when affected (sendNotify ControllerEntityType UpdateOperation (ControllerPayload paramInfo))) (m_ret paramInfo)))"

definition UpdateCachedGARMAgentReleases :: "auth_env \<Rightarrow> string \<Rightarrow> time \<Rightarrow> (db, unit) prog" where
  "UpdateCachedGARMAgentReleases env index fetchedAt = m_bind (db_tx (\<lambda>d. case db_controller d of None \<Rightarrow> (Inl NotFoundError, d)
       | Some c \<Rightarrow> let c' = c\<lparr>ctl_CachedGARMAgentReleases := index, ctl_CachedGARMAgentReleaseFetchedAt := Some fetchedAt\<rparr> in
           (Inr c', d\<lparr>db_controller := Some c'\<rparr>))) (\<lambda>c.
     m_bind (m_result (dbControllerToCommonController env c)) (\<lambda>paramInfo.
       sendNotify ControllerEntityType UpdateOperation (ControllerPayload paramInfo)))"

end
