(* ===== verification/Garm_Auth.thy ===== *)
theory Garm_Auth
  imports Garm_Users Garm_Entities Garm_ScaleSets
begin

text \<open>
  Authentication, package \<^verbatim>\<open>auth\<close>: the claims a token carries, how tokens are issued, and the middleware that turns a token into the context of a
  request. A middleware is a program that gives the context the next handler runs with, or the error its response reports:
  \<open>UnauthorizedError\<close> for status 401, \<open>ConflictError\<close> for 409. The current time is the clock of the store.
\<close>

subsection \<open>Claims\<close>

text \<open>Decoding a field: a missing one leaves the zero value, one of another type is an error.\<close>

definition get_string :: "string \<Rightarrow> json_object \<Rightarrow> string option" where
  "get_string k ob = (case map_of ob k of None \<Rightarrow> Some [] | Some (JString s) \<Rightarrow> Some s | Some _ \<Rightarrow> None)"

definition get_bool :: "string \<Rightarrow> json_object \<Rightarrow> bool option" where
  "get_bool k ob = (case map_of ob k of None \<Rightarrow> Some False | Some (JBool b) \<Rightarrow> Some b | Some _ \<Rightarrow> None)"

definition get_int :: "string \<Rightarrow> json_object \<Rightarrow> int option" where
  "get_int k ob = (case map_of ob k of None \<Rightarrow> Some 0 | Some (JNumber n) \<Rightarrow> if - (2 ^ 63) \<le> n \<and> n < 2 ^ 63 then Some n else None | Some _ \<Rightarrow> None)"

definition get_uint :: "string \<Rightarrow> json_object \<Rightarrow> uint64 option" where
  "get_uint k ob = (case map_of ob k of None \<Rightarrow> Some 0 | Some (JNumber n) \<Rightarrow> if 0 \<le> n \<and> n < 2 ^ 64 then Some (word_of_int n) else None | Some _ \<Rightarrow> None)"

text \<open>The expiry date is a number of seconds; it is left out when it is not set.\<close>

definition get_date :: "json_object \<Rightarrow> time option option" where
  "get_date ob = (case map_of ob ''exp'' of None \<Rightarrow> Some None | Some (JNumber n) \<Rightarrow> Some (Some (n * second)) | Some _ \<Rightarrow> None)"

definition put_date :: "time option \<Rightarrow> json_object" where
  "put_date t = (case t of None \<Rightarrow> [] | Some x \<Rightarrow> [(''exp'', JNumber (x div second))])"

record JWTClaims =
  jc_UserID :: string
  jc_TokenID :: string
  jc_FullName :: string
  jc_IsAdmin :: bool
  jc_ReadMetrics :: bool
  jc_Generation :: uint64
  jc_Issuer :: string
  jc_ExpiresAt :: "time option"

definition marshal_JWTClaims :: "JWTClaims \<Rightarrow> json_object" where
  "marshal_JWTClaims c = [(''user'', JString (jc_UserID c)), (''token_id'', JString (jc_TokenID c)), (''full_name'', JString (jc_FullName c)),
     (''is_admin'', JBool (jc_IsAdmin c)), (''read_metrics'', JBool (jc_ReadMetrics c)), (''generation'', JNumber (uint (jc_Generation c))),
     (''iss'', JString (jc_Issuer c))] @ put_date (jc_ExpiresAt c)"

definition unmarshal_JWTClaims :: "json_object \<Rightarrow> JWTClaims option" where
  "unmarshal_JWTClaims ob = (case (get_string ''user'' ob, get_string ''token_id'' ob, get_string ''full_name'' ob, get_bool ''is_admin'' ob,
       get_bool ''read_metrics'' ob, get_uint ''generation'' ob, get_string ''iss'' ob, get_date ob) of
     (Some u, Some t, Some f, Some a, Some m, Some g, Some i, Some e) \<Rightarrow> Some \<lparr>jc_UserID = u, jc_TokenID = t, jc_FullName = f, jc_IsAdmin = a,
       jc_ReadMetrics = m, jc_Generation = g, jc_Issuer = i, jc_ExpiresAt = e\<rparr>
   | _ \<Rightarrow> None)"

record InstanceJWTClaims =
  ic_ID :: string
  ic_Name :: string
  ic_PoolID :: string
  ic_Scope :: string
  ic_Entity :: string
  ic_CreateAttempt :: int
  ic_ForgeType :: string
  ic_IsAgent :: bool
  ic_Issuer :: string
  ic_ExpiresAt :: "time option"

definition marshal_InstanceJWTClaims :: "InstanceJWTClaims \<Rightarrow> json_object" where
  "marshal_InstanceJWTClaims c = [(''id'', JString (ic_ID c)), (''name'', JString (ic_Name c)), (''provider_id'', JString (ic_PoolID c)),
     (''scope'', JString (ic_Scope c)), (''entity'', JString (ic_Entity c)), (''create_attempt'', JNumber (ic_CreateAttempt c)),
     (''forge_type'', JString (ic_ForgeType c)), (''is_agent'', JBool (ic_IsAgent c)), (''iss'', JString (ic_Issuer c))] @ put_date (ic_ExpiresAt c)"

definition unmarshal_InstanceJWTClaims :: "json_object \<Rightarrow> InstanceJWTClaims option" where
  "unmarshal_InstanceJWTClaims ob = (case (get_string ''id'' ob, get_string ''name'' ob, get_string ''provider_id'' ob, get_string ''scope'' ob,
       get_string ''entity'' ob, get_int ''create_attempt'' ob, get_string ''forge_type'' ob, get_bool ''is_agent'' ob, get_string ''iss'' ob, get_date ob) of
     (Some i, Some n, Some p, Some s, Some e, Some a, Some f, Some g, Some is, Some x) \<Rightarrow> Some \<lparr>ic_ID = i, ic_Name = n, ic_PoolID = p, ic_Scope = s,
       ic_Entity = e, ic_CreateAttempt = a, ic_ForgeType = f, ic_IsAgent = g, ic_Issuer = is, ic_ExpiresAt = x\<rparr>
   | _ \<Rightarrow> None)"

subsection \<open>Issuing tokens\<close>

record JWTAuth =
  jwt_Secret :: string
  jwt_TimeToLive :: duration

definition GetJWTToken :: "auth_env \<Rightarrow> JWTAuth \<Rightarrow> Context \<Rightarrow> (db, string) prog" where
  "GetJWTToken env cfg ctx = m_bind (m_result (ae_GetRandomString env 16)) (\<lambda>tokenID. m_bind (m_get db_clock) (\<lambda>now.
     m_result (ae_sign env (jwt_Secret cfg) (marshal_JWTClaims \<lparr>jc_UserID = cx_UserID ctx, jc_TokenID = tokenID, jc_FullName = cx_FullName ctx,
       jc_IsAdmin = cx_IsAdmin ctx, jc_ReadMetrics = False, jc_Generation = cx_PasswordGeneration ctx, jc_Issuer = ''garm'',
       jc_ExpiresAt = Some (now + jwt_TimeToLive cfg)\<rparr>))))"

definition GetJWTMetricsToken :: "auth_env \<Rightarrow> JWTAuth \<Rightarrow> Context \<Rightarrow> (db, string) prog" where
  "GetJWTMetricsToken env cfg ctx = (if \<not> cx_IsAdmin ctx then m_throw UnauthorizedError
     else m_bind (m_result (ae_GetRandomString env 16)) (\<lambda>tokenID. m_bind (m_get db_clock) (\<lambda>now.
       m_result (ae_sign env (jwt_Secret cfg) (marshal_JWTClaims \<lparr>jc_UserID = [], jc_TokenID = tokenID, jc_FullName = [], jc_IsAdmin = False,
         jc_ReadMetrics = True, jc_Generation = 0, jc_Issuer = ''garm'', jc_ExpiresAt = Some (now + jwt_TimeToLive cfg)\<rparr>)))))"

definition PoolReapTimeoutInterval :: duration where "PoolReapTimeoutInterval = 5 * minute"

definition endpoint_type_string :: "EndpointType \<Rightarrow> string" where
  "endpoint_type_string t = (case t of AutoEndpointType \<Rightarrow> [] | GithubEndpointType \<Rightarrow> ''github'' | GiteaEndpointType \<Rightarrow> ''gitea'')"

definition instance_claims :: "Instance \<Rightarrow> ForgeEntity \<Rightarrow> InstanceJWTClaims" where
  "instance_claims inst entity = \<lparr>ic_ID = i_ID inst, ic_Name = i_Name inst, ic_PoolID = i_PoolID inst, ic_Scope = forge_entity_string (e_EntityType entity),
     ic_Entity = ForgeEntity_String entity, ic_CreateAttempt = i_CreateAttempt inst, ic_ForgeType = endpoint_type_string (c_ForgeType (e_Credentials entity)),
     ic_IsAgent = False, ic_Issuer = ''garm'', ic_ExpiresAt = None\<rparr>"

text \<open>The time to live is a product of \<^verbatim>\<open>int64\<close> values and may wrap around.\<close>

definition NewInstanceJWTToken :: "auth_env \<Rightarrow> string \<Rightarrow> Instance \<Rightarrow> ForgeEntity \<Rightarrow> uint64 \<Rightarrow> (db, string) prog" where
  "NewInstanceJWTToken env secret inst entity ttlMinutes = m_bind (m_get db_clock) (\<lambda>now.
     let ttl = (if uint ttlMinutes > 2 ^ 63 - 1 then 2 ^ 63 - 1 else uint ttlMinutes);
         expires = now + wrap_int64 (wrap_int64 (ttl * minute) + PoolReapTimeoutInterval)
     in m_result (ae_sign env secret (marshal_InstanceJWTClaims ((instance_claims inst entity)\<lparr>ic_ExpiresAt := Some expires\<rparr>))))"

definition NewAgentJWTToken :: "auth_env \<Rightarrow> string \<Rightarrow> Instance \<Rightarrow> ForgeEntity \<Rightarrow> (db, string) prog" where
  "NewAgentJWTToken env secret inst entity = m_result (ae_sign env secret (marshal_InstanceJWTClaims
     ((instance_claims inst entity)\<lparr>ic_Entity := e_ID entity, ic_IsAgent := True\<rparr>)))"

subsection \<open>The authenticator\<close>

definition IsInitialized :: "(db, bool) prog" where "IsInitialized = HasAdminUser"

definition init_user :: "auth_env \<Rightarrow> NewUserParams \<Rightarrow> (db, User) prog" where
  "init_user env param = m_bind HasAdminUser (\<lambda>b. if b then m_throw NotFoundError
     else if nu_Email param = [] \<or> nu_Username param = [] then m_throw BadRequestError
     else if \<not> ae_IsValidEmail env (nu_Email param) then m_throw BadRequestError
     else if length (nu_Username param) > 64 \<or> \<not> ae_IsAlphanumeric env (nu_Username param) then m_throw BadRequestError
     else if ae_PasswordScore env (nu_Password param) < 4 then m_throw BadRequestError
     else m_bind (m_result (ae_PasswordToBcrypt env (nu_Password param))) (\<lambda>hashed.
       CreateUser env (param\<lparr>nu_IsAdmin := True, nu_Enabled := True, nu_Password := hashed\<rparr>)))"

definition InitController :: "auth_env \<Rightarrow> NewUserParams \<Rightarrow> (db, User) prog" where
  "InitController env param = m_bind (m_try (ControllerInfo env)) (\<lambda>r. case r of
     Inl e \<Rightarrow> if \<not> error_is e NotFoundError then m_throw e else init_user env param | Inr _ \<Rightarrow> init_user env param)"

definition AuthenticateUser :: "auth_env \<Rightarrow> Context \<Rightarrow> string \<Rightarrow> string \<Rightarrow> (db, Context) prog" where
  "AuthenticateUser env ctx username password = (if username = [] \<or> password = [] then m_throw UnauthorizedError
     else m_bind (m_try (GetUser env username)) (\<lambda>r. case r of
         Inl e \<Rightarrow> m_throw (if error_is e NotFoundError then UnauthorizedError else e)
       | Inr user \<Rightarrow> if \<not> u_Enabled user then m_throw UnauthorizedError
           else if u_Password user = [] then m_throw UnauthorizedError
           else if \<not> ae_CompareHashAndPassword env (u_Password user) password then m_throw UnauthorizedError
           else m_ret (PopulateContext user None ctx)))"

subsection \<open>Requests and middleware\<close>

record Request =
  rq_Authorization :: string
  rq_Cookie :: "string option"

text \<open>\<^verbatim>\<open>strings.Split\<close> with a separator of one character.\<close>

fun split_char :: "char \<Rightarrow> string \<Rightarrow> string list" where
  "split_char c [] = [[]]"
| "split_char c (x # xs) = (if x = c then [] # split_char c xs else case split_char c xs of [] \<Rightarrow> [[x]] | w # ws \<Rightarrow> (x # w) # ws)"

definition bearer :: "string \<Rightarrow> string option" where
  "bearer header = (case split_char (CHR '' '') header of [_, token] \<Rightarrow> Some token | _ \<Rightarrow> None)"

definition getTokenFromRequest :: "Request \<Rightarrow> string option" where
  "getTokenFromRequest r = (if rq_Authorization r = [] then rq_Cookie r else bearer (rq_Authorization r))"

definition header_token :: "Request \<Rightarrow> string option" where
  "header_token r = (if rq_Authorization r = [] then None else bearer (rq_Authorization r))"

text \<open>\<^verbatim>\<open>jwt.ParseWithClaims\<close>: the claims are decoded into the given type.\<close>

definition parse_claims :: "auth_env \<Rightarrow> string \<Rightarrow> (json_object \<Rightarrow> 'c option) \<Rightarrow> string option \<Rightarrow> (db, 'c \<times> bool) prog" where
  "parse_claims env secret decode token = m_query (\<lambda>d. case token of None \<Rightarrow> Inl UnauthorizedError
     | Some t \<Rightarrow> (case ae_parse env secret (db_clock d) t of None \<Rightarrow> Inl UnauthorizedError
       | Some (ob, valid) \<Rightarrow> (case decode ob of None \<Rightarrow> Inl UnauthorizedError | Some c \<Rightarrow> Inr (c, valid))))"

definition unauthorized_on_error :: "(db, 'a) prog \<Rightarrow> (db, 'a) prog" where
  "unauthorized_on_error m = m_bind (m_try m) (\<lambda>r. case r of Inl _ \<Rightarrow> m_throw UnauthorizedError | Inr x \<Rightarrow> m_ret x)"

definition jwt_claimsToContext :: "Context \<Rightarrow> JWTClaims \<Rightarrow> (db, Context) prog" where
  "jwt_claimsToContext ctx claims = (if jc_UserID claims = [] then m_throw UnauthorizedError
     else m_bind (unauthorized_on_error (GetUserByID (jc_UserID claims))) (\<lambda>userInfo.
       if u_Generation userInfo \<noteq> jc_Generation claims then m_throw UnauthorizedError
       else m_ret (PopulateContext userInfo (jc_ExpiresAt claims) ctx)))"

definition jwtMiddleware :: "auth_env \<Rightarrow> JWTAuth \<Rightarrow> Request \<Rightarrow> Context \<Rightarrow> (db, Context) prog" where
  "jwtMiddleware env cfg r ctx = m_bind (parse_claims env (jwt_Secret cfg) unmarshal_JWTClaims (getTokenFromRequest r)) (\<lambda>(claims, valid).
     if \<not> valid then m_throw UnauthorizedError
     else m_bind (jwt_claimsToContext ctx claims) (\<lambda>ctx'. if \<not> cx_IsEnabled ctx' then m_throw UnauthorizedError else m_ret ctx'))"

definition MetricsMiddleware :: "auth_env \<Rightarrow> JWTAuth \<Rightarrow> Request \<Rightarrow> Context \<Rightarrow> (db, Context) prog" where
  "MetricsMiddleware env cfg r ctx = m_bind (parse_claims env (jwt_Secret cfg) unmarshal_JWTClaims (header_token r)) (\<lambda>(claims, valid).
     if \<not> valid then m_throw UnauthorizedError else if \<not> jc_ReadMetrics claims then m_throw UnauthorizedError
     else m_ret (ctx\<lparr>cx_IsAdmin := False, cx_ReadMetrics := True\<rparr>))"

definition AdminRequiredMiddleware :: "Context \<Rightarrow> (db, Context) prog" where
  "AdminRequiredMiddleware ctx = (if \<not> cx_IsAdmin ctx then m_throw UnauthorizedError else m_ret ctx)"

definition initRequired :: "Context \<Rightarrow> (db, Context) prog" where
  "initRequired ctx = m_bind HasAdminUser (\<lambda>b. if \<not> b then m_throw ConflictError else m_ret ctx)"

definition urlsRequired :: "auth_env \<Rightarrow> Context \<Rightarrow> (db, Context) prog" where
  "urlsRequired env ctx = m_bind (m_try (ControllerInfo env)) (\<lambda>r. case r of Inl _ \<Rightarrow> m_throw ConflictError
     | Inr c \<Rightarrow> if ci_MetadataURL c = [] \<or> ci_CallbackURL c = [] \<or> ci_AgentURL c = [] then m_throw ConflictError else m_ret ctx)"

definition getForgeEntityFromInstance :: "Instance \<Rightarrow> (db, ForgeEntity) prog" where
  "getForgeEntityFromInstance inst = m_bind (
     if i_PoolID inst \<noteq> [] then m_bind (GetPoolByID (i_PoolID inst)) (\<lambda>p. m_result (Pool_GetEntity p))
     else if i_ScaleSetID inst \<noteq> 0 then m_bind (GetScaleSetByID (i_ScaleSetID inst)) (\<lambda>s. m_result (ScaleSet_GetEntity s))
     else m_throw (OtherError ''instance not associated with a pool or scale set'')) (\<lambda>(ty, i). GetForgeEntity ty i)"

text \<open>The same for runners and for agents.\<close>

definition instance_claimsToContext :: "Context \<Rightarrow> InstanceJWTClaims \<Rightarrow> (db, Context) prog" where
  "instance_claimsToContext ctx claims = (if ic_Name claims = [] then m_throw UnauthorizedError
     else m_bind (unauthorized_on_error (GetInstance (ic_Name claims))) (\<lambda>inst.
       m_bind (unauthorized_on_error (getForgeEntityFromInstance inst)) (\<lambda>entity.
         m_ret (PopulateInstanceContext inst entity (ic_ForgeType claims) (ic_IsAgent claims) ctx))))"

definition instance_checks :: "(RunnerStatus \<Rightarrow> bool) \<Rightarrow> InstanceStatus list \<Rightarrow> InstanceJWTClaims \<Rightarrow> Context \<Rightarrow> (db, Context) prog" where
  "instance_checks statusOK statuses claims ctx = (if cx_InstanceID ctx = [] then m_throw UnauthorizedError
     else if \<not> statusOK (cx_InstanceRunnerStatus ctx) then m_throw UnauthorizedError
     else case cx_InstanceParams ctx of None \<Rightarrow> m_throw UnauthorizedError
       | Some inst \<Rightarrow> if ic_CreateAttempt claims \<noteq> i_CreateAttempt inst then m_throw UnauthorizedError
           else if i_Status inst \<notin> set statuses then m_throw UnauthorizedError else m_ret ctx)"

definition instanceMiddleware :: "auth_env \<Rightarrow> JWTAuth \<Rightarrow> Request \<Rightarrow> Context \<Rightarrow> (db, Context) prog" where
  "instanceMiddleware env cfg r ctx = m_bind (parse_claims env (jwt_Secret cfg) unmarshal_InstanceJWTClaims (header_token r)) (\<lambda>(claims, valid).
     if \<not> valid then m_throw UnauthorizedError else if ic_IsAgent claims then m_throw UnauthorizedError
     else m_bind (instance_claimsToContext ctx claims) (\<lambda>ctx'.
       instance_checks (\<lambda>s. s = RunnerInstalling \<or> s = RunnerPending) [InstanceCreating, InstanceRunning] claims
         (ctx'\<lparr>cx_InstanceAuthToken := header_token r\<rparr>)))"

definition agentMiddleware :: "auth_env \<Rightarrow> JWTAuth \<Rightarrow> Request \<Rightarrow> Context \<Rightarrow> (db, Context) prog" where
  "agentMiddleware env cfg r ctx = m_bind (parse_claims env (jwt_Secret cfg) unmarshal_InstanceJWTClaims (header_token r)) (\<lambda>(claims, valid).
     if \<not> ic_IsAgent claims then m_throw UnauthorizedError else if \<not> valid then m_throw UnauthorizedError
     else m_bind (instance_claimsToContext ctx claims)
       (instance_checks (\<lambda>s. s \<noteq> RunnerActive \<and> s \<noteq> RunnerTerminated \<and> s \<noteq> RunnerFailed) [InstanceRunning] claims))"

end
