(* ===== verification/Garm_Auth_Spec.thy ===== *)
theory Garm_Auth_Spec
  imports Garm_Auth
begin

text \<open>
  What authentication guarantees: tokens of one kind are of no use for another, a new password ends all sessions, a login opens a session as the
  same user, and the token of a runner works exactly while its instance needs it. Of the JWT library the theorems assume that the claims of a
  token are those that were signed into it (\<open>signs_faithfully\<close>), or that a signed token is accepted until it expires (\<open>accepts_signed\<close>).
\<close>

subsection \<open>Claims\<close>

lemmas claim_defs = marshal_JWTClaims_def unmarshal_JWTClaims_def marshal_InstanceJWTClaims_def unmarshal_InstanceJWTClaims_def
  get_string_def get_bool_def get_int_def get_uint_def get_date_def put_date_def

lemma JWTClaims_round_trip:
  "unmarshal_JWTClaims (marshal_JWTClaims c) = Some (c\<lparr>jc_ExpiresAt := map_option (\<lambda>t. t div second * second) (jc_ExpiresAt c)\<rparr>)"
  using uint_bounded [of "jc_Generation c"] by (cases "jc_ExpiresAt c") (simp_all add: claim_defs)

lemma InstanceJWTClaims_round_trip:
  assumes "- (2 ^ 63) \<le> ic_CreateAttempt c" "ic_CreateAttempt c < 2 ^ 63"
  shows "unmarshal_InstanceJWTClaims (marshal_InstanceJWTClaims c) = Some (c\<lparr>ic_ExpiresAt := map_option (\<lambda>t. t div second * second) (ic_ExpiresAt c)\<rparr>)"
  using assms by (cases "ic_ExpiresAt c") (simp_all add: claim_defs)

text \<open>Claims read as claims of the other kind name nobody and permit nothing.\<close>

lemma instance_as_user:
  "unmarshal_JWTClaims (marshal_InstanceJWTClaims c) = Some x \<Longrightarrow> jc_UserID x = [] \<and> \<not> jc_ReadMetrics x"
  by (cases "ic_ExpiresAt c") (auto simp: claim_defs)

lemma user_as_instance:
  "unmarshal_InstanceJWTClaims (marshal_JWTClaims c) = Some x \<Longrightarrow> ic_Name x = [] \<and> \<not> ic_IsAgent x"
  by (cases "jc_ExpiresAt c") (auto simp: claim_defs)

lemma instance_kind:
  "unmarshal_InstanceJWTClaims (marshal_InstanceJWTClaims c) = Some x \<Longrightarrow> ic_IsAgent x = ic_IsAgent c"
  by (cases "ic_ExpiresAt c") (auto simp: claim_defs split: if_splits)

subsection \<open>What is asked of the token library\<close>

text \<open>The claims of a token are those that were signed into it; a signed token is accepted until it expires.\<close>

definition signs_faithfully :: "auth_env \<Rightarrow> bool" where
  "signs_faithfully env \<longleftrightarrow> (\<forall>s ob tok now ob' v. ae_sign env s ob = Inr tok \<longrightarrow> ae_parse env s now tok = Some (ob', v) \<longrightarrow> ob' = ob)"

definition accepts_signed :: "auth_env \<Rightarrow> bool" where
  "accepts_signed env \<longleftrightarrow> (\<forall>s ob tok now e. ae_sign env s ob = Inr tok \<longrightarrow> map_of ob ''exp'' = Some (JNumber e) \<longrightarrow> now < e * second \<longrightarrow>
     ae_parse env s now tok = Some (ob, True))"

lemma parse_claims_signed:
  assumes "signs_faithfully env" "ae_sign env s ob = Inr tok" "t = None \<or> t = Some tok"
  obtains (refused) "parse_claims env s decode t d = (Inl UnauthorizedError, d)"
    | (claims) c v where "decode ob = Some c" "parse_claims env s decode t d = (Inr (c, v), d)"
proof (cases t)
  case None
  then show ?thesis using refused by (simp add: parse_claims_def m_query_def)
next
  case (Some x)
  show ?thesis
  proof (cases "ae_parse env s (db_clock d) tok")
    case None
    with Some assms(3) show ?thesis using refused by (simp add: parse_claims_def m_query_def)
  next
    case (Some p)
    obtain ob' v where p: "p = (ob', v)" by fastforce
    with assms(1,2) Some have "ob' = ob" unfolding signs_faithfully_def by blast
    with p Some assms(3) \<open>t = Some x\<close> show ?thesis
      by (cases "decode ob") (auto simp: parse_claims_def m_query_def intro: refused claims)
  qed
qed

lemma header_token_cases: "getTokenFromRequest r = Some tok \<Longrightarrow> header_token r = None \<or> header_token r = Some tok"
  by (auto simp: getTokenFromRequest_def header_token_def split: if_splits)

subsection \<open>Tokens of one kind are of no use elsewhere\<close>

datatype token_kind = UserToken | MetricsToken | InstanceToken | AgentToken

fun issues :: "auth_env \<Rightarrow> JWTAuth \<Rightarrow> token_kind \<Rightarrow> string \<Rightarrow> bool" where
  "issues env cfg UserToken tok = (\<exists>ctx d d'. GetJWTToken env cfg ctx d = (Inr tok, d'))"
| "issues env cfg MetricsToken tok = (\<exists>ctx d d'. GetJWTMetricsToken env cfg ctx d = (Inr tok, d'))"
| "issues env cfg InstanceToken tok = (\<exists>inst entity ttl d d'. NewInstanceJWTToken env (jwt_Secret cfg) inst entity ttl d = (Inr tok, d'))"
| "issues env cfg AgentToken tok = (\<exists>inst entity d d'. NewAgentJWTToken env (jwt_Secret cfg) inst entity d = (Inr tok, d'))"

fun guarded :: "auth_env \<Rightarrow> JWTAuth \<Rightarrow> token_kind \<Rightarrow> Request \<Rightarrow> Context \<Rightarrow> (db, Context) prog" where
  "guarded env cfg UserToken = jwtMiddleware env cfg"
| "guarded env cfg MetricsToken = MetricsMiddleware env cfg"
| "guarded env cfg InstanceToken = instanceMiddleware env cfg"
| "guarded env cfg AgentToken = agentMiddleware env cfg"

text \<open>The object that was signed: whose it is shows in its fields.\<close>

fun signed_as :: "token_kind \<Rightarrow> json_object \<Rightarrow> bool" where
  "signed_as UserToken ob = (\<exists>c. ob = marshal_JWTClaims c \<and> \<not> jc_ReadMetrics c)"
| "signed_as MetricsToken ob = (\<exists>c. ob = marshal_JWTClaims c \<and> jc_UserID c = [])"
| "signed_as InstanceToken ob = (\<exists>c. ob = marshal_InstanceJWTClaims c \<and> \<not> ic_IsAgent c)"
| "signed_as AgentToken ob = (\<exists>c. ob = marshal_InstanceJWTClaims c \<and> ic_IsAgent c)"

lemma user_token_signed: "GetJWTToken env cfg ctx d = (Inr tok, d') \<Longrightarrow>
    \<exists>c. ae_sign env (jwt_Secret cfg) (marshal_JWTClaims c) = Inr tok \<and> \<not> jc_ReadMetrics c \<and> jc_UserID c = cx_UserID ctx \<and>
      jc_Generation c = cx_PasswordGeneration ctx \<and> jc_ExpiresAt c = Some (db_clock d + jwt_TimeToLive cfg)"
  by (auto simp: GetJWTToken_def m_bind_def split: sum.splits intro!: exI)

lemma metrics_token_signed: "GetJWTMetricsToken env cfg ctx d = (Inr tok, d') \<Longrightarrow>
    \<exists>c. ae_sign env (jwt_Secret cfg) (marshal_JWTClaims c) = Inr tok \<and> jc_UserID c = []"
  by (auto simp: GetJWTMetricsToken_def m_bind_def split: sum.splits if_splits intro!: exI)

lemma instance_token_signed: "NewInstanceJWTToken env secret inst entity ttl d = (Inr tok, d') \<Longrightarrow>
    \<exists>c. ae_sign env secret (marshal_InstanceJWTClaims c) = Inr tok \<and> \<not> ic_IsAgent c"
  by (auto simp: NewInstanceJWTToken_def Let_def instance_claims_def intro!: exI)

lemma agent_token_signed: "NewAgentJWTToken env secret inst entity d = (Inr tok, d') \<Longrightarrow>
    \<exists>c. ae_sign env secret (marshal_InstanceJWTClaims c) = Inr tok \<and> ic_IsAgent c"
  by (auto simp: NewAgentJWTToken_def instance_claims_def intro!: exI)

lemma issues_signed:
  assumes "issues env cfg k tok"
  shows "\<exists>ob. ae_sign env (jwt_Secret cfg) ob = Inr tok \<and> signed_as k ob"
  using assms by (cases k) (fastforce dest: user_token_signed metrics_token_signed instance_token_signed agent_token_signed)+

lemma refuses_other:
  assumes "signs_faithfully env" "ae_sign env (jwt_Secret cfg) ob = Inr tok" "signed_as k ob" "getTokenFromRequest r = Some tok" "k' \<noteq> k"
  shows "guarded env cfg k' r ctx d = (Inl UnauthorizedError, d)"
proof (cases k')
  case UserToken
  consider (refused) "parse_claims env (jwt_Secret cfg) unmarshal_JWTClaims (getTokenFromRequest r) d = (Inl UnauthorizedError, d)"
    | (claims) c v where "unmarshal_JWTClaims ob = Some c" "parse_claims env (jwt_Secret cfg) unmarshal_JWTClaims (getTokenFromRequest r) d = (Inr (c, v), d)"
    by (rule parse_claims_signed [OF assms(1,2) disjI2 [OF assms(4)]])
  then show ?thesis
  proof cases
    case claims
    have "jc_UserID c = []" using claims(1) assms(3,5) UserToken by (cases k) (auto simp: JWTClaims_round_trip dest: instance_as_user)
    with claims(2) UserToken show ?thesis by (simp add: jwtMiddleware_def m_bind_def jwt_claimsToContext_def)
  qed (simp add: UserToken jwtMiddleware_def m_bind_def)
next
  case MetricsToken
  consider (refused) "parse_claims env (jwt_Secret cfg) unmarshal_JWTClaims (header_token r) d = (Inl UnauthorizedError, d)"
    | (claims) c v where "unmarshal_JWTClaims ob = Some c" "parse_claims env (jwt_Secret cfg) unmarshal_JWTClaims (header_token r) d = (Inr (c, v), d)"
    by (rule parse_claims_signed [OF assms(1,2) header_token_cases [OF assms(4)]])
  then show ?thesis
  proof cases
    case claims
    have "\<not> jc_ReadMetrics c" using claims(1) assms(3,5) MetricsToken by (cases k) (auto simp: JWTClaims_round_trip dest: instance_as_user)
    with claims(2) MetricsToken show ?thesis by (simp add: MetricsMiddleware_def m_bind_def)
  qed (simp add: MetricsToken MetricsMiddleware_def m_bind_def)
next
  case InstanceToken
  consider (refused) "parse_claims env (jwt_Secret cfg) unmarshal_InstanceJWTClaims (header_token r) d = (Inl UnauthorizedError, d)"
    | (claims) c v where "unmarshal_InstanceJWTClaims ob = Some c" "parse_claims env (jwt_Secret cfg) unmarshal_InstanceJWTClaims (header_token r) d = (Inr (c, v), d)"
    by (rule parse_claims_signed [OF assms(1,2) header_token_cases [OF assms(4)]])
  then show ?thesis
  proof cases
    case claims
    have "ic_Name c = [] \<or> ic_IsAgent c"
      using claims(1) assms(3,5) InstanceToken by (cases k) (auto dest: user_as_instance instance_kind)
    with claims(2) InstanceToken show ?thesis by (auto simp: instanceMiddleware_def m_bind_def instance_claimsToContext_def)
  qed (simp add: InstanceToken instanceMiddleware_def m_bind_def)
next
  case AgentToken
  consider (refused) "parse_claims env (jwt_Secret cfg) unmarshal_InstanceJWTClaims (header_token r) d = (Inl UnauthorizedError, d)"
    | (claims) c v where "unmarshal_InstanceJWTClaims ob = Some c" "parse_claims env (jwt_Secret cfg) unmarshal_InstanceJWTClaims (header_token r) d = (Inr (c, v), d)"
    by (rule parse_claims_signed [OF assms(1,2) header_token_cases [OF assms(4)]])
  then show ?thesis
  proof cases
    case claims
    have "\<not> ic_IsAgent c"
      using claims(1) assms(3,5) AgentToken by (cases k) (auto dest: user_as_instance instance_kind)
    with claims(2) AgentToken show ?thesis by (simp add: agentMiddleware_def m_bind_def)
  qed (simp add: AgentToken agentMiddleware_def m_bind_def)
qed

text \<open>
  (C35) The four kinds of token are kept apart: a token that was issued for a user, for metrics, for a runner or for an agent is refused by the
  middleware of the three other kinds, and the store is left alone, although all of them are signed with the same secret.\<close>

theorem token_kinds_disjoint:
  assumes "signs_faithfully env" "issues env cfg k tok" "getTokenFromRequest r = Some tok" "k' \<noteq> k"
  shows "guarded env cfg k' r ctx d = (Inl UnauthorizedError, d)"
  using issues_signed [OF assms(2)] refuses_other [OF assms(1) _ _ assms(3,4)] by blast

subsection \<open>Passwords\<close>

definition generation_of :: "uuid \<Rightarrow> db \<Rightarrow> uint64 option" where
  "generation_of i d = map_option us_Generation (List.find (\<lambda>u. us_ID u = i) (db_users d))"

text \<open>Along \<open>n\<close> updates the generation of a user goes up by at most \<open>n\<close>.\<close>

definition aged :: "nat \<Rightarrow> db \<Rightarrow> db \<Rightarrow> bool" where
  "aged n d d' \<longleftrightarrow> (\<forall>i g. generation_of i d = Some g \<longrightarrow> (\<exists>k \<le> n. generation_of i d' = Some (g + of_nat k)))"

lemma generation_of_ignores [simp]:
  "generation_of i (d\<lparr>db_faults := fs\<rparr>) = generation_of i d" "generation_of i (d\<lparr>db_uuid_next := m\<rparr>) = generation_of i d"
  by (simp_all add: generation_of_def)

lemma aged_refl: "aged n d d"
  by (auto simp: aged_def intro: exI [of _ 0])

lemma aged_trans: "aged m d d' \<Longrightarrow> aged n d' d'' \<Longrightarrow> aged (m + n) d d''"
  unfolding aged_def
proof (intro allI impI)
  fix i g assume a: "\<forall>i g. generation_of i d = Some g \<longrightarrow> (\<exists>k \<le> m. generation_of i d' = Some (g + of_nat k))"
    and b: "\<forall>i g. generation_of i d' = Some g \<longrightarrow> (\<exists>k \<le> n. generation_of i d'' = Some (g + of_nat k))" and g: "generation_of i d = Some g"
  from a g obtain k where k: "k \<le> m" "generation_of i d' = Some (g + of_nat k)" by blast
  from b k(2) obtain j where j: "j \<le> n" "generation_of i d'' = Some (g + of_nat k + of_nat j)" by blast
  from k(1) j show "\<exists>k \<le> m + n. generation_of i d'' = Some (g + of_nat k)" by (intro exI [of _ "k + j"]) (simp add: add.assoc)
qed

lemma find_upd_user:
  assumes "\<And>x. us_ID (f x) = us_ID x"
  shows "List.find (\<lambda>u. us_ID u = i) (upd_rows (\<lambda>x. us_ID x = j) f us) = map_option (if i = j then f else id) (List.find (\<lambda>u. us_ID u = i) us)"
  using assms by (induction us) (auto simp: upd_rows_def)

lemma updated_user_keeps: "us_ID (updated_user p u) = us_ID u"
  "us_Generation (updated_user p u) = (if up_Password p \<noteq> [] then us_Generation u + 1 else us_Generation u)"
  by (auto simp: updated_user_def Let_def split: option.splits)

lemma getUser_mem: "getUserByUsernameOrEmail env l d = Inr u \<Longrightarrow> u \<in> set (db_users d)"
  by (auto simp: getUserByUsernameOrEmail_def option_or_def dest: find_SomeD split: option.splits)

text \<open>The effect of an update on generations: exactly the user who got a new password moves on.\<close>

lemma update_user_generation:
  assumes "distinct (map us_ID (db_users d))" "update_user_tx env l p d = (Inr u', d')" "getUserByUsernameOrEmail env l d = Inr u"
  shows "generation_of i d' = map_option (\<lambda>g. if i = us_ID u \<and> up_Password p \<noteq> [] then g + 1 else g) (generation_of i d)"
    and "map us_ID (db_users d') = map us_ID (db_users d)" and "us_ID u' = us_ID u"
proof -
  from assms(2,3) have d': "d' = d\<lparr>db_users := upd_rows (\<lambda>x. us_ID x = us_ID u) (\<lambda>_. u') (db_users d)\<rparr>"
    and u': "u' = (updated_user p u)\<lparr>us_UpdatedAt := db_clock d\<rparr>"
    by (auto simp: update_user_tx_def Let_def)
  show "us_ID u' = us_ID u" by (simp add: u' updated_user_keeps)
  have same: "x = u" if "x \<in> set (db_users d)" "us_ID x = us_ID u" for x
    using that getUser_mem [OF assms(3)] assms(1) by (auto simp: distinct_map inj_on_def)
  define f where "f x = (if x = u then u' else x)" for x
  have f: "us_ID (f x) = us_ID x" for x by (simp add: f_def u' updated_user_keeps)
  have "upd_rows (\<lambda>x. us_ID x = us_ID u) (\<lambda>_. u') (db_users d) = upd_rows (\<lambda>x. us_ID x = us_ID u) f (db_users d)"
    using same by (auto simp: upd_rows_def f_def)
  then have eq: "d' = d\<lparr>db_users := upd_rows (\<lambda>x. us_ID x = us_ID u) f (db_users d)\<rparr>" by (simp add: d')
  then show "map us_ID (db_users d') = map us_ID (db_users d)" by (auto simp: upd_rows_def f)
  show "generation_of i d' = map_option (\<lambda>g. if i = us_ID u \<and> up_Password p \<noteq> [] then g + 1 else g) (generation_of i d)"
  proof (cases "List.find (\<lambda>x. us_ID x = i) (db_users d)")
    case (Some x)
    with find_SomeD [OF Some] same [of x] show ?thesis
      by (auto simp: eq generation_of_def find_upd_user [OF f] f_def u' updated_user_keeps)
  qed (simp add: eq generation_of_def find_upd_user [OF f])
qed

lemma db_tx_results:
  obtains (fault) bs where "db_tx body d = (Inl DatabaseError, d\<lparr>db_faults := bs\<rparr>)"
    | (err) bs e d' where "body (d\<lparr>db_faults := bs\<rparr>) = (Inl e, d')" "db_tx body d = (Inl e, d\<lparr>db_faults := bs, db_uuid_next := db_uuid_next d'\<rparr>)"
    | (ok) bs x d' where "body (d\<lparr>db_faults := bs\<rparr>) = (Inr x, d')" "db_tx body d = (Inr x, d')"
proof (cases "db_faults d")
  case Nil
  then have d: "d\<lparr>db_faults := []\<rparr> = d" by (cases d) simp
  obtain r d' where "body d = (r, d')" by fastforce
  with Nil have "db_tx body d = (case r of Inl e \<Rightarrow> (Inl e, d\<lparr>db_uuid_next := db_uuid_next d'\<rparr>) | Inr x \<Rightarrow> (Inr x, d'))"
    by (simp add: db_tx_def db_stmt_def split: sum.splits)
  note run = this
  have d2: "d\<lparr>db_faults := [], db_uuid_next := u\<rparr> = d\<lparr>db_uuid_next := u\<rparr>" for u using Nil by (cases d) simp
  show ?thesis
  proof (cases r)
    case (Inl e)
    show ?thesis by (rule err [of "[]" e d']) (simp_all only: d d2 run \<open>body d = (r, d')\<close> Inl sum.case)
  next
    case (Inr x)
    show ?thesis by (rule ok [of "[]" x d']) (simp_all only: d run \<open>body d = (r, d')\<close> Inr sum.case)
  qed
next
  case (Cons b bs)
  obtain r d' where "body (d\<lparr>db_faults := bs\<rparr>) = (r, d')" by fastforce
  with Cons show ?thesis by (cases r; cases b) (auto simp: db_tx_def db_stmt_def intro: fault [of bs] err [of bs] ok [of bs])
qed

lemma UpdateUser_aged:
  assumes "distinct (map us_ID (db_users d))"
  shows "aged 1 d (snd (UpdateUser env l p d)) \<and> map us_ID (db_users (snd (UpdateUser env l p d))) = map us_ID (db_users d)"
proof (cases rule: db_tx_results [of "update_user_tx env l p" d])
  case (ok bs u' d')
  let ?d = "d\<lparr>db_faults := bs\<rparr>"
  from ok(1) obtain u where u: "getUserByUsernameOrEmail env l ?d = Inr u" by (auto simp: update_user_tx_def split: sum.splits)
  have ids: "distinct (map us_ID (db_users ?d))" using assms by simp
  have run: "snd (UpdateUser env l p d) = d'" by (simp add: UpdateUser_def m_bind_def ok(2))
  have "generation_of i d' = map_option (\<lambda>g. if i = us_ID u \<and> up_Password p \<noteq> [] then g + 1 else g) (generation_of i d)" for i
    using update_user_generation(1) [OF ids ok(1) u, of i] by simp
  then have "aged 1 d d'" unfolding aged_def by (auto intro: exI [of _ 1] exI [of _ 0])
  with update_user_generation(2) [OF ids ok(1) u] run show ?thesis by simp
qed (auto simp: UpdateUser_def m_bind_def aged_def intro: exI [of _ 0])

lemma UpdateUsers_aged:
  assumes "distinct (map us_ID (db_users d))"
  shows "aged (length later) d (snd (m_for (\<lambda>(l, p). m_ignore (UpdateUser env l p)) later d))"
  using assms
proof (induction later arbitrary: d)
  case (Cons a later)
  obtain l p where a: "a = (l, p)" by fastforce
  define d1 where "d1 = snd (UpdateUser env l p d)"
  have run: "snd (m_for (\<lambda>(l, p). m_ignore (UpdateUser env l p)) (a # later) d) = snd (m_for (\<lambda>(l, p). m_ignore (UpdateUser env l p)) later d1)"
    by (simp add: a d1_def m_seq_def m_bind_def m_ignore_def split: prod.splits)
  from UpdateUser_aged [OF Cons.prems] have "aged 1 d d1" "distinct (map us_ID (db_users d1))" using Cons.prems by (simp_all add: d1_def)
  from aged_trans [OF this(1) Cons.IH [OF this(2)]] show ?case unfolding run by simp
qed (simp add: aged_refl)

lemma jwtMiddleware_wrong_generation:
  assumes "signs_faithfully env" "ae_sign env (jwt_Secret cfg) (marshal_JWTClaims c) = Inr tok" "getTokenFromRequest r = Some tok"
    "\<And>i. uuid_parse (jc_UserID c) = Some i \<Longrightarrow> generation_of i d \<noteq> Some (jc_Generation c)"
  shows "fst (jwtMiddleware env cfg r ctx d) = Inl UnauthorizedError"
proof -
  consider (refused) "parse_claims env (jwt_Secret cfg) unmarshal_JWTClaims (getTokenFromRequest r) d = (Inl UnauthorizedError, d)"
    | (claims) x v where "unmarshal_JWTClaims (marshal_JWTClaims c) = Some x"
      "parse_claims env (jwt_Secret cfg) unmarshal_JWTClaims (getTokenFromRequest r) d = (Inr (x, v), d)"
    by (rule parse_claims_signed [OF assms(1,2) disjI2 [OF assms(3)]])
  then show ?thesis
  proof cases
    case (claims x v)
    then have x: "jc_UserID x = jc_UserID c" "jc_Generation x = jc_Generation c" by (auto simp: JWTClaims_round_trip)
    have "fst (jwt_claimsToContext ctx x d) = Inl UnauthorizedError"
    proof (cases "GetUserByID (jc_UserID x) d")
      case (Pair u d')
      show ?thesis
      proof (cases u)
        case (Inr user)
        with Pair obtain bs row where row: "getUserByID (jc_UserID x) (d\<lparr>db_faults := bs\<rparr>) = Inr row" "user = sqlToParamsUser row"
          unfolding GetUserByID_def db_read_def by (auto elim!: db_stmt_ok split: sum.splits)
        then obtain i where "uuid_parse (jc_UserID x) = Some i" "List.find (\<lambda>u. us_ID u = i) (db_users d) = Some row"
          by (auto simp: getUserByID_def option_or_def split: option.splits)
        then have "u_Generation user \<noteq> jc_Generation x" using assms(4) [of i] row(2) by (auto simp: generation_of_def sqlToParamsUser_def x)
        with Pair Inr show ?thesis by (simp add: jwt_claimsToContext_def m_bind_def unauthorized_on_error_def m_try_def)
      qed (simp add: Pair jwt_claimsToContext_def m_bind_def unauthorized_on_error_def m_try_def)
    qed
    with claims(2) show ?thesis by (auto simp: jwtMiddleware_def m_bind_def split: prod.splits sum.splits)
  qed (simp add: jwtMiddleware_def m_bind_def)
qed

lemma of_nat_word_nonzero: "0 < k \<Longrightarrow> k < 2 ^ 64 \<Longrightarrow> (of_nat k :: uint64) \<noteq> 0"
  by (auto simp: word_of_nat_eq_0_iff dest: dvd_imp_le)

text \<open>
  (C36) A new password ends every session: tokens that were issued for the old password of a user are refused after it, whatever updates of users
  follow, as long as they are fewer than $2^{64} - 1$, after which the generation could have come round.\<close>

theorem password_change_revokes_tokens:
  assumes "signs_faithfully env" "distinct (map us_ID (db_users d))"
    "getUserByUsernameOrEmail env login d = Inr u" "UpdateUser env login change d = (Inr user, d1)" "up_Password change \<noteq> []"
    "cx_UserID ctx = u_ID user" "cx_PasswordGeneration ctx = us_Generation u" "GetJWTToken env cfg ctx d0 = (Inr tok, d0')"
    "length later < 2 ^ 64 - 1" "getTokenFromRequest r = Some tok"
  shows "fst (jwtMiddleware env cfg r ctx' (snd (m_for (\<lambda>(l, p). m_ignore (UpdateUser env l p)) later d1))) = Inl UnauthorizedError"
proof -
  obtain c where c: "ae_sign env (jwt_Secret cfg) (marshal_JWTClaims c) = Inr tok" "jc_UserID c = cx_UserID ctx" "jc_Generation c = cx_PasswordGeneration ctx"
    using user_token_signed [OF assms(8)] by blast
  from assms(4) obtain row where tx: "db_tx (update_user_tx env login change) d = (Inr row, d1)" and user: "user = sqlToParamsUser row"
    by (auto simp: UpdateUser_def elim!: m_bind_okE)
  from db_tx_ok [OF tx] obtain bs where body: "update_user_tx env login change (d\<lparr>db_faults := bs\<rparr>) = (Inr row, d1)" by blast
  have u: "getUserByUsernameOrEmail env login (d\<lparr>db_faults := bs\<rparr>) = Inr u" using assms(3) by (simp add: getUserByUsernameOrEmail_def)
  have ids: "distinct (map us_ID (db_users (d\<lparr>db_faults := bs\<rparr>)))" using assms(2) by simp
  note upd = update_user_generation [OF ids body u]
  have g0: "generation_of (us_ID u) d = Some (us_Generation u)"
  proof -
    obtain x where x: "List.find (\<lambda>x. us_ID x = us_ID u) (db_users d) = Some x"
      using getUser_mem [OF assms(3)] by (cases "List.find (\<lambda>x. us_ID x = us_ID u) (db_users d)") (auto simp: find_None_iff)
    with find_SomeD [OF x] getUser_mem [OF assms(3)] assms(2) have "x = u" by (auto simp: distinct_map inj_on_def)
    with x show ?thesis by (simp add: generation_of_def)
  qed
  have g1: "generation_of (us_ID u) d1 = Some (us_Generation u + 1)" using upd(1) [of "us_ID u"] g0 assms(5) by simp
  have d1: "distinct (map us_ID (db_users d1))" using upd(2) assms(2) by simp
  define d2 where "d2 = snd (m_for (\<lambda>(l, p). m_ignore (UpdateUser env l p)) later d1)"
  from UpdateUsers_aged [OF d1, of later env] g1 obtain k where k: "k \<le> length later" "generation_of (us_ID u) d2 = Some (us_Generation u + 1 + of_nat k)"
    by (auto simp: aged_def d2_def)
  have "(of_nat (Suc k) :: uint64) \<noteq> 0" by (rule of_nat_word_nonzero) (use k(1) assms(9) in auto)
  then have ne: "us_Generation u + 1 + of_nat k \<noteq> us_Generation u" by (simp add: add.assoc add.commute)
  have id: "uuid_parse (jc_UserID c) = Some (us_ID u)" using c(2) assms(6) user upd(3) by (simp add: sqlToParamsUser_def)
  show ?thesis unfolding d2_def [symmetric]
    by (rule jwtMiddleware_wrong_generation [OF assms(1) c(1) assms(10)]) (use id k(2) ne c(3) assms(7) in auto)
qed



lemma split_char_nosep: "c \<notin> set xs \<Longrightarrow> split_char c xs = [xs]"
  by (induction xs) auto

lemma bearer_header: "CHR '' '' \<notin> set tok \<Longrightarrow> bearer (''Bearer '' @ tok) = Some tok"
  by (simp add: bearer_def split_char_nosep)

text \<open>
  (C38) The token that is handed to a new runner lets it in exactly while its instance is being created or running, the runner has not finished
  installing, and the instance has not been created anew since.\<close>

theorem instance_token_lifetime:
  assumes "accepts_signed env" "NewInstanceJWTToken env (jwt_Secret cfg) inst entity ttl d0 = (Inr tok, d0')"
    "rq_Authorization r = ''Bearer '' @ tok" "CHR '' '' \<notin> set tok" "- (2 ^ 63) \<le> i_CreateAttempt inst" "i_CreateAttempt inst < 2 ^ 63"
    "i_Name inst \<noteq> []" "GetInstance (i_Name inst) d = (Inr cur, d)" "i_ID cur \<noteq> []" "getForgeEntityFromInstance cur d = (Inr e, d)" "uint ttl < 100000000"
    "db_clock d < (db_clock d0 + uint ttl * minute + PoolReapTimeoutInterval) div second * second"
  shows "(\<exists>ctx'. instanceMiddleware env cfg r ctx d = (Inr ctx', d)) \<longleftrightarrow>
    i_RunnerStatus cur \<in> {RunnerPending, RunnerInstalling} \<and> i_Status cur \<in> {InstanceCreating, InstanceRunning} \<and> i_CreateAttempt cur = i_CreateAttempt inst"
proof -
  have "wrap_int64 (t * minute) = t * minute \<and> wrap_int64 (t * minute + PoolReapTimeoutInterval) = t * minute + PoolReapTimeoutInterval"
    if "0 \<le> t" "t < 100000000" for t
    using that by (auto intro!: wrap_int64_id simp: minute_def second_def PoolReapTimeoutInterval_def max_int_def)
  from this [of "uint ttl"] assms(11) have w: "wrap_int64 (uint ttl * minute) = uint ttl * minute" "wrap_int64 (uint ttl * minute + PoolReapTimeoutInterval) = uint ttl * minute + PoolReapTimeoutInterval" by simp_all
  define c where "c = (instance_claims inst entity)\<lparr>ic_ExpiresAt := Some (db_clock d0 + uint ttl * minute + PoolReapTimeoutInterval)\<rparr>"
  have sign: "ae_sign env (jwt_Secret cfg) (marshal_InstanceJWTClaims c) = Inr tok"
    using assms(2,11) by (auto simp: NewInstanceJWTToken_def Let_def w c_def add.assoc)
  have exp: "map_of (marshal_InstanceJWTClaims c) ''exp'' = Some (JNumber ((db_clock d0 + uint ttl * minute + PoolReapTimeoutInterval) div second))"
    by (simp add: claim_defs c_def)
  have parse: "ae_parse env (jwt_Secret cfg) (db_clock d) tok = Some (marshal_InstanceJWTClaims c, True)"
    using assms(1,12) sign exp unfolding accepts_signed_def by blast
  have hdr: "header_token r = Some tok" using assms(3) bearer_header [OF assms(4)] by (simp add: header_token_def)
  define c' where "c' = c\<lparr>ic_ExpiresAt := map_option (\<lambda>t. t div second * second) (ic_ExpiresAt c)\<rparr>"
  have claims: "parse_claims env (jwt_Secret cfg) unmarshal_InstanceJWTClaims (header_token r) d = (Inr (c', True), d)"
    using InstanceJWTClaims_round_trip [of c] assms(5,6) by (simp add: parse_claims_def m_query_def hdr parse c'_def c_def instance_claims_def)
  have c': "ic_Name c' = i_Name inst" "\<not> ic_IsAgent c'" "ic_CreateAttempt c' = i_CreateAttempt inst" by (simp_all add: c'_def c_def instance_claims_def)
  have "instance_claimsToContext ctx c' d = (Inr (PopulateInstanceContext cur e (ic_ForgeType c') False ctx), d)"
    using assms(7,8,10) c' by (simp add: instance_claimsToContext_def m_bind_def unauthorized_on_error_def m_try_def)
  then show ?thesis using assms(9) c'
    by (auto simp: instanceMiddleware_def m_bind_def claims instance_checks_def PopulateInstanceContext_def)
qed

subsection \<open>A small example\<close>

text \<open>A library that knows one token, of the administrator of the small store, and one password.\<close>

definition ex_claims :: JWTClaims where
  "ex_claims = \<lparr>jc_UserID = uuid_string 3, jc_TokenID = ''abc'', jc_FullName = ''Admin'', jc_IsAdmin = True, jc_ReadMetrics = False, jc_Generation = 0,
     jc_Issuer = ''garm'', jc_ExpiresAt = Some (100 + hour)\<rparr>"

definition ex_auth :: auth_env where
  "ex_auth = \<lparr>ae_sign = (\<lambda>s ob. if ob = marshal_JWTClaims ex_claims then Inr ''token'' else Inl (OtherError ''no key'')),
     ae_parse = (\<lambda>s now tok. if tok = ''token'' then Some (marshal_JWTClaims ex_claims, True) else None),
     ae_GetRandomString = (\<lambda>n. Inr ''abc''), ae_IsValidEmail = (\<lambda>s. CHR ''@'' \<in> set s), ae_IsAlphanumeric = (\<lambda>s. True),
     ae_PasswordScore = (\<lambda>s. int (length s)), ae_PasswordToBcrypt = Inr, ae_CompareHashAndPassword = (\<lambda>h p. h = p),
     ae_JoinPath = (\<lambda>a b. Inr (a @ ''/'' @ b)), ae_ParseURL = (\<lambda>u. Some (''https'', u)), ae_ParseRequestURI = (\<lambda>u. Some (''https'', u)),
     ae_SanitizeCABundle = (\<lambda>b. True), ae_IsSemver = (\<lambda>s. True)\<rparr>"

definition ex_jwt :: JWTAuth where "ex_jwt = \<lparr>jwt_Secret = ''key'', jwt_TimeToLive = hour\<rparr>"

definition ex_request :: Request where "ex_request = \<lparr>rq_Authorization = ''Bearer token'', rq_Cookie = None\<rparr>"

definition ex_session :: Context where "ex_session = PopulateContext (sqlToParamsUser ex_user_row) None background"

lemma ex_library: "signs_faithfully ex_auth" "accepts_signed ex_auth"
  by (auto simp: signs_faithfully_def accepts_signed_def ex_auth_def split: if_splits)

lemma ex_token: "GetJWTToken ex_auth ex_jwt ex_session ex_db = (Inr ''token'', ex_db)"
  by (simp add: GetJWTToken_def ex_auth_def ex_jwt_def m_bind_def ex_session_def PopulateContext_def SetExpires_def sqlToParamsUser_def ex_user_row_def
    ex_claims_def)

lemma ex_request_token: "getTokenFromRequest ex_request = Some ''token''"
  by (simp add: getTokenFromRequest_def ex_request_def bearer_def)

theorem token_kinds_disjoint_witness:
  "instanceMiddleware ex_auth ex_jwt ex_request background ex_db = (Inl UnauthorizedError, ex_db)"
proof -
  have "issues ex_auth ex_jwt UserToken ''token''" using ex_token by auto
  from token_kinds_disjoint [OF ex_library(1) this ex_request_token, of InstanceToken] show ?thesis by simp
qed



definition ex_password :: UpdateUserParams where "ex_password = \<lparr>up_FullName = [], up_Password = ''new'', up_Enabled = None\<rparr>"

theorem password_change_revokes_tokens_witness:
  "fst (jwtMiddleware ex_auth ex_jwt ex_request background (snd (UpdateUser ex_auth ''admin'' ex_password ex_db))) = Inl UnauthorizedError"
proof -
  have u: "getUserByUsernameOrEmail ex_auth ''admin'' ex_db = Inr ex_user_row"
    by (simp add: getUserByUsernameOrEmail_def ex_auth_def ex_user_row_def option_or_def)
  define d1 where "d1 = snd (UpdateUser ex_auth ''admin'' ex_password ex_db)"
  obtain user where run: "UpdateUser ex_auth ''admin'' ex_password ex_db = (Inr user, d1)" and i: "u_ID user = uuid_string 3"
    by (simp add: UpdateUser_def m_bind_def db_tx_def db_stmt_def update_user_tx_def u Let_def updated_user_def ex_password_def ex_user_row_def sqlToParamsUser_def d1_def)
  have "up_Password ex_password \<noteq> []" "cx_UserID ex_session = u_ID user" "cx_PasswordGeneration ex_session = us_Generation ex_user_row"
    by (simp_all add: ex_password_def i ex_session_def PopulateContext_def SetExpires_def sqlToParamsUser_def ex_user_row_def)
  from password_change_revokes_tokens [OF ex_library(1) _ u run this ex_token, of "[]" ex_request background] ex_request_token show ?thesis
    by (simp add: d1_def)
qed

definition ex_installing :: db where
  "ex_installing = ex_db\<lparr>db_instances := [ex_instance\<lparr>ir_RunnerStatus := RunnerInstalling\<rparr>]\<rparr>"

lemma ex_installing_instance: "\<exists>cur. GetInstance ''garm-one'' ex_installing = (Inr cur, ex_installing) \<and> i_Name cur = ''garm-one'' \<and> i_ID cur = uuid_string 2 \<and>
    i_PoolID cur = uuid_string 1 \<and> i_CreateAttempt cur = 1 \<and> i_RunnerStatus cur = RunnerInstalling \<and> i_Status cur = InstanceRunning"
  by (simp add: GetInstance_def db_read_def db_stmt_def ex_installing_def m_bind_def getInstance_def instance_matches_def ex_instance_def load_full_def
    sqlToParamsInstance_def Let_def)

lemma ex_installing_pool: "\<exists>p. GetPoolByID (uuid_string 1) ex_installing = (Inr p, ex_installing) \<and> Pool_GetEntity p = Inr (ForgeEntityTypeRepository, uuid_string 9)"
  by (simp add: GetPoolByID_def db_read_def db_stmt_def ex_installing_def getPoolByID_def option_or_def ex_pool_def load_pool_def sqlToCommonPool_def Let_def
     Pool_GetEntity_def PoolType_def pool_instances_def load_bare_def ex_instance_def sqlToParamsInstance_def opt_uuid_string_def)

lemma ex_installing_repo: "\<exists>e. GetForgeEntity ForgeEntityTypeRepository (uuid_string 9) ex_installing = (Inr e, ex_installing)"
  by (simp add: GetForgeEntity_def GetRepositoryByID_def converted_def db_read_def db_stmt_def ex_installing_def getRepoByID_def getEntityByID_def option_or_def
    ex_entity_def sqlToCommonRepository_def either_credentials_def find_credentials_def ex_credentials_row_def sqlToCommonForgeCredentials_def Let_def)

lemma ex_installing_entity:
  assumes "i_PoolID cur = uuid_string 1"
  shows "\<exists>e. getForgeEntityFromInstance cur ex_installing = (Inr e, ex_installing)"
  using ex_installing_pool ex_installing_repo by (auto simp: getForgeEntityFromInstance_def assms m_bind_def)

text \<open>A library that signs the one token of an instance.\<close>

definition ex_instance_auth :: "Instance \<Rightarrow> ForgeEntity \<Rightarrow> auth_env" where
  "ex_instance_auth inst e = (let ob = marshal_InstanceJWTClaims ((instance_claims inst e)\<lparr>ic_ExpiresAt := Some (100 + 25 * minute)\<rparr>) in
     ex_auth\<lparr>ae_sign := (\<lambda>s x. if x = ob then Inr ''token'' else Inl (OtherError ''no key'')),
       ae_parse := (\<lambda>s now tok. if tok = ''token'' then Some (ob, True) else None)\<rparr>)"

theorem instance_token_lifetime_witness:
  "\<exists>cur e ctx. GetInstance ''garm-one'' ex_installing = (Inr cur, ex_installing) \<and>
     NewInstanceJWTToken (ex_instance_auth cur e) ''key'' cur e 20 ex_installing = (Inr ''token'', ex_installing) \<and>
     instanceMiddleware (ex_instance_auth cur e) ex_jwt ex_request background ex_installing = (Inr ctx, ex_installing)"
proof -
  obtain cur where cur: "GetInstance ''garm-one'' ex_installing = (Inr cur, ex_installing)" "i_Name cur = ''garm-one''" "i_ID cur = uuid_string 2"
    "i_PoolID cur = uuid_string 1" "i_CreateAttempt cur = 1" "i_RunnerStatus cur = RunnerInstalling" "i_Status cur = InstanceRunning"
    using ex_installing_instance by blast
  obtain e where e: "getForgeEntityFromInstance cur ex_installing = (Inr e, ex_installing)" using ex_installing_entity [OF cur(4)] by blast
  define env where "env = ex_instance_auth cur e"
  have clock: "db_clock ex_installing = 100" by (simp add: ex_installing_def)
  have acc: "accepts_signed env" by (auto simp: accepts_signed_def env_def ex_instance_auth_def Let_def split: if_splits)
  have tok: "NewInstanceJWTToken env (jwt_Secret ex_jwt) cur e 20 ex_installing = (Inr ''token'', ex_installing)"
    by (simp add: NewInstanceJWTToken_def env_def ex_instance_auth_def Let_def clock wrap_int64_def minute_def second_def PoolReapTimeoutInterval_def)
  have "db_clock ex_installing < (db_clock ex_installing + uint (20 :: uint64) * minute + PoolReapTimeoutInterval) div second * second"
    by (simp add: clock minute_def second_def PoolReapTimeoutInterval_def)
  from instance_token_lifetime [OF acc tok, of ex_request ex_installing cur e background] this cur e
  have "\<exists>ctx. instanceMiddleware env ex_jwt ex_request background ex_installing = (Inr ctx, ex_installing)"
    by (simp add: ex_request_def)
  with cur(1) tok show ?thesis unfolding env_def by (auto simp: ex_jwt_def)
qed

end
