(* ===== verification/Garm_Files.thy ===== *)
theory Garm_Files
  imports Garm_Context Garm_Instances
begin

text \<open>
  The store of file objects (\<^verbatim>\<open>database/sql/file_store.go\<close>) and the service on top of it: generic objects (\<^verbatim>\<open>runner/object_store.go\<close>) and the GARM agent
  binaries, which are file objects with tags (\<^verbatim>\<open>runner/garm_tools.go\<close>, \<^verbatim>\<open>fileObjectToGARMTool\<close> in \<^verbatim>\<open>runner/metadata.go\<close>).

  The objects are a database of their own, for SQLite: a blob has the size it was created with and is written in place. As in the main store, an
  entry of \<open>ob_faults\<close> is the fate of one statement; a transaction takes two, one for its statements and one for the commit. Rows are kept in the order of
  their IDs. The content of an upload, after it was saved to a temporary file, is an argument; so are the two libraries that guess a file type and SHA-256.
  PostgreSQL large objects are not modelled.
\<close>

subsection \<open>Rows\<close>

record FileObjectRow =
  fo_ID :: nat
  fo_Name :: string
  fo_Description :: string
  fo_FileType :: string
  fo_Size :: int
  fo_SHA256 :: string
  fo_TagsList :: "string list"
  fo_Content :: string
  fo_CreatedAt :: time
  fo_UpdatedAt :: time

record FileObject =
  fp_ID :: nat
  fp_CreatedAt :: time
  fp_UpdatedAt :: time
  fp_Name :: string
  fp_Description :: string
  fp_Size :: int
  fp_Tags :: "string list"
  fp_SHA256 :: string
  fp_FileType :: string

record objects =
  ob_rows :: "FileObjectRow list"
  ob_next :: nat
  ob_clock :: time
  ob_faults :: "bool list"
  ob_notifications :: "(OperationType \<times> FileObject) list"

record CreateFileObjectParams =
  cf_Name :: string
  cf_Description :: string
  cf_Size :: int
  cf_Tags :: "string list"

record UpdateFileObjectParams =
  uf_Name :: "string option"
  uf_Description :: "string option"
  uf_Tags :: "string list option"

definition UpdateFileObjectParams_Validate :: "UpdateFileObjectParams \<Rightarrow> garm_error option" where
  "UpdateFileObjectParams_Validate u = (if uf_Name u = Some [] then Some (OtherError ''name cannot be empty'') else None)"

definition zero_FileObject :: FileObject where
  "zero_FileObject = \<lparr>fp_ID = 0, fp_CreatedAt = 0, fp_UpdatedAt = 0, fp_Name = [], fp_Description = [], fp_Size = 0, fp_Tags = [], fp_SHA256 = [], fp_FileType = []\<rparr>"

definition sqlFileObjectToCommonParams :: "FileObjectRow \<Rightarrow> FileObject" where
  "sqlFileObjectToCommonParams r = \<lparr>fp_ID = fo_ID r, fp_CreatedAt = fo_CreatedAt r, fp_UpdatedAt = fo_UpdatedAt r, fp_Name = fo_Name r,
     fp_Description = fo_Description r, fp_Size = fo_Size r, fp_Tags = fo_TagsList r, fp_SHA256 = fo_SHA256 r, fp_FileType = fo_FileType r\<rparr>"

subsection \<open>Statements\<close>

definition ob_stmt :: "(objects, 'a) prog \<Rightarrow> (objects, 'a) prog" where
  "ob_stmt m s = (case ob_faults s of [] \<Rightarrow> m s
     | b # bs \<Rightarrow> if b then (Inl DatabaseError, s\<lparr>ob_faults := bs\<rparr>) else m (s\<lparr>ob_faults := bs\<rparr>))"

text \<open>A commit that fails undoes the rows; a notification that was sent stays sent.\<close>

definition ob_tx :: "(objects, 'a) prog \<Rightarrow> (objects, 'a) prog" where
  "ob_tx m = ob_stmt (\<lambda>s. case m s of
     (Inl e, s') \<Rightarrow> (Inl e, s\<lparr>ob_notifications := ob_notifications s'\<rparr>)
   | (Inr x, s') \<Rightarrow> (case ob_faults s' of [] \<Rightarrow> (Inr x, s')
       | b # bs \<Rightarrow> if b then (Inl DatabaseError, s\<lparr>ob_notifications := ob_notifications s', ob_faults := bs\<rparr>)
           else (Inr x, s'\<lparr>ob_faults := bs\<rparr>)))"

definition ob_notify :: "OperationType \<Rightarrow> FileObject \<Rightarrow> (objects, unit) prog" where
  "ob_notify op p = m_modify (\<lambda>s. s\<lparr>ob_notifications := ob_notifications s @ [(op, p)]\<rparr>)"

definition find_object :: "nat \<Rightarrow> objects \<Rightarrow> garm_error + FileObjectRow" where
  "find_object i s = option_or NotFoundError (List.find (\<lambda>r. fo_ID r = i) (ob_rows s))"

definition upd_object :: "nat \<Rightarrow> (FileObjectRow \<Rightarrow> FileObjectRow) \<Rightarrow> objects \<Rightarrow> objects" where
  "upd_object i f s = s\<lparr>ob_rows := upd_rows (\<lambda>r. fo_ID r = i) f (ob_rows s)\<rparr>"

subsection \<open>Writing\<close>

text \<open>The type of a file is guessed from its first 8 KB.\<close>

definition DetectFileType :: "(string \<Rightarrow> string) \<Rightarrow> (string \<Rightarrow> string option) \<Rightarrow> string \<Rightarrow> string" where
  "DetectFileType detectContentType matchType data = (let httpType = detectContentType data in
     if httpType \<noteq> ''application/octet-stream'' then httpType
     else case matchType data of Some mime \<Rightarrow> mime | None \<Rightarrow> ''application/octet-stream'')"

text \<open>A write to an open blob: all of it within the blob, or an error. \<^verbatim>\<open>io.Copy\<close> writes 32 KB at a time.\<close>

definition blob_write :: "nat \<Rightarrow> string \<Rightarrow> string \<Rightarrow> string option" where
  "blob_write offset data blob = (if length blob < offset + length data then None
     else Some (take offset blob @ data @ drop (offset + length data) blob))"

function blob_copy :: "nat \<Rightarrow> string \<Rightarrow> string \<Rightarrow> bool \<times> string" where
  "blob_copy offset data blob = (if data = [] then (True, blob)
     else case blob_write offset (take 32768 data) blob of None \<Rightarrow> (False, blob)
       | Some blob' \<Rightarrow> blob_copy (offset + 32768) (drop 32768 data) blob')"
  by pat_completeness auto
termination by (relation "measure (\<lambda>(_, data, _). length data)") auto

text \<open>The content after streaming, and whether it was written: the first bytes, which were read for the type, then the rest.\<close>

definition stream_blob :: "string \<Rightarrow> string \<Rightarrow> bool \<times> string" where
  "stream_blob data blob = (let head = take 8192 data in case blob_write 0 head blob of None \<Rightarrow> (False, blob)
     | Some blob' \<Rightarrow> blob_copy (length head) (drop 8192 data) blob')"

record files_env =
  fe_detectContentType :: "string \<Rightarrow> string"
  fe_matchType :: "string \<Rightarrow> string option"
  fe_sha256 :: "string \<Rightarrow> string"

definition insert_object :: "files_env \<Rightarrow> CreateFileObjectParams \<Rightarrow> string \<Rightarrow> (objects, nat) prog" where
  "insert_object env param data s = (Inr (ob_next s), s\<lparr>ob_rows := ob_rows s @ [\<lparr>fo_ID = ob_next s, fo_Name = cf_Name param,
       fo_Description = cf_Description param, fo_FileType = DetectFileType (fe_detectContentType env) (fe_matchType env) (take 8192 data),
       fo_Size = cf_Size param, fo_SHA256 = [], fo_TagsList = cf_Tags param, fo_Content = replicate (nat (cf_Size param)) (CHR 0x00),
       fo_CreatedAt = ob_clock s, fo_UpdatedAt = ob_clock s\<rparr>], ob_next := ob_next s + 1\<rparr>)"

definition streamBlobContent :: "files_env \<Rightarrow> nat \<Rightarrow> string \<Rightarrow> (objects, string) prog" where
  "streamBlobContent env i data = ob_stmt (\<lambda>s. case find_object i s of Inl e \<Rightarrow> (Inl e, s)
     | Inr r \<Rightarrow> (case stream_blob data (fo_Content r) of (ok, content) \<Rightarrow>
         (if ok then Inr (fe_sha256 env data) else Inl (OtherError ''failed to write blob''), upd_object i (fo_Content_update (\<lambda>_. content)) s)))"

definition set_sha256 :: "nat \<Rightarrow> string \<Rightarrow> (objects, unit) prog" where
  "set_sha256 i chk = ob_stmt (m_modify (\<lambda>s. upd_object i (\<lambda>r. r\<lparr>fo_SHA256 := chk, fo_UpdatedAt := ob_clock s\<rparr>) s))"

definition GetFileObject :: "nat \<Rightarrow> (objects, FileObject) prog" where
  "GetFileObject i = ob_stmt (\<lambda>s. (map_sum id sqlFileObjectToCommonParams (find_object i s), s))"

definition createFileObjectSQLite :: "files_env \<Rightarrow> CreateFileObjectParams \<Rightarrow> string \<Rightarrow> (objects, FileObject) prog" where
  "createFileObjectSQLite env param data = m_bind (ob_tx (insert_object env param data)) (\<lambda>i.
     m_bind (streamBlobContent env i data) (\<lambda>chk. m_seq (set_sha256 i chk) (GetFileObject i)))"

definition CreateFileObject :: "files_env \<Rightarrow> CreateFileObjectParams \<Rightarrow> garm_error + string \<Rightarrow> (objects, FileObject) prog" where
  "CreateFileObject env param upload = m_bind (m_result upload) (\<lambda>data. m_bind (createFileObjectSQLite env param data) (\<lambda>obj.
     m_seq (ob_notify CreateOperation obj) (m_ret obj)))"

definition object_updates :: "UpdateFileObjectParams \<Rightarrow> FileObjectRow \<Rightarrow> (FileObjectRow \<Rightarrow> FileObjectRow) list" where
  "object_updates param r = (case uf_Name param of None \<Rightarrow> [] | Some x \<Rightarrow> [fo_Name_update (\<lambda>_. x)]) @
     (case uf_Description param of None \<Rightarrow> [] | Some x \<Rightarrow> if x = fo_Description r then [] else [fo_Description_update (\<lambda>_. x)])"

definition update_object_tx :: "nat \<Rightarrow> UpdateFileObjectParams \<Rightarrow> (objects, FileObjectRow \<times> bool) prog" where
  "update_object_tx i param s = (case find_object i s of Inl e \<Rightarrow> (Inl e, s)
     | Inr r \<Rightarrow> let updates = object_updates param r;
         r1 = (case uf_Tags param of None \<Rightarrow> r | Some tags \<Rightarrow> r\<lparr>fo_TagsList := tags\<rparr>);
         r2 = (if updates = [] then r1 else fold id updates (r1\<lparr>fo_UpdatedAt := ob_clock s\<rparr>))
       in (Inr (r2, updates \<noteq> [] \<or> uf_Tags param \<noteq> None), upd_object i (\<lambda>_. r2) s))"

definition UpdateFileObject :: "nat \<Rightarrow> UpdateFileObjectParams \<Rightarrow> (objects, FileObject) prog" where
  "UpdateFileObject i param = (case UpdateFileObjectParams_Validate param of Some e \<Rightarrow> m_throw e
     | None \<Rightarrow> m_bind (ob_tx (update_object_tx i param)) (\<lambda>(r, affected).
         m_seq (m_when affected (ob_notify UpdateOperation (sqlFileObjectToCommonParams r))) (m_ret (sqlFileObjectToCommonParams r))))"

subsection \<open>Deletion\<close>

definition remove_objects :: "(FileObjectRow \<Rightarrow> bool) \<Rightarrow> objects \<Rightarrow> objects" where
  "remove_objects P s = s\<lparr>ob_rows := filter (\<lambda>r. \<not> P r) (ob_rows s)\<rparr>"

text \<open>The value that is announced is declared, and never assigned.\<close>

definition DeleteFileObject :: "nat \<Rightarrow> (objects, unit) prog" where
  "DeleteFileObject i = m_bind (m_try (ob_tx (\<lambda>s. case find_object i s of Inl e \<Rightarrow> (Inl e, s)
       | Inr _ \<Rightarrow> (Inr (), remove_objects (\<lambda>r. fo_ID r = i) s)))) (\<lambda>r. case r of
     Inl e \<Rightarrow> if error_is e NotFoundError then m_ret () else m_throw e
   | Inr _ \<Rightarrow> ob_notify DeleteOperation zero_FileObject)"

definition has_tags :: "string list \<Rightarrow> FileObjectRow \<Rightarrow> bool" where
  "has_tags tags r \<longleftrightarrow> (\<forall>t \<in> set tags. \<exists>u \<in> set (fo_TagsList r). to_lower u = to_lower t)"

text \<open>The notifications are sent before the transaction commits.\<close>

definition delete_by_tags_tx :: "string list \<Rightarrow> (objects, nat) prog" where
  "delete_by_tags_tx tags = m_bind (m_get (\<lambda>s. filter (has_tags tags) (ob_rows s))) (\<lambda>objs.
     m_seq (m_modify (remove_objects (\<lambda>r. fo_ID r \<in> set (map fo_ID objs))))
       (m_seq (m_for (\<lambda>r. ob_notify DeleteOperation (sqlFileObjectToCommonParams r)) objs) (m_ret (length objs))))"

definition DeleteFileObjectsByTags :: "string list \<Rightarrow> (objects, nat) prog" where
  "DeleteFileObjectsByTags tags = (if tags = [] then m_throw (OtherError ''no tags provided'') else ob_tx (delete_by_tags_tx tags))"

subsection \<open>Reading\<close>

record FileObjectPaginatedResponse =
  fpg_TotalCount :: uint64
  fpg_Pages :: uint64
  fpg_CurrentPage :: uint64
  fpg_NextPage :: "uint64 option"
  fpg_PreviousPage :: "uint64 option"
  fpg_Results :: "FileObject list"

text \<open>A page of the rows that a query selects, the newest first. The arithmetic is on \<^verbatim>\<open>uint64\<close>.\<close>

definition list_objects :: "(FileObjectRow \<Rightarrow> bool) \<Rightarrow> uint64 \<Rightarrow> uint64 \<Rightarrow> (objects, FileObjectPaginatedResponse) prog" where
  "list_objects P page0 pageSize0 = (let page = (if page0 = 0 then 1 else page0); pageSize = (if pageSize0 = 0 then 20 else pageSize0) in
     m_bind (ob_stmt (m_get (\<lambda>s. length (filter P (ob_rows s))))) (\<lambda>total.
       let totalPages = (if 0 < total then (of_nat total + pageSize - 1) div pageSize else 0);
           offset = (page - 1) * pageSize;
           queryPageSize = min (uint pageSize) max_int
       in if max_int < uint offset then m_throw (OtherError ''offset excedes max int size'')
          else m_bind (ob_stmt (m_get (\<lambda>s. take (nat queryPageSize) (drop (unat offset) (rev (filter P (ob_rows s))))))) (\<lambda>rows.
            m_ret \<lparr>fpg_TotalCount = of_nat total, fpg_Pages = totalPages, fpg_CurrentPage = page,
              fpg_NextPage = (if page < totalPages then Some (page + 1) else None), fpg_PreviousPage = (if 1 < page then Some (page - 1) else None),
              fpg_Results = map sqlFileObjectToCommonParams rows\<rparr>)))"

definition SearchFileObjectByTags :: "string list \<Rightarrow> uint64 \<Rightarrow> uint64 \<Rightarrow> (objects, FileObjectPaginatedResponse) prog" where
  "SearchFileObjectByTags tags = list_objects (has_tags tags)"

definition ListFileObjects :: "uint64 \<Rightarrow> uint64 \<Rightarrow> (objects, FileObjectPaginatedResponse) prog" where
  "ListFileObjects = list_objects (\<lambda>_. True)"

definition OpenFileObjectContent :: "nat \<Rightarrow> (objects, string) prog" where
  "OpenFileObjectContent i = ob_stmt (\<lambda>s. (case find_object i s of Inl _ \<Rightarrow> Inl DatabaseError | Inr r \<Rightarrow> Inr (fo_Content r), s))"

subsection \<open>Objects as the service serves them\<close>

definition admin_only :: "Context \<Rightarrow> ('s, 'a) prog \<Rightarrow> ('s, 'a) prog" where
  "admin_only ctx m = (if cx_IsAdmin ctx then m else m_throw UnauthorizedError)"

definition garmAgentFileTag :: string where "garmAgentFileTag = ''category=garm-agent''"

definition Runner_CreateFileObject :: "files_env \<Rightarrow> Context \<Rightarrow> CreateFileObjectParams \<Rightarrow> garm_error + string \<Rightarrow> (objects, FileObject) prog" where
  "Runner_CreateFileObject env ctx param reader = admin_only ctx (if garmAgentFileTag \<in> set (cf_Tags param) then m_throw BadRequestError
     else CreateFileObject env param reader)"

definition Runner_GetFileObject :: "Context \<Rightarrow> nat \<Rightarrow> (objects, FileObject) prog" where
  "Runner_GetFileObject ctx i = admin_only ctx (GetFileObject i)"

definition Runner_DeleteFileObject :: "Context \<Rightarrow> nat \<Rightarrow> (objects, unit) prog" where
  "Runner_DeleteFileObject ctx i = admin_only ctx (m_bind (m_try (DeleteFileObject i)) (\<lambda>r. case r of
     Inl e \<Rightarrow> if error_is e NotFoundError then m_ret () else m_throw e | Inr _ \<Rightarrow> m_ret ()))"

definition Runner_DeleteFileObjectsByTags :: "Context \<Rightarrow> string list \<Rightarrow> (objects, nat) prog" where
  "Runner_DeleteFileObjectsByTags ctx tags = admin_only ctx (DeleteFileObjectsByTags tags)"

definition Runner_ListFileObjects :: "Context \<Rightarrow> uint64 \<Rightarrow> uint64 \<Rightarrow> string list \<Rightarrow> (objects, FileObjectPaginatedResponse) prog" where
  "Runner_ListFileObjects ctx page pageSize tags = admin_only ctx
     (if tags = [] then ListFileObjects page pageSize else SearchFileObjectByTags tags page pageSize)"

definition Runner_UpdateFileObject :: "Context \<Rightarrow> nat \<Rightarrow> UpdateFileObjectParams \<Rightarrow> (objects, FileObject) prog" where
  "Runner_UpdateFileObject ctx i param = admin_only ctx (m_bind (GetFileObject i) (\<lambda>obj.
     if garmAgentFileTag \<in> set (fp_Tags obj) then m_throw BadRequestError
     else if (case uf_Tags param of None \<Rightarrow> False | Some tags \<Rightarrow> garmAgentFileTag \<in> set tags) then m_throw BadRequestError
     else UpdateFileObject i param))"

definition GetFileObjectReader :: "Context \<Rightarrow> nat \<Rightarrow> (objects, string) prog" where
  "GetFileObjectReader ctx i = admin_only ctx (OpenFileObjectContent i)"

subsection \<open>The GARM agent\<close>

record GARMAgentTool =
  gt_ID :: nat
  gt_Name :: string
  gt_Size :: int
  gt_SHA256SUM :: string
  gt_Description :: string
  gt_CreatedAt :: time
  gt_UpdatedAt :: time
  gt_FileType :: string
  gt_OSType :: string
  gt_OSArch :: string
  gt_DownloadURL :: string
  gt_Version :: string
  gt_Origin :: string
  gt_Source :: string

text \<open>The value of the last tag with the given prefix, empty without one.\<close>

definition tag_value :: "string \<Rightarrow> string list \<Rightarrow> string" where
  "tag_value pre tags = fold (\<lambda>t acc. if take (length pre) t = pre then drop (length pre) t else acc) tags []"

definition object_tool :: "FileObject \<Rightarrow> string \<Rightarrow> string \<Rightarrow> GARMAgentTool" where
  "object_tool obj downloadURL source = \<lparr>gt_ID = fp_ID obj, gt_Name = fp_Name obj, gt_Size = fp_Size obj, gt_SHA256SUM = fp_SHA256 obj,
     gt_Description = fp_Description obj, gt_CreatedAt = fp_CreatedAt obj, gt_UpdatedAt = fp_UpdatedAt obj, gt_FileType = fp_FileType obj,
     gt_OSType = tag_value ''os_type='' (fp_Tags obj), gt_OSArch = tag_value ''os_arch='' (fp_Tags obj), gt_DownloadURL = downloadURL,
     gt_Version = tag_value ''version='' (fp_Tags obj), gt_Origin = tag_value ''origin='' (fp_Tags obj), gt_Source = source\<rparr>"

definition fileObjectToGARMTool :: "FileObject \<Rightarrow> string \<Rightarrow> garm_error + GARMAgentTool" where
  "fileObjectToGARMTool obj downloadURL = (if tag_value ''version='' (fp_Tags obj) = [] then Inl ConflictError
     else if tag_value ''os_type='' (fp_Tags obj) = [] then Inl ConflictError
     else if tag_value ''os_arch='' (fp_Tags obj) = [] then Inl ConflictError
     else Inr (object_tool obj downloadURL ''local''))"

primrec tools_of :: "(FileObject \<Rightarrow> garm_error + GARMAgentTool) \<Rightarrow> FileObject list \<Rightarrow> garm_error + GARMAgentTool list" where
  "tools_of f [] = Inr []"
| "tools_of f (x # xs) = (case f x of Inl e \<Rightarrow> Inl e | Inr t \<Rightarrow> map_sum id ((#) t) (tools_of f xs))"

text \<open>The loops over the pages go on while there is a next one; the first argument bounds the number of pages.\<close>

fun list_tools :: "nat \<Rightarrow> uint64 \<Rightarrow> GARMAgentTool list \<Rightarrow> (objects, GARMAgentTool list) prog" where
  "list_tools 0 next acc = m_throw (OtherError ''no more pages'')"
| "list_tools (Suc n) next acc = m_bind (SearchFileObjectByTags [garmAgentFileTag] next 100) (\<lambda>page.
     if fpg_TotalCount page = 0 then m_ret []
     else m_bind (m_result (tools_of (\<lambda>obj. fileObjectToGARMTool obj []) (fpg_Results page))) (\<lambda>tools.
       case fpg_NextPage page of None \<Rightarrow> m_ret (acc @ tools) | Some next' \<Rightarrow> list_tools n next' (acc @ tools)))"

definition ListAllGARMTools :: "Context \<Rightarrow> (objects, GARMAgentTool list) prog" where
  "ListAllGARMTools ctx = admin_only ctx (m_bind (m_get (\<lambda>s. Suc (length (ob_rows s)))) (\<lambda>n. list_tools n 1 []))"

record CreateGARMToolParams =
  cg_Name :: string
  cg_Description :: string
  cg_Size :: int
  cg_OSType :: string
  cg_OSArch :: string
  cg_Version :: string
  cg_Origin :: string

definition platform_tags :: "string \<Rightarrow> string \<Rightarrow> garm_error + string list" where
  "platform_tags osType osArch = (if osType \<notin> {''windows'', ''linux''} then Inl BadRequestError
     else if osArch \<notin> {''amd64'', ''arm64''} then Inl BadRequestError
     else Inr [garmAgentFileTag, ''os_type='' @ osType, ''os_arch='' @ osArch])"

definition delete_old :: "nat \<Rightarrow> FileObject \<Rightarrow> (objects, unit) prog" where
  "delete_old new tool = m_when (fp_ID tool \<noteq> new) (m_ignore (DeleteFileObject (fp_ID tool)))"

fun cleanup_tools :: "nat \<Rightarrow> string list \<Rightarrow> nat \<Rightarrow> uint64 \<Rightarrow> (objects, unit) prog" where
  "cleanup_tools 0 tags new page = m_throw (OtherError ''no more pages'')"
| "cleanup_tools (Suc n) tags new page = m_bind (m_try (SearchFileObjectByTags tags page 100)) (\<lambda>r. case r of
     Inl _ \<Rightarrow> m_ret ()
   | Inr tools \<Rightarrow> m_seq (m_for (delete_old new) (fpg_Results tools))
       (case fpg_NextPage tools of None \<Rightarrow> m_ret () | Some page' \<Rightarrow> cleanup_tools n tags new page'))"

definition CreateGARMTool :: "files_env \<Rightarrow> Context \<Rightarrow> CreateGARMToolParams \<Rightarrow> garm_error + string \<Rightarrow> (objects, FileObject) prog" where
  "CreateGARMTool env ctx param reader = admin_only ctx (if cg_Version param = [] then m_throw BadRequestError
     else m_bind (m_result (platform_tags (cg_OSType param) (cg_OSArch param))) (\<lambda>tags.
       m_bind (CreateFileObject env \<lparr>cf_Name = cg_Name param, cf_Description = cg_Description param, cf_Size = cg_Size param,
           cf_Tags = tags @ [''version='' @ cg_Version param, ''origin='' @ (if cg_Origin param = [] then ''manual'' else cg_Origin param)]\<rparr> reader) (\<lambda>new.
         m_seq (m_bind (m_get (\<lambda>s. Suc (length (ob_rows s)))) (\<lambda>n. cleanup_tools n tags (fp_ID new) 1)) (m_ret new))))"

definition DeleteGarmTool :: "Context \<Rightarrow> string \<Rightarrow> string \<Rightarrow> (objects, unit) prog" where
  "DeleteGarmTool ctx osType osArch = admin_only ctx (m_bind (m_result (platform_tags osType osArch)) (\<lambda>tags.
     m_bind (DeleteFileObjectsByTags tags) (\<lambda>deletedCount. if deletedCount = 0 then m_throw NotFoundError else m_ret ())))"

end
