(* ===== verification/Garm_Files_Spec.thy ===== *)
theory Garm_Files_Spec
  imports Garm_Files
begin

text \<open>
  What the store of file objects guarantees: an upload reads back as it was sent, and uploading an agent binary replaces the older ones of its
  platform, as long as they fit on one page.
\<close>

subsection \<open>Blobs\<close>

declare blob_copy.simps [simp del]

lemma blob_write_fits:
  "offset + length data \<le> length blob \<Longrightarrow> blob_write offset data blob = Some (take offset blob @ data @ drop (offset + length data) blob)"
  by (simp add: blob_write_def)

lemma blob_copy_fits:
  "offset + length data \<le> length blob \<Longrightarrow> blob_copy offset data blob = (True, take offset blob @ data @ drop (offset + length data) blob)"
proof (induction offset data blob rule: blob_copy.induct)
  case (1 offset data blob)
  show ?case
  proof (cases "data = []")
    case True
    then show ?thesis by (simp add: blob_copy.simps)
  next
    case False
    let ?d = "take 32768 data"
    let ?b = "take offset blob @ ?d @ drop (offset + length ?d) blob"
    have w: "blob_write offset ?d blob = Some ?b" using 1(2) by (simp add: blob_write_fits)
    show ?thesis
    proof (cases "length data \<le> 32768")
      case True
      then show ?thesis using False w 1(2)
        by (simp add: blob_copy.simps [of offset data] blob_copy.simps [of _ "[]"])
    next
      case big: False
      then have len: "length ?b = length blob" using 1(2) by simp
      have "blob_copy offset data blob = blob_copy (offset + 32768) (drop 32768 data) ?b"
        using False w by (simp add: blob_copy.simps [of offset data])
      also have "\<dots> = (True, take (offset + 32768) ?b @ drop 32768 data @ drop (offset + 32768 + length (drop 32768 data)) ?b)"
        using False big w 1(2) len by (intro 1(1)) auto
      also have "take (offset + 32768) ?b = take offset blob @ ?d" using big 1(2) by simp
      also have "drop (offset + 32768 + length (drop 32768 data)) ?b = drop (offset + length data) blob"
        using big 1(2) by (simp add: add.commute)
      finally show ?thesis by simp
    qed
  qed
qed

lemma stream_blob_fits:
  assumes "length data \<le> length blob"
  shows "stream_blob data blob = (True, data @ drop (length data) blob)"
proof -
  let ?h = "take 8192 data"
  let ?b = "?h @ drop (length ?h) blob"
  have w: "blob_write 0 ?h blob = Some ?b" using assms by (simp add: blob_write_fits)
  have "blob_copy (length ?h) (drop 8192 data) ?b = (True, take (length ?h) ?b @ drop 8192 data @ drop (length ?h + length (drop 8192 data)) ?b)"
    using assms by (intro blob_copy_fits) simp
  moreover have "length ?h + length (drop 8192 data) = length data" "length data - 8192 + min (length data) 8192 = length data" by simp_all
  moreover have "take (length ?h) ?b @ drop 8192 data = data" by (cases "length data \<le> 8192") simp_all
  moreover have "drop (length data) ?b = drop (length data) blob" by (cases "length data \<le> 8192") (simp_all add: assms)
  ultimately show ?thesis using w by (simp add: stream_blob_def Let_def flip: append_assoc)
qed

lemma stream_blob_full: "length data = length blob \<Longrightarrow> stream_blob data blob = (True, data)"
  by (simp add: stream_blob_fits)

subsection \<open>Rows\<close>

definition objects_ok :: "objects \<Rightarrow> bool" where
  "objects_ok s \<longleftrightarrow> distinct (map fo_ID (ob_rows s)) \<and> (\<forall>r \<in> set (ob_rows s). fo_ID r < ob_next s)"

lemma find_object_new:
  assumes "objects_ok s" "fo_ID r = ob_next s"
  shows "List.find (\<lambda>x. fo_ID x = ob_next s) (ob_rows s @ [r]) = Some r"
proof -
  have "List.find (\<lambda>x. fo_ID x = ob_next s) (ob_rows s) = None" using assms(1) by (fastforce simp: objects_ok_def find_None_iff)
  then show ?thesis using assms(2) by (simp add: find_append)
qed

lemma ob_stmt_nofault: "ob_faults s = [] \<Longrightarrow> ob_stmt m s = m s"
  by (simp add: ob_stmt_def)

lemma upd_rows_new:
  assumes "objects_ok s" "fo_ID r = ob_next s"
  shows "upd_rows (\<lambda>x. fo_ID x = ob_next s) f (ob_rows s @ [r]) = ob_rows s @ [f r]"
  using assms by (auto simp: upd_rows_def objects_ok_def intro!: map_idI)

subsection \<open>An upload reads back\<close>

text \<open>The row after an upload without faults.\<close>

definition uploaded :: "files_env \<Rightarrow> CreateFileObjectParams \<Rightarrow> string \<Rightarrow> objects \<Rightarrow> FileObjectRow" where
  "uploaded env param data s = \<lparr>fo_ID = ob_next s, fo_Name = cf_Name param, fo_Description = cf_Description param,
     fo_FileType = DetectFileType (fe_detectContentType env) (fe_matchType env) (take 8192 data), fo_Size = cf_Size param,
     fo_SHA256 = fe_sha256 env data, fo_TagsList = cf_Tags param, fo_Content = data, fo_CreatedAt = ob_clock s, fo_UpdatedAt = ob_clock s\<rparr>"

lemma CreateFileObject_run:
  assumes "objects_ok s" "ob_faults s = []" "cf_Size param = int (length data)"
  shows "CreateFileObject env param (Inr data) s = (Inr (sqlFileObjectToCommonParams (uploaded env param data s)),
    s\<lparr>ob_rows := ob_rows s @ [uploaded env param data s], ob_next := ob_next s + 1,
      ob_notifications := ob_notifications s @ [(CreateOperation, sqlFileObjectToCommonParams (uploaded env param data s))]\<rparr>)"
proof -
  have blob: "stream_blob data (replicate (length data) (CHR 0x00)) = (True, data)" by (simp add: stream_blob_full)
  show ?thesis using assms
    by (simp add: CreateFileObject_def createFileObjectSQLite_def insert_object_def ob_tx_def ob_stmt_nofault streamBlobContent_def
        set_sha256_def GetFileObject_def ob_notify_def find_object_def find_object_new upd_rows_new upd_object_def option_or_def blob
        uploaded_def m_bind_def m_seq_def)
qed

text \<open>
  (C39) An upload whose size was announced correctly reads back byte for byte, and the recorded checksum is that of its bytes: the first 8 KB, which were
  read to guess the type, and the 32 KB chunks after them are laid next to each other.\<close>

theorem upload_reads_back:
  assumes "objects_ok s" "ob_faults s = []" "cf_Size param = int (length data)"
    and "CreateFileObject env param (Inr data) s = (r, s')"
  shows "\<exists>obj. r = Inr obj \<and> fp_SHA256 obj = fe_sha256 env data \<and> fp_Size obj = int (length data) \<and>
    OpenFileObjectContent (fp_ID obj) s' = (Inr data, s') \<and> GetFileObject (fp_ID obj) s' = (Inr obj, s')"
  using assms unfolding CreateFileObject_run [OF assms(1-3)]
  by (auto simp: OpenFileObjectContent_def GetFileObject_def ob_stmt_nofault find_object_def option_or_def uploaded_def
      sqlFileObjectToCommonParams_def find_object_new)

definition ex_files_env :: files_env where
  "ex_files_env = \<lparr>fe_detectContentType = (\<lambda>_. ''text/plain''), fe_matchType = (\<lambda>_. None), fe_sha256 = (\<lambda>d. ''sha:'' @ d)\<rparr>"

definition ex_tool_row :: "nat \<Rightarrow> FileObjectRow" where
  "ex_tool_row i = \<lparr>fo_ID = i, fo_Name = ''garm-agent'', fo_Description = [], fo_FileType = ''text/plain'', fo_Size = 1, fo_SHA256 = [],
     fo_TagsList = [garmAgentFileTag, ''os_type=linux'', ''os_arch=amd64'', ''version=v1''], fo_Content = ''x'', fo_CreatedAt = 1, fo_UpdatedAt = 1\<rparr>"

definition ex_objects :: objects where
  "ex_objects = \<lparr>ob_rows = [ex_tool_row 1], ob_next = 2, ob_clock = 5, ob_faults = [], ob_notifications = []\<rparr>"

definition ex_upload :: CreateFileObjectParams where
  "ex_upload = \<lparr>cf_Name = ''notes'', cf_Description = [], cf_Size = 3, cf_Tags = []\<rparr>"

theorem upload_reads_back_witness:
  "objects_ok ex_objects \<and> (\<exists>obj. fst (CreateFileObject ex_files_env ex_upload (Inr ''abc'') ex_objects) = Inr obj \<and>
     fst (OpenFileObjectContent (fp_ID obj) (snd (CreateFileObject ex_files_env ex_upload (Inr ''abc'') ex_objects))) = Inr ''abc'')"
proof -
  have ok: "objects_ok ex_objects" by (simp add: objects_ok_def ex_objects_def ex_tool_row_def)
  then show ?thesis
    using upload_reads_back [of ex_objects ex_upload "''abc''" ex_files_env
        "fst (CreateFileObject ex_files_env ex_upload (Inr ''abc'') ex_objects)" "snd (CreateFileObject ex_files_env ex_upload (Inr ''abc'') ex_objects)"]
    by (auto simp: ex_objects_def ex_upload_def)
qed

subsection \<open>Replacing an agent binary\<close>

lemma DeleteFileObject_run:
  assumes "ob_faults s = []"
  obtains s' where "DeleteFileObject i s = (Inr (), s')" "ob_rows s' = filter (\<lambda>r. fo_ID r \<noteq> i) (ob_rows s)" "ob_faults s' = []"
proof (cases "find_object i s")
  case (Inl e)
  then have none: "List.find (\<lambda>r. fo_ID r = i) (ob_rows s) = None" and e: "e = NotFoundError"
    by (auto simp: find_object_def option_or_def split: option.splits)
  have "DeleteFileObject i s = (Inr (), s)"
    using assms Inl e by (simp add: DeleteFileObject_def ob_tx_def ob_stmt_nofault m_bind_def m_try_def)
  moreover have "ob_rows s = filter (\<lambda>r. fo_ID r \<noteq> i) (ob_rows s)"
    using none by (simp add: find_None_iff filter_id_conv)
  ultimately show thesis using assms that by metis
next
  case (Inr r)
  then show thesis using assms
    by (intro that [of "snd (DeleteFileObject i s)"]) (simp_all add: DeleteFileObject_def ob_tx_def ob_stmt_nofault m_bind_def m_try_def remove_objects_def ob_notify_def)
qed

lemma delete_old_simps:
  "fp_ID t = new \<Longrightarrow> delete_old new t = m_ret ()" "fp_ID t \<noteq> new \<Longrightarrow> delete_old new t = m_ignore (DeleteFileObject (fp_ID t))"
  by (simp_all add: delete_old_def)

lemma unat_small: "n < 18446744073709551616 \<Longrightarrow> unat (of_nat n :: uint64) = n"
  by (simp add: unat_of_nat take_bit_nat_eq_self)

lemma delete_old_run:
  assumes "ob_faults s = []"
  obtains s' where "m_for (delete_old new) tools s = (Inr (), s')" "ob_faults s' = []"
    "ob_rows s' = filter (\<lambda>r. fo_ID r = new \<or> fo_ID r \<notin> fp_ID ` set tools) (ob_rows s)"
proof -
  have "\<exists>s'. m_for (delete_old new) tools s = (Inr (), s') \<and> ob_faults s' = [] \<and>
    ob_rows s' = filter (\<lambda>r. fo_ID r = new \<or> fo_ID r \<notin> fp_ID ` set tools) (ob_rows s)"
    using assms
  proof (induction tools arbitrary: s)
    case (Cons t tools)
    show ?case
    proof (cases "fp_ID t = new")
      case True
      obtain s' where "m_for (delete_old new) tools s = (Inr (), s')" "ob_faults s' = []"
        "ob_rows s' = filter (\<lambda>r. fo_ID r = new \<or> fo_ID r \<notin> fp_ID ` set tools) (ob_rows s)" using Cons by blast
      then show ?thesis using True by (auto simp: delete_old_simps intro!: filter_cong)
    next
      case False
      obtain s1 where s1: "DeleteFileObject (fp_ID t) s = (Inr (), s1)" "ob_rows s1 = filter (\<lambda>r. fo_ID r \<noteq> fp_ID t) (ob_rows s)" "ob_faults s1 = []"
        using Cons.prems by (rule DeleteFileObject_run)
      obtain s' where s': "m_for (delete_old new) tools s1 = (Inr (), s')" "ob_faults s' = []"
        "ob_rows s' = filter (\<lambda>r. fo_ID r = new \<or> fo_ID r \<notin> fp_ID ` set tools) (ob_rows s1)" using Cons.IH s1(3) by blast
      then show ?thesis using False s1
        by (auto simp: delete_old_simps m_seq_def m_bind_def m_ignore_def intro!: filter_cong)
    qed
  qed simp
  then show thesis using that by blast
qed

lemma pages_100:
  assumes "t < 1000"
  shows "unat ((of_nat t + 100 - 1 :: uint64) div 100) = (t + 99) div 100"
proof -
  have "(of_nat t + 100 - 1 :: uint64) = of_nat (t + 99)" by simp
  moreover have "unat (of_nat (t + 99) :: uint64) = t + 99" using assms by (intro unat_small) simp
  moreover have "unat (100 :: uint64) = 100" by simp
  ultimately show ?thesis by (simp only: unat_div)
qed

lemma search_page:
  assumes "ob_faults s = []" "t = length (filter (has_tags tags) (ob_rows s))" "t < 1000" "0 < k" "k < 100"
  obtains page where "SearchFileObjectByTags tags (of_nat k) 100 s = (Inr page, s)"
    "fpg_NextPage page = (if k < (t + 99) div 100 then Some (of_nat (k + 1)) else None)"
    "fpg_Results page = map sqlFileObjectToCommonParams (take 100 (drop ((k - 1) * 100) (rev (filter (has_tags tags) (ob_rows s)))))"
proof -
  have k: "unat (of_nat k :: uint64) = k" using assms(5) by (intro unat_small) simp
  then have k0: "(of_nat k :: uint64) \<noteq> 0" using assms(4) by (metis unat_0 neq0_conv)
  have off: "(of_nat k - 1) * 100 = (of_nat ((k - 1) * 100) :: uint64)" using assms(4) by (simp add: of_nat_diff)
  have off': "unat ((of_nat k - 1) * 100 :: uint64) = (k - 1) * 100" unfolding off using assms(5) by (intro unat_small) simp
  then have "uint ((of_nat k - 1) * 100 :: uint64) = int ((k - 1) * 100)" by (metis uint_nat)
  then have fits: "\<not> max_int < uint ((of_nat k - 1) * 100 :: uint64)" using assms(5) by (simp only: max_int_def) simp
  have lt: "((of_nat k :: uint64) < (if 0 < t then (of_nat t + 100 - 1) div 100 else 0)) = (k < (t + 99) div 100)"
    using pages_100 [OF assms(3)] k assms(4) by (auto simp: word_less_nat_alt)
  let ?page = "\<lparr>fpg_TotalCount = of_nat t, fpg_Pages = (if 0 < t then (of_nat t + 100 - 1) div 100 else 0), fpg_CurrentPage = of_nat k,
    fpg_NextPage = (if k < (t + 99) div 100 then Some (of_nat k + 1) else None), fpg_PreviousPage = (if (1 :: uint64) < of_nat k then Some (of_nat k - 1) else None),
    fpg_Results = map sqlFileObjectToCommonParams (take 100 (drop ((k - 1) * 100) (rev (filter (has_tags tags) (ob_rows s)))))\<rparr>"
  have "SearchFileObjectByTags tags (of_nat k) 100 s = (Inr ?page, s)"
    using assms(1) k0 fits lt off'
    by (simp add: SearchFileObjectByTags_def list_objects_def Let_def ob_stmt_nofault m_bind_def assms(2) [symmetric] max_int_def)
  then show thesis by (rule that) simp_all
qed

lemma cleanup_step:
  assumes "ob_faults s = []" "t = length (filter (has_tags tags) (ob_rows s))" "t < 1000" "0 < k" "k < 100"
  obtains s' where "ob_faults s' = []"
    "ob_rows s' = filter (\<lambda>r. fo_ID r = new \<or> fo_ID r \<notin> fo_ID ` set (take 100 (drop ((k - 1) * 100) (rev (filter (has_tags tags) (ob_rows s)))))) (ob_rows s)"
    "cleanup_tools (Suc n) tags new (of_nat k) s = (if k < (t + 99) div 100 then cleanup_tools n tags new (of_nat (k + 1)) s' else (Inr (), s'))"
proof -
  obtain page where page: "SearchFileObjectByTags tags (of_nat k) 100 s = (Inr page, s)"
    "fpg_NextPage page = (if k < (t + 99) div 100 then Some (of_nat (k + 1)) else None)"
    "fpg_Results page = map sqlFileObjectToCommonParams (take 100 (drop ((k - 1) * 100) (rev (filter (has_tags tags) (ob_rows s)))))"
    using assms by (rule search_page)
  obtain s' where s': "m_for (delete_old new) (fpg_Results page) s = (Inr (), s')" "ob_faults s' = []"
    "ob_rows s' = filter (\<lambda>r. fo_ID r = new \<or> fo_ID r \<notin> fp_ID ` set (fpg_Results page)) (ob_rows s)"
    using assms(1) by (rule delete_old_run)
  have ids: "fp_ID ` set (fpg_Results page) = fo_ID ` set (take 100 (drop ((k - 1) * 100) (rev (filter (has_tags tags) (ob_rows s)))))"
    unfolding page(3) by (auto simp: sqlFileObjectToCommonParams_def image_iff)
  show thesis
    by (rule that [OF s'(2)]) (use page(1,2) s'(1,3) ids in \<open>simp_all add: m_bind_def m_try_def m_seq_def\<close>)
qed

text \<open>The tools of a platform, and which of them survive the first page.\<close>

lemma cleanup_survivors:
  assumes "distinct (map fo_ID rows)" "rows = old @ [new]" "xs = rev (filter P rows)" "P new"
  shows "filter (\<lambda>r. fo_ID r = fo_ID new \<or> fo_ID r \<notin> fo_ID ` set (take (Suc m) xs)) rows =
    filter (\<lambda>r. \<not> P r \<or> r \<in> set (take (length (filter P old) - m) (filter P old))) old @ [new]"
proof -
  let ?o = "filter P old"
  have xs: "take (Suc m) xs = new # take m (rev ?o)" using assms(2-4) by simp
  have new: "fo_ID r \<noteq> fo_ID new" if "r \<in> set old" for r using assms(1,2) that by (auto simp: image_iff)
  have split: "set ?o = set (take (length ?o - m) ?o) \<union> set (take m (rev ?o))"
    "set (take (length ?o - m) ?o) \<inter> set (take m (rev ?o)) = {}"
  proof -
    have d: "distinct ?o" using assms(1,2) by (simp add: distinct_map)
    have t: "set (take m (rev ?o)) = set (drop (length ?o - m) ?o)" by (simp add: take_rev)
    show "set ?o = set (take (length ?o - m) ?o) \<union> set (take m (rev ?o))" unfolding t by (metis append_take_drop_id set_append)
    show "set (take (length ?o - m) ?o) \<inter> set (take m (rev ?o)) = {}" unfolding t using d by (rule set_take_disj_set_drop_if_distinct) simp
  qed
  have inj: "fo_ID r \<in> fo_ID ` set (take m (rev ?o)) \<longleftrightarrow> r \<in> set (take m (rev ?o))" if "r \<in> set old" for r
  proof -
    have "inj_on fo_ID (set old)" using assms(1,2) by (simp add: distinct_map)
    moreover have "set (take m (rev ?o)) \<subseteq> set old" using set_take_subset [of m "rev ?o"] by auto
    ultimately show ?thesis using that by (meson inj_on_image_mem_iff)
  qed
  have "filter (\<lambda>r. fo_ID r = fo_ID new \<or> fo_ID r \<notin> fo_ID ` set (take (Suc m) xs)) old =
      filter (\<lambda>r. \<not> P r \<or> r \<in> set (take (length ?o - m) ?o)) old"
  proof (rule filter_cong)
    fix r assume r: "r \<in> set old"
    show "(fo_ID r = fo_ID new \<or> fo_ID r \<notin> fo_ID ` set (take (Suc m) xs)) = (\<not> P r \<or> r \<in> set (take (length ?o - m) ?o))"
      using inj [OF r] new [OF r] split r unfolding xs by auto
  qed simp
  then show ?thesis unfolding assms(2) by simp
qed

declare cleanup_tools.simps [simp del]

lemma platform_tags_new:
  assumes "platform_tags osType osArch = Inr tags" "set tags \<subseteq> set (fo_TagsList r)"
  shows "has_tags tags r"
  using assms by (auto simp: has_tags_def)

lemma survivors_filter:
  assumes "rows' = filter (\<lambda>r. \<not> P r \<or> r \<in> set (take k (filter P old))) old @ [new]" "P new" "distinct old"
  shows "filter P rows' = take k (filter P old) @ [new]" "filter (\<lambda>r. \<not> P r) rows' = filter (\<lambda>r. \<not> P r) old"
proof -
  have d: "distinct (filter P old)" using assms(3) by simp
  have "filter P (filter (\<lambda>r. \<not> P r \<or> r \<in> set (take k (filter P old))) old) = filter (\<lambda>r. r \<in> set (take k (filter P old))) (filter P old)"
    by (auto intro!: filter_cong dest: in_set_takeD)
  also have "\<dots> = take k (filter P old)"
    using d set_take_disj_set_drop_if_distinct [OF d, of k k]
    by (subst append_take_drop_id [of k "filter P old", symmetric], subst filter_append) (auto simp: filter_id_conv filter_empty_conv)
  finally show "filter P rows' = take k (filter P old) @ [new]" using assms(1,2) by simp
  show "filter (\<lambda>r. \<not> P r) rows' = filter (\<lambda>r. \<not> P r) old" using assms(1,2) by (auto intro!: filter_cong)
qed

text \<open>An upload of an agent binary, up to its last page, when the older binaries of the platform fill at most two pages.\<close>

lemma CreateGARMTool_run:
  assumes "objects_ok s" "ob_faults s = []" "cx_IsAdmin ctx" "cg_Version param \<noteq> []" "platform_tags (cg_OSType param) (cg_OSArch param) = Inr tags"
    and "cg_Size param = int (length data)" and n: "n = length (filter (has_tags tags) (ob_rows s))" "n < 199"
  obtains obj new s' where "CreateGARMTool env ctx param (Inr data) s = (Inr obj, s')" "obj = sqlFileObjectToCommonParams new"
    "filter (has_tags tags) (ob_rows s') = take (n - 99) (filter (has_tags tags) (ob_rows s)) @ [new]"
    "filter (\<lambda>r. \<not> has_tags tags r) (ob_rows s') = filter (\<lambda>r. \<not> has_tags tags r) (ob_rows s)"
proof -
  let ?param = "\<lparr>cf_Name = cg_Name param, cf_Description = cg_Description param, cf_Size = cg_Size param,
     cf_Tags = tags @ [''version='' @ cg_Version param, ''origin='' @ (if cg_Origin param = [] then ''manual'' else cg_Origin param)]\<rparr>"
  let ?P = "has_tags tags"
  define new where "new = uploaded env ?param data s"
  define s1 where "s1 = snd (CreateFileObject env ?param (Inr data) s)"
  have run: "CreateFileObject env ?param (Inr data) s = (Inr (sqlFileObjectToCommonParams new), s1)"
    and s1: "ob_rows s1 = ob_rows s @ [new]" "ob_faults s1 = []"
    using CreateFileObject_run [OF assms(1,2), of ?param data env] assms(2,6) by (simp_all add: new_def s1_def)
  have new: "?P new" "fp_ID (sqlFileObjectToCommonParams new) = fo_ID new"
    by (simp_all add: has_tags_def new_def uploaded_def sqlFileObjectToCommonParams_def) blast
  have dist: "distinct (map fo_ID (ob_rows s1))" "distinct (ob_rows s)"
    using assms(1) s1(1) by (auto simp: objects_ok_def new_def uploaded_def distinct_map)
  have t: "Suc n = length (filter ?P (ob_rows s1))" using n(1) s1(1) new(1) by simp
  have lt: "Suc n < 1000" "0 < (1 :: nat)" "(1 :: nat) < 100" using n(2) by simp_all
  obtain s2 where s2: "ob_faults s2 = []"
      "ob_rows s2 = filter (\<lambda>r. fo_ID r = fo_ID new \<or> fo_ID r \<notin> fo_ID ` set (take 100 (drop ((1 - 1) * 100) (rev (filter ?P (ob_rows s1)))))) (ob_rows s1)"
      "cleanup_tools (Suc (length (ob_rows s1))) tags (fo_ID new) (of_nat 1) s1 =
        (if 1 < (Suc n + 99) div 100 then cleanup_tools (length (ob_rows s1)) tags (fo_ID new) (of_nat (1 + 1)) s2 else (Inr (), s2))"
    by (rule cleanup_step [OF s1(2) t lt, of "fo_ID new" "length (ob_rows s1)"])
  have rows2: "ob_rows s2 = filter (\<lambda>r. \<not> ?P r \<or> r \<in> set (take (n - 99) (filter ?P (ob_rows s)))) (ob_rows s) @ [new]"
    unfolding s2(2) using cleanup_survivors [of "ob_rows s1" "ob_rows s" new "rev (filter ?P (ob_rows s1))" ?P 99] dist(1) s1(1) new(1) n(1) by (simp add: numeral_eq_Suc)
  note surv = survivors_filter [where P = ?P, OF rows2 new(1) dist(2)]
  have "\<exists>s'. cleanup_tools (Suc (length (ob_rows s1))) tags (fo_ID new) 1 s1 = (Inr (), s') \<and> ob_rows s' = ob_rows s2"
  proof (cases "1 < (Suc n + 99) div 100")
    case False
    then show ?thesis using s2(3) by simp
  next
    case True
    then have n99: "99 < n" by (auto simp: less_Suc_eq_le)
    have t2: "Suc (n - 99) = length (filter ?P (ob_rows s2))" using n surv(1) by simp
    obtain m where m: "length (ob_rows s1) = Suc m" using s1(1) by simp
    have lt2: "Suc (n - 99) < 1000" "0 < (2 :: nat)" "(2 :: nat) < 100" using n(2) by simp_all
    obtain s3 where s3: "ob_rows s3 = filter (\<lambda>r. fo_ID r = fo_ID new \<or> fo_ID r \<notin> fo_ID ` set (take 100 (drop ((2 - 1) * 100) (rev (filter ?P (ob_rows s2)))))) (ob_rows s2)"
        "cleanup_tools (Suc m) tags (fo_ID new) (of_nat 2) s2 =
          (if 2 < (Suc (n - 99) + 99) div 100 then cleanup_tools m tags (fo_ID new) (of_nat (2 + 1)) s3 else (Inr (), s3))"
      by (rule cleanup_step [OF s2(1) t2 lt2, of "fo_ID new" m])
    have "drop ((2 - 1) * 100) (rev (filter ?P (ob_rows s2))) = []" using t2 n(2) by simp
    then have "ob_rows s3 = ob_rows s2" unfolding s3(1) by simp
    moreover have "\<not> 2 < (Suc (n - 99) + 99) div 100" using n(2) by auto
    ultimately show ?thesis using s2(3) s3(2) True m by (simp add: numeral_2_eq_2)
  qed
  then obtain s' where s': "cleanup_tools (Suc (length (ob_rows s1))) tags (fo_ID new) 1 s1 = (Inr (), s')" "ob_rows s' = ob_rows s2" by blast
  have "CreateGARMTool env ctx param (Inr data) s = (Inr (sqlFileObjectToCommonParams new), s')"
    using assms(3-5) run s'(1) new(2) by (simp add: CreateGARMTool_def admin_only_def m_bind_def m_seq_def)
  then show thesis by (rule that [OF _ refl]) (use surv s'(2) in simp_all)
qed

text \<open>
  (C40) Uploading an agent binary replaces the older ones: when the platform had fewer than a hundred, the new one is the only one left, and the objects
  that are not binaries of that platform are untouched.\<close>

theorem agent_upload_replaces:
  assumes "objects_ok s" "ob_faults s = []" "cx_IsAdmin ctx" "cg_Version param \<noteq> []" "platform_tags (cg_OSType param) (cg_OSArch param) = Inr tags"
    and "cg_Size param = int (length data)" "length (filter (has_tags tags) (ob_rows s)) < 100"
    and "CreateGARMTool env ctx param (Inr data) s = (r, s')"
  shows "\<exists>new. r = Inr (sqlFileObjectToCommonParams new) \<and> filter (has_tags tags) (ob_rows s') = [new] \<and>
    filter (\<lambda>x. \<not> has_tags tags x) (ob_rows s') = filter (\<lambda>x. \<not> has_tags tags x) (ob_rows s)"
proof -
  have "length (filter (has_tags tags) (ob_rows s)) < 199" "length (filter (has_tags tags) (ob_rows s)) - 99 = 0" using assms(7) by simp_all
  then show ?thesis using CreateGARMTool_run [OF assms(1-6) refl, of env] assms(8) by (metis append_Nil prod.inject take_0)
qed

text \<open>With more of them the loop over the pages skips some: a deletion moves the later rows to an earlier page, and the loop goes on with the next one.\<close>

theorem old_agents_survive:
  assumes "objects_ok s" "ob_faults s = []" "cx_IsAdmin ctx" "cg_Version param \<noteq> []" "platform_tags (cg_OSType param) (cg_OSArch param) = Inr tags"
    and "cg_Size param = int (length data)" "n = length (filter (has_tags tags) (ob_rows s))" "100 \<le> n" "n < 199"
  shows "length (filter (has_tags tags) (ob_rows (snd (CreateGARMTool env ctx param (Inr data) s)))) = n - 98"
proof -
  obtain obj new s' where "CreateGARMTool env ctx param (Inr data) s = (Inr obj, s')"
    "filter (has_tags tags) (ob_rows s') = take (n - 99) (filter (has_tags tags) (ob_rows s)) @ [new]"
    by (rule CreateGARMTool_run [OF assms(1-7,9)])
  then show ?thesis using assms(7,8) by simp
qed

definition ex_admin :: Context where
  "ex_admin = background\<lparr>cx_IsAdmin := True\<rparr>"

definition ex_tool_params :: CreateGARMToolParams where
  "ex_tool_params = \<lparr>cg_Name = ''garm-agent'', cg_Description = [], cg_Size = 3, cg_OSType = ''linux'', cg_OSArch = ''amd64'', cg_Version = ''v2'', cg_Origin = []\<rparr>"

lemma ex_tags: "platform_tags (cg_OSType ex_tool_params) (cg_OSArch ex_tool_params) = Inr [garmAgentFileTag, ''os_type=linux'', ''os_arch=amd64'']"
  by (simp add: platform_tags_def ex_tool_params_def)

theorem agent_upload_replaces_witness:
  "has_tags [garmAgentFileTag, ''os_type=linux'', ''os_arch=amd64''] (ex_tool_row 1) \<and> ob_rows ex_objects = [ex_tool_row 1] \<and>
   (\<exists>new. filter (has_tags [garmAgentFileTag, ''os_type=linux'', ''os_arch=amd64''])
     (ob_rows (snd (CreateGARMTool ex_files_env ex_admin ex_tool_params (Inr ''abc'') ex_objects))) = [new])"
proof -
  have ok: "objects_ok ex_objects" "ob_faults ex_objects = []" "ob_rows ex_objects = [ex_tool_row 1]"
    by (simp_all add: objects_ok_def ex_objects_def ex_tool_row_def)
  have p: "cx_IsAdmin ex_admin" "cg_Version ex_tool_params \<noteq> []" "cg_Size ex_tool_params = int (length ''abc'')"
    by (simp_all add: ex_admin_def ex_tool_params_def)
  have t: "has_tags [garmAgentFileTag, ''os_type=linux'', ''os_arch=amd64''] (ex_tool_row 1)" by (simp add: has_tags_def ex_tool_row_def)
  show ?thesis using agent_upload_replaces [OF ok(1,2) p(1,2) ex_tags p(3) _ surjective_pairing, of ex_files_env] ok(3) t by auto
qed

subsection \<open>What deletions and failed uploads leave behind\<close>

text \<open>A deletion is announced with an empty object.\<close>

theorem deletion_announced_blank:
  assumes "ob_faults s = []" "r \<in> set (ob_rows s)"
  shows "ob_notifications (snd (DeleteFileObject (fo_ID r) s)) = ob_notifications s @ [(DeleteOperation, zero_FileObject)]"
proof -
  have "find_object (fo_ID r) s \<noteq> Inl e" for e
    using assms(2) by (auto simp: find_object_def option_or_def find_None_iff split: option.splits)
  then obtain x where "find_object (fo_ID r) s = Inr x" by (metis sum.exhaust)
  then show ?thesis using assms(1)
    by (simp add: DeleteFileObject_def ob_tx_def ob_stmt_nofault m_bind_def m_try_def remove_objects_def ob_notify_def)
qed

text \<open>When the content cannot be written, the row stays, without a checksum.\<close>

theorem failed_upload_leaves_object:
  assumes "objects_ok s" "ob_faults s = [False, False, True]" "0 \<le> cf_Size param"
  shows "fst (CreateFileObject env param (Inr data) s) = Inl DatabaseError \<and>
    (\<exists>r. ob_rows (snd (CreateFileObject env param (Inr data) s)) = ob_rows s @ [r] \<and> fo_Name r = cf_Name param \<and> fo_SHA256 r = [] \<and>
      fo_Content r = replicate (nat (cf_Size param)) (CHR 0x00))"
  using assms(2) by (simp add: CreateFileObject_def createFileObjectSQLite_def insert_object_def ob_tx_def ob_stmt_def streamBlobContent_def m_bind_def)

text \<open>The service refuses the tag of the agent on other objects, comparing letters exactly, while the search for agents ignores case.\<close>

theorem agent_tag_guard_ignores_case:
  assumes "objects_ok s" "ob_faults s = []" "cx_IsAdmin ctx" "cf_Size param = int (length data)" "cf_Tags param = [''Category=garm-agent'']"
  shows "\<exists>r. ob_rows (snd (Runner_CreateFileObject env ctx param (Inr data) s)) = ob_rows s @ [r] \<and> has_tags [garmAgentFileTag] r"
proof -
  have "to_lower ''Category=garm-agent'' = to_lower garmAgentFileTag" by (simp add: to_lower_def garmAgentFileTag_def) code_simp
  moreover have "garmAgentFileTag \<noteq> ''Category=garm-agent''" by (simp add: garmAgentFileTag_def)
  ultimately show ?thesis using assms CreateFileObject_run [OF assms(1,2,4), of env]
    by (simp add: Runner_CreateFileObject_def admin_only_def has_tags_def uploaded_def)
qed

end
