(* ===== verification/Garm_Templates.thy ===== *)
theory Garm_Templates
  imports Garm_Entities
begin

text \<open>
  Runner install templates and proxies in the store (\<^verbatim>\<open>database/sql/templates.go\<close>, \<^verbatim>\<open>database/sql/proxies.go\<close>, the validations of
  \<^verbatim>\<open>params/requests.go\<close>, \<^verbatim>\<open>internal/templates\<close>). Pools and scale sets refer to both by ID, which is why a row in use cannot be deleted.

  \<open>url.Parse\<close> is a parameter that gives the scheme, the host and whether there is user information; so are the parser of \<^verbatim>\<open>text/template\<close> and
  the files embedded in the binary. Sealing is left out, as for credentials: a stored blob opens again.
\<close>

subsection \<open>Templates\<close>

record CreateTemplateParams =
  ctp_Name :: string
  ctp_Description :: string
  ctp_Data :: string
  ctp_OSType :: string
  ctp_ForgeType :: EndpointType
  ctp_IsSystem :: bool

record UpdateTemplateParams =
  utp_Name :: "string option"
  utp_Description :: "string option"
  utp_Data :: string

definition SystemUser :: string where "SystemUser = ''system''"

definition CreateTemplateParams_Validate :: "CreateTemplateParams \<Rightarrow> garm_error option" where
  "CreateTemplateParams_Validate c = (if ctp_Name c = [] then Some (OtherError ''name cannot be empty'')
     else if ctp_Data c = [] then Some (OtherError ''template data is empty'')
     else if ctp_OSType c \<notin> {''linux'', ''windows''} then Some (OtherError ''invalid OS type'')
     else if ctp_ForgeType c \<notin> {GithubEndpointType, GiteaEndpointType} then Some (OtherError ''invalid forge type'')
     else None)"

definition UpdateTemplateParams_Validate :: "UpdateTemplateParams \<Rightarrow> garm_error option" where
  "UpdateTemplateParams_Validate u = (if utp_Name u = Some [] then Some (OtherError ''name cannot be empty'') else None)"

text \<open>The user is the preloaded association: \<open>None\<close> is the zero value.\<close>

definition sqlToParamTemplate :: "UserRow option \<Rightarrow> TemplateRow \<Rightarrow> Template" where
  "sqlToParamTemplate user t = \<lparr>tpl_ID = tr_ID t, tpl_CreatedAt = tr_CreatedAt t, tpl_UpdatedAt = tr_UpdatedAt t, tpl_Name = tr_Name t,
     tpl_Description = tr_Description t, tpl_OSType = tr_OSType t, tpl_ForgeType = tr_ForgeType t, tpl_Data = tr_Data t,
     tpl_Owner = (if tr_UserID t = None then SystemUser else case user of None \<Rightarrow> [] | Some u \<Rightarrow> us_Username u)\<rparr>"

definition template_user :: "db \<Rightarrow> TemplateRow \<Rightarrow> UserRow option" where
  "template_user d t = (case tr_UserID t of None \<Rightarrow> None | Some u \<Rightarrow> List.find (\<lambda>x. us_ID x = u) (db_users d))"

definition template_visible :: "Context \<Rightarrow> garm_error + (TemplateRow \<Rightarrow> bool)" where
  "template_visible ctx = (if cx_IsAdmin ctx then Inr (\<lambda>_. True) else case getUIDFromContext ctx of Inl e \<Rightarrow> Inl e
     | Inr userID \<Rightarrow> Inr (\<lambda>t. tr_UserID t = Some userID \<or> tr_UserID t = None))"

text \<open>The operator \<^verbatim>\<open>LIKE\<close>: a percent sign stands for any characters, an underscore for one.\<close>

fun sql_like :: "string \<Rightarrow> string \<Rightarrow> bool" where
  "sql_like [] [] = True"
| "sql_like [] (c # cs) = False"
| "sql_like (p # ps) [] = (p = CHR ''%'' \<and> sql_like ps [])"
| "sql_like (p # ps) (c # cs) = (if p = CHR ''%'' then sql_like ps (c # cs) \<or> sql_like (p # ps) cs
     else (p = CHR ''_'' \<or> p = c) \<and> sql_like ps cs)"

definition ListTemplates :: "Context \<Rightarrow> string option \<Rightarrow> EndpointType option \<Rightarrow> string option \<Rightarrow> (db, Template list) prog" where
  "ListTemplates ctx osType forgeType partialName = db_read (\<lambda>d. case template_visible ctx of Inl e \<Rightarrow> Inl e
     | Inr ok \<Rightarrow> Inr (map (\<lambda>t. sqlToParamTemplate (template_user d t) (t\<lparr>tr_Data := []\<rparr>)) (filter (\<lambda>t. ok t \<and>
         (osType = None \<or> osType = Some (tr_OSType t)) \<and>
         (case partialName of None \<Rightarrow> True | Some p \<Rightarrow> sql_like (to_lower (''%'' @ p @ ''%'')) (to_lower (tr_Name t))) \<and>
         (forgeType = None \<or> forgeType = Some (tr_ForgeType t))) (db_templates d))))"

definition getTemplate :: "Context \<Rightarrow> nat \<Rightarrow> db \<Rightarrow> garm_error + TemplateRow" where
  "getTemplate ctx i d = (case template_visible ctx of Inl e \<Rightarrow> Inl e
     | Inr ok \<Rightarrow> option_or NotFoundError (List.find (\<lambda>t. tr_ID t = i \<and> ok t) (db_templates d)))"

definition GetTemplate :: "Context \<Rightarrow> nat \<Rightarrow> (db, Template) prog" where
  "GetTemplate ctx i = db_read (\<lambda>d. case getTemplate ctx i d of Inl e \<Rightarrow> Inl e | Inr t \<Rightarrow> Inr (sqlToParamTemplate (template_user d t) t))"

definition GetTemplateByName :: "Context \<Rightarrow> string \<Rightarrow> (db, Template) prog" where
  "GetTemplateByName ctx name = db_read (\<lambda>d. case getUIDFromContext ctx of Inl e \<Rightarrow> Inl e
     | Inr userID \<Rightarrow> (case filter (\<lambda>t. tr_Name t = name \<and> (tr_UserID t = Some userID \<or> tr_UserID t = None)) (db_templates d) of
           [] \<Rightarrow> Inl NotFoundError
         | [t] \<Rightarrow> Inr (sqlToParamTemplate (template_user d t) t)
         | _ \<Rightarrow> Inl ConflictError))"

text \<open>The unique index on name and user does not apply to the rows of the system, whose user is NULL.\<close>

definition template_key_taken :: "TemplateRow \<Rightarrow> db \<Rightarrow> bool" where
  "template_key_taken r d \<longleftrightarrow> (\<exists>t \<in> set (db_templates d). tr_ID t \<noteq> tr_ID r \<and> tr_Name t = tr_Name r \<and> tr_UserID r \<noteq> None \<and> tr_UserID t = tr_UserID r)"

definition insert_template :: "TemplateRow \<Rightarrow> (db, nat) prog" where
  "insert_template row d = (let r = row\<lparr>tr_ID := db_next_template d, tr_CreatedAt := db_clock d, tr_UpdatedAt := db_clock d\<rparr> in
     if template_key_taken r d then (Inl ConflictError, d)
     else if tr_UserID r \<noteq> None \<and> template_user d r = None then (Inl DatabaseError, d)
     else (Inr (tr_ID r), d\<lparr>db_templates := db_templates d @ [r], db_next_template := db_next_template d + 1\<rparr>))"

definition CreateTemplate :: "Context \<Rightarrow> CreateTemplateParams \<Rightarrow> (db, Template) prog" where
  "CreateTemplate ctx param = (if ctp_IsSystem param \<and> \<not> cx_IsAdmin ctx then m_throw UnauthorizedError
     else m_bind (m_result (if ctp_IsSystem param then Inr None else map_sum id Some (getUIDFromContext ctx))) (\<lambda>userID.
       case CreateTemplateParams_Validate param of Some e \<Rightarrow> m_throw e
       | None \<Rightarrow> m_bind (db_stmt (insert_template \<lparr>tr_ID = 0, tr_Name = ctp_Name param, tr_UserID = userID, tr_Description = ctp_Description param,
             tr_OSType = ctp_OSType param, tr_ForgeType = ctp_ForgeType param, tr_Data = ctp_Data param, tr_CreatedAt = 0, tr_UpdatedAt = 0\<rparr>)) (\<lambda>i.
           m_bind (GetTemplate ctx i) (\<lambda>t. m_seq (sendNotify TemplateEntityType CreateOperation (TemplatePayload t)) (m_ret t)))))"

definition template_updates :: "UpdateTemplateParams \<Rightarrow> (TemplateRow \<Rightarrow> TemplateRow) list" where
  "template_updates param =
     (case utp_Description param of None \<Rightarrow> [] | Some x \<Rightarrow> [tr_Description_update (\<lambda>_. x)]) @
     (case utp_Name param of None \<Rightarrow> [] | Some x \<Rightarrow> [tr_Name_update (\<lambda>_. x)]) @
     (if utp_Data param = [] then [] else [tr_Data_update (\<lambda>_. utp_Data param)])"

definition update_template_tx :: "Context \<Rightarrow> nat \<Rightarrow> UpdateTemplateParams \<Rightarrow> (db, bool) prog" where
  "update_template_tx ctx i param d = (case getTemplate ctx i d of Inl e \<Rightarrow> (Inl e, d)
     | Inr t \<Rightarrow> if \<not> cx_IsAdmin ctx \<and> tr_UserID t = None then (Inl BadRequestError, d)
       else if template_updates param = [] then (Inr False, d)
       else let t' = fold id (template_updates param) (t\<lparr>tr_UpdatedAt := db_clock d\<rparr>) in
         if template_key_taken t' d then (Inl DatabaseError, d)
         else (Inr True, d\<lparr>db_templates := upd_rows (\<lambda>x. tr_ID x = i) (\<lambda>_. t') (db_templates d)\<rparr>))"

definition UpdateTemplate :: "Context \<Rightarrow> nat \<Rightarrow> UpdateTemplateParams \<Rightarrow> (db, Template) prog" where
  "UpdateTemplate ctx i param = m_bind (db_tx (update_template_tx ctx i param)) (\<lambda>hasChange.
     m_bind (GetTemplate ctx i) (\<lambda>t. m_seq (m_when hasChange (sendNotify TemplateEntityType UpdateOperation (TemplatePayload t))) (m_ret t)))"

definition template_in_use :: "nat \<Rightarrow> db \<Rightarrow> bool" where
  "template_in_use i d \<longleftrightarrow> (\<exists>p \<in> set (db_pools d). pr_TemplateID p = Some i) \<or> (\<exists>s \<in> set (db_scalesets d). sr_TemplateID s = Some i)"

definition delete_template_tx :: "Context \<Rightarrow> nat \<Rightarrow> (db, Template) prog" where
  "delete_template_tx ctx i d = (case getTemplate ctx i d of Inl e \<Rightarrow> (Inl e, d)
     | Inr t \<Rightarrow> if \<not> cx_IsAdmin ctx \<and> tr_UserID t = None then (Inl BadRequestError, d)
       else if template_in_use i d then (Inl BadRequestError, d)
       else (Inr (sqlToParamTemplate None t), d\<lparr>db_templates := filter (\<lambda>x. tr_ID x \<noteq> i) (db_templates d)\<rparr>))"

definition DeleteTemplate :: "Context \<Rightarrow> nat \<Rightarrow> (db, unit) prog" where
  "DeleteTemplate ctx i = m_bind (db_tx (delete_template_tx ctx i)) (\<lambda>t. sendNotify TemplateEntityType DeleteOperation (TemplatePayload t))"

text \<open>The templates that come with the program (\<^verbatim>\<open>internal/templates/templates.go\<close>).\<close>

definition endpoint_string :: "EndpointType \<Rightarrow> string" where
  "endpoint_string f = (case f of GithubEndpointType \<Rightarrow> ''github'' | GiteaEndpointType \<Rightarrow> ''gitea'' | AutoEndpointType \<Rightarrow> [])"

definition GetTemplateContent :: "(string \<Rightarrow> string option) \<Rightarrow> string \<Rightarrow> EndpointType \<Rightarrow> garm_error + string" where
  "GetTemplateContent userdata osType forge = (if forge = AutoEndpointType then Inl NotFoundError
     else if osType \<notin> {''linux'', ''windows''} then Inl NotFoundError
     else option_or NotFoundError (userdata (endpoint_string forge @ ''_'' @ osType @ ''_userdata.tmpl'')))"

definition ValidateTemplate :: "(string \<Rightarrow> bool) \<Rightarrow> string \<Rightarrow> garm_error option" where
  "ValidateTemplate parses data = (if data = [] then Some BadRequestError else if \<not> parses data then Some BadRequestError else None)"

subsection \<open>Proxies\<close>

type_synonym url_parser = "string \<Rightarrow> (string \<times> string \<times> bool) option"

definition validateProxyURL :: "url_parser \<Rightarrow> string \<Rightarrow> garm_error option" where
  "validateProxyURL parse proxyURL = (case parse proxyURL of None \<Rightarrow> Some BadRequestError
     | Some (sch, host, user) \<Rightarrow> if sch \<notin> {''http'', ''https'', ''socks5''} then Some BadRequestError
         else if host = [] then Some BadRequestError else if user then Some BadRequestError else None)"

record CreateProxyParams =
  cxp_Name :: string
  cxp_Description :: string
  cxp_HTTPProxy :: string
  cxp_HTTPSProxy :: string
  cxp_NoProxy :: string
  cxp_Username :: string
  cxp_Password :: string

record UpdateProxyParams =
  uxp_Name :: "string option"
  uxp_Description :: "string option"
  uxp_HTTPProxy :: "string option"
  uxp_HTTPSProxy :: "string option"
  uxp_NoProxy :: "string option"
  uxp_Username :: "string option"
  uxp_Password :: "string option"

definition invalid_proxy :: "url_parser \<Rightarrow> string \<Rightarrow> garm_error option" where
  "invalid_proxy parse u = (if u = [] then None else validateProxyURL parse u)"

primrec first_some :: "'a option list \<Rightarrow> 'a option" where
  "first_some [] = None"
| "first_some (x # xs) = (case x of None \<Rightarrow> first_some xs | Some a \<Rightarrow> Some a)"

definition CreateProxyParams_Validate :: "url_parser \<Rightarrow> CreateProxyParams \<Rightarrow> garm_error option" where
  "CreateProxyParams_Validate parse c = (if cxp_Name c = [] then Some BadRequestError
     else if cxp_HTTPProxy c = [] \<and> cxp_HTTPSProxy c = [] then Some BadRequestError
     else first_some [invalid_proxy parse (cxp_HTTPProxy c), invalid_proxy parse (cxp_HTTPSProxy c),
       if cxp_Password c \<noteq> [] \<and> cxp_Username c = [] then Some BadRequestError else None])"

definition UpdateProxyParams_Validate :: "url_parser \<Rightarrow> UpdateProxyParams \<Rightarrow> garm_error option" where
  "UpdateProxyParams_Validate parse u = (if uxp_Name u = Some [] then Some BadRequestError
     else first_some [Option.bind (uxp_HTTPProxy u) (invalid_proxy parse), Option.bind (uxp_HTTPSProxy u) (invalid_proxy parse)])"

definition sqlToParamProxy :: "ProxyRow \<Rightarrow> Proxy" where
  "sqlToParamProxy x = (let (username, password) = (case xr_Credentials x of None \<Rightarrow> ([], []) | Some c \<Rightarrow> c) in
     \<lparr>px_ID = xr_ID x, px_CreatedAt = xr_CreatedAt x, px_UpdatedAt = xr_UpdatedAt x, px_Name = xr_Name x, px_Description = xr_Description x,
      px_HTTPProxy = xr_HTTPProxy x, px_HTTPSProxy = xr_HTTPSProxy x, px_NoProxy = xr_NoProxy x, px_Username = username, px_Password = password\<rparr>)"

definition sealProxyCredentials :: "string \<Rightarrow> string \<Rightarrow> (string \<times> string) option" where
  "sealProxyCredentials username password = (if username = [] then None else Some (username, password))"

definition ListProxies :: "(db, Proxy list) prog" where
  "ListProxies = db_read (\<lambda>d. Inr (map sqlToParamProxy (db_proxies d)))"

definition getProxy :: "nat \<Rightarrow> db \<Rightarrow> garm_error + ProxyRow" where
  "getProxy i d = option_or NotFoundError (List.find (\<lambda>x. xr_ID x = i) (db_proxies d))"

definition GetProxy :: "nat \<Rightarrow> (db, Proxy) prog" where
  "GetProxy i = db_read (\<lambda>d. map_sum id sqlToParamProxy (getProxy i d))"

definition GetProxyByName :: "string \<Rightarrow> (db, Proxy) prog" where
  "GetProxyByName name = db_read (\<lambda>d. map_sum id sqlToParamProxy
     (option_or NotFoundError (List.find (\<lambda>x. to_lower (xr_Name x) = to_lower name) (db_proxies d))))"

definition proxy_key_taken :: "ProxyRow \<Rightarrow> db \<Rightarrow> bool" where
  "proxy_key_taken r d \<longleftrightarrow> (\<exists>x \<in> set (db_proxies d). xr_ID x \<noteq> xr_ID r \<and> to_lower (xr_Name x) = to_lower (xr_Name r))"

definition insert_proxy :: "ProxyRow \<Rightarrow> (db, ProxyRow) prog" where
  "insert_proxy row d = (let r = row\<lparr>xr_ID := db_next_proxy d, xr_CreatedAt := db_clock d, xr_UpdatedAt := db_clock d\<rparr> in
     if proxy_key_taken r d then (Inl ConflictError, d)
     else (Inr r, d\<lparr>db_proxies := db_proxies d @ [r], db_next_proxy := db_next_proxy d + 1\<rparr>))"

definition CreateProxy :: "url_parser \<Rightarrow> CreateProxyParams \<Rightarrow> (db, Proxy) prog" where
  "CreateProxy parse param = (case CreateProxyParams_Validate parse param of Some e \<Rightarrow> m_throw e
     | None \<Rightarrow> m_bind (db_stmt (insert_proxy \<lparr>xr_ID = 0, xr_Name = cxp_Name param, xr_Description = cxp_Description param,
           xr_HTTPProxy = cxp_HTTPProxy param, xr_HTTPSProxy = cxp_HTTPSProxy param, xr_NoProxy = cxp_NoProxy param,
           xr_Credentials = sealProxyCredentials (cxp_Username param) (cxp_Password param), xr_CreatedAt = 0, xr_UpdatedAt = 0\<rparr>)) (\<lambda>r.
         m_seq (sendNotify ProxyEntityType CreateOperation (ProxyPayload (sqlToParamProxy r))) (m_ret (sqlToParamProxy r))))"

text \<open>The updates of the credentials: none when neither of the two was given.\<close>

definition updateProxyCredentials :: "ProxyRow \<Rightarrow> UpdateProxyParams \<Rightarrow> garm_error + (ProxyRow \<Rightarrow> ProxyRow) list" where
  "updateProxyCredentials x param = (if uxp_Username param = None \<and> uxp_Password param = None then Inr []
     else let (u, p) = (case xr_Credentials x of None \<Rightarrow> ([], []) | Some c \<Rightarrow> c);
              u' = (case uxp_Username param of None \<Rightarrow> u | Some y \<Rightarrow> y); p' = (case uxp_Password param of None \<Rightarrow> p | Some y \<Rightarrow> y) in
       if u' = [] \<and> p' \<noteq> [] then Inl BadRequestError
       else Inr [xr_Credentials_update (\<lambda>_. sealProxyCredentials u' p')])"

definition proxy_updates :: "UpdateProxyParams \<Rightarrow> ProxyRow \<Rightarrow> (ProxyRow \<Rightarrow> ProxyRow) list" where
  "proxy_updates param x =
     changed (uxp_Name param) (xr_Name x) (\<lambda>y. xr_Name_update (\<lambda>_. y)) @
     changed (uxp_Description param) (xr_Description x) (\<lambda>y. xr_Description_update (\<lambda>_. y)) @
     changed (uxp_HTTPProxy param) (xr_HTTPProxy x) (\<lambda>y. xr_HTTPProxy_update (\<lambda>_. y)) @
     changed (uxp_HTTPSProxy param) (xr_HTTPSProxy x) (\<lambda>y. xr_HTTPSProxy_update (\<lambda>_. y)) @
     changed (uxp_NoProxy param) (xr_NoProxy x) (\<lambda>y. xr_NoProxy_update (\<lambda>_. y))"

definition update_proxy_tx :: "nat \<Rightarrow> UpdateProxyParams \<Rightarrow> (db, ProxyRow \<times> bool) prog" where
  "update_proxy_tx i param d = (case getProxy i d of Inl e \<Rightarrow> (Inl e, d)
     | Inr x \<Rightarrow> let x1 = fold id (proxy_updates param x) x in
       if xr_HTTPProxy x1 = [] \<and> xr_HTTPSProxy x1 = [] then (Inl BadRequestError, d)
       else (case updateProxyCredentials x param of Inl e \<Rightarrow> (Inl e, d)
         | Inr creds \<Rightarrow> if proxy_updates param x = [] \<and> creds = [] then (Inr (x, False), d)
           else let x2 = (fold id creds x1)\<lparr>xr_UpdatedAt := db_clock d\<rparr> in
             if proxy_key_taken x2 d then (Inl ConflictError, d)
             else (Inr (x2, True), d\<lparr>db_proxies := upd_rows (\<lambda>y. xr_ID y = i) (\<lambda>_. x2) (db_proxies d)\<rparr>)))"

definition UpdateProxy :: "url_parser \<Rightarrow> nat \<Rightarrow> UpdateProxyParams \<Rightarrow> (db, Proxy) prog" where
  "UpdateProxy parse i param = (case UpdateProxyParams_Validate parse param of Some e \<Rightarrow> m_throw e
     | None \<Rightarrow> m_bind (db_tx (update_proxy_tx i param)) (\<lambda>(x, hasChange).
         m_seq (m_when hasChange (sendNotify ProxyEntityType UpdateOperation (ProxyPayload (sqlToParamProxy x)))) (m_ret (sqlToParamProxy x))))"

definition proxy_in_use :: "nat \<Rightarrow> db \<Rightarrow> bool" where
  "proxy_in_use i d \<longleftrightarrow> (\<exists>p \<in> set (db_pools d). pr_ProxyID p = Some i) \<or> (\<exists>s \<in> set (db_scalesets d). sr_ProxyID s = Some i)"

definition delete_proxy_tx :: "nat \<Rightarrow> (db, ProxyRow) prog" where
  "delete_proxy_tx i d = (case getProxy i d of Inl e \<Rightarrow> (Inl e, d)
     | Inr x \<Rightarrow> if proxy_in_use i d then (Inl BadRequestError, d)
       else (Inr x, d\<lparr>db_proxies := filter (\<lambda>y. xr_ID y \<noteq> i) (db_proxies d)\<rparr>))"

definition DeleteProxy :: "nat \<Rightarrow> (db, unit) prog" where
  "DeleteProxy i = m_bind (db_tx (delete_proxy_tx i)) (\<lambda>x. sendNotify ProxyEntityType DeleteOperation
     (ProxyPayload \<lparr>px_ID = xr_ID x, px_CreatedAt = 0, px_UpdatedAt = 0, px_Name = xr_Name x, px_Description = [], px_HTTPProxy = [],
        px_HTTPSProxy = [], px_NoProxy = [], px_Username = [], px_Password = []\<rparr>))"

text \<open>What a runner is given: the credentials are written into the URLs (\<^verbatim>\<open>params.Proxy\<close>). \<open>with_user\<close> stands for setting the user
  information of a parsed URL and printing it.\<close>

definition composeProxyURL :: "url_parser \<Rightarrow> (string \<Rightarrow> string \<Rightarrow> string option \<Rightarrow> string) \<Rightarrow> Proxy \<Rightarrow> string \<Rightarrow> string" where
  "composeProxyURL parse with_user p proxyURL = (if proxyURL = [] \<or> px_Username p = [] then proxyURL
     else if parse proxyURL = None then proxyURL
     else with_user proxyURL (px_Username p) (if px_Password p = [] then None else Some (px_Password p)))"

definition Proxy_ProxyConfig :: "url_parser \<Rightarrow> (string \<Rightarrow> string \<Rightarrow> string option \<Rightarrow> string) \<Rightarrow> Proxy \<Rightarrow> string \<times> string \<times> string" where
  "Proxy_ProxyConfig parse with_user p = (composeProxyURL parse with_user p (px_HTTPProxy p), composeProxyURL parse with_user p (px_HTTPSProxy p), px_NoProxy p)"

end
