(* ===== verification/Garm_Service.thy ===== *)
theory Garm_Service
  imports Garm_Auth Garm_Workflow Garm_Provider Garm_Templates Garm_Files
begin

text \<open>
  The service (package \<^verbatim>\<open>runner\<close>: \<^verbatim>\<open>runner.go\<close>, \<^verbatim>\<open>repositories.go\<close>, \<^verbatim>\<open>organizations.go\<close>, \<^verbatim>\<open>enterprises.go\<close>, \<^verbatim>\<open>forge_instances.go\<close>, \<^verbatim>\<open>pools.go\<close>): it keeps one
  pool manager per entity, retries those that did not start, dispatches webhooks to them, and serves the requests of administrators and of
  runners. All managers share the store, the lock table and the world; the four maps of \<^verbatim>\<open>poolManagerCtrl\<close> are one list, keyed by the type and
  the ID of the entity. The service holds its mutex during each of these operations, or they are single statements of the store.

  \<open>service_env\<close> holds what lies outside the repository: the forge and the providers (\<open>env\<close>), the token library, HMAC, decoding of the webhook, which
  gives the event and the URL of the job. A second \<^verbatim>\<open>Stop\<close> of a manager would close a closed channel: it is an error here.
\<close>

subsection \<open>The state\<close>

record managed =
  mg_mgr :: basePoolManager
  mg_backoff :: instanceDeleteBackoff
  mg_cache :: cacheView
  mg_quit :: bool

type_synonym manager_key = "ForgeEntityType \<times> string"

record 'w service =
  sv_db :: db
  sv_locks :: keyMutex
  sv_lifecycle :: "(string \<times> string) list"
  sv_world :: 'w
  sv_consumers :: "string list"
  sv_managers :: "(manager_key \<times> managed) list"
  sv_failedEntities :: "(string \<times> ForgeEntityType) list"
  sv_retries :: Backoff
  sv_loaded :: "ForgeEntityType list"
  sv_running :: bool
  sv_files :: objects

text \<open>URLs as \<^verbatim>\<open>net/url\<close> parses them; \<open>ul_Resolve\<close> is the method \<^verbatim>\<open>Parse\<close> of a URL, which reads a reference relative to it.\<close>

record url =
  url_Scheme :: string
  url_Host :: string
  url_User :: bool
  url_Path :: string

record url_lib =
  ul_Parse :: "string \<Rightarrow> url option"
  ul_Resolve :: "url \<Rightarrow> string \<Rightarrow> url option"

record 'w service_env =
  se_env :: "'w env"
  se_auth :: auth_env
  se_cache :: "ForgeEntity \<Rightarrow> cacheView"
  se_NewScaleSetClient :: "('w, unit) prog"
  se_RemoveScaleSetRunner :: "int \<Rightarrow> ('w, unit) prog"
  se_UninstallWebhook :: "ForgeEntity \<Rightarrow> ('w, unit) prog"
  se_EnableWebhookManagement :: bool
  se_hmac :: "string \<Rightarrow> string \<Rightarrow> string \<Rightarrow> string"
  se_UnmarshalJob :: "string \<Rightarrow> (WorkflowJobHook \<times> string) option"
  se_draw :: "nat option"
  se_url :: url_lib
  se_PemDecode :: "string \<Rightarrow> string option"
  se_ParseCertificates :: "string \<Rightarrow> bool"
  se_ParsePKCS1 :: "string \<Rightarrow> bool"
  se_SanitizeCABundle :: "string \<Rightarrow> garm_error + string"
  se_GithubApp :: "string \<Rightarrow> int \<times> int \<times> string"
  se_validateReleasesURL :: "string \<Rightarrow> ('w, unit) prog"
  se_ParseTemplate :: "string \<Rightarrow> bool"
  se_userdata :: "string \<Rightarrow> string option"
  se_GetEntityRunnerGroupIDByName :: "string \<Rightarrow> ('w, int) prog"
  se_CreateRunnerScaleSet :: "string \<Rightarrow> int \<Rightarrow> (string \<times> string) list \<Rightarrow> bool \<Rightarrow> bool \<Rightarrow> ('w, int) prog"
  se_DeleteRunnerScaleSet :: "int \<Rightarrow> ('w, unit) prog"

definition sv_on_db :: "(db, 'a) prog \<Rightarrow> ('w service, 'a) prog" where
  "sv_on_db = m_lift sv_db (\<lambda>d s. s\<lparr>sv_db := d\<rparr>)"

definition sv_on_world :: "('w, 'a) prog \<Rightarrow> ('w service, 'a) prog" where
  "sv_on_world = m_lift sv_world (\<lambda>w s. s\<lparr>sv_world := w\<rparr>)"

definition set_manager :: "manager_key \<Rightarrow> managed \<Rightarrow> 'w service \<Rightarrow> 'w service" where
  "set_manager k g s = s\<lparr>sv_managers := AList.update k g (sv_managers s)\<rparr>"

text \<open>A call of a manager runs on the shared state together with the state of the manager.\<close>

definition manager_sys :: "managed \<Rightarrow> 'w service \<Rightarrow> 'w sys" where
  "manager_sys g s = \<lparr>sy_db = sv_db s, sy_mgr = mg_mgr g, sy_locks = sv_locks s, sy_backoff = mg_backoff g, sy_cache = mg_cache g,
     sy_lifecycle = sv_lifecycle s, sy_quit = mg_quit g, sy_world = sv_world s\<rparr>"

definition after_manager :: "manager_key \<Rightarrow> 'w sys \<Rightarrow> 'w service \<Rightarrow> 'w service" where
  "after_manager k y s = set_manager k \<lparr>mg_mgr = sy_mgr y, mg_backoff = sy_backoff y, mg_cache = sy_cache y, mg_quit = sy_quit y\<rparr>
     (s\<lparr>sv_db := sy_db y, sv_locks := sy_locks y, sv_lifecycle := sy_lifecycle y, sv_world := sy_world y\<rparr>)"

definition in_manager :: "manager_key \<Rightarrow> ('w sys, 'a) prog \<Rightarrow> ('w service, 'a) prog" where
  "in_manager k m s = (case map_of (sv_managers s) k of None \<Rightarrow> (Inl NotFoundError, s)
     | Some g \<Rightarrow> (case m (manager_sys g s) of (r, y) \<Rightarrow> (r, after_manager k y s)))"

subsection \<open>Pool managers\<close>

definition consumer_id :: "ForgeEntity \<Rightarrow> string" where
  "consumer_id entity = ''pool-manager-'' @ ForgeEntity_String entity @ ''-'' @ ep_Name (c_Endpoint (e_Credentials entity))"

text \<open>Registration at the watcher: an ID can be registered once.\<close>

definition register_consumer :: "string \<Rightarrow> ('w service, unit) prog" where
  "register_consumer c s = (if c \<in> set (sv_consumers s) then (Inl (OtherError ''consumer already registered''), s)
     else (Inr (), s\<lparr>sv_consumers := c # sv_consumers s\<rparr>))"

definition new_manager :: "'w service_env \<Rightarrow> ForgeEntity \<Rightarrow> ControllerInfo \<Rightarrow> managed" where
  "new_manager env entity info = \<lparr>mg_mgr = \<lparr>pm_consumerID = consumer_id entity, pm_entity = entity, pm_controllerInfo = info, pm_jobs = [],
       pm_jobTombstones = Map.empty, pm_checkedJobs = Map.empty, pm_tools = [], pm_scaleSetClient = (c_ForgeType (e_Credentials entity) = GithubEndpointType),
       pm_stubClient = False, pm_clientUpdateCh = False, pm_consumeJobsCh = False, pm_addPendingCh = False, pm_managerIsRunning = False,
       pm_managerErrorReason = [], pm_consumerClosed = False, pm_filters = composeWatcherFilters entity\<rparr>,
     mg_backoff = Map.empty, mg_cache = se_cache env entity, mg_quit = False\<rparr>"

definition NewEntityPoolManager :: "'w service_env \<Rightarrow> ForgeEntity \<Rightarrow> ('w service, managed) prog" where
  "NewEntityPoolManager env entity = m_seq (sv_on_world (env_Client (se_env env) entity))
     (if e_WebhookSecret entity = [] then m_throw (OtherError ''webhook secret is empty'')
      else m_bind (sv_on_db (ControllerInfo (se_auth env))) (\<lambda>info.
        m_seq (register_consumer (consumer_id entity))
          (m_seq (m_when (c_ForgeType (e_Credentials entity) = GithubEndpointType) (sv_on_world (se_NewScaleSetClient env)))
            (m_ret (new_manager env entity info)))))"

definition manager_key :: "ForgeEntity \<Rightarrow> manager_key" where
  "manager_key e = (e_EntityType e, e_ID e)"

definition CreatePoolManager :: "'w service_env \<Rightarrow> ForgeEntity \<Rightarrow> ('w service, unit) prog" where
  "CreatePoolManager env e = m_bind (m_result (entity_with_id e)) (\<lambda>entity.
     m_bind (NewEntityPoolManager env entity) (\<lambda>g. m_modify (set_manager (manager_key e) g)))"

definition GetPoolManager :: "ForgeEntity \<Rightarrow> ('w service, manager_key) prog" where
  "GetPoolManager e s = (if map_of (sv_managers s) (manager_key e) = None then (Inl NotFoundError, s) else (Inr (manager_key e), s))"

text \<open>\<^verbatim>\<open>Stop\<close> closes \<^verbatim>\<open>quit\<close>; the watcher goroutine then closes the consumer.\<close>

definition stop_manager :: "managed \<Rightarrow> 'w service \<Rightarrow> 'w service" where
  "stop_manager g s = s\<lparr>sv_consumers := removeAll (pm_consumerID (mg_mgr g)) (sv_consumers s)\<rparr>"

definition DeletePoolManager :: "ForgeEntity \<Rightarrow> ('w service, unit) prog" where
  "DeletePoolManager e s = (case map_of (sv_managers s) (manager_key e) of None \<Rightarrow> (Inr (), s)
     | Some g \<Rightarrow> if mg_quit g then (Inl (OtherError ''close of closed channel''), s)
       else (Inr (), (stop_manager g s)\<lparr>sv_managers := AList.delete (manager_key e) (sv_managers s)\<rparr>))"

text \<open>A start, with what its goroutines do before they begin their loops: the start itself gives no error.\<close>

definition load_queued :: "('w sys, unit) prog" where
  "load_queued = m_bind (get_mgr id) (\<lambda>r. m_bind (on_db (runWatcher_init r)) (\<lambda>r'. on_mgr (\<lambda>_. r')))"

definition start_manager :: "'w service_env \<Rightarrow> ForgeEntity \<Rightarrow> ('w service, unit) prog" where
  "start_manager env e = in_manager (manager_key e) (m_seq (m_ignore (Start_init (se_env env))) load_queued)"

subsection \<open>Loading and retrying\<close>

definition manager_failed :: "'w service_env \<Rightarrow> ForgeEntityType \<Rightarrow> string \<Rightarrow> ('w service, unit) prog" where
  "manager_failed env ty i = m_modify (\<lambda>s. s\<lparr>sv_failedEntities := AList.update i ty (sv_failedEntities s),
     sv_retries := Backoff_RecordFailure (se_draw env) i (db_clock (sv_db s)) (sv_retries s)\<rparr>)"

definition manager_settled :: "string \<Rightarrow> ('w service, unit) prog" where
  "manager_settled i = m_modify (\<lambda>s. s\<lparr>sv_failedEntities := AList.delete i (sv_failedEntities s), sv_retries := Backoff_RecordSuccess i (sv_retries s)\<rparr>)"

definition createAndStartPoolManager :: "'w service_env \<Rightarrow> ForgeEntity \<Rightarrow> ('w service, unit) prog" where
  "createAndStartPoolManager env e = m_bind (m_try (CreatePoolManager env e)) (\<lambda>r. case r of
     Inl _ \<Rightarrow> manager_failed env (e_EntityType e) (e_ID e)
   | Inr _ \<Rightarrow> m_bind (m_try (start_manager env e)) (\<lambda>r. case r of
         Inl _ \<Rightarrow> m_seq (m_ignore (DeletePoolManager e)) (manager_failed env (e_EntityType e) (e_ID e))
       | Inr _ \<Rightarrow> manager_settled (e_ID e)))"

definition entity_types :: "ForgeEntityType list" where
  "entity_types = [ForgeEntityTypeRepository, ForgeEntityTypeOrganization, ForgeEntityTypeEnterprise, ForgeEntityTypeInstance]"

definition list_of_type :: "ForgeEntityType \<Rightarrow> (db, ForgeEntity list) prog" where
  "list_of_type ty = (case ty of ForgeEntityTypeRepository \<Rightarrow> ListRepositories [] [] [] | ForgeEntityTypeOrganization \<Rightarrow> ListOrganizations [] []
     | ForgeEntityTypeEnterprise \<Rightarrow> ListEnterprises [] [] | ForgeEntityTypeInstance \<Rightarrow> ListForgeInstances [] | ForgeEntityTypeOther _ \<Rightarrow> m_ret [])"

definition load_type :: "'w service_env \<Rightarrow> (ForgeEntity \<Rightarrow> ('w service, unit) prog) \<Rightarrow> ForgeEntityType \<Rightarrow> ('w service, unit) prog" where
  "load_type env f ty = m_bind (m_try (sv_on_db (list_of_type ty))) (\<lambda>r. case r of Inl _ \<Rightarrow> m_ret ()
     | Inr es \<Rightarrow> m_seq (m_modify (\<lambda>s. s\<lparr>sv_loaded := ty # sv_loaded s\<rparr>)) (m_for f es))"

definition loadReposOrgsAndEnterprises :: "'w service_env \<Rightarrow> ('w service, unit) prog" where
  "loadReposOrgsAndEnterprises env = m_for (load_type env (createAndStartPoolManager env)) entity_types"

definition retryFailedEntity :: "'w service_env \<Rightarrow> string \<times> ForgeEntityType \<Rightarrow> ('w service, unit) prog" where
  "retryFailedEntity env = (\<lambda>(i, ty). if ty \<notin> set entity_types then m_ret ()
     else m_bind (m_try (sv_on_db (GetForgeEntity ty i))) (\<lambda>r. case r of
         Inl e \<Rightarrow> if error_is e NotFoundError then manager_settled i
           else m_modify (\<lambda>s. s\<lparr>sv_retries := Backoff_RecordFailure (se_draw env) i (db_clock (sv_db s)) (sv_retries s)\<rparr>)
       | Inr e \<Rightarrow> m_bind (m_try (DeletePoolManager e)) (\<lambda>r. case r of
             Inl _ \<Rightarrow> m_modify (\<lambda>s. s\<lparr>sv_retries := Backoff_RecordFailure (se_draw env) i (db_clock (sv_db s)) (sv_retries s)\<rparr>)
           | Inr _ \<Rightarrow> createAndStartPoolManager env e)))"

definition unless_managed :: "'w service_env \<Rightarrow> ForgeEntity \<Rightarrow> ('w service, unit) prog" where
  "unless_managed env e = m_bind (m_try (GetPoolManager e)) (\<lambda>r. case r of Inr _ \<Rightarrow> m_ret () | Inl _ \<Rightarrow> createAndStartPoolManager env e)"

definition retry_due :: "'w service_env \<Rightarrow> string \<times> ForgeEntityType \<Rightarrow> ('w service, unit) prog" where
  "retry_due env fe = m_bind (m_get (\<lambda>s. Backoff_ShouldRetry (fst fe) (db_clock (sv_db s)) (sv_retries s))) (\<lambda>due.
     m_when due (retryFailedEntity env fe))"

definition retryFailedPoolManagers :: "'w service_env \<Rightarrow> ('w service, unit) prog" where
  "retryFailedPoolManagers env = m_bind (m_get sv_running) (\<lambda>running. if \<not> running then m_ret () else m_seq
     (m_for (\<lambda>ty. m_bind (m_get (\<lambda>s. ty \<in> set (sv_loaded s))) (\<lambda>loaded. m_when (\<not> loaded) (load_type env (unless_managed env) ty))) entity_types)
     (m_bind (m_get sv_failedEntities) (m_for (retry_due env))))"

definition Runner_Start :: "('w service, unit) prog" where
  "Runner_Start = m_modify (\<lambda>s. s\<lparr>sv_running := True\<rparr>)"

definition stop_one :: "manager_key \<Rightarrow> ('w service, unit) prog" where
  "stop_one k s = (case map_of (sv_managers s) k of None \<Rightarrow> (Inr (), s)
     | Some g \<Rightarrow> if mg_quit g then (Inl (OtherError ''close of closed channel''), s)
       else (Inr (), set_manager k (g\<lparr>mg_quit := True\<rparr>) (stop_manager g s)))"

definition Runner_Stop :: "('w service, unit) prog" where
  "Runner_Stop = m_seq (m_modify (\<lambda>s. s\<lparr>sv_running := False\<rparr>)) (m_bind (m_get (\<lambda>s. map fst (sv_managers s))) (m_group stop_one))"

subsection \<open>Webhooks\<close>

fun split_first :: "char \<Rightarrow> string \<Rightarrow> (string \<times> string) option" where
  "split_first c [] = None"
| "split_first c (x # xs) = (if x = c then Some ([], xs) else map_option (\<lambda>(a, b). (x # a, b)) (split_first c xs))"

definition validateHookBody :: "'w service_env \<Rightarrow> string \<Rightarrow> string \<Rightarrow> string \<Rightarrow> garm_error option" where
  "validateHookBody env signature secret body = (if secret = [] then Some MissingSecretError
     else if signature = [] then Some UnauthorizedError
     else case split_first (CHR ''='') signature of None \<Rightarrow> Some BadRequestError
       | Some (alg, mac) \<Rightarrow> if alg \<noteq> ''sha256'' \<and> alg \<noteq> ''sha1'' then Some BadRequestError
           else if mac \<noteq> se_hmac env alg secret body then Some UnauthorizedError else None)"

definition findEndpointForJob :: "'w service_env \<Rightarrow> string \<Rightarrow> EndpointType \<Rightarrow> ('w service, ForgeEndpoint) prog" where
  "findEndpointForJob env htmlURL forgeType = (case ae_ParseRequestURI (se_auth env) htmlURL of None \<Rightarrow> m_throw (OtherError ''error parsing job URL'')
     | Some (sch, host) \<Rightarrow> let baseURI = sch @ ''://'' @ host in
       m_bind (case forgeType of GithubEndpointType \<Rightarrow> sv_on_db ListGithubEndpoints | GiteaEndpointType \<Rightarrow> sv_on_db ListGiteaEndpoints
           | AutoEndpointType \<Rightarrow> m_throw BadRequestError) (\<lambda>endpoints.
         m_result (option_or NotFoundError (List.find (\<lambda>ep. trim_suffix ''/'' (ep_BaseURL ep) = baseURI) endpoints))))"

definition find_pool_manager :: "(db, ForgeEntity) prog \<Rightarrow> ('w service, manager_key) prog" where
  "find_pool_manager lookup = m_bind (sv_on_db lookup) GetPoolManager"

definition findRepoPoolManager :: "string \<Rightarrow> string \<Rightarrow> string \<Rightarrow> ('w service, manager_key) prog" where
  "findRepoPoolManager own nm endpointName = find_pool_manager (GetRepository own nm endpointName)"
definition findOrgPoolManager :: "string \<Rightarrow> string \<Rightarrow> ('w service, manager_key) prog" where
  "findOrgPoolManager nm endpointName = find_pool_manager (GetOrganization nm endpointName)"
definition findEnterprisePoolManager :: "string \<Rightarrow> string \<Rightarrow> ('w service, manager_key) prog" where
  "findEnterprisePoolManager nm endpointName = find_pool_manager (GetEnterprise nm endpointName)"
definition findForgeInstancePoolManager :: "string \<Rightarrow> ('w service, manager_key) prog" where
  "findForgeInstancePoolManager endpointName = find_pool_manager (GetForgeInstance endpointName)"

definition hook_manager :: "string \<Rightarrow> EndpointType \<Rightarrow> WorkflowJobHook \<Rightarrow> ForgeEndpoint \<Rightarrow> ('w service, manager_key) prog" where
  "hook_manager hookTargetType forgeType job endpoint = (
     if hookTargetType = ''repository'' then findRepoPoolManager (h_RepoOwnerLogin job) (h_RepoName job) (ep_Name endpoint)
     else if hookTargetType = ''organization'' then findOrgPoolManager (GetOrgName job forgeType) (ep_Name endpoint)
     else if hookTargetType = ''business'' then findEnterprisePoolManager (h_EnterpriseSlug job) (ep_Name endpoint)
     else if hookTargetType = ''system'' then findForgeInstancePoolManager (ep_Name endpoint)
     else m_throw BadRequestError)"

definition WebhookSecret :: "('w sys, string) prog" where
  "WebhookSecret = get_mgr (\<lambda>r. e_WebhookSecret (pm_entity r))"

definition DispatchWorkflowJob :: "'w service_env \<Rightarrow> string \<Rightarrow> string \<Rightarrow> EndpointType \<Rightarrow> string \<Rightarrow> ('w service, unit) prog" where
  "DispatchWorkflowJob env hookTargetType signature forgeType jobData = (if jobData = [] then m_throw BadRequestError
     else case se_UnmarshalJob env jobData of None \<Rightarrow> m_throw BadRequestError
       | Some (job, htmlURL) \<Rightarrow> m_bind (findEndpointForJob env htmlURL forgeType) (\<lambda>endpoint.
           m_bind (hook_manager hookTargetType forgeType job endpoint) (\<lambda>k.
             m_bind (in_manager k WebhookSecret) (\<lambda>secret.
               case validateHookBody env signature secret jobData of Some e \<Rightarrow> m_throw e
                 | None \<Rightarrow> in_manager k (HandleWorkflowJob (se_env env) job)))))"

end
