(* ===== verification/Garm_Requests.thy ===== *)
theory Garm_Requests
  imports Garm_Service
begin

text \<open>
  The requests of administrators as the service serves them: entities with their pool managers, pools, scale sets, credentials, endpoints, templates,
  proxies, jobs and runners (package \<^verbatim>\<open>runner\<close>), with the validations of \<^verbatim>\<open>params/requests.go\<close>. Each function first checks that the caller is an administrator.
  A forge type or balancer type outside its enumeration does not exist in the model, so the checks for it have no branch.
\<close>

subsection \<open>Validation\<close>

definition CreateRepoParams_Validate :: "CreateEntityParams \<Rightarrow> garm_error option" where
  "CreateRepoParams_Validate c = (if cen_Owner c = [] then Some BadRequestError else if cen_Name c = [] then Some BadRequestError
     else if cen_CredentialsName c = [] then Some BadRequestError else if cen_WebhookSecret c = [] then Some MissingSecretError else None)"

definition CreateOrgParams_Validate :: "CreateEntityParams \<Rightarrow> garm_error option" where
  "CreateOrgParams_Validate c = (if cen_Name c = [] then Some BadRequestError
     else if cen_CredentialsName c = [] then Some BadRequestError else if cen_WebhookSecret c = [] then Some MissingSecretError else None)"

definition CreateEnterpriseParams_Validate :: "CreateEntityParams \<Rightarrow> garm_error option" where
  "CreateEnterpriseParams_Validate c = (if cen_Name c = [] then Some BadRequestError
     else if cen_CredentialsName c = [] then Some BadRequestError else if cen_WebhookSecret c = [] then Some MissingSecretError else None)"

definition CreateForgeInstanceParams_Validate :: "CreateEntityParams \<Rightarrow> garm_error option" where
  "CreateForgeInstanceParams_Validate c = (if cen_EndpointName c = [] then Some BadRequestError else if cen_CredentialsName c = [] then Some BadRequestError
     else if cen_WebhookSecret c = [] then Some BadRequestError else if \<not> SupportsInstancePools (cen_ForgeType c) then Some BadRequestError else None)"

text \<open>The URL of an endpoint. In the functions for new endpoints the variable \<^verbatim>\<open>url\<close> hides the package after the first URL, so that
  the later ones are read relative to the one before.\<close>

definition bad_url :: "url option \<Rightarrow> bool" where
  "bad_url u = (case u of None \<Rightarrow> True | Some x \<Rightarrow> url_Scheme x = [] \<or> url_Host x = [] \<or> url_Scheme x \<notin> {''https'', ''http''})"

definition bad_bundle :: "'w service_env \<Rightarrow> string \<Rightarrow> bool" where
  "bad_bundle env bundle = (bundle \<noteq> [] \<and> (case se_PemDecode env bundle of None \<Rightarrow> True | Some block \<Rightarrow> \<not> se_ParseCertificates env block))"

definition next_url :: "url_lib \<Rightarrow> url option \<Rightarrow> string \<Rightarrow> url option" where
  "next_url lib base ref = (case base of None \<Rightarrow> None | Some u \<Rightarrow> ul_Resolve lib u ref)"

definition CreateGithubEndpointParams_Validate :: "'w service_env \<Rightarrow> CreateEndpointParams \<Rightarrow> garm_error option" where
  "CreateGithubEndpointParams_Validate env c = (let api = ul_Parse (se_url env) (cep_APIBaseURL c);
       upload = next_url (se_url env) api (cep_UploadBaseURL c); base = next_url (se_url env) upload (cep_BaseURL c) in
     if cep_APIBaseURL c = [] \<or> bad_url api \<or> cep_UploadBaseURL c = [] \<or> bad_url upload \<or> cep_BaseURL c = [] \<or> bad_url base \<or>
       bad_bundle env (cep_CACertBundle c) then Some BadRequestError else None)"

definition CreateGiteaEndpointParams_Validate :: "'w service_env \<Rightarrow> CreateEndpointParams \<Rightarrow> garm_error option" where
  "CreateGiteaEndpointParams_Validate env c = (let api = ul_Parse (se_url env) (cep_APIBaseURL c);
       base = next_url (se_url env) api (cep_BaseURL c); tools = next_url (se_url env) base (cep_ToolsMetadataURL c) in
     if cep_APIBaseURL c = [] \<or> bad_url api \<or> cep_BaseURL c = [] \<or> bad_url base \<or> cep_ToolsMetadataURL c \<noteq> [] \<and> bad_url tools \<or>
       bad_bundle env (cep_CACertBundle c) then Some BadRequestError else None)"

definition bad_given_url :: "'w service_env \<Rightarrow> string option \<Rightarrow> bool" where
  "bad_given_url env u = (case u of None \<Rightarrow> False | Some x \<Rightarrow> bad_url (ul_Parse (se_url env) x))"

definition bad_given_bundle :: "'w service_env \<Rightarrow> string option \<Rightarrow> bool" where
  "bad_given_bundle env b = (case b of None \<Rightarrow> False | Some x \<Rightarrow> bad_bundle env x)"

definition UpdateGithubEndpointParams_Validate :: "'w service_env \<Rightarrow> UpdateEndpointParams \<Rightarrow> garm_error option" where
  "UpdateGithubEndpointParams_Validate env u = (if bad_given_url env (uep_APIBaseURL u) \<or> bad_given_url env (uep_UploadBaseURL u) \<or>
     bad_given_url env (uep_BaseURL u) \<or> bad_given_bundle env (uep_CACertBundle u) then Some BadRequestError else None)"

definition UpdateGiteaEndpointParams_Validate :: "'w service_env \<Rightarrow> UpdateEndpointParams \<Rightarrow> garm_error option" where
  "UpdateGiteaEndpointParams_Validate env u = (if bad_given_url env (uep_APIBaseURL u) \<or> bad_given_url env (uep_BaseURL u) \<or>
     bad_given_bundle env (uep_CACertBundle u) \<or>
     uep_ToolsMetadataURL u \<noteq> [] \<and> bad_url (ul_Parse (se_url env) (uep_ToolsMetadataURL u)) then Some BadRequestError else None)"

definition GithubApp_Validate :: "'w service_env \<Rightarrow> int \<times> int \<times> string \<Rightarrow> garm_error option" where
  "GithubApp_Validate env = (\<lambda>(appID, installationID, key). if appID = 0 then Some BadRequestError else if installationID = 0 then Some BadRequestError
     else if key = [] then Some BadRequestError
     else case se_PemDecode env key of None \<Rightarrow> Some BadRequestError
       | Some block \<Rightarrow> if se_ParsePKCS1 env block then None else Some (OtherError ''parsing private_key_path''))"

definition MaxReserveUsagePercentage :: int where "MaxReserveUsagePercentage = 50"

definition CreateGithubCredentialsParams_Validate :: "'w service_env \<Rightarrow> CreateCredentialsParams \<Rightarrow> garm_error option" where
  "CreateGithubCredentialsParams_Validate env c = (if ccp_Name c = [] then Some BadRequestError else if ccp_Endpoint c = [] then Some BadRequestError
     else if ccp_ReserveUsagePercentage c > MaxReserveUsagePercentage \<or> ccp_ReserveUsagePercentage c < 0 then Some BadRequestError
     else if ccp_AuthType c \<notin> {''pat'', ''app''} then Some BadRequestError
     else if ccp_AuthType c = ''pat'' \<and> ccp_PAT c = [] then Some BadRequestError
     else if ccp_AuthType c = ''app'' then GithubApp_Validate env (se_GithubApp env (ccp_App c)) else None)"

definition UpdateGithubCredentialsParams_Validate :: "'w service_env \<Rightarrow> UpdateCredentialsParams \<Rightarrow> garm_error option" where
  "UpdateGithubCredentialsParams_Validate env u = (if ucp_PAT u \<noteq> None \<and> ucp_App u \<noteq> None then Some BadRequestError
     else if ucp_PAT u = Some [] then Some BadRequestError
     else first_some [Option.bind (ucp_App u) (\<lambda>a. GithubApp_Validate env (se_GithubApp env a)),
       (case ucp_ReserveUsagePercentage u of None \<Rightarrow> None
        | Some p \<Rightarrow> if p > MaxReserveUsagePercentage \<or> p < 0 then Some BadRequestError else None)])"

definition CreateGiteaCredentialsParams_Validate :: "CreateCredentialsParams \<Rightarrow> garm_error option" where
  "CreateGiteaCredentialsParams_Validate c = (if ccp_Name c = [] then Some BadRequestError else if ccp_Endpoint c = [] then Some BadRequestError
     else if ccp_AuthType c \<noteq> ''pat'' then Some BadRequestError else if ccp_PAT c = [] then Some BadRequestError else None)"

definition UpdateGiteaCredentialsParams_Validate :: "UpdateCredentialsParams \<Rightarrow> garm_error option" where
  "UpdateGiteaCredentialsParams_Validate u = (if ucp_PAT u = Some [] then Some BadRequestError else None)"

definition validated :: "garm_error option \<Rightarrow> ('s, 'a) prog \<Rightarrow> ('s, 'a) prog" where
  "validated v m = (case v of Some e \<Rightarrow> m_throw e | None \<Rightarrow> m)"

text \<open>A store operation behind the check for an administrator.\<close>

definition admin_db :: "Context \<Rightarrow> (db, 'a) prog \<Rightarrow> ('w service, 'a) prog" where
  "admin_db ctx m = admin_only ctx (sv_on_db m)"

subsection \<open>Entities\<close>

text \<open>A new entity gets a manager. When that fails the function returns the zero value, which is what its deferred call sees: it
  deletes the entity with the empty ID.\<close>

definition create_managed :: "'w service_env \<Rightarrow> Context \<Rightarrow> garm_error option \<Rightarrow> (db, ForgeEntity) prog \<Rightarrow> (string \<Rightarrow> (db, unit) prog) \<Rightarrow> ('w service, ForgeEntity) prog" where
  "create_managed env ctx v add delete = admin_only ctx (validated v (m_bind (sv_on_db add) (\<lambda>e.
     m_bind (m_try (m_seq (CreatePoolManager env e)
         (m_bind (m_try (start_manager env e)) (\<lambda>r. case r of Inr _ \<Rightarrow> m_ret () | Inl err \<Rightarrow> m_seq (m_ignore (DeletePoolManager e)) (m_throw err))))) (\<lambda>r. case r of
       Inr _ \<Rightarrow> m_ret e
     | Inl err \<Rightarrow> m_seq (m_ignore (sv_on_db (delete []))) (m_throw err)))))"

definition Runner_CreateRepository :: "'w service_env \<Rightarrow> Context \<Rightarrow> CreateEntityParams \<Rightarrow> ('w service, ForgeEntity) prog" where
  "Runner_CreateRepository env ctx param = create_managed env ctx (CreateRepoParams_Validate param) (add_repository ctx param) DeleteRepository"
definition Runner_CreateOrganization :: "'w service_env \<Rightarrow> Context \<Rightarrow> CreateEntityParams \<Rightarrow> ('w service, ForgeEntity) prog" where
  "Runner_CreateOrganization env ctx param = create_managed env ctx (CreateOrgParams_Validate param) (add_organization ctx param) DeleteOrganization"
definition Runner_CreateEnterprise :: "'w service_env \<Rightarrow> Context \<Rightarrow> CreateEntityParams \<Rightarrow> ('w service, ForgeEntity) prog" where
  "Runner_CreateEnterprise env ctx param = create_managed env ctx (CreateEnterpriseParams_Validate param) (add_enterprise ctx param) DeleteEnterprise"
definition Runner_CreateForgeInstance :: "'w service_env \<Rightarrow> Context \<Rightarrow> CreateEntityParams \<Rightarrow> ('w service, ForgeEntity) prog" where
  "Runner_CreateForgeInstance env ctx param = create_managed env ctx (CreateForgeInstanceParams_Validate param) (add_forge_instance ctx param) DeleteForgeInstance"

definition Runner_ListRepositories :: "Context \<Rightarrow> string \<Rightarrow> string \<Rightarrow> string \<Rightarrow> ('w service, ForgeEntity list) prog" where
  "Runner_ListRepositories ctx own nm endpoint = admin_db ctx (ListRepositories own nm endpoint)"
definition Runner_ListOrganizations :: "Context \<Rightarrow> string \<Rightarrow> string \<Rightarrow> ('w service, ForgeEntity list) prog" where
  "Runner_ListOrganizations ctx nm endpoint = admin_db ctx (ListOrganizations nm endpoint)"
definition Runner_ListEnterprises :: "Context \<Rightarrow> string \<Rightarrow> string \<Rightarrow> ('w service, ForgeEntity list) prog" where
  "Runner_ListEnterprises ctx nm endpoint = admin_db ctx (ListEnterprises nm endpoint)"
definition Runner_ListForgeInstances :: "Context \<Rightarrow> string \<Rightarrow> ('w service, ForgeEntity list) prog" where
  "Runner_ListForgeInstances ctx endpoint = admin_db ctx (ListForgeInstances endpoint)"

definition Runner_GetRepositoryByID :: "Context \<Rightarrow> string \<Rightarrow> ('w service, ForgeEntity) prog" where
  "Runner_GetRepositoryByID ctx i = admin_db ctx (GetRepositoryByID i)"
definition Runner_GetOrganizationByID :: "Context \<Rightarrow> string \<Rightarrow> ('w service, ForgeEntity) prog" where
  "Runner_GetOrganizationByID ctx i = admin_db ctx (GetOrganizationByID i)"
definition Runner_GetEnterpriseByID :: "Context \<Rightarrow> string \<Rightarrow> ('w service, ForgeEntity) prog" where
  "Runner_GetEnterpriseByID ctx i = admin_db ctx (GetEnterpriseByID i)"
definition Runner_GetForgeInstanceByID :: "Context \<Rightarrow> string \<Rightarrow> ('w service, ForgeEntity) prog" where
  "Runner_GetForgeInstanceByID ctx i = admin_db ctx (GetForgeInstanceByID i)"

text \<open>An entity is deleted when it has neither pools nor scale sets. Its manager goes first.\<close>

definition delete_managed :: "'w service_env \<Rightarrow> Context \<Rightarrow> (db, ForgeEntity) prog \<Rightarrow> bool \<Rightarrow> bool \<Rightarrow> (db, unit) prog \<Rightarrow> ('w service, unit) prog" where
  "delete_managed env ctx get scaleSets webhook delete = admin_only ctx (m_bind (sv_on_db get) (\<lambda>e. m_bind (m_result (entity_with_id e)) (\<lambda>entity.
     m_bind (sv_on_db (ListEntityPools entity)) (\<lambda>pools. if pools \<noteq> [] then m_throw BadRequestError
       else m_seq (m_when scaleSets (m_bind (sv_on_db (ListEntityScaleSets entity)) (\<lambda>sets. if sets \<noteq> [] then m_throw BadRequestError else m_ret ())))
         (m_seq (m_when webhook (m_seq (GetPoolManager e) (m_ignore (sv_on_world (se_UninstallWebhook env e)))))
           (m_seq (DeletePoolManager e) (sv_on_db delete)))))))"

definition Runner_DeleteRepository :: "'w service_env \<Rightarrow> Context \<Rightarrow> string \<Rightarrow> bool \<Rightarrow> ('w service, unit) prog" where
  "Runner_DeleteRepository env ctx i keepWebhook =
     delete_managed env ctx (GetRepositoryByID i) True (\<not> keepWebhook \<and> se_EnableWebhookManagement env) (DeleteRepository i)"
definition Runner_DeleteOrganization :: "'w service_env \<Rightarrow> Context \<Rightarrow> string \<Rightarrow> bool \<Rightarrow> ('w service, unit) prog" where
  "Runner_DeleteOrganization env ctx i keepWebhook =
     delete_managed env ctx (GetOrganizationByID i) True (\<not> keepWebhook \<and> se_EnableWebhookManagement env) (DeleteOrganization i)"
definition Runner_DeleteEnterprise :: "'w service_env \<Rightarrow> Context \<Rightarrow> string \<Rightarrow> ('w service, unit) prog" where
  "Runner_DeleteEnterprise env ctx i = delete_managed env ctx (GetEnterpriseByID i) True False (DeleteEnterprise i)"
definition Runner_DeleteForgeInstance :: "'w service_env \<Rightarrow> Context \<Rightarrow> string \<Rightarrow> bool \<Rightarrow> ('w service, unit) prog" where
  "Runner_DeleteForgeInstance env ctx i keepWebhook =
     delete_managed env ctx (GetForgeInstanceByID i) False (\<not> keepWebhook \<and> se_EnableWebhookManagement env) (DeleteForgeInstance i)"

definition Runner_UpdateRepository :: "Context \<Rightarrow> string \<Rightarrow> UpdateEntityParams \<Rightarrow> ('w service, ForgeEntity) prog" where
  "Runner_UpdateRepository ctx i param = admin_db ctx (UpdateRepository ctx i param)"
definition Runner_UpdateOrganization :: "Context \<Rightarrow> string \<Rightarrow> UpdateEntityParams \<Rightarrow> ('w service, ForgeEntity) prog" where
  "Runner_UpdateOrganization ctx i param = admin_db ctx (UpdateOrganization ctx i param)"
definition Runner_UpdateEnterprise :: "Context \<Rightarrow> string \<Rightarrow> UpdateEntityParams \<Rightarrow> ('w service, ForgeEntity) prog" where
  "Runner_UpdateEnterprise ctx i param = admin_db ctx (UpdateEnterprise ctx i param)"
definition Runner_UpdateForgeInstance :: "Context \<Rightarrow> string \<Rightarrow> UpdateEntityParams \<Rightarrow> ('w service, ForgeEntity) prog" where
  "Runner_UpdateForgeInstance ctx i param = admin_db ctx (UpdateForgeInstance ctx i param)"

subsection \<open>Pools\<close>

definition findTemplate :: "Context \<Rightarrow> ForgeEntity \<Rightarrow> string \<Rightarrow> nat option \<Rightarrow> (db, Template) prog" where
  "findTemplate ctx entity osType templateID = (let forge = c_ForgeType (e_Credentials entity) in
     m_bind (case templateID of Some i \<Rightarrow> GetTemplate ctx i
       | None \<Rightarrow> m_bind (ListTemplates ctx (Some osType) (Some forge) None) (\<lambda>tpls.
           m_result (option_or BadRequestError (List.find (\<lambda>t. tpl_OSType t = osType \<and> tpl_ForgeType t = forge \<and> tpl_Owner t = SystemUser) tpls)))) (\<lambda>t.
       if tpl_ID t = 0 then m_throw BadRequestError
       else if tpl_OSType t \<noteq> osType then m_throw BadRequestError
       else if tpl_ForgeType t \<noteq> forge then m_throw BadRequestError else m_ret t))"

definition IsSupportedOSType :: "string \<Rightarrow> bool" where "IsSupportedOSType os \<longleftrightarrow> os \<in> {''linux'', ''windows''}"
definition IsSupportedArch :: "string \<Rightarrow> bool" where "IsSupportedArch arch \<longleftrightarrow> arch \<in> {''amd64'', ''arm'', ''arm64''}"

definition appendTagsToCreatePoolParams :: "'w service_env \<Rightarrow> CreatePoolParams \<Rightarrow> garm_error + CreatePoolParams" where
  "appendTagsToCreatePoolParams env param = (if CreatePoolParams_Validate param \<noteq> None then Inl BadRequestError
     else if \<not> IsSupportedOSType (cpp_OSType param) then Inl BadRequestError
     else if \<not> IsSupportedArch (cpp_OSArch param) then Inl BadRequestError
     else if env_providers (se_env env) (cpp_ProviderName param) = None then Inl BadRequestError else Inr param)"

text \<open>Only the pools of repositories get the default bootstrap timeout: the other functions set it on their argument after they have copied it.\<close>

definition create_pool :: "'w service_env \<Rightarrow> Context \<Rightarrow> ForgeEntityType \<Rightarrow> (CreatePoolParams \<Rightarrow> CreatePoolParams) \<Rightarrow> string \<Rightarrow> CreatePoolParams \<Rightarrow> ('w service, Pool) prog" where
  "create_pool env ctx ty with_timeout i param = admin_only ctx (m_bind (m_result (appendTagsToCreatePoolParams env param)) (\<lambda>createPoolParams.
     m_bind (sv_on_db (GetForgeEntity ty i)) (\<lambda>entity.
       m_bind (sv_on_db (findTemplate ctx entity (cpp_OSType param) (cpp_TemplateID param))) (\<lambda>template.
         sv_on_db (CreateEntityPool entity ((with_timeout createPoolParams)\<lparr>cpp_TemplateID := Some (tpl_ID template)\<rparr>))))))"

definition default_timeout :: "CreatePoolParams \<Rightarrow> CreatePoolParams" where
  "default_timeout p = (if cpp_RunnerBootstrapTimeout p = 0 then p\<lparr>cpp_RunnerBootstrapTimeout := DefaultRunnerBootstrapTimeout\<rparr> else p)"

definition CreateRepoPool :: "'w service_env \<Rightarrow> Context \<Rightarrow> string \<Rightarrow> CreatePoolParams \<Rightarrow> ('w service, Pool) prog" where
  "CreateRepoPool env ctx = create_pool env ctx ForgeEntityTypeRepository default_timeout"
definition CreateOrgPool :: "'w service_env \<Rightarrow> Context \<Rightarrow> string \<Rightarrow> CreatePoolParams \<Rightarrow> ('w service, Pool) prog" where
  "CreateOrgPool env ctx = create_pool env ctx ForgeEntityTypeOrganization id"
definition CreateEnterprisePool :: "'w service_env \<Rightarrow> Context \<Rightarrow> string \<Rightarrow> CreatePoolParams \<Rightarrow> ('w service, Pool) prog" where
  "CreateEnterprisePool env ctx = create_pool env ctx ForgeEntityTypeEnterprise id"
definition CreateForgeInstancePool :: "'w service_env \<Rightarrow> Context \<Rightarrow> string \<Rightarrow> CreatePoolParams \<Rightarrow> ('w service, Pool) prog" where
  "CreateForgeInstancePool env ctx = create_pool env ctx ForgeEntityTypeInstance id"

text \<open>The functions that only name an entity build it from its type and ID.\<close>

definition named_entity :: "ForgeEntityType \<Rightarrow> string \<Rightarrow> ForgeEntity" where
  "named_entity ty i = \<lparr>e_ID = i, e_Forge = zero_ForgeEndpoint, e_Owner = [], e_Name = [], e_EntityType = ty, e_Credentials = zero_ForgeCredentials,
     e_PoolBalancerType = PoolBalancerTypeNone, e_PoolManagerStatus = \<lparr>pms_IsRunning = False, pms_FailureReason = []\<rparr>, e_CreatedAt = 0, e_UpdatedAt = 0,
     e_AgentMode = False, e_WebhookSecret = []\<rparr>"

definition GetRepoPoolByID :: "Context \<Rightarrow> string \<Rightarrow> string \<Rightarrow> ('w service, Pool) prog" where
  "GetRepoPoolByID ctx i poolID = admin_db ctx (GetEntityPool (named_entity ForgeEntityTypeRepository i) poolID)"
definition GetOrgPoolByID :: "Context \<Rightarrow> string \<Rightarrow> string \<Rightarrow> ('w service, Pool) prog" where
  "GetOrgPoolByID ctx i poolID = admin_db ctx (GetEntityPool (named_entity ForgeEntityTypeOrganization i) poolID)"
definition GetEnterprisePoolByID :: "Context \<Rightarrow> string \<Rightarrow> string \<Rightarrow> ('w service, Pool) prog" where
  "GetEnterprisePoolByID ctx i poolID = admin_db ctx (GetEntityPool (named_entity ForgeEntityTypeEnterprise i) poolID)"
definition GetForgeInstancePoolByID :: "Context \<Rightarrow> string \<Rightarrow> string \<Rightarrow> ('w service, Pool) prog" where
  "GetForgeInstancePoolByID ctx i poolID = admin_db ctx (GetEntityPool (named_entity ForgeEntityTypeInstance i) poolID)"

text \<open>A pool with runners stays; that a pool is missing is an error, except for an organization.\<close>

definition delete_pool :: "ForgeEntity \<Rightarrow> string \<Rightarrow> (db, unit) prog" where
  "delete_pool entity poolID = m_bind (GetEntityPool entity poolID) (\<lambda>pool.
     if p_Instances pool \<noteq> [] then m_throw BadRequestError else DeleteEntityPool entity poolID)"

definition DeleteRepoPool :: "Context \<Rightarrow> string \<Rightarrow> string \<Rightarrow> ('w service, unit) prog" where
  "DeleteRepoPool ctx i poolID = admin_db ctx (delete_pool (named_entity ForgeEntityTypeRepository i) poolID)"
definition DeleteOrgPool :: "Context \<Rightarrow> string \<Rightarrow> string \<Rightarrow> ('w service, unit) prog" where
  "DeleteOrgPool ctx i poolID = (let entity = named_entity ForgeEntityTypeOrganization i in admin_db ctx (m_bind (m_try (GetEntityPool entity poolID)) (\<lambda>r. case r of
     Inl e \<Rightarrow> if error_is e NotFoundError then m_ret () else m_throw e
   | Inr pool \<Rightarrow> if p_Instances pool \<noteq> [] then m_throw BadRequestError else DeleteEntityPool entity poolID)))"
definition DeleteEnterprisePool :: "Context \<Rightarrow> string \<Rightarrow> string \<Rightarrow> ('w service, unit) prog" where
  "DeleteEnterprisePool ctx i poolID = admin_db ctx (delete_pool (named_entity ForgeEntityTypeEnterprise i) poolID)"
definition DeleteForgeInstancePool :: "Context \<Rightarrow> string \<Rightarrow> string \<Rightarrow> ('w service, unit) prog" where
  "DeleteForgeInstancePool ctx i poolID = admin_db ctx (delete_pool (named_entity ForgeEntityTypeInstance i) poolID)"

definition ListRepoPools :: "Context \<Rightarrow> string \<Rightarrow> ('w service, Pool list) prog" where
  "ListRepoPools ctx i = admin_db ctx (ListEntityPools (named_entity ForgeEntityTypeRepository i))"
definition ListOrgPools :: "Context \<Rightarrow> string \<Rightarrow> ('w service, Pool list) prog" where
  "ListOrgPools ctx i = admin_db ctx (ListEntityPools (named_entity ForgeEntityTypeOrganization i))"
definition ListEnterprisePools :: "Context \<Rightarrow> string \<Rightarrow> ('w service, Pool list) prog" where
  "ListEnterprisePools ctx i = admin_db ctx (ListEntityPools (named_entity ForgeEntityTypeEnterprise i))"
definition ListForgeInstancePools :: "Context \<Rightarrow> string \<Rightarrow> ('w service, Pool list) prog" where
  "ListForgeInstancePools ctx i = admin_db ctx (ListEntityPools (named_entity ForgeEntityTypeInstance i))"

definition ListRepoInstances :: "Context \<Rightarrow> string \<Rightarrow> ('w service, Instance list) prog" where
  "ListRepoInstances ctx i = admin_db ctx (ListEntityInstances (named_entity ForgeEntityTypeRepository i))"
definition ListOrgInstances :: "Context \<Rightarrow> string \<Rightarrow> ('w service, Instance list) prog" where
  "ListOrgInstances ctx i = admin_db ctx (ListEntityInstances (named_entity ForgeEntityTypeOrganization i))"
definition ListEnterpriseInstances :: "Context \<Rightarrow> string \<Rightarrow> ('w service, Instance list) prog" where
  "ListEnterpriseInstances ctx i = admin_db ctx (ListEntityInstances (named_entity ForgeEntityTypeEnterprise i))"
definition ListForgeInstanceInstances :: "Context \<Rightarrow> string \<Rightarrow> ('w service, Instance list) prog" where
  "ListForgeInstanceInstances ctx i = admin_db ctx (ListEntityInstances (named_entity ForgeEntityTypeInstance i))"

definition limits_ok :: "UpdatePoolParams \<Rightarrow> Pool \<Rightarrow> bool" where
  "limits_ok param pool \<longleftrightarrow> override (upp_MinIdleRunners param) (p_MinIdleRunners pool) \<le> override (upp_MaxRunners param) (p_MaxRunners pool)"

text \<open>A template given for a pool has to fit its operating system. For the pools of a repository that is the system the pool will have; the
  other functions compare with the system in the request, which is empty when it does not change.\<close>

definition check_pool_template :: "Context \<Rightarrow> ForgeEntity \<Rightarrow> string \<Rightarrow> nat option \<Rightarrow> (db, unit) prog" where
  "check_pool_template ctx entity osType templateID = (case templateID of None \<Rightarrow> m_ret ()
     | Some i \<Rightarrow> m_bind (findTemplate ctx entity osType (Some i)) (\<lambda>_. m_ret ()))"

definition UpdateRepoPool :: "Context \<Rightarrow> string \<Rightarrow> string \<Rightarrow> UpdatePoolParams \<Rightarrow> ('w service, Pool) prog" where
  "UpdateRepoPool ctx i poolID param = admin_db ctx (m_bind (GetForgeEntity ForgeEntityTypeRepository i) (\<lambda>entity.
     m_bind (GetEntityPool entity poolID) (\<lambda>pool.
       m_seq (check_pool_template ctx entity (if upp_OSType param = [] then p_OSType pool else upp_OSType param) (upp_TemplateID param))
         (if \<not> limits_ok param pool then m_throw BadRequestError else UpdateEntityPool entity poolID param))))"

definition update_pool :: "Context \<Rightarrow> ForgeEntityType \<Rightarrow> string \<Rightarrow> string \<Rightarrow> UpdatePoolParams \<Rightarrow> (db, Pool) prog" where
  "update_pool ctx ty i poolID param = m_bind (GetForgeEntity ty i) (\<lambda>entity.
     m_seq (check_pool_template ctx entity (upp_OSType param) (upp_TemplateID param))
       (m_bind (GetEntityPool entity poolID) (\<lambda>pool.
         if \<not> limits_ok param pool then m_throw BadRequestError else UpdateEntityPool entity poolID param)))"

definition UpdateOrgPool :: "Context \<Rightarrow> string \<Rightarrow> string \<Rightarrow> UpdatePoolParams \<Rightarrow> ('w service, Pool) prog" where
  "UpdateOrgPool ctx i poolID param = admin_db ctx (update_pool ctx ForgeEntityTypeOrganization i poolID param)"
definition UpdateEnterprisePool :: "Context \<Rightarrow> string \<Rightarrow> string \<Rightarrow> UpdatePoolParams \<Rightarrow> ('w service, Pool) prog" where
  "UpdateEnterprisePool ctx i poolID param = admin_db ctx (update_pool ctx ForgeEntityTypeEnterprise i poolID param)"
definition UpdateForgeInstancePool :: "Context \<Rightarrow> string \<Rightarrow> string \<Rightarrow> UpdatePoolParams \<Rightarrow> ('w service, Pool) prog" where
  "UpdateForgeInstancePool ctx i poolID param = admin_db ctx (update_pool ctx ForgeEntityTypeInstance i poolID param)"

definition Runner_ListAllPools :: "Context \<Rightarrow> ('w service, Pool list) prog" where
  "Runner_ListAllPools ctx = admin_db ctx ListAllPools"
definition Runner_GetPoolByID :: "Context \<Rightarrow> string \<Rightarrow> ('w service, Pool) prog" where
  "Runner_GetPoolByID ctx poolID = admin_db ctx (GetPoolByID poolID)"

definition Runner_DeletePoolByID :: "Context \<Rightarrow> string \<Rightarrow> ('w service, unit) prog" where
  "Runner_DeletePoolByID ctx poolID = admin_db ctx (m_bind (m_try (GetPoolByID poolID)) (\<lambda>r. case r of
     Inl e \<Rightarrow> if error_is e NotFoundError then m_ret () else m_throw e
   | Inr pool \<Rightarrow> if p_Instances pool \<noteq> [] then m_throw BadRequestError else DeletePoolByID poolID))"

definition Runner_UpdatePoolByID :: "Context \<Rightarrow> string \<Rightarrow> UpdatePoolParams \<Rightarrow> ('w service, Pool) prog" where
  "Runner_UpdatePoolByID ctx poolID param = admin_db ctx (m_bind (GetPoolByID poolID) (\<lambda>pool.
     if upp_RunnerBootstrapTimeout param = Some 0 then m_throw BadRequestError
     else if \<not> limits_ok param pool then m_throw BadRequestError
     else m_bind (m_result (Pool_GetEntity pool)) (\<lambda>(ty, i). UpdateEntityPool (named_entity ty i) poolID param)))"

definition Runner_ListAllJobs :: "Context \<Rightarrow> ('w service, Job list) prog" where
  "Runner_ListAllJobs ctx = admin_db ctx ListAllJobs"
definition Runner_ListJobs :: "Context \<Rightarrow> ListJobsFilter \<Rightarrow> ('w service, JobsPaginatedResponse) prog" where
  "Runner_ListJobs ctx f = admin_db ctx (ListJobs f)"
definition Runner_ListPoolInstances :: "Context \<Rightarrow> string \<Rightarrow> bool \<Rightarrow> ('w service, Instance list) prog" where
  "Runner_ListPoolInstances ctx poolID outdatedOnly = admin_db ctx (ListPoolInstances poolID outdatedOnly)"

subsection \<open>Credentials, endpoints, controller\<close>

definition Runner_CreateGithubCredentials :: "'w service_env \<Rightarrow> Context \<Rightarrow> CreateCredentialsParams \<Rightarrow> ('w service, ForgeCredentials) prog" where
  "Runner_CreateGithubCredentials env ctx param = admin_only ctx (validated (CreateGithubCredentialsParams_Validate env param) (sv_on_db (CreateGithubCredentials ctx param)))"
definition Runner_UpdateGithubCredentials :: "'w service_env \<Rightarrow> Context \<Rightarrow> nat \<Rightarrow> UpdateCredentialsParams \<Rightarrow> ('w service, ForgeCredentials) prog" where
  "Runner_UpdateGithubCredentials env ctx i param = admin_only ctx (validated (UpdateGithubCredentialsParams_Validate env param) (sv_on_db (UpdateGithubCredentials ctx i param)))"
definition Runner_DeleteGithubCredentials :: "Context \<Rightarrow> nat \<Rightarrow> ('w service, unit) prog" where
  "Runner_DeleteGithubCredentials ctx i = admin_db ctx (DeleteGithubCredentials ctx i)"
definition Runner_CreateGiteaCredentials :: "Context \<Rightarrow> CreateCredentialsParams \<Rightarrow> ('w service, ForgeCredentials) prog" where
  "Runner_CreateGiteaCredentials ctx param = admin_only ctx (validated (CreateGiteaCredentialsParams_Validate param) (sv_on_db (CreateGiteaCredentials ctx param)))"
definition Runner_UpdateGiteaCredentials :: "Context \<Rightarrow> nat \<Rightarrow> UpdateCredentialsParams \<Rightarrow> ('w service, ForgeCredentials) prog" where
  "Runner_UpdateGiteaCredentials ctx i param = admin_only ctx (validated (UpdateGiteaCredentialsParams_Validate param) (sv_on_db (UpdateGiteaCredentials ctx i param)))"
definition Runner_DeleteGiteaCredentials :: "Context \<Rightarrow> nat \<Rightarrow> ('w service, unit) prog" where
  "Runner_DeleteGiteaCredentials ctx i = admin_db ctx (DeleteGiteaCredentials ctx i)"
definition Runner_GetGiteaCredentials :: "Context \<Rightarrow> nat \<Rightarrow> ('w service, ForgeCredentials) prog" where
  "Runner_GetGiteaCredentials ctx i = admin_db ctx (GetGiteaCredentials ctx i)"
definition Runner_ListGiteaCredentials :: "Context \<Rightarrow> ('w service, ForgeCredentials list) prog" where
  "Runner_ListGiteaCredentials ctx = admin_db ctx (ListGiteaCredentials ctx)"

text \<open>A bundle of certificates is put in order before it is checked and stored.\<close>

definition sanitized_bundle :: "'w service_env \<Rightarrow> string \<Rightarrow> garm_error + string" where
  "sanitized_bundle env bundle = (if bundle = [] then Inr [] else se_SanitizeCABundle env bundle)"

definition sanitized_endpoint :: "'w service_env \<Rightarrow> CreateEndpointParams \<Rightarrow> garm_error + CreateEndpointParams" where
  "sanitized_endpoint env param = map_sum id (\<lambda>b. param\<lparr>cep_CACertBundle := b\<rparr>) (sanitized_bundle env (cep_CACertBundle param))"

definition sanitized_update :: "'w service_env \<Rightarrow> UpdateEndpointParams \<Rightarrow> garm_error + UpdateEndpointParams" where
  "sanitized_update env param = (case uep_CACertBundle param of None \<Rightarrow> Inr param
     | Some b \<Rightarrow> map_sum id (\<lambda>b'. param\<lparr>uep_CACertBundle := Some b'\<rparr>) (sanitized_bundle env b))"

definition Runner_CreateGithubEndpoint :: "'w service_env \<Rightarrow> Context \<Rightarrow> CreateEndpointParams \<Rightarrow> ('w service, ForgeEndpoint) prog" where
  "Runner_CreateGithubEndpoint env ctx param = admin_only ctx (m_bind (m_result (sanitized_endpoint env param)) (\<lambda>p.
     validated (CreateGithubEndpointParams_Validate env p) (sv_on_db (CreateGithubEndpoint p))))"
definition Runner_UpdateGithubEndpoint :: "'w service_env \<Rightarrow> Context \<Rightarrow> string \<Rightarrow> UpdateEndpointParams \<Rightarrow> ('w service, ForgeEndpoint) prog" where
  "Runner_UpdateGithubEndpoint env ctx name param = admin_only ctx (m_bind (m_result (sanitized_update env param)) (\<lambda>p.
     validated (UpdateGithubEndpointParams_Validate env p) (sv_on_db (UpdateGithubEndpoint name p))))"
definition Runner_GetGithubEndpoint :: "Context \<Rightarrow> string \<Rightarrow> ('w service, ForgeEndpoint) prog" where
  "Runner_GetGithubEndpoint ctx name = admin_db ctx (GetGithubEndpoint name)"
definition Runner_DeleteGithubEndpoint :: "Context \<Rightarrow> string \<Rightarrow> ('w service, unit) prog" where
  "Runner_DeleteGithubEndpoint ctx name = admin_db ctx (DeleteGithubEndpoint name)"
definition Runner_ListGithubEndpoints :: "Context \<Rightarrow> ('w service, ForgeEndpoint list) prog" where
  "Runner_ListGithubEndpoints ctx = admin_db ctx ListGithubEndpoints"
definition Runner_CreateGiteaEndpoint :: "'w service_env \<Rightarrow> Context \<Rightarrow> CreateEndpointParams \<Rightarrow> ('w service, ForgeEndpoint) prog" where
  "Runner_CreateGiteaEndpoint env ctx param = admin_only ctx (m_bind (m_result (sanitized_endpoint env param)) (\<lambda>p.
     validated (CreateGiteaEndpointParams_Validate env p) (sv_on_db (CreateGiteaEndpoint p))))"
definition Runner_UpdateGiteaEndpoint :: "'w service_env \<Rightarrow> Context \<Rightarrow> string \<Rightarrow> UpdateEndpointParams \<Rightarrow> ('w service, ForgeEndpoint) prog" where
  "Runner_UpdateGiteaEndpoint env ctx name param = admin_only ctx (m_bind (m_result (sanitized_update env param)) (\<lambda>p.
     validated (UpdateGiteaEndpointParams_Validate env p) (sv_on_db (UpdateGiteaEndpoint name p))))"
definition Runner_GetGiteaEndpoint :: "Context \<Rightarrow> string \<Rightarrow> ('w service, ForgeEndpoint) prog" where
  "Runner_GetGiteaEndpoint ctx name = admin_db ctx (GetGiteaEndpoint name)"
definition Runner_DeleteGiteaEndpoint :: "Context \<Rightarrow> string \<Rightarrow> ('w service, unit) prog" where
  "Runner_DeleteGiteaEndpoint ctx name = admin_db ctx (DeleteGiteaEndpoint name)"
definition Runner_ListGiteaEndpoints :: "Context \<Rightarrow> ('w service, ForgeEndpoint list) prog" where
  "Runner_ListGiteaEndpoints ctx = admin_db ctx ListGiteaEndpoints"

definition Runner_UpdateController :: "'w service_env \<Rightarrow> Context \<Rightarrow> UpdateControllerParams \<Rightarrow> ('w service, ControllerInfo) prog" where
  "Runner_UpdateController env ctx param = admin_only ctx (validated (UpdateControllerParams_Validate (se_auth env) param)
     (m_bind (m_result (sanitized_bundle env (ucr_CACertBundle param))) (\<lambda>bundle.
       m_seq (case ucr_GARMAgentReleasesURL param of None \<Rightarrow> m_ret ()
           | Some u \<Rightarrow> m_when (u \<noteq> []) (sv_on_world (se_validateReleasesURL env u)))
         (sv_on_db (UpdateController (se_auth env) (param\<lparr>ucr_CACertBundle := bundle\<rparr>))))))"

definition ForceToolsSync :: "'w service_env \<Rightarrow> Context \<Rightarrow> ('w service, ControllerInfo) prog" where
  "ForceToolsSync env ctx = admin_only ctx (m_bind (sv_on_db (ControllerInfo (se_auth env))) (\<lambda>info.
     if \<not> ci_SyncGARMAgentTools info then m_throw ConflictError
     else m_seq (sv_on_db (UpdateCachedGARMAgentReleases (se_auth env) [] 0)) (sv_on_db (ControllerInfo (se_auth env)))))"

subsection \<open>Templates and proxies\<close>

definition Runner_CreateTemplate :: "'w service_env \<Rightarrow> Context \<Rightarrow> CreateTemplateParams \<Rightarrow> ('w service, Template) prog" where
  "Runner_CreateTemplate env ctx param = admin_only ctx (if CreateTemplateParams_Validate param \<noteq> None then m_throw BadRequestError
     else validated (ValidateTemplate (se_ParseTemplate env) (ctp_Data param)) (sv_on_db (CreateTemplate ctx param)))"
definition Runner_GetTemplate :: "Context \<Rightarrow> nat \<Rightarrow> ('w service, Template) prog" where
  "Runner_GetTemplate ctx i = admin_db ctx (GetTemplate ctx i)"
definition Runner_GetTemplateByName :: "Context \<Rightarrow> string \<Rightarrow> ('w service, Template) prog" where
  "Runner_GetTemplateByName ctx name = admin_db ctx (GetTemplateByName ctx name)"
definition Runner_ListTemplates :: "Context \<Rightarrow> string option \<Rightarrow> EndpointType option \<Rightarrow> string option \<Rightarrow> ('w service, Template list) prog" where
  "Runner_ListTemplates ctx osType forgeType partialName = admin_db ctx (ListTemplates ctx osType forgeType partialName)"
definition Runner_UpdateTemplate :: "'w service_env \<Rightarrow> Context \<Rightarrow> nat \<Rightarrow> UpdateTemplateParams \<Rightarrow> ('w service, Template) prog" where
  "Runner_UpdateTemplate env ctx i param = admin_only ctx (if UpdateTemplateParams_Validate param \<noteq> None then m_throw BadRequestError
     else validated (if utp_Data param = [] then None else ValidateTemplate (se_ParseTemplate env) (utp_Data param)) (sv_on_db (UpdateTemplate ctx i param)))"
definition Runner_DeleteTemplate :: "Context \<Rightarrow> nat \<Rightarrow> ('w service, unit) prog" where
  "Runner_DeleteTemplate ctx i = admin_db ctx (m_bind (m_try (DeleteTemplate ctx i)) (\<lambda>r. case r of
     Inl e \<Rightarrow> if error_is e NotFoundError then m_ret () else m_throw e | Inr _ \<Rightarrow> m_ret ()))"

text \<open>The templates of the system get the content that comes with the program, and are created where there is none.\<close>

definition restore_template :: "'w service_env \<Rightarrow> Context \<Rightarrow> string \<times> EndpointType \<Rightarrow> ('w service, unit) prog" where
  "restore_template env ctx = (\<lambda>(os, forge). m_bind (m_result (GetTemplateContent (se_userdata env) os forge)) (\<lambda>content.
     m_bind (Runner_ListTemplates ctx (Some os) (Some forge) None) (\<lambda>existing.
       let name = endpoint_string forge @ ''_'' @ os in
       case List.find (\<lambda>t. tpl_Owner t = SystemUser \<or> tpl_Owner t = []) existing of
         Some t \<Rightarrow> m_bind (Runner_UpdateTemplate env ctx (tpl_ID t)
             \<lparr>utp_Name = (if tpl_Name t \<noteq> name then Some name else None), utp_Description = None, utp_Data = content\<rparr>) (\<lambda>_. m_ret ())
       | None \<Rightarrow> m_bind (Runner_CreateTemplate env ctx \<lparr>ctp_Name = name,
             ctp_Description = ''Default template for '' @ endpoint_string forge @ '' runners on '' @ os,
             ctp_Data = content, ctp_OSType = os, ctp_ForgeType = forge, ctp_IsSystem = True\<rparr>) (\<lambda>_. m_ret ()))))"

definition RestoreTemplate :: "'w service_env \<Rightarrow> Context \<Rightarrow> EndpointType \<Rightarrow> string \<Rightarrow> bool \<Rightarrow> ('w service, unit) prog" where
  "RestoreTemplate env ctx forge osType restoreAll = admin_only ctx (m_for (restore_template env ctx)
     (if restoreAll then [(os, f). os \<leftarrow> [''linux'', ''windows''], f \<leftarrow> [GiteaEndpointType, GithubEndpointType]] else [(osType, forge)]))"

definition proxy_parser :: "'w service_env \<Rightarrow> url_parser" where
  "proxy_parser env u = map_option (\<lambda>x. (url_Scheme x, url_Host x, url_User x)) (ul_Parse (se_url env) u)"

definition Runner_CreateProxy :: "'w service_env \<Rightarrow> Context \<Rightarrow> CreateProxyParams \<Rightarrow> ('w service, Proxy) prog" where
  "Runner_CreateProxy env ctx param = admin_only ctx (validated (CreateProxyParams_Validate (proxy_parser env) param) (sv_on_db (CreateProxy (proxy_parser env) param)))"
definition Runner_GetProxy :: "Context \<Rightarrow> nat \<Rightarrow> ('w service, Proxy) prog" where
  "Runner_GetProxy ctx i = admin_db ctx (GetProxy i)"
definition Runner_GetProxyByName :: "Context \<Rightarrow> string \<Rightarrow> ('w service, Proxy) prog" where
  "Runner_GetProxyByName ctx name = admin_db ctx (GetProxyByName name)"
definition Runner_ListProxies :: "Context \<Rightarrow> ('w service, Proxy list) prog" where
  "Runner_ListProxies ctx = admin_db ctx ListProxies"
definition Runner_UpdateProxy :: "'w service_env \<Rightarrow> Context \<Rightarrow> nat \<Rightarrow> UpdateProxyParams \<Rightarrow> ('w service, Proxy) prog" where
  "Runner_UpdateProxy env ctx i param = admin_only ctx (validated (UpdateProxyParams_Validate (proxy_parser env) param) (sv_on_db (UpdateProxy (proxy_parser env) i param)))"
definition Runner_DeleteProxy :: "Context \<Rightarrow> nat \<Rightarrow> ('w service, unit) prog" where
  "Runner_DeleteProxy ctx i = admin_db ctx (m_bind (m_try (DeleteProxy i)) (\<lambda>r. case r of
     Inl e \<Rightarrow> if error_is e NotFoundError then m_ret () else m_throw e | Inr _ \<Rightarrow> m_ret ()))"

subsection \<open>Runners\<close>

definition Runner_GetInstance :: "Context \<Rightarrow> string \<Rightarrow> ('w service, Instance) prog" where
  "Runner_GetInstance ctx instanceName = admin_db ctx (GetInstance instanceName)"
definition Runner_ListAllInstances :: "Context \<Rightarrow> ('w service, Instance list) prog" where
  "Runner_ListAllInstances ctx = admin_db ctx ListAllInstances"

definition getPoolManagerFromInstance :: "Instance \<Rightarrow> ('w service, manager_key) prog" where
  "getPoolManagerFromInstance inst = m_bind (sv_on_db (GetPoolByID (i_PoolID inst))) (\<lambda>pool.
     if p_RepoID pool \<noteq> [] then m_bind (sv_on_db (GetRepositoryByID (p_RepoID pool))) (\<lambda>repo. findRepoPoolManager (e_Owner repo) (e_Name repo) (ep_Name (e_Forge repo)))
     else if p_OrgID pool \<noteq> [] then m_bind (sv_on_db (GetOrganizationByID (p_OrgID pool))) (\<lambda>org. findOrgPoolManager (e_Owner org) (ep_Name (e_Forge org)))
     else if p_EnterpriseID pool \<noteq> [] then m_bind (sv_on_db (GetEnterpriseByID (p_EnterpriseID pool))) (\<lambda>ent. findEnterprisePoolManager (e_Owner ent) (ep_Name (e_Forge ent)))
     else if p_ForgeInstanceID pool \<noteq> [] then findForgeInstancePoolManager (p_Endpoint pool)
     else m_throw (OtherError ''pool has no associated entity''))"

definition getGHCliFromInstance :: "'w service_env \<Rightarrow> Instance \<Rightarrow> ('w service, ForgeEntity) prog" where
  "getGHCliFromInstance env inst = m_bind (sv_on_db (
       if i_PoolID inst \<noteq> [] then m_bind (GetPoolByID (i_PoolID inst)) (\<lambda>p. m_result (Pool_GetEntity p))
       else if i_ScaleSetID inst \<noteq> 0 then m_bind (GetScaleSetByID (i_ScaleSetID inst)) (\<lambda>s. m_result (ScaleSet_GetEntity s))
       else m_throw (OtherError ''instance does not have a pool or scale set''))) (\<lambda>(ty, i).
     m_bind (sv_on_db (GetForgeEntity ty i)) (\<lambda>entity.
       m_seq (sv_on_world (env_Client (se_env env) entity)) (m_seq (sv_on_world (se_NewScaleSetClient env)) (m_ret entity))))"

text \<open>The runner is taken off the forge first. When the forge answers that the token is not accepted, the pool manager is marked as not
  running; the reason it is given holds the error of the lookup of the manager, which is \<^verbatim>\<open>nil\<close> there.\<close>

definition removable :: "InstanceStatus \<Rightarrow> bool" where
  "removable st \<longleftrightarrow> st \<in> {InstanceRunning, InstanceError, InstancePendingForceDelete, InstancePendingDelete}"

definition remove_from_forge :: "'w service_env \<Rightarrow> Instance \<Rightarrow> bool \<Rightarrow> ('w service, unit) prog" where
  "remove_from_forge env inst bypass = m_bind (m_try (sv_on_world (
       if i_ScaleSetID inst \<noteq> 0 then se_RemoveScaleSetRunner env (i_AgentID inst)
       else if i_PoolID inst \<noteq> [] then env_RemoveEntityRunner (se_env env) (i_AgentID inst)
       else m_throw (OtherError ''instance does not have a pool or scale set'')))) (\<lambda>r. case r of
     Inr _ \<Rightarrow> m_ret ()
   | Inl e \<Rightarrow> if i_ScaleSetID inst = 0 \<and> i_PoolID inst = [] then m_throw e
       else if error_is e NotFoundError then m_ret ()
       else m_seq (m_when (error_is e UnauthorizedError \<and> i_PoolID inst \<noteq> [])
           (m_bind (getPoolManagerFromInstance inst) (\<lambda>k. in_manager k (SetPoolRunningState False ''failed to remove runner: %!q(<nil>)''))))
         (if bypass then m_ret () else m_throw e))"

definition Runner_DeleteRunner :: "'w service_env \<Rightarrow> Context \<Rightarrow> string \<Rightarrow> bool \<Rightarrow> bool \<Rightarrow> ('w service, unit) prog" where
  "Runner_DeleteRunner env ctx instanceName forceDelete bypass = admin_only ctx (m_bind (sv_on_db (GetInstance instanceName)) (\<lambda>inst.
     if \<not> removable (i_Status inst) then m_throw BadRequestError
     else m_seq (getGHCliFromInstance env inst) (m_seq (m_when (i_AgentID inst \<noteq> 0) (remove_from_forge env inst bypass))
       (m_bind (m_try (sv_on_db (UpdateInstance (i_Name inst)
           (empty_update\<lparr>uip_Status := (if forceDelete then InstancePendingForceDelete else InstancePendingDelete)\<rparr>)))) (\<lambda>r. case r of
         Inr _ \<Rightarrow> m_ret ()
       | Inl e \<Rightarrow> if transition_from InstanceIsBeingDeleted e then m_ret () else m_throw e)))))"

subsection \<open>Calls of a runner\<close>

text \<open>A runner reports with the token it was given; the middleware has put its identity into the context.\<close>

definition AddInstanceStatusMessage :: "Context \<Rightarrow> RunnerStatus \<Rightarrow> string \<Rightarrow> int option \<Rightarrow> (db, unit) prog" where
  "AddInstanceStatusMessage ctx status message agentID = (let instanceName = cx_InstanceName ctx in
     if instanceName = [] then m_throw UnauthorizedError
     else m_seq (AddInstanceEvent instanceName ''status'' ''info'' message)
       (m_bind (m_try (UpdateInstance instanceName (empty_update\<lparr>uip_RunnerStatus := status,
           uip_AgentID := (case agentID of None \<Rightarrow> 0 | Some a \<Rightarrow> a)\<rparr>))) (\<lambda>r. case r of
         Inr _ \<Rightarrow> m_ret ()
       | Inl e \<Rightarrow> if runner_transition_from RunnerIsTerminal e then m_ret () else m_throw e)))"

definition UpdateSystemInfo :: "Context \<Rightarrow> string \<Rightarrow> string \<Rightarrow> int option \<Rightarrow> (db, unit) prog" where
  "UpdateSystemInfo ctx osName osVersion agentID = (let instanceName = cx_InstanceName ctx in
     if instanceName = [] then m_throw UnauthorizedError
     else if osName = [] \<and> osVersion = [] \<and> agentID = None then m_ret ()
     else m_bind (UpdateInstance instanceName (empty_update\<lparr>uip_OSName := osName, uip_OSVersion := osVersion,
         uip_AgentID := (case agentID of None \<Rightarrow> 0 | Some a \<Rightarrow> a)\<rparr>)) (\<lambda>_. m_ret ()))"

definition with_instance :: "Context \<Rightarrow> (Instance \<Rightarrow> ('s, 'a) prog) \<Rightarrow> ('s, 'a) prog" where
  "with_instance ctx f = (case cx_InstanceParams ctx of None \<Rightarrow> m_throw UnauthorizedError | Some inst \<Rightarrow> f inst)"

definition RecordAgentHeartbeat :: "Context \<Rightarrow> (db, unit) prog" where
  "RecordAgentHeartbeat ctx = with_instance ctx (\<lambda>inst. m_bind (m_get db_clock) (\<lambda>now.
     m_bind (UpdateInstance (i_Name inst) (empty_update\<lparr>uip_Heartbeat := Some now\<rparr>)) (\<lambda>_. m_ret ())))"

definition SetInstanceCapabilities :: "Context \<Rightarrow> bool \<Rightarrow> (db, unit) prog" where
  "SetInstanceCapabilities ctx shell = with_instance ctx (\<lambda>inst.
     m_bind (UpdateInstance (i_ID inst) (empty_update\<lparr>uip_Capabilities := Some shell\<rparr>)) (\<lambda>_. m_ret ()))"

definition SetInstanceToPendingDelete :: "Context \<Rightarrow> (db, unit) prog" where
  "SetInstanceToPendingDelete ctx = with_instance ctx (\<lambda>inst.
     m_bind (m_try (UpdateInstance (i_ID inst) (empty_update\<lparr>uip_Status := InstancePendingDelete\<rparr>))) (\<lambda>r. case r of
       Inr _ \<Rightarrow> m_ret ()
     | Inl e \<Rightarrow> if transition_from InstanceIsBeingDeleted e then m_ret () else m_throw e))"

text \<open>The token of the agent. A caller who is not an administrator gets past the first check with his own runner, and is refused by the
  functions of the service that look up its pool or scale set.\<close>

definition GetAgentJWTToken :: "'w service_env \<Rightarrow> string \<Rightarrow> Context \<Rightarrow> string \<Rightarrow> ('w service, string) prog" where
  "GetAgentJWTToken env secret ctx runnerName = m_bind (
       if cx_IsAdmin ctx then Runner_GetInstance ctx runnerName
       else case cx_InstanceParams ctx of None \<Rightarrow> m_throw UnauthorizedError
         | Some inst \<Rightarrow> if i_Name inst \<noteq> runnerName \<or> cx_InstanceIsAgent ctx then m_throw UnauthorizedError else m_ret inst) (\<lambda>inst.
     m_bind (if i_PoolID inst \<noteq> [] then m_bind (Runner_GetPoolByID ctx (i_PoolID inst)) (\<lambda>p. m_result (Pool_GetEntity p))
       else if i_ScaleSetID inst \<noteq> 0 then m_bind (admin_db ctx (GetScaleSetByID (i_ScaleSetID inst))) (\<lambda>s. m_result (ScaleSet_GetEntity s))
       else m_throw (OtherError ''nil pointer dereference'')) (\<lambda>(ty, i).
       m_bind (sv_on_db (GetForgeEntity ty i)) (\<lambda>dbEntity. sv_on_db (NewAgentJWTToken (se_auth env) secret inst dbEntity))))"

subsection \<open>Scale sets\<close>

definition Runner_ListAllScaleSets :: "Context \<Rightarrow> ('w service, ScaleSet list) prog" where
  "Runner_ListAllScaleSets ctx = admin_db ctx ListAllScaleSets"
definition Runner_GetScaleSetByID :: "Context \<Rightarrow> nat \<Rightarrow> ('w service, ScaleSet) prog" where
  "Runner_GetScaleSetByID ctx i = admin_db ctx (GetScaleSetByID i)"
definition Runner_ListAllScaleSetJobs :: "Context \<Rightarrow> ('w service, ScaleSetJob list) prog" where
  "Runner_ListAllScaleSetJobs ctx = admin_db ctx ListAllScaleSetJobs"
definition Runner_ListScaleSetJobs :: "Context \<Rightarrow> nat \<Rightarrow> ListJobsFilter \<Rightarrow> ('w service, ScaleSetJobsPaginatedResponse) prog" where
  "Runner_ListScaleSetJobs ctx i f = admin_db ctx (ListScaleSetJobsPaginated i f)"
definition Runner_ListScaleSetInstances :: "Context \<Rightarrow> nat \<Rightarrow> bool \<Rightarrow> ('w service, Instance list) prog" where
  "Runner_ListScaleSetInstances ctx i outdatedOnly = admin_db ctx (ListScaleSetInstances i outdatedOnly)"
definition Runner_ListEntityScaleSets :: "Context \<Rightarrow> ForgeEntityType \<Rightarrow> string \<Rightarrow> ('w service, ScaleSet list) prog" where
  "Runner_ListEntityScaleSets ctx ty i = admin_db ctx (ListEntityScaleSets (named_entity ty i))"

definition Runner_DeleteScaleSetByID :: "'w service_env \<Rightarrow> Context \<Rightarrow> nat \<Rightarrow> bool \<Rightarrow> ('w service, unit) prog" where
  "Runner_DeleteScaleSetByID env ctx i bypassGHErrors = admin_only ctx (m_bind (m_try (sv_on_db (GetScaleSetByID i))) (\<lambda>r. case r of
     Inl e \<Rightarrow> if error_is e NotFoundError then m_ret () else m_throw e
   | Inr s \<Rightarrow> if ss_Instances s \<noteq> [] then m_throw BadRequestError else if ss_Enabled s then m_throw BadRequestError
     else m_bind (m_result (ScaleSet_GetEntity s)) (\<lambda>(ty, ei). m_bind (sv_on_db (GetForgeEntity ty ei)) (\<lambda>entity.
       m_seq (sv_on_world (env_Client (se_env env) entity)) (m_seq (sv_on_world (se_NewScaleSetClient env))
         (m_bind (m_try (sv_on_world (se_DeleteRunnerScaleSet env (ss_ScaleSetID s)))) (\<lambda>r. case r of
             Inl e \<Rightarrow> if \<not> error_is e NotFoundError \<and> \<not> bypassGHErrors then m_throw e else sv_on_db (DeleteScaleSetByID i)
           | Inr _ \<Rightarrow> sv_on_db (DeleteScaleSetByID i))))))))"

text \<open>The labels the forge gets: the name of the scale set as a label of the system, then the other labels without repetition.\<close>

definition CreateScaleSetParams_GitHubLabels :: "CreateScaleSetParams \<Rightarrow> (string \<times> string) list" where
  "CreateScaleSetParams_GitHubLabels s = (csp_Name s, ''System'') # dedup_labels [csp_Name s] (map (\<lambda>l. \<lparr>t_ID = uuid_nil, t_Name = l\<rparr>) (csp_Labels s))"

definition scaleset_defaults :: "CreateScaleSetParams \<Rightarrow> CreateScaleSetParams" where
  "scaleset_defaults p = p\<lparr>csp_RunnerBootstrapTimeout := (if csp_RunnerBootstrapTimeout p = 0 then DefaultRunnerBootstrapTimeout else csp_RunnerBootstrapTimeout p),
     csp_GitHubRunnerGroup := (if csp_GitHubRunnerGroup p = [] then ''Default'' else csp_GitHubRunnerGroup p)\<rparr>"

text \<open>The scale set is created on the forge first, and removed there again when the store refuses it.\<close>

definition Runner_CreateEntityScaleSet :: "'w service_env \<Rightarrow> Context \<Rightarrow> ForgeEntityType \<Rightarrow> string \<Rightarrow> CreateScaleSetParams \<Rightarrow> ('w service, ScaleSet) prog" where
  "Runner_CreateEntityScaleSet env ctx ty i param0 = admin_only ctx (let param = scaleset_defaults param0 in
     m_bind (sv_on_db (GetForgeEntity ty i)) (\<lambda>entity. if c_ForgeType (e_Credentials entity) \<noteq> GithubEndpointType then m_throw BadRequestError
       else m_bind (sv_on_db (findTemplate ctx entity (csp_OSType param) (csp_TemplateID param))) (\<lambda>template.
         m_seq (sv_on_world (env_Client (se_env env) entity)) (m_seq (sv_on_world (se_NewScaleSetClient env))
           (m_bind (sv_on_world (se_GetEntityRunnerGroupIDByName env (csp_GitHubRunnerGroup param))) (\<lambda>group.
             m_bind (sv_on_world (se_CreateRunnerScaleSet env (csp_Name param) group (CreateScaleSetParams_GitHubLabels param) (csp_DisableUpdate param) (csp_Enabled param))) (\<lambda>n.
               m_finally (sv_on_db (CreateEntityScaleSet entity (param\<lparr>csp_TemplateID := Some (tpl_ID template), csp_ScaleSetID := n\<rparr>))) (\<lambda>r. case r of
                 Inl _ \<Rightarrow> m_ignore (sv_on_world (se_DeleteRunnerScaleSet env n)) | Inr _ \<Rightarrow> m_ret ()))))))))"

end
