(* ===== verification/Garm_Service_Spec.thy ===== *)
theory Garm_Service_Spec
  imports Garm_Requests Garm_Manager_Steps Garm_Auth_Spec
begin

text \<open>
  The service as a whole. Its acts are those of its pool managers, in any order, the webhooks it dispatches, loading and retrying, the calls of
  runners and the deletion of runners. The locale \<open>service_order\<close> lifts a relation on the store from one manager to all of them.
\<close>

subsection \<open>Acts of the service\<close>

datatype service_act = Manager manager_key manager_act | Load | Retry | Start_Service | Stop_Service
  | Hook string string EndpointType string
  | Status_Message Context RunnerStatus string "int option" | System_Info Context string string "int option"
  | Heartbeat Context | Capabilities Context bool | Finished Context
  | Delete_Request Context string bool bool

fun service_run :: "'w service_env \<Rightarrow> service_act \<Rightarrow> ('w service, unit) prog" where
  "service_run env (Manager k a) = in_manager k (manager_run (se_env env) a)"
| "service_run env Load = loadReposOrgsAndEnterprises env"
| "service_run env Retry = retryFailedPoolManagers env"
| "service_run env Start_Service = Runner_Start"
| "service_run env Stop_Service = Runner_Stop"
| "service_run env (Hook target signature forge body) = DispatchWorkflowJob env target signature forge body"
| "service_run env (Status_Message ctx st msg agent) = sv_on_db (AddInstanceStatusMessage ctx st msg agent)"
| "service_run env (System_Info ctx nm v agent) = sv_on_db (UpdateSystemInfo ctx nm v agent)"
| "service_run env (Heartbeat ctx) = sv_on_db (RecordAgentHeartbeat ctx)"
| "service_run env (Capabilities ctx shell) = sv_on_db (SetInstanceCapabilities ctx shell)"
| "service_run env (Finished ctx) = sv_on_db (SetInstanceToPendingDelete ctx)"
| "service_run env (Delete_Request ctx nm force bypass) = Runner_DeleteRunner env ctx nm force bypass"

definition service_trace :: "'w service_env \<Rightarrow> service_act list \<Rightarrow> 'w service \<Rightarrow> 'w service" where
  "service_trace env = fold (\<lambda>a s. snd (service_run env a s))"

locale service_order = db_manager R for R :: "db \<Rightarrow> db \<Rightarrow> bool" +
  assumes S_event: "steps R (AddInstanceEvent n e l m)"
begin

lemma st_update: "uip_CreateAttempt up \<le> maxCreateAttempts \<Longrightarrow> steps R (UpdateInstance n up)"
  unfolding UpdateInstance_def by (rule D_update)

lemma st_entity_reads:
  "steps R (ControllerInfo ae)" "steps R (ListRepositories own nm ep)" "steps R (ListOrganizations nm ep)" "steps R (ListEnterprises nm ep)"
  "steps R (ListForgeInstances ep)" "steps R (GetRepository own nm ep)" "steps R (GetOrganization nm ep)"
  "steps R (GetEnterprise nm ep)" "steps R (GetForgeInstance ep)" "steps R ListGithubEndpoints" "steps R ListGiteaEndpoints"
  "steps R (GetRepositoryByID i)" "steps R (GetOrganizationByID i)" "steps R (GetEnterpriseByID i)"
  "steps R (GetForgeInstanceByID i)" "steps R (GetPoolByID i)" "steps R (GetScaleSetByID n)"
  unfolding ControllerInfo_def ListRepositories_def ListOrganizations_def ListEnterprises_def ListForgeInstances_def list_entities_def converted_def GetRepository_def
    GetOrganization_def GetEnterprise_def GetForgeInstance_def ListGithubEndpoints_def ListGiteaEndpoints_def list_endpoints_def GetRepositoryByID_def
    GetOrganizationByID_def GetEnterpriseByID_def GetForgeInstanceByID_def GetPoolByID_def GetScaleSetByID_def
  by (intro db_rules)+

lemma st_GetForgeEntity: "steps R (GetForgeEntity ty i)"
  by (cases ty) (simp_all add: GetForgeEntity_def st_entity_reads st_throw)

lemma st_list_of_type: "steps R (list_of_type ty)"
  by (cases ty) (simp_all add: list_of_type_def st_entity_reads st_ret)

lemma st_runner_calls:
  "steps R (AddInstanceStatusMessage ctx st msg agent)" "steps R (UpdateSystemInfo ctx nm v agent)" "steps R (RecordAgentHeartbeat ctx)"
  "steps R (SetInstanceCapabilities ctx shell)" "steps R (SetInstanceToPendingDelete ctx)"
  unfolding AddInstanceStatusMessage_def UpdateSystemInfo_def RecordAgentHeartbeat_def SetInstanceCapabilities_def SetInstanceToPendingDelete_def
    with_instance_def
  by (intro db_rules S_event st_update; simp add: empty_update_def maxCreateAttempts_def)+

lemma sv_db_steps: "steps R m \<Longrightarrow> steps (\<lambda>s s'. R (sv_db s) (sv_db s')) (sv_on_db m)"
  unfolding sv_on_db_def by (erule steps_lift) simp

lemma sv_steps: "steps (\<lambda>s s'. R (sv_db s) (sv_db s')) (sv_on_world m)"
  "(\<And>s. sv_db (g s) = sv_db s) \<Longrightarrow> steps (\<lambda>s s'. R (sv_db s) (sv_db s')) (m_modify g)"
  "steps (\<lambda>s s'. R (sv_db s) (sv_db s')) (register_consumer c)"
  "steps (\<lambda>s s'. R (sv_db s) (sv_db s')) (GetPoolManager e)" "steps (\<lambda>s s'. R (sv_db s) (sv_db s')) (DeletePoolManager e)"
  "steps (\<lambda>s s'. R (sv_db s) (sv_db s')) (stop_one k)"
  by (rule stepsI, simp add: sv_on_world_def m_lift_def register_consumer_def GetPoolManager_def DeletePoolManager_def stop_manager_def
      stop_one_def set_manager_def R_refl split: prod.splits option.splits)+

lemma sv_in_manager:
  "steps (\<lambda>s s'. R (sy_db s) (sy_db s')) m \<Longrightarrow> steps (\<lambda>s s'. R (sv_db s) (sv_db s')) (in_manager k m)"
  by (rule stepsI) (auto simp: in_manager_def after_manager_def set_manager_def manager_sys_def R_refl dest: stepsD split: option.splits prod.splits)

end

sublocale service_order \<subseteq> so': step_order "\<lambda>s s'. R (sv_db s) (sv_db s')"
  by unfold_locales (rule R_refl, rule R_trans)

context service_order
begin

lemmas sv_rules = so'.st_rules sv_steps sv_db_steps sv_in_manager st_entity_reads st_GetForgeEntity st_list_of_type st_runner_calls st_GetInstance

lemma sv_NewEntityPoolManager: "steps (\<lambda>s s'. R (sv_db s) (sv_db s')) (NewEntityPoolManager env e)"
  unfolding NewEntityPoolManager_def by (intro sv_rules)

lemma sv_CreatePoolManager: "steps (\<lambda>s s'. R (sv_db s) (sv_db s')) (CreatePoolManager env e)"
  unfolding CreatePoolManager_def by (intro sv_rules sv_NewEntityPoolManager) (simp add: set_manager_def)

lemma st_load_queued: "steps (\<lambda>s s'. R (sy_db s) (sy_db s')) load_queued"
  unfolding load_queued_def
  unfolding runWatcher_init_def ListEntityJobsByStatus_def list_jobs_where_def by (intro mo.base_rules on_db_steps db_rules)

lemma sv_start_manager: "steps (\<lambda>s s'. R (sv_db s) (sv_db s')) (start_manager env e)"
  unfolding start_manager_def by (intro sv_in_manager mo.base_rules mo.st_Start_init st_load_queued)

lemma sv_settle: "steps (\<lambda>s s'. R (sv_db s) (sv_db s')) (manager_failed env ty i)"
  "steps (\<lambda>s s'. R (sv_db s) (sv_db s')) (manager_settled i)"
  unfolding manager_failed_def manager_settled_def by (intro sv_steps(2); simp)+

lemma sv_createAndStart: "steps (\<lambda>s s'. R (sv_db s) (sv_db s')) (createAndStartPoolManager env e)"
  unfolding createAndStartPoolManager_def by (intro sv_rules sv_CreatePoolManager sv_start_manager sv_settle)

lemma sv_load_type:
  "(\<And>e. steps (\<lambda>s s'. R (sv_db s) (sv_db s')) (f e)) \<Longrightarrow> steps (\<lambda>s s'. R (sv_db s) (sv_db s')) (load_type env f ty)"
  unfolding load_type_def by (intro sv_rules) simp_all

lemma sv_load: "steps (\<lambda>s s'. R (sv_db s) (sv_db s')) (loadReposOrgsAndEnterprises env)"
  unfolding loadReposOrgsAndEnterprises_def by (intro sv_rules sv_load_type sv_createAndStart)

lemma sv_retryFailedEntity: "steps (\<lambda>s s'. R (sv_db s) (sv_db s')) (retryFailedEntity env fe)"
  unfolding retryFailedEntity_def by (intro sv_rules sv_settle sv_createAndStart; simp)

lemma sv_retry: "steps (\<lambda>s s'. R (sv_db s) (sv_db s')) (retryFailedPoolManagers env)"
  unfolding retryFailedPoolManagers_def unless_managed_def retry_due_def
  by (intro sv_rules sv_load_type sv_createAndStart sv_retryFailedEntity)

lemma sv_stop: "steps (\<lambda>s s'. R (sv_db s) (sv_db s')) Runner_Stop" "steps (\<lambda>s s'. R (sv_db s) (sv_db s')) Runner_Start"
  unfolding Runner_Stop_def Runner_Start_def by (intro sv_rules; simp)+

lemma sv_find_manager: "steps R m \<Longrightarrow> steps (\<lambda>s s'. R (sv_db s) (sv_db s')) (find_pool_manager m)"
  unfolding find_pool_manager_def by (intro sv_rules)

lemma sv_hook: "steps (\<lambda>s s'. R (sv_db s) (sv_db s')) (DispatchWorkflowJob env target signature forge body)"
  unfolding DispatchWorkflowJob_def findEndpointForJob_def hook_manager_def findRepoPoolManager_def findOrgPoolManager_def findEnterprisePoolManager_def
    findForgeInstancePoolManager_def WebhookSecret_def Let_def
  by (cases forge) (auto intro!: sv_rules sv_find_manager mo.st_HandleWorkflowJob mo.st_get_mgr)

lemma sv_DeleteRunner: "steps (\<lambda>s s'. R (sv_db s) (sv_db s')) (Runner_DeleteRunner env ctx nm force bypass)"
  unfolding Runner_DeleteRunner_def admin_only_def getGHCliFromInstance_def remove_from_forge_def getPoolManagerFromInstance_def
    findRepoPoolManager_def findOrgPoolManager_def findEnterprisePoolManager_def findForgeInstancePoolManager_def
  by (intro sv_rules db_rules sv_find_manager mo.st_SetPoolRunningState st_update; simp add: empty_update_def maxCreateAttempts_def)

lemma sv_run: "steps (\<lambda>s s'. R (sv_db s) (sv_db s')) (service_run env a)"
  by (cases a) (simp_all add: sv_in_manager mo.st_manager_run sv_load sv_retry sv_stop sv_hook sv_db_steps st_runner_calls sv_DeleteRunner)

lemma service: "R (sv_db s) (sv_db (service_trace env as s))"
proof (induction as arbitrary: s)
  case (Cons a as)
  have "R (sv_db s) (sv_db (snd (service_run env a s)))" using stepsD_snd [OF sv_run] .
  with Cons R_trans show ?case by (simp add: service_trace_def)
qed (simp add: service_trace_def R_refl)

end

interpretation slim: service_order store_step
  by unfold_locales (rule store_AddInstanceEvent)

lemma rank_AddInstanceEvent: "steps rank_step (AddInstanceEvent n e l m)"
  by (rule rnk.st_AddInstanceEvent; rule steps_modify; simp add: upd_instance_def rank_step_same)

interpretation srank: service_order rank_step
  by unfold_locales (rule rank_AddInstanceEvent)

subsection \<open>Entities and their managers\<close>




























































text \<open>
  (C5) Whatever the managers of all entities, the webhooks, the runners and the requests to delete runners do, in any order, no pool
  ends up with more runners than its limit, unless it had more before; then it has not gained any.
\<close>

theorem service_respects_limits:
  assumes "keys_ok (sv_db s)"
  shows "count_pool u (sv_db (service_trace env acts s)) \<le> max (count_pool u (sv_db s)) (pool_limit u (sv_db s))"
  using slim.service [of s env acts] assms by (simp add: store_step_def capacity_step_def)

subsection \<open>Webhooks\<close>

lemma split_first_join: "split_first c xs = Some (a, b) \<Longrightarrow> xs = a @ c # b"
  by (induction xs arbitrary: a) (auto split: if_splits)

lemma validateHookBody_accepts:
  assumes "validateHookBody env sig secret body = None"
  shows "secret \<noteq> [] \<and> (\<exists>alg \<in> {''sha256'', ''sha1''}. sig = alg @ ''='' @ se_hmac env alg secret body)"
  using assms by (auto simp: validateHookBody_def dest!: split_first_join split: if_splits option.splits)

text \<open>What reads of the store change: which of their statements will fail.\<close>

definition only_faults :: "'w service \<Rightarrow> 'w service \<Rightarrow> bool" where
  "only_faults s s' \<longleftrightarrow> (\<exists>fs. s' = s\<lparr>sv_db := (sv_db s)\<lparr>db_faults := fs\<rparr>\<rparr>)"

lemma only_faults_refl: "only_faults s s"
  unfolding only_faults_def by (rule exI [of _ "db_faults (sv_db s)"]) simp

interpretation flt: step_order only_faults
  by unfold_locales (auto simp: only_faults_refl, auto simp: only_faults_def)

lemma flt_read: "steps only_faults (sv_on_db (db_read q))"
proof (rule stepsI)
  fix s
  show "only_faults s (snd (sv_on_db (db_read q) s))"
    by (cases "db_faults (sv_db s)") (auto simp: sv_on_db_def m_lift_def db_read_def db_stmt_def only_faults_refl, auto simp: only_faults_def)
qed

lemma flt_GetPoolManager: "steps only_faults (GetPoolManager e)"
  by (rule stepsI) (simp add: GetPoolManager_def only_faults_refl)

lemma flt_find_manager:
  "steps only_faults (findRepoPoolManager own nm ep)" "steps only_faults (findOrgPoolManager nm ep)" "steps only_faults (findEnterprisePoolManager nm ep)"
  "steps only_faults (findForgeInstancePoolManager ep)"
  unfolding findRepoPoolManager_def findOrgPoolManager_def findEnterprisePoolManager_def findForgeInstancePoolManager_def find_pool_manager_def
    GetRepository_def GetOrganization_def GetEnterprise_def GetForgeInstance_def converted_def
  by (intro flt.st_rules flt_read flt_GetPoolManager)+

lemma flt_hook_manager: "steps only_faults (hook_manager target forge job ep)"
  unfolding hook_manager_def by (intro flt.st_rules flt_find_manager)

lemma flt_findEndpoint: "steps only_faults (findEndpointForJob env u forge)"
  unfolding findEndpointForJob_def ListGithubEndpoints_def ListGiteaEndpoints_def list_endpoints_def
  by (cases forge) (auto intro!: flt.st_rules flt_read)

lemma hook_manager_managed:
  assumes "hook_manager target forge job ep s = (Inr k, s')"
  shows "map_of (sv_managers s') k \<noteq> None"
  using assms
  by (auto simp: hook_manager_def findRepoPoolManager_def findOrgPoolManager_def findEnterprisePoolManager_def findForgeInstancePoolManager_def find_pool_manager_def
      GetPoolManager_def split: if_splits elim!: m_bind_okE)

lemma update_present: "map_of xs k = Some v \<Longrightarrow> AList.update k v xs = xs"
  by (induction xs) auto

lemma manager_secret:
  assumes "map_of (sv_managers s) k = Some g"
  shows "in_manager k WebhookSecret s = (Inr (e_WebhookSecret (pm_entity (mg_mgr g))), s)"
proof -
  have "\<lparr>mg_mgr = mg_mgr g, mg_backoff = mg_backoff g, mg_cache = mg_cache g, mg_quit = mg_quit g\<rparr> = g" by (cases g) simp
  with assms show ?thesis
    by (simp add: in_manager_def WebhookSecret_def get_mgr_def manager_sys_def after_manager_def set_manager_def update_present)
qed

text \<open>
  (C6) A webhook that is not signed with the secret of a managed entity, by HMAC over its whole body, is refused, and nothing is recorded:
  of the service and its store only the list of faults to come is another.
\<close>

theorem unsigned_webhook_ignored:
  assumes unsigned: "\<forall>(k, g) \<in> set (sv_managers s). \<forall>alg \<in> {''sha256'', ''sha1''}. signature \<noteq> alg @ ''='' @ se_hmac env alg (e_WebhookSecret (pm_entity (mg_mgr g))) body"
    and run: "DispatchWorkflowJob env target signature forge body s = (r, s')"
  shows "(\<exists>e. r = Inl e) \<and> (\<exists>fs. s' = s\<lparr>sv_db := (sv_db s)\<lparr>db_faults := fs\<rparr>\<rparr>)"
proof -
  have "(\<exists>e. r = Inl e) \<and> only_faults s s'"
  proof (cases "body = [] \<or> se_UnmarshalJob env body = None")
    case True
    with run show ?thesis by (auto simp: DispatchWorkflowJob_def only_faults_refl split: if_splits)
  next
    case False
    then obtain job u where job: "se_UnmarshalJob env body = Some (job, u)" by (cases "se_UnmarshalJob env body") auto
    obtain r1 s1 where ep: "findEndpointForJob env u forge s = (r1, s1)" by (cases "findEndpointForJob env u forge s") auto
    note f1 = stepsD [OF flt_findEndpoint ep]
    show ?thesis
    proof (cases r1)
      case (Inl e)
      with run False job ep f1 show ?thesis by (auto simp: DispatchWorkflowJob_def m_bind_def)
    next
      case ok1: (Inr endpoint)
      obtain r2 s2 where hm: "hook_manager target forge job endpoint s1 = (r2, s2)" by (cases "hook_manager target forge job endpoint s1") auto
      note f2 = flt.R_trans [OF f1 stepsD [OF flt_hook_manager hm]]
      show ?thesis
      proof (cases r2)
        case (Inl e)
        with run False job ep ok1 hm f2 show ?thesis by (auto simp: DispatchWorkflowJob_def m_bind_def)
      next
        case ok2: (Inr k)
        with hm hook_manager_managed obtain g where g: "map_of (sv_managers s2) k = Some g" by blast
        have "sv_managers s2 = sv_managers s" using f2 by (auto simp: only_faults_def)
        with g unsigned have "validateHookBody env signature (e_WebhookSecret (pm_entity (mg_mgr g))) body \<noteq> None"
          using validateHookBody_accepts [of env signature _ body] by (fastforce dest: map_of_SomeD)
        with run False job ep ok1 hm ok2 manager_secret [OF g] f2 show ?thesis by (auto simp: DispatchWorkflowJob_def m_bind_def)
      qed
    qed
  qed
  then show ?thesis by (simp add: only_faults_def)
qed

subsection \<open>Calls of one runner\<close>

text \<open>The name of a runner leads to its own row only, and everything but that row stays.\<close>

definition leads_to :: "string \<Rightarrow> uuid \<Rightarrow> db \<Rightarrow> bool" where
  "leads_to n u d \<longleftrightarrow> (\<forall>i \<in> set (db_instances d). instance_matches n i \<longrightarrow> ir_ID i = u)"

definition same_but :: "uuid \<Rightarrow> db \<Rightarrow> db \<Rightarrow> bool" where
  "same_but u d d' \<longleftrightarrow> filter (\<lambda>i. ir_ID i \<noteq> u) (db_instances d') = filter (\<lambda>i. ir_ID i \<noteq> u) (db_instances d) \<and> db_pools d' = db_pools d \<and>
     db_jobs d' = db_jobs d \<and> db_entities d' = db_entities d \<and> db_scalesets d' = db_scalesets d \<and> db_users d' = db_users d \<and>
     db_credentials d' = db_credentials d"

definition own_row :: "string \<Rightarrow> uuid \<Rightarrow> db \<Rightarrow> db \<Rightarrow> bool" where
  "own_row n u d d' \<longleftrightarrow> (leads_to n u d \<longrightarrow> leads_to n u d' \<and> same_but u d d')"

lemma same_but_trans: "same_but u d d' \<Longrightarrow> same_but u d' d'' \<Longrightarrow> same_but u d d''"
  unfolding same_but_def by metis

lemma own_row_kept: "db_instances d' = db_instances d \<Longrightarrow> same_but u d d' \<Longrightarrow> own_row n u d d'"
  by (simp add: own_row_def leads_to_def)

lemma own_row_trans: "own_row n u d d' \<Longrightarrow> own_row n u d' d'' \<Longrightarrow> own_row n u d d''"
  unfolding own_row_def using same_but_trans by blast

interpretation own: db_order "own_row n u" for n u
proof (unfold_locales, goal_cases)
  case 2 then show ?case by (rule own_row_trans)
qed (rule own_row_kept; simp add: same_but_def)+

lemma own_upd:
  assumes "\<And>i. ir_ID i = u \<Longrightarrow> ir_ID (f i) = u"
  shows "own_row n u d (upd_instance u f d)"
proof -
  have "filter (\<lambda>i. ir_ID i \<noteq> u) (upd_rows (\<lambda>i. ir_ID i = u) f rows) = filter (\<lambda>i. ir_ID i \<noteq> u) rows" for rows
    using assms by (induction rows) (auto simp: upd_rows_def)
  moreover have "leads_to n u (upd_instance u f d)" if "leads_to n u d"
    using that assms by (auto simp: leads_to_def upd_instance_def upd_rows_def)
  ultimately show ?thesis by (simp add: own_row_def same_but_def upd_instance_def)
qed

lemma own_update:
  assumes "\<And>i. instance_matches m i \<Longrightarrow> instance_matches n i \<or> ir_ID i = u"
  shows "steps (own_row n u) (UpdateInstance m p)"
  unfolding UpdateInstance_def
proof (rule own.st_updateInstance, rule stepsI)
  fix d
  obtain r d' where run: "update_instance_tx m p False d = (r, d')" by (cases "update_instance_tx m p False d") auto
  from run have "own_row n u d d'"
  proof (cases rule: update_tx_cases)
    case (ok i addrs)
    show ?thesis
    proof (cases "leads_to n u d")
      case True
      with ok(2,3) assms have "ir_ID i = u" by (auto simp: leads_to_def)
      then show ?thesis unfolding ok(6) by (simp add: own_upd)
    qed (simp add: own_row_def)
  qed (simp add: own.R_refl)
  with run show "own_row n u d (snd (update_instance_tx m p False d))" by simp
qed

lemma own_event: "steps (own_row n u) (AddInstanceEvent n e l m)"
proof (rule stepsI)
  fix d
  show "own_row n u d (snd (AddInstanceEvent n e l m d))"
  proof (cases "leads_to n u d")
    case True
    obtain r d1 where get: "db_read (getInstance n) d = (r, d1)" by (cases "db_read (getInstance n) d") auto
    note d1 = stepsD [OF own.st_read get]
    show ?thesis
    proof (cases r)
      case (Inl x)
      with get d1 show ?thesis by (simp add: AddInstanceEvent_def m_bind_def)
    next
      case (Inr row)
      have "ir_ID (il_row row) = u"
        using get Inr True by (auto simp: db_read_def leads_to_def elim!: db_stmt_ok dest!: getInstance_ok)
      with get Inr have run: "AddInstanceEvent n e l m d = m_seq (db_stmt (m_bind new_uuid (\<lambda>k. m_modify (\<lambda>d. upd_instance u (\<lambda>i. i\<lparr>ir_StatusMessages :=
         ir_StatusMessages i @ [(k, \<lparr>sm_CreatedAt = db_clock d, sm_Message = m, sm_EventType = e, sm_EventLevel = l\<rparr>)]\<rparr>) d))))
        (m_bind (db_read (\<lambda>d. Inr (length (instance_messages u d)))) (\<lambda>count. m_when (count > maxStatusMessages)
         (m_bind (db_read (\<lambda>d. Inr (cutoff_message (instance_messages u d)))) (\<lambda>cutoff.
            db_stmt (m_modify (upd_instance u (\<lambda>i. i\<lparr>ir_StatusMessages := filter (\<lambda>m. \<not> fst m < cutoff) (ir_StatusMessages i)\<rparr>))))))) d1"
        by (simp add: AddInstanceEvent_def m_bind_def)
      show ?thesis unfolding run by (rule own.R_trans [OF d1], rule stepsD_snd, intro own.db_rules steps_modify own_upd) simp_all
    qed
  qed (simp add: own_row_def)
qed

text \<open>The calls a runner makes in its own context, as the middleware fills it in.\<close>

definition context_of :: "Instance \<Rightarrow> Context \<Rightarrow> bool" where
  "context_of inst ctx \<longleftrightarrow> cx_InstanceName ctx = i_Name inst \<and> cx_InstanceParams ctx = Some inst"

fun call_of :: "Instance \<Rightarrow> service_act \<Rightarrow> bool" where
  "call_of inst (Status_Message ctx st msg agent) = context_of inst ctx"
| "call_of inst (System_Info ctx nm v agent) = context_of inst ctx"
| "call_of inst (Heartbeat ctx) = context_of inst ctx"
| "call_of inst (Capabilities ctx shell) = context_of inst ctx"
| "call_of inst (Finished ctx) = context_of inst ctx"
| "call_of inst _ = False"

lemma middleware_context: "instance_claimsToContext ctx claims d = (Inr ctx', d') \<Longrightarrow> \<exists>inst. context_of inst ctx'"
  by (auto simp: instance_claimsToContext_def context_of_def PopulateInstanceContext_def split: if_splits elim!: m_bind_okE)

lemma own_calls:
  assumes "context_of inst ctx" "i_ID inst = uuid_string u"
  shows "steps (own_row (i_Name inst) u) (AddInstanceStatusMessage ctx st msg agent)" "steps (own_row (i_Name inst) u) (UpdateSystemInfo ctx nm v agent)"
    "steps (own_row (i_Name inst) u) (RecordAgentHeartbeat ctx)" "steps (own_row (i_Name inst) u) (SetInstanceCapabilities ctx shell)"
    "steps (own_row (i_Name inst) u) (SetInstanceToPendingDelete ctx)"
proof -
  have upd: "steps (own_row (i_Name inst) u) (UpdateInstance (i_Name inst) p)" "steps (own_row (i_Name inst) u) (UpdateInstance (i_ID inst) p)" for p
    by (rule own_update, simp add: assms(2) instance_matches_def)+
  have ctx: "cx_InstanceName ctx = i_Name inst" "cx_InstanceParams ctx = Some inst" using assms(1) by (simp_all add: context_of_def)
  show "steps (own_row (i_Name inst) u) (AddInstanceStatusMessage ctx st msg agent)" "steps (own_row (i_Name inst) u) (UpdateSystemInfo ctx nm v agent)"
    "steps (own_row (i_Name inst) u) (RecordAgentHeartbeat ctx)" "steps (own_row (i_Name inst) u) (SetInstanceCapabilities ctx shell)"
    "steps (own_row (i_Name inst) u) (SetInstanceToPendingDelete ctx)"
    unfolding AddInstanceStatusMessage_def UpdateSystemInfo_def RecordAgentHeartbeat_def SetInstanceCapabilities_def SetInstanceToPendingDelete_def
      with_instance_def ctx Let_def option.case
    by (intro own.db_rules own_event upd)+
qed

definition own_call_step :: "string \<Rightarrow> uuid \<Rightarrow> 'w service \<Rightarrow> 'w service \<Rightarrow> bool" where
  "own_call_step n u s s' \<longleftrightarrow> own_row n u (sv_db s) (sv_db s') \<and> s' = s\<lparr>sv_db := sv_db s'\<rparr>"

lemma own_call:
  assumes "call_of inst a" "i_ID inst = uuid_string u"
  shows "own_call_step (i_Name inst) u s (snd (service_run env a s))"
proof -
  have lift: "own_call_step (i_Name inst) u s (snd (sv_on_db m s))" if "steps (own_row (i_Name inst) u) m" for m :: "(db, unit) prog"
    using stepsD_snd [OF that, of "sv_db s"] by (cases "m (sv_db s)") (simp add: own_call_step_def sv_on_db_def m_lift_def)
  from assms show ?thesis by (cases a) (auto intro!: lift own_calls)
qed

text \<open>
  (C7) What a runner reports, in whatever order and however often, changes its own row only: the rows of all other runners, the pools, jobs,
  entities, scale sets, users and credentials stay, and so does the rest of the service.
\<close>

theorem runner_calls_isolated:
  assumes "\<forall>a \<in> set acts. call_of inst a" "i_ID inst = uuid_string u" "leads_to (i_Name inst) u (sv_db s)"
  shows "same_but u (sv_db s) (sv_db (service_trace env acts s)) \<and> service_trace env acts s = s\<lparr>sv_db := sv_db (service_trace env acts s)\<rparr>"
  using assms(1,3)
proof (induction acts arbitrary: s)
  case (Cons a acts)
  let ?s = "snd (service_run env a s)"
  have one: "own_call_step (i_Name inst) u s ?s" using own_call [of inst a u s env] assms(2) Cons.prems(1) by simp
  then have leads: "leads_to (i_Name inst) u (sv_db ?s)" and same: "same_but u (sv_db s) (sv_db ?s)" and db: "?s = s\<lparr>sv_db := sv_db ?s\<rparr>"
    using Cons.prems(2) by (simp_all add: own_call_step_def own_row_def)
  define t where "t = service_trace env acts ?s"
  have t: "service_trace env (a # acts) s = t" by (simp add: service_trace_def t_def)
  have IH: "same_but u (sv_db ?s) (sv_db t)" "t = ?s\<lparr>sv_db := sv_db t\<rparr>"
    using Cons.IH [OF _ leads] Cons.prems(1) unfolding t_def by simp_all
  have "?s\<lparr>sv_db := sv_db t\<rparr> = s\<lparr>sv_db := sv_db t\<rparr>" by (subst db) simp
  with IH same show ?case unfolding t by (simp add: same_but_def)
qed (simp add: service_trace_def same_but_def)

subsection \<open>A small service\<close>

text \<open>One repository, on a forge that gives no client, and a manager that was made before.\<close>

definition ex_job_hook :: WorkflowJobHook where
  "ex_job_hook = \<lparr>h_Action = ''queued'', h_ID = 50, h_RunID = 5, h_Status = ''queued'', h_Conclusion = [], h_StartedAt = 0,
     h_CompletedAt = 0, h_Name = ''test'', h_Labels = [''linux''], h_RunnerID = 0, h_RunnerName = [], h_RunnerGroupID = 0,
     h_RunnerGroupName = [], h_RepoName = ''app'', h_RepoOwnerLogin = ''acme'', h_RepoHTMLURL = ''https://github.com/acme/app'',
     h_OrgLogin = ''acme'', h_OrgName = [], h_EnterpriseSlug = []\<rparr>"

definition ex_silent_forge :: "nat env" where
  "ex_silent_forge = \<lparr>env_Client = (\<lambda>e w. (Inl (OtherError ''no client''), w + 1)), env_ListEntityRunners = (\<lambda>page w. (Inr ([], 0), w + 1)),
     env_ListAllRunners = (\<lambda>w. (Inr [], w + 1)), env_RemoveEntityRunner = (\<lambda>n w. (Inr (), w + 1)),
     env_GetEntityJITConfig = (\<lambda>n pool labels w. (Inr ([], 1), w + 1)),
     env_GetWorkflowJobByID = (\<lambda>owner repo n w. (Inr ''queued'', w + 1)),
     env_providers = (\<lambda>name. None), env_NewID = (\<lambda>w. (''x'', w + 1)),
     env_NewInstanceJWTToken = (\<lambda>i e t w. (Inr ''token'', w + 1)), env_HasInstallTemplate = (\<lambda>specs. Inr True),
     env_CombineBundles = (\<lambda>a b. Inr (a @ b)), env_AddWrapper = (\<lambda>b. b), env_error_text = (\<lambda>e. ''error''),
     env_max_pages = 3\<rparr>"

definition ex_view :: cacheView where
  "ex_view = \<lparr>cv_tools = Inr [], cv_pools = [], cv_scalesets = [], cv_instances = 1, cv_credentials = None, cv_proxies = Map.empty\<rparr>"

definition ex_service_env :: "nat service_env" where
  "ex_service_env = \<lparr>se_env = ex_silent_forge, se_auth = ex_auth, se_cache = (\<lambda>e. ex_view), se_NewScaleSetClient = (\<lambda>w. (Inr (), w)),
     se_RemoveScaleSetRunner = (\<lambda>n w. (Inr (), w)), se_UninstallWebhook = (\<lambda>e w. (Inr (), w)), se_EnableWebhookManagement = False,
     se_hmac = (\<lambda>alg secret body. secret @ body), se_UnmarshalJob = (\<lambda>b. Some (ex_job_hook, ''github.com'')), se_draw = None,
     se_url = \<lparr>ul_Parse = (\<lambda>u. None), ul_Resolve = (\<lambda>b u. None)\<rparr>, se_PemDecode = (\<lambda>b. None), se_ParseCertificates = (\<lambda>b. False),
     se_ParsePKCS1 = (\<lambda>b. False), se_SanitizeCABundle = Inr, se_GithubApp = (\<lambda>a. (0, 0, [])), se_validateReleasesURL = (\<lambda>u w. (Inr (), w)),
     se_ParseTemplate = (\<lambda>t. True), se_userdata = (\<lambda>t. None), se_GetEntityRunnerGroupIDByName = (\<lambda>n w. (Inr 1, w)),
     se_CreateRunnerScaleSet = (\<lambda>a b c d e w. (Inr 1, w)), se_DeleteRunnerScaleSet = (\<lambda>n w. (Inr (), w))\<rparr>"

definition ex_service :: "nat service" where
  "ex_service = \<lparr>sv_db = ex_db, sv_locks = Map.empty, sv_lifecycle = [], sv_world = 0, sv_consumers = [], sv_managers = [], sv_failedEntities = [],
     sv_retries = [], sv_loaded = [], sv_running = True, sv_files = \<lparr>ob_rows = [], ob_next = 1, ob_clock = 0, ob_faults = [], ob_notifications = []\<rparr>\<rparr>"

definition ex_managed :: managed where
  "ex_managed = \<lparr>mg_mgr = ex_manager, mg_backoff = Map.empty, mg_cache = ex_view, mg_quit = False\<rparr>"

definition ex_busy_service :: "nat service" where
  "ex_busy_service = ex_service\<lparr>sv_managers := [((ForgeEntityTypeRepository, uuid_string 9), ex_managed)]\<rparr>"

theorem unsigned_webhook_ignored_witness:
  "\<exists>e fs. DispatchWorkflowJob ex_service_env ''repository'' ''sha256=0'' GithubEndpointType ''body'' ex_busy_service =
     (Inl e, ex_busy_service\<lparr>sv_db := ex_db\<lparr>db_faults := fs\<rparr>\<rparr>)"
proof -
  obtain r s' where run: "DispatchWorkflowJob ex_service_env ''repository'' ''sha256=0'' GithubEndpointType ''body'' ex_busy_service = (r, s')"
    by (cases "DispatchWorkflowJob ex_service_env ''repository'' ''sha256=0'' GithubEndpointType ''body'' ex_busy_service")
  have "\<forall>(k, g) \<in> set (sv_managers ex_busy_service). \<forall>alg \<in> {''sha256'', ''sha1''}.
      ''sha256=0'' \<noteq> alg @ ''='' @ se_hmac ex_service_env alg (e_WebhookSecret (pm_entity (mg_mgr g))) ''body''"
    by (simp add: ex_busy_service_def ex_service_env_def ex_managed_def append_eq_Cons_conv)
  from unsigned_webhook_ignored [OF this run] run show ?thesis by (auto simp: ex_busy_service_def ex_service_def)
qed

definition ex_runner_instance :: Instance where
  "ex_runner_instance = zero_Instance\<lparr>i_ID := uuid_string 2, i_Name := ''garm-one''\<rparr>"

definition ex_runner_ctx :: Context where
  "ex_runner_ctx = background\<lparr>cx_InstanceName := ''garm-one'', cx_InstanceParams := Some ex_runner_instance\<rparr>"

definition ex_calls :: "service_act list" where
  "ex_calls = [Status_Message ex_runner_ctx RunnerActive ''running'' None, Heartbeat ex_runner_ctx, Finished ex_runner_ctx]"

theorem runner_calls_isolated_witness:
  "same_but 2 ex_db (sv_db (service_trace ex_service_env ex_calls ex_service)) \<and>
   sv_managers (service_trace ex_service_env ex_calls ex_service) = []"
proof -
  have "\<forall>a \<in> set ex_calls. call_of ex_runner_instance a" "i_ID ex_runner_instance = uuid_string 2"
    by (simp_all add: ex_calls_def context_of_def ex_runner_ctx_def ex_runner_instance_def)
  moreover have "leads_to (i_Name ex_runner_instance) 2 (sv_db ex_service)"
    by (simp add: leads_to_def ex_service_def ex_instance_def)
  ultimately have "same_but 2 (sv_db ex_service) (sv_db (service_trace ex_service_env ex_calls ex_service)) \<and>
      service_trace ex_service_env ex_calls ex_service = ex_service\<lparr>sv_db := sv_db (service_trace ex_service_env ex_calls ex_service)\<rparr>"
    by (rule runner_calls_isolated)
  then show ?thesis by (metis ex_service_def service.select_convs(1,6) service.update_convs(1))
qed

theorem service_respects_limits_witness:
  "count_pool 1 (sv_db (service_trace ex_service_env ([Load, Retry] @ ex_calls) ex_service)) \<le> max (count_pool 1 ex_db) (pool_limit 1 ex_db)"
  using service_respects_limits [of ex_service 1 ex_service_env "[Load, Retry] @ ex_calls"] by (simp add: ex_service_def)




subsection \<open>What goes wrong\<close>

text \<open>
  When no manager can be made for a new repository the request fails, but the repository stays: the clean-up deletes the entity
  with the empty ID, which there is not.
\<close>

lemma DeleteRepository_Nil: "\<exists>e fs. DeleteRepository [] d = (Inl e, d\<lparr>db_faults := fs\<rparr>)"
proof -
  have "loaded_for_delete sqlToCommonRepository (getRepoByID []) d = (Inl (if db_faults d \<noteq> [] \<and> hd (db_faults d) then DatabaseError else BadRequestError),
      d\<lparr>db_faults := tl (db_faults d)\<rparr>)"
    by (cases "db_faults d") (simp_all add: loaded_for_delete_def getRepoByID_def getEntityByID_def db_read_def db_stmt_def)
  then show ?thesis by (auto simp: DeleteRepository_def m_bind_def)
qed

theorem failed_create_keeps_entity:
  assumes "cx_IsAdmin ctx" "CreateRepoParams_Validate p = None" "add_repository ctx p (sv_db s) = (Inr e, d)"
    and "CreatePoolManager env e (s\<lparr>sv_db := d\<rparr>) = (Inl err, s')"
  shows "\<exists>fs. Runner_CreateRepository env ctx p s = (Inl err, s'\<lparr>sv_db := (sv_db s')\<lparr>db_faults := fs\<rparr>\<rparr>)"
  using assms DeleteRepository_Nil [of "sv_db s'"]
  by (auto simp: Runner_CreateRepository_def create_managed_def admin_only_def validated_def sv_on_db_def m_defs)

text \<open>Nobody but an administrator gets the token of an agent, not even its runner.\<close>

theorem agent_token_refused_to_runners:
  assumes "\<not> cx_IsAdmin ctx"
  shows "\<exists>e. GetAgentJWTToken env secret ctx name s = (Inl e, s)"
  using assms by (simp add: GetAgentJWTToken_def Runner_GetPoolByID_def admin_db_def admin_only_def m_defs split: option.splits)

end
