(* ===== verification/Spec2Isabelle.thy ===== *)
theory Spec2Isabelle
  imports Garm_Manager_Steps Garm_Cache_Spec Garm_ScaleSet_Spec Garm_Provider_Spec Garm_Controllers_Spec Garm_Bus Garm_Entities_Spec
    Garm_Auth_Spec Garm_Files_Spec Garm_Service_Spec
begin

text \<open>
  GARM keeps fleets of self-hosted CI runners for GitHub and Gitea. It is written in Go; this development models
  its core: the store, the pool manager of an entity (a repository, organization, enterprise or forge instance),
  the workers of scale sets, the caches, authentication and the service that ties them together. Every definition is a translation of code under src/, in the order the code has it; a Go
  struct is a record with a short field prefix, an error is a value of the type \<open>garm_error\<close>, a function that
  changes state is a program \<open>('s, 'a) prog\<close>, which takes a state and gives a result or an error and a new state.

  \<^bold>\<open>How the program is put together.\<close> Webhooks arrive at \<^verbatim>\<open>HandleWorkflowJob\<close> and are recorded as rows of the job
  table. The store notifies its watchers; a pool manager takes the notifications of its entity into a job cache
  (\<^verbatim>\<open>watcher.go\<close>). Its loops (\<^verbatim>\<open>Start\<close>, \<^verbatim>\<open>startLoopForFunction\<close>) work on the store under a lock per runner: they turn
  queued jobs into runners, keep idle runners, hand new runners to a compute provider, remove finished ones, retry
  failed ones, and clean up what the forge and the provider no longer agree on. A scale set is served by a worker
  instead: its listener polls the message queue of the forge, records the jobs and how many runners are wanted; its
  other loops create and remove runners until that number is there and consolidate store, forge and provider. The
  instances of scale sets are handed to the compute provider, and removed there, by the provider worker, one manager
  each. Scale set controllers, one per entity, keep the workers of scale sets; entity workers own them and the forge client of
  the entity; the entity controller keeps the entity workers. The cache worker keeps copies of the store in memory from the same notifications. The
  service (package \<^verbatim>\<open>runner\<close>) keeps the pool managers of all entities, tries those again that did not start, hands webhooks to them, and serves
  administrators and runners, whom the middleware of package \<^verbatim>\<open>auth\<close> has let in.

  \<^bold>\<open>Theories.\<close>
  \<^item> \<open>Garm_Prelude\<close>, \<open>Garm_Monad\<close>: strings, numbers and rows; programs, and the locale \<open>step_order\<close>, in which it
    is proved once that every program combinator steps along a relation its parts step along.
  \<^item> \<open>Garm_Uuid\<close>: textual UUIDs and their parsing, with the round trip.
  \<^item> \<open>Garm_Status\<close>: \<^verbatim>\<open>internal/errors\<close>, the transition tables and predicates of \<^verbatim>\<open>params/params.go\<close>.
  \<^item> \<open>Garm_Params\<close>: the data of package \<^verbatim>\<open>params\<close>.
  \<^item> \<open>Garm_Locking\<close>: package \<^verbatim>\<open>locking\<close>. Locales \<open>locker\<close> and \<open>delete_backoff\<close> are its interfaces, interpreted on
    \<^verbatim>\<open>keyMutex\<close> and \<^verbatim>\<open>instanceDeleteBackoff\<close>; a lock table refines a set of held keys.
  \<^item> \<open>Garm_Events\<close>: notifications and their filters (\<^verbatim>\<open>database/common\<close>, \<^verbatim>\<open>database/watcher/filters.go\<close>).
  \<^item> \<open>Garm_Db\<close>: the tables of \<^verbatim>\<open>database/sql/models.go\<close>, statements and transactions that may fail at any point
    (\<open>db_faults\<close> lists which), notifications, conversions of rows (\<^verbatim>\<open>util.go\<close>).
  \<^item> \<open>Garm_Instances\<close>, \<open>Garm_Jobs\<close>, \<open>Garm_Pools\<close>: the operations of \<^verbatim>\<open>instances.go\<close>, \<^verbatim>\<open>jobs.go\<close> and \<^verbatim>\<open>pools.go\<close>. The
    locale \<open>db_order\<close> lifts a relation from row operations to whole operations; its interpretations are the limits
    and keys of instances, the keys of jobs, and the tables a read leaves alone. \<open>owner_lock\<close> is the contract of the
    job lock, \<open>job_rows\<close> that of the operations which only lock, unlock or delete jobs.
  \<^item> \<open>Garm_Pool_Cache\<close>: the choice of a pool for a job (\<^verbatim>\<open>runner/pool/cache.go\<close>).
  \<^item> \<open>Garm_Watcher\<close>: the state of a pool manager and its handling of notifications (\<^verbatim>\<open>runner/pool/watcher.go\<close>).
  \<^item> \<open>Garm_Manager\<close>, \<open>Garm_Runners\<close>, \<open>Garm_Workflow\<close>: the rest of package \<^verbatim>\<open>pool\<close>: the system around a manager, its
    operations on runners, its handling of jobs, its loops, and the traces \<open>manager_trace\<close> of what can happen to it.
  \<^item> \<open>Garm_Manager_Steps\<close>: the locale \<open>manager_order\<close> lifts a relation from the primitive calls of a manager to any
    trace of acts. \<open>db_manager\<close>, \<open>runner_manager\<close> specialise it to relations on the store and on its runners; they are
    interpreted on the limits of the pools, the creation counters, the ranks of the jobs and the lock table.
  \<^item> \<open>Garm_Cache\<close>, \<open>Garm_Cache_Worker\<close>: package \<^verbatim>\<open>cache\<close> and the worker that loads it and applies the notifications
    (\<^verbatim>\<open>workers/cache\<close>). \<open>Garm_Cache_Spec\<close>: the contract \<open>keyed_map\<close> of a keyed cache, the specification \<open>liveStore\<close> and the
    proof that the cached pools of an entity refine it.
  \<^item> \<open>Garm_ScaleSets\<close>: scale sets, their instances and their jobs in the store (\<^verbatim>\<open>database/sql/scalesets.go\<close>,
    \<^verbatim>\<open>scaleset_instances.go\<close>, \<^verbatim>\<open>scaleset_jobs.go\<close>). \<open>Garm_ScaleSet_Worker\<close>: the worker and the listener of a scale set
    (\<^verbatim>\<open>workers/scaleset\<close>). \<open>Garm_ScaleSet_Spec\<close>: what they guarantee; the locale \<open>graded_steps\<close> adds up what the steps of a
    program may cost, here the runners one round of scaling adds.
  \<^item> \<open>Garm_Provider\<close>: the provider worker, which keeps a manager for every instance of a scale set (\<^verbatim>\<open>workers/provider\<close>), and the
    back-off of the workers (\<^verbatim>\<open>workers/common/backoff.go\<close>). \<open>Garm_Provider_Spec\<close>: what they guarantee; the back-off is a second
    interpretation of the locale \<open>delete_backoff\<close>.
  \<^item> \<open>Garm_Controllers\<close>: the scale set controller, the entity worker and the entity controller (\<^verbatim>\<open>workers/scaleset/controller.go\<close>,
    \<^verbatim>\<open>workers/entity\<close>), composed with the workers of scale sets. \<open>Garm_Controllers_Spec\<close>: what they guarantee. The locale
    \<open>event_refinement\<close> of the prelude lifts what one notification means to sequences of them; it is interpreted on the provider
    worker, both controllers and the entity worker.
  \<^item> \<open>Garm_Bus\<close>: the watcher with its producers and consumers (\<^verbatim>\<open>database/watcher\<close>) and the queue in front of the workers
    (\<^verbatim>\<open>workers/common/unbounded_chan.go\<close>). Their goroutines are the steps of \<open>bus_trace\<close>; the locale \<open>fifo\<close> is the contract of a queue,
    interpreted on both. Ordered delivery and progress are proved for every interleaving.
  \<^item> \<open>Garm_Context\<close>: what a request carries (\<^verbatim>\<open>auth/context.go\<close>). \<open>Garm_Entities\<close>: endpoints, credentials, repositories, organizations,
    enterprises and forge instances in the store (\<^verbatim>\<open>database/sql/github.go\<close>, \<^verbatim>\<open>gitea.go\<close>, \<^verbatim>\<open>repositories.go\<close>, \<^verbatim>\<open>organizations.go\<close>, \<^verbatim>\<open>enterprise.go\<close>,
    \<^verbatim>\<open>forge_instances.go\<close>). \<open>Garm_Entities_Spec\<close>: the references between them hold after any sequence of calls; two more interpretations of \<open>db_order\<close>.
  \<^item> \<open>Garm_Users\<close>, \<open>Garm_Auth\<close>: users and the controller in the store (\<^verbatim>\<open>database/sql/users.go\<close>, \<^verbatim>\<open>controller.go\<close>), tokens and middleware (package
    \<^verbatim>\<open>auth\<close>). \<open>Garm_Auth_Spec\<close>: what they guarantee.
  \<^item> \<open>Garm_Templates\<close>: templates and proxies (\<^verbatim>\<open>database/sql/templates.go\<close>, \<^verbatim>\<open>proxies.go\<close>). \<open>Garm_Files\<close>: file objects and the agent binaries among them
    (\<^verbatim>\<open>database/sql/file_store.go\<close>, \<^verbatim>\<open>runner/object_store.go\<close>, \<^verbatim>\<open>runner/garm_tools.go\<close>). \<open>Garm_Files_Spec\<close>: what they guarantee.
  \<^item> \<open>Garm_Service\<close>: the service with its pool managers and webhooks (\<^verbatim>\<open>runner/runner.go\<close>). \<open>Garm_Requests\<close>: the requests of administrators and the calls of
    runners (the rest of package \<^verbatim>\<open>runner\<close>), with the validations of \<^verbatim>\<open>params/requests.go\<close>. \<open>Garm_Service_Spec\<close>: the traces of the service; the locale
    \<open>service_order\<close> extends \<open>db_manager\<close> from one manager to all of them and is interpreted on the limits of the pools, the ranks of the jobs and
    the keys of the entities.
  \<^bold>\<open>What is shown.\<close> Of the store: creation respects limits, guarded updates follow the transition tables, terminal
  runners stay terminal, a job has one owner, listings and pages are complete, pool operations keep the tables well
  formed. Of a manager, for every sequence of loop turns, webhooks, notifications and restarts and for every behaviour
  of the forge, the providers and a failing store: pools stay within their limits, jobs only advance, creation attempts
  are bounded, keys stay unique, locks are given back until the manager is stopped. Of single functions: the job cache
  does not depend on the order of notifications, the round robin offers every pool, idle runners are topped up exactly,
  scaling down ends at the reserve, paging through the forge ends. Of the cache: its pools follow the store. Of a scale set
  worker: it stays within its maximum, keeps the runners the forge wants, acknowledges a message only after it was
  handled, gives its locks back; the recorded jobs do not depend on the order of the messages. Of the
  provider worker: it keeps exactly the live instances, does not create what no longer waits for its creation, does not give
  up an instance the provider has not removed, and finishes a removal the provider confirms. Of the
  controllers: they keep exactly the live scale sets and entities, try again in time what did not start, and follow the entity and
  its credentials. Of
  authentication: the kinds of token are kept apart, a new password ends the sessions, a log in gives the session of that user, a runner's token ends with
  its installation. Of file objects: what was uploaded is read back, a new agent replaces the old ones. Of the service, for every interleaving of all its
  managers with webhooks, calls of runners and retries: pools stay within their limits, and no entity is left without a manager or another
  attempt; a webhook without the signature of a managed entity changes nothing, and what a runner reports changes its own row only.
  The theorems about clean-ups that miss, refused agent tokens, wrapped page numbers, pruned
  messages, repeated labels, the wrapped round robin counter, the forge instance type, the lock kept by a cancelled
  deletion, endpoint updates and equal credential IDs state behaviour that differs from what the code means to do.

  \<^bold>\<open>What stands for code outside the repository.\<close> The records \<open>env\<close> of \<open>Garm_Manager\<close>, \<open>ss_env\<close>
  of \<open>Garm_ScaleSet_Worker\<close>, \<open>p_env\<close> of \<open>Garm_Provider\<close>, \<open>c_env\<close> and \<open>e_env\<close> of \<open>Garm_Controllers\<close>, \<open>auth_env\<close>
  of \<open>Garm_Users\<close>, \<open>files_env\<close> of \<open>Garm_Files\<close>, \<open>service_env\<close> of \<open>Garm_Service\<close>: the forge client, the provider
  plugins, token signing, password hashing, checksums, parsing of URLs and templates, certificate and JSON parsing, random names. Its functions act on an abstract world and may
  answer anything; \<open>pagination_complete\<close> assumes of them that the forge serves its pages one after the
  other, and the theorems about tokens that a parsed token is one that was signed with the secret (\<open>signs_faithfully\<close>) and that a signed one is parsed back (\<open>accepts_signed\<close>). UUIDs come from a stream \<open>db_uuids\<close> of the store, time from \<open>db_clock\<close>.

  \<^bold>\<open>Bounds and fuel.\<close> Paging through the runners of the forge takes at most \<open>env_max_pages\<close> pages, an arbitrary
  number of the environment; with at least as many as the forge serves, the result is complete. The loops over the pages of agent binaries get one page more
  than there are objects, which is more than the store has pages. Every other loop is
  structural or has a termination proof. \<^verbatim>\<open>int\<close> and \<^verbatim>\<open>uint\<close> have 64 bits: they are words, or integers whose wrap-around is
  written out where it can happen.

  \<^bold>\<open>Granularity.\<close> A goroutine runs to its end when it is started, a transaction and a call of the lock table are one
  step each. The relations of \<open>Garm_Manager_Steps\<close> hold of every single statement, so that they do not depend on how the
  goroutines of a manager interleave between statements.

  \<^bold>\<open>Not modelled.\<close> The HTTP API, the command line client and its generated API client, configuration, metrics,
  logging and websockets: I/O around the parts above. Of package \<^verbatim>\<open>runner\<close>: the metadata handed to a new runner (\<^verbatim>\<open>metadata.go\<close>), the update of a
  scale set, whose store operation calls back into the forge, the installation of webhooks, and reads that only combine cached values. Large objects of
  PostgreSQL, rendering of templates, the download of tools. Random delays and sleeps. Vendored code.
\<close>

section \<open>Statuses\<close>

lemma UpdateInstance_ids:
  assumes "UpdateInstance n p d = (r, d')"
  shows "map ir_ID (db_instances d') = map ir_ID (db_instances d)"
  using assms unfolding UpdateInstance_def
  by (cases rule: updateInstance_effect) (auto intro!: map_upd_rows_mem)

lemma UpdateInstance_keys: "keys_ok d \<Longrightarrow> keys_ok (snd (UpdateInstance n p d))"
  using stepsD_snd [OF store_UpdateInstance, of d n p] by (simp add: store_step_def)

text \<open>
  A runner that reported a terminal status keeps one: no sequence of guarded updates, whatever they
  ask for and whichever of them fail, brings a terminated or failed runner back.
\<close>

theorem terminal_runners_stay_terminal:
  assumes "keys_ok d" and "i \<in> set (db_instances d)" and "RunnerIsTerminal (ir_RunnerStatus i)"
    and "i' \<in> set (db_instances (fold (\<lambda>(n, p) d. snd (UpdateInstance n p d)) ups d))" and "ir_ID i' = ir_ID i"
  shows "RunnerIsTerminal (ir_RunnerStatus i')"
  using assms
proof (induction ups arbitrary: d i)
  case Nil
  then show ?case using keys_ok_unique by fastforce
next
  case (Cons up ups)
  obtain n p where up: "up = (n, p)" by (cases up) auto
  let ?d = "snd (UpdateInstance n p d)"
  have run: "UpdateInstance n p d = (fst (UpdateInstance n p d), ?d)" by simp
  obtain j where j: "j \<in> set (db_instances ?d)" "ir_ID j = ir_ID i"
    using UpdateInstance_ids [OF run] Cons.prems(2) by (metis (no_types, lifting) imageE image_eqI list.set_map)
  have "ir_RunnerStatus j = ir_RunnerStatus i \<or> runner_step (ir_RunnerStatus i) (ir_RunnerStatus j)"
    using guarded_update_statuses [OF Cons.prems(1) run Cons.prems(2) j] by blast
  then have "RunnerIsTerminal (ir_RunnerStatus j)"
    using Cons.prems(3) runner_terminal_step by auto
  from Cons.IH [OF UpdateInstance_keys [OF Cons.prems(1)] j(1) this] Cons.prems(4,5) j(2) up
  show ?case by simp
qed

lemma single_row:
  "map ir_ID rows = [u] \<Longrightarrow> hd rows \<in> set rows" "map ir_ID rows = [u] \<Longrightarrow> ir_ID (hd rows) = u"
  by auto

theorem terminal_runners_stay_terminal_witness:
  "RunnerIsTerminal (ir_RunnerStatus (hd (db_instances (fold (\<lambda>(n, p) d. snd (UpdateInstance n p d))
      [(''garm-one'', ex_mark_delete), (''garm-one'', empty_update\<lparr>uip_RunnerStatus := RunnerIdle\<rparr>)]
      (ex_db\<lparr>db_instances := [ex_instance\<lparr>ir_RunnerStatus := RunnerTerminated\<rparr>]\<rparr>)))))"
proof -
  let ?d = "ex_db\<lparr>db_instances := [ex_instance\<lparr>ir_RunnerStatus := RunnerTerminated\<rparr>]\<rparr>"
  let ?ups = "[(''garm-one'', ex_mark_delete), (''garm-one'', empty_update\<lparr>uip_RunnerStatus := RunnerIdle\<rparr>)]"
  let ?rows = "db_instances (fold (\<lambda>(n, p) d. snd (UpdateInstance n p d)) ?ups ?d)"
  have ids: "map ir_ID (db_instances (snd (UpdateInstance n p d))) = map ir_ID (db_instances d)" for n p d
    by (cases "UpdateInstance n p d") (simp add: UpdateInstance_ids)
  have "map ir_ID ?rows = map ir_ID (db_instances ?d)" by (simp only: fold.simps comp_def id_apply prod.case ids)
  moreover have "map ir_ID (db_instances ?d) = [2]" by (simp add: ex_instance_def)
  ultimately have "map ir_ID ?rows = [2]" by (rule trans)
  note hd = single_row [OF this]
  have "keys_ok ?d" "ex_instance\<lparr>ir_RunnerStatus := RunnerTerminated\<rparr> \<in> set (db_instances ?d)"
    "RunnerIsTerminal (ir_RunnerStatus (ex_instance\<lparr>ir_RunnerStatus := RunnerTerminated\<rparr>))"
    "2 = ir_ID (ex_instance\<lparr>ir_RunnerStatus := RunnerTerminated\<rparr>)"
    by (simp_all add: keys_ok_def RunnerIsTerminal_def ex_instance_def)
  from terminal_runners_stay_terminal [OF this(1-3) hd(1)] hd(2) this(4) show ?thesis by metis
qed

text \<open>
  No instance gets stuck: from every status of the transition table a sequence of guarded updates leads
  to \<open>InstanceDeleted\<close>, and from there nothing leads on.
\<close>

theorem every_status_can_be_deleted:
  assumes "InstanceStatusTransitions st \<noteq> None"
  shows "inst_step\<^sup>*\<^sup>* st InstanceDeleted \<and> \<not> inst_step InstanceDeleted st"
  using inst_step_to_deleted [OF assms] deleted_is_final by blast

theorem every_status_can_be_deleted_witness:
  "inst_step\<^sup>*\<^sup>* InstanceRunning InstanceDeleted \<and> \<not> inst_step InstanceDeleted InstanceRunning"
  by (rule every_status_can_be_deleted) simp

section \<open>Locks and back-off\<close>

text \<open>
  Between two successful \<^verbatim>\<open>TryLock\<close> calls on one key there is an \<^verbatim>\<open>Unlock\<close> of that key, whatever other calls
  are interleaved: two loops never work on the same runner.
\<close>

theorem keyMutex_exclusive:
  assumes "keyMutex_invar m" and "fst (keyMutex_TryLock key identifier m)"
    and "fst (keyMutex_TryLock key other (lock_run keyMutex_TryLock keyMutex_Unlock cmds (snd (keyMutex_TryLock key identifier m))))"
  shows "\<exists>remove. ReleaseCmd key remove \<in> set cmds"
  using km.second_acquire_needs_release [OF assms(1,3)] .

theorem keyMutex_exclusive_witness:
  "\<exists>remove. ReleaseCmd ''a'' remove \<in> set [AcquireCmd ''b'' ''x'', ReleaseCmd ''a'' True]"
  by (rule keyMutex_exclusive [of Map.empty _ "''x''" "''y''"])
    (simp_all add: keyMutex_TryLock_def keyMutex_Unlock_def keyMutex_Delete_def new_lock_def)

text \<open>
  After a failed deletion at time \<open>t\<close> the runner is left alone for at least five seconds, and it is
  tried again at the latest after twenty minutes, however often it failed before.
\<close>

theorem backoff_window:
  assumes "backoff_invar b" and "0 < t"
  shows "(now \<le> t + 5 * second \<longrightarrow> \<not> fst (fst (backoff_ShouldProcess key now (backoff_RecordFailure key t b)))) \<and>
    (t + 1200 * second < now \<longrightarrow> fst (fst (backoff_ShouldProcess key now (backoff_RecordFailure key t b))))"
  using db.refused_after_failure [OF assms] db.allowed_after_max_wait [OF assms] by blast

theorem backoff_window_witness:
  "\<not> fst (fst (backoff_ShouldProcess ''a'' (3 * second) (backoff_RecordFailure ''a'' 1 Map.empty))) \<and>
   fst (fst (backoff_ShouldProcess ''a'' (1300 * second) (backoff_RecordFailure ''a'' 1 Map.empty)))"
  using backoff_window [of Map.empty 1 "3 * second" "''a''"] backoff_window [of Map.empty 1 "1300 * second" "''a''"]
  by (simp add: second_def)

section \<open>Labels and identifiers\<close>

text \<open>
  The label a runner gets for the job it was created for leads back to the job, wherever it stands among
  labels that do not start like it, for every 64 bit job ID.
\<close>

theorem job_label_roundtrip:
  assumes "- (2 ^ 63) \<le> jobID" and "jobID \<le> max_int" and "\<forall>l \<in> set before. \<not> has_prefix l jobLabelPrefix"
  shows "jobIDFromLabels (before @ jobLabel jobID # after) = jobID"
  using assms(3)
proof (induction before)
  case Nil
  show ?case using parse_int64_int_dec [OF assms(1,2)] by (simp add: jobLabel_def has_prefix_def)
qed simp

theorem job_label_roundtrip_witness: "jobIDFromLabels [''linux'', jobLabel 42] = 42"
  using job_label_roundtrip [of 42 "[''linux'']" "[]"] by (simp add: max_int_def has_prefix_def jobLabelPrefix_def)

text \<open>
  Every runner a manager registers is recognised as its own: the labels it is given say which controller it
  belongs to, unless a tag of the pool itself starts like the controller label.
\<close>

theorem own_runners_are_managed:
  assumes "\<forall>t \<in> set (p_Tags pool). \<not> has_prefix (t_Name t) controllerLabelPrefix"
  shows "isManagedRunner (getLabelsForInstance r pool) (uuid_string (ci_ControllerID (pm_controllerInfo r)))"
proof -
  have "\<forall>l \<in> set ls. \<not> has_prefix l controllerLabelPrefix \<Longrightarrow>
      controllerIDFromLabels (ls @ controllerLabel r # rest) = uuid_string (ci_ControllerID (pm_controllerInfo r))" for ls rest
    by (induction ls) (simp_all add: controllerLabel_def has_prefix_def)
  with assms show ?thesis by (simp add: isManagedRunner_def getLabelsForInstance_def)
qed

theorem own_runners_are_managed_witness:
  "isManagedRunner (getLabelsForInstance ex_manager (zero_Pool\<lparr>p_Tags := [ex_tag]\<rparr>)) (uuid_string 77)"
  using own_runners_are_managed [of "zero_Pool\<lparr>p_Tags := [ex_tag]\<rparr>" ex_manager]
  by (simp add: ex_manager_def ex_controller_def ex_tag_def has_prefix_def controllerLabelPrefix_def)

text \<open>
  The textual form of an identifier parses back to it, so that every key the manager passes to the store as a
  string names the row it came from.
\<close>

theorem entity_id_roundtrip:
  "GetIDAsUUID (bare_entity (ty, uuid_string u)) = Inr u"
  by (simp add: GetIDAsUUID_def bare_entity_def)

section \<open>Rate limits\<close>

text \<open>
  The tiers are ordered: a loop that executes decided work pauses only when every normal loop pauses too, and
  loops that make no forge calls never pause. The reserve percentage is not negative.
\<close>

theorem rate_limit_tiers_ordered:
  assumes "\<forall>creds. cv_credentials c = Some creds \<longrightarrow> 0 \<le> reserveThreshold creds"
  shows "(fst (tier_rateLimitReached tierCritical c now) \<longrightarrow> fst (tier_rateLimitReached tierNormal c now)) \<and>
    \<not> fst (tier_rateLimitReached tierInternal c now)"
  using assms critical_limited_normal_limited
  by (auto simp: tier_rateLimitReached_def EntityRateLimitExhausted_def EntityRateLimitReached_def split: option.splits)

definition ex_cache :: cacheView where
  "ex_cache = \<lparr>cv_tools = Inr [], cv_pools = [], cv_scalesets = [], cv_instances = 1, cv_credentials = Some (ex_credentials\<lparr>c_RateLimit :=
       Some \<lparr>rl_Limit = 5000, rl_Used = 5000, rl_Remaining = 0, rl_Reset = 60\<rparr>\<rparr>),
     cv_proxies = Map.empty\<rparr>"

theorem rate_limit_tiers_ordered_witness:
  "fst (tier_rateLimitReached tierNormal ex_cache 0) \<and> \<not> fst (tier_rateLimitReached tierInternal ex_cache 0)"
proof -
  have "fst (tier_rateLimitReached tierCritical ex_cache 0)"
    by (simp add: tier_rateLimitReached_def EntityRateLimitExhausted_def ex_cache_def CriticalRateLimitReached_def
        rateLimitReached_def ex_credentials_def ResetAt_def unix_epoch_def second_def)
  with rate_limit_tiers_ordered [of ex_cache 0] show ?thesis
    by (simp add: ex_cache_def reserveThreshold_def ex_credentials_def)
qed

section \<open>The pool manager\<close>

text \<open>An environment in which the forge and the provider answer, on a world that counts the calls.\<close>

definition ex_provider :: "nat provider" where
  "ex_provider = \<lparr>prov_DisableJITConfig = True,
     prov_CreateInstance = (\<lambda>b base w. (Inr \<lparr>pri_ProviderID = bi_Name b, pri_Name = bi_Name b, pri_OSName = [], pri_OSVersion = [],
        pri_Addresses = [], pri_Status = InstanceRunning, pri_ProviderFault = []\<rparr>, w + 1)),
     prov_DeleteInstance = (\<lambda>n base w. (Inr (), w + 1)),
     prov_ListInstances = (\<lambda>n base w. (Inr [], w + 1)),
     prov_Start = (\<lambda>n base w. (Inr (), w + 1))\<rparr>"

definition ex_env :: "nat env" where
  "ex_env = \<lparr>env_Client = (\<lambda>e w. (Inr (), w + 1)), env_ListEntityRunners = (\<lambda>page w. (Inr ([], 0), w + 1)),
     env_ListAllRunners = (\<lambda>w. (Inr [], w + 1)), env_RemoveEntityRunner = (\<lambda>n w. (Inr (), w + 1)),
     env_GetEntityJITConfig = (\<lambda>n pool labels w. (Inr ([], 1), w + 1)),
     env_GetWorkflowJobByID = (\<lambda>owner repo n w. (Inr ''queued'', w + 1)),
     env_providers = (\<lambda>name. Some ex_provider), env_NewID = (\<lambda>w. (int_dec (int w), w + 1)),
     env_NewInstanceJWTToken = (\<lambda>i e t w. (Inr ''token'', w + 1)), env_HasInstallTemplate = (\<lambda>specs. Inr True),
     env_CombineBundles = (\<lambda>a b. Inr (a @ b)), env_AddWrapper = (\<lambda>b. b), env_error_text = (\<lambda>e. ''error''),
     env_max_pages = 3\<rparr>"

definition ex_sys :: "nat sys" where
  "ex_sys = \<lparr>sy_db = ex_db, sy_mgr = ex_manager, sy_locks = Map.empty, sy_backoff = Map.empty, sy_cache = ex_cache,
     sy_lifecycle = [], sy_quit = False, sy_world = 0\<rparr>"

lemma ex_sys_fields [simp]: "sy_db ex_sys = ex_db" "sy_locks ex_sys = Map.empty" "sy_mgr ex_sys = ex_manager"
  by (simp_all add: ex_sys_def)

definition ex_acts :: "manager_act list" where
  "ex_acts = [Restart, Turn ensure_min_idle, Turn add_pending, Turn job_queue_consumer, Pass (60 * second),
     Turn retry_failed, Turn scale_down, Turn delete_pending_loop, Turn timeout_reaper, Turn stale_job_reconciler]"

text \<open>
  (C4) Whatever a pool manager goes through (turns of its loops, webhooks, notifications, deletions, restarts, failing
  calls of the forge, the provider or the store), no pool ends up with more runners than its limit, unless it had more
  before; then it has not gained any.
\<close>

theorem manager_respects_limits:
  assumes "keys_ok (sy_db s)"
  shows "count_pool u (sy_db (manager_trace env acts s)) \<le> max (count_pool u (sy_db s)) (pool_limit u (sy_db s))"
  using lim.dm.mo.trace [of s env acts] assms by (simp add: store_step_def capacity_step_def)

theorem manager_respects_limits_witness:
  "count_pool 1 (sy_db (manager_trace ex_env ex_acts ex_sys)) \<le> max (count_pool 1 ex_db) (pool_limit 1 ex_db)"
  using manager_respects_limits [of ex_sys 1 ex_env ex_acts] by simp

text \<open>
  (C16) What the manager does keeps the store well formed: instances stay unique by ID and by name, jobs by row and by
  workflow job ID, and the lock table consistent.
\<close>

theorem manager_keeps_store_wf:
  assumes "keys_ok (sy_db s)" and "jobs_ok (sy_db s)" and "keyMutex_invar (sy_locks s)"
  shows "keys_ok (sy_db (manager_trace env acts s)) \<and> jobs_ok (sy_db (manager_trace env acts s)) \<and>
    keyMutex_invar (sy_locks (manager_trace env acts s))"
  using lim.dm.mo.trace [of s env acts] rank.mo.trace [of s env acts] lks.trace [of s env acts] assms
  by (simp add: store_step_def rank_step_def locks_step_def)

theorem manager_keeps_store_wf_witness:
  "keys_ok (sy_db (manager_trace ex_env ex_acts ex_sys)) \<and> jobs_ok (sy_db (manager_trace ex_env ex_acts ex_sys)) \<and>
   keyMutex_invar (sy_locks (manager_trace ex_env ex_acts ex_sys))"
  by (rule manager_keeps_store_wf) simp_all






text \<open>
  A deletion whose delay is cut short because the manager is stopped keeps the lock of its runner.
\<close>

theorem stopped_deletion_keeps_lock:
  assumes "keyMutex_invar (sy_locks s)" and "\<not> keyMutex_held (sy_locks s) (i_Name i)" and "sy_quit s"
    and "fst (fst (backoff_ShouldProcess (i_Name i) (db_clock (sy_db s)) (sy_backoff s)))"
  shows "keyMutex_held (sy_locks (snd (delete_pending_locked env i s))) (i_Name i)"
  using assms keyMutex_laws(1,2) [OF assms(1), of "i_Name i" "pm_consumerID (sy_mgr s)"]
  by (cases "keyMutex_TryLock (i_Name i) (pm_consumerID (sy_mgr s)) (sy_locks s)";
      cases "backoff_ShouldProcess (i_Name i) (db_clock (sy_db s)) (sy_backoff s)")
    (auto simp: delete_pending_locked_def try_lock_def should_process_def m_bind_def)

theorem stopped_deletion_keeps_lock_witness:
  "keyMutex_held (sy_locks (snd (delete_pending_locked ex_env (zero_Instance\<lparr>i_Name := ''garm-one''\<rparr>) (ex_sys\<lparr>sy_quit := True\<rparr>))))
     (i_Name (zero_Instance\<lparr>i_Name := ''garm-one''\<rparr>))"
  by (rule stopped_deletion_keeps_lock)
    (simp_all add: keyMutex_held_def backoff_ShouldProcess_def ex_sys_def)

text \<open>
  (C12) A failed instance is created again at most until its counter of attempts reaches the maximum: no act of the
  manager raises a counter beyond it.
\<close>

theorem create_attempts_bounded:
  assumes "\<forall>i \<in> set (db_instances (sy_db s)). ir_CreateAttempt i \<le> maxCreateAttempts"
    and "i \<in> set (db_instances (sy_db (manager_trace env acts s)))"
  shows "ir_CreateAttempt i \<le> maxCreateAttempts"
  using tries.dm.mo.trace [of s env acts] assms by (simp add: attempts_step_def attempts_ok_def)

theorem create_attempts_bounded_witness:
  "set (map ir_CreateAttempt (db_instances (sy_db (manager_trace ex_env ex_acts ex_sys)))) \<subseteq> {..maxCreateAttempts}"
  using create_attempts_bounded [of ex_sys _ ex_env ex_acts] by (auto simp: ex_instance_def maxCreateAttempts_def)







section \<open>Webhooks\<close>

text \<open>
  A webhook for another repository is rejected as a bad request and changes nothing: names and owners are compared
  without regard to case.
\<close>

theorem foreign_webhook_rejected:
  assumes "e_EntityType (pm_entity (sy_mgr s)) = ForgeEntityTypeRepository"
    and "\<not> equal_fold (h_RepoName job) (e_Name (pm_entity (sy_mgr s))) \<or> \<not> equal_fold (h_RepoOwnerLogin job) (e_Owner (pm_entity (sy_mgr s)))"
  shows "HandleWorkflowJob env job s = (Inl BadRequestError, s)"
  using assms by (auto simp: HandleWorkflowJob_def ValidateOwner_def get_mgr_def m_bind_def m_seq_def)

definition ex_hook :: WorkflowJobHook where
  "ex_hook = \<lparr>h_Action = ''queued'', h_ID = 50, h_RunID = 5, h_Status = ''queued'', h_Conclusion = [], h_StartedAt = 0,
     h_CompletedAt = 0, h_Name = ''test'', h_Labels = [''linux''], h_RunnerID = 0, h_RunnerName = [], h_RunnerGroupID = 0,
     h_RunnerGroupName = [], h_RepoName = ''app'', h_RepoOwnerLogin = ''acme'', h_RepoHTMLURL = ''https://github.com/acme/app'',
     h_OrgLogin = ''acme'', h_OrgName = [], h_EnterpriseSlug = []\<rparr>"

theorem foreign_webhook_rejected_witness:
  "HandleWorkflowJob ex_env (ex_hook\<lparr>h_RepoName := ''other''\<rparr>) ex_sys = (Inl BadRequestError, ex_sys)"
  by (rule foreign_webhook_rejected)
    (simp_all add: ex_manager_def ex_forge_entity_def ex_hook_def equal_fold_def to_lower_def)

section \<open>Scaling\<close>





section \<open>The lock table as a set of keys\<close>

text \<open>
  (C17) The lock table refines a set of held keys: for every sequence of calls, by any number of goroutines, each
  \<^verbatim>\<open>TryLock\<close> answers what the set would answer, and the keys held at the end are those of the set.
\<close>

theorem keyMutex_refines_key_set:
  assumes "keyMutex_invar m"
  shows "lock_answers keyMutex_TryLock keyMutex_Unlock cmds m = fst (key_set_run cmds {k. keyMutex_held m k}) \<and>
    {k. keyMutex_held (lock_run keyMutex_TryLock keyMutex_Unlock cmds m) k} = snd (key_set_run cmds {k. keyMutex_held m k})"
  using km.refines_key_set [OF assms] by blast

theorem keyMutex_refines_key_set_witness:
  "lock_answers keyMutex_TryLock keyMutex_Unlock [AcquireCmd ''a'' ''x'', AcquireCmd ''a'' ''y'', ReleaseCmd ''a'' True,
     AcquireCmd ''a'' ''y''] Map.empty = [True, False, True]"
  using keyMutex_refines_key_set [of Map.empty "[AcquireCmd ''a'' ''x'', AcquireCmd ''a'' ''y'', ReleaseCmd ''a'' True,
     AcquireCmd ''a'' ''y'']"] by (simp add: keyMutex_held_def)

lemma CreateInstance_count:
  assumes "CreateInstance poolID c d = (Inr i, d')" "uuid_parse poolID = Some u"
  shows "count_pool u d' = Suc (count_pool u d)"
proof -
  let ?rest = "m_bind (GetInstance (cip_Name c)) (\<lambda>inst.
     m_seq (sendNotify InstanceEntityType CreateOperation (InstancePayload inst)) (m_ret inst))"
  obtain x d1 where tx: "db_tx (create_instance_tx poolID c) d = (Inr x, d1)" and rest: "?rest d1 = (Inr i, d')"
    using assms(1) unfolding CreateInstance_def by (rule m_seq_okE)
  have "steps same_tables ?rest" by (intro tbl.db_rules tbl.instance_reads)
  from stepsD [OF this rest] have tail: "db_instances d' = db_instances d1" by (simp add: same_tables_def)
  from tx show ?thesis
  proof (cases rule: db_tx_cases)
    case (committed y bs)
    then obtain pool where pool: "getPoolByID poolID (d\<lparr>db_faults := bs\<rparr>) = Inr pool"
      by (cases "getPoolByID poolID (d\<lparr>db_faults := bs\<rparr>)") (simp_all add: create_instance_tx_def m_query_def m_bind_def)
    with getPoolByID_ok(1) [OF pool] assms(2) have "pr_ID pool = u" by simp
    with committed(2) pool tail show ?thesis
      by (auto simp: create_instance_tx_def m_query_def m_bind_def new_uuid_def insert_instance_def new_instance_def count_pool_def
          split: if_splits)
  qed simp
qed

lemma on_db_okE:
  assumes "on_db m s = (Inr x, s')"
  obtains d where "m (sy_db s) = (Inr x, d)" "s' = s\<lparr>sy_db := d\<rparr>"
  using assms by (auto simp: on_db_run split: prod.splits)

text \<open>Reads of the store and calls of the outside keep the instances.\<close>

definition same_instances :: "'w sys \<Rightarrow> 'w sys \<Rightarrow> bool" where
  "same_instances s s' \<longleftrightarrow> db_instances (sy_db s') = db_instances (sy_db s)"

interpretation sin: step_order same_instances
  by unfold_locales (simp_all add: same_instances_def)

lemma sin_reads: "steps same_tables m \<Longrightarrow> steps same_instances (on_db m)"
  unfolding on_db_def by (erule steps_lift) (simp add: same_instances_def same_tables_def)

lemma sin_world: "steps same_instances (on_world m)"
  by (rule stepsI) (simp add: on_world_def m_lift_def same_instances_def split: prod.splits)

lemma sin_calls: "steps same_instances (ghcli m)" "steps same_instances (get_mgr f)" "steps same_instances (GetEntityPool' p)"
  "steps same_instances (get_provider env n)"
  unfolding ghcli_def get_mgr_def GetEntityPool'_def get_provider_def by (intro sin.st_rules sin_world sin_reads tbl_reads)+

text \<open>A program that ends well and creates one runner in the pool.\<close>

definition creates_one :: "uuid \<Rightarrow> ('w sys, 'a) prog \<Rightarrow> bool" where
  "creates_one u m \<longleftrightarrow> (\<forall>s x s'. m s = (Inr x, s') \<longrightarrow> count_pool u (sy_db s') = Suc (count_pool u (sy_db s)))"

lemma same_count: "steps same_instances m \<Longrightarrow> m s = (r, s') \<Longrightarrow> count_pool u (sy_db s') = count_pool u (sy_db s)"
  by (drule (1) stepsD) (simp add: same_instances_def count_pool_def)

lemma creates_bind_right: "steps same_instances m \<Longrightarrow> (\<And>x. creates_one u (f x)) \<Longrightarrow> creates_one u (m_bind m f)"
  by (auto simp: creates_one_def same_count elim!: m_bind_okE)

lemma creates_seq_left: "creates_one u m \<Longrightarrow> steps same_instances n \<Longrightarrow> creates_one u (m_seq m n)"
  by (auto simp: creates_one_def same_count elim!: m_seq_okE)

lemma creates_finally: "creates_one u m \<Longrightarrow> (\<And>r. steps same_instances (f r)) \<Longrightarrow> creates_one u (m_finally m f)"
  unfolding creates_one_def m_finally_def
  by (auto simp: same_count [OF _ surjective_pairing] split: prod.splits)

lemma creates_let: "(\<And>y. creates_one u (f y)) \<Longrightarrow> creates_one u (let y = x in f y)"
  by simp

lemma creates_prod: "(\<And>a b. creates_one u (f a b)) \<Longrightarrow> creates_one u (case p of (a, b) \<Rightarrow> f a b)"
  by (cases p) simp

lemma creates_instance: "uuid_parse poolID = Some u \<Longrightarrow> creates_one u (on_db (CreateInstance poolID c))"
  unfolding creates_one_def by (auto elim!: on_db_okE dest: CreateInstance_count)

lemma AddRunner_creates: "uuid_parse poolID = Some u \<Longrightarrow> creates_one u (AddRunner env poolID labels)"
  unfolding AddRunner_def
  by (intro creates_bind_right creates_let creates_prod creates_finally creates_seq_left creates_instance sin.st_rules
      sin_world sin_calls)

lemma creates_for:
  assumes "\<And>x. creates_one u (f x)" "m_for f xs s = (Inr (), s')"
  shows "count_pool u (sy_db s') = count_pool u (sy_db s) + length xs"
  using assms(2)
proof (induction xs arbitrary: s)
  case (Cons x xs)
  then obtain s1 where s1: "f x s = (Inr (), s1)" "m_for f xs s1 = (Inr (), s')"
    by (auto elim!: m_seq_okE)
  with assms(1) [of x] Cons.IH [OF s1(2)] show ?case by (simp add: creates_one_def)
qed simp

text \<open>How many runners are missing, without the wrap-around.\<close>

lemma required_runners_exact:
  assumes "uint (p_MaxRunners pool) \<le> max_int" "uint (p_MinIdleRunners pool) + int (length is) \<le> max_int"
    and "int (length is) < uint (p_MaxRunners pool)"
  shows "int (nat (required_runners pool is)) = max 0 (min (uint (p_MinIdleRunners pool) - int (length (idle_or_pending is)))
    (uint (p_MaxRunners pool) - int (length is)))"
proof -
  let ?idle = "int (length (idle_or_pending is))" and ?n = "int (length is)"
  let ?min = "uint (p_MinIdleRunners pool)" and ?max = "uint (p_MaxRunners pool)"
  have le: "?idle \<le> ?n" "0 \<le> ?min" by (simp_all add: idle_or_pending_def)
  have as: "MinIdleRunnersAsInt pool = ?min" "MaxRunnersAsInt pool = ?max"
    using assms le by (simp_all add: MinIdleRunnersAsInt_def MaxRunnersAsInt_def uint_as_int_def)
  show ?thesis
  proof (cases "?idle < ?min")
    case True
    have w: "wrap_int64 (?n + (?min - ?idle)) = ?n + (?min - ?idle)"
      "wrap_int64 (?n + (?min - ?idle) - ?max) = ?n + (?min - ?idle) - ?max"
      "wrap_int64 (?min - ?idle - (?n + (?min - ?idle) - ?max)) = ?max - ?n"
      using assms le True by (subst wrap_int64_id; simp add: max_int_def)+
    show ?thesis
      using True assms(3) le unfolding required_runners_def Let_def as w by (auto simp: w)
  qed (simp add: required_runners_def as)
qed

lemma convert_instances_length: "convert_instances ls = Inr is \<Longrightarrow> length is = length ls"
  by (induction ls arbitrary: "is") (auto split: sum.splits)

lemma ListPoolInstances_length:
  assumes "ListPoolInstances poolID False d = (Inr is, d')" "uuid_parse poolID = Some u"
  shows "length is = count_pool u d"
proof -
  have "listInstancesBatched (\<lambda>d i. ir_PoolID i = Some u) d = (Inr is, d')"
    using assms by (simp add: ListPoolInstances_def)
  then obtain bs where "list_batches (load_list (d\<lparr>db_faults := bs\<rparr>)) (filter (\<lambda>i. ir_PoolID i = Some u) (db_instances d)) 0 = Inr is"
    unfolding listInstancesBatched_def by (cases rule: db_tx_cases) (auto simp: m_query_def)
  then show ?thesis
    by (simp add: list_batches_eq count_pool_def convert_instances_length)
qed

text \<open>
  (C10) Keeping idle runners: when the function succeeds on an enabled pool, it has created exactly the idle runners that
  were missing, as many as the limit of the pool leaves room for, and none when none is missing.
\<close>

theorem ensure_idle_creates_missing:
  assumes "ensureIdleRunnersForOnePool env pool s = (Inr (), s')" and "p_Enabled pool"
    and "fst (ListPoolInstances (p_ID pool) False (sy_db s)) = Inr existing" and "uuid_parse (p_ID pool) = Some u"
    and "uint (p_MaxRunners pool) \<le> max_int" and "uint (p_MinIdleRunners pool) + int (length existing) \<le> max_int"
  shows "int (count_pool u (sy_db s')) = int (length existing) +
    max 0 (min (uint (p_MinIdleRunners pool) - int (length (idle_or_pending existing))) (uint (p_MaxRunners pool) - int (length existing)))"
proof -
  obtain d0 where lst: "ListPoolInstances (p_ID pool) False (sy_db s) = (Inr existing, d0)"
    using assms(3) by (metis surjective_pairing)
  let ?s1 = "s\<lparr>sy_db := d0\<rparr>"
  have n: "count_pool u (sy_db s) = length existing" using ListPoolInstances_length [OF lst assms(4)] by simp
  from stepsD [OF tbl.st_ListPoolInstances lst] have n1: "count_pool u (sy_db ?s1) = length existing" using n by (simp add: same_tables_def count_pool_def)
  show ?thesis
  proof (cases "p_MinIdleRunners pool = 0")
    case True
    with assms(1) n show ?thesis by (simp add: ensureIdleRunnersForOnePool_def)
  next
    case False
    show ?thesis
    proof (cases "int (length existing) \<ge> uint (p_MaxRunners pool)")
      case True
      with False assms(1,2) lst have "s' = ?s1"
        by (simp add: ensureIdleRunnersForOnePool_def m_bind_def on_db_run)
      with True n1 show ?thesis by simp
    next
      case below: False
      with False assms(1,2) lst have
        "m_for (\<lambda>_. AddRunner env (p_ID pool) []) [0..<nat (required_runners pool existing)] ?s1 = (Inr (), s')"
        by (simp add: ensureIdleRunnersForOnePool_def m_bind_def on_db_run)
      from creates_for [OF AddRunner_creates [OF assms(4)] this] n1 below required_runners_exact [OF assms(5,6)]
      show ?thesis by simp
    qed
  qed
qed


definition ex_idle_pool :: Pool where
  "ex_idle_pool = zero_Pool\<lparr>p_ID := uuid_string 1, p_Enabled := True, p_MaxRunners := 2, p_MinIdleRunners := 1\<rparr>"

definition ex_empty :: db where
  "ex_empty = ex_db\<lparr>db_instances := []\<rparr>"

lemma ex_empty_fields [simp]: "db_instances ex_empty = []" "db_faults ex_empty = []" "db_pools ex_empty = [ex_pool]"
  by (simp_all add: ex_empty_def)

lemma ex_entity_pool:
  obtains pool where "GetEntityPool ex_forge_entity (uuid_string 1) ex_empty = (Inr pool, ex_empty)" "p_Prefix pool = ''garm''"
proof -
  have "pool_instances ex_empty ex_pool = []" by (simp add: pool_instances_def)
  then obtain pool where pool: "sqlToCommonPool (load_pool ex_empty ex_pool) = Inr pool" "p_Prefix pool = pr_RunnerPrefix ex_pool"
    by (simp add: sqlToCommonPool_def Let_def load_pool_def)
  have "getEntityPool ForgeEntityTypeRepository (uuid_string 9) (uuid_string 1) ex_empty = Inr ex_pool"
    by (simp add: getEntityPool_def option_or_def opt_uuid_is_def entity_field_def ex_pool_def)
  with pool that show thesis
    by (simp add: GetEntityPool_def ex_forge_entity_def ex_pool_def)
qed

lemma ex_add_runner:
  obtains s' where "AddRunner ex_env (uuid_string 1) [] (ex_sys\<lparr>sy_db := ex_empty\<rparr>) = (Inr (), s')"
proof -
  obtain pool where pool: "GetEntityPool ex_forge_entity (uuid_string 1) ex_empty = (Inr pool, ex_empty)" "p_Prefix pool = ''garm''"
    by (rule ex_entity_pool)
  have name: "to_lower (GetRunnerPrefix (p_Prefix pool) @ ''-'' @ int_dec 0) = ''garm-0''"
    using pool(2) by (simp add: GetRunnerPrefix_def to_lower_def int_dec_def lower_char_def nat_dec.simps digit_char_def char_of_def bit_Suc_0_iff)
  have fresh: "uuid_parse ''garm-0'' = None" by (simp add: uuid_parse_def)
  have lookup: "getPoolByID (uuid_string 1) ex_empty = Inr ex_pool" by (simp add: getPoolByID_def option_or_def ex_pool_def)
  have "\<exists>inst d. CreateInstance (uuid_string 1) c ex_empty = (Inr inst, d)" if "cip_Name c = ''garm-0''" for c
    by (rule CreateInstance_run [of ex_empty "uuid_string 1" ex_pool c])
      (use that fresh lookup in \<open>simp_all add: ex_pool_def uint_as_int_def max_int_def count_pool_def\<close>)
  then have run: "False" if "CreateInstance (uuid_string 1) c ex_empty = (Inl e, d)" "cip_Name c = ''garm-0''" for c e d
    using that by fastforce
  have "fst (AddRunner ex_env (uuid_string 1) [] (ex_sys\<lparr>sy_db := ex_empty\<rparr>)) = Inr ()"
    unfolding AddRunner_def Let_def
    using pool(1) name
    by (auto simp: GetEntityPool'_def get_mgr_def on_db_run get_provider_def option_or_def on_world_def m_lift_def ex_env_def
        ex_provider_def ex_sys_def m_bind_def m_finally_def m_seq_def split: prod.splits sum.splits dest: run)
  then show thesis using that by (metis surjective_pairing)
qed

theorem ensure_idle_creates_missing_witness:
  "int (count_pool 1 (sy_db (snd (ensureIdleRunnersForOnePool ex_env ex_idle_pool (ex_sys\<lparr>sy_db := ex_empty\<rparr>))))) = 1"
proof -
  let ?s = "ex_sys\<lparr>sy_db := ex_empty\<rparr>"
  have lst: "ListPoolInstances (uuid_string 1) False ex_empty = (Inr [], ex_empty)"
    by (simp add: ListPoolInstances_def listInstancesBatched_def db_tx_nofault m_query_def list_batches_eq)
  have pool: "p_ID ex_idle_pool = uuid_string 1" "p_Enabled ex_idle_pool" "p_MaxRunners ex_idle_pool = 2"
    "p_MinIdleRunners ex_idle_pool = 1" by (simp_all add: ex_idle_pool_def)
  obtain s' where s': "AddRunner ex_env (uuid_string 1) [] ?s = (Inr (), s')" by (rule ex_add_runner)
  have run: "ensureIdleRunnersForOnePool ex_env ex_idle_pool ?s = (Inr (), s')"
    using lst s' by (simp add: ensureIdleRunnersForOnePool_def pool m_bind_def m_seq_def on_db_run required_runners_def
        idle_or_pending_def MinIdleRunnersAsInt_def MaxRunnersAsInt_def uint_as_int_def max_int_def wrap_int64_def)
  from ensure_idle_creates_missing [OF this, of "[]" 1] lst show ?thesis
    by (simp add: run pool max_int_def idle_or_pending_def)
qed

end
